(* ===== verification/Prelude.thy ===== *)
theory Prelude
  imports Main "HOL-Library.AList" "HOL-Library.Product_Lexorder"
begin

text \<open>
  What the components share: the collections of facts the component proofs rewrite with,
  and the operations on tables (lists of rows) that the SQL statements of the data layer
  are translated to, with their laws.
  \<^item> \<open>upd_where P f xs\<close> is \<open>UPDATE .. SET f WHERE P\<close>, \<open>count_where P xs\<close> is
    \<open>SELECT COUNT(*) .. WHERE P\<close>, \<open>find P xs\<close> is \<open>SELECT .. WHERE P LIMIT 1\<close> for a
    condition on a unique key;
  \<^item> \<open>unique_on k xs\<close> says that the key \<open>k\<close> is unique in the table.
\<close>

named_theorems store_simps "reads of the store after writes of the store"
named_theorems spec_defs "definitions of the handlers, unfolded in the proofs about them"

subsection \<open>Tables as lists of rows\<close>

definition upd_where :: "('r \<Rightarrow> bool) \<Rightarrow> ('r \<Rightarrow> 'r) \<Rightarrow> 'r list \<Rightarrow> 'r list" where
  "upd_where P f xs = map (\<lambda>x. if P x then f x else x) xs"

definition count_where :: "('r \<Rightarrow> bool) \<Rightarrow> 'r list \<Rightarrow> int" where
  "count_where P xs = int (length (filter P xs))"

definition unique_on :: "('r \<Rightarrow> 'k) \<Rightarrow> 'r list \<Rightarrow> bool" where
  "unique_on k xs \<longleftrightarrow> distinct (map k xs)"

lemma upd_where_Nil [simp]: "upd_where P f [] = []"
  by (simp add: upd_where_def)

lemma upd_where_Cons [simp]:
  "upd_where P f (x # xs) = (if P x then f x else x) # upd_where P f xs"
  by (simp add: upd_where_def)

lemma upd_where_append [simp]: "upd_where P f (xs @ ys) = upd_where P f xs @ upd_where P f ys"
  by (simp add: upd_where_def)

lemma length_upd_where [simp]: "length (upd_where P f xs) = length xs"
  by (simp add: upd_where_def)

lemma map_upd_where [simp]:
  "(\<And>x. P x \<Longrightarrow> k (f x) = k x) \<Longrightarrow> map k (upd_where P f xs) = map k xs"
  by (simp add: upd_where_def)

lemma set_upd_where: "set (upd_where P f xs) = (\<lambda>x. if P x then f x else x) ` set xs"
  by (simp add: upd_where_def)

lemma upd_where_none: "(\<And>x. x \<in> set xs \<Longrightarrow> \<not> P x) \<Longrightarrow> upd_where P f xs = xs"
  by (simp add: upd_where_def map_idI)

lemma upd_where_cong:
  "(\<And>x. x \<in> set xs \<Longrightarrow> P x = Q x) \<Longrightarrow> (\<And>x. x \<in> set xs \<Longrightarrow> Q x \<Longrightarrow> f x = g x) \<Longrightarrow>
   upd_where P f xs = upd_where Q g xs"
  by (simp add: upd_where_def)

lemma count_where_Nil [simp]: "count_where P [] = 0"
  by (simp add: count_where_def)

lemma count_where_Cons [simp]: "count_where P (x # xs) = (if P x then 1 else 0) + count_where P xs"
  by (simp add: count_where_def)

lemma count_where_False [simp]: "count_where (\<lambda>x. False) xs = 0"
  by (simp add: count_where_def)

lemma count_where_append [simp]: "count_where P (xs @ ys) = count_where P xs + count_where P ys"
  by (simp add: count_where_def)

lemma count_where_nonneg [simp]: "0 \<le> count_where P xs"
  by (simp add: count_where_def)

lemma count_where_pos: "x \<in> set xs \<Longrightarrow> P x \<Longrightarrow> 1 \<le> count_where P xs"
  by (induction xs) auto

lemma count_where_zero: "(\<And>x. x \<in> set xs \<Longrightarrow> \<not> P x) \<Longrightarrow> count_where P xs = 0"
  by (simp add: count_where_def)

lemma count_where_cong:
  "(\<And>x. x \<in> set xs \<Longrightarrow> P x = Q x) \<Longrightarrow> count_where P xs = count_where Q xs"
  by (simp add: count_where_def cong: filter_cong)

lemma count_where_upd_same:
  "(\<And>x. x \<in> set xs \<Longrightarrow> Q x \<Longrightarrow> P (f x) = P x) \<Longrightarrow>
   count_where P (upd_where Q f xs) = count_where P xs"
  by (induction xs) auto

text \<open>What an update of all the rows that satisfy \<open>Q\<close> does to a count.\<close>

lemma count_where_upd:
  "count_where P (upd_where Q f xs) =
     count_where P xs - count_where (\<lambda>x. Q x \<and> P x) xs + count_where (\<lambda>x. Q x \<and> P (f x)) xs"
  by (induction xs) auto

lemma count_where_split:
  "count_where P xs = count_where (\<lambda>x. P x \<and> Q x) xs + count_where (\<lambda>x. P x \<and> \<not> Q x) xs"
  by (induction xs) auto

lemma count_where_le: "(\<And>x. P x \<Longrightarrow> Q x) \<Longrightarrow> count_where P xs \<le> count_where Q xs"
  by (induction xs) (auto simp: le_diff_eq)

text \<open>On a unique key a condition that names the key counts at most one row.\<close>

lemma count_where_unique:
  assumes "unique_on k xs" and "x \<in> set xs"
  shows "count_where (\<lambda>y. k y = k x \<and> P y) xs = (if P x then 1 else 0)"
  using assms
proof (induction xs)
  case Nil
  then show ?case by simp
next
  case (Cons a xs)
  show ?case
  proof (cases "a = x")
    case True
    with Cons.prems(1) have "k y \<noteq> k x" if "y \<in> set xs" for y
      using that by (auto simp: unique_on_def image_iff)
    then have "count_where (\<lambda>y. k y = k x \<and> P y) xs = 0"
      by (intro count_where_zero) auto
    with True show ?thesis by simp
  next
    case False
    with Cons.prems have "x \<in> set xs" and "k a \<noteq> k x" and "unique_on k xs"
      by (auto simp: unique_on_def)
    with Cons.IH show ?thesis by simp
  qed
qed

lemma unique_on_Nil [simp]: "unique_on k []"
  by (simp add: unique_on_def)

lemma unique_on_snoc [simp]: "unique_on k (xs @ [x]) \<longleftrightarrow> unique_on k xs \<and> k x \<notin> k ` set xs"
  by (auto simp: unique_on_def)

lemma unique_on_upd_where [simp]:
  "(\<And>x. P x \<Longrightarrow> k (f x) = k x) \<Longrightarrow> unique_on k (upd_where P f xs) = unique_on k xs"
  by (simp add: unique_on_def)

lemma unique_on_eq: "unique_on k xs \<Longrightarrow> x \<in> set xs \<Longrightarrow> y \<in> set xs \<Longrightarrow> k x = k y \<Longrightarrow> x = y"
  by (auto simp: unique_on_def distinct_map inj_on_def)

lemma find_SomeD: "find P xs = Some x \<Longrightarrow> x \<in> set xs \<and> P x"
  by (auto simp: find_Some_iff)

lemma find_NoneD: "find P xs = None \<Longrightarrow> x \<in> set xs \<Longrightarrow> \<not> P x"
  by (auto simp: find_None_iff)

lemma find_unique: "unique_on k xs \<Longrightarrow> x \<in> set xs \<Longrightarrow> find (\<lambda>y. k y = k x) xs = Some x"
  by (induction xs) (auto simp: unique_on_def)

lemma find_append: "find P (xs @ ys) = (case find P xs of None \<Rightarrow> find P ys | Some x \<Rightarrow> Some x)"
  by (induction xs) auto

lemma find_upd_where:
  "(\<And>x. x \<in> set xs \<Longrightarrow> P (if Q x then f x else x) = P x) \<Longrightarrow>
   find P (upd_where Q f xs) = map_option (\<lambda>x. if Q x then f x else x) (find P xs)"
  by (induction xs) auto

subsection \<open>Integers\<close>

text \<open>SQL's \<open>GREATEST(c + d, 0)\<close>.\<close>

definition greatest0 :: "int \<Rightarrow> int" where
  "greatest0 n = max n 0"

lemma greatest0_id [simp]: "0 \<le> n \<Longrightarrow> greatest0 n = n"
  by (simp add: greatest0_def)

lemma greatest0_nonneg [simp]: "0 \<le> greatest0 n"
  by (simp add: greatest0_def)

end
