(* ===== verification/GoStrings.thy ===== *)
theory GoStrings
  imports Prelude
begin

text \<open>
  Go's strings and the functions of its standard library that the campus code uses. A Go
  string is a sequence of bytes, here a \<^typ>\<open>string\<close> (a character is one byte). Ranging
  over it, \<open>[]rune(s)\<close> and \<open>strings.TrimSpace\<close> decode UTF-8: \<open>segs\<close> cuts a string
  into the pieces that \<open>utf8.DecodeRune\<close> reads, an invalid byte being one piece that
  decodes to U+FFFD; \<open>utf8\<close> is the conversion back.
  \<open>ToLower\<close> maps the case pairs of ASCII, Latin-1, Latin Extended-A, Greek, Cyrillic and
  the full-width letters; the case pairs of other scripts are left alone.
\<close>

type_synonym rune = nat

subsection \<open>UTF-8\<close>

definition rune_error :: rune where
  "rune_error = 65533"

definition byte :: "char \<Rightarrow> nat" where
  "byte c = of_char c"

definition is_cont :: "char \<Rightarrow> bool" where
  "is_cont c \<longleftrightarrow> 128 \<le> byte c \<and> byte c < 192"

text \<open>\<open>utf8.DecodeRuneInString\<close>: the rune at the head and the number of its bytes.\<close>

fun decode_rune :: "string \<Rightarrow> rune \<times> nat" where
  "decode_rune [] = (rune_error, 0)"
| "decode_rune (c0 # cs) = (let b0 = byte c0 in
     if b0 < 128 then (b0, 1)
     else if b0 < 194 then (rune_error, 1)
     else if b0 < 224 then
       (case cs of c1 # _ \<Rightarrow>
          if is_cont c1 then ((b0 - 192) * 64 + (byte c1 - 128), 2) else (rune_error, 1)
        | _ \<Rightarrow> (rune_error, 1))
     else if b0 < 240 then
       (case cs of c1 # c2 # _ \<Rightarrow>
          if is_cont c1 \<and> is_cont c2 \<and> (b0 = 224 \<longrightarrow> 160 \<le> byte c1) \<and> (b0 = 237 \<longrightarrow> byte c1 < 160)
          then ((b0 - 224) * 4096 + (byte c1 - 128) * 64 + (byte c2 - 128), 3)
          else (rune_error, 1)
        | _ \<Rightarrow> (rune_error, 1))
     else if b0 < 245 then
       (case cs of c1 # c2 # c3 # _ \<Rightarrow>
          if is_cont c1 \<and> is_cont c2 \<and> is_cont c3 \<and> (b0 = 240 \<longrightarrow> 144 \<le> byte c1) \<and>
             (b0 = 244 \<longrightarrow> byte c1 < 144)
          then ((b0 - 240) * 262144 + (byte c1 - 128) * 4096 + (byte c2 - 128) * 64 + (byte c3 - 128), 4)
          else (rune_error, 1)
        | _ \<Rightarrow> (rune_error, 1))
     else (rune_error, 1))"

function segs :: "string \<Rightarrow> (rune \<times> string) list" where
  "segs [] = []"
| "segs (c # cs) = (case decode_rune (c # cs) of
     (r, n) \<Rightarrow> (r, take n (c # cs)) # segs (drop (n - 1) cs))"
  by pat_completeness auto
termination
  by (relation "measure length") auto

definition runes :: "string \<Rightarrow> rune list" where
  "runes s = map fst (segs s)"

definition rune_count :: "string \<Rightarrow> nat" where
  "rune_count s = length (runes s)"

definition valid_rune :: "rune \<Rightarrow> bool" where
  "valid_rune r \<longleftrightarrow> r < 55296 \<or> (57344 \<le> r \<and> r < 1114112)"

definition enc_valid :: "rune \<Rightarrow> string" where
  "enc_valid r =
     (if r < 128 then [char_of r]
      else if r < 2048 then [char_of (192 + r div 64), char_of (128 + r mod 64)]
      else if r < 65536 then
        [char_of (224 + r div 4096), char_of (128 + r div 64 mod 64), char_of (128 + r mod 64)]
      else [char_of (240 + r div 262144), char_of (128 + r div 4096 mod 64),
            char_of (128 + r div 64 mod 64), char_of (128 + r mod 64)])"

definition enc_rune :: "rune \<Rightarrow> string" where
  "enc_rune r = enc_valid (if valid_rune r then r else rune_error)"

definition utf8 :: "rune list \<Rightarrow> string" where
  "utf8 rs = concat (map enc_rune rs)"

declare segs.simps(2) [simp del]

lemma byte_char_of [simp]: "n < 256 \<Longrightarrow> byte (char_of n) = n"
  by (simp add: byte_def)

lemma byte_cont [simp]: "byte (char_of (128 + n mod 64)) = 128 + n mod (64::nat)"
proof (rule byte_char_of)
  have "n mod 64 < (64::nat)" by simp
  then show "128 + n mod 64 < 256" by linarith
qed

lemma is_cont_cont [simp]: "is_cont (char_of (128 + n mod (64::nat)))"
proof -
  have "n mod 64 < (64::nat)" by simp
  then show ?thesis unfolding is_cont_def byte_cont by linarith
qed

lemma byte_bound [simp]: "byte c < 256"
  by (simp add: byte_def)

lemma decode_rune_size: "decode_rune (c # cs) = (r, n) \<Longrightarrow> 1 \<le> n \<and> n \<le> length (c # cs)"
  by (auto simp: Let_def split: if_splits list.splits)

lemma concat_segs: "concat (map snd (segs s)) = s"
proof (induction s rule: segs.induct)
  case 1
  show ?case by simp
next
  case (2 c cs)
  obtain r n where d: "decode_rune (c # cs) = (r, n)" by fastforce
  with decode_rune_size have "1 \<le> n" by blast
  then have "take n (c # cs) @ drop (n - 1) cs = c # cs"
    by (cases n) auto
  with 2 d show ?case by (simp add: segs.simps(2))
qed

lemma decode_enc_valid:
  assumes "valid_rune r"
  shows "decode_rune (enc_valid r @ s) = (r, length (enc_valid r))"
proof -
  have r: "r < 1114112" using assms by (auto simp: valid_rune_def)
  consider "r < 128" | "128 \<le> r" "r < 2048" | "2048 \<le> r" "r < 65536" | "65536 \<le> r" by linarith
  then show ?thesis
  proof cases
    case 1
    then show ?thesis by (simp add: enc_valid_def)
  next
    case 2
    then have "r div 64 < 32" and "2 \<le> r div 64" and "r mod 64 < 64" by auto
    then show ?thesis using 2 by (simp add: enc_valid_def Let_def)
  next
    case 3
    let ?q = "r div 64"
    have q: "r div 4096 * 64 + ?q mod 64 = ?q" and r: "?q * 64 + r mod 64 = r"
      by (simp_all add: div_mult2_eq [of r 64 64, simplified])
    have b: "r div 4096 < 16" "r mod 64 < 64" "?q mod 64 < 64" using 3 by auto
    have s1: "r div 4096 = 0 \<Longrightarrow> 32 \<le> ?q mod 64" using 3 q r b by linarith
    have s2: "r div 4096 = 13 \<Longrightarrow> ?q mod 64 < 32"
      using assms q r b unfolding valid_rune_def by linarith
    have e: "r div 4096 * 4096 + ?q mod 64 * 64 + r mod 64 = r" using q r by linarith
    show ?thesis using 3 b(1) e s1 s2 by (simp add: enc_valid_def Let_def)
  next
    case 4
    let ?q = "r div 64" and ?h = "r div 4096"
    have h: "r div 262144 * 64 + ?h mod 64 = ?h" and q: "?h * 64 + ?q mod 64 = ?q"
      and l: "?q * 64 + r mod 64 = r"
      by (simp_all add: div_mult2_eq [of r 64 64, simplified] div_mult2_eq [of r 4096 64, simplified])
    have b: "r div 262144 < 5" "r mod 64 < 64" "?q mod 64 < 64" "?h mod 64 < 64"
      using r by auto
    have s1: "r div 262144 = 0 \<Longrightarrow> 16 \<le> ?h mod 64" using 4 h q l b by linarith
    have s2: "r div 262144 = 4 \<Longrightarrow> ?h mod 64 < 16" using r h q l b by linarith
    have e: "r div 262144 * 262144 + ?h mod 64 * 4096 + ?q mod 64 * 64 + r mod 64 = r"
      using h q l by linarith
    show ?thesis using 4 b(1) e s1 s2 by (simp add: enc_valid_def Let_def)
  qed
qed

lemma enc_valid_Cons: "\<exists>c cs. enc_valid r = c # cs"
  by (simp add: enc_valid_def)

lemma segs_enc_valid: "valid_rune r \<Longrightarrow> segs (enc_valid r @ s) = (r, enc_valid r) # segs s"
proof -
  assume v: "valid_rune r"
  obtain c cs where c: "enc_valid r = c # cs" using enc_valid_Cons by blast
  with decode_enc_valid [OF v, of s] show ?thesis
    by (simp add: segs.simps(2) del: decode_rune.simps)
qed

lemma rune_error_valid [simp]: "valid_rune rune_error"
  by (simp add: valid_rune_def rune_error_def)

lemma segs_utf8:
  "segs (utf8 rs @ s) =
     map (\<lambda>r. (if valid_rune r then r else rune_error, enc_rune r)) rs @ segs s"
  by (induction rs) (simp_all add: utf8_def enc_rune_def segs_enc_valid)

text \<open>Encoding and decoding again gives the runes back, an invalid one as U+FFFD.\<close>

lemma runes_utf8: "runes (utf8 rs) = map (\<lambda>r. if valid_rune r then r else rune_error) rs"
  using segs_utf8 [of rs "[]"] by (simp add: runes_def)

lemma rune_count_utf8 [simp]: "rune_count (utf8 rs) = length rs"
  by (simp add: rune_count_def runes_utf8)

lemma cont_bound: "is_cont c \<Longrightarrow> byte c - 128 < 64"
  by (auto simp: is_cont_def)

lemma decode_rune_valid: "valid_rune (fst (decode_rune s))"
proof (cases s)
  case Nil
  then show ?thesis by simp
next
  case (Cons c0 cs)
  let ?b = "byte c0"
  consider "?b < 194 \<or> 245 \<le> ?b" | "194 \<le> ?b" "?b < 224" | "224 \<le> ?b" "?b < 240"
    | "240 \<le> ?b" "?b < 245" by linarith
  then show ?thesis
  proof cases
    case 1
    then show ?thesis by (auto simp: Cons Let_def valid_rune_def rune_error_def)
  next
    case 2
    have "valid_rune ((?b - 192) * 64 + (byte c - 128))" if "is_cont c" for c
      using 2 cont_bound [OF that] unfolding valid_rune_def by linarith
    with 2 show ?thesis by (auto simp: Cons Let_def split: list.splits)
  next
    case 3
    have "valid_rune ((?b - 224) * 4096 + (byte c - 128) * 64 + (byte d - 128))"
      if "is_cont c" "is_cont d" "?b = 237 \<longrightarrow> byte c < 160" for c d
    proof -
      let ?h = "?b - 224" and ?x = "byte c - 128" and ?y = "byte d - 128"
      have m: "?x < 64" "?y < 64" "?h < 16" "?h = 13 \<longrightarrow> ?x < 32"
        using 3 cont_bound that by (auto simp: is_cont_def)
      consider "?h \<le> 12" | "?h = 13" | "14 \<le> ?h" by linarith
      then show ?thesis using m unfolding valid_rune_def by cases linarith+
    qed
    with 3 show ?thesis by (auto simp: Cons Let_def split: list.splits)
  next
    case 4
    have "valid_rune ((?b - 240) * 262144 + (byte c - 128) * 4096 + (byte d - 128) * 64 + (byte e - 128))"
      if "is_cont c" "is_cont d" "is_cont e" "?b = 240 \<longrightarrow> 144 \<le> byte c" "?b = 244 \<longrightarrow> byte c < 144"
      for c d e
    proof -
      let ?g = "?b - 240" and ?x = "byte c - 128" and ?y = "byte d - 128" and ?z = "byte e - 128"
      have m: "?x < 64" "?y < 64" "?z < 64" "?g < 5" "?g = 0 \<longrightarrow> 16 \<le> ?x" "?g = 4 \<longrightarrow> ?x < 16"
        using 4 cont_bound that by (auto simp: is_cont_def)
      consider "?g = 0" | "1 \<le> ?g" "?g \<le> 3" | "?g = 4" using m(4) by linarith
      then show ?thesis using m unfolding valid_rune_def by cases linarith+
    qed
    with 4 show ?thesis by (auto simp: Cons Let_def split: list.splits)
  qed
qed

lemma runes_valid: "r \<in> set (runes s) \<Longrightarrow> valid_rune r"
proof (induction s rule: segs.induct)
  case 1
  then show ?case by (simp add: runes_def)
next
  case (2 c cs)
  obtain r' n where d: "decode_rune (c # cs) = (r', n)" by fastforce
  with decode_rune_valid [of "c # cs"] have "valid_rune r'" by simp
  with 2 d show ?case by (auto simp: runes_def segs.simps(2) simp del: decode_rune.simps)
qed

lemma runes_of_utf8_runes: "runes (utf8 (runes s)) = runes s"
  by (simp add: runes_utf8 runes_valid cong: map_cong)

subsection \<open>Trimming, case, searching, splitting\<close>

text \<open>\<open>unicode.IsSpace\<close>.\<close>

definition is_space :: "rune \<Rightarrow> bool" where
  "is_space r \<longleftrightarrow> (9 \<le> r \<and> r \<le> 13) \<or> r = 32 \<or> r = 133 \<or> r = 160 \<or> r = 5760 \<or>
     (8192 \<le> r \<and> r \<le> 8202) \<or> r = 8232 \<or> r = 8233 \<or> r = 8239 \<or> r = 8287 \<or> r = 12288"

definition trim_segs :: "(rune \<Rightarrow> bool) \<Rightarrow> (rune \<times> string) list \<Rightarrow> (rune \<times> string) list" where
  "trim_segs p ss =
     rev (dropWhile (\<lambda>s. p (fst s)) (rev (dropWhile (\<lambda>s. p (fst s)) ss)))"

definition trim_func :: "(rune \<Rightarrow> bool) \<Rightarrow> string \<Rightarrow> string" where
  "trim_func p s = concat (map snd (trim_segs p (segs s)))"

definition trim_space :: "string \<Rightarrow> string" where
  "trim_space = trim_func is_space"

text \<open>\<open>unicode.ToLower\<close> and \<open>unicode.ToUpper\<close> on the scripts named above.\<close>

definition rune_lower :: "rune \<Rightarrow> rune" where
  "rune_lower r =
     (if 65 \<le> r \<and> r \<le> 90 then r + 32
      else if r < 128 then r
      else if 192 \<le> r \<and> r \<le> 222 \<and> r \<noteq> 215 then r + 32
      else if r = 304 then 105
      else if (256 \<le> r \<and> r \<le> 303 \<or> 306 \<le> r \<and> r \<le> 311 \<or> 330 \<le> r \<and> r \<le> 375) \<and> even r then r + 1
      else if (313 \<le> r \<and> r \<le> 328 \<or> 377 \<le> r \<and> r \<le> 382) \<and> odd r then r + 1
      else if r = 376 then 255
      else if 913 \<le> r \<and> r \<le> 939 \<and> r \<noteq> 930 then r + 32
      else if r = 902 then 940
      else if 904 \<le> r \<and> r \<le> 906 then r + 37
      else if r = 908 then 972
      else if 910 \<le> r \<and> r \<le> 911 then r + 63
      else if 1024 \<le> r \<and> r \<le> 1039 then r + 80
      else if 1040 \<le> r \<and> r \<le> 1071 then r + 32
      else if 1120 \<le> r \<and> r \<le> 1153 \<and> even r then r + 1
      else if r = 8486 then 969
      else if r = 8490 then 107
      else if r = 8491 then 229
      else if 65313 \<le> r \<and> r \<le> 65338 then r + 32
      else r)"

definition rune_upper :: "rune \<Rightarrow> rune" where
  "rune_upper r =
     (if 97 \<le> r \<and> r \<le> 122 then r - 32
      else if r < 128 then r
      else if r = 181 then 924
      else if 224 \<le> r \<and> r \<le> 254 \<and> r \<noteq> 247 then r - 32
      else if r = 255 then 376
      else if r = 305 then 73
      else if r = 383 then 83
      else if (257 \<le> r \<and> r \<le> 303 \<or> 307 \<le> r \<and> r \<le> 311 \<or> 331 \<le> r \<and> r \<le> 375) \<and> odd r then r - 1
      else if (314 \<le> r \<and> r \<le> 328 \<or> 378 \<le> r \<and> r \<le> 382) \<and> even r then r - 1
      else if 945 \<le> r \<and> r \<le> 971 \<and> r \<noteq> 962 then r - 32
      else if 1072 \<le> r \<and> r \<le> 1103 then r - 32
      else if 1104 \<le> r \<and> r \<le> 1119 then r - 80
      else if 65345 \<le> r \<and> r \<le> 65370 then r - 32
      else r)"

definition to_lower :: "string \<Rightarrow> string" where
  "to_lower s = utf8 (map rune_lower (runes s))"

definition to_upper :: "string \<Rightarrow> string" where
  "to_upper s = utf8 (map rune_upper (runes s))"

definition has_prefix :: "string \<Rightarrow> string \<Rightarrow> bool" where
  "has_prefix s p \<longleftrightarrow> take (length p) s = p"

fun contains :: "string \<Rightarrow> string \<Rightarrow> bool" where
  "contains [] p = (p = [])"
| "contains (c # cs) p = (has_prefix (c # cs) p \<or> contains cs p)"

text \<open>\<open>strings.Split(s, sep)\<close> with a one-byte separator, \<open>strings.Join\<close> and
  \<open>strings.FieldsFunc\<close>.\<close>

fun split_byte :: "char \<Rightarrow> string \<Rightarrow> string list" where
  "split_byte d [] = [[]]"
| "split_byte d (c # cs) =
     (if c = d then [] # split_byte d cs
      else (case split_byte d cs of [] \<Rightarrow> [[c]] | w # ws \<Rightarrow> (c # w) # ws))"

fun join :: "string \<Rightarrow> string list \<Rightarrow> string" where
  "join d [] = []"
| "join d [w] = w"
| "join d (w # ws) = w @ d @ join d ws"

fun fields_segs :: "(rune \<Rightarrow> bool) \<Rightarrow> string \<Rightarrow> (rune \<times> string) list \<Rightarrow> string list" where
  "fields_segs p w [] = (if w = [] then [] else [w])"
| "fields_segs p w ((r, b) # ss) =
     (if p r then (if w = [] then fields_segs p [] ss else w # fields_segs p [] ss)
      else fields_segs p (w @ b) ss)"

definition fields_func :: "(rune \<Rightarrow> bool) \<Rightarrow> string \<Rightarrow> string list" where
  "fields_func p s = fields_segs p [] (segs s)"

subsection \<open>Decimal numbers\<close>

text \<open>\<open>fmt.Sprintf("%d", n)\<close> and \<open>strconv.ParseInt(s, 10, 64)\<close>, which returns the value and
  whether there was no error: 0 for a syntax error, the nearest bound when out of range.\<close>

fun dec :: "nat \<Rightarrow> string" where
  "dec n = (if n < 10 then [char_of (48 + n)] else dec (n div 10) @ [char_of (48 + n mod 10)])"

declare dec.simps [simp del]

definition fmt_d :: "int \<Rightarrow> string" where
  "fmt_d n = (if n < 0 then ''-'' @ dec (nat (- n)) else dec (nat n))"

text \<open>The same on integers, for the evaluation on large numbers.\<close>

function dec_int :: "int \<Rightarrow> string" where
  "dec_int n = (if n < 10 then [char_of (48 + nat n)] else dec_int (n div 10) @ [char_of (48 + nat (n mod 10))])"
  by pat_completeness auto
termination by (relation "measure nat") auto

declare dec_int.simps [simp del]

lemma dec_int: "dec_int (int n) = dec n"
proof (induction n rule: dec.induct)
  case (1 n)
  show ?case
  proof (cases "n < 10")
    case False
    then have "dec_int (int n div 10) = dec (n div 10)" using 1 by (simp add: zdiv_int)
    moreover have "nat (int n mod 10) = n mod 10" by (simp add: nat_mod_distrib)
    ultimately show ?thesis using False by (subst dec_int.simps, subst dec.simps) simp
  qed (simp add: dec_int.simps dec.simps)
qed

lemma fmt_d_code [code]: "fmt_d n = (if n < 0 then ''-'' @ dec_int (- n) else dec_int n)"
  using dec_int [of "nat n"] dec_int [of "nat (- n)"] by (cases "n < 0") (simp_all add: fmt_d_def)

datatype scan_result = ScanOk nat | ScanSyntax | ScanRange

fun scan_uint :: "nat \<Rightarrow> string \<Rightarrow> scan_result" where
  "scan_uint acc [] = ScanOk acc"
| "scan_uint acc (c # cs) =
     (if byte c < 48 \<or> 57 < byte c then ScanSyntax
      else if 2 ^ 64 \<le> acc * 10 + (byte c - 48) then ScanRange
      else scan_uint (acc * 10 + (byte c - 48)) cs)"

definition parse_uint :: "string \<Rightarrow> scan_result" where
  "parse_uint s = (if s = [] then ScanSyntax else scan_uint 0 s)"

definition parse_int64 :: "string \<Rightarrow> int \<times> bool" where
  "parse_int64 s = (let
     neg = has_prefix s ''-'';
     body = (if has_prefix s ''-'' \<or> has_prefix s ''+'' then drop 1 s else s)
   in case parse_uint body of
        ScanSyntax \<Rightarrow> (0, False)
      | ScanRange \<Rightarrow> (if neg then (- (2 ^ 63), False) else (2 ^ 63 - 1, False))
      | ScanOk n \<Rightarrow>
          if \<not> neg \<and> 2 ^ 63 \<le> n then (2 ^ 63 - 1, False)
          else if neg \<and> 2 ^ 63 < n then (- (2 ^ 63), False)
          else (if neg then - int n else int n, True))"

definition is_int64 :: "int \<Rightarrow> bool" where
  "is_int64 n \<longleftrightarrow> - (2 ^ 63) \<le> n \<and> n < 2 ^ 63"

lemma parse_int64_bound: "is_int64 (fst (parse_int64 s))"
  by (auto simp: parse_int64_def Let_def is_int64_def split: scan_result.splits)

lemma scan_uint_append:
  "scan_uint acc (xs @ ys) = (case scan_uint acc xs of ScanOk n \<Rightarrow> scan_uint n ys | e \<Rightarrow> e)"
  by (induction acc xs rule: scan_uint.induct) auto

lemma scan_dec: "n < 2 ^ 64 \<Longrightarrow> scan_uint 0 (dec n) = ScanOk n"
proof (induction n rule: dec.induct)
  case (1 n)
  show ?case
  proof (cases "n < 10")
    case True
    then show ?thesis by (simp add: dec.simps [of n])
  next
    case False
    have "n div 10 < 2 ^ 64" using "1.prems" by simp
    then have "scan_uint 0 (dec (n div 10)) = ScanOk (n div 10)" using False "1.IH" by blast
    moreover have "n mod 10 < 10" by simp
    moreover have "n div 10 * 10 + n mod 10 = n" by simp
    ultimately show ?thesis using False "1.prems"
      by (simp add: dec.simps [of n] scan_uint_append)
  qed
qed

lemma dec_not_Nil [simp]: "dec n \<noteq> []"
  by (subst dec.simps) simp

lemma dec_hd: "48 \<le> byte (hd (dec n)) \<and> byte (hd (dec n)) \<le> 57"
proof (induction n rule: dec.induct)
  case (1 n)
  show ?case
  proof (cases "n < 10")
    case True
    then show ?thesis by (simp add: dec.simps [of n])
  next
    case False
    with 1 show ?thesis by (simp add: dec.simps [of n])
  qed
qed

lemma dec_no_sign: "\<not> has_prefix (dec n) ''-''" "\<not> has_prefix (dec n) ''+''"
proof -
  obtain c cs where d: "dec n = c # cs" using dec_not_Nil by (metis neq_Nil_conv)
  with dec_hd [of n] have "c \<noteq> CHR ''-''" "c \<noteq> CHR ''+''" by (auto simp: byte_def)
  then show "\<not> has_prefix (dec n) ''-''" "\<not> has_prefix (dec n) ''+''"
    by (auto simp: d has_prefix_def)
qed

text \<open>Printing an \<open>int64\<close> and parsing it gives it back, without an error.\<close>

lemma parse_fmt_d: "is_int64 n \<Longrightarrow> parse_int64 (fmt_d n) = (n, True)"
proof (cases "n < 0")
  case True
  assume "is_int64 n"
  with True have "nat (- n) \<le> 2 ^ 63" by (simp add: is_int64_def)
  then have "scan_uint 0 (dec (nat (- n))) = ScanOk (nat (- n))" by (intro scan_dec) simp
  with True \<open>nat (- n) \<le> 2 ^ 63\<close> show ?thesis
    by (simp add: parse_int64_def fmt_d_def has_prefix_def parse_uint_def)
next
  case False
  assume "is_int64 n"
  with False have "nat n < 2 ^ 63" by (simp add: is_int64_def)
  then have "scan_uint 0 (dec (nat n)) = ScanOk (nat n)" by (intro scan_dec) simp
  with False \<open>nat n < 2 ^ 63\<close> show ?thesis
    by (simp add: parse_int64_def fmt_d_def dec_no_sign parse_uint_def Let_def)
qed

lemma fmt_d_inj: "is_int64 m \<Longrightarrow> is_int64 n \<Longrightarrow> fmt_d m = fmt_d n \<Longrightarrow> m = n"
  by (metis parse_fmt_d fst_conv)

subsection \<open>Graphic ASCII\<close>

text \<open>Identifiers, keys and numbers: every byte is a visible ASCII character.\<close>

definition graphic :: "string \<Rightarrow> bool" where
  "graphic s \<longleftrightarrow> list_all (\<lambda>c. 33 \<le> byte c \<and> byte c < 127) s"

lemma graphic_simps [simp]:
  "graphic []" "graphic (c # s) \<longleftrightarrow> 33 \<le> byte c \<and> byte c < 127 \<and> graphic s"
  "graphic (s @ t) \<longleftrightarrow> graphic s \<and> graphic t"
  by (auto simp: graphic_def)

lemma segs_graphic: "graphic s \<Longrightarrow> segs s = map (\<lambda>c. (byte c, [c])) s"
  by (induction s rule: segs.induct) (auto simp: segs.simps(2) Let_def)

lemma trim_space_graphic: "graphic s \<Longrightarrow> trim_space s = s"
proof -
  assume g: "graphic s"
  have ns: "\<not> is_space (byte c)" if "c \<in> set s" for c
    using g that by (auto simp: graphic_def list_all_iff is_space_def)
  have d: "dropWhile (\<lambda>x. is_space (fst x)) (map (\<lambda>c. (byte c, [c])) t) = map (\<lambda>c. (byte c, [c])) t"
    if "\<And>c. c \<in> set t \<Longrightarrow> \<not> is_space (byte c)" for t
    using that by (cases t) auto
  have "trim_segs is_space (segs s) = map (\<lambda>c. (byte c, [c])) s"
    using d [OF ns] d [of "rev s"] ns by (simp add: trim_segs_def segs_graphic [OF g] rev_map [symmetric])
  then show ?thesis by (simp add: trim_space_def trim_func_def comp_def)
qed

lemma graphic_dec [simp]: "graphic (dec n)"
proof (induction n rule: dec.induct)
  case (1 n)
  have b: "33 \<le> byte (char_of (48 + n mod 10)) \<and> byte (char_of (48 + n mod 10)) < 127"
  proof -
    have "n mod 10 < 10" by simp
    then have "48 + n mod 10 < 58" by linarith
    then show ?thesis by simp
  qed
  show ?case
  proof (cases "n < 10")
    case True
    then have "n mod 10 = n" by simp
    with True b show ?thesis by (subst dec.simps) simp
  next
    case False
    with 1 b show ?thesis by (subst dec.simps) simp
  qed
qed

lemma graphic_fmt_d [simp]: "graphic (fmt_d n)"
  by (simp add: fmt_d_def byte_def)

lemma runes_graphic: "graphic s \<Longrightarrow> runes s = map byte s"
  by (simp add: runes_def segs_graphic comp_def)

lemma utf8_bytes: "graphic s \<Longrightarrow> utf8 (map byte s) = s"
  by (induction s) (auto simp: utf8_def enc_rune_def enc_valid_def valid_rune_def byte_def)

lemma to_lower_graphic:
  assumes "graphic s" and "list_all (\<lambda>c. byte c < 65 \<or> 90 < byte c) s"
  shows "to_lower s = s"
proof -
  have "map rune_lower (map byte s) = map byte s"
    using assms by (induction s) (auto simp: rune_lower_def)
  with assms(1) show ?thesis by (simp add: to_lower_def runes_graphic utf8_bytes del: map_map)
qed

text \<open>For the evaluation of these functions on literals.\<close>

lemmas go_string_eval = segs.simps(2) runes_def rune_count_def utf8_def enc_rune_def enc_valid_def
  valid_rune_def rune_error_def byte_def is_cont_def is_space_def trim_space_def trim_func_def
  trim_segs_def rune_lower_def to_lower_def rune_upper_def to_upper_def has_prefix_def dec.simps
  fmt_d_def parse_int64_def parse_uint_def fields_func_def

end
