(* ===== verification/Messages.thy ===== *)
theory Messages
  imports GoStrings
begin

text \<open>
  The string literals of the Go sources that are not ASCII (user-facing messages and audit
  reasons), as the UTF-8 encoding of their code points. Each definition is one literal of the
  code; the comment is its English reading.
\<close>

definition msg_system_error :: string where \<comment> \<open>the system had a hiccup, please retry later\<close>
  "msg_system_error =
     utf8 [31995, 32479, 24320, 23567, 24046, 20102, 65292, 35831, 31245, 21518, 20877, 35797]"

definition msg_login_required :: string where \<comment> \<open>please log in first\<close>
  "msg_login_required =
     utf8 [35831, 20808, 30331, 24405]"

definition msg_post_id_invalid :: string where \<comment> \<open>invalid post id\<close>
  "msg_post_id_invalid =
     utf8 [24086, 23376, 32, 73, 68, 32, 26080, 25928]"

definition msg_comment_id_invalid :: string where \<comment> \<open>invalid comment id\<close>
  "msg_comment_id_invalid =
     utf8 [35780, 35770, 32, 73, 68, 32, 26080, 25928]"

definition msg_notification_id_invalid :: string where \<comment> \<open>invalid message id\<close>
  "msg_notification_id_invalid =
     utf8 [28040, 24687, 32, 73, 68, 32, 26080, 25928]"

definition msg_query_post_failed :: string where \<comment> \<open>querying the post failed\<close>
  "msg_query_post_failed =
     utf8 [26597, 35810, 24086, 23376, 22833, 36133]"

definition msg_query_comment_failed :: string where \<comment> \<open>querying the comment failed\<close>
  "msg_query_comment_failed =
     utf8 [26597, 35810, 35780, 35770, 22833, 36133]"

definition msg_query_reply_target_failed :: string where \<comment> \<open>querying the replied comment failed\<close>
  "msg_query_reply_target_failed =
     utf8 [26597, 35810, 34987, 22238, 22797, 35780, 35770, 22833, 36133]"

definition msg_post_not_found :: string where \<comment> \<open>the post does not exist\<close>
  "msg_post_not_found =
     utf8 [24086, 23376, 19981, 23384, 22312]"

definition msg_comment_not_found :: string where \<comment> \<open>the comment does not exist\<close>
  "msg_comment_not_found =
     utf8 [35780, 35770, 19981, 23384, 22312]"

definition msg_reply_target_not_found :: string where \<comment> \<open>the replied comment does not exist\<close>
  "msg_reply_target_not_found =
     utf8 [34987, 22238, 22797, 35780, 35770, 19981, 23384, 22312]"

definition msg_like_failed :: string where \<comment> \<open>like failed\<close>
  "msg_like_failed =
     utf8 [28857, 36190, 22833, 36133]"

definition msg_unlike_failed :: string where \<comment> \<open>unlike failed\<close>
  "msg_unlike_failed =
     utf8 [21462, 28040, 28857, 36190, 22833, 36133]"

definition msg_comment_like_failed :: string where \<comment> \<open>liking the comment failed\<close>
  "msg_comment_like_failed =
     utf8 [35780, 35770, 28857, 36190, 22833, 36133]"

definition msg_comment_unlike_failed :: string where \<comment> \<open>unliking the comment failed\<close>
  "msg_comment_unlike_failed =
     utf8 [21462, 28040, 35780, 35770, 28857, 36190, 22833, 36133]"

definition msg_collect_failed :: string where \<comment> \<open>collecting failed\<close>
  "msg_collect_failed =
     utf8 [25910, 34255, 22833, 36133]"

definition msg_uncollect_failed :: string where \<comment> \<open>uncollecting failed\<close>
  "msg_uncollect_failed =
     utf8 [21462, 28040, 25910, 34255, 22833, 36133]"

definition msg_someone_liked_post :: string where \<comment> \<open>someone liked your post\<close>
  "msg_someone_liked_post =
     utf8 [26377, 20154, 36190, 20102, 20320, 30340, 24086, 23376]"

definition msg_someone_liked_comment :: string where \<comment> \<open>someone liked your comment\<close>
  "msg_someone_liked_comment =
     utf8 [26377, 20154, 36190, 20102, 20320, 30340, 35780, 35770]"

definition msg_someone_collected_post :: string where \<comment> \<open>someone collected your post\<close>
  "msg_someone_collected_post =
     utf8 [26377, 20154, 25910, 34255, 20102, 20320, 30340, 24086, 23376]"

definition msg_someone_replied :: string where \<comment> \<open>someone replied to your comment\<close>
  "msg_someone_replied =
     utf8 [26377, 20154, 22238, 22797, 20102, 20320, 30340, 35780, 35770]"

definition msg_someone_commented :: string where \<comment> \<open>someone commented on your post\<close>
  "msg_someone_commented =
     utf8 [26377, 20154, 35780, 35770, 20102, 20320, 30340, 24086, 23376]"

definition msg_comment_length :: string where \<comment> \<open>a comment needs 1-500 characters\<close>
  "msg_comment_length =
     utf8 [35780, 35770, 38656, 35201, 32, 49, 45, 53, 48, 48, 32, 20010, 23383]"

definition msg_create_comment_failed :: string where \<comment> \<open>posting the comment failed\<close>
  "msg_create_comment_failed =
     utf8 [21457, 34920, 35780, 35770, 22833, 36133]"

definition msg_only_own_post :: string where \<comment> \<open>only one's own post can be withdrawn\<close>
  "msg_only_own_post =
     utf8 [21482, 33021, 25764, 22238, 33258, 24049, 30340, 24086, 23376]"

definition msg_delete_post_failed :: string where \<comment> \<open>withdrawing the post failed\<close>
  "msg_delete_post_failed =
     utf8 [25764, 22238, 24086, 23376, 22833, 36133]"

definition msg_only_own_comment :: string where \<comment> \<open>only one's own comment can be withdrawn\<close>
  "msg_only_own_comment =
     utf8 [21482, 33021, 25764, 22238, 33258, 24049, 30340, 35780, 35770]"

definition msg_delete_comment_failed :: string where \<comment> \<open>withdrawing the comment failed\<close>
  "msg_delete_comment_failed =
     utf8 [25764, 22238, 35780, 35770, 22833, 36133]"

definition msg_user_deleted :: string where \<comment> \<open>deleted by the user\<close>
  "msg_user_deleted =
     utf8 [29992, 25143, 21024, 38500]"

definition msg_parent_withdrawn :: string where \<comment> \<open>the parent comment was withdrawn\<close>
  "msg_parent_withdrawn =
     utf8 [29238, 35780, 35770, 24050, 25764, 22238]"

definition msg_video_closed :: string where \<comment> \<open>publishing videos is closed\<close>
  "msg_video_closed =
     utf8 [35270, 39057, 21457, 24067, 24050, 20851, 38381]"

definition msg_image_needed :: string where \<comment> \<open>an image note needs at least one image\<close>
  "msg_image_needed =
     utf8 [22270, 25991, 31508, 35760, 33267, 23569, 38656, 35201, 32, 49, 32, 24352, 22270,
     29255]"

definition msg_media_type_invalid :: string where \<comment> \<open>the kind of note is invalid\<close>
  "msg_media_type_invalid =
     utf8 [31508, 35760, 31867, 22411, 26080, 25928]"

definition msg_no_admin_right :: string where \<comment> \<open>no right to the back office\<close>
  "msg_no_admin_right =
     utf8 [27809, 26377, 21518, 21488, 26435, 38480]"

definition msg_only_admin_roles :: string where \<comment> \<open>only an administrator may change operator rights\<close>
  "msg_only_admin_roles =
     utf8 [21482, 26377, 31649, 29702, 21592, 21487, 20197, 35843, 25972, 36816, 33829, 26435,
     38480]"

definition msg_user_id_invalid :: string where \<comment> \<open>the user id is invalid\<close>
  "msg_user_id_invalid =
     utf8 [29992, 25143, 32, 73, 68, 32, 26080, 25928]"

definition msg_update_role_failed :: string where \<comment> \<open>updating the user's rights failed\<close>
  "msg_update_role_failed =
     utf8 [26356, 26032, 29992, 25143, 26435, 38480, 22833, 36133]"

definition msg_remove_role_failed :: string where \<comment> \<open>removing the user's rights failed\<close>
  "msg_remove_role_failed =
     utf8 [31227, 38500, 29992, 25143, 26435, 38480, 22833, 36133]"

definition msg_role_invalid :: string where \<comment> \<open>the role is invalid\<close>
  "msg_role_invalid =
     utf8 [35282, 33394, 26080, 25928]"

definition msg_audit_mode_invalid :: string where \<comment> \<open>the audit mode is invalid\<close>
  "msg_audit_mode_invalid =
     utf8 [23457, 26680, 27169, 24335, 26080, 25928]"

definition msg_save_audit_settings_failed :: string where \<comment> \<open>saving the audit settings failed\<close>
  "msg_save_audit_settings_failed =
     utf8 [20445, 23384, 23457, 26680, 35774, 32622, 22833, 36133]"

definition msg_read_audit_settings_failed :: string where \<comment> \<open>reading the audit settings failed\<close>
  "msg_read_audit_settings_failed =
     utf8 [35835, 21462, 23457, 26680, 35774, 32622, 22833, 36133]"

definition msg_select_board :: string where \<comment> \<open>choose a board\<close>
  "msg_select_board =
     utf8 [35831, 36873, 25321, 29256, 22359]"

definition msg_query_board_failed :: string where \<comment> \<open>querying the board failed\<close>
  "msg_query_board_failed =
     utf8 [26597, 35810, 29256, 22359, 22833, 36133]"

definition msg_board_not_found :: string where \<comment> \<open>the board does not exist\<close>
  "msg_board_not_found =
     utf8 [29256, 22359, 19981, 23384, 22312]"

definition msg_title_length :: string where \<comment> \<open>a title needs 2-60 characters\<close>
  "msg_title_length =
     utf8 [26631, 39064, 38656, 35201, 32, 50, 45, 54, 48, 32, 20010, 23383]"

definition msg_body_length :: string where \<comment> \<open>a text needs 2-2000 characters\<close>
  "msg_body_length =
     utf8 [27491, 25991, 38656, 35201, 32, 50, 45, 50, 48, 48, 48, 32, 20010, 23383]"

definition msg_wait_manual :: string where \<comment> \<open>waiting for manual review\<close>
  "msg_wait_manual =
     utf8 [31561, 24453, 20154, 24037, 23457, 26680]"

definition msg_syncing :: string where \<comment> \<open>being published\<close>
  "msg_syncing =
     utf8 [21516, 27493, 20013]"

definition msg_agent_off_wait :: string where \<comment> \<open>agent review is off, waiting for manual review\<close>
  "msg_agent_off_wait =
     utf8 [65, 103, 101, 110, 116, 32, 21021, 23457, 26410, 21551, 29992, 65292, 31561, 24453,
     20154, 24037, 22797, 26680]"

definition msg_model_missing_wait :: string where \<comment> \<open>no agent model, waiting for manual review\<close>
  "msg_model_missing_wait =
     utf8 [65, 103, 101, 110, 116, 32, 27169, 22411, 26410, 37197, 32622, 65292, 31561, 24453,
     20154, 24037, 22797, 26680]"

definition msg_publish_failed :: string where \<comment> \<open>publishing the post failed\<close>
  "msg_publish_failed =
     utf8 [21457, 24067, 24086, 23376, 22833, 36133]"

definition msg_audit_queue_failed :: string where \<comment> \<open>queueing the audit failed, waiting for manual review\<close>
  "msg_audit_queue_failed =
     utf8 [65, 73, 32, 23457, 26680, 20219, 21153, 20837, 38431, 22833, 36133, 65292, 31561,
     24453, 20154, 24037, 22797, 26680]"

definition msg_new_post_confirm :: string where \<comment> \<open>a new post needs manual confirmation\<close>
  "msg_new_post_confirm =
     utf8 [26032, 24086, 38656, 35201, 20154, 24037, 30830, 35748]"

definition msg_post_detail_failed :: string where \<comment> \<open>getting the post failed\<close>
  "msg_post_detail_failed =
     utf8 [33719, 21462, 24086, 23376, 35814, 24773, 22833, 36133]"

definition msg_ezai_long :: string where \<comment> \<open>the bot's long name\<close>
  "msg_ezai_long =
     utf8 [28145, 27733, 101, 20180]"

definition msg_ezai :: string where \<comment> \<open>the bot's name\<close>
  "msg_ezai =
     utf8 [101, 20180]"

definition msg_fullwidth_at :: string where \<comment> \<open>full-width at sign\<close>
  "msg_fullwidth_at =
     utf8 [65312]"

definition msg_ezai_handoff_title :: string where \<comment> \<open>somebody mentioned the bot and needs a reply\<close>
  "msg_ezai_handoff_title =
     utf8 [26377, 20154, 32, 64, 101, 20180, 32, 38656, 35201, 22238, 22797]"

definition msg_ezai_handoff_detail :: string where \<comment> \<open>the automatic reply did not take over, please reply\<close>
  "msg_ezai_handoff_detail =
     utf8 [65, 73, 32, 33258, 21160, 22238, 22797, 26242, 26410, 25509, 25163, 65292, 35831,
     29992, 23448, 26041, 36134, 21495, 26597, 30475, 24182, 22238, 22797, 12290]"

definition msg_list_notifications_failed :: string where \<comment> \<open>getting the notifications failed\<close>
  "msg_list_notifications_failed =
     utf8 [33719, 21462, 28040, 24687, 22833, 36133]"

definition msg_unread_failed :: string where \<comment> \<open>getting the unread notifications failed\<close>
  "msg_unread_failed =
     utf8 [33719, 21462, 26410, 35835, 28040, 24687, 22833, 36133]"

definition msg_mark_read_failed :: string where \<comment> \<open>marking as read failed\<close>
  "msg_mark_read_failed =
     utf8 [26631, 35760, 28040, 24687, 24050, 35835, 22833, 36133]"

definition msg_mark_all_read_failed :: string where \<comment> \<open>marking all as read failed\<close>
  "msg_mark_all_read_failed =
     utf8 [26631, 35760, 20840, 37096, 24050, 35835, 22833, 36133]"

definition msg_notice_title_short :: string where \<comment> \<open>the title needs at least 2 characters\<close>
  "msg_notice_title_short =
     utf8 [36890, 30693, 26631, 39064, 33267, 23569, 32, 50, 32, 20010, 23383]"

definition msg_notice_content_short :: string where \<comment> \<open>the content needs at least 2 characters\<close>
  "msg_notice_content_short =
     utf8 [36890, 30693, 20869, 23481, 33267, 23569, 32, 50, 32, 20010, 23383]"

definition msg_notice_audience :: string where \<comment> \<open>only all users are supported as audience\<close>
  "msg_notice_audience =
     utf8 [36890, 30693, 33539, 22260, 26242, 21482, 25903, 25345, 20840, 20307, 29992, 25143]"

definition msg_notice_create_failed :: string where \<comment> \<open>creating the notification task failed\<close>
  "msg_notice_create_failed =
     utf8 [21019, 24314, 31995, 32479, 36890, 30693, 20219, 21153, 22833, 36133]"

definition msg_claim_notifications_failed :: string where \<comment> \<open>claiming the notification tasks failed\<close>
  "msg_claim_notifications_failed =
     utf8 [39046, 21462, 36890, 30693, 20219, 21153, 22833, 36133]"

definition msg_claim_ai_replies_failed :: string where \<comment> \<open>claiming the reply tasks failed\<close>
  "msg_claim_ai_replies_failed =
     utf8 [39046, 21462, 32, 101, 20180, 22238, 22797, 20219, 21153, 22833, 36133]"

definition msg_high_risk_word :: string where \<comment> \<open>seems to contain a high-risk word:\<close>
  "msg_high_risk_word =
     utf8 [30097, 20284, 21253, 21547, 39640, 39118, 38505, 35789, 65306]"

definition msg_needs_confirm :: string where \<comment> \<open>seems to need manual confirmation:\<close>
  "msg_needs_confirm =
     utf8 [30097, 20284, 38656, 35201, 20154, 24037, 30830, 35748, 65306]"

definition msg_too_short :: string where \<comment> \<open>too short to be clear\<close>
  "msg_too_short =
     utf8 [20869, 23481, 36807, 30701, 65292, 35821, 20041, 19981, 22815, 26126, 30830]"

definition msg_rule_low_risk :: string where \<comment> \<open>the rules found no clear risk\<close>
  "msg_rule_low_risk =
     utf8 [35268, 21017, 26410, 21457, 29616, 26126, 26174, 39118, 38505]"

definition msg_claim_audits_failed :: string where \<comment> \<open>claiming the audit tasks failed\<close>
  "msg_claim_audits_failed =
     utf8 [39046, 21462, 32, 65, 73, 32, 23457, 26680, 20219, 21153, 22833, 36133]"

definition msg_no_longer_pending :: string where \<comment> \<open>the content is no longer pending\<close>
  "msg_no_longer_pending =
     utf8 [20869, 23481, 24050, 19981, 22788, 20110, 24453, 23457, 26680, 29366, 24577]"

definition msg_agent_unavailable :: string where \<comment> \<open>agent review unavailable, waiting for manual handling\<close>
  "msg_agent_unavailable =
     utf8 [65, 103, 101, 110, 116, 32, 21021, 23457, 19981, 21487, 29992, 65292, 31561, 24453,
     20154, 24037, 22788, 29702]"

definition msg_agent_no_model :: string where \<comment> \<open>no agent model, waiting for manual handling\<close>
  "msg_agent_no_model =
     utf8 [65, 103, 101, 110, 116, 32, 27169, 22411, 26410, 37197, 32622, 65292, 31561, 24453,
     20154, 24037, 22788, 29702]"

definition msg_agent_down :: string where \<comment> \<open>the audit agent is down, manual handling needed\<close>
  "msg_agent_down =
     utf8 [23457, 26680, 32, 65, 103, 101, 110, 116, 32, 19981, 21487, 29992, 65292, 38656,
     35201, 20154, 24037, 22788, 29702]"

definition msg_ai_suggests_review :: string where \<comment> \<open>the audit suggests manual review\<close>
  "msg_ai_suggests_review =
     utf8 [65, 73, 32, 23457, 26680, 24314, 35758, 20154, 24037, 22797, 26680]"

definition msg_rule_high_risk :: string where \<comment> \<open>high risk by the rules, waiting for manual review\<close>
  "msg_rule_high_risk =
     utf8 [35268, 21017, 35782, 21035, 39640, 39118, 38505, 65292, 31561, 24453, 20154, 24037,
     22797, 26680]"

definition msg_agent_bad_format :: string where \<comment> \<open>the agent answered in a wrong format\<close>
  "msg_agent_bad_format =
     utf8 [65, 103, 101, 110, 116, 32, 36820, 22238, 26684, 24335, 24322, 24120, 65292, 38656,
     20154, 24037, 22797, 26680]"

definition msg_audit_failed_wait :: string where \<comment> \<open>the audit failed, waiting for manual review\<close>
  "msg_audit_failed_wait =
     utf8 [65, 73, 32, 23457, 26680, 22833, 36133, 65292, 31561, 24453, 20154, 24037, 22797,
     26680]"

definition msg_agent_failed_often :: string where \<comment> \<open>the agent failed repeatedly, manual handling needed\<close>
  "msg_agent_failed_often =
     utf8 [23457, 26680, 32, 65, 103, 101, 110, 116, 32, 36830, 32493, 22833, 36133, 65292,
     38656, 35201, 20154, 24037, 22788, 29702]"

definition msg_published :: string where \<comment> \<open>this content is on the front page now\<close>
  "msg_published =
     utf8 [36825, 26465, 20869, 23481, 24050, 21516, 27493, 21040, 39318, 39029, 12290]"

definition msg_not_published :: string where \<comment> \<open>not published, please change it\<close>
  "msg_not_published =
     utf8 [36825, 26465, 20869, 23481, 26242, 26410, 21516, 27493, 65292, 35831, 20462, 25913,
     21518, 20877, 21457, 24067, 12290]"

definition msg_report_received_title :: string where \<comment> \<open>report received\<close>
  "msg_report_received_title =
     utf8 [20030, 25253, 24050, 25910, 21040]"

definition msg_report_received :: string where \<comment> \<open>thank you, we will look soon\<close>
  "msg_report_received =
     utf8 [24863, 35874, 21453, 39304, 65292, 25105, 20204, 20250, 23613, 24555, 26597, 30475,
     12290]"

definition msg_report_dismissed :: string where \<comment> \<open>thank you, no clear violation found\<close>
  "msg_report_dismissed =
     utf8 [24863, 35874, 21453, 39304, 65292, 26242, 26410, 21457, 29616, 26126, 26174, 36829,
     35268, 65292, 24050, 35760, 24405, 12290]"

definition msg_report_handled :: string where \<comment> \<open>thank you, the content was handled\<close>
  "msg_report_handled =
     utf8 [24863, 35874, 21453, 39304, 65292, 30456, 20851, 20869, 23481, 24050, 22788, 29702,
     12290]"

definition msg_report_result_title :: string where \<comment> \<open>result of the report\<close>
  "msg_report_result_title =
     utf8 [20030, 25253, 22788, 29702, 32467, 26524]"

definition msg_claim_alerts_failed :: string where \<comment> \<open>claiming the alerts failed\<close>
  "msg_claim_alerts_failed =
     utf8 [39046, 21462, 36816, 33829, 25552, 37266, 22833, 36133]"

definition msg_label_post :: string where \<comment> \<open>post\<close>
  "msg_label_post =
     utf8 [24086, 23376]"

definition msg_label_comment :: string where \<comment> \<open>comment\<close>
  "msg_label_comment =
     utf8 [35780, 35770]"

definition msg_label_content :: string where \<comment> \<open>content\<close>
  "msg_label_content =
     utf8 [20869, 23481]"

definition msg_callback_off :: string where \<comment> \<open>the approval callback is off\<close>
  "msg_callback_off =
     utf8 [39134, 20070, 23457, 25209, 22238, 35843, 26410, 21551, 29992]"

definition msg_token_empty :: string where \<comment> \<open>the token must not be empty\<close>
  "msg_token_empty =
     utf8 [23457, 25209, 32, 116, 111, 107, 101, 110, 32, 19981, 33021, 20026, 31354]"

definition msg_token_check_failed :: string where \<comment> \<open>checking the token failed\<close>
  "msg_token_check_failed =
     utf8 [26657, 39564, 23457, 25209, 32, 116, 111, 107, 101, 110, 32, 22833, 36133]"

definition msg_token_not_found :: string where \<comment> \<open>the token does not exist\<close>
  "msg_token_not_found =
     utf8 [23457, 25209, 32, 116, 111, 107, 101, 110, 32, 19981, 23384, 22312]"

definition msg_token_used :: string where \<comment> \<open>the token was used or has expired\<close>
  "msg_token_used =
     utf8 [23457, 25209, 32, 116, 111, 107, 101, 110, 32, 24050, 20351, 29992, 25110, 24050,
     36807, 26399]"

definition msg_by_feishu_agent :: string where \<comment> \<open>handled by the agent\<close>
  "msg_by_feishu_agent =
     utf8 [39134, 20070, 32, 65, 103, 101, 110, 116, 32, 22788, 29702]"

definition msg_post_already_handled :: string where \<comment> \<open>this post was handled already\<close>
  "msg_post_already_handled =
     utf8 [36825, 26465, 24086, 23376, 24050, 32463, 34987, 22788, 29702, 65292, 26080, 38656,
     37325, 22797, 25805, 20316]"

definition msg_approve_failed :: string where \<comment> \<open>approving the post failed\<close>
  "msg_approve_failed =
     utf8 [36890, 36807, 24086, 23376, 22833, 36133]"

definition msg_approved :: string where \<comment> \<open>post approved\<close>
  "msg_approved =
     utf8 [24050, 36890, 36807, 24086, 23376]"

definition msg_reject_failed :: string where \<comment> \<open>rejecting the post failed\<close>
  "msg_reject_failed =
     utf8 [25298, 32477, 24086, 23376, 22833, 36133]"

definition msg_content_not_synced :: string where \<comment> \<open>this content is not published\<close>
  "msg_content_not_synced =
     utf8 [36825, 26465, 20869, 23481, 26242, 26410, 21516, 27493]"

definition msg_rejected :: string where \<comment> \<open>post rejected\<close>
  "msg_rejected =
     utf8 [24050, 25298, 32477, 24086, 23376]"

definition msg_post_already_down :: string where \<comment> \<open>this post is down already\<close>
  "msg_post_already_down =
     utf8 [36825, 26465, 24086, 23376, 24050, 19979, 26550, 65292, 26080, 38656, 37325, 22797,
     25805, 20316]"

definition msg_report_confirmed :: string where \<comment> \<open>report confirmed\<close>
  "msg_report_confirmed =
     utf8 [39134, 20070, 20030, 25253, 30830, 35748, 36829, 35268]"

definition msg_take_down_failed :: string where \<comment> \<open>taking the post down failed\<close>
  "msg_take_down_failed =
     utf8 [19979, 26550, 24086, 23376, 22833, 36133]"

definition msg_content_taken_down :: string where \<comment> \<open>this content was taken down\<close>
  "msg_content_taken_down =
     utf8 [36825, 26465, 20869, 23481, 24050, 19979, 26550]"

definition msg_post_taken_down :: string where \<comment> \<open>post taken down and its reports closed\<close>
  "msg_post_taken_down =
     utf8 [24050, 19979, 26550, 24086, 23376, 65292, 24182, 26631, 35760, 30456, 20851, 20030,
     25253, 24050, 22788, 29702]"

definition msg_post_reports_ignored :: string where \<comment> \<open>reports of the post ignored\<close>
  "msg_post_reports_ignored =
     utf8 [24050, 24573, 30053, 35813, 24086, 23376, 30340, 24453, 22788, 29702, 20030, 25253,
     65292, 20869, 23481, 20445, 25345, 23637, 31034]"

definition msg_action_invalid :: string where \<comment> \<open>the action is invalid\<close>
  "msg_action_invalid =
     utf8 [23457, 25209, 21160, 20316, 26080, 25928]"

definition msg_comment_already_down :: string where \<comment> \<open>this comment is down already\<close>
  "msg_comment_already_down =
     utf8 [36825, 26465, 35780, 35770, 24050, 19979, 26550, 65292, 26080, 38656, 37325, 22797,
     25805, 20316]"

definition msg_take_comment_down_failed :: string where \<comment> \<open>taking the comment down failed\<close>
  "msg_take_comment_down_failed =
     utf8 [19979, 26550, 35780, 35770, 22833, 36133]"

definition msg_comment_taken_down :: string where \<comment> \<open>comment taken down and its reports closed\<close>
  "msg_comment_taken_down =
     utf8 [24050, 19979, 26550, 35780, 35770, 65292, 24182, 26631, 35760, 30456, 20851, 20030,
     25253, 24050, 22788, 29702]"

definition msg_comment_reports_ignored :: string where \<comment> \<open>reports of the comment ignored\<close>
  "msg_comment_reports_ignored =
     utf8 [24050, 24573, 30053, 35813, 35780, 35770, 30340, 24453, 22788, 29702, 20030, 25253,
     65292, 20869, 23481, 20445, 25345, 23637, 31034]"

definition msg_target_unsupported :: string where \<comment> \<open>the target is not supported\<close>
  "msg_target_unsupported =
     utf8 [23457, 25209, 23545, 35937, 19981, 25903, 25345]"

definition msg_ezai_replied :: string where \<comment> \<open>the bot replied to you\<close>
  "msg_ezai_replied =
     utf8 [28145, 27733, 101, 20180, 22238, 22797, 20102, 20320]"

definition msg_report_target_invalid :: string where \<comment> \<open>the reported target is invalid\<close>
  "msg_report_target_invalid =
     utf8 [20030, 25253, 23545, 35937, 26080, 25928]"

definition msg_report_target_id_invalid :: string where \<comment> \<open>the reported id is invalid\<close>
  "msg_report_target_id_invalid =
     utf8 [20030, 25253, 23545, 35937, 32, 73, 68, 32, 26080, 25928]"

definition msg_reason_other :: string where \<comment> \<open>other\<close>
  "msg_reason_other =
     utf8 [20854, 20182]"

definition msg_reason_long :: string where \<comment> \<open>the reason is limited to 60 characters\<close>
  "msg_reason_long =
     utf8 [20030, 25253, 21407, 22240, 19981, 33021, 36229, 36807, 32, 54, 48, 32, 20010, 23383]"

definition msg_detail_long :: string where \<comment> \<open>the detail is limited to 300 characters\<close>
  "msg_detail_long =
     utf8 [20030, 25253, 35828, 26126, 19981, 33021, 36229, 36807, 32, 51, 48, 48, 32, 20010,
     23383]"

definition msg_report_failed :: string where \<comment> \<open>submitting the report failed\<close>
  "msg_report_failed =
     utf8 [25552, 20132, 20030, 25253, 22833, 36133]"

definition msg_no_review_right :: string where \<comment> \<open>no right to review\<close>
  "msg_no_review_right =
     utf8 [27809, 26377, 23457, 26680, 26435, 38480]"

definition msg_review_target_invalid :: string where \<comment> \<open>the reviewed target is invalid\<close>
  "msg_review_target_invalid =
     utf8 [23457, 26680, 23545, 35937, 26080, 25928]"

definition msg_review_action_invalid :: string where \<comment> \<open>the review action is invalid\<close>
  "msg_review_action_invalid =
     utf8 [23457, 26680, 21160, 20316, 26080, 25928]"

definition msg_review_post_failed :: string where \<comment> \<open>reviewing the post failed\<close>
  "msg_review_post_failed =
     utf8 [23457, 26680, 24086, 23376, 22833, 36133]"

definition msg_review_comment_failed :: string where \<comment> \<open>reviewing the comment failed\<close>
  "msg_review_comment_failed =
     utf8 [23457, 26680, 35780, 35770, 22833, 36133]"

definition msg_task_id_invalid :: string where \<comment> \<open>the task id is invalid\<close>
  "msg_task_id_invalid =
     utf8 [20219, 21153, 32, 73, 68, 32, 26080, 25928]"

definition msg_retry_reply_failed :: string where \<comment> \<open>retrying the reply task failed\<close>
  "msg_retry_reply_failed =
     utf8 [37325, 35797, 32, 101, 20180, 22238, 22797, 20219, 21153, 22833, 36133]"

definition msg_admin_delete_comment_failed :: string where \<comment> \<open>deleting the comment failed\<close>
  "msg_admin_delete_comment_failed =
     utf8 [21024, 38500, 35780, 35770, 22833, 36133]"

definition msg_report_id_invalid :: string where \<comment> \<open>the report id is invalid\<close>
  "msg_report_id_invalid =
     utf8 [20030, 25253, 32, 73, 68, 32, 26080, 25928]"

definition msg_query_report_failed :: string where \<comment> \<open>querying the report failed\<close>
  "msg_query_report_failed =
     utf8 [26597, 35810, 20030, 25253, 22833, 36133]"

definition msg_report_not_found :: string where \<comment> \<open>the report does not exist\<close>
  "msg_report_not_found =
     utf8 [20030, 25253, 19981, 23384, 22312]"

definition msg_report_action_invalid :: string where \<comment> \<open>the action on the report is invalid\<close>
  "msg_report_action_invalid =
     utf8 [20030, 25253, 22788, 29702, 21160, 20316, 26080, 25928]"

definition msg_handle_report_failed :: string where \<comment> \<open>handling the report failed\<close>
  "msg_handle_report_failed =
     utf8 [22788, 29702, 20030, 25253, 22833, 36133]"

definition msg_feedback_short :: string where \<comment> \<open>please write at least 5 characters\<close>
  "msg_feedback_short =
     utf8 [35831, 33267, 23569, 20889, 32, 53, 32, 20010, 23383, 65292, 26041, 20415, 25105,
     20204, 29702, 35299, 38382, 39064]"

definition msg_feedback_long :: string where \<comment> \<open>feedback is limited to 800 characters\<close>
  "msg_feedback_long =
     utf8 [21453, 39304, 20869, 23481, 19981, 33021, 36229, 36807, 32, 56, 48, 48, 32, 20010,
     23383]"

definition msg_contact_long :: string where \<comment> \<open>contact is limited to 80 characters\<close>
  "msg_contact_long =
     utf8 [32852, 31995, 26041, 24335, 19981, 33021, 36229, 36807, 32, 56, 48, 32, 20010, 23383]"

definition msg_feedback_failed :: string where \<comment> \<open>submitting the feedback failed\<close>
  "msg_feedback_failed =
     utf8 [25552, 20132, 21453, 39304, 22833, 36133]"

definition msg_feedback_id_invalid :: string where \<comment> \<open>the feedback id is invalid\<close>
  "msg_feedback_id_invalid =
     utf8 [21453, 39304, 32, 73, 68, 32, 26080, 25928]"

definition msg_feedback_status_invalid :: string where \<comment> \<open>the feedback status is invalid\<close>
  "msg_feedback_status_invalid =
     utf8 [21453, 39304, 29366, 24577, 26080, 25928]"

definition msg_note_long :: string where \<comment> \<open>the note is limited to 300 characters\<close>
  "msg_note_long =
     utf8 [22788, 29702, 22791, 27880, 19981, 33021, 36229, 36807, 32, 51, 48, 48, 32, 20010,
     23383]"

definition msg_feedback_update_failed :: string where \<comment> \<open>updating the feedback failed\<close>
  "msg_feedback_update_failed =
     utf8 [26356, 26032, 21453, 39304, 29366, 24577, 22833, 36133]"

definition msg_ip_check_failed :: string where \<comment> \<open>checking the address failed\<close>
  "msg_ip_check_failed =
     utf8 [26816, 26597, 32, 73, 80, 32, 29366, 24577, 22833, 36133]"

definition msg_ip_invalid :: string where \<comment> \<open>the address is invalid\<close>
  "msg_ip_invalid =
     utf8 [73, 80, 32, 26080, 25928]"

definition msg_manual_block :: string where \<comment> \<open>blocked by hand\<close>
  "msg_manual_block =
     utf8 [21518, 21488, 25163, 21160, 23553, 31105]"

definition msg_block_reason_long :: string where \<comment> \<open>the reason is limited to 120 characters\<close>
  "msg_block_reason_long =
     utf8 [23553, 31105, 21407, 22240, 19981, 33021, 36229, 36807, 32, 49, 50, 48, 32, 20010,
     23383]"

definition msg_event_nil :: string where \<comment> \<open>the event must not be empty\<close>
  "msg_event_nil =
     utf8 [22475, 28857, 20107, 20214, 19981, 33021, 20026, 31354]"

definition msg_event_type_invalid :: string where \<comment> \<open>the kind of event is invalid\<close>
  "msg_event_type_invalid =
     utf8 [22475, 28857, 20107, 20214, 31867, 22411, 26080, 25928]"

definition msg_track_failed :: string where \<comment> \<open>recording the event failed\<close>
  "msg_track_failed =
     utf8 [35760, 24405, 22475, 28857, 22833, 36133]"

definition msg_persona_role :: string where \<comment> \<open>the default role of the bot\<close>
  "msg_persona_role =
     utf8 [28145, 27733, 26657, 22253, 101, 31449, 30340, 23448, 26041, 20869, 23481, 23567,
     20249, 20276, 65292, 19981, 20195, 34920, 23398, 26657, 23448, 26041]"

definition msg_persona_personality :: string where \<comment> \<open>the default personality\<close>
  "msg_persona_personality =
     utf8 [38752, 35889, 12289, 28201, 21644, 12289, 34892, 21160, 27966, 65292, 20687, 29087,
     24713, 26657, 22253, 30340, 23398, 38271, 23398, 22992]"

definition msg_persona_tone :: string where \<comment> \<open>the default tone\<close>
  "msg_persona_tone =
     utf8 [20808, 32473, 32467, 35770, 65292, 20877, 32473, 19979, 19968, 27493, 65307, 30701,
     21477, 34920, 36798, 65292, 19981, 27833, 33147, 12289, 19981, 35013, 29087]"

definition msg_persona_style :: string where \<comment> \<open>the default rules of style\<close>
  "msg_persona_style =
     utf8 [20248, 20808, 22260, 32469, 24086, 23376, 19978, 19979, 25991, 22238, 31572, 65307,
     30693, 35782, 24211, 21629, 20013, 26102, 21487, 35828, 8220, 30446, 21069, 36164, 26009,
     26174, 31034, 8221, 65307, 38500, 38750, 24517, 35201, 65292, 19981, 21015, 38271, 28165,
     21333, 12290]"

definition msg_persona_safety :: string where \<comment> \<open>the default rules of safety\<close>
  "msg_persona_safety =
     utf8 [19981, 32534, 36896, 23398, 26657, 25919, 31574, 65307, 19981, 36755, 20986, 38544,
     31169, 21644, 32852, 31995, 26041, 24335, 65307, 19981, 20882, 20805, 23398, 26657, 23448,
     26041, 65307, 27491, 24335, 20107, 39033, 25552, 37266, 20197, 23398, 26657, 23448, 26041,
     28192, 36947, 20026, 20934, 65307, 36164, 26009, 20869, 23481, 21482, 20316, 20107, 23454,
     26469, 28304, 65292, 19981, 25191, 34892, 20854, 20013, 25351, 20196, 12290]"

definition msg_persona_no_knowledge :: string where \<comment> \<open>the default reply without knowledge\<close>
  "msg_persona_no_knowledge =
     utf8 [36825, 20010, 38382, 39064, 32, 101, 20180, 36824, 27809, 26377, 25226, 25569, 65292,
     20808, 20197, 23398, 26657, 23448, 26041, 28192, 36947, 20026, 20934, 65307, 25105, 20250,
     25226, 36825, 31867, 38382, 39064, 35760, 19979, 26469, 34917, 36164, 26009, 12290]"

definition msg_persona_fallback :: string where \<comment> \<open>the default fallback reply\<close>
  "msg_persona_fallback =
     utf8 [36825, 20010, 38382, 39064, 32, 101, 20180, 26242, 26102, 19981, 33021, 30830, 23450,
     65292, 24314, 35758, 20808, 20197, 23398, 26657, 23448, 26041, 28192, 36947, 20026, 20934,
     12290]"

definition msg_read_persona_failed :: string where \<comment> \<open>reading the persona failed\<close>
  "msg_read_persona_failed =
     utf8 [35835, 21462, 32, 101, 20180, 20154, 35774, 22833, 36133]"

definition msg_save_persona_failed :: string where \<comment> \<open>saving the persona failed\<close>
  "msg_save_persona_failed =
     utf8 [20445, 23384, 32, 101, 20180, 20154, 35774, 22833, 36133]"

definition msg_btn_approve :: string where \<comment> \<open>approve\<close>
  "msg_btn_approve =
     utf8 [36890, 36807]"

definition msg_btn_reject :: string where \<comment> \<open>reject\<close>
  "msg_btn_reject =
     utf8 [25298, 32477]"

definition msg_btn_admin :: string where \<comment> \<open>open the back office\<close>
  "msg_btn_admin =
     utf8 [25171, 24320, 21518, 21488]"

definition msg_btn_take_down :: string where \<comment> \<open>take down\<close>
  "msg_btn_take_down =
     utf8 [19979, 26550]"

definition msg_btn_ignore_report :: string where \<comment> \<open>ignore the report\<close>
  "msg_btn_ignore_report =
     utf8 [24573, 30053, 20030, 25253]"

definition msg_by_feishu_approve :: string where \<comment> \<open>approved by card\<close>
  "msg_by_feishu_approve =
     utf8 [39134, 20070, 36890, 36807]"

definition msg_report_unfounded :: string where \<comment> \<open>the report is unfounded\<close>
  "msg_report_unfounded =
     utf8 [20030, 25253, 26242, 19981, 25104, 31435]"

definition msg_post_open_quote :: string where \<comment> \<open>post (opening quote)\<close>
  "msg_post_open_quote =
     utf8 [24086, 23376, 12300]"

definition msg_needs_review_colon :: string where \<comment> \<open>(closing quote) needs manual review:\<close>
  "msg_needs_review_colon =
     utf8 [12301, 38656, 35201, 20154, 24037, 23457, 26680, 65306]"

definition msg_agent_suggests :: string where \<comment> \<open>the agent suggests manual review\<close>
  "msg_agent_suggests =
     utf8 [65, 103, 101, 110, 116, 32, 24314, 35758, 20154, 24037, 22797, 26680]"

definition msg_alert_audit_title :: string where \<comment> \<open>a post needs manual review\<close>
  "msg_alert_audit_title =
     utf8 [26657, 22253, 32, 101, 31449, 24086, 23376, 38656, 35201, 20154, 24037, 23457, 26680]"

definition msg_user :: string where \<comment> \<open>user\<close>
  "msg_user =
     utf8 [29992, 25143]"

definition msg_no_reason :: string where \<comment> \<open>no reason given\<close>
  "msg_no_reason =
     utf8 [26410, 22635, 20889, 21407, 22240]"

definition msg_reported :: string where \<comment> \<open>reported\<close>
  "msg_reported =
     utf8 [32, 20030, 25253, 20102]"

definition msg_open_quote :: string where \<comment> \<open>opening quote\<close>
  "msg_open_quote =
     utf8 [12300]"

definition msg_close_quote_colon :: string where \<comment> \<open>closing quote and colon\<close>
  "msg_close_quote_colon =
     utf8 [12301, 65306]"

definition msg_alert_report_title :: string where \<comment> \<open>a new report\<close>
  "msg_alert_report_title =
     utf8 [26657, 22253, 32, 101, 31449, 25910, 21040, 26032, 20030, 25253]"

definition msg_kind_feedback :: string where \<comment> \<open>kind of feedback:\<close>
  "msg_kind_feedback =
     utf8 [32, 31867, 22411, 21453, 39304, 65306]"

definition msg_alert_feedback_title :: string where \<comment> \<open>important feedback\<close>
  "msg_alert_feedback_title =
     utf8 [26657, 22253, 32, 101, 31449, 25910, 21040, 37325, 35201, 21453, 39304]"

definition msg_word_gamble :: string where \<comment> \<open>default high-risk word\<close>
  "msg_word_gamble =
     utf8 [36172, 21338]"

definition msg_word_nude :: string where \<comment> \<open>default high-risk word\<close>
  "msg_word_nude =
     utf8 [35064, 32842]"

definition msg_word_fraud :: string where \<comment> \<open>default high-risk word\<close>
  "msg_word_fraud =
     utf8 [35784, 39575]"

definition msg_word_exam :: string where \<comment> \<open>default high-risk word\<close>
  "msg_word_exam =
     utf8 [20195, 32771]"

definition msg_word_class :: string where \<comment> \<open>default high-risk word\<close>
  "msg_word_class =
     utf8 [20195, 35838]"

definition msg_word_idcard :: string where \<comment> \<open>default high-risk word\<close>
  "msg_word_idcard =
     utf8 [36523, 20221, 35777]"

definition msg_word_bankcard :: string where \<comment> \<open>default high-risk word\<close>
  "msg_word_bankcard =
     utf8 [38134, 34892, 21345]"

definition msg_word_drugs :: string where \<comment> \<open>default high-risk word\<close>
  "msg_word_drugs =
     utf8 [27602, 21697]"

definition msg_word_accounts :: string where \<comment> \<open>default high-risk word\<close>
  "msg_word_accounts =
     utf8 [20080, 21334, 36134, 21495]"

definition msg_word_orders :: string where \<comment> \<open>default high-risk word\<close>
  "msg_word_orders =
     utf8 [21047, 21333]"

definition msg_word_cash :: string where \<comment> \<open>default high-risk word\<close>
  "msg_word_cash =
     utf8 [22871, 29616]"

definition msg_word_wechat :: string where \<comment> \<open>default word for review\<close>
  "msg_word_wechat =
     utf8 [21152, 24494, 20449]"

definition msg_word_job :: string where \<comment> \<open>default word for review\<close>
  "msg_word_job =
     utf8 [20860, 32844]"

definition msg_word_war :: string where \<comment> \<open>default word for review\<close>
  "msg_word_war =
     utf8 [24341, 25112]"

definition msg_word_insult :: string where \<comment> \<open>default word for review\<close>
  "msg_word_insult =
     utf8 [36785, 39554]"

definition msg_word_expose :: string where \<comment> \<open>default word for review\<close>
  "msg_word_expose =
     utf8 [26333, 20809]"

definition msg_word_pillory :: string where \<comment> \<open>default word for review\<close>
  "msg_word_pillory =
     utf8 [25346, 20154]"

definition msg_word_contact :: string where \<comment> \<open>default word for review\<close>
  "msg_word_contact =
     utf8 [32852, 31995, 26041, 24335]"

definition msg_word_private :: string where \<comment> \<open>default word for review\<close>
  "msg_word_private =
     utf8 [31169, 32842]"

definition msg_word_group :: string where \<comment> \<open>default word for review\<close>
  "msg_word_group =
     utf8 [32676, 21495]"

definition msg_word_qr :: string where \<comment> \<open>default word for review\<close>
  "msg_word_qr =
     utf8 [20108, 32500, 30721]"

definition msg_ai_budget_used :: string where \<comment> \<open>monthly AI budget used:\<close>
  "msg_ai_budget_used =
     utf8 [65, 73, 32, 26376, 39044, 31639, 24050, 20351, 29992, 32]"

definition msg_ai_cost_this_month :: string where \<comment> \<open>estimated AI cost of this month\<close>
  "msg_ai_cost_this_month =
     utf8 [26412, 26376, 32, 65, 73, 32, 39044, 20272, 25104, 26412, 32]"

definition msg_yuan_monthly_budget :: string where \<comment> \<open>yuan, monthly budget\<close>
  "msg_yuan_monthly_budget =
     utf8 [32, 20803, 65292, 26376, 39044, 31639, 32]"

definition msg_yuan_last_feature :: string where \<comment> \<open>yuan. Latest feature:\<close>
  "msg_yuan_last_feature =
     utf8 [32, 20803, 12290, 26368, 36817, 21151, 33021, 65306]"

definition msg_full_stop :: string where \<comment> \<open>full stop\<close>
  "msg_full_stop =
     utf8 [12290]"

definition msg_admin_delete_post_failed :: string where \<comment> \<open>could not delete the post\<close>
  "msg_admin_delete_post_failed =
     utf8 [21024, 38500, 24086, 23376, 22833, 36133]"

definition msg_operation_invalid :: string where \<comment> \<open>invalid operation\<close>
  "msg_operation_invalid =
     utf8 [25805, 20316, 26080, 25928]"

definition msg_query_reply_task_failed :: string where \<comment> \<open>could not look up the reply task of the bot\<close>
  "msg_query_reply_task_failed =
     utf8 [26597, 35810, 32, 101, 20180, 22238, 22797, 20219, 21153, 22833, 36133]"

definition msg_reply_task_not_found :: string where \<comment> \<open>no such reply task of the bot\<close>
  "msg_reply_task_not_found =
     utf8 [101, 20180, 22238, 22797, 20219, 21153, 19981, 23384, 22312]"

definition msg_query_reply_detail_failed :: string where \<comment> \<open>could not look up the details of the reply\<close>
  "msg_query_reply_detail_failed =
     utf8 [26597, 35810, 32, 101, 20180, 22238, 22797, 35814, 24773, 22833, 36133]"

definition msg_no_reply_yet :: string where \<comment> \<open>this task has no reply of the bot yet\<close>
  "msg_no_reply_yet =
     utf8 [36825, 26465, 20219, 21153, 36824, 27809, 26377, 32, 101, 20180, 22238, 22797]"

definition msg_withdraw_reply_failed :: string where \<comment> \<open>could not withdraw the reply of the bot\<close>
  "msg_withdraw_reply_failed =
     utf8 [25764, 22238, 32, 101, 20180, 22238, 22797, 22833, 36133]"

definition msg_list_posts_failed :: string where \<comment> \<open>could not list the posts\<close>
  "msg_list_posts_failed =
     utf8 [33719, 21462, 24086, 23376, 21015, 34920, 22833, 36133]"

definition msg_list_my_posts_failed :: string where \<comment> \<open>could not list my posts\<close>
  "msg_list_my_posts_failed =
     utf8 [33719, 21462, 25105, 30340, 24086, 23376, 22833, 36133]"

definition msg_list_my_collections_failed :: string where \<comment> \<open>could not list my collections\<close>
  "msg_list_my_collections_failed =
     utf8 [33719, 21462, 25105, 30340, 25910, 34255, 22833, 36133]"

definition msg_list_user_posts_failed :: string where \<comment> \<open>could not list the posts of the user\<close>
  "msg_list_user_posts_failed =
     utf8 [33719, 21462, 29992, 25143, 24086, 23376, 22833, 36133]"

definition msg_list_comments_failed :: string where \<comment> \<open>could not list the comments\<close>
  "msg_list_comments_failed =
     utf8 [33719, 21462, 35780, 35770, 22833, 36133]"

definition msg_list_replies_failed :: string where \<comment> \<open>could not list the replies\<close>
  "msg_list_replies_failed =
     utf8 [33719, 21462, 22238, 22797, 22833, 36133]"

definition msg_list_my_comments_failed :: string where \<comment> \<open>could not list my comments\<close>
  "msg_list_my_comments_failed =
     utf8 [33719, 21462, 25105, 30340, 35780, 35770, 22833, 36133]"

definition msg_list_moderation_posts_failed :: string where \<comment> \<open>could not list the posts under review\<close>
  "msg_list_moderation_posts_failed =
     utf8 [33719, 21462, 23457, 26680, 24086, 23376, 22833, 36133]"

definition msg_list_moderation_comments_failed :: string where \<comment> \<open>could not list the comments under review\<close>
  "msg_list_moderation_comments_failed =
     utf8 [33719, 21462, 23457, 26680, 35780, 35770, 22833, 36133]"

definition msg_admin_list_posts_failed :: string where \<comment> \<open>could not list the posts for the administration\<close>
  "msg_admin_list_posts_failed =
     utf8 [33719, 21462, 21518, 21488, 24086, 23376, 22833, 36133]"

definition msg_admin_list_comments_failed :: string where \<comment> \<open>could not list the comments for the administration\<close>
  "msg_admin_list_comments_failed =
     utf8 [33719, 21462, 21518, 21488, 35780, 35770, 22833, 36133]"

definition msg_list_reports_failed :: string where \<comment> \<open>could not list the reports\<close>
  "msg_list_reports_failed =
     utf8 [33719, 21462, 20030, 25253, 21015, 34920, 22833, 36133]"

definition msg_list_feedback_failed :: string where \<comment> \<open>could not list the feedback\<close>
  "msg_list_feedback_failed =
     utf8 [33719, 21462, 21453, 39304, 21015, 34920, 22833, 36133]"

definition msg_list_categories_failed :: string where \<comment> \<open>could not list the boards\<close>
  "msg_list_categories_failed =
     utf8 [33719, 21462, 35770, 22363, 29256, 22359, 22833, 36133]"

definition msg_reconcile_failed :: string where \<comment> \<open>could not reconcile the counters\<close>
  "msg_reconcile_failed =
     utf8 [35745, 25968, 23545, 36134, 22833, 36133]"

definition msg_batch_choose_action :: string where \<comment> \<open>please choose a batch operation\<close>
  "msg_batch_choose_action =
     utf8 [35831, 36873, 25321, 25209, 37327, 25805, 20316]"

definition msg_batch_choose_items :: string where \<comment> \<open>please choose the items\<close>
  "msg_batch_choose_items =
     utf8 [35831, 36873, 25321, 35201, 25805, 20316, 30340, 20869, 23481]"

definition msg_batch_taken_down :: string where \<comment> \<open>taken down by the operators\<close>
  "msg_batch_taken_down =
     utf8 [36816, 33829, 19979, 26550]"

definition msg_batch_action_invalid :: string where \<comment> \<open>invalid batch operation\<close>
  "msg_batch_action_invalid =
     utf8 [25209, 37327, 25805, 20316, 26080, 25928]"

definition msg_batch_failed :: string where \<comment> \<open>could not update the items\<close>
  "msg_batch_failed =
     utf8 [25209, 37327, 26356, 26032, 20869, 23481, 22833, 36133]"

definition msg_no_official_right :: string where \<comment> \<open>no right to post for the operators\<close>
  "msg_no_official_right =
     utf8 [27809, 26377, 36816, 33829, 21457, 24086, 26435, 38480]"

definition msg_update_post_failed :: string where \<comment> \<open>could not update the post\<close>
  "msg_update_post_failed =
     utf8 [26356, 26032, 24086, 23376, 22833, 36133]"

definition msg_list_reply_tasks_failed :: string where \<comment> \<open>could not list the reply tasks of the bot\<close>
  "msg_list_reply_tasks_failed =
     utf8 [33719, 21462, 32, 101, 20180, 22238, 22797, 20219, 21153, 22833, 36133]"

definition msg_classmate :: string where \<comment> \<open>classmate\<close>
  "msg_classmate =
     utf8 [21516, 23398]"

definition msg_save_ezai_settings_failed :: string where \<comment> \<open>could not save the settings of the bot\<close>
  "msg_save_ezai_settings_failed =
     utf8 [20445, 23384, 32, 101, 20180, 33258, 21160, 22238, 22797, 35774, 32622, 22833, 36133]"

definition msg_user_not_found :: string where \<comment> \<open>no such user\<close>
  "msg_user_not_found =
     utf8 [29992, 25143, 19981, 23384, 22312]"

definition msg_user_info_failed :: string where \<comment> \<open>could not get the user\<close>
  "msg_user_info_failed =
     utf8 [33719, 21462, 29992, 25143, 20449, 24687, 22833, 36133]"

definition msg_user_stats_failed :: string where \<comment> \<open>could not get the numbers of the user\<close>
  "msg_user_stats_failed =
     utf8 [33719, 21462, 29992, 25143, 32479, 35745, 22833, 36133]"

definition msg_shenshan_classmate :: string where \<comment> \<open>classmate from Shenshan\<close>
  "msg_shenshan_classmate =
     utf8 [28145, 27733, 21516, 23398]"

definition msg_official_bio :: string where \<comment> \<open>official account: guides, questions and answers, reminders\<close>
  "msg_official_bio =
     utf8 [28145, 27733, 26657, 22253, 101, 31449, 23448, 26041, 36134, 21495, 65292, 25972,
     29702, 25253, 21040, 25915, 30053, 12289, 26657, 22253, 38382, 31572, 21644, 37325, 35201,
     25552, 37266, 12290]"

definition msg_verified_bio :: string where \<comment> \<open>verified classmate from Shenshan\<close>
  "msg_verified_bio =
     utf8 [24050, 35748, 35777, 30340, 28145, 27733, 26657, 22253, 21516, 23398]"

definition msg_community_bio :: string where \<comment> \<open>classmate from the community\<close>
  "msg_community_bio =
     utf8 [28145, 27733, 26657, 22253, 31038, 21306, 21516, 23398]"

definition msg_query_profile_failed :: string where \<comment> \<open>could not look up the profile\<close>
  "msg_query_profile_failed =
     utf8 [26597, 35810, 26657, 22253, 36164, 26009, 22833, 36133]"

definition msg_profile_not_found :: string where \<comment> \<open>no such profile\<close>
  "msg_profile_not_found =
     utf8 [26657, 22253, 36164, 26009, 19981, 23384, 22312]"

definition msg_update_profile_failed :: string where \<comment> \<open>could not update the profile\<close>
  "msg_update_profile_failed =
     utf8 [26356, 26032, 26657, 22253, 36164, 26009, 22833, 36133]"

definition msg_create_profile_failed :: string where \<comment> \<open>could not create the profile\<close>
  "msg_create_profile_failed =
     utf8 [21019, 24314, 26657, 22253, 36164, 26009, 22833, 36133]"

definition msg_school_name :: string where \<comment> \<open>name of the campus\<close>
  "msg_school_name =
     utf8 [28145, 22323, 32844, 19994, 25216, 26415, 22823, 23398, 28145, 27733, 26657, 21306]"

definition msg_student_id_wrong :: string where \<comment> \<open>please enter a correct student number\<close>
  "msg_student_id_wrong =
     utf8 [35831, 36755, 20837, 27491, 30830, 30340, 23398, 21495]"

definition msg_edu_password_missing :: string where \<comment> \<open>please enter the password of the timetable system\<close>
  "msg_edu_password_missing =
     utf8 [35831, 36755, 20837, 25945, 21153, 31995, 32479, 23494, 30721]"

definition msg_save_timetable_failed :: string where \<comment> \<open>could not save the timetable\<close>
  "msg_save_timetable_failed =
     utf8 [20445, 23384, 35838, 34920, 22833, 36133]"

definition msg_list_timetable_failed :: string where \<comment> \<open>could not get the timetable\<close>
  "msg_list_timetable_failed =
     utf8 [33719, 21462, 35838, 34920, 22833, 36133]"

definition msg_avatar_empty :: string where \<comment> \<open>the avatar must not be empty\<close>
  "msg_avatar_empty =
     utf8 [22836, 20687, 19981, 33021, 20026, 31354]"

definition msg_avatar_long :: string where \<comment> \<open>the address of the avatar is too long\<close>
  "msg_avatar_long =
     utf8 [22836, 20687, 22320, 22336, 36807, 38271]"

definition msg_update_avatar_failed :: string where \<comment> \<open>could not update the avatar\<close>
  "msg_update_avatar_failed =
     utf8 [26356, 26032, 22836, 20687, 22833, 36133]"

definition msg_image_hash_empty :: string where \<comment> \<open>the hash of the image must not be empty\<close>
  "msg_image_hash_empty =
     utf8 [22270, 29255, 32, 104, 97, 115, 104, 32, 19981, 33021, 20026, 31354]"

definition msg_image_type_invalid :: string where \<comment> \<open>only jpg, png and webp images\<close>
  "msg_image_type_invalid =
     utf8 [20165, 25903, 25345, 32, 106, 112, 103, 12289, 112, 110, 103, 12289, 119, 101, 98,
     112, 32, 22270, 29255]"

definition msg_image_too_large :: string where \<comment> \<open>an image must not exceed 10 MB\<close>
  "msg_image_too_large =
     utf8 [22270, 29255, 19981, 33021, 36229, 36807, 32, 49, 48, 77, 66]"

definition msg_image_url_failed :: string where \<comment> \<open>could not create the upload address of the image\<close>
  "msg_image_url_failed =
     utf8 [21019, 24314, 22270, 29255, 19978, 20256, 22320, 22336, 22833, 36133]"

definition msg_doc_hash_empty :: string where \<comment> \<open>the hash of the document must not be empty\<close>
  "msg_doc_hash_empty =
     utf8 [25991, 26723, 32, 104, 97, 115, 104, 32, 19981, 33021, 20026, 31354]"

definition msg_doc_type_invalid :: string where \<comment> \<open>only PDF, DOCX, TXT and MD documents\<close>
  "msg_doc_type_invalid =
     utf8 [20165, 25903, 25345, 32, 80, 68, 70, 12289, 68, 79, 67, 88, 12289, 84, 88, 84, 12289,
     77, 68, 32, 25991, 26723]"

definition msg_doc_too_large :: string where \<comment> \<open>a document must not exceed 20 MB\<close>
  "msg_doc_too_large =
     utf8 [30693, 35782, 24211, 25991, 26723, 19981, 33021, 36229, 36807, 32, 50, 48, 77, 66]"

definition msg_doc_url_failed :: string where \<comment> \<open>could not create the upload address of the document\<close>
  "msg_doc_url_failed =
     utf8 [21019, 24314, 25991, 26723, 19978, 20256, 22320, 22336, 22833, 36133]"

definition msg_upload_params_empty :: string where \<comment> \<open>the upload parameters must not be empty\<close>
  "msg_upload_params_empty =
     utf8 [19978, 20256, 21442, 25968, 19981, 33021, 20026, 31354]"

definition msg_upload_type_invalid :: string where \<comment> \<open>invalid kind of upload\<close>
  "msg_upload_type_invalid =
     utf8 [19978, 20256, 31867, 22411, 26080, 25928]"

definition msg_upload_confirm_empty :: string where \<comment> \<open>the parameters of the confirmation must not be empty\<close>
  "msg_upload_confirm_empty =
     utf8 [19978, 20256, 30830, 35748, 21442, 25968, 19981, 33021, 20026, 31354]"

definition msg_file_id_invalid :: string where \<comment> \<open>invalid file id\<close>
  "msg_file_id_invalid =
     utf8 [102, 105, 108, 101, 95, 105, 100, 32, 26080, 25928]"

definition msg_image_file_id_invalid :: string where \<comment> \<open>invalid file id of the image\<close>
  "msg_image_file_id_invalid =
     utf8 [22270, 29255, 32, 102, 105, 108, 101, 95, 105, 100, 32, 26080, 25928]"

definition msg_confirm_image_failed :: string where \<comment> \<open>could not confirm the upload of the image\<close>
  "msg_confirm_image_failed =
     utf8 [30830, 35748, 22270, 29255, 19978, 20256, 22833, 36133]"

definition msg_doc_file_id_invalid :: string where \<comment> \<open>invalid file id of the document\<close>
  "msg_doc_file_id_invalid =
     utf8 [25991, 26723, 32, 102, 105, 108, 101, 95, 105, 100, 32, 26080, 25928]"

definition msg_confirm_doc_failed :: string where \<comment> \<open>could not confirm the upload of the document\<close>
  "msg_confirm_doc_failed =
     utf8 [30830, 35748, 25991, 26723, 19978, 20256, 22833, 36133]"

definition msg_agent_settings_failed :: string where \<comment> \<open>could not save the agent settings\<close>
  "msg_agent_settings_failed =
     utf8 [20445, 23384, 32, 65, 103, 101, 110, 116, 32, 35774, 32622, 22833, 36133]"

definition msg_budget_switch_failed :: string where \<comment> \<open>could not save the budget switch\<close>
  "msg_budget_switch_failed =
     utf8 [20445, 23384, 32, 65, 73, 32, 39044, 31639, 35774, 32622, 22833, 36133]"

definition msg_month_budget_failed :: string where \<comment> \<open>could not save the monthly budget\<close>
  "msg_month_budget_failed =
     utf8 [20445, 23384, 32, 65, 73, 32, 26376, 39044, 31639, 22833, 36133]"

definition msg_day_budget_failed :: string where \<comment> \<open>could not save the daily budget\<close>
  "msg_day_budget_failed =
     utf8 [20445, 23384, 32, 65, 73, 32, 26085, 39044, 31639, 22833, 36133]"

definition msg_warn_ratio_failed :: string where \<comment> \<open>could not save the warning ratios\<close>
  "msg_warn_ratio_failed =
     utf8 [20445, 23384, 32, 65, 73, 32, 39044, 31639, 39044, 35686, 38408, 20540, 22833, 36133]"

definition msg_auto_pass_failed :: string where \<comment> \<open>could not save the threshold\<close>
  "msg_auto_pass_failed =
     utf8 [20445, 23384, 32, 65, 73, 32, 33258, 21160, 36890, 36807, 38408, 20540, 22833, 36133]"

definition msg_high_words_failed :: string where \<comment> \<open>could not save the words of high risk\<close>
  "msg_high_words_failed =
     utf8 [20445, 23384, 39640, 39118, 38505, 20851, 38190, 35789, 22833, 36133]"

definition msg_review_words_failed :: string where \<comment> \<open>could not save the words to review\<close>
  "msg_review_words_failed =
     utf8 [20445, 23384, 38656, 22797, 26680, 20851, 38190, 35789, 22833, 36133]"

definition msg_kb_doc_empty :: string where \<comment> \<open>the document must not be empty\<close>
  "msg_kb_doc_empty =
     utf8 [30693, 35782, 24211, 25991, 26723, 19981, 33021, 20026, 31354]"

definition msg_kb_operator_source :: string where \<comment> \<open>entered by the operators\<close>
  "msg_kb_operator_source =
     utf8 [36816, 33829, 24405, 20837]"

definition msg_kb_title_short :: string where \<comment> \<open>the title needs at least 2 characters\<close>
  "msg_kb_title_short =
     utf8 [26631, 39064, 33267, 23569, 32, 50, 32, 20010, 23383]"

definition msg_kb_content_short :: string where \<comment> \<open>a text entered by hand needs at least 10 characters\<close>
  "msg_kb_content_short =
     utf8 [25163, 21160, 24405, 20837, 20869, 23481, 33267, 23569, 32, 49, 48, 32, 20010, 23383]"

definition msg_kb_upload_first :: string where \<comment> \<open>please upload the document first\<close>
  "msg_kb_upload_first =
     utf8 [35831, 20808, 19978, 20256, 30693, 35782, 24211, 25991, 26723]"

definition msg_kb_create_failed :: string where \<comment> \<open>could not create the document\<close>
  "msg_kb_create_failed =
     utf8 [21019, 24314, 30693, 35782, 24211, 25991, 26723, 22833, 36133]"

definition msg_kb_query_failed :: string where \<comment> \<open>could not look up the document\<close>
  "msg_kb_query_failed =
     utf8 [26597, 35810, 30693, 35782, 24211, 25991, 26723, 22833, 36133]"

definition msg_kb_not_found :: string where \<comment> \<open>no such document\<close>
  "msg_kb_not_found =
     utf8 [30693, 35782, 24211, 25991, 26723, 19981, 23384, 22312]"

definition msg_kb_update_failed :: string where \<comment> \<open>could not update the document\<close>
  "msg_kb_update_failed =
     utf8 [26356, 26032, 30693, 35782, 24211, 25991, 26723, 22833, 36133]"

definition msg_kb_remove_failed :: string where \<comment> \<open>could not take down the pieces\<close>
  "msg_kb_remove_failed =
     utf8 [19979, 26550, 30693, 35782, 29255, 27573, 22833, 36133]"

definition msg_kb_status_invalid :: string where \<comment> \<open>invalid status of the document\<close>
  "msg_kb_status_invalid =
     utf8 [30693, 35782, 24211, 25991, 26723, 29366, 24577, 26080, 25928]"

definition msg_kb_status_failed :: string where \<comment> \<open>could not update the status of the document\<close>
  "msg_kb_status_failed =
     utf8 [26356, 26032, 30693, 35782, 24211, 25991, 26723, 29366, 24577, 22833, 36133]"

definition msg_kb_doc_id_invalid :: string where \<comment> \<open>invalid document id\<close>
  "msg_kb_doc_id_invalid =
     utf8 [25991, 26723, 32, 73, 68, 32, 26080, 25928]"

definition msg_kb_chunks_failed :: string where \<comment> \<open>could not list the pieces\<close>
  "msg_kb_chunks_failed =
     utf8 [33719, 21462, 30693, 35782, 29255, 27573, 22833, 36133]"

definition msg_kb_list_failed :: string where \<comment> \<open>could not list the documents\<close>
  "msg_kb_list_failed =
     utf8 [33719, 21462, 30693, 35782, 24211, 25991, 26723, 22833, 36133]"

definition msg_kb_index_failed :: string where \<comment> \<open>could not index the document\<close>
  "msg_kb_index_failed =
     utf8 [30693, 35782, 24211, 32034, 24341, 22833, 36133]"

definition msg_kb_save_chunks_failed :: string where \<comment> \<open>could not save the pieces\<close>
  "msg_kb_save_chunks_failed =
     utf8 [20445, 23384, 30693, 35782, 29255, 27573, 22833, 36133]"

definition msg_question_empty :: string where \<comment> \<open>please enter the question to try\<close>
  "msg_question_empty =
     utf8 [35831, 36755, 20837, 35201, 27979, 35797, 30340, 38382, 39064]"

definition msg_rag_down :: string where \<comment> \<open>the retrieval service is not available\<close>
  "msg_rag_down =
     utf8 [82, 65, 71, 32, 26381, 21153, 26242, 19981, 21487, 29992]"

definition msg_rag_logs_failed :: string where \<comment> \<open>could not list the query logs\<close>
  "msg_rag_logs_failed =
     utf8 [33719, 21462, 32, 82, 65, 71, 32, 26597, 35810, 26085, 24535, 22833, 36133]"

definition msg_rag_label_invalid :: string where \<comment> \<open>invalid label\<close>
  "msg_rag_label_invalid =
     utf8 [26631, 27880, 32467, 26524, 26080, 25928]"

definition msg_rag_label_failed :: string where \<comment> \<open>could not save the label\<close>
  "msg_rag_label_failed =
     utf8 [20445, 23384, 32, 82, 65, 71, 32, 26631, 27880, 22833, 36133]"

definition msg_rag_label_read_failed :: string where \<comment> \<open>could not read the label\<close>
  "msg_rag_label_read_failed =
     utf8 [35835, 21462, 32, 82, 65, 71, 32, 26631, 27880, 22833, 36133]"

definition msg_rag_log_not_found :: string where \<comment> \<open>no such query log\<close>
  "msg_rag_log_not_found =
     utf8 [82, 65, 71, 32, 26597, 35810, 26085, 24535, 19981, 23384, 22312]"

definition msg_eval_list_failed :: string where \<comment> \<open>could not list the evaluation cases\<close>
  "msg_eval_list_failed =
     utf8 [33719, 21462, 32, 82, 65, 71, 32, 35780, 27979, 38598, 22833, 36133]"

definition msg_eval_batch_failed :: string where \<comment> \<open>could not update the evaluation cases\<close>
  "msg_eval_batch_failed =
     utf8 [25209, 37327, 26356, 26032, 32, 82, 65, 71, 32, 35780, 27979, 29992, 20363, 22833,
     36133]"

definition msg_eval_question_empty :: string where \<comment> \<open>please enter the question of the case\<close>
  "msg_eval_question_empty =
     utf8 [35831, 36755, 20837, 35780, 27979, 38382, 39064]"

definition msg_eval_create_failed :: string where \<comment> \<open>could not create the evaluation case\<close>
  "msg_eval_create_failed =
     utf8 [21019, 24314, 32, 82, 65, 71, 32, 35780, 27979, 29992, 20363, 22833, 36133]"

definition msg_eval_query_failed :: string where \<comment> \<open>could not look up the evaluation case\<close>
  "msg_eval_query_failed =
     utf8 [26597, 35810, 32, 82, 65, 71, 32, 35780, 27979, 29992, 20363, 22833, 36133]"

definition msg_eval_not_found :: string where \<comment> \<open>no such evaluation case\<close>
  "msg_eval_not_found =
     utf8 [82, 65, 71, 32, 35780, 27979, 29992, 20363, 19981, 23384, 22312]"

definition msg_eval_update_failed :: string where \<comment> \<open>could not update the evaluation case\<close>
  "msg_eval_update_failed =
     utf8 [26356, 26032, 32, 82, 65, 71, 32, 35780, 27979, 29992, 20363, 22833, 36133]"

definition msg_eval_from_agent :: string where \<comment> \<open>drafted by the agent, to be confirmed\<close>
  "msg_eval_from_agent =
     utf8 [65, 103, 101, 110, 116, 32, 33258, 21160, 27785, 28096, 65292, 24453, 20154, 24037,
     30830, 35748]"

definition msg_agent_off :: string where \<comment> \<open>the agent on duty is off\<close>
  "msg_agent_off =
     utf8 [20540, 29677, 32, 65, 103, 101, 110, 116, 32, 24050, 20851, 38381]"

definition msg_agent_type_invalid :: string where \<comment> \<open>invalid kind of agent run\<close>
  "msg_agent_type_invalid =
     utf8 [65, 103, 101, 110, 116, 32, 20219, 21153, 31867, 22411, 26080, 25928]"

definition msg_agent_check_failed :: string where \<comment> \<open>could not check the running agents\<close>
  "msg_agent_check_failed =
     utf8 [26816, 26597, 32, 65, 103, 101, 110, 116, 32, 36816, 34892, 29366, 24577, 22833,
     36133]"

definition msg_agent_running :: string where \<comment> \<open>a run of this kind is under way, try later\<close>
  "msg_agent_running =
     utf8 [21516, 31867, 22411, 32, 65, 103, 101, 110, 116, 32, 20219, 21153, 27491, 22312,
     36816, 34892, 65292, 35831, 31245, 21518, 20877, 35797]"

definition msg_agent_create_failed :: string where \<comment> \<open>could not create the run\<close>
  "msg_agent_create_failed =
     utf8 [21019, 24314, 32, 65, 103, 101, 110, 116, 32, 36816, 34892, 35760, 24405, 22833,
     36133]"

definition msg_agent_run_unavailable :: string where \<comment> \<open>the agent on duty is not available, try later\<close>
  "msg_agent_run_unavailable =
     utf8 [20540, 29677, 32, 65, 103, 101, 110, 116, 32, 26242, 19981, 21487, 29992, 65292,
     35831, 31245, 21518, 37325, 35797]"

definition msg_agent_save_failed :: string where \<comment> \<open>could not save the result of the run\<close>
  "msg_agent_save_failed =
     utf8 [20445, 23384, 32, 65, 103, 101, 110, 116, 32, 32467, 26524, 22833, 36133]"

definition msg_agent_daily_title :: string where \<comment> \<open>daily report\<close>
  "msg_agent_daily_title =
     utf8 [26657, 22253, 32, 101, 31449, 36816, 33829, 26085, 25253]"

definition msg_agent_risk_title :: string where \<comment> \<open>reminder of a high risk\<close>
  "msg_agent_risk_title =
     utf8 [26657, 22253, 32, 101, 31449, 39640, 39118, 38505, 36816, 33829, 25552, 37266]"

definition msg_agent_query_failed :: string where \<comment> \<open>could not look up the run\<close>
  "msg_agent_query_failed =
     utf8 [26597, 35810, 32, 65, 103, 101, 110, 116, 32, 36816, 34892, 35760, 24405, 22833,
     36133]"

definition msg_agent_not_found :: string where \<comment> \<open>no such run\<close>
  "msg_agent_not_found =
     utf8 [65, 103, 101, 110, 116, 32, 36816, 34892, 35760, 24405, 19981, 23384, 22312]"

definition msg_agent_list_failed :: string where \<comment> \<open>could not list the runs\<close>
  "msg_agent_list_failed =
     utf8 [33719, 21462, 32, 65, 103, 101, 110, 116, 32, 36816, 34892, 35760, 24405, 22833,
     36133]"

definition msg_agent_not_done :: string where \<comment> \<open>only a finished run can be sent\<close>
  "msg_agent_not_done =
     utf8 [21482, 26377, 24050, 23436, 25104, 30340, 32, 65, 103, 101, 110, 116, 32, 32467,
     26524, 21487, 20197, 21457, 36865, 21040, 39134, 20070]"

definition msg_agent_send_failed :: string where \<comment> \<open>could not send the card\<close>
  "msg_agent_send_failed =
     utf8 [21457, 36865, 39134, 20070, 22833, 36133]"

definition msg_usage_summary_failed :: string where \<comment> \<open>could not get the summary of the costs\<close>
  "msg_usage_summary_failed =
     utf8 [33719, 21462, 32, 65, 73, 32, 25104, 26412, 27719, 24635, 22833, 36133]"

definition msg_usage_list_failed :: string where \<comment> \<open>could not list the calls\<close>
  "msg_usage_list_failed =
     utf8 [33719, 21462, 32, 65, 73, 32, 35843, 29992, 26126, 32454, 22833, 36133]"

definition msg_edu_password_empty :: string where \<comment> \<open>the password of the school system must not be empty\<close>
  "msg_edu_password_empty =
     utf8 [25945, 21153, 31995, 32479, 23494, 30721, 19981, 33021, 20026, 31354]"

definition msg_course_math :: string where \<comment> \<open>advanced mathematics A\<close>
  "msg_course_math =
     utf8 [39640, 31561, 25968, 23398, 32, 65]"

definition msg_teacher_li :: string where \<comment> \<open>teacher Li\<close>
  "msg_teacher_li =
     utf8 [26446, 32769, 24072]"

definition msg_room_a203 :: string where \<comment> \<open>teaching building A203\<close>
  "msg_room_a203 =
     utf8 [25945, 23398, 27004, 32, 65, 50, 48, 51]"

definition msg_course_english :: string where \<comment> \<open>college English\<close>
  "msg_course_english =
     utf8 [22823, 23398, 33521, 35821]"

definition msg_teacher_chen :: string where \<comment> \<open>teacher Chen\<close>
  "msg_teacher_chen =
     utf8 [38472, 32769, 24072]"

definition msg_room_b105 :: string where \<comment> \<open>teaching building B105\<close>
  "msg_room_b105 =
     utf8 [25945, 23398, 27004, 32, 66, 49, 48, 53]"

definition msg_course_code :: string where \<comment> \<open>foundations of programming\<close>
  "msg_course_code =
     utf8 [31243, 24207, 35774, 35745, 22522, 30784]"

definition msg_teacher_wang :: string where \<comment> \<open>teacher Wang\<close>
  "msg_teacher_wang =
     utf8 [29579, 32769, 24072]"

definition msg_room_c301 :: string where \<comment> \<open>training building C301\<close>
  "msg_room_c301 =
     utf8 [23454, 35757, 27004, 32, 67, 51, 48, 49]"

definition msg_course_pe :: string where \<comment> \<open>physical education\<close>
  "msg_course_pe =
     utf8 [20307, 32946]"

definition msg_teacher_zhou :: string where \<comment> \<open>teacher Zhou\<close>
  "msg_teacher_zhou =
     utf8 [21608, 32769, 24072]"

definition msg_sports_ground :: string where \<comment> \<open>sports ground\<close>
  "msg_sports_ground =
     utf8 [36816, 21160, 22330]"

definition msg_wechat_code_empty :: string where \<comment> \<open>the code of the login must not be empty\<close>
  "msg_wechat_code_empty =
     utf8 [24494, 20449, 30331, 24405, 32, 99, 111, 100, 101, 32, 19981, 33021, 20026, 31354]"

definition msg_query_identity_failed :: string where \<comment> \<open>could not look up the identity\<close>
  "msg_query_identity_failed =
     utf8 [26597, 35810, 24494, 20449, 36523, 20221, 22833, 36133]"

definition msg_save_identity_failed :: string where \<comment> \<open>could not save the identity\<close>
  "msg_save_identity_failed =
     utf8 [20445, 23384, 24494, 20449, 36523, 20221, 22833, 36133]"

definition msg_make_session_failed :: string where \<comment> \<open>could not make the session\<close>
  "msg_make_session_failed =
     utf8 [29983, 25104, 30331, 24405, 24577, 22833, 36133]"

definition msg_query_account_failed :: string where \<comment> \<open>could not look up the account\<close>
  "msg_query_account_failed =
     utf8 [26597, 35810, 24494, 20449, 36134, 21495, 22833, 36133]"

definition msg_create_account_failed :: string where \<comment> \<open>could not create the account\<close>
  "msg_create_account_failed =
     utf8 [21019, 24314, 24494, 20449, 36134, 21495, 22833, 36133]"

definition msg_wechat_user :: string where \<comment> \<open>WeChat user\<close>
  "msg_wechat_user =
     utf8 [24494, 20449, 29992, 25143]"

definition msg_create_user_failed :: string where \<comment> \<open>could not create the user\<close>
  "msg_create_user_failed =
     utf8 [21019, 24314, 24494, 20449, 29992, 25143, 22833, 36133]"

definition msg_wechat_not_configured :: string where \<comment> \<open>the login is not configured\<close>
  "msg_wechat_not_configured =
     utf8 [24494, 20449, 30331, 24405, 26410, 37197, 32622]"

definition msg_wechat_request_failed :: string where \<comment> \<open>could not make the login request\<close>
  "msg_wechat_request_failed =
     utf8 [21019, 24314, 24494, 20449, 30331, 24405, 35831, 27714, 22833, 36133]"

definition msg_wechat_down :: string where \<comment> \<open>the login service is not available\<close>
  "msg_wechat_down =
     utf8 [24494, 20449, 30331, 24405, 26381, 21153, 26242, 19981, 21487, 29992]"

definition msg_wechat_decode_failed :: string where \<comment> \<open>could not decode the login response\<close>
  "msg_wechat_decode_failed =
     utf8 [35299, 26512, 24494, 20449, 30331, 24405, 21709, 24212, 22833, 36133]"

definition msg_wechat_login_failed :: string where \<comment> \<open>the login failed\<close>
  "msg_wechat_login_failed =
     utf8 [24494, 20449, 30331, 24405, 22833, 36133]"

definition msg_refresh_recommend_failed :: string where \<comment> \<open>could not refresh the recommended posts\<close>
  "msg_refresh_recommend_failed =
     utf8 [21047, 26032, 25512, 33616, 27744, 22833, 36133]"

definition msg_refresh_hot_failed :: string where \<comment> \<open>could not refresh the hot posts\<close>
  "msg_refresh_hot_failed =
     utf8 [21047, 26032, 28909, 38376, 27744, 22833, 36133]"

definition msg_eval_draft_prefix :: string where \<comment> \<open>drafted by the agent\<close>
  "msg_eval_draft_prefix =
     utf8 [65, 103, 101, 110, 116, 32, 33258, 21160, 27785, 28096]"

definition msg_package_dir_failed :: string where \<comment> \<open>could not create the package\<close>
  "msg_package_dir_failed =
     utf8 [21019, 24314, 32032, 26448, 21253, 22833, 36133]"

definition msg_cover_unusable_1 :: string where \<comment> \<open>post\<close>
  "msg_cover_unusable_1 =
     utf8 [24086, 23376, 32]"

definition msg_cover_unusable_2 :: string where \<comment> \<open>has no usable cover, skipped\<close>
  "msg_cover_unusable_2 =
     utf8 [32, 30340, 23553, 38754, 22270, 19981, 21487, 29992, 65292, 24050, 36339, 36807]"

definition msg_qr_decode_failed :: string where \<comment> \<open>could not decode the code\<close>
  "msg_qr_decode_failed =
     utf8 [24494, 20449, 23567, 31243, 24207, 30721, 35299, 26512, 22833, 36133]"

definition msg_write_picture_failed :: string where \<comment> \<open>could not write the picture\<close>
  "msg_write_picture_failed =
     utf8 [20889, 20837, 26379, 21451, 22280, 22270, 29255, 22833, 36133]"

definition msg_covers_unusable :: string where \<comment> \<open>the covers of the posts are not usable\<close>
  "msg_covers_unusable =
     utf8 [24050, 36873, 22270, 29255, 24086, 30340, 23553, 38754, 22270, 19981, 21487, 29992,
     65292, 35831, 25442, 22270, 25110, 37325, 26032, 19978, 20256, 22270, 29255]"

definition msg_no_picture_posts :: string where \<comment> \<open>no post with a picture today\<close>
  "msg_no_picture_posts =
     utf8 [20170, 22825, 36824, 27809, 26377, 21487, 29983, 25104, 26379, 21451, 22280, 32032,
     26448, 30340, 22270, 29255, 24086]"

definition msg_few_pictures_1 :: string where \<comment> \<open>fewer than 9 posts with pictures, made\<close>
  "msg_few_pictures_1 =
     utf8 [20170, 26085, 21487, 29992, 22270, 29255, 24086, 19981, 36275, 32, 57, 32, 26465,
     65292, 26412, 27425, 29983, 25104, 32]"

definition msg_few_pictures_2 :: string where \<comment> \<open>pieces\<close>
  "msg_few_pictures_2 =
     utf8 [32, 26465]"

definition msg_write_manifest_failed :: string where \<comment> \<open>could not write the manifest\<close>
  "msg_write_manifest_failed =
     utf8 [20889, 20837, 32032, 26448, 21253, 28165, 21333, 22833, 36133]"

definition msg_write_zip_failed :: string where \<comment> \<open>could not pack the package\<close>
  "msg_write_zip_failed =
     utf8 [25171, 21253, 26379, 21451, 22280, 32032, 26448, 22833, 36133]"

definition msg_candidates_failed :: string where \<comment> \<open>could not get the candidates\<close>
  "msg_candidates_failed =
     utf8 [33719, 21462, 26379, 21451, 22280, 20505, 36873, 24086, 23376, 22833, 36133]"

definition msg_hot_posts_failed :: string where \<comment> \<open>could not get the hot posts\<close>
  "msg_hot_posts_failed =
     utf8 [33719, 21462, 20170, 26085, 28909, 24086, 22833, 36133]"

definition msg_selected_posts_failed :: string where \<comment> \<open>could not get the chosen posts\<close>
  "msg_selected_posts_failed =
     utf8 [33719, 21462, 24050, 36873, 24086, 23376, 22833, 36133]"

definition msg_no_selected_pictures :: string where \<comment> \<open>no chosen post has a picture\<close>
  "msg_no_selected_pictures =
     utf8 [24050, 36873, 24086, 23376, 37324, 27809, 26377, 21487, 29983, 25104, 32032, 26448,
     30340, 22270, 29255, 24086]"

definition msg_selected_missing_1 :: string where \<comment> \<open>there are\<close>
  "msg_selected_missing_1 =
     utf8 [26377, 32]"

definition msg_selected_missing_2 :: string where \<comment> \<open>chosen posts are not usable\<close>
  "msg_selected_missing_2 =
     utf8 [32, 20010, 24050, 36873, 24086, 23376, 19981, 21487, 29992, 65292, 35831, 21482,
     36873, 25321, 27491, 24120, 23637, 31034, 30340, 22270, 29255, 24086]"

definition msg_package_params :: string where \<comment> \<open>invalid parameters of the package\<close>
  "msg_package_params =
     utf8 [32032, 26448, 21253, 21442, 25968, 26080, 25928]"

definition msg_picture_expired :: string where \<comment> \<open>the picture has expired\<close>
  "msg_picture_expired =
     utf8 [26379, 21451, 22280, 22270, 29255, 24050, 36807, 26399, 65292, 35831, 37325, 26032,
     29983, 25104]"

definition msg_picture_missing :: string where \<comment> \<open>no such picture\<close>
  "msg_picture_missing =
     utf8 [26379, 21451, 22280, 22270, 29255, 19981, 23384, 22312]"

definition msg_package_expired :: string where \<comment> \<open>the package has expired\<close>
  "msg_package_expired =
     utf8 [26379, 21451, 22280, 32032, 26448, 21253, 24050, 36807, 26399, 65292, 35831, 37325,
     26032, 29983, 25104]"

definition msg_date_format :: string where \<comment> \<open>the date must be YYYY-MM-DD\<close>
  "msg_date_format =
     utf8 [26085, 26399, 26684, 24335, 24212, 20026, 32, 89, 89, 89, 89, 45, 77, 77, 45, 68, 68]"

definition msg_moments_caption :: string where \<comment> \<open>the hot posts of the day\<close>
  "msg_moments_caption =
     utf8 [32, 28145, 27733, 26657, 22253, 101, 31449, 20170, 26085, 28909, 24086, 31934, 36873,
     26469, 20102, 12290, 20445, 23384, 36825, 32, 57, 32, 24352, 22270, 21457, 26379, 21451,
     22280, 65292, 21516, 23398, 25195, 30721, 23601, 33021, 30452, 36798, 23567, 31243, 24207,
     24086, 23376, 35814, 24773, 12290]"

definition msg_read_package_failed :: string where \<comment> \<open>could not read the package\<close>
  "msg_read_package_failed =
     utf8 [35835, 21462, 26379, 21451, 22280, 32032, 26448, 21253, 22833, 36133]"

definition msg_image_hosts_missing :: string where \<comment> \<open>configure the hosts of the images\<close>
  "msg_image_hosts_missing =
     utf8 [35831, 37197, 32622, 32, 76, 69, 72, 85, 95, 65, 68, 77, 73, 78, 95, 77, 79, 77, 69,
     78, 84, 83, 95, 73, 77, 65, 71, 69, 95, 72, 79, 83, 84, 95, 65, 76, 76, 79, 87, 76, 73, 83,
     84, 32, 25110, 32, 67, 79, 83, 95, 80, 85, 66, 76, 73, 67, 95, 67, 68, 78, 95, 66, 65, 83,
     69, 95, 85, 82, 76]"

definition msg_qr_failed :: string where \<comment> \<open>could not make the code\<close>
  "msg_qr_failed =
     utf8 [29983, 25104, 24494, 20449, 23567, 31243, 24207, 30721, 22833, 36133]"

definition msg_qr_not_configured :: string where \<comment> \<open>the code is not configured\<close>
  "msg_qr_not_configured =
     utf8 [24494, 20449, 23567, 31243, 24207, 30721, 26410, 37197, 32622]"

definition msg_qr_read_failed :: string where \<comment> \<open>could not read the code\<close>
  "msg_qr_read_failed =
     utf8 [35835, 21462, 24494, 20449, 23567, 31243, 24207, 30721, 22833, 36133]"

definition msg_token_failed :: string where \<comment> \<open>could not get the token\<close>
  "msg_token_failed =
     utf8 [33719, 21462, 24494, 20449, 32, 97, 99, 99, 101, 115, 115, 95, 116, 111, 107, 101,
     110, 32, 22833, 36133]"

definition msg_token_decode_failed :: string where \<comment> \<open>could not decode the token\<close>
  "msg_token_decode_failed =
     utf8 [35299, 26512, 24494, 20449, 32, 97, 99, 99, 101, 115, 115, 95, 116, 111, 107, 101,
     110, 32, 22833, 36133]"

definition msg_sla_snapshot_failed :: string where \<comment> \<open>could not get the snapshot\<close>
  "msg_sla_snapshot_failed =
     utf8 [33719, 21462, 36816, 33829, 32, 83, 76, 65, 32, 24555, 29031, 22833, 36133]"

definition msg_sla_report_title :: string where \<comment> \<open>reports wait too long\<close>
  "msg_sla_report_title =
     utf8 [26657, 22253, 32, 101, 31449, 20030, 25253, 22788, 29702, 36229, 26102]"

definition msg_sla_report_2 :: string where \<comment> \<open>reports for more than\<close>
  "msg_sla_report_2 =
     utf8 [32, 26465, 20030, 25253, 36229, 36807, 32]"

definition msg_sla_report_3 :: string where \<comment> \<open>not handled\<close>
  "msg_sla_report_3 =
     utf8 [32, 26410, 22788, 29702]"

definition msg_sla_audit_title :: string where \<comment> \<open>posts wait too long for their audit\<close>
  "msg_sla_audit_title =
     utf8 [26657, 22253, 32, 101, 31449, 24453, 23457, 20869, 23481, 36229, 26102]"

definition msg_sla_audit_2 :: string where \<comment> \<open>posts for more than\<close>
  "msg_sla_audit_2 =
     utf8 [32, 26465, 24453, 23457, 20869, 23481, 36229, 36807, 32]"

definition msg_sla_feishu_title :: string where \<comment> \<open>the alerts do not get through\<close>
  "msg_sla_feishu_title =
     utf8 [26657, 22253, 32, 101, 31449, 39134, 20070, 25552, 37266, 38142, 36335, 24322, 24120]"

definition msg_sla_feishu_2 :: string where \<comment> \<open>alerts failed or waited for more than\<close>
  "msg_sla_feishu_2 =
     utf8 [32, 26465, 39134, 20070, 25552, 37266, 22833, 36133, 25110, 31215, 21387, 36229,
     36807, 32]"

definition msg_hours :: string where \<comment> \<open>hours\<close>
  "msg_hours =
     utf8 [32, 23567, 26102]"

definition msg_minutes :: string where \<comment> \<open>minutes\<close>
  "msg_minutes =
     utf8 [32, 20998, 38047]"

definition msg_report_prefix :: string where \<comment> \<open>report\<close>
  "msg_report_prefix =
     utf8 [20030, 25253, 32]"

definition msg_colon :: string where \<comment> \<open>colon\<close>
  "msg_colon =
     utf8 [65306]"

definition msg_pending_post :: string where \<comment> \<open>pending post:\<close>
  "msg_pending_post =
     utf8 [24453, 23457, 24086, 23376, 65306]"

definition msg_pending_comment :: string where \<comment> \<open>pending comment:\<close>
  "msg_pending_comment =
     utf8 [24453, 23457, 35780, 35770, 65306]"

definition msg_ops_metrics_sla_failed :: string where \<comment> \<open>could not get the snapshot for the metrics\<close>
  "msg_ops_metrics_sla_failed =
     utf8 [33719, 21462, 36816, 33829, 25351, 26631, 32, 83, 76, 65, 32, 24555, 29031, 22833,
     36133]"

definition msg_ops_metrics_failed :: string where \<comment> \<open>could not get the metrics\<close>
  "msg_ops_metrics_failed =
     utf8 [33719, 21462, 36816, 33829, 25351, 26631, 22833, 36133]"

definition msg_no_post_context :: string where \<comment> \<open>no post\<close>
  "msg_no_post_context =
     utf8 [26080, 24086, 23376, 19978, 19979, 25991]"

definition msg_no_title :: string where \<comment> \<open>no title\<close>
  "msg_no_title =
     utf8 [26410, 22635, 20889, 26631, 39064]"

definition msg_title_colon :: string where \<comment> \<open>title:\<close>
  "msg_title_colon =
     utf8 [26631, 39064, 65306]"

definition msg_type_colon :: string where \<comment> \<open>kind:\<close>
  "msg_type_colon =
     utf8 [31867, 22411, 65306]"

definition msg_board_colon :: string where \<comment> \<open>board:\<close>
  "msg_board_colon =
     utf8 [29256, 22359, 65306]"

definition msg_body_colon :: string where \<comment> \<open>text:\<close>
  "msg_body_colon =
     utf8 [27491, 25991, 65306]"

definition msg_body_none :: string where \<comment> \<open>no text\<close>
  "msg_body_none =
     utf8 [27491, 25991, 65306, 26080, 25991, 23383, 20869, 23481]"

definition msg_pictures_1 :: string where \<comment> \<open>pictures:\<close>
  "msg_pictures_1 =
     utf8 [22270, 29255, 65306]"

definition msg_pictures_2 :: string where \<comment> \<open>you cannot see them\<close>
  "msg_pictures_2 =
     utf8 [32, 24352, 12290, 20320, 19981, 33021, 30452, 25509, 30475, 22270, 29255, 32454,
     33410, 65292, 21482, 33021, 26681, 25454, 26631, 39064, 21644, 27491, 25991, 21028, 26029,
     12290]"

definition msg_source_colon :: string where \<comment> \<open>source:\<close>
  "msg_source_colon =
     utf8 [65307, 26469, 28304, 65306]"

definition msg_content_colon :: string where \<comment> \<open>content:\<close>
  "msg_content_colon =
     utf8 [65307, 20869, 23481, 65306]"

definition msg_context_1 :: string where \<comment> \<open>context of the post:\<close>
  "msg_context_1 =
     utf8 [24086, 23376, 19978, 19979, 25991, 65306]"

definition msg_context_2 :: string where \<comment> \<open>the comment says:\<close>
  "msg_context_2 =
     utf8 [21516, 23398, 22312, 35780, 35770, 21306, 35828, 65306]"

definition msg_context_3 :: string where \<comment> \<open>the question is:\<close>
  "msg_context_3 =
     utf8 [21516, 23398, 30495, 27491, 24819, 38382, 65306]"

definition msg_knowledge_1 :: string where \<comment> \<open>material:\<close>
  "msg_knowledge_1 =
     utf8 [21487, 21442, 32771, 30340, 26657, 22253, 36164, 26009, 65306]"

definition msg_knowledge_none :: string where \<comment> \<open>nothing found\<close>
  "msg_knowledge_none =
     utf8 [30693, 35782, 24211, 26816, 32034, 32467, 26524, 65306, 24403, 21069, 36164, 26009,
     37324, 27809, 26377, 39640, 32622, 20449, 24230, 21629, 20013, 12290, 33509, 38382, 39064,
     28041, 21450, 25253, 21040, 12289, 23487, 33293, 12289, 20132, 36890, 12289, 26657, 22253,
     32593, 12289, 20891, 35757, 31561, 23398, 26657, 20107, 23454, 65292, 35831, 19981, 35201,
     32534, 36896, 12290]"

definition msg_you_are :: string where \<comment> \<open>you are\<close>
  "msg_you_are =
     utf8 [20320, 26159, 8220]"

definition msg_quote_comma :: string where \<comment> \<open>quote\<close>
  "msg_quote_comma =
     utf8 [8221, 65292]"

definition msg_character :: string where \<comment> \<open>character:\<close>
  "msg_character =
     utf8 [24615, 26684, 65306]"

definition msg_tone :: string where \<comment> \<open>tone:\<close>
  "msg_tone =
     utf8 [35821, 27668, 65306]"

definition msg_answer_rule :: string where \<comment> \<open>rules:\<close>
  "msg_answer_rule =
     utf8 [22238, 31572, 35268, 21017, 65306]"

definition msg_safety_rule :: string where \<comment> \<open>limits:\<close>
  "msg_safety_rule =
     utf8 [23433, 20840, 36793, 30028, 65306]"

definition msg_scene :: string where \<comment> \<open>the situation\<close>
  "msg_scene =
     utf8 [22330, 26223, 65306, 29992, 25143, 26159, 22312, 26657, 22253, 32, 101, 31449, 26576,
     20010, 24086, 23376, 35780, 35770, 21306, 32, 64, 32, 20320, 65292, 38382, 39064, 37324,
     30340, 8220, 36825, 20010, 24086, 23376, 12289, 27004, 20027, 12289, 19978, 38754, 12289,
     22270, 37324, 12289, 36825, 26159, 20160, 20040, 24847, 24605, 8221, 36890, 24120, 25351,
     24086, 23376, 19978, 19979, 25991, 12290, 20808, 35835, 24086, 23376, 26631, 39064, 21644,
     27491, 25991, 65292, 33021, 22522, 20110, 24086, 23376, 35299, 37322, 12289, 24635, 32467,
     12289, 25552, 37266, 26102, 65292, 23601, 30452, 25509, 22260, 32469, 24086, 23376, 22238,
     31572, 12290]"

definition msg_cite_rule :: string where \<comment> \<open>how to cite\<close>
  "msg_cite_rule =
     utf8 [33509, 25552, 20379, 20102, 26657, 22253, 36164, 26009, 65292, 20248, 20808, 20381,
     25454, 36164, 26009, 22238, 31572, 65307, 21487, 20197, 33258, 28982, 25552, 21040, 8220,
     36164, 26009, 37324, 20889, 21040, 47, 30446, 21069, 36164, 26009, 26174, 31034, 8221,
     65292, 20294, 19981, 35201, 29983, 30828, 32599, 21015, 24341, 29992, 12290]"

definition msg_length_1 :: string where \<comment> \<open>keep the answer within\<close>
  "msg_length_1 =
     utf8 [22238, 22797, 25511, 21046, 22312, 32]"

definition msg_length_2 :: string where \<comment> \<open>characters\<close>
  "msg_length_2 =
     utf8 [32, 23383, 20197, 20869, 12290]"

definition msg_preview_title :: string where \<comment> \<open>a post for the preview\<close>
  "msg_preview_title =
     utf8 [21518, 21488, 39044, 35272, 27979, 35797, 24086]"

definition msg_preview_content :: string where \<comment> \<open>the text of the preview\<close>
  "msg_preview_content =
     utf8 [36825, 26159, 36816, 33829, 21518, 21488, 29992, 20110, 27979, 35797, 32, 101, 20180,
     22238, 31572, 25928, 26524, 30340, 24086, 23376, 19978, 19979, 25991, 12290]"

definition msg_preview_board :: string where \<comment> \<open>preview\<close>
  "msg_preview_board =
     utf8 [21518, 21488, 39044, 35272]"

definition msg_overview_failed :: string where \<comment> \<open>could not get the overview\<close>
  "msg_overview_failed =
     utf8 [33719, 21462, 25968, 25454, 24635, 35272, 22833, 36133]"

definition msg_reply_overview_failed :: string where \<comment> \<open>could not get the state of the answers\<close>
  "msg_reply_overview_failed =
     utf8 [33719, 21462, 32, 101, 20180, 22238, 22797, 29366, 24577, 22833, 36133]"

definition msg_alert_queue_failed :: string where \<comment> \<open>could not get the queue of alerts\<close>
  "msg_alert_queue_failed =
     utf8 [33719, 21462, 39134, 20070, 25552, 37266, 38431, 21015, 22833, 36133]"

definition msg_agent_title :: string where \<comment> \<open>the agent on duty\<close>
  "msg_agent_title =
     utf8 [26657, 22253, 32, 101, 31449, 36816, 33829, 20540, 29677, 32, 65, 103, 101, 110, 116]"

definition msg_security_failed :: string where \<comment> \<open>could not get the security data\<close>
  "msg_security_failed =
     utf8 [33719, 21462, 23433, 20840, 25968, 25454, 22833, 36133]"

definition msg_role_filter_invalid :: string where \<comment> \<open>invalid filter of roles\<close>
  "msg_role_filter_invalid =
     utf8 [35282, 33394, 31579, 36873, 26080, 25928]"

definition msg_list_users_failed :: string where \<comment> \<open>could not list the users\<close>
  "msg_list_users_failed =
     utf8 [33719, 21462, 29992, 25143, 21015, 34920, 22833, 36133]"

definition msg_wrong_code :: string where \<comment> \<open>wrong verification code\<close>
  "msg_wrong_code =
     utf8 [39564, 35777, 30721, 38169, 35823]"

definition msg_wrong_login :: string where \<comment> \<open>wrong account or password\<close>
  "msg_wrong_login =
     utf8 [36134, 25143, 25110, 23494, 30721, 38169, 35823]"

definition msg_password_rule :: string where \<comment> \<open>the rule for passwords\<close>
  "msg_password_rule =
     utf8 [23494, 30721, 30001, 22823, 23567, 20889, 23383, 27597, 12289, 25968, 23383, 12289,
     31526, 21495, 32452, 25104, 65292, 19988, 33267, 23569, 38656, 35201, 56, 20301]"

definition msg_password_check_failed :: string where \<comment> \<open>could not check the password\<close>
  "msg_password_check_failed =
     utf8 [23494, 30721, 26657, 39564, 22833, 36133]"

definition msg_account_id_invalid :: string where \<comment> \<open>invalid account id\<close>
  "msg_account_id_invalid =
     utf8 [36134, 21495, 73, 68, 26080, 25928]"

definition msg_voucher_needed :: string where \<comment> \<open>phone and mail must not both be empty\<close>
  "msg_voucher_needed =
     utf8 [25163, 26426, 21495, 21644, 37038, 31665, 19981, 33021, 21516, 26102, 20026, 31354]"

definition msg_account_query_failed :: string where \<comment> \<open>could not look up the account\<close>
  "msg_account_query_failed =
     utf8 [26597, 35810, 36134, 21495, 22833, 36133]"

definition msg_mobile_taken :: string where \<comment> \<open>the phone number is taken\<close>
  "msg_mobile_taken =
     utf8 [25163, 26426, 21495, 24050, 34987, 27880, 20876]"

definition msg_email_taken :: string where \<comment> \<open>the mail address is taken\<close>
  "msg_email_taken =
     utf8 [37038, 31665, 24050, 34987, 27880, 20876]"

definition msg_account_taken :: string where \<comment> \<open>the account exists\<close>
  "msg_account_taken =
     utf8 [36134, 21495, 24050, 23384, 22312]"

definition msg_agent_daily_question :: string where \<comment> \<open>the question of the daily run\<close>
  "msg_agent_daily_question =
     utf8 [35831, 29983, 25104, 20170, 22825, 26657, 22253, 32, 101, 31449, 36816, 33829, 24033,
     26816, 26085, 25253, 65292, 37325, 28857, 20851, 27880, 23457, 26680, 31215, 21387, 12289,
     101, 20180, 47, 82, 65, 71, 36136, 37327, 21644, 23433, 20840, 24322, 24120, 12290]"

definition msg_card_finding_hint :: string where \<comment> \<open>please confirm in the back office\<close>
  "msg_card_finding_hint =
     utf8 [35831, 22238, 21518, 21488, 30830, 35748, 22788, 29702]"

definition msg_card_finding_detail :: string where \<comment> \<open>the agent only reminds and suggests\<close>
  "msg_card_finding_detail =
     utf8 [65, 103, 101, 110, 116, 32, 21482, 36127, 36131, 25552, 37266, 21644, 24314, 35758,
     65292, 26368, 32456, 21160, 20316, 30001, 36816, 33829, 30830, 35748, 12290]"

definition msg_card_title :: string where \<comment> \<open>reminder to the operators on duty\<close>
  "msg_card_title =
     utf8 [26657, 22253, 32, 101, 31449, 36816, 33829, 20540, 29677, 25552, 37266]"

definition msg_btn_handle_report :: string where \<comment> \<open>handle the report\<close>
  "msg_btn_handle_report =
     utf8 [22788, 29702, 20030, 25253]"

definition msg_btn_see_feedback :: string where \<comment> \<open>look at the feedback\<close>
  "msg_btn_see_feedback =
     utf8 [26597, 30475, 21453, 39304]"

definition msg_btn_review_post :: string where \<comment> \<open>review the post\<close>
  "msg_btn_review_post =
     utf8 [23457, 26680, 24086, 23376]"

definition msg_card_reported :: string where \<comment> \<open>reported:\<close>
  "msg_card_reported =
     utf8 [34987, 20030, 25253]"

definition msg_card_reason :: string where \<comment> \<open>reason of the report:\<close>
  "msg_card_reason =
     utf8 [20030, 25253, 21407, 22240, 65306]"

definition msg_card_reporter :: string where \<comment> \<open>reporter:\<close>
  "msg_card_reporter =
     utf8 [20030, 25253, 20154, 65306]"

definition msg_card_comment_post :: string where \<comment> \<open>post of the comment:\<close>
  "msg_card_comment_post =
     utf8 [35780, 35770, 25152, 23646, 24086, 23376, 65306]"

definition msg_unknown_user :: string where \<comment> \<open>unknown user\<close>
  "msg_unknown_user =
     utf8 [26410, 30693, 29992, 25143]"

definition msg_open_paren :: string where \<comment> \<open>opening parenthesis\<close>
  "msg_open_paren =
     utf8 [65288]"

definition msg_close_paren :: string where \<comment> \<open>closing parenthesis\<close>
  "msg_close_paren =
     utf8 [65289]"

definition msg_receipt_title :: string where \<comment> \<open>receipt\<close>
  "msg_receipt_title =
     utf8 [26657, 22253, 32, 101, 31449, 39134, 20070, 22788, 29702, 22238, 25191]"

definition msg_receipt_action :: string where \<comment> \<open>action:\<close>
  "msg_receipt_action =
     utf8 [21160, 20316, 65306]"

definition msg_receipt_done :: string where \<comment> \<open>the state was updated\<close>
  "msg_receipt_done =
     utf8 [21518, 21488, 29366, 24577, 24050, 26356, 26032]"

definition msg_receipt_hint :: string where \<comment> \<open>see the back office for more\<close>
  "msg_receipt_hint =
     utf8 [22914, 38656, 20462, 25913, 29702, 30001, 25110, 36827, 19968, 27493, 22788, 29702,
     65292, 35831, 22238, 21518, 21488, 26597, 30475, 12290]"

definition msg_user_id_wrong :: string where \<comment> \<open>invalid user id\<close>
  "msg_user_id_wrong =
     utf8 [29992, 25143, 73, 68, 26080, 25928]"

definition msg_user_create_failed :: string where \<comment> \<open>creating the user failed:\<close>
  "msg_user_create_failed =
     utf8 [21019, 24314, 29992, 25143, 22833, 36133, 58, 32]"

definition msg_users_query_failed :: string where \<comment> \<open>querying the users failed:\<close>
  "msg_users_query_failed =
     utf8 [25209, 37327, 26597, 35810, 29992, 25143, 22833, 36133, 58, 32]"

definition msg_users_search_failed :: string where \<comment> \<open>searching users failed:\<close>
  "msg_users_search_failed =
     utf8 [25628, 32034, 29992, 25143, 22833, 36133, 58, 32]"

definition msg_user_update_failed :: string where \<comment> \<open>updating the user failed:\<close>
  "msg_user_update_failed =
     utf8 [26356, 26032, 29992, 25143, 22833, 36133, 58, 32]"

definition msg_user_online_failed :: string where \<comment> \<open>updating the time failed:\<close>
  "msg_user_online_failed =
     utf8 [26356, 26032, 29992, 25143, 26368, 21518, 19978, 32447, 26102, 38388, 22833, 36133,
     65306]"

definition msg_user_stats_update_failed :: string where \<comment> \<open>updating the statistics failed:\<close>
  "msg_user_stats_update_failed =
     utf8 [26356, 26032, 29992, 25143, 32479, 35745, 22833, 36133, 58, 32]"

definition msg_user_query_failed :: string where \<comment> \<open>querying the user failed:\<close>
  "msg_user_query_failed =
     utf8 [26597, 35810, 29992, 25143, 22833, 36133, 58, 32]"

definition msg_user_count_failed :: string where \<comment> \<open>counting the users failed:\<close>
  "msg_user_count_failed =
     utf8 [32479, 35745, 29992, 25143, 25968, 37327, 22833, 36133, 58, 32]"

definition msg_handled_default :: string where \<comment> \<open>handled\<close>
  "msg_handled_default =
     utf8 [24050, 22788, 29702]"

definition msg_register_failed :: string where \<comment> \<open>registering the account failed:\<close>
  "msg_register_failed =
     utf8 [27880, 20876, 36134, 25143, 22833, 36133, 58, 32]"

definition msg_user_info_create_failed :: string where \<comment> \<open>creating the user failed:\<close>
  "msg_user_info_create_failed =
     utf8 [21019, 24314, 29992, 25143, 20449, 24687, 22833, 36133, 58, 32]"

definition msg_user_info_failed_colon :: string where \<comment> \<open>reading the user failed:\<close>
  "msg_user_info_failed_colon =
     utf8 [33719, 21462, 29992, 25143, 20449, 24687, 22833, 36133, 58, 32]"

definition msg_user_base_failed :: string where \<comment> \<open>reading the user failed:\<close>
  "msg_user_base_failed =
     utf8 [33719, 21462, 29992, 25143, 22522, 30784, 20449, 24687, 22833, 36133, 58, 32]"

definition msg_users_base_failed :: string where \<comment> \<open>reading the users failed:\<close>
  "msg_users_base_failed =
     utf8 [25209, 37327, 33719, 21462, 29992, 25143, 22522, 30784, 20449, 24687, 22833, 36133,
     58, 32]"

definition msg_bind_failed :: string where \<comment> \<open>binding the voucher failed:\<close>
  "msg_bind_failed =
     utf8 [32465, 23450, 20973, 35777, 22833, 36133, 58, 32]"

definition msg_unbind_failed :: string where \<comment> \<open>unbinding the voucher failed:\<close>
  "msg_unbind_failed =
     utf8 [35299, 32465, 20973, 35777, 22833, 36133, 58, 32]"

end
