(* ===== verification/AppError.thy ===== *)
theory AppError
  imports Messages
begin

text \<open>
  The package \<open>pkg/apperror\<close> and Go's error values. An error is a tree: an application
  error carries a code, a reason, a message and possibly a cause; a Kratos error (of the RPC
  framework) the same with its own text; any other error is its text and what it wraps; the
  record-not-found sentinel of the ORM and the failure of a database or cache command have a
  constructor each.
\<close>

datatype go_error =
    AppError (Code: int) (Reason: string) (Message: string) (Cause: "go_error option")
  | KratosError int string string string "go_error option"
  | PlainError string "go_error option"
  | RecordNotFound
  | StoreDown
  | DuplicateKey

definition CodeOK :: int where "CodeOK = 0"
definition CodeInvalidArgument :: int where "CodeInvalidArgument = 40001"
definition CodeUnauthorized :: int where "CodeUnauthorized = 40100"
definition CodeForbidden :: int where "CodeForbidden = 40300"
definition CodeNotFound :: int where "CodeNotFound = 40400"
definition CodeConflict :: int where "CodeConflict = 40900"
definition CodeTooManyRequests :: int where "CodeTooManyRequests = 42900"
definition CodeDependencyUnavailable :: int where "CodeDependencyUnavailable = 50300"
definition CodeInternal :: int where "CodeInternal = 50000"

lemmas code_defs = CodeOK_def CodeInvalidArgument_def CodeUnauthorized_def CodeForbidden_def
  CodeNotFound_def CodeConflict_def CodeTooManyRequests_def CodeDependencyUnavailable_def
  CodeInternal_def

definition New :: "int \<Rightarrow> string \<Rightarrow> string \<Rightarrow> go_error" where
  "New code reason message = AppError code reason message None"

text \<open>\<open>Wrap(nil, ..)\<close> is \<open>nil\<close>.\<close>

definition Wrap :: "go_error option \<Rightarrow> int \<Rightarrow> string \<Rightarrow> string \<Rightarrow> go_error option" where
  "Wrap err code reason message =
     (case err of None \<Rightarrow> None | Some e \<Rightarrow> Some (AppError code reason message (Some e)))"

definition InvalidArgument :: "string \<Rightarrow> go_error" where
  "InvalidArgument m = New CodeInvalidArgument ''INVALID_ARGUMENT'' m"

definition Unauthorized :: "string \<Rightarrow> go_error" where
  "Unauthorized m = New CodeUnauthorized ''UNAUTHORIZED'' m"

definition Forbidden :: "string \<Rightarrow> go_error" where
  "Forbidden m = New CodeForbidden ''FORBIDDEN'' m"

definition NotFound :: "string \<Rightarrow> go_error" where
  "NotFound m = New CodeNotFound ''NOT_FOUND'' m"

definition Conflict :: "string \<Rightarrow> go_error" where
  "Conflict m = New CodeConflict ''CONFLICT'' m"

definition TooManyRequests :: "string \<Rightarrow> go_error" where
  "TooManyRequests m = New CodeTooManyRequests ''TOO_MANY_REQUESTS'' m"

definition DependencyUnavailable :: "go_error option \<Rightarrow> string \<Rightarrow> go_error option" where
  "DependencyUnavailable err m = Wrap err CodeDependencyUnavailable ''DEPENDENCY_UNAVAILABLE'' m"

definition Internal :: "go_error option \<Rightarrow> string \<Rightarrow> go_error option" where
  "Internal err m = Wrap err CodeInternal ''INTERNAL'' m"

text \<open>\<open>Internal(err, m)\<close> where the code has just tested that \<open>err\<close> is not \<open>nil\<close>.\<close>

definition internal :: "string \<Rightarrow> go_error \<Rightarrow> go_error" where
  "internal m e = the (Internal (Some e) m)"

lemmas app_error_defs = New_def Wrap_def InvalidArgument_def Unauthorized_def Forbidden_def
  NotFound_def Conflict_def TooManyRequests_def DependencyUnavailable_def Internal_def internal_def

text \<open>The text of an error: \<open>Error()\<close>. The last three are the texts of errors made outside.\<close>

fun error_text :: "go_error \<Rightarrow> string" where
  "error_text (AppError c r m None) = m"
| "error_text (AppError c r m (Some e)) = m @ '': '' @ error_text e"
| "error_text (KratosError c r m t e) = t"
| "error_text (PlainError t e) = t"
| "error_text RecordNotFound = ''record not found''"
| "error_text StoreDown = ''store down''"
| "error_text DuplicateKey = ''duplicate key''"

fun Unwrap :: "go_error \<Rightarrow> go_error option" where
  "Unwrap (AppError c r m e) = e"
| "Unwrap (KratosError c r m t e) = e"
| "Unwrap (PlainError t e) = e"
| "Unwrap _ = None"

text \<open>\<open>errors.As\<close>: the first error of the chain that is an application error, or a Kratos error.\<close>

fun as_app :: "go_error \<Rightarrow> go_error option" where
  "as_app (AppError c r m e) = Some (AppError c r m e)"
| "as_app (KratosError c r m t (Some e)) = as_app e"
| "as_app (PlainError t (Some e)) = as_app e"
| "as_app _ = None"

fun as_kratos :: "go_error \<Rightarrow> go_error option" where
  "as_kratos (KratosError c r m t e) = Some (KratosError c r m t e)"
| "as_kratos (AppError c r m (Some e)) = as_kratos e"
| "as_kratos (PlainError t (Some e)) = as_kratos e"
| "as_kratos _ = None"

definition From :: "go_error option \<Rightarrow> go_error option" where
  "From err = (case err of None \<Rightarrow> None | Some e \<Rightarrow>
     (case as_app e of Some a \<Rightarrow> Some a | None \<Rightarrow>
       (case as_kratos e of
          Some (KratosError c r m t k) \<Rightarrow> Some (AppError c r m (Some e))
        | _ \<Rightarrow> Some (AppError CodeInternal ''INTERNAL'' msg_system_error (Some e)))))"

definition HTTPStatus :: "int \<Rightarrow> int" where
  "HTTPStatus code =
     (if code = CodeOK then 200
      else if 40000 \<le> code \<and> code < 40100 then 400
      else if 40100 \<le> code \<and> code < 40200 then 401
      else if 40300 \<le> code \<and> code < 40400 then 403
      else if 40400 \<le> code \<and> code < 40500 then 404
      else if 40900 \<le> code \<and> code < 41000 then 409
      else if 42900 \<le> code \<and> code < 43000 then 429
      else if 50300 \<le> code \<and> code < 50400 then 503
      else 500)"

lemma as_app_is_app: "as_app e = Some a \<Longrightarrow> \<exists>c r m k. a = AppError c r m k"
  by (induction e rule: as_app.induct) auto

lemma From_Some: "\<exists>c r m k. From (Some e) = Some (AppError c r m k)"
  by (auto simp: From_def split: option.splits go_error.splits dest: as_app_is_app)

lemma From_app [simp]: "From (Some (AppError c r m k)) = Some (AppError c r m k)"
  by (simp add: From_def)

lemma as_app_wraps [simp]:
  "as_app (foldr (\<lambda>t e. PlainError t (Some e)) ts e) = as_app e"
  by (induction ts) auto

text \<open>
  Every error that reaches the edge of a service is turned by \<open>From\<close> into an application
  error; doing it again changes nothing; an application error keeps its code, reason, message
  and cause through any number of wrappings by ordinary errors, and an error that holds neither
  an application nor a Kratos error becomes the internal error 50000 with the fixed message.
\<close>

theorem From_total_idempotent:
  "From None = None
   \<and> (\<exists>c r m k. From (Some e) = Some (AppError c r m k))
   \<and> From (From (Some e)) = From (Some e)
   \<and> From (Some (foldr (\<lambda>t e. PlainError t (Some e)) ts (AppError c r m k))) = Some (AppError c r m k)
   \<and> From (Some (PlainError t None)) =
       Some (AppError CodeInternal ''INTERNAL'' msg_system_error (Some (PlainError t None)))"
proof -
  obtain c' r' m' k' where e: "From (Some e) = Some (AppError c' r' m' k')"
    using From_Some by blast
  moreover have "From (Some (foldr (\<lambda>t e. PlainError t (Some e)) ts (AppError c r m k))) =
      Some (AppError c r m k)"
    by (simp add: From_def)
  ultimately show ?thesis by (simp add: From_def)
qed

text \<open>
  The HTTP status of a code is one of nine; it is 200 for the code of success alone (an
  unknown code is never reported as a success), and each kind of error the constructors build
  gets its own status.
\<close>

theorem HTTPStatus_of_errors:
  "HTTPStatus code \<in> {200, 400, 401, 403, 404, 409, 429, 500, 503}
   \<and> (HTTPStatus code = 200 \<longleftrightarrow> code = CodeOK)
   \<and> map (\<lambda>e. HTTPStatus (Code e))
       [InvalidArgument m, Unauthorized m, Forbidden m, NotFound m, Conflict m, TooManyRequests m,
        internal m e, the (DependencyUnavailable (Some e) m)] =
     [400, 401, 403, 404, 409, 429, 500, 503]"
  by (simp add: HTTPStatus_def code_defs app_error_defs)

end
