(* ===== verification/Batches.thy ===== *)
theory Batches
  imports Prelude
begin

text \<open>
  The batch processor (\<open>biz/campus_batch_processor.go\<close>): items are collected until there are
  enough of them or a timer fires, and are then handed to a function in one batch. What a caller
  does under the mutex is one step on the record below and returns the batch it has taken, if
  any; the batch is processed after the mutex is released. The abstract specification is a
  sequence of items: cut into batches it is what the processor hands over, and nothing waits
  without a timer.
  A processor that was never built (the nil pointer, or one without a function) does nothing;
  \<open>NewCampusUsecase\<close> builds all three.
\<close>

record 'a CampusBatchProcessor =
  b_size :: int
  b_interval :: int
  b_items :: "'a list"
  b_timer :: "int option"
  b_stopped :: bool

text \<open>\<open>NewCampusBatchProcessor\<close>: the timer is not running.\<close>

definition NewCampusBatchProcessor :: "int \<Rightarrow> int \<Rightarrow> 'a CampusBatchProcessor" where
  "NewCampusBatchProcessor n interval = \<lparr>
     b_size = (if n \<le> 0 then 100 else n),
     b_interval = (if interval \<le> 0 then 2 * 1000000000 else interval),
     b_items = [], b_timer = None, b_stopped = False\<rparr>"

definition takeLocked :: "'a CampusBatchProcessor \<Rightarrow> 'a list \<times> 'a CampusBatchProcessor" where
  "takeLocked b = (b_items b, b\<lparr>b_timer := None, b_items := []\<rparr>)"

text \<open>\<open>Add\<close> at time \<open>t\<close>, up to the release of the mutex: the batch that the caller now processes.\<close>

definition Add_locked :: "int \<Rightarrow> 'a \<Rightarrow> 'a CampusBatchProcessor \<Rightarrow> 'a list \<times> 'a CampusBatchProcessor" where
  "Add_locked t item b =
     (if b_stopped b then ([item], b)
      else let
        b1 = b\<lparr>b_items := b_items b @ [item]\<rparr>;
        shouldFlush = (b_size b \<le> int (length (b_items b1)));
        b2 = (if length (b_items b1) = 1 then b1\<lparr>b_timer := Some (t + b_interval b)\<rparr> else b1)
      in if \<not> shouldFlush then ([], b2) else takeLocked b2)"

definition Flush_locked :: "'a CampusBatchProcessor \<Rightarrow> 'a list \<times> 'a CampusBatchProcessor" where
  "Flush_locked b = takeLocked b"

definition Stop_locked :: "'a CampusBatchProcessor \<Rightarrow> 'a list \<times> 'a CampusBatchProcessor" where
  "Stop_locked b = takeLocked (b\<lparr>b_stopped := True, b_timer := None\<rparr>)"

subsection \<open>Any interleaving of callers\<close>

text \<open>
  The callers and the timer take the mutex in some order: a state is the processor with the
  history of the items added and of the batches handed over, and the time. The timer fires at its
  deadline or later (the clock may only pass the deadline by \<open>slack\<close>, the delay of the runtime),
  and \<open>Flush\<close> may be called at any time.
\<close>

record 'a batch_state =
  bs_proc :: "'a CampusBatchProcessor"
  bs_added :: "'a list"
  bs_handed :: "'a list list"
  bs_now :: int

definition handed :: "'a list \<times> 'a CampusBatchProcessor \<Rightarrow> 'a batch_state \<Rightarrow> 'a batch_state" where
  "handed r s = s\<lparr>bs_proc := snd r, bs_handed := bs_handed s @ (if fst r = [] then [] else [fst r])\<rparr>"

inductive batch_step :: "int \<Rightarrow> 'a batch_state \<Rightarrow> 'a batch_state \<Rightarrow> bool" for slack where
  batch_add: "batch_step slack s (handed (Add_locked (bs_now s) x (bs_proc s)) (s\<lparr>bs_added := bs_added s @ [x]\<rparr>))"
| batch_flush: "batch_step slack s (handed (Flush_locked (bs_proc s)) s)"
| batch_stop: "batch_step slack s (handed (Stop_locked (bs_proc s)) s)"
| batch_timer: "b_timer (bs_proc s) = Some d \<Longrightarrow> d \<le> bs_now s \<Longrightarrow>
    batch_step slack s (handed (Flush_locked (bs_proc s)) s)"
| batch_wait: "bs_now s \<le> t \<Longrightarrow> (\<And>d. b_timer (bs_proc s) = Some d \<Longrightarrow> t \<le> d + slack) \<Longrightarrow>
    batch_step slack s (s\<lparr>bs_now := t\<rparr>)"

inductive batch_reachable :: "int \<Rightarrow> int \<Rightarrow> int \<Rightarrow> 'a batch_state \<Rightarrow> bool" for slack n interval where
  batch_start: "batch_reachable slack n interval
    \<lparr>bs_proc = NewCampusBatchProcessor n interval, bs_added = [], bs_handed = [], bs_now = t\<rparr>"
| batch_next: "batch_reachable slack n interval s \<Longrightarrow> batch_step slack s s' \<Longrightarrow> batch_reachable slack n interval s'"

text \<open>The waiting items are fewer than a batch, have a running timer, and are the last ones added.\<close>

definition batch_inv :: "int \<Rightarrow> int \<Rightarrow> int \<Rightarrow> 'a batch_state \<Rightarrow> bool" where
  "batch_inv slack n interval s \<longleftrightarrow> (let b = bs_proc s in
     b_size b = n \<and> b_interval b = interval
     \<and> concat (bs_handed s) @ b_items b = bs_added s
     \<and> list_all (\<lambda>xs. xs \<noteq> [] \<and> int (length xs) \<le> n) (bs_handed s)
     \<and> int (length (b_items b)) < n
     \<and> (b_stopped b \<longrightarrow> b_items b = [])
     \<and> (case b_timer b of None \<Rightarrow> b_items b = [] | Some d \<Rightarrow>
          b_items b \<noteq> [] \<and> bs_now s \<le> d + slack \<and> d \<le> bs_now s + interval))"

lemma batch_inv_start:
  "0 < n \<Longrightarrow> 0 < interval \<Longrightarrow> batch_inv slack n interval
     \<lparr>bs_proc = NewCampusBatchProcessor n interval, bs_added = [], bs_handed = [], bs_now = t\<rparr>"
  by (simp add: batch_inv_def NewCampusBatchProcessor_def)

lemma batch_inv_take:
  assumes "batch_inv slack n interval s"
    and "b_size b = n" "b_interval b = interval" "b_items b = b_items (bs_proc s)"
  shows "batch_inv slack n interval (handed (takeLocked b) s)"
  using assms by (auto simp: batch_inv_def handed_def takeLocked_def Let_def)

lemma batch_inv_add:
  assumes i: "batch_inv slack n interval s" and "0 < n" "0 < interval" "0 \<le> slack"
  shows "batch_inv slack n interval
    (handed (Add_locked (bs_now s) x (bs_proc s)) (s\<lparr>bs_added := bs_added s @ [x]\<rparr>))"
proof (cases "b_stopped (bs_proc s)")
  case True
  with assms show ?thesis by (auto simp: batch_inv_def handed_def Add_locked_def Let_def split: option.splits)
next
  case False
  with assms show ?thesis
    by (auto simp: batch_inv_def handed_def Add_locked_def takeLocked_def Let_def split: option.splits)
qed

lemma batch_inv_step:
  assumes "batch_step slack s s'" and "batch_inv slack n interval s" and "0 < n" "0 < interval" "0 \<le> slack"
  shows "batch_inv slack n interval s'"
  using assms
proof (induction rule: batch_step.induct)
  case (batch_add s x)
  then show ?case by (intro batch_inv_add)
next
  case (batch_flush s)
  then show ?case unfolding Flush_locked_def by (intro batch_inv_take) (simp_all add: batch_inv_def Let_def)
next
  case (batch_stop s)
  then show ?case unfolding Stop_locked_def by (intro batch_inv_take) (simp_all add: batch_inv_def Let_def)
next
  case (batch_timer s d)
  then show ?case unfolding Flush_locked_def by (intro batch_inv_take) (simp_all add: batch_inv_def Let_def)
next
  case (batch_wait s t)
  then show ?case by (auto simp: batch_inv_def Let_def split: option.splits)
qed

lemma batch_reachable_inv:
  assumes "batch_reachable slack n interval s" and "0 < n" "0 < interval" "0 \<le> slack"
  shows "batch_inv slack n interval s"
  using assms(1)
proof induction
  case batch_start
  show ?case by (rule batch_inv_start [OF assms(2,3)])
next
  case (batch_next s s')
  with batch_inv_step [OF batch_next(2) batch_next.IH assms(2-4)] show ?case by blast
qed


text \<open>A processor of size 2 after three items were added to it.\<close>

definition add_item :: "'a \<Rightarrow> 'a batch_state \<Rightarrow> 'a batch_state" where
  "add_item x s = handed (Add_locked (bs_now s) x (bs_proc s)) (s\<lparr>bs_added := bs_added s @ [x]\<rparr>)"

definition three_added :: "nat batch_state" where
  "three_added = add_item 3 (add_item 2 (add_item 1
     \<lparr>bs_proc = NewCampusBatchProcessor 2 5, bs_added = [], bs_handed = [], bs_now = 10\<rparr>))"

lemma add_item_reachable: "batch_reachable slack n interval s \<Longrightarrow> batch_reachable slack n interval (add_item x s)"
  unfolding add_item_def by (rule batch_reachable.batch_next [OF _ batch_step.batch_add])

lemma three_added_reachable: "batch_reachable slack 2 5 three_added"
  unfolding three_added_def by (intro add_item_reachable) (rule batch_reachable.batch_start)


inductive batch_steps :: "int \<Rightarrow> 'a batch_state \<Rightarrow> 'a batch_state \<Rightarrow> bool" for slack where
  batch_none: "batch_steps slack s s"
| batch_more: "batch_steps slack s s' \<Longrightarrow> batch_step slack s' s'' \<Longrightarrow> batch_steps slack s s''"

text \<open>The first \<open>k\<close> items are handed over, or the timer that hands them over fires by \<open>T\<close>.\<close>

definition served_by :: "nat \<Rightarrow> int \<Rightarrow> 'a batch_state \<Rightarrow> bool" where
  "served_by k T s \<longleftrightarrow> k \<le> length (bs_added s) \<and>
     (k \<le> length (concat (bs_handed s)) \<or> (\<exists>d. b_timer (bs_proc s) = Some d \<and> d \<le> T))"

lemma served_by_start:
  "batch_inv slack n interval s \<Longrightarrow> served_by (length (bs_added s)) (bs_now s + interval) s"
  by (auto simp: batch_inv_def served_by_def Let_def split: option.splits)

lemma served_by_take:
  assumes "batch_inv slack n interval s" and "served_by k T s" and "b_items b = b_items (bs_proc s)"
  shows "served_by k T (handed (takeLocked b) s)"
proof -
  have "concat (bs_handed s) @ b_items (bs_proc s) = bs_added s"
    using assms(1) by (simp add: batch_inv_def Let_def)
  then have "length (concat (bs_handed s)) + length (b_items (bs_proc s)) = length (bs_added s)"
    unfolding length_append [symmetric] by (rule arg_cong)
  with assms(2,3) show ?thesis by (auto simp: served_by_def handed_def takeLocked_def)
qed

lemma served_by_add:
  assumes i: "batch_inv slack n interval s" and s: "served_by k T s"
  shows "served_by k T (handed (Add_locked (bs_now s) x (bs_proc s)) (s\<lparr>bs_added := bs_added s @ [x]\<rparr>))"
proof -
  have "concat (bs_handed s) @ b_items (bs_proc s) = bs_added s"
    using i by (simp add: batch_inv_def Let_def)
  then have "length (concat (bs_handed s)) + length (b_items (bs_proc s)) = length (bs_added s)"
    unfolding length_append [symmetric] by (rule arg_cong)
  with i s show ?thesis
    by (auto simp: served_by_def handed_def Add_locked_def takeLocked_def batch_inv_def Let_def split: option.splits)
qed

lemma served_by_step:
  assumes "batch_step slack s s'" and "batch_inv slack n interval s" and "served_by k T s"
  shows "served_by k T s'"
  using assms
proof (induction rule: batch_step.induct)
  case (batch_add s x)
  then show ?case by (intro served_by_add)
next
  case (batch_flush s)
  then show ?case unfolding Flush_locked_def by (intro served_by_take) simp_all
next
  case (batch_stop s)
  then show ?case unfolding Stop_locked_def by (intro served_by_take) simp_all
next
  case (batch_timer s d)
  then show ?case unfolding Flush_locked_def by (intro served_by_take) simp_all
next
  case (batch_wait s t)
  then show ?case by (simp add: served_by_def)
qed

text \<open>
  C19. No item waits for ever: when the clock has passed the interval (and the delay of the
  runtime) counted from any moment, every item added up to that moment has been handed over,
  whatever the callers did in between.
\<close>

theorem batches_bounded_wait:
  assumes "batch_reachable slack n interval s" and "batch_steps slack s s'"
    and "0 < n" and "0 < interval" and "0 \<le> slack" and "bs_now s + interval + slack < bs_now s'"
  shows "take (length (bs_added s)) (concat (bs_handed s')) = bs_added s"
proof -
  from assms(2,1) have "batch_inv slack n interval s' \<and> served_by (length (bs_added s)) (bs_now s + interval) s'
      \<and> (\<exists>xs. bs_added s' = bs_added s @ xs)"
  proof induction
    case (batch_none s)
    with batch_reachable_inv [OF batch_none assms(3-5)] served_by_start show ?case by fastforce
  next
    case (batch_more s s' s'')
    have "\<exists>xs. bs_added s'' = bs_added s' @ xs"
      using batch_more(2) by cases (simp_all add: handed_def)
    with batch_more.IH [OF batch_more.prems] batch_inv_step [OF batch_more(2) _ assms(3-5)] served_by_step [OF batch_more(2)]
    show ?case by fastforce
  qed
  then obtain xs where i: "batch_inv slack n interval s'" and xs: "bs_added s' = bs_added s @ xs"
    and s: "served_by (length (bs_added s)) (bs_now s + interval) s'" by blast
  have "length (bs_added s) \<le> length (concat (bs_handed s'))"
    using s i assms(6) by (auto simp: served_by_def batch_inv_def Let_def)
  moreover have "concat (bs_handed s') @ b_items (bs_proc s') = bs_added s @ xs"
    using i xs by (simp add: batch_inv_def Let_def)
  ultimately show ?thesis by (metis append_eq_append_conv_if append_eq_conv_conj take_append)
qed

text \<open>From that state the timer fires at 15, and at 16 the third item is handed over.\<close>

definition timer_fired :: "nat batch_state" where
  "timer_fired = (handed (Flush_locked (bs_proc three_added)) (three_added\<lparr>bs_now := 15\<rparr>))\<lparr>bs_now := 16\<rparr>"

lemma timer_fired_steps: "batch_steps 0 three_added timer_fired"
proof -
  let ?a = "three_added\<lparr>bs_now := 15\<rparr>"
  have t: "b_timer (bs_proc ?a) = Some 15" "bs_now three_added = 10" by code_simp+
  have "batch_step 0 three_added ?a" using t by (intro batch_step.batch_wait) auto
  moreover have "batch_step 0 ?a (handed (Flush_locked (bs_proc ?a)) ?a)"
    using t by (intro batch_step.batch_timer [of _ 15]) simp_all
  moreover have "batch_step 0 (handed (Flush_locked (bs_proc ?a)) ?a) timer_fired"
  proof -
    let ?b = "handed (Flush_locked (bs_proc ?a)) ?a"
    have "b_timer (bs_proc ?b) = None" "bs_now ?b = 15" by (simp_all add: handed_def Flush_locked_def takeLocked_def)
    then have "batch_step 0 ?b (?b\<lparr>bs_now := 16\<rparr>)" by (intro batch_step.batch_wait) auto
    then show ?thesis by (simp add: timer_fired_def)
  qed
  ultimately show ?thesis by (blast intro: batch_steps.intros)
qed

theorem batches_bounded_wait_witness:
  "take (length (bs_added three_added)) (concat (bs_handed timer_fired)) = bs_added three_added
   \<and> concat (bs_handed three_added) = [1, 2]"
proof -
  have n: "bs_now three_added = 10" "bs_now timer_fired = 16" by code_simp+
  have "concat (bs_handed three_added) = [1, 2]" by code_simp
  moreover have "take (length (bs_added three_added)) (concat (bs_handed timer_fired)) = bs_added three_added"
    using batches_bounded_wait [OF three_added_reachable timer_fired_steps] n by simp
  ultimately show ?thesis by blast
qed

end
