(* ===== verification/GoFloat.thy ===== *)
theory GoFloat
  imports Complex_Main GoStrings
begin

text \<open>
  What the code uses of \<open>float64\<close>: the nearest double of a rational number, the four operations,
  \<open>strconv.ParseFloat\<close> on decimal numbers and \<open>fmt\<close> with a fixed number of decimals. A double is the
  rational number it stands for; infinities, NaN, the sign of zero and hexadecimal literals are
  left out (\<open>ParseFloat\<close> refuses the latter here).
\<close>

function bits :: "int \<Rightarrow> int" where
  "bits n = (if n \<le> 0 then 0 else bits (n div 2) + 1)"
  by pat_completeness auto
termination by (relation "measure nat") auto

declare bits.simps [simp del]

definition pow2 :: "int \<Rightarrow> rat" where
  "pow2 e = (if 0 \<le> e then 2 ^ nat e else 1 / 2 ^ nat (- e))"

definition half_even :: "rat \<Rightarrow> int" where
  "half_even x = (let n = \<lfloor>x\<rfloor>; r = x - of_int n in
     if r < 1 / 2 then n else if 1 / 2 < r then n + 1 else if even n then n else n + 1)"

text \<open>The exponent of the last of the 53 bits of a positive number.\<close>

definition ulp_exp :: "rat \<Rightarrow> int" where
  "ulp_exp x = (case quotient_of x of (n, d) \<Rightarrow>
     let e = bits n - bits d - 53
     in max (if 2 ^ 53 \<le> x / pow2 e then e + 1 else e) (- 1074))"

definition round64 :: "rat \<Rightarrow> rat" where
  "round64 x = (if x = 0 then 0
     else let y = \<bar>x\<bar>; u = pow2 (ulp_exp y); r = of_int (half_even (y / u)) * u in if x < 0 then - r else r)"

definition f_add :: "rat \<Rightarrow> rat \<Rightarrow> rat" where "f_add x y = round64 (x + y)"
definition f_mul :: "rat \<Rightarrow> rat \<Rightarrow> rat" where "f_mul x y = round64 (x * y)"
definition f_div :: "rat \<Rightarrow> rat \<Rightarrow> rat" where "f_div x y = round64 (x / y)"

subsection \<open>Decimal numbers\<close>

definition digit_value :: "char \<Rightarrow> int" where
  "digit_value c = int (byte c) - 48"

definition is_digit :: "char \<Rightarrow> bool" where
  "is_digit c \<longleftrightarrow> 48 \<le> byte c \<and> byte c \<le> 57"

definition digits_value :: "string \<Rightarrow> int" where
  "digits_value s = foldl (\<lambda>n c. 10 * n + digit_value c) 0 s"

definition parse_sign :: "string \<Rightarrow> bool \<times> string" where
  "parse_sign s = (case s of [] \<Rightarrow> (False, []) | c # cs \<Rightarrow>
     if c = CHR ''-'' then (True, cs) else if c = CHR ''+'' then (False, cs) else (False, s))"

text \<open>\<open>e\<close> or \<open>E\<close>, a sign and digits, or nothing.\<close>

definition parse_exponent :: "string \<Rightarrow> int option" where
  "parse_exponent s = (case s of [] \<Rightarrow> Some 0 | c # cs \<Rightarrow>
     if c \<noteq> CHR ''e'' \<and> c \<noteq> CHR ''E'' then None
     else case parse_sign cs of (neg, ds) \<Rightarrow>
       if ds = [] \<or> \<not> list_all is_digit ds then None
       else Some (if neg then - digits_value ds else digits_value ds))"

definition pow10 :: "int \<Rightarrow> rat" where
  "pow10 e = (if 0 \<le> e then 10 ^ nat e else 1 / 10 ^ nat (- e))"

definition parse_float :: "string \<Rightarrow> rat option" where
  "parse_float s = (case parse_sign s of (neg, s1) \<Rightarrow>
     let ints = takeWhile is_digit s1; s2 = dropWhile is_digit s1;
       (fracs, s3) = (case s2 of [] \<Rightarrow> ([], [])
         | c # cs \<Rightarrow> if c = CHR ''.'' then (takeWhile is_digit cs, dropWhile is_digit cs) else ([], s2))
     in if ints @ fracs = [] then None
        else (case parse_exponent s3 of None \<Rightarrow> None
        | Some e \<Rightarrow> let x = round64 (of_int (digits_value (ints @ fracs)) * pow10 (e - int (length fracs))) in
            if pow2 1024 \<le> x then None else Some (if neg then - x else x)))"

text \<open>\<open>%.nf\<close> of a number that is not negative, and \<open>%02d\<close>, \<open>%04d\<close>.\<close>

definition pad_left :: "nat \<Rightarrow> string \<Rightarrow> string" where
  "pad_left n s = replicate (n - length s) (CHR ''0'') @ s"

definition fmt_f :: "nat \<Rightarrow> rat \<Rightarrow> string" where
  "fmt_f n x = (let k = half_even (x * 10 ^ n) in
     fmt_d (k div 10 ^ n) @ (if n = 0 then [] else ''.'' @ pad_left n (fmt_d (k mod 10 ^ n))))"

subsection \<open>The shortest decimals\<close>

text \<open>The exponent of the first decimal of a positive number.\<close>

definition exp10 :: "rat \<Rightarrow> int" where
  "exp10 x = (case quotient_of x of (n, d) \<Rightarrow>
     let e = int (length (fmt_d n)) - int (length (fmt_d d)) in if pow10 e \<le> x then e else e - 1)"

text \<open>The fewest digits \<open>m\<close> and the exponent \<open>e\<close> such that the double nearest to \<open>m * 10 ^ e\<close> is the
  number; of two such \<open>m\<close> the nearer one. Seventeen digits are always enough.\<close>

function shortest_from :: "nat \<Rightarrow> rat \<Rightarrow> int \<times> int" where
  "shortest_from k x = (let e = exp10 x - int k + 1; m = \<lfloor>x / pow10 e\<rfloor>;
       low = (round64 (of_int m * pow10 e) = x); high = (round64 (of_int (m + 1) * pow10 e) = x)
     in if low \<and> (\<not> high \<or> x / pow10 e - of_int m \<le> 1 / 2) then (m, e)
        else if high then (m + 1, e)
        else if 17 \<le> k then (m, e)
        else shortest_from (k + 1) x)"
  by pat_completeness auto
termination by (relation "measure (\<lambda>(k, x). 17 - k)") auto

declare shortest_from.simps [simp del]

text \<open>Without the zeros at the end.\<close>

definition shortest :: "rat \<Rightarrow> string \<times> int" where
  "shortest x = (case shortest_from 1 x of (m, e) \<Rightarrow> let ds = fmt_d m; zs = takeWhile (\<lambda>c. c = CHR ''0'') (rev ds)
     in (take (length ds - length zs) ds, e + int (length zs)))"

definition with_sign :: "(rat \<Rightarrow> string) \<Rightarrow> rat \<Rightarrow> string" where
  "with_sign f x = (if x < 0 then ''-'' @ f (- x) else f x)"

definition decimal_f :: "string \<Rightarrow> int \<Rightarrow> string" where
  "decimal_f ds e = (let p = int (length ds) + e in
     if 0 \<le> e then ds @ replicate (nat e) (CHR ''0'')
     else if 0 < p then take (nat p) ds @ ''.'' @ drop (nat p) ds
     else ''0.'' @ replicate (nat (- p)) (CHR ''0'') @ ds)"

definition decimal_e :: "string \<Rightarrow> int \<Rightarrow> string" where
  "decimal_e ds e = (let p = int (length ds) + e - 1 in
     take 1 ds @ (if length ds \<le> 1 then [] else ''.'' @ drop 1 ds) @ ''e'' @
     (if p < 0 then ''-'' else ''+'') @ pad_left 2 (fmt_d \<bar>p\<bar>))"

text \<open>\<open>strconv.FormatFloat(x, 'f', -1, 64)\<close> and the verb \<open>%v\<close> of a double.\<close>

definition format_float_f :: "rat \<Rightarrow> string" where
  "format_float_f = with_sign (\<lambda>x. if x = 0 then ''0'' else case shortest x of (ds, e) \<Rightarrow> decimal_f ds e)"

definition format_float_v :: "rat \<Rightarrow> string" where
  "format_float_v = with_sign (\<lambda>x. if x = 0 then ''0'' else case shortest x of (ds, e) \<Rightarrow>
     let p = int (length ds) + e - 1 in if p < - 4 \<or> 6 \<le> p then decimal_e ds e else decimal_f ds e)"

end
