(* ===== verification/Store.thy ===== *)
theory Store
  imports AppError Batches GoFloat
begin

text \<open>
  The state of the campus service and the commands it gives to its stores.
  \<^item> The rows of the tables of \<open>data/campus.go\<close> are records; a table is the list of its rows in
    the order of insertion. The three relations user-to-target (post like, post collection,
    comment like) have one row type. The four task tables (notification outbox, AI reply,
    AI content audit, operations alert) extend one record \<open>task\<close>.
  \<^item> A JSON column holds the value that is encoded in it; a time is an integer of nanoseconds.
  \<^item> \<open>'a io\<close> is a computation over the state that returns an error or a value. Every command
    to the database or the cache takes one bit off \<open>faults\<close>: when it is set, the command fails
    and does nothing (an empty list means that no further command fails). So a statement about
    every state covers every pattern of failures.
  \<^item> A transaction restores the tables when its body or its commit fails.
\<close>

subsection \<open>Rows\<close>

type_synonym time = int

definition nanos_per_second :: int where "nanos_per_second = 1000000000"

abbreviation seconds :: "int \<Rightarrow> int" where "seconds n \<equiv> n * nanos_per_second"
abbreviation minutes :: "int \<Rightarrow> int" where "minutes n \<equiv> n * 60 * nanos_per_second"

definition CampusAuditStatusPending :: int where "CampusAuditStatusPending = 0"
definition CampusAuditStatusVisible :: int where "CampusAuditStatusVisible = 1"
definition CampusAuditStatusRejected :: int where "CampusAuditStatusRejected = 2"
definition CampusAuditStatusDeleted :: int where "CampusAuditStatusDeleted = 3"

lemmas audit_status_defs = CampusAuditStatusPending_def CampusAuditStatusVisible_def
  CampusAuditStatusRejected_def CampusAuditStatusDeleted_def

text \<open>A value of a document of type \<open>map[string]interface{}\<close>: \<open>JNum\<close> is an integer, \<open>JFloat\<close> a double that is
  not one. The document itself is the list of its keys and values.\<close>

datatype json = JNull | JBool bool | JNum int | JFloat rat | JStr string | JArr "json list"
  | JObj "(string \<times> json) list"

record campusForumPostModel =
  p_id :: int
  p_category_code :: string
  p_author_id :: int
  p_title :: string
  p_content :: string
  p_images :: "string list"
  p_media_type :: string
  p_post_type :: string
  p_extra :: "(string \<times> string) list"
  p_cover_url :: string
  p_is_official :: bool
  p_is_featured :: bool
  p_is_pinned :: bool
  p_sort_weight :: int
  p_status :: int
  p_audit_reason :: string
  p_like_count :: int
  p_comment_count :: int
  p_collected_count :: int
  p_is_deleted :: bool
  p_created_at :: time
  p_updated_at :: time

record campusForumCommentModel =
  c_id :: int
  c_post_id :: int
  c_parent_id :: int
  c_reply_to_comment_id :: int
  c_reply_to_user_id :: int
  c_author_id :: int
  c_content :: string
  c_images :: "string list"
  c_status :: int
  c_audit_reason :: string
  c_like_count :: int
  c_reply_count :: int
  c_is_deleted :: bool
  c_created_at :: time
  c_updated_at :: time

record relRow =
  rel_id :: int
  rel_target :: int
  rel_user :: int
  rel_is_deleted :: bool
  rel_created_at :: time
  rel_updated_at :: time

type_synonym campusForumPostLikeModel = relRow
type_synonym campusForumPostCollectionModel = relRow
type_synonym campusForumCommentLikeModel = relRow

record campusForumReportModel =
  rp_id :: int
  rp_target_type :: string
  rp_target_id :: int
  rp_reporter_id :: int
  rp_reason :: string
  rp_detail :: string
  rp_status :: int
  rp_created_at :: time
  rp_updated_at :: time

record campusNotificationModel =
  n_id :: int
  n_recipient_id :: int
  n_actor_id :: int
  n_event_type :: string
  n_target_type :: string
  n_target_id :: int
  n_dedupe_key :: "string option"
  n_title :: string
  n_content :: string
  n_link_page :: string
  n_link_params :: "(string \<times> string) list"
  n_read_at :: "time option"
  n_is_deleted :: bool
  n_created_at :: time
  n_updated_at :: time

record task =
  t_id :: int
  t_status :: string
  t_retry_count :: int
  t_next_retry_at :: "time option"
  t_locked_until :: "time option"
  t_created_at :: time
  t_updated_at :: time

record campusNotificationOutboxModel = task +
  ob_recipient_id :: int
  ob_actor_id :: int
  ob_event_type :: string
  ob_target_type :: string
  ob_target_id :: int
  ob_dedupe_key :: "string option"
  ob_title :: string
  ob_content :: string
  ob_link_page :: string
  ob_link_params :: "(string \<times> string) list"
  ob_audience :: string
  ob_last_error :: string
  ob_processed_at :: "time option"

record campusAIReplyTaskModel = task +
  ar_post_id :: int
  ar_root_comment_id :: int
  ar_trigger_comment_id :: int
  ar_asker_id :: int
  ar_bot_user_id :: int
  ar_prompt :: string
  ar_answer_comment_id :: int
  ar_last_error :: string
  ar_processed_at :: "time option"

record campusAIContentAuditTaskModel = task +
  at_target_type :: string
  at_target_id :: int
  at_risk_level :: string
  at_decision :: string
  at_reason :: string
  at_raw_result :: string
  at_last_error :: string
  at_processed_at :: "time option"

record campusOpsAlertModel = task +
  oa_alert_type :: string
  oa_priority :: string
  oa_target_type :: string
  oa_target_id :: int
  oa_dedupe_key :: string
  oa_title :: string
  oa_summary :: string
  oa_payload :: "(string \<times> json) list"
  oa_feishu_status :: string
  oa_feishu_error :: string
  oa_sent_at :: "time option"

record campusOpsActionTokenModel =
  tk_id :: int
  tk_token_hash :: string
  tk_action :: string
  tk_target_type :: string
  tk_target_id :: int
  tk_reason :: string
  tk_status :: string
  tk_expires_at :: time
  tk_used_at :: "time option"
  tk_created_at :: time
  tk_updated_at :: time

record campusOpsSettingModel =
  os_key :: string
  os_value :: string
  os_updated_by :: int
  os_created_at :: time
  os_updated_at :: time

record campusOperatorModel =
  op_user_id :: int
  op_role :: string
  op_is_deleted :: bool
  op_created_at :: time
  op_updated_at :: time

record campusIPBlockModel =
  ib_id :: int
  ib_ip :: string
  ib_reason :: string
  ib_status :: int
  ib_created_by :: int
  ib_created_at :: time
  ib_updated_at :: time

record campusAuditLogModel =
  al_id :: int
  al_target_type :: string
  al_target_id :: int
  al_user_id :: int
  al_provider :: string
  al_result :: string
  al_reason :: string
  al_created_at :: time

record campusEventModel =
  ev_id :: int
  ev_user_id :: int
  ev_event_type :: string
  ev_page :: string
  ev_target_type :: string
  ev_target_id :: int
  ev_channel :: string
  ev_extra :: "(string \<times> string) list"
  ev_user_agent :: string
  ev_ip :: string
  ev_created_at :: time

record campusAccessLogModel =
  ac_id :: int
  ac_user_id :: int
  ac_ip :: string
  ac_method :: string
  ac_path :: string
  ac_status_code :: int
  ac_duration_ms :: int
  ac_user_agent :: string
  ac_rate_limited :: bool
  ac_blocked :: bool
  ac_created_at :: time

record campusFeedbackModel =
  fb_id :: int
  fb_user_id :: int
  fb_feedback_type :: string
  fb_content :: string
  fb_contact :: string
  fb_images :: "string list"
  fb_status :: int
  fb_operator_note :: string
  fb_created_at :: time
  fb_updated_at :: time

record campusAIUsageLogModel =
  au_id :: int
  au_feature :: string
  au_source_type :: string
  au_source_id :: string
  au_model :: string
  au_prompt_tokens :: int
  au_completion_tokens :: int
  au_total_tokens :: int
  au_estimated_cost_usd :: rat
  au_estimated_cost_cny :: rat
  au_status :: string
  au_error_message :: string
  au_created_at :: time

record campusForumCategoryModel =
  cat_id :: int
  cat_code :: string
  cat_name :: string
  cat_description :: string
  cat_sort_order :: int
  cat_is_deleted :: bool

record campusWechatIdentityModel =
  wx_id :: int
  wx_provider :: string
  wx_open_id :: string
  wx_union_id :: string
  wx_user_id :: int
  wx_account_id :: int
  wx_created_at :: time
  wx_updated_at :: time

record campusProfileModel =
  pf_id :: int
  pf_user_id :: int
  pf_account_id :: int
  pf_open_id :: string
  pf_union_id :: string
  pf_school_name :: string
  pf_student_no :: string
  pf_real_name :: string
  pf_class_name :: string
  pf_dorm_building :: string
  pf_room_no :: string
  pf_mobile :: string
  pf_auth_status :: int
  pf_created_at :: time
  pf_updated_at :: time

record campusTimetableCourseModel =
  tc_id :: int
  tc_user_id :: int
  tc_term :: string
  tc_course_name :: string
  tc_teacher :: string
  tc_classroom :: string
  tc_weekday :: int
  tc_start_section :: int
  tc_end_section :: int
  tc_start_week :: int
  tc_end_week :: int
  tc_week_parity :: int
  tc_source :: string
  tc_source_course_id :: string
  tc_created_at :: time
  tc_updated_at :: time

record campusKnowledgeDocumentModel =
  kd_id :: int
  kd_title :: string
  kd_source :: string
  kd_category :: string
  kd_content_type :: string
  kd_file_url :: string
  kd_file_id :: int
  kd_file_type :: string
  kd_raw_content :: string
  kd_status :: string
  kd_parse_status :: string
  kd_error_message :: string
  kd_uploaded_by :: int
  kd_effective_at :: "time option"
  kd_expired_at :: "time option"
  kd_chunk_count :: int
  kd_is_deleted :: bool
  kd_created_at :: time
  kd_updated_at :: time

record campusKnowledgeChunkModel =
  kc_id :: int
  kc_document_id :: int
  kc_chunk_index :: int
  kc_title :: string
  kc_content :: string
  kc_summary :: string
  kc_category :: string
  kc_keywords :: "string list"
  kc_source :: string
  kc_status :: string
  kc_qdrant_point_id :: string
  kc_embedding_status :: string
  kc_is_deleted :: bool
  kc_created_at :: time
  kc_updated_at :: time

text \<open>What the retrieval service found for a question, and how a question of the evaluation set fared.\<close>

record CampusRAGChunkExplain =
  xp_dense_score :: rat
  xp_sparse_score :: rat
  xp_lexical_overlap :: rat
  xp_rrf_score :: rat

record CampusRAGQueryChunk =
  qc_chunk_id :: string
  qc_document_id :: string
  qc_title :: string
  qc_category :: string
  qc_content :: string
  qc_source :: string
  qc_score :: rat
  qc_explain :: "CampusRAGChunkExplain option"

record CampusRAGEvalResult =
  er_case_id :: int
  er_need_knowledge :: bool
  er_confidence :: rat
  er_hit :: bool
  er_score :: rat
  er_matched_by :: "string list"
  er_top_chunks :: "CampusRAGQueryChunk list"
  er_error_message :: string
  er_run_at :: time

record campusRAGQueryLogModel =
  rq_id :: int
  rq_user_id :: int
  rq_post_id :: int
  rq_trigger_comment_id :: int
  rq_query :: string
  rq_need_knowledge :: bool
  rq_confidence :: rat
  rq_hit_chunks :: "CampusRAGQueryChunk list"
  rq_answer :: string
  rq_model :: string
  rq_duration_ms :: int
  rq_error_message :: string
  rq_quality_label :: string
  rq_quality_note :: string
  rq_reviewed_by :: int
  rq_reviewed_at :: "time option"
  rq_created_at :: time

record campusRAGEvalCaseModel =
  rc_id :: int
  rc_question :: string
  rc_expected_document_id :: int
  rc_expected_source :: string
  rc_expected_keywords :: "string list"
  rc_category :: string
  rc_status :: int
  rc_source_log_id :: int
  rc_note :: string
  rc_last_run_at :: "time option"
  rc_last_score :: rat
  rc_last_hit :: bool
  rc_last_confidence :: rat
  rc_last_result :: "CampusRAGEvalResult option"
  rc_created_by :: int
  rc_created_at :: time
  rc_updated_at :: time

record campusAgentRunModel =
  gr_id :: int
  gr_run_type :: string
  gr_question :: string
  gr_status :: string
  gr_source :: string
  gr_summary :: string
  gr_risk_level :: string
  gr_result :: "(string \<times> json) list"
  gr_tool_trace :: "(string \<times> json) list list"
  gr_error_message :: string
  gr_feishu_sent_at :: "time option"
  gr_feishu_status :: string
  gr_feishu_error :: string
  gr_created_by :: int
  gr_created_at :: time
  gr_updated_at :: time

subsection \<open>The state\<close>

record tables =
  posts :: "campusForumPostModel list"
  comments :: "campusForumCommentModel list"
  post_likes :: "campusForumPostLikeModel list"
  post_collections :: "campusForumPostCollectionModel list"
  comment_likes :: "campusForumCommentLikeModel list"
  reports :: "campusForumReportModel list"
  notifications :: "campusNotificationModel list"
  outbox :: "campusNotificationOutboxModel list"
  ai_reply_tasks :: "campusAIReplyTaskModel list"
  ai_audit_tasks :: "campusAIContentAuditTaskModel list"
  ops_alerts :: "campusOpsAlertModel list"
  action_tokens :: "campusOpsActionTokenModel list"
  ops_settings :: "campusOpsSettingModel list"
  operators :: "campusOperatorModel list"
  ip_blocks :: "campusIPBlockModel list"
  audit_logs :: "campusAuditLogModel list"
  categories :: "campusForumCategoryModel list"
  feedbacks :: "campusFeedbackModel list"
  events :: "campusEventModel list"
  access_logs :: "campusAccessLogModel list"
  users :: "int list"
  ai_usage_logs :: "campusAIUsageLogModel list"
  wechat_identities :: "campusWechatIdentityModel list"
  profiles :: "campusProfileModel list"
  timetable_courses :: "campusTimetableCourseModel list"
  knowledge_documents :: "campusKnowledgeDocumentModel list"
  knowledge_chunks :: "campusKnowledgeChunkModel list"
  rag_query_logs :: "campusRAGQueryLogModel list"
  rag_eval_cases :: "campusRAGEvalCaseModel list"
  agent_runs :: "campusAgentRunModel list"

definition empty_tables :: tables where
  "empty_tables = \<lparr>posts = [], comments = [], post_likes = [], post_collections = [],
     comment_likes = [], reports = [], notifications = [], outbox = [], ai_reply_tasks = [],
     ai_audit_tasks = [], ops_alerts = [], action_tokens = [], ops_settings = [], operators = [],
     ip_blocks = [], audit_logs = [], categories = [], feedbacks = [], events = [], access_logs = [], users = [], ai_usage_logs = [],
     wechat_identities = [], profiles = [], timetable_courses = [], knowledge_documents = [], knowledge_chunks = [],
     rag_query_logs = [], rag_eval_cases = [], agent_runs = []\<rparr>"

text \<open>A post as the business layer sees it, and as the detail cache stores it.\<close>

record CampusForumPost =
  bp_id :: int
  bp_category_code :: string
  bp_category_name :: string
  bp_author_id :: string
  bp_title :: string
  bp_content :: string
  bp_images :: "string list"
  bp_media_type :: string
  bp_post_type :: string
  bp_extra :: "(string \<times> string) list"
  bp_cover_url :: string
  bp_is_official :: bool
  bp_is_featured :: bool
  bp_is_pinned :: bool
  bp_sort_weight :: int
  bp_status :: int
  bp_audit_reason :: string
  bp_like_count :: int
  bp_comment_count :: int
  bp_collected_count :: int
  bp_created_at :: time
  bp_updated_at :: time

text \<open>What waits in the two batch processors: tracked events and access logs.\<close>

record TrackCampusEventInput =
  te_user_id :: string
  te_event_type :: string
  te_page :: string
  te_target_type :: string
  te_target_id :: int
  te_channel :: string
  te_extra :: "(string \<times> string) list"
  te_user_agent :: string
  te_ip :: string

record CampusAccessLog =
  lg_id :: int
  lg_user_id :: string
  lg_ip :: string
  lg_method :: string
  lg_path :: string
  lg_status_code :: int
  lg_duration_ms :: int
  lg_user_agent :: string
  lg_rate_limited :: bool
  lg_blocked :: bool
  lg_created_at :: time

text \<open>A document of the knowledge base, as the indexer gets it.\<close>

record CampusKnowledgeDocument =
  do_id :: int
  do_title :: string
  do_source :: string
  do_category :: string
  do_content_type :: string
  do_file_url :: string
  do_file_id :: string
  do_file_type :: string
  do_raw_content :: string
  do_status :: string
  do_parse_status :: string
  do_error_message :: string
  do_uploaded_by :: string
  do_effective_at :: "time option"
  do_expired_at :: "time option"
  do_chunk_count :: int
  do_created_at :: time
  do_updated_at :: time

record CampusForumCategory =
  ca_id :: int
  ca_code :: string
  ca_name :: string
  ca_description :: string
  ca_sort_order :: int

text \<open>The other documents in the cache: a page of a feed with its total, the candidates for the
  pictures of a day, the boards.\<close>

datatype cached_doc =
    campusPostListCache (cached_ids: "int list") (cached_total: int)
  | CachedCandidates "int list"
  | CachedCategories "CampusForumCategory list"

text \<open>The ids of the best posts, kept in memory (\<open>campus_recommend_pool.go\<close>).\<close>

record CampusRecommendPool =
  cp_recommend :: "int list"
  cp_hot :: "int list"
  cp_updated_at :: time

text \<open>A package of pictures on disk (\<open>campus_moments.go\<close>): its manifest and its files by name.\<close>

record CampusMomentsPackagePost =
  mo_slot :: int
  mo_post_id :: string
  mo_title :: string
  mo_excerpt :: string
  mo_cover_url :: string
  mo_category_name :: string
  mo_like_count :: int
  mo_comment_count :: int
  mo_collected_count :: int
  mo_heat_score :: int
  mo_created_at :: time
  mo_image_path :: string

record CampusMomentsPackageOutput =
  mp_package_id :: string
  mp_date :: string
  mp_count :: int
  mp_expires_at :: time
  mp_caption :: string
  mp_warnings :: "string list"
  mp_posts :: "CampusMomentsPackagePost list"
  mp_download_path :: string

record package_dir =
  pk_mod_time :: time
  pk_manifest :: "CampusMomentsPackageOutput option"
  pk_files :: "string list"

text \<open>
  The whole state: the tables, the pending failures, the Redis keys the code uses (the post
  details and the other cached documents with their expiry, the two version counters, the
  rate-limit counters with their expiry), how many ids the generator has given out, how often
  \<open>time.Now().UnixNano()\<close> was read for an id, the three batch processors, the goroutines that index
  a document on their own, the pool of recommended posts, the packages of pictures on disk, and the
  access token of the mini program. Redis is absent when \<open>rds_on\<close> is false.
\<close>

record world =
  db :: tables
  faults :: "bool list"
  rds_on :: bool
  post_cache :: "(string \<times> CampusForumPost \<times> time) list"
  other_cache :: "(string \<times> cached_doc \<times> time) list"
  feed_version :: int
  moments_version :: int
  rl_counters :: "(string \<times> int \<times> time option) list"
  next_seq :: nat
  ticks :: nat
  event_batcher :: "TrackCampusEventInput CampusBatchProcessor"
  access_batcher :: "CampusAccessLog CampusBatchProcessor"
  knowledge_batcher :: "CampusKnowledgeDocument CampusBatchProcessor"
  index_spawned :: "CampusKnowledgeDocument list"
  recommend_pool :: CampusRecommendPool
  package_dirs :: "(string \<times> package_dir) list"
  wechat_token :: "string \<times> time"

text \<open>What a handler reads from outside: the clock, the ids, the nanoseconds it makes ids of, the
  process environment, and how long a post detail stays in the cache.\<close>

record env =
  now :: time
  detail_ttl :: time
  idgen :: "nat \<Rightarrow> int"
  unix_nano :: "nat \<Rightarrow> int"
  getenv :: "string \<Rightarrow> string"

definition empty_world :: world where
  "empty_world = \<lparr>db = empty_tables, faults = [], rds_on = True, post_cache = [], other_cache = [], feed_version = 0,
     moments_version = 0, rl_counters = [], next_seq = 0, ticks = 0,
     event_batcher = NewCampusBatchProcessor 100 (seconds 2),
     access_batcher = NewCampusBatchProcessor 100 (seconds 2),
     knowledge_batcher = NewCampusBatchProcessor 100 (seconds 1), index_spawned = [],
     recommend_pool = \<lparr>cp_recommend = [], cp_hot = [], cp_updated_at = 0\<rparr>, package_dirs = [], wechat_token = ([], 0)\<rparr>"

subsection \<open>Computations\<close>

type_synonym 'a io = "world \<Rightarrow> (go_error + 'a) \<times> world"

definition ret :: "'a \<Rightarrow> 'a io" where
  "ret x w = (Inr x, w)"

definition fail :: "go_error \<Rightarrow> 'a io" where
  "fail e w = (Inl e, w)"

definition io_bind :: "'a io \<Rightarrow> ('a \<Rightarrow> 'b io) \<Rightarrow> 'b io" where
  "io_bind m f w = (case m w of (Inl e, w') \<Rightarrow> (Inl e, w') | (Inr x, w') \<Rightarrow> f x w')"

definition io_then :: "unit io \<Rightarrow> 'b io \<Rightarrow> 'b io" where
  "io_then m k = io_bind m (\<lambda>_. k)"

text \<open>\<open>x, err := m\<close> where the code goes on with both, and \<open>_ = m\<close>.\<close>

definition attempt :: "'a io \<Rightarrow> (go_error + 'a) io" where
  "attempt m w = (case m w of (r, w') \<Rightarrow> (Inr r, w'))"

definition ignore :: "'a io \<Rightarrow> unit io" where
  "ignore m = io_bind (attempt m) (\<lambda>_. ret ())"

text \<open>\<open>if err != nil { return g(err) }\<close>.\<close>

definition or_fail :: "(go_error \<Rightarrow> go_error) \<Rightarrow> 'a io \<Rightarrow> 'a io" where
  "or_fail g m w = (case m w of (Inl e, w') \<Rightarrow> (Inl (g e), w') | (Inr x, w') \<Rightarrow> (Inr x, w'))"

definition get_world :: "world io" where
  "get_world w = (Inr w, w)"

text \<open>One command to a store: it may fail, and then does nothing.\<close>

definition command :: "'a io \<Rightarrow> 'a io" where
  "command c w = (case faults w of
      [] \<Rightarrow> c w
    | b # bs \<Rightarrow> (if b then (Inl StoreDown, w\<lparr>faults := bs\<rparr>) else c (w\<lparr>faults := bs\<rparr>)))"

definition transaction :: "'a io \<Rightarrow> 'a io" where
  "transaction body w =
     (case command (ret ()) w of
        (Inl e, w1) \<Rightarrow> (Inl e, w1)
      | (Inr _, w1) \<Rightarrow>
         (case body w1 of
            (Inl e, w2) \<Rightarrow> (Inl e, w2\<lparr>db := db w\<rparr>)
          | (Inr x, w2) \<Rightarrow>
             (case command (ret ()) w2 of
                (Inl e, w3) \<Rightarrow> (Inl e, w3\<lparr>db := db w\<rparr>)
              | (Inr _, w3) \<Rightarrow> (Inr x, w3))))"

text \<open>\<open>uc.idGen.NextID()\<close>.\<close>

definition NextID :: "env \<Rightarrow> int io" where
  "NextID E w = (Inr (idgen E (next_seq w)), w\<lparr>next_seq := Suc (next_seq w)\<rparr>)"

text \<open>\<open>time.Now().UnixNano()\<close> where the code makes an id of it.\<close>

definition UnixNano :: "env \<Rightarrow> int io" where
  "UnixNano E w = (Inr (unix_nano E (ticks w)), w\<lparr>ticks := Suc (ticks w)\<rparr>)"

subsection \<open>SQL statements\<close>

text \<open>
  \<open>g\<close> reads a table, \<open>u\<close> updates it. An insert fails when a row with the same primary key or
  another unique key (\<open>clash\<close>) is there; an upsert then changes that row instead.
\<close>

definition sql_create ::
    "(tables \<Rightarrow> 'r list) \<Rightarrow> (('r list \<Rightarrow> 'r list) \<Rightarrow> tables \<Rightarrow> tables) \<Rightarrow> ('r \<Rightarrow> bool) \<Rightarrow> 'r \<Rightarrow> unit io" where
  "sql_create g u clash row = command (\<lambda>w.
     if \<exists>r \<in> set (g (db w)). clash r then (Inl DuplicateKey, w)
     else (Inr (), w\<lparr>db := u (\<lambda>xs. xs @ [row]) (db w)\<rparr>))"

text \<open>\<open>CreateInBatches\<close>: all the rows or none.\<close>

definition sql_create_all ::
    "(tables \<Rightarrow> 'r list) \<Rightarrow> (('r list \<Rightarrow> 'r list) \<Rightarrow> tables \<Rightarrow> tables) \<Rightarrow> ('r \<Rightarrow> 'k) \<Rightarrow> 'r list \<Rightarrow> unit io" where
  "sql_create_all g u key rows = command (\<lambda>w.
     if distinct (map key rows) \<and> (\<forall>r \<in> set rows. key r \<notin> key ` set (g (db w)))
     then (Inr (), w\<lparr>db := u (\<lambda>xs. xs @ rows) (db w)\<rparr>) else (Inl DuplicateKey, w))"

definition upsert :: "('r \<Rightarrow> bool) \<Rightarrow> ('r \<Rightarrow> bool) \<Rightarrow> ('r \<Rightarrow> 'r) \<Rightarrow> 'r \<Rightarrow> 'r list \<Rightarrow> 'r list" where
  "upsert same_id same_key chg row xs =
     (if \<exists>r \<in> set xs. same_id r then upd_where same_id chg xs
      else if \<exists>r \<in> set xs. same_key r then upd_where same_key chg xs
      else xs @ [row])"

definition sql_upsert ::
    "(('r list \<Rightarrow> 'r list) \<Rightarrow> tables \<Rightarrow> tables) \<Rightarrow> ('r \<Rightarrow> bool) \<Rightarrow> ('r \<Rightarrow> bool) \<Rightarrow> ('r \<Rightarrow> 'r) \<Rightarrow> 'r \<Rightarrow> unit io"
where
  "sql_upsert u same_id same_key chg row =
     command (\<lambda>w. (Inr (), w\<lparr>db := u (upsert same_id same_key chg row) (db w)\<rparr>))"

definition sql_update ::
    "(('r list \<Rightarrow> 'r list) \<Rightarrow> tables \<Rightarrow> tables) \<Rightarrow> ('r \<Rightarrow> bool) \<Rightarrow> ('r \<Rightarrow> 'r) \<Rightarrow> unit io" where
  "sql_update u P f = command (\<lambda>w. (Inr (), w\<lparr>db := u (upd_where P f) (db w)\<rparr>))"

text \<open>A statement given by what it does to the tables.\<close>

definition sql_exec :: "(tables \<Rightarrow> tables) \<Rightarrow> unit io" where
  "sql_exec f = command (\<lambda>w. (Inr (), w\<lparr>db := f (db w)\<rparr>))"

text \<open>An update whose \<open>RowsAffected\<close> the code reads.\<close>

definition sql_update_rows ::
    "(tables \<Rightarrow> 'r list) \<Rightarrow> (('r list \<Rightarrow> 'r list) \<Rightarrow> tables \<Rightarrow> tables) \<Rightarrow> ('r \<Rightarrow> bool) \<Rightarrow> ('r \<Rightarrow> 'r) \<Rightarrow> int io"
where
  "sql_update_rows g u P f =
     command (\<lambda>w. (Inr (count_where P (g (db w))), w\<lparr>db := u (upd_where P f) (db w)\<rparr>))"

text \<open>\<open>First\<close>: \<open>None\<close> is the record-not-found error, which the code tells from a failure.\<close>

definition sql_first :: "(tables \<Rightarrow> 'r list) \<Rightarrow> ('r \<Rightarrow> bool) \<Rightarrow> 'r option io" where
  "sql_first g P = command (\<lambda>w. (Inr (find P (g (db w))), w))"

definition sql_find :: "(tables \<Rightarrow> 'r list) \<Rightarrow> ('r \<Rightarrow> bool) \<Rightarrow> 'r list io" where
  "sql_find g P = command (\<lambda>w. (Inr (filter P (g (db w))), w))"

text \<open>\<open>ORDER BY k LIMIT n\<close>.\<close>

definition sql_find_ordered ::
    "(tables \<Rightarrow> 'r list) \<Rightarrow> ('r \<Rightarrow> bool) \<Rightarrow> ('r \<Rightarrow> 'k::linorder) \<Rightarrow> int \<Rightarrow> 'r list io" where
  "sql_find_ordered g P k n = command (\<lambda>w. (Inr (take (nat n) (sort_key k (filter P (g (db w))))), w))"

definition sql_count :: "(tables \<Rightarrow> 'r list) \<Rightarrow> ('r \<Rightarrow> bool) \<Rightarrow> int io" where
  "sql_count g P = command (\<lambda>w. (Inr (count_where P (g (db w))), w))"

subsection \<open>What a finished computation did\<close>

text \<open>
  Elimination rules: from a computation that returned, the computations it is made of and the
  state it left. They take a run of a handler apart, whatever the pattern of failures was.
\<close>

lemma ret_run [simp]: "ret x w = (Inr x, w)"
  by (simp add: ret_def)

lemma fail_run [simp]: "fail e w = (Inl e, w)"
  by (simp add: fail_def)

lemma io_bind_ret [simp]: "io_bind (ret x) f w = f x w"
  by (simp add: io_bind_def)

lemma io_bind_fail [simp]: "io_bind (fail e) f w = (Inl e, w)"
  by (simp add: io_bind_def)

lemma io_bind_InrE:
  assumes "io_bind m f w = (Inr y, w')"
  obtains x w1 where "m w = (Inr x, w1)" and "f x w1 = (Inr y, w')"
  using assms by (auto simp: io_bind_def split: prod.splits sum.splits)

lemma io_bind_E:
  assumes "io_bind m f w = (r, w')"
  obtains e where "m w = (Inl e, w')" and "r = Inl e"
  | x w1 where "m w = (Inr x, w1)" and "f x w1 = (r, w')"
  using assms by (auto simp: io_bind_def split: prod.splits sum.splits)

lemma io_then_InrE:
  assumes "io_then m k w = (Inr y, w')"
  obtains w1 where "m w = (Inr (), w1)" and "k w1 = (Inr y, w')"
  using assms by (auto simp: io_then_def elim: io_bind_InrE)

lemma io_then_E:
  assumes "io_then m k w = (r, w')"
  obtains e where "m w = (Inl e, w')" and "r = Inl e"
  | w1 where "m w = (Inr (), w1)" and "k w1 = (r, w')"
  using assms by (auto simp: io_then_def elim: io_bind_E)

lemma or_fail_InrE:
  assumes "or_fail g m w = (Inr x, w')"
  obtains "m w = (Inr x, w')"
  using assms by (auto simp: or_fail_def split: prod.splits sum.splits)

lemma or_fail_E:
  assumes "or_fail g m w = (r, w')"
  obtains e where "m w = (Inl e, w')" and "r = Inl (g e)"
  | x where "m w = (Inr x, w')" and "r = Inr x"
  using assms by (auto simp: or_fail_def split: prod.splits sum.splits)

lemma attempt_E:
  assumes "attempt m w = (r, w')"
  obtains r' where "m w = (r', w')" and "r = Inr r'"
  using assms by (auto simp: attempt_def split: prod.splits)

lemma ignore_E:
  assumes "ignore m w = (r, w')"
  obtains r' where "m w = (r', w')" and "r = Inr ()"
  using assms by (auto simp: ignore_def attempt_def io_bind_def split: prod.splits)

lemma command_InrE:
  assumes "command c w = (Inr x, w')"
  obtains fs where "c (w\<lparr>faults := fs\<rparr>) = (Inr x, w')"
proof (cases "faults w")
  case Nil
  then have "w\<lparr>faults := []\<rparr> = w" by simp
  with Nil assms that [of "[]"] show ?thesis by (simp add: command_def)
next
  case (Cons b bs)
  with assms that [of bs] show ?thesis by (auto simp: command_def split: if_splits)
qed

lemma command_InlE:
  assumes "command c w = (Inl e, w')"
  obtains fs where "w' = w\<lparr>faults := fs\<rparr>" and "e = StoreDown"
  | fs where "c (w\<lparr>faults := fs\<rparr>) = (Inl e, w')"
proof (cases "faults w")
  case Nil
  then have "w\<lparr>faults := []\<rparr> = w" by simp
  with Nil assms that(2) [of "[]"] show ?thesis by (simp add: command_def)
next
  case (Cons b bs)
  with assms that show ?thesis by (auto simp: command_def split: if_splits)
qed

lemma sql_create_InrE:
  assumes "sql_create g u clash row w = (Inr x, w')"
  obtains fs where "w' = w\<lparr>faults := fs, db := u (\<lambda>xs. xs @ [row]) (db w)\<rparr>"
    and "\<forall>r \<in> set (g (db w)). \<not> clash r"
  using assms unfolding sql_create_def
  by (auto elim!: command_InrE split: if_splits)

lemma sql_create_all_InrE:
  assumes "sql_create_all g u key rows w = (Inr x, w')"
  obtains fs where "w' = w\<lparr>faults := fs, db := u (\<lambda>xs. xs @ rows) (db w)\<rparr>" and "distinct (map key rows)"
    and "\<And>r. r \<in> set rows \<Longrightarrow> key r \<notin> key ` set (g (db w))"
  using assms unfolding sql_create_all_def
  by (auto elim!: command_InrE split: if_splits)

lemma sql_upsert_InrE:
  assumes "sql_upsert u si sk chg row w = (Inr x, w')"
  obtains fs where "w' = w\<lparr>faults := fs, db := u (upsert si sk chg row) (db w)\<rparr>"
  using assms unfolding sql_upsert_def by (auto elim!: command_InrE)

lemma sql_update_InrE:
  assumes "sql_update u P f w = (Inr x, w')"
  obtains fs where "w' = w\<lparr>faults := fs, db := u (upd_where P f) (db w)\<rparr>"
  using assms unfolding sql_update_def by (auto elim!: command_InrE)

lemma sql_exec_InrE:
  assumes "sql_exec f w = (Inr x, w')"
  obtains fs where "w' = w\<lparr>faults := fs, db := f (db w)\<rparr>"
  using assms unfolding sql_exec_def by (auto elim!: command_InrE)

lemma sql_update_rows_InrE:
  assumes "sql_update_rows g u P f w = (Inr x, w')"
  obtains fs where "w' = w\<lparr>faults := fs, db := u (upd_where P f) (db w)\<rparr>"
    and "x = count_where P (g (db w))"
  using assms unfolding sql_update_rows_def by (auto elim!: command_InrE)

lemma sql_first_InrE:
  assumes "sql_first g P w = (Inr x, w')"
  obtains fs where "w' = w\<lparr>faults := fs\<rparr>" and "x = find P (g (db w))"
  using assms unfolding sql_first_def by (auto elim!: command_InrE)

lemma sql_find_InrE:
  assumes "sql_find g P w = (Inr x, w')"
  obtains fs where "w' = w\<lparr>faults := fs\<rparr>" and "x = filter P (g (db w))"
  using assms unfolding sql_find_def by (auto elim!: command_InrE)

lemma sql_find_ordered_InrE:
  assumes "sql_find_ordered g P k n w = (Inr x, w')"
  obtains fs where "w' = w\<lparr>faults := fs\<rparr>" and "x = take (nat n) (sort_key k (filter P (g (db w))))"
  using assms unfolding sql_find_ordered_def by (auto elim!: command_InrE)

lemma sql_count_InrE:
  assumes "sql_count g P w = (Inr x, w')"
  obtains fs where "w' = w\<lparr>faults := fs\<rparr>" and "x = count_where P (g (db w))"
  using assms unfolding sql_count_def by (auto elim!: command_InrE)

lemmas sql_InrE = sql_create_InrE sql_create_all_InrE sql_upsert_InrE sql_exec_InrE sql_update_InrE sql_update_rows_InrE
  sql_first_InrE sql_find_InrE sql_find_ordered_InrE sql_count_InrE

lemmas io_InrE = io_bind_InrE io_then_InrE or_fail_InrE sql_InrE

text \<open>A statement that fails leaves the tables and the cache alone.\<close>

lemma sql_InlD:
  "sql_create g u clash row w = (Inl e, w') \<Longrightarrow> \<exists>fs. w' = w\<lparr>faults := fs\<rparr>"
  "sql_create_all g u key rows w = (Inl e, w') \<Longrightarrow> \<exists>fs. w' = w\<lparr>faults := fs\<rparr>"
  "sql_upsert u si sk chg row w = (Inl e, w') \<Longrightarrow> \<exists>fs. w' = w\<lparr>faults := fs\<rparr>"
  "sql_update u P f w = (Inl e, w') \<Longrightarrow> \<exists>fs. w' = w\<lparr>faults := fs\<rparr>"
  "sql_exec h w = (Inl e, w') \<Longrightarrow> \<exists>fs. w' = w\<lparr>faults := fs\<rparr>"
  "sql_update_rows g u P f w = (Inl e, w') \<Longrightarrow> \<exists>fs. w' = w\<lparr>faults := fs\<rparr>"
  "sql_first g P w = (Inl e, w') \<Longrightarrow> \<exists>fs. w' = w\<lparr>faults := fs\<rparr>"
  "sql_find g P w = (Inl e, w') \<Longrightarrow> \<exists>fs. w' = w\<lparr>faults := fs\<rparr>"
  "sql_find_ordered g P k n w = (Inl e, w') \<Longrightarrow> \<exists>fs. w' = w\<lparr>faults := fs\<rparr>"
  "sql_count g P w = (Inl e, w') \<Longrightarrow> \<exists>fs. w' = w\<lparr>faults := fs\<rparr>"
  unfolding sql_create_def sql_create_all_def sql_upsert_def sql_update_def sql_exec_def sql_update_rows_def
    sql_first_def sql_find_def sql_find_ordered_def sql_count_def
  by (auto elim!: command_InlE split: if_splits)

text \<open>A transaction is atomic: an error means that the tables are as they were.\<close>

lemma transaction_atomic: "transaction body w = (Inl e, w') \<Longrightarrow> db w' = db w"
  unfolding transaction_def
  by (auto split: prod.splits sum.splits elim!: command_InlE command_InrE)

lemma transaction_InrE:
  assumes "transaction body w = (Inr x, w')"
  obtains fs w2 fs' where "body (w\<lparr>faults := fs\<rparr>) = (Inr x, w2)" and "w' = w2\<lparr>faults := fs'\<rparr>"
  using assms unfolding transaction_def
  by (auto split: prod.splits sum.splits elim!: command_InrE)

subsection \<open>Runs without failures\<close>

text \<open>How the statements evaluate in a state where no command fails.\<close>

lemma online:
  "faults w = [] \<Longrightarrow> command c w = c w"
  "faults w = [] \<Longrightarrow> sql_create g u clash row w = (if list_ex clash (g (db w)) then (Inl DuplicateKey, w)
     else (Inr (), w\<lparr>db := u (\<lambda>xs. xs @ [row]) (db w)\<rparr>))"
  "faults w = [] \<Longrightarrow> sql_create_all g u key rows w = (if distinct (map key rows) \<and> (\<forall>r \<in> set rows. key r \<notin> key ` set (g (db w)))
     then (Inr (), w\<lparr>db := u (\<lambda>xs. xs @ rows) (db w)\<rparr>) else (Inl DuplicateKey, w))"
  "faults w = [] \<Longrightarrow> sql_upsert u si sk chg row' w = (Inr (), w\<lparr>db := u (upsert si sk chg row') (db w)\<rparr>)"
  "faults w = [] \<Longrightarrow> sql_update u P f w = (Inr (), w\<lparr>db := u (upd_where P f) (db w)\<rparr>)"
  "faults w = [] \<Longrightarrow> sql_exec h w = (Inr (), w\<lparr>db := h (db w)\<rparr>)"
  "faults w = [] \<Longrightarrow> sql_update_rows g u P f w = (Inr (count_where P (g (db w))), w\<lparr>db := u (upd_where P f) (db w)\<rparr>)"
  "faults w = [] \<Longrightarrow> sql_first g P w = (Inr (find P (g (db w))), w)"
  "faults w = [] \<Longrightarrow> sql_find g P w = (Inr (filter P (g (db w))), w)"
  "faults w = [] \<Longrightarrow> sql_find_ordered g P k n w = (Inr (take (nat n) (sort_key k (filter P (g (db w))))), w)"
  "faults w = [] \<Longrightarrow> sql_count g P w = (Inr (count_where P (g (db w))), w)"
  "faults w = [] \<Longrightarrow> transaction body w = (case body w of (Inl e, w2) \<Rightarrow> (Inl e, w2\<lparr>db := db w\<rparr>)
     | (Inr x, w2) \<Rightarrow> (case command (ret ()) w2 of (Inl e, w3) \<Rightarrow> (Inl e, w3\<lparr>db := db w\<rparr>) | (Inr _, w3) \<Rightarrow> (Inr x, w3)))"
  by (simp_all add: command_def sql_create_def sql_create_all_def sql_upsert_def sql_update_def sql_exec_def sql_update_rows_def
      sql_first_def sql_find_def sql_find_ordered_def sql_count_def transaction_def list_ex_iff)

lemma io_then_run: "io_then m k w = (case m w of (Inl e, w') \<Rightarrow> (Inl e, w') | (Inr x, w') \<Rightarrow> k w')"
  by (simp add: io_then_def io_bind_def)

lemma if_run: "(if b then m else k) w = (if b then m w else k w)" by simp

lemmas io_online = online io_bind_def io_then_run if_run

subsection \<open>What a computation leaves alone\<close>

text \<open>\<open>keeps g m\<close>: \<open>m\<close> does not change what \<open>g\<close> reads of the tables, whether it fails or not;
  \<open>no_ids m\<close>: it takes no id.\<close>

named_theorems frames "rules for \<open>keeps\<close> and \<open>no_ids\<close>"

definition keeps :: "(tables \<Rightarrow> 'b) \<Rightarrow> 'a io \<Rightarrow> bool" where
  "keeps g m \<longleftrightarrow> (\<forall>w. g (db (snd (m w))) = g (db w))"

definition no_ids :: "'a io \<Rightarrow> bool" where
  "no_ids m \<longleftrightarrow> (\<forall>w. next_seq (snd (m w)) = next_seq w)"

lemma keepsD: "keeps g m \<Longrightarrow> m w = (r, w') \<Longrightarrow> g (db w') = g (db w)"
  unfolding keeps_def by (metis snd_conv)

lemma no_idsD: "no_ids m \<Longrightarrow> m w = (r, w') \<Longrightarrow> next_seq w' = next_seq w"
  unfolding no_ids_def by (metis snd_conv)

lemma keeps_basic [frames]:
  "keeps g (ret x)" "keeps g (fail e)" "keeps g (NextID E)" "keeps g (UnixNano E)" "keeps g get_world"
  by (simp_all add: keeps_def NextID_def UnixNano_def get_world_def)

lemma no_ids_basic [frames]: "no_ids (ret x)" "no_ids (fail e)" "no_ids get_world" "no_ids (UnixNano E)"
  by (simp_all add: no_ids_def get_world_def UnixNano_def)

lemma keeps_bind [frames]: "keeps g m \<Longrightarrow> (\<And>x. keeps g (f x)) \<Longrightarrow> keeps g (io_bind m f)"
  by (auto simp: keeps_def io_bind_def split: prod.splits sum.splits) (metis snd_conv)+

lemma no_ids_bind [frames]: "no_ids m \<Longrightarrow> (\<And>x. no_ids (f x)) \<Longrightarrow> no_ids (io_bind m f)"
  by (auto simp: no_ids_def io_bind_def split: prod.splits sum.splits) (metis snd_conv)+

lemma keeps_then [frames]: "keeps g m \<Longrightarrow> keeps g k \<Longrightarrow> keeps g (io_then m k)"
  unfolding io_then_def by (rule keeps_bind)

lemma no_ids_then [frames]: "no_ids m \<Longrightarrow> no_ids k \<Longrightarrow> no_ids (io_then m k)"
  unfolding io_then_def by (rule no_ids_bind)

lemma keeps_wrap [frames]:
  "keeps g m \<Longrightarrow> keeps g (attempt m)" "keeps g m \<Longrightarrow> keeps g (or_fail h m)" "keeps g m \<Longrightarrow> keeps g (ignore m)"
proof -
  have a: "keeps g m \<Longrightarrow> keeps g (attempt m)" for m :: "'x io"
    by (auto simp: keeps_def attempt_def split: prod.splits) (metis snd_conv)
  show "keeps g m \<Longrightarrow> keeps g (attempt m)" by (rule a)
  show "keeps g m \<Longrightarrow> keeps g (ignore m)" unfolding ignore_def by (intro keeps_bind a keeps_basic)
  show "keeps g m \<Longrightarrow> keeps g (or_fail h m)"
    by (auto simp: keeps_def or_fail_def split: prod.splits sum.splits) (metis snd_conv)+
qed

lemma no_ids_wrap [frames]:
  "no_ids m \<Longrightarrow> no_ids (attempt m)" "no_ids m \<Longrightarrow> no_ids (or_fail h m)" "no_ids m \<Longrightarrow> no_ids (ignore m)"
proof -
  have a: "no_ids m \<Longrightarrow> no_ids (attempt m)" for m :: "'x io"
    by (auto simp: no_ids_def attempt_def split: prod.splits) (metis snd_conv)
  show "no_ids m \<Longrightarrow> no_ids (attempt m)" by (rule a)
  show "no_ids m \<Longrightarrow> no_ids (ignore m)" unfolding ignore_def by (intro no_ids_bind a no_ids_basic)
  show "no_ids m \<Longrightarrow> no_ids (or_fail h m)"
    by (auto simp: no_ids_def or_fail_def split: prod.splits sum.splits) (metis snd_conv)+
qed

lemma keeps_command: "(\<And>w. g (db (snd (c w))) = g (db w)) \<Longrightarrow> keeps g (command c)"
  by (simp add: keeps_def command_def split: list.splits)

lemma no_ids_command: "(\<And>w. next_seq (snd (c w)) = next_seq w) \<Longrightarrow> no_ids (command c)"
  by (simp add: no_ids_def command_def split: list.splits)

lemma keeps_reads [frames]:
  "keeps g (sql_first t P)" "keeps g (sql_find t P)" "keeps g (sql_find_ordered t P k n)" "keeps g (sql_count t P)"
  unfolding sql_first_def sql_find_def sql_find_ordered_def sql_count_def by (intro keeps_command; simp)+

lemma keeps_writes [frames]:
  "(\<And>h t. g (u h t) = g t) \<Longrightarrow> keeps g (sql_create r u clash row)"
  "(\<And>h t. g (u h t) = g t) \<Longrightarrow> keeps g (sql_create_all r u key rows)"
  "(\<And>h t. g (u h t) = g t) \<Longrightarrow> keeps g (sql_upsert u si sk chg row)"
  "(\<And>h t. g (u h t) = g t) \<Longrightarrow> keeps g (sql_update u P f)"
  "(\<And>h t. g (u h t) = g t) \<Longrightarrow> keeps g (sql_update_rows r u P f)"
  "(\<And>t. g (k t) = g t) \<Longrightarrow> keeps g (sql_exec k)"
  unfolding sql_create_def sql_create_all_def sql_upsert_def sql_update_def sql_update_rows_def sql_exec_def
  by (intro keeps_command; simp)+

lemma no_ids_sql [frames]:
  "no_ids (sql_first t P)" "no_ids (sql_find t P)" "no_ids (sql_find_ordered t P k n)" "no_ids (sql_count t P)"
  "no_ids (sql_create r u clash row)" "no_ids (sql_create_all r u key rows)" "no_ids (sql_upsert u si sk chg row)" "no_ids (sql_update u P f)"
  "no_ids (sql_update_rows r u P f)" "no_ids (sql_exec h)"
  unfolding sql_first_def sql_find_def sql_find_ordered_def sql_count_def
    sql_create_def sql_create_all_def sql_upsert_def sql_update_def sql_update_rows_def sql_exec_def
  by (intro no_ids_command; simp)+

lemma command_frame: "keeps g (command (ret x))" "no_ids (command (ret x))"
  by (intro keeps_command no_ids_command; simp)+

lemma keeps_transaction [frames]: "keeps g body \<Longrightarrow> keeps g (transaction body)"
  using command_frame(1) [of g "()"]
  by (auto simp: keeps_def transaction_def split: prod.splits sum.splits) (metis snd_conv)+

lemma no_ids_transaction [frames]: "no_ids body \<Longrightarrow> no_ids (transaction body)"
  using command_frame(2) [of "()"]
  by (auto simp: no_ids_def transaction_def split: prod.splits sum.splits) (metis snd_conv)+

lemma keeps_branches [frames]:
  "(b \<Longrightarrow> keeps g m) \<Longrightarrow> (\<not> b \<Longrightarrow> keeps g k) \<Longrightarrow> keeps g (if b then m else k)"
  "(o' = None \<Longrightarrow> keeps g m) \<Longrightarrow> (\<And>x. keeps g (p x)) \<Longrightarrow> keeps g (case o' of None \<Rightarrow> m | Some x \<Rightarrow> p x)"
  "(\<And>x. keeps g (q x)) \<Longrightarrow> (\<And>y. keeps g (q' y)) \<Longrightarrow> keeps g (case s of Inl x \<Rightarrow> q x | Inr y \<Rightarrow> q' y)"
  "(\<And>x y. keeps g (h x y)) \<Longrightarrow> keeps g (case xy of (x, y) \<Rightarrow> h x y)"
  by (auto split: option.splits sum.splits prod.splits)

lemma no_ids_branches [frames]:
  "(b \<Longrightarrow> no_ids m) \<Longrightarrow> (\<not> b \<Longrightarrow> no_ids k) \<Longrightarrow> no_ids (if b then m else k)"
  "(o' = None \<Longrightarrow> no_ids m) \<Longrightarrow> (\<And>x. no_ids (p x)) \<Longrightarrow> no_ids (case o' of None \<Rightarrow> m | Some x \<Rightarrow> p x)"
  "(\<And>x. no_ids (q x)) \<Longrightarrow> (\<And>y. no_ids (q' y)) \<Longrightarrow> no_ids (case s of Inl x \<Rightarrow> q x | Inr y \<Rightarrow> q' y)"
  "(\<And>x y. no_ids (h x y)) \<Longrightarrow> no_ids (case xy of (x, y) \<Rightarrow> h x y)"
  by (auto split: option.splits sum.splits prod.splits)

text \<open>\<open>no_fail m\<close>: \<open>m\<close> swallows every failure.\<close>

named_theorems totals "rules for \<open>no_fail\<close>"

definition no_fail :: "'a io \<Rightarrow> bool" where
  "no_fail m \<longleftrightarrow> (\<forall>w. \<exists>x. fst (m w) = Inr x)"

lemma no_failD: "no_fail m \<Longrightarrow> m w = (r, w') \<Longrightarrow> \<exists>x. r = Inr x"
  unfolding no_fail_def by (metis fst_conv)

lemma no_fail_basic [totals]:
  "no_fail (ret x)" "no_fail (NextID E)" "no_fail (UnixNano E)" "no_fail get_world"
  "no_fail (attempt m)" "no_fail (ignore n)"
  by (simp_all add: no_fail_def NextID_def UnixNano_def get_world_def attempt_def ignore_def io_bind_def split: prod.splits)

lemma no_fail_bind [totals]: "no_fail m \<Longrightarrow> (\<And>x. no_fail (f x)) \<Longrightarrow> no_fail (io_bind m f)"
  unfolding no_fail_def io_bind_def by (auto split: prod.splits sum.splits) (metis fst_conv sum.distinct(1))

lemma no_fail_then [totals]: "no_fail m \<Longrightarrow> no_fail k \<Longrightarrow> no_fail (io_then m k)"
  unfolding io_then_def by (rule no_fail_bind)

lemma no_fail_branches [totals]:
  "(b \<Longrightarrow> no_fail m) \<Longrightarrow> (\<not> b \<Longrightarrow> no_fail k) \<Longrightarrow> no_fail (if b then m else k)"
  "(o' = None \<Longrightarrow> no_fail m) \<Longrightarrow> (\<And>x. no_fail (p x)) \<Longrightarrow> no_fail (case o' of None \<Rightarrow> m | Some x \<Rightarrow> p x)"
  "(\<And>x. no_fail (q x)) \<Longrightarrow> (\<And>y. no_fail (q' y)) \<Longrightarrow> no_fail (case s of Inl x \<Rightarrow> q x | Inr y \<Rightarrow> q' y)"
  "(\<And>x y. no_fail (h x y)) \<Longrightarrow> no_fail (case xy of (x, y) \<Rightarrow> h x y)"
  by (auto split: option.splits sum.splits prod.splits)

end
