(* ===== verification/Normalize.thy ===== *)
theory Normalize
  imports Store "HOL-Library.Word"
begin

text \<open>
  The normalisers of \<open>biz/campus.go\<close> and \<open>data/campus.go\<close>: every string or number that a
  client, an operator or the environment supplies goes through one of them before a handler
  uses it. A Go map with string keys is an association list; where the code ranges over a map
  the list gives the order of the iteration.
\<close>

subsection \<open>Strings\<close>

definition parseID :: "string \<Rightarrow> int" where
  "parseID value = fst (parse_int64 value)"

definition trimLimit :: "string \<Rightarrow> int \<Rightarrow> string" where
  "trimLimit value mx = (let v = trim_space value in
     if mx \<le> 0 then v
     else if int (rune_count v) \<le> mx then v
     else utf8 (take (nat mx) (runes v)))"

definition trimLimitData :: "string \<Rightarrow> int \<Rightarrow> string" where
  "trimLimitData value limit = (let v = trim_space value in
     if limit \<le> 0 then v
     else if int (rune_count v) \<le> limit then v
     else utf8 (take (nat limit) (runes v)))"

fun firstNonEmpty :: "string list \<Rightarrow> string" where
  "firstNonEmpty [] = []"
| "firstNonEmpty (v # vs) = (let t = trim_space v in
     if t \<noteq> [] \<and> t \<noteq> ''<nil>'' then t else firstNonEmpty vs)"

fun firstNonEmptyData :: "string list \<Rightarrow> string" where
  "firstNonEmptyData [] = []"
| "firstNonEmptyData (v # vs) = (if v \<noteq> [] then v else firstNonEmptyData vs)"

fun sanitizeImages_loop :: "int \<Rightarrow> string list \<Rightarrow> string list \<Rightarrow> string list" where
  "sanitizeImages_loop limit out [] = out"
| "sanitizeImages_loop limit out (img # imgs) = (let im = trim_space img in
     if im = [] then sanitizeImages_loop limit out imgs
     else let out' = out @ [im] in
       if limit \<le> int (length out') then out' else sanitizeImages_loop limit out' imgs)"

definition sanitizeImages :: "string list \<Rightarrow> int \<Rightarrow> string list" where
  "sanitizeImages images limit = sanitizeImages_loop limit [] images"

definition lower_trim :: "string \<Rightarrow> string" where
  "lower_trim s = trim_space (to_lower s)"

definition trim_lower :: "string \<Rightarrow> string" where
  "trim_lower s = to_lower (trim_space s)"

text \<open>The result is the media type and the cover, or an error.\<close>

definition normalizeCampusPostMedia :: "string \<Rightarrow> string list \<Rightarrow> string \<Rightarrow> go_error + string \<times> string" where
  "normalizeCampusPostMedia mediaType images coverURL = (let
     mt0 = lower_trim mediaType;
     cover = trim_space coverURL
   in if mt0 = ''video'' then Inl (InvalidArgument msg_video_closed)
      else let mt = (if mt0 = [] then if images \<noteq> [] then ''image'' else ''text'' else mt0) in
        if mt = ''text'' then Inr (mt, [])
        else if mt = ''image'' then
          (case images of
             [] \<Rightarrow> Inl (InvalidArgument msg_image_needed)
           | im # _ \<Rightarrow> Inr (mt, if cover = [] then im else cover))
        else Inl (InvalidArgument msg_media_type_invalid))"

definition normalizeCampusPostType :: "string \<Rightarrow> string" where
  "normalizeCampusPostType postType = (let t = lower_trim postType in
     if t \<in> set [''note'', ''lost'', ''question'', ''guide'', ''club''] then t else ''note'')"

definition normalizeCampusPostSort :: "string \<Rightarrow> string \<Rightarrow> string" where
  "normalizeCampusPostSort srt fallback = (let t = lower_trim srt in
     if t \<in> set [''recommend'', ''hot'', ''new''] then t
     else if fallback = ''hot'' \<or> fallback = ''new'' then fallback
     else ''recommend'')"

definition normalizeCampusFeedbackType :: "string \<Rightarrow> string" where
  "normalizeCampusFeedbackType feedbackType = (let t = lower_trim feedbackType in
     if t \<in> set [''bug'', ''suggestion'', ''content'', ''cooperation'', ''contact''] then t
     else ''suggestion'')"

definition normalizeCampusNotificationGroup :: "string \<Rightarrow> string" where
  "normalizeCampusNotificationGroup gr = (let t = lower_trim gr in
     if t \<in> set [''reply'', ''interaction'', ''system''] then t else ''all'')"

definition normalizeCampusTargetType :: "string \<Rightarrow> string" where
  "normalizeCampusTargetType targetType = (let t = lower_trim targetType in
     if t = ''post'' \<or> t = ''posts'' then ''post''
     else if t = ''comment'' \<or> t = ''comments'' then ''comment''
     else [])"

definition campus_events :: "string list" where
  "campus_events = [''visit'', ''share'', ''login'', ''post_create'', ''publish_open'',
     ''publish_success'', ''post_detail_visit'', ''comment_create'', ''comment_like'', ''like'',
     ''collect'', ''feedback_create'', ''report_create'']"

definition normalizeCampusEvent :: "string \<Rightarrow> string" where
  "normalizeCampusEvent event = (let t = lower_trim event in
     if t \<in> set campus_events then t else [])"

definition normalizeAIContentAuditDecision :: "string \<Rightarrow> string" where
  "normalizeAIContentAuditDecision value = (let t = trim_lower value in
     if t \<in> set [''pass'', ''review'', ''reject''] then t else [])"

definition normalizeAIContentAuditRiskLevel :: "string \<Rightarrow> string" where
  "normalizeAIContentAuditRiskLevel value = (let t = trim_lower value in
     if t \<in> set [''low'', ''medium'', ''high''] then t else ''medium'')"

definition normalizeAIReplyTaskStatus :: "string \<Rightarrow> string" where
  "normalizeAIReplyTaskStatus status = (let t = lower_trim status in
     if t \<in> set [''pending'', ''processing'', ''done'', ''failed''] then t else [])"

definition normalizeKnowledgeDocumentStatus :: "string \<Rightarrow> string" where
  "normalizeKnowledgeDocumentStatus status = (let t = lower_trim status in
     if t \<in> set [''draft'', ''indexing'', ''active'', ''disabled'', ''failed''] then t else [])"

definition normalizeKnowledgeContentType :: "string \<Rightarrow> string" where
  "normalizeKnowledgeContentType contentType = (let t = lower_trim contentType in
     if t = ''file'' then ''file'' else ''text'')"

definition normalizeKnowledgeCategory :: "string \<Rightarrow> string" where
  "normalizeKnowledgeCategory category = (let c = lower_trim category in
     if c \<in> set [''registration'', ''dorm'', ''traffic'', ''timetable'', ''network'', ''express'',
          ''military'', ''club'', ''lost'', ''platform'', ''policy'', ''life'', ''study''] then c
     else if c = [] then ''general''
     else trimLimit c 32)"

text \<open>\<open>strings.Trim(.., ".")\<close>.\<close>

definition normalizeKnowledgeFileType :: "string \<Rightarrow> string" where
  "normalizeKnowledgeFileType fileType =
     (let t = trim_func (\<lambda>r. r = 46) (trim_lower fileType) in if t = ''markdown'' then ''md'' else t)"

text \<open>The empty string stands for an audit mode that is not known.\<close>

definition normalizeCampusPostAuditMode :: "string \<Rightarrow> string" where
  "normalizeCampusPostAuditMode value = (let t = trim_lower value in
     if t = [] \<or> t = ''off'' then ''off''
     else if t = ''manual'' then ''manual''
     else if t = ''ai'' then ''ai''
     else [])"

definition normalizeRAGQualityLabel :: "string \<Rightarrow> string" where
  "normalizeRAGQualityLabel value = (let t = trim_lower value in
     if t \<in> set [''good'', ''ok'', ''pass''] then ''good''
     else if t \<in> set [''needs_fix'', ''fix'', ''weak''] then ''needs_fix''
     else if t \<in> set [''wrong'', ''bad''] then ''wrong''
     else if t \<in> set [''unsafe'', ''risk''] then ''unsafe''
     else [])"

fun rag_keywords_loop :: "string list \<Rightarrow> string list \<Rightarrow> string list" where
  "rag_keywords_loop out [] = out"
| "rag_keywords_loop out (value # values) = (let keyword = trimLimit (trim_space value) 40 in
     if keyword = [] \<or> keyword \<in> set out then rag_keywords_loop out values
     else let out' = out @ [keyword] in
       if 12 \<le> length out' then out' else rag_keywords_loop out' values)"

definition normalizeRAGExpectedKeywords :: "string list \<Rightarrow> string list" where
  "normalizeRAGExpectedKeywords values = rag_keywords_loop [] values"

fun dedupeStrings_loop :: "string list \<Rightarrow> string list \<Rightarrow> string list" where
  "dedupeStrings_loop out [] = out"
| "dedupeStrings_loop out (value # values) =
     (if value = [] \<or> value \<in> set out then dedupeStrings_loop out values
      else dedupeStrings_loop (out @ [value]) values)"

definition dedupeStrings :: "string list \<Rightarrow> string list" where
  "dedupeStrings values = dedupeStrings_loop [] values"

definition normalizeAgentRunType :: "string \<Rightarrow> string" where
  "normalizeAgentRunType value = (let t = trim_lower value in
     if t \<in> set [''daily_ops'', ''rag_gap'', ''moderation_advice''] then t else [])"

definition normalizeAgentRunSource :: "string \<Rightarrow> string" where
  "normalizeAgentRunSource value = (if trim_lower value = ''scheduled'' then ''scheduled'' else ''manual'')"

text \<open>The filters of the operations list: official, featured, pinned (a pointer to true or
  nil), and whether only reported posts are wanted.\<close>

definition parseOpsFilter :: "string \<Rightarrow> bool option \<times> bool option \<times> bool option \<times> bool" where
  "parseOpsFilter flt = (let t = lower_trim flt in
     if t = ''official'' then (Some True, None, None, False)
     else if t = ''featured'' then (None, Some True, None, False)
     else if t = ''pinned'' then (None, None, Some True, False)
     else if t = ''reported'' then (None, None, None, True)
     else (None, None, None, False))"

subsection \<open>Settings from the environment and the settings table\<close>

definition envBoolFalse :: "string \<Rightarrow> bool" where
  "envBoolFalse value \<longleftrightarrow>
     trim_lower value \<in> set [''0'', ''false'', ''off'', ''no'', ''disabled'']"

definition envBoolDefault :: "string \<Rightarrow> bool \<Rightarrow> bool" where
  "envBoolDefault value fallback = (let v = trim_space value in
     if v = [] then fallback else \<not> envBoolFalse v)"

definition parseBoolSetting :: "string \<Rightarrow> bool \<Rightarrow> bool" where
  "parseBoolSetting value fallback = (let t = trim_lower value in
     if t \<in> set [''1'', ''true'', ''yes'', ''on'', ''enabled''] then True
     else if t \<in> set [''0'', ''false'', ''no'', ''off'', ''disabled''] then False
     else fallback)"

definition envInt64 :: "env \<Rightarrow> string \<Rightarrow> int \<Rightarrow> int" where
  "envInt64 E key fallback = (let v = trim_space (getenv E key) in
     if v = [] then fallback
     else case parse_int64 v of (n, ok) \<Rightarrow> if \<not> ok \<or> n \<le> 0 then fallback else n)"

text \<open>The separators of \<open>normalizeAuditWords\<close>: comma, semicolon and enumeration comma in both
  widths, line feed, carriage return, tab, space.\<close>

definition audit_word_sep :: "rune \<Rightarrow> bool" where
  "audit_word_sep r \<longleftrightarrow> r \<in> set [44, 65292, 59, 65307, 12289, 10, 13, 9, 32]"

fun audit_words_loop :: "string list \<Rightarrow> string list \<Rightarrow> string list \<Rightarrow> string list" where
  "audit_words_loop seen out [] = out"
| "audit_words_loop seen out (item # items) = (let word = trim_space item in
     if word = [] then audit_words_loop seen out items
     else let
       word' = (if 32 < rune_count word then utf8 (take 32 (runes word)) else word);
       key = to_lower word'
     in if key \<in> set seen then audit_words_loop seen out items
        else let out' = out @ [word'] in
          if 80 \<le> length out' then out' else audit_words_loop (key # seen) out' items)"

definition normalizeAuditWords :: "string \<Rightarrow> string list \<Rightarrow> string list" where
  "normalizeAuditWords value fallback = (let
     v = trim_space value;
     raw0 = (if v \<noteq> [] then fields_func audit_word_sep v else []);
     raw = (if raw0 = [] then fallback else raw0);
     out = audit_words_loop [] [] raw
   in if out = [] \<and> fallback \<noteq> [] then fallback else out)"

definition formatAuditWords :: "string list \<Rightarrow> string" where
  "formatAuditWords words = join '','' (normalizeAuditWords (join '','' words) [])"

subsection \<open>Paging, weights, rates\<close>

definition normalizePage :: "32 word \<Rightarrow> 32 word \<Rightarrow> 32 word \<times> 32 word" where
  "normalizePage page sz = (let
     page' = (if sint page \<le> 0 then 1 else page);
     sz' = (if sint sz \<le> 0 then 20 else sz);
     sz'' = (if 50 < sint sz' then 50 else sz')
   in (page', sz''))"

text \<open>\<open>int((page - 1) * size)\<close>: the product is taken at 32 bits.\<close>

definition page_offset :: "32 word \<Rightarrow> 32 word \<Rightarrow> int" where
  "page_offset page sz = sint ((page - 1) * sz)"

definition clampSortWeight :: "int \<Rightarrow> int" where
  "clampSortWeight weight = (if weight < 0 then 0 else if 10000 < weight then 10000 else weight)"

definition campusRateLimitRule :: "string \<Rightarrow> string \<Rightarrow> string \<Rightarrow> int \<times> time" where
  "campusRateLimitRule category mth path = (let
     c = lower_trim category;
     m = to_upper (trim_space mth)
   in if c = ''auth'' then (12, minutes 1)
      else if c = ''upload'' then (12, minutes 1)
      else if c = ''write'' then (30, minutes 1)
      else if c = ''feedback'' then (6, minutes 1)
      else if c = ''admin'' then (180, minutes 1)
      else if m = ''GET'' then (240, minutes 1)
      else (60, minutes 1))"

subsection \<open>Maps of strings\<close>

definition map_get :: "(string \<times> string) list \<Rightarrow> string \<Rightarrow> string" where
  "map_get m k = (case map_of m k of None \<Rightarrow> [] | Some v \<Rightarrow> v)"

definition extra_allowed :: "(string \<times> nat) list" where
  "extra_allowed = [(''lost_kind'', 16), (''location'', 80), (''event_time'', 80), (''contact'', 80),
     (''club_name'', 60), (''activity_time'', 80), (''activity_place'', 80)]"

definition sanitizeCampusPostExtra :: "(string \<times> string) list \<Rightarrow> (string \<times> string) list" where
  "sanitizeCampusPostExtra extra = concat (map (\<lambda>(key, limit).
     let value = trim_space (map_get extra key) in
     if value = [] then []
     else [(key, if limit < rune_count value then utf8 (take limit (runes value)) else value)])
     extra_allowed)"

text \<open>A nil map is \<open>None\<close>.\<close>

definition mergeCampusPostExtra ::
    "(string \<times> string) list \<Rightarrow> (string \<times> string) list option \<Rightarrow> (string \<times> string) list" where
  "mergeCampusPostExtra base next =
     (case next of None \<Rightarrow> sanitizeCampusPostExtra base | Some n \<Rightarrow> sanitizeCampusPostExtra n)"

fun track_extra_loop :: "(string \<times> string) list \<Rightarrow> (string \<times> string) list \<Rightarrow> (string \<times> string) list" where
  "track_extra_loop out [] = out"
| "track_extra_loop out ((key, value) # kvs) = (let k = trimLimit key 40 in
     if k = [] then track_extra_loop out kvs
     else let out' = AList.update k (trimLimit value 200) out in
       if 16 \<le> length out' then out' else track_extra_loop out' kvs)"

definition sanitizeTrackExtra :: "(string \<times> string) list \<Rightarrow> (string \<times> string) list" where
  "sanitizeTrackExtra extra = (if extra = [] then [] else track_extra_loop [] extra)"

subsection \<open>Bounds\<close>

lemma utf8_Nil_iff [simp]: "utf8 rs = [] \<longleftrightarrow> rs = []"
  by (cases rs) (auto simp: utf8_def enc_rune_def enc_valid_def)

text \<open>
  What \<open>trimLimit\<close> returns for a positive limit has at most that many characters, also
  when the input is not valid UTF-8; without a limit it is the trimmed string. The copy of the
  function in the data layer computes the same.
\<close>

theorem trimLimit_bound:
  "(if 0 < mx then int (rune_count (trimLimit v mx)) \<le> mx else trimLimit v mx = trim_space v)
   \<and> trimLimitData v mx = trimLimit v mx"
  by (auto simp: trimLimit_def trimLimitData_def Let_def)

lemma audit_words_loop_inv:
  assumes "length out < 80" and "list_all (\<lambda>w. w \<noteq> [] \<and> rune_count w \<le> 32) out"
    and "distinct (map to_lower out)" and "set seen = set (map to_lower out)"
  shows "length (audit_words_loop seen out ws) \<le> 80
    \<and> list_all (\<lambda>w. w \<noteq> [] \<and> rune_count w \<le> 32) (audit_words_loop seen out ws)
    \<and> distinct (map to_lower (audit_words_loop seen out ws))"
  using assms
proof (induction seen out ws rule: audit_words_loop.induct)
  case (1 seen out)
  then show ?case by simp
next
  case (2 seen out item items)
  let ?w = "trim_space item"
  let ?w' = "if 32 < rune_count ?w then utf8 (take 32 (runes ?w)) else ?w"
  show ?case
  proof (cases "?w = [] \<or> to_lower ?w' \<in> set seen")
    case True
    with 2 show ?thesis by (auto simp: Let_def)
  next
    case False
    have w: "?w' \<noteq> [] \<and> rune_count ?w' \<le> 32"
      using False by (auto simp: rune_count_def runes_utf8)
    show ?thesis
    proof (cases "80 \<le> length (out @ [?w'])")
      case True
      with False w "2.prems" show ?thesis by (simp add: Let_def)
    next
      case False': False
      with False w "2.prems" 2(3) show ?thesis by (simp add: Let_def)
    qed
  qed
qed

text \<open>
  The list of words an operator configures for the audit, or the fallback list: at most 80
  words, none empty, none longer than 32 characters, no two equal up to case.
\<close>

theorem normalizeAuditWords_wf:
  "normalizeAuditWords value fallback = fallback
   \<or> (length (normalizeAuditWords value fallback) \<le> 80
      \<and> list_all (\<lambda>w. w \<noteq> [] \<and> rune_count w \<le> 32) (normalizeAuditWords value fallback)
      \<and> distinct (map to_lower (normalizeAuditWords value fallback)))"
proof -
  have "length (audit_words_loop [] [] raw) \<le> 80
    \<and> list_all (\<lambda>w. w \<noteq> [] \<and> rune_count w \<le> 32) (audit_words_loop [] [] raw)
    \<and> distinct (map to_lower (audit_words_loop [] [] raw))" for raw
    by (rule audit_words_loop_inv) simp_all
  then show ?thesis by (auto simp: normalizeAuditWords_def Let_def)
qed

subsection \<open>The stored list of audit words reads back\<close>

lemma decode_rune_append:
  assumes "a \<noteq> []" and "\<not> is_cont c"
  shows "decode_rune (a @ c # b) = decode_rune a"
proof -
  obtain x xs where a: "a = x # xs" using assms(1) by (cases a) auto
  consider "xs = []" | y where "xs = [y]" | y z where "xs = [y, z]"
    | y z u us where "xs = y # z # u # us"
    by (metis list.exhaust)
  then show ?thesis
    by cases (use assms(2) in \<open>simp_all add: a Let_def split: list.splits\<close>)
qed

lemma segs_append: "\<not> is_cont c \<Longrightarrow> segs (a @ c # b) = segs a @ segs (c # b)"
proof (induction a rule: segs.induct)
  case 1
  show ?case by simp
next
  case (2 x xs)
  obtain r n where d: "decode_rune (x # xs) = (r, n)" by fastforce
  with decode_rune_size have n: "1 \<le> n" "n \<le> length (x # xs)" by blast+
  from d decode_rune_append [OF _ "2.prems", of "x # xs" b]
  have d': "decode_rune (x # xs @ c # b) = (r, n)" by simp
  have "segs (drop (n - 1) xs @ c # b) = segs (drop (n - 1) xs) @ segs (c # b)"
    using 2 d by simp
  moreover have "take n (x # xs @ c # b) = take n (x # xs)" "drop (n - 1) (xs @ c # b) = drop (n - 1) xs @ c # b"
    using n by (cases n; simp)+
  ultimately show ?case using d d' by (simp add: segs.simps(2) del: decode_rune.simps)
qed

lemma segs_pieces: "x \<in> set (segs s) \<Longrightarrow> snd x \<noteq> []"
proof (induction s rule: segs.induct)
  case 1
  then show ?case by simp
next
  case (2 c cs)
  obtain r n where d: "decode_rune (c # cs) = (r, n)" by fastforce
  with decode_rune_size have "1 \<le> n" by blast
  with 2 d show ?case by (cases n) (auto simp: segs.simps(2) simp del: decode_rune.simps)
qed

definition good_ends :: "(rune \<Rightarrow> bool) \<Rightarrow> (rune \<times> string) list \<Rightarrow> bool" where
  "good_ends p ss \<longleftrightarrow> ss = [] \<or> (\<not> p (fst (hd ss)) \<and> \<not> p (fst (last ss)))"

lemma trim_segs_good: "good_ends p ss \<Longrightarrow> trim_segs p ss = ss"
proof (cases "ss = []")
  case False
  assume "good_ends p ss"
  with False have h: "\<not> p (fst (hd ss))" and l: "\<not> p (fst (hd (rev ss)))"
    by (auto simp: good_ends_def hd_rev)
  have "dropWhile (\<lambda>s. p (fst s)) ss = ss" using False h by (cases ss) auto
  moreover have "dropWhile (\<lambda>s. p (fst s)) (rev ss) = rev ss"
    using False l by (cases "rev ss") auto
  ultimately show ?thesis by (simp add: trim_segs_def)
qed (simp add: trim_segs_def)

lemma trim_segs_split: "\<exists>a b. ss = a @ trim_segs p ss @ b"
proof -
  let ?d = "dropWhile (\<lambda>s. p (fst s))"
  have "ss = takeWhile (\<lambda>s. p (fst s)) ss @ ?d ss" by simp
  moreover have "?d ss = rev (?d (rev (?d ss))) @ rev (takeWhile (\<lambda>s. p (fst s)) (rev (?d ss)))"
    by (metis rev_append rev_rev_ident takeWhile_dropWhile_id)
  ultimately show ?thesis unfolding trim_segs_def by metis
qed

lemma trim_segs_ends: "good_ends p (trim_segs p ss)"
proof -
  let ?d = "dropWhile (\<lambda>s. p (fst s))"
  have "\<not> p (fst (last (trim_segs p ss)))" if "trim_segs p ss \<noteq> []"
    using that hd_dropWhile [of "\<lambda>s. p (fst s)" "rev (?d ss)"] by (simp add: trim_segs_def last_rev)
  moreover have "\<not> p (fst (hd (trim_segs p ss)))" if "trim_segs p ss \<noteq> []"
  proof -
    let ?t = "takeWhile (\<lambda>s. p (fst s)) (rev (?d ss))"
    have e: "?d ss = trim_segs p ss @ rev ?t" unfolding trim_segs_def
      by (metis rev_append rev_rev_ident takeWhile_dropWhile_id)
    with that have "?d ss \<noteq> []" and "hd (?d ss) = hd (trim_segs p ss)"
      by (metis append_is_Nil_conv, metis hd_append2)
    then show ?thesis using hd_dropWhile [of "\<lambda>s. p (fst s)" ss] by simp
  qed
  ultimately show ?thesis by (auto simp: good_ends_def)
qed

lemma concat_segs_Nil: "set xs \<subseteq> set (segs s) \<Longrightarrow> concat (map snd xs) = [] \<Longrightarrow> xs = []"
  using segs_pieces by (cases xs) auto

lemma trim_func_fixed: "trim_func p s = s \<longleftrightarrow> good_ends p (segs s)"
proof
  assume e: "trim_func p s = s"
  obtain a b where ab: "segs s = a @ trim_segs p (segs s) @ b" using trim_segs_split by blast
  then have "s = concat (map snd a) @ s @ concat (map snd b)"
    using e concat_segs [of s] by (metis concat_append map_append trim_func_def)
  then have "length (concat (map snd a) @ concat (map snd b)) = 0"
    by (metis (no_types, lifting) add_cancel_right_right add.assoc add.commute length_append)
  then have "concat (map snd a) = []" "concat (map snd b) = []" by auto
  moreover have "set a \<subseteq> set (segs s)" "set b \<subseteq> set (segs s)"
    using arg_cong [OF ab, of set] by auto
  ultimately have "a = []" "b = []" using concat_segs_Nil by blast+
  with ab have "segs s = trim_segs p (segs s)" by simp
  then show "good_ends p (segs s)" by (metis trim_segs_ends)
next
  assume "good_ends p (segs s)"
  then show "trim_func p s = s" by (simp add: trim_func_def trim_segs_good concat_segs)
qed

lemma fields_segs_word:
  "list_all (\<lambda>x. \<not> p (fst x)) ss \<Longrightarrow>
   fields_segs p acc (ss @ rest) = fields_segs p (acc @ concat (map snd ss)) rest"
  by (induction ss arbitrary: acc) auto

text \<open>A word as the loop leaves it: trimmed, of 1 to 32 characters, without a separator.\<close>

definition audit_word :: "string \<Rightarrow> bool" where
  "audit_word w \<longleftrightarrow> w \<noteq> [] \<and> trim_space w = w \<and> rune_count w \<le> 32 \<and>
     list_all (\<lambda>r. \<not> audit_word_sep r) (runes w)"

lemma segs_comma: "segs (CHR '','' # b) = (44, '','') # segs b"
  by (simp add: segs.simps(2) byte_def)

lemma not_cont_comma: "\<not> is_cont (CHR '','')"
  by (simp add: is_cont_def byte_def)

lemma segs_join:
  "segs (join '','' (w # v # ws)) = segs w @ (44, '','') # segs (join '','' (v # ws))"
  using segs_append [OF not_cont_comma] by (simp add: segs_comma)

lemma fields_join:
  "list_all audit_word ws \<Longrightarrow> fields_segs audit_word_sep [] (segs (join '','' ws)) = ws"
proof (induction "'','' :: string" ws rule: join.induct)
  case 1
  then show ?case by simp
next
  case (2 w)
  then have "list_all (\<lambda>x. \<not> audit_word_sep (fst x)) (segs w)" "w \<noteq> []"
    by (auto simp: audit_word_def runes_def list_all_iff)
  with fields_segs_word [of audit_word_sep "segs w" "[]" "[]"] show ?case
    by (simp add: concat_segs)
next
  case (3 w v ws)
  then have w: "list_all (\<lambda>x. \<not> audit_word_sep (fst x)) (segs w)" "w \<noteq> []"
    by (auto simp: audit_word_def runes_def list_all_iff)
  have "fields_segs audit_word_sep [] (segs (join '','' (w # v # ws))) =
      fields_segs audit_word_sep w ((44, '','') # segs (join '','' (v # ws)))"
    using fields_segs_word [OF w(1), of "[]"] by (simp only: segs_join concat_segs append_Nil)
  also have "\<dots> = w # fields_segs audit_word_sep [] (segs (join '','' (v # ws)))"
    using w(2) by (simp add: audit_word_sep_def del: join.simps)
  finally show ?case using 3 by (simp del: join.simps)
qed

lemma segs_Nil_iff [simp]: "segs s = [] \<longleftrightarrow> s = []"
  by (metis concat_segs concat.simps(1) list.simps(8) segs.simps(1))

lemma join_ends: "list_all audit_word ws \<Longrightarrow> good_ends is_space (segs (join '','' ws))"
proof (induction "'','' :: string" ws rule: join.induct)
  case (3 w v ws)
  let ?r = "join '','' (v # ws)"
  have w: "good_ends is_space (segs w)" "w \<noteq> []"
    using 3 trim_func_fixed [of is_space w] by (auto simp: audit_word_def trim_space_def)
  have r: "good_ends is_space (segs ?r)" using 3 by simp
  have "?r \<noteq> []" using 3 by (cases ws) (auto simp: audit_word_def)
  then have "segs ?r \<noteq> []" by simp
  moreover have "segs w \<noteq> []" using w(2) by simp
  ultimately show ?case using w(1) r
    unfolding segs_join good_ends_def by (simp del: join.simps)
qed (auto simp: good_ends_def audit_word_def trim_space_def trim_func_fixed)

lemma audit_words_loop_good:
  "list_all audit_word ws \<Longrightarrow> distinct (map to_lower ws) \<Longrightarrow>
   set seen \<inter> set (map to_lower ws) = {} \<Longrightarrow> length (out @ ws) \<le> 80 \<Longrightarrow>
   audit_words_loop seen out ws = out @ ws"
proof (induction ws arbitrary: seen out)
  case (Cons w ws)
  then have "audit_word w" "to_lower w \<notin> set seen" by auto
  moreover have "80 \<le> length (out @ [w]) \<Longrightarrow> ws = []" using Cons.prems(4) by (cases ws) auto
  ultimately show ?case using Cons by (auto simp: audit_word_def Let_def)
qed simp

text \<open>
  C6. A list of at most 80 words, each trimmed, of 1 to 32 characters and free of separators,
  no two equal up to case, survives being stored in the settings: formatting it joins the words
  with commas, and normalising the stored string gives the list back.
\<close>

theorem audit_words_roundtrip:
  assumes "ws \<noteq> []" and "list_all audit_word ws" and "distinct (map to_lower ws)" and "length ws \<le> 80"
  shows "formatAuditWords ws = join '','' ws \<and> normalizeAuditWords (formatAuditWords ws) fallback = ws"
proof -
  have t: "trim_space (join '','' ws) = join '','' ws"
    using join_ends [OF assms(2)] by (simp add: trim_space_def trim_func_fixed)
  have ne: "join '','' ws \<noteq> []" using assms(1,2)
    by (cases "('','' :: string, ws)" rule: join.cases) (auto simp: audit_word_def)
  have f: "fields_func audit_word_sep (join '','' ws) = ws"
    using fields_join [OF assms(2)] by (simp add: fields_func_def)
  have l: "audit_words_loop [] [] ws = ws"
    using audit_words_loop_good [OF assms(2,3), of "[]" "[]"] assms(4) by simp
  have "normalizeAuditWords (join '','' ws) fb = ws" for fb
    using assms(1) ne by (simp add: normalizeAuditWords_def Let_def t f l)
  then show ?thesis by (simp add: formatAuditWords_def)
qed

theorem audit_words_roundtrip_witness:
  "formatAuditWords [''loan'', utf8 [36172, 21338]] = join '','' [''loan'', utf8 [36172, 21338]]
   \<and> normalizeAuditWords (formatAuditWords [''loan'', utf8 [36172, 21338]]) [''x''] =
      [''loan'', utf8 [36172, 21338]]"
proof (rule audit_words_roundtrip)
  show "list_all audit_word [''loan'', utf8 [36172, 21338]]" by (simp add: audit_word_def trim_space_def trim_func_def trim_segs_def go_string_eval audit_word_sep_def)
  show "distinct (map to_lower [''loan'', utf8 [36172, 21338]])"
    by (simp add: go_string_eval)
qed simp_all

end
