(* ===== verification/Cache.thy ===== *)
theory Cache
  imports Normalize
begin

text \<open>
  The Redis cache of \<open>data/campus_cache.go\<close>: post details as documents with an expiry, the
  other documents by their keys, and the version counters that invalidate the cached lists. No
  failure of Redis reaches a caller: every operation returns normally.
\<close>

definition campusCachePrefix :: string where
  "campusCachePrefix = ''campus:cache:v1''"

definition campusPostDetailCacheKey :: "int \<Rightarrow> string" where
  "campusPostDetailCacheKey postID = campusCachePrefix @ '':post:'' @ fmt_d postID"

definition campusCategoriesCacheKey :: string where
  "campusCategoriesCacheKey = campusCachePrefix @ '':categories''"

definition campusAdminSummaryCacheKey :: string where
  "campusAdminSummaryCacheKey = campusCachePrefix @ '':admin:summary''"

definition campusSecurityOverviewCacheKey :: string where
  "campusSecurityOverviewCacheKey = campusCachePrefix @ '':admin:security-overview''"

definition envBoolFalseData :: "string \<Rightarrow> bool" where
  "envBoolFalseData value \<longleftrightarrow>
     trim_lower value \<in> set [''0'', ''false'', ''no'', ''off'', ''disabled'']"

definition cacheEnabled :: "env \<Rightarrow> world \<Rightarrow> bool" where
  "cacheEnabled E w \<longleftrightarrow> rds_on w \<and> \<not> envBoolFalseData (getenv E ''LEHU_REDIS_CACHE_ENABLED'')"

text \<open>Reading a post detail: \<open>None\<close> is a miss, an expired entry, or a failure.\<close>

definition getCacheJSON :: "env \<Rightarrow> string \<Rightarrow> CampusForumPost option io" where
  "getCacheJSON E key w =
     (if \<not> cacheEnabled E w then (Inr None, w)
      else case command (\<lambda>w. (Inr (map_of (post_cache w) key), w)) w of
        (Inl e, w') \<Rightarrow> (Inr None, w')
      | (Inr None, w') \<Rightarrow> (Inr None, w')
      | (Inr (Some (p, expiry)), w') \<Rightarrow> (Inr (if now E < expiry then Some p else None), w'))"

definition setCacheJSON :: "env \<Rightarrow> string \<Rightarrow> CampusForumPost \<Rightarrow> time \<Rightarrow> unit io" where
  "setCacheJSON E key p ttl w =
     (if \<not> cacheEnabled E w \<or> ttl \<le> 0 then (Inr (), w)
      else ignore (command (\<lambda>w. (Inr (),
        w\<lparr>post_cache := AList.update key (p, now E + ttl) (post_cache w)\<rparr>))) w)"

definition deleteCacheKeys :: "env \<Rightarrow> string list \<Rightarrow> unit io" where
  "deleteCacheKeys E keys w =
     (if \<not> cacheEnabled E w \<or> keys = [] then (Inr (), w)
      else ignore (command (\<lambda>w. (Inr (),
        w\<lparr>post_cache := filter (\<lambda>(k, v). k \<notin> set keys) (post_cache w),
          other_cache := filter (\<lambda>(k, v). k \<notin> set keys) (other_cache w)\<rparr>))) w)"

definition bumpPostFeedCacheVersion :: "env \<Rightarrow> unit io" where
  "bumpPostFeedCacheVersion E w =
     (if \<not> cacheEnabled E w then (Inr (), w)
      else ignore (command (\<lambda>w. (Inr (), w\<lparr>feed_version := feed_version w + 1\<rparr>))) w)"

definition bumpMomentsCacheVersion :: "env \<Rightarrow> unit io" where
  "bumpMomentsCacheVersion E w =
     (if \<not> cacheEnabled E w then (Inr (), w)
      else ignore (command (\<lambda>w. (Inr (), w\<lparr>moments_version := moments_version w + 1\<rparr>))) w)"

definition postFeedCacheVersion :: "env \<Rightarrow> int io" where
  "postFeedCacheVersion E w =
     (if \<not> cacheEnabled E w then (Inr 0, w)
      else case command (\<lambda>w. (Inr (feed_version w), w)) w of
        (Inl e, w') \<Rightarrow> (Inr 0, w')
      | (Inr v, w') \<Rightarrow> (Inr v, w'))"

definition momentsCacheVersion :: "env \<Rightarrow> int io" where
  "momentsCacheVersion E w =
     (if \<not> cacheEnabled E w then (Inr 0, w)
      else case command (\<lambda>w. (Inr (moments_version w), w)) w of
        (Inl e, w') \<Rightarrow> (Inr 0, w')
      | (Inr v, w') \<Rightarrow> (Inr v, w'))"

definition invalidatePostDetailCache :: "env \<Rightarrow> int \<Rightarrow> unit io" where
  "invalidatePostDetailCache E postID =
     (if postID \<le> 0 then ret () else deleteCacheKeys E [campusPostDetailCacheKey postID])"

definition invalidatePostReadCaches :: "env \<Rightarrow> int \<Rightarrow> bool \<Rightarrow> unit io" where
  "invalidatePostReadCaches E postID bumpFeed =
     io_then (invalidatePostDetailCache E postID)
     (io_then (if bumpFeed
               then io_then (bumpPostFeedCacheVersion E) (bumpMomentsCacheVersion E)
               else ret ())
     (deleteCacheKeys E [campusAdminSummaryCacheKey]))"

text \<open>\<open>shouldCachePostList\<close>: only the first three pages of the unfiltered public feed.\<close>

record ListCampusPostQuery =
  q_category_code :: string
  q_post_type :: string
  q_sort :: string
  q_keyword :: string
  q_author_id :: string
  q_collected_by :: string
  q_statuses :: "int list"
  q_include_deleted :: bool
  q_only_reported :: bool
  q_only_official :: "bool option"
  q_only_featured :: "bool option"
  q_only_pinned :: "bool option"
  q_offset :: int
  q_limit :: int

definition shouldCachePostList :: "env \<Rightarrow> world \<Rightarrow> ListCampusPostQuery \<Rightarrow> bool" where
  "shouldCachePostList E w q =
     (if \<not> cacheEnabled E w then False
      else if q_include_deleted q \<or> q_keyword q \<noteq> [] \<or> q_author_id q \<noteq> [] \<or>
              q_collected_by q \<noteq> [] \<or> q_only_reported q then False
      else if q_only_official q \<noteq> None \<or> q_only_featured q \<noteq> None \<or> q_only_pinned q \<noteq> None then False
      else if q_statuses q \<noteq> [CampusAuditStatusVisible] then False
      else if q_limit q \<le> 0 \<or> q_offset q < 0 then False
      else let page = q_offset q div q_limit q + 1 in 1 \<le> page \<and> page \<le> 3)"

subsection \<open>The cache operations touch nothing else\<close>

text \<open>What every cache operation keeps: the tables and the id generator.\<close>

definition cache_step :: "'a io \<Rightarrow> bool" where
  "cache_step m \<longleftrightarrow> (\<forall>w. (\<exists>x. fst (m w) = Inr x) \<and> db (snd (m w)) = db w \<and>
     next_seq (snd (m w)) = next_seq w \<and> rds_on (snd (m w)) = rds_on w)"

lemma cache_stepD:
  "cache_step m \<Longrightarrow> m w = (r, w') \<Longrightarrow>
     (\<exists>x. r = Inr x) \<and> db w' = db w \<and> next_seq w' = next_seq w \<and> rds_on w' = rds_on w"
  unfolding cache_step_def by (metis fst_conv snd_conv)

lemma cache_step_ret [simp]: "cache_step (ret x)"
  by (simp add: cache_step_def)

lemma cache_step_then [simp]:
  assumes "cache_step m" and "cache_step k"
  shows "cache_step (io_then m k)"
  unfolding cache_step_def
proof
  fix w
  obtain w1 where m: "m w = (Inr (), w1)"
    and k1: "db w1 = db w" "next_seq w1 = next_seq w" "rds_on w1 = rds_on w"
    using cache_stepD [OF assms(1)] by (metis (full_types) old.unit.exhaust surj_pair)
  obtain x w2 where k: "k w1 = (Inr x, w2)"
    and k2: "db w2 = db w1" "next_seq w2 = next_seq w1" "rds_on w2 = rds_on w1"
    using cache_stepD [OF assms(2)] by (metis surj_pair)
  from m k have "io_then m k w = (Inr x, w2)" by (simp add: io_then_def io_bind_def)
  with k1 k2 show "(\<exists>x. fst (io_then m k w) = Inr x) \<and> db (snd (io_then m k w)) = db w \<and>
      next_seq (snd (io_then m k w)) = next_seq w \<and> rds_on (snd (io_then m k w)) = rds_on w"
    by simp
qed

lemma ignore_command_run:
  "ignore (command (\<lambda>w. (Inr (), f w))) w =
     (Inr (), case faults w of [] \<Rightarrow> f w | b # bs \<Rightarrow>
        if b then w\<lparr>faults := bs\<rparr> else f (w\<lparr>faults := bs\<rparr>))"
  by (simp add: ignore_def attempt_def io_bind_def command_def split: list.splits)

lemma cache_steps [simp]:
  "cache_step (getCacheJSON E key)"
  "cache_step (setCacheJSON E key p ttl)"
  "cache_step (deleteCacheKeys E keys)"
  "cache_step (bumpPostFeedCacheVersion E)"
  "cache_step (bumpMomentsCacheVersion E)"
  "cache_step (postFeedCacheVersion E)"
  "cache_step (momentsCacheVersion E)"
  unfolding cache_step_def getCacheJSON_def setCacheJSON_def deleteCacheKeys_def
    bumpPostFeedCacheVersion_def bumpMomentsCacheVersion_def postFeedCacheVersion_def
    momentsCacheVersion_def
  by (auto simp: ignore_command_run command_def split: list.splits option.splits)

lemma cache_step_invalidate [simp]:
  "cache_step (invalidatePostDetailCache E postID)"
  "cache_step (invalidatePostReadCaches E postID b)"
  unfolding invalidatePostDetailCache_def invalidatePostReadCaches_def by simp_all

lemma cache_step_frames: "cache_step m \<Longrightarrow> keeps g m" "cache_step m \<Longrightarrow> no_ids m"
  by (simp_all add: cache_step_def keeps_def no_ids_def)

lemmas cache_frames [frames] =
  cache_steps [THEN cache_step_frames(1)] cache_steps [THEN cache_step_frames(2)]
  cache_step_invalidate [THEN cache_step_frames(1)] cache_step_invalidate [THEN cache_step_frames(2)]

end
