(* ===== verification/Access.thy ===== *)
theory Access
  imports Cache
begin

text \<open>
  Who may do what, and the settings of the operations (\<open>biz/campus.go\<close>: \<open>isCampusOperator\<close>,
  \<open>isCampusAdmin\<close>, \<open>AdminUpdateUserRole\<close>, the boolean settings and the audit mode;
  \<open>data/campus.go\<close>: the operator table and the settings table). A user is an administrator or
  an operator by the environment or by the table; a lookup that fails gives no right.
\<close>

subsection \<open>The operator table\<close>

definition GetCampusOperatorRole :: "string \<Rightarrow> string io" where
  "GetCampusOperatorRole userID =
     io_bind (sql_first operators (\<lambda>r. op_user_id r = parseID userID \<and> \<not> op_is_deleted r)) (\<lambda>row.
     case row of None \<Rightarrow> ret [] | Some r \<Rightarrow> ret (op_role r))"

definition UpsertCampusOperator :: "env \<Rightarrow> string \<Rightarrow> string \<Rightarrow> unit io" where
  "UpsertCampusOperator E userID role = (let row = \<lparr>op_user_id = parseID userID, op_role = role,
       op_is_deleted = False, op_created_at = now E, op_updated_at = now E\<rparr> in
     sql_upsert operators_update (\<lambda>r. op_user_id r = op_user_id row) (\<lambda>r. op_user_id r = op_user_id row)
       (\<lambda>r. r\<lparr>op_role := role, op_is_deleted := False, op_updated_at := now E\<rparr>) row)"

definition RemoveCampusOperator :: "env \<Rightarrow> string \<Rightarrow> unit io" where
  "RemoveCampusOperator E userID =
     sql_update operators_update (\<lambda>r. op_user_id r = parseID userID)
       (\<lambda>r. r\<lparr>op_is_deleted := True, op_updated_at := now E\<rparr>)"

subsection \<open>Rights\<close>

definition isEnvListed :: "env \<Rightarrow> string \<Rightarrow> string \<Rightarrow> bool" where
  "isEnvListed E envName userID \<longleftrightarrow>
     list_ex (\<lambda>item. trim_space item = userID) (split_byte CHR '','' (trim_space (getenv E envName)))"

definition isCampusAdmin :: "env \<Rightarrow> string \<Rightarrow> bool io" where
  "isCampusAdmin E user = (let userID = trim_space user in
     if userID = [] then ret False
     else if trim_space (getenv E ''LEHU_CAMPUS_ADMIN_ALLOW_ALL'') = ''true'' then ret True
     else if isEnvListed E ''LEHU_CAMPUS_ADMIN_USER_IDS'' userID then ret True
     else io_bind (attempt (GetCampusOperatorRole userID)) (\<lambda>res.
       case res of Inl e \<Rightarrow> ret False | Inr role \<Rightarrow> ret (role = ''admin'')))"

definition isCampusOperator :: "env \<Rightarrow> string \<Rightarrow> bool io" where
  "isCampusOperator E user = io_bind (isCampusAdmin E user) (\<lambda>adm.
     if adm then ret True
     else let userID = trim_space user in
       if userID = [] then ret False
       else if isEnvListed E ''LEHU_CAMPUS_OPERATOR_USER_IDS'' userID then ret True
       else io_bind (attempt (GetCampusOperatorRole userID)) (\<lambda>res.
         case res of Inl e \<Rightarrow> ret False
         | Inr role \<Rightarrow> ret (role = ''operator'' \<or> role = ''admin'')))"

definition AdminUpdateUserRole :: "env \<Rightarrow> string \<Rightarrow> string \<Rightarrow> string \<Rightarrow> unit io" where
  "AdminUpdateUserRole E user target role0 = io_bind (isCampusAdmin E user) (\<lambda>adm.
     if \<not> adm then fail (Forbidden msg_only_admin_roles)
     else let targetUserID = trim_space target; role = lower_trim role0 in
       if targetUserID = [] then fail (InvalidArgument msg_user_id_invalid)
       else if role = ''admin'' \<or> role = ''operator'' then
         or_fail (internal msg_update_role_failed) (UpsertCampusOperator E targetUserID role)
       else if role = ''user'' \<or> role = [] then
         or_fail (internal msg_remove_role_failed) (RemoveCampusOperator E targetUserID)
       else fail (InvalidArgument msg_role_invalid))"

subsection \<open>Settings\<close>

text \<open>The value, who set it, and when: \<open>None\<close> when it was never set.\<close>

definition GetOpsSetting :: "string \<Rightarrow> (string \<times> string \<times> time) option io" where
  "GetOpsSetting key = io_bind (sql_first ops_settings (\<lambda>r. os_key r = trim_space key)) (\<lambda>row.
     case row of None \<Rightarrow> ret None
     | Some r \<Rightarrow> ret (Some (os_value r, if 0 < os_updated_by r then fmt_d (os_updated_by r) else [],
         os_updated_at r)))"

definition SetOpsSetting :: "env \<Rightarrow> string \<Rightarrow> string \<Rightarrow> string \<Rightarrow> unit io" where
  "SetOpsSetting E key value updatedBy = (let row = \<lparr>os_key = trim_space key, os_value = trim_space value,
       os_updated_by = parseID updatedBy, os_created_at = now E, os_updated_at = now E\<rparr> in
     sql_upsert ops_settings_update (\<lambda>r. False) (\<lambda>r. os_key r = os_key row)
       (\<lambda>r. r\<lparr>os_value := os_value row, os_updated_by := os_updated_by row, os_updated_at := now E\<rparr>) row)"

definition boolOpsSetting :: "env \<Rightarrow> string \<Rightarrow> string \<Rightarrow> bool \<Rightarrow> bool io" where
  "boolOpsSetting E key envName fallback =
     io_bind (attempt (GetOpsSetting key)) (\<lambda>res. ret (case res of
       Inl e \<Rightarrow> envBoolDefault (getenv E envName) fallback
     | Inr None \<Rightarrow> envBoolDefault (getenv E envName) fallback
     | Inr (Some (value, by, when)) \<Rightarrow> parseBoolSetting value fallback))"

text \<open>\<open>a && b\<close> of two questions to the settings: the second is not asked when the first is false.\<close>

definition io_and :: "bool io \<Rightarrow> bool io \<Rightarrow> bool io" where
  "io_and a b = io_bind a (\<lambda>x. if x then b else ret False)"

definition agentEnabled :: "env \<Rightarrow> bool io" where
  "agentEnabled E = boolOpsSetting E ''agent_enabled'' ''CAMPUS_AGENT_ENABLED'' True"

text \<open>\<open>aiAuditConfig.Enabled\<close> as \<open>loadCampusAIContentAuditConfig\<close> reads it.\<close>

definition aiAuditConfig_Enabled :: "env \<Rightarrow> bool" where
  "aiAuditConfig_Enabled E \<longleftrightarrow> \<not> envBoolFalse (getenv E ''CAMPUS_AGENT_AUDIT_ENABLED'')"

definition agentAuditEnabled :: "env \<Rightarrow> bool io" where
  "agentAuditEnabled E = io_and (agentEnabled E)
     (boolOpsSetting E ''agent_audit_enabled'' ''CAMPUS_AGENT_AUDIT_ENABLED'' (aiAuditConfig_Enabled E))"

definition feishuOpsEnabled :: "env \<Rightarrow> bool io" where
  "feishuOpsEnabled E = (let fallback = (\<not> envBoolFalse (getenv E ''CAMPUS_AGENT_FEISHU_ENABLED'') \<and>
       \<not> envBoolFalse (getenv E ''CAMPUS_OPS_FEISHU_EVENTS_ENABLED'')) in
     boolOpsSetting E ''feishu_ops_enabled'' [] fallback)"

definition dailyReportEnabled :: "env \<Rightarrow> bool io" where
  "dailyReportEnabled E = io_and (feishuOpsEnabled E)
     (boolOpsSetting E ''daily_report_enabled'' ''CAMPUS_AGENT_DAILY_REPORT_ENABLED'' True)"

definition highRiskNotifyEnabled :: "env \<Rightarrow> bool io" where
  "highRiskNotifyEnabled E = io_and (feishuOpsEnabled E)
     (boolOpsSetting E ''high_risk_notify_enabled'' ''CAMPUS_AGENT_HIGH_RISK_NOTIFY_ENABLED'' True)"

definition reportNotifyEnabled :: "env \<Rightarrow> bool io" where
  "reportNotifyEnabled E = io_and (feishuOpsEnabled E)
     (boolOpsSetting E ''report_notify_enabled'' ''CAMPUS_OPS_FEISHU_REPORT_NOTIFY'' True)"

definition feedbackNotifyEnabled :: "env \<Rightarrow> bool io" where
  "feedbackNotifyEnabled E = io_and (feishuOpsEnabled E)
     (boolOpsSetting E ''feedback_notify_enabled'' ''CAMPUS_OPS_FEISHU_FEEDBACK_NOTIFY'' True)"

record CampusOpsAuditSettings =
  PostAuditMode :: string
  AIEnabled :: bool
  as_updated_by :: string
  as_updated_at :: time

definition getCampusAuditSettings :: "env \<Rightarrow> CampusOpsAuditSettings io" where
  "getCampusAuditSettings E =
     io_bind (or_fail (internal msg_read_audit_settings_failed) (GetOpsSetting ''post_audit_mode'')) (\<lambda>s.
     let m = (case s of None \<Rightarrow> ''off'' | Some (value, by, when) \<Rightarrow>
         let v = normalizeCampusPostAuditMode value in if v = [] then ''off'' else v) in
     io_bind (agentAuditEnabled E) (\<lambda>ai.
     ret \<lparr>PostAuditMode = m, AIEnabled = ai,
       as_updated_by = (case s of None \<Rightarrow> [] | Some (value, by, when) \<Rightarrow> by),
       as_updated_at = (case s of None \<Rightarrow> 0 | Some (value, by, when) \<Rightarrow> when)\<rparr>))"

definition AdminGetAuditSettings :: "env \<Rightarrow> string \<Rightarrow> CampusOpsAuditSettings io" where
  "AdminGetAuditSettings E user = io_bind (isCampusOperator E user) (\<lambda>ok.
     if \<not> ok then fail (Forbidden msg_no_admin_right) else getCampusAuditSettings E)"

definition AdminUpdateAuditSettings :: "env \<Rightarrow> string \<Rightarrow> string \<Rightarrow> CampusOpsAuditSettings io" where
  "AdminUpdateAuditSettings E user postAuditMode = io_bind (isCampusOperator E user) (\<lambda>ok.
     if \<not> ok then fail (Forbidden msg_no_admin_right)
     else let m = normalizeCampusPostAuditMode postAuditMode in
       if m = [] then fail (InvalidArgument msg_audit_mode_invalid)
       else io_then (or_fail (internal msg_save_audit_settings_failed)
              (SetOpsSetting E ''post_audit_mode'' m user))
            (getCampusAuditSettings E))"

subsection \<open>The rights in a state of the tables\<close>

definition role_of :: "tables \<Rightarrow> int \<Rightarrow> string" where
  "role_of t i = (case find (\<lambda>r. op_user_id r = i \<and> \<not> op_is_deleted r) (operators t) of
     None \<Rightarrow> [] | Some r \<Rightarrow> op_role r)"

definition admin_now :: "env \<Rightarrow> tables \<Rightarrow> string \<Rightarrow> bool" where
  "admin_now E t user \<longleftrightarrow> (let u = trim_space user in u \<noteq> [] \<and>
     (trim_space (getenv E ''LEHU_CAMPUS_ADMIN_ALLOW_ALL'') = ''true'' \<or>
      isEnvListed E ''LEHU_CAMPUS_ADMIN_USER_IDS'' u \<or> role_of t (parseID u) = ''admin''))"

definition operator_now :: "env \<Rightarrow> tables \<Rightarrow> string \<Rightarrow> bool" where
  "operator_now E t user \<longleftrightarrow> admin_now E t user \<or> (let u = trim_space user in u \<noteq> [] \<and>
     (isEnvListed E ''LEHU_CAMPUS_OPERATOR_USER_IDS'' u \<or>
      role_of t (parseID u) = ''operator'' \<or> role_of t (parseID u) = ''admin''))"

lemma GetCampusOperatorRole_run:
  assumes "GetCampusOperatorRole u w = (r, w')"
  shows "db w' = db w \<and> (case r of Inl e \<Rightarrow> faults w \<noteq> [] | Inr role \<Rightarrow> role = role_of (db w) (parseID u))
    \<and> (faults w = [] \<longrightarrow> w' = w)"
  using assms
  by (auto simp: GetCampusOperatorRole_def io_bind_def sql_first_def command_def role_of_def
      split: list.splits option.splits if_splits)

lemma attempt_role_run:
  assumes "attempt (GetCampusOperatorRole u) w = (r, w')"
  shows "db w' = db w \<and> (\<exists>res. r = Inr res \<and>
    (case res of Inl e \<Rightarrow> faults w \<noteq> [] | Inr role \<Rightarrow> role = role_of (db w) (parseID u)))
    \<and> (faults w = [] \<longrightarrow> w' = w)"
  using assms GetCampusOperatorRole_run by (fastforce elim!: attempt_E)

text \<open>The checks never fail, never grant what the tables do not, and change no table.\<close>

lemma isCampusAdmin_run:
  assumes "isCampusAdmin E u w = (r, w')"
  shows "\<exists>b. r = Inr b \<and> db w' = db w \<and> (b \<longrightarrow> admin_now E (db w) u) \<and>
    (faults w = [] \<longrightarrow> b = admin_now E (db w) u \<and> w' = w)"
proof -
  obtain r1 w1 where a: "attempt (GetCampusOperatorRole (trim_space u)) w = (r1, w1)" by fastforce
  with attempt_role_run [OF a] assms show ?thesis
    by (auto simp: isCampusAdmin_def admin_now_def Let_def io_bind_def split: if_splits sum.splits)
qed

lemma isCampusOperator_run:
  assumes "isCampusOperator E u w = (r, w')"
  shows "\<exists>b. r = Inr b \<and> db w' = db w \<and> (b \<longrightarrow> operator_now E (db w) u) \<and>
    (faults w = [] \<longrightarrow> b = operator_now E (db w) u \<and> w' = w)"
proof -
  obtain r0 w0 where i: "isCampusAdmin E u w = (r0, w0)" by fastforce
  obtain b where b: "r0 = Inr b" "db w0 = db w" "b \<longrightarrow> admin_now E (db w) u"
    "faults w = [] \<longrightarrow> b = admin_now E (db w) u \<and> w0 = w" using isCampusAdmin_run [OF i] by blast
  obtain r1 w1 where a: "attempt (GetCampusOperatorRole (trim_space u)) w0 = (r1, w1)" by fastforce
  obtain res where res: "r1 = Inr res" "db w1 = db w0" "faults w0 = [] \<longrightarrow> w1 = w0"
    "case res of Inl e \<Rightarrow> faults w0 \<noteq> [] | Inr role \<Rightarrow> role = role_of (db w0) (parseID (trim_space u))"
    using attempt_role_run [OF a] by blast
  show ?thesis
  proof (cases b)
    case True
    with assms i b show ?thesis by (auto simp: isCampusOperator_def operator_now_def io_bind_def)
  next
    case False
    have run: "(if trim_space u = [] then ret False
        else if isEnvListed E ''LEHU_CAMPUS_OPERATOR_USER_IDS'' (trim_space u) then ret True
        else io_bind (attempt (GetCampusOperatorRole (trim_space u))) (\<lambda>res.
         case res of Inl e \<Rightarrow> ret False
         | Inr role \<Rightarrow> ret (role = ''operator'' \<or> role = ''admin''))) w0 = (r, w')"
      using assms i b False by (simp add: isCampusOperator_def io_bind_def Let_def)
    show ?thesis
    proof (cases res)
      case (Inl e)
      with run a res b False show ?thesis
        by (auto simp: io_bind_def operator_now_def Let_def split: if_splits)
    next
      case (Inr role)
      with run a res b False show ?thesis
        by (auto simp: io_bind_def operator_now_def Let_def split: if_splits)
    qed
  qed
qed

text \<open>The checks use up failures and nothing else.\<close>

lemma rights_frame:
  "isCampusAdmin E u w = (r, w') \<Longrightarrow> \<exists>fs. w' = w\<lparr>faults := fs\<rparr>"
  "isCampusOperator E u w = (q, v') \<Longrightarrow> \<exists>fs. v' = w\<lparr>faults := fs\<rparr>"
proof -
  have w: "\<exists>fs. w = w\<lparr>faults := fs\<rparr>" for w :: world by (rule exI [of _ "faults w"]) simp
  have role: "\<exists>fs. w' = w\<lparr>faults := fs\<rparr>" if "attempt (GetCampusOperatorRole x) w = (r, w')" for x w r w'
    using that w [of w] by (auto simp: GetCampusOperatorRole_def io_bind_def sql_first_def command_def
        attempt_def split: list.splits option.splits if_splits)
  show a: "isCampusAdmin E u w = (r, w') \<Longrightarrow> \<exists>fs. w' = w\<lparr>faults := fs\<rparr>" for E u w r w'
    using w [of w] role [of "trim_space u" w]
    by (auto simp: isCampusAdmin_def Let_def split: if_splits sum.splits elim!: io_bind_E)
  assume "isCampusOperator E u w = (q, v')"
  then show "\<exists>fs. v' = w\<lparr>faults := fs\<rparr>"
    unfolding isCampusOperator_def
    by (auto simp: Let_def split: if_splits sum.splits elim!: io_bind_E dest!: a role)
      blast+
qed

lemma rights_frames [frames]:
  "keeps g (isCampusAdmin E u)" "keeps g (isCampusOperator E u)"
  "no_ids (isCampusAdmin E u)" "no_ids (isCampusOperator E u)"
proof -
  have a: "\<exists>fs. snd (isCampusAdmin E u w) = w\<lparr>faults := fs\<rparr>" and o: "\<exists>fs. snd (isCampusOperator E u w) = w\<lparr>faults := fs\<rparr>" for w
    using rights_frame(1) [OF prod.collapse [symmetric]] rights_frame(2) [OF prod.collapse [symmetric]] by blast+
  have "db (snd (isCampusAdmin E u w)) = db w \<and> next_seq (snd (isCampusAdmin E u w)) = next_seq w" for w
    using a [of w] by auto
  moreover have "db (snd (isCampusOperator E u w)) = db w \<and> next_seq (snd (isCampusOperator E u w)) = next_seq w" for w
    using o [of w] by auto
  ultimately show "keeps g (isCampusAdmin E u)" "keeps g (isCampusOperator E u)"
    "no_ids (isCampusAdmin E u)" "no_ids (isCampusOperator E u)"
    by (simp_all add: keeps_def no_ids_def)
qed

lemma isCampusAdmin_E:
  assumes "io_bind (isCampusAdmin E u) f w = (r, w')"
  obtains b w1 where "f b w1 = (r, w')" and "db w1 = db w" and "b \<Longrightarrow> admin_now E (db w) u"
    and "faults w = [] \<Longrightarrow> b = admin_now E (db w) u \<and> w1 = w" and "next_seq w1 = next_seq w"
proof -
  obtain r1 w1 where i: "isCampusAdmin E u w = (r1, w1)" by fastforce
  from isCampusAdmin_run [OF i] obtain b where b: "r1 = Inr b" "db w1 = db w" "b \<longrightarrow> admin_now E (db w) u"
    "faults w = [] \<longrightarrow> b = admin_now E (db w) u \<and> w1 = w" by blast
  have n: "next_seq w1 = next_seq w" using rights_frame(1) [OF i] by auto
  from assms i b(1) have "f b w1 = (r, w')" by (simp add: io_bind_def)
  from that [OF this] b(2-4) n show ?thesis by blast
qed

lemma isCampusOperator_E:
  assumes "io_bind (isCampusOperator E u) f w = (r, w')"
  obtains b w1 where "f b w1 = (r, w')" and "db w1 = db w" and "b \<Longrightarrow> operator_now E (db w) u"
    and "faults w = [] \<Longrightarrow> b = operator_now E (db w) u \<and> w1 = w" and "next_seq w1 = next_seq w"
proof -
  obtain r1 w1 where i: "isCampusOperator E u w = (r1, w1)" by fastforce
  from isCampusOperator_run [OF i] obtain b where b: "r1 = Inr b" "db w1 = db w" "b \<longrightarrow> operator_now E (db w) u"
    "faults w = [] \<longrightarrow> b = operator_now E (db w) u \<and> w1 = w" by blast
  have n: "next_seq w1 = next_seq w" using rights_frame(2) [OF i] by auto
  from assms i b(1) have "f b w1 = (r, w')" by (simp add: io_bind_def)
  from that [OF this] b(2-4) n show ?thesis by blast
qed

text \<open>
  C10. The checks of rights fail closed: whatever fails, a user is taken for an administrator or an
  operator only when the environment or the operator table says so; without failures exactly then;
  an administrator is always an operator; and the checks change no table.
\<close>

theorem rights_fail_closed:
  "\<exists>a p. fst (isCampusAdmin E u w) = Inr a \<and> fst (isCampusOperator E u w) = Inr p
    \<and> db (snd (isCampusAdmin E u w)) = db w \<and> db (snd (isCampusOperator E u w)) = db w
    \<and> (a \<longrightarrow> admin_now E (db w) u) \<and> (p \<longrightarrow> operator_now E (db w) u)
    \<and> (faults w = [] \<longrightarrow> a = admin_now E (db w) u \<and> p = operator_now E (db w) u)
    \<and> (admin_now E (db w) u \<longrightarrow> operator_now E (db w) u)"
proof -
  obtain ra wa where a: "isCampusAdmin E u w = (ra, wa)" by fastforce
  obtain rp wp where p: "isCampusOperator E u w = (rp, wp)" by fastforce
  from isCampusAdmin_run [OF a] isCampusOperator_run [OF p] a p show ?thesis
    by (auto simp: operator_now_def)
qed

text \<open>Operator 8 of the table, while nothing fails.\<close>

definition access_world :: world where
  "access_world = empty_world\<lparr>db := empty_tables\<lparr>operators := [\<lparr>op_user_id = 8, op_role = ''operator'',
     op_is_deleted = False, op_created_at = 0, op_updated_at = 0\<rparr>]\<rparr>\<rparr>"

definition access_env :: env where
  "access_env = \<lparr>now = 100, detail_ttl = 30, idgen = int, unix_nano = int,
     getenv = (\<lambda>k. if k = ''LEHU_CAMPUS_ADMIN_USER_IDS'' then ''7, 9'' else [])\<rparr>"

lemmas access_eval = access_world_def access_env_def empty_world_def empty_tables_def admin_now_def
  operator_now_def isEnvListed_def role_of_def parseID_def go_string_eval Let_def

theorem rights_fail_closed_witness:
  "fst (isCampusAdmin access_env ''9'' access_world) = Inr True
   \<and> fst (isCampusAdmin access_env ''8'' access_world) = Inr False
   \<and> fst (isCampusOperator access_env ''8'' access_world) = Inr True"
proof -
  have f: "faults access_world = []" by (simp add: access_world_def empty_world_def)
  have n: "admin_now access_env (db access_world) ''9''" "\<not> admin_now access_env (db access_world) ''8''"
    "operator_now access_env (db access_world) ''8''"
    by (simp_all add: access_eval)
  from rights_fail_closed [of access_env "''9''" access_world]
    rights_fail_closed [of access_env "''8''" access_world] f n
  show ?thesis by auto
qed

lemma role_of_upsert:
  "role_of (operators_update (upsert (\<lambda>r. op_user_id r = i) (\<lambda>r. op_user_id r = i)
      (\<lambda>r. r\<lparr>op_role := role, op_is_deleted := False, op_updated_at := t\<rparr>)
      \<lparr>op_user_id = i, op_role = role, op_is_deleted = False, op_created_at = c, op_updated_at = t\<rparr>) tb) j =
    (if j = i then role else role_of tb j)"
proof -
  let ?f = "\<lambda>r. r\<lparr>op_role := role, op_is_deleted := False, op_updated_at := t\<rparr>"
  have same: "\<exists>r. find (\<lambda>r. op_user_id r = i \<and> \<not> op_is_deleted r) (upd_where (\<lambda>r. op_user_id r = i) ?f rs) = Some r
      \<and> op_role r = role" if "\<exists>r \<in> set rs. op_user_id r = i" for rs :: "campusOperatorModel list"
    using that by (induction rs) auto
  have other: "find (\<lambda>r. op_user_id r = j \<and> \<not> op_is_deleted r) (upd_where (\<lambda>r. op_user_id r = i) ?f rs) =
      find (\<lambda>r. op_user_id r = j \<and> \<not> op_is_deleted r) rs" if "j \<noteq> i" for rs :: "campusOperatorModel list"
    using that by (induction rs) auto
  show ?thesis
  proof (cases "\<exists>r \<in> set (operators tb). op_user_id r = i")
    case True
    with same [OF True] other show ?thesis by (auto simp: role_of_def upsert_def)
  next
    case False
    then have "find (\<lambda>r. op_user_id r = i \<and> \<not> op_is_deleted r) (operators tb) = None"
      by (auto simp: find_None_iff)
    with False show ?thesis by (auto simp: role_of_def upsert_def find_append split: option.splits)
  qed
qed

lemma role_of_remove:
  "role_of (operators_update (upd_where (\<lambda>r. op_user_id r = i)
      (\<lambda>r. r\<lparr>op_is_deleted := True, op_updated_at := t\<rparr>)) tb) j = (if j = i then [] else role_of tb j)"
proof -
  let ?f = "\<lambda>r. r\<lparr>op_is_deleted := True, op_updated_at := t\<rparr>"
  have "find (\<lambda>r. op_user_id r = j \<and> \<not> op_is_deleted r) (upd_where (\<lambda>r. op_user_id r = i) ?f rs) =
      (if j = i then None else find (\<lambda>r. op_user_id r = j \<and> \<not> op_is_deleted r) rs)"
    for rs :: "campusOperatorModel list"
    by (induction rs) auto
  then show ?thesis by (simp add: role_of_def)
qed

lemma UpsertCampusOperator_run:
  "UpsertCampusOperator E u role w = (Inr x, w') \<Longrightarrow> role_of (db w') = (role_of (db w))(parseID u := role)"
  by (auto simp: UpsertCampusOperator_def Let_def role_of_upsert fun_eq_iff elim!: sql_upsert_InrE)

lemma RemoveCampusOperator_run:
  "RemoveCampusOperator E u w = (Inr x, w') \<Longrightarrow> role_of (db w') = (role_of (db w))(parseID u := [])"
  by (auto simp: RemoveCampusOperator_def role_of_remove fun_eq_iff elim!: sql_update_InrE)

lemma operator_writes_fail:
  "UpsertCampusOperator E u role w = (Inl e, w') \<Longrightarrow> db w' = db w"
  "RemoveCampusOperator E u w = (Inl e, w') \<Longrightarrow> db w' = db w"
  by (auto simp: UpsertCampusOperator_def RemoveCampusOperator_def Let_def dest!: sql_InlD)

text \<open>
  \<open>AdminUpdateUserRole\<close>: nobody but an administrator changes a role, whatever fails; when it
  succeeds the target has exactly the role asked for (none for "user"), and no other user's role
  changes; when it fails all tables stay.
\<close>

theorem AdminUpdateUserRole_spec:
  assumes "AdminUpdateUserRole E user target role w = (r, w')"
  shows "case r of
      Inl e \<Rightarrow> db w' = db w
    | Inr _ \<Rightarrow> admin_now E (db w) user \<and> lower_trim role \<in> {''admin'', ''operator'', ''user'', []}
        \<and> role_of (db w') = (role_of (db w))(parseID (trim_space target) :=
            if lower_trim role \<in> {''admin'', ''operator''} then lower_trim role else [])"
  using assms unfolding AdminUpdateUserRole_def
proof (cases rule: isCampusAdmin_E)
  case (1 b w1)
  note d = 1(2) and a = 1(3) and run = 1(1)
  show ?thesis
  proof (cases r)
    case (Inl e)
    with run d have "db w' = db w"
      by (auto simp: Let_def split: if_splits elim!: or_fail_E dest!: operator_writes_fail)
    with Inl show ?thesis by simp
  next
    case (Inr x)
    then have b: "b" and role: "lower_trim role \<in> {''admin'', ''operator'', ''user'', []}"
      using run by (auto simp: Let_def split: if_splits)
    have "role_of (db w') = (role_of (db w1))(parseID (trim_space target) :=
            if lower_trim role \<in> {''admin'', ''operator''} then lower_trim role else [])"
    proof (cases "lower_trim role = ''admin'' \<or> lower_trim role = ''operator''")
      case True
      with Inr run b have "UpsertCampusOperator E (trim_space target) (lower_trim role) w1 = (Inr x, w')"
        by (auto simp: Let_def split: if_splits elim!: or_fail_InrE)
      from UpsertCampusOperator_run [OF this] True show ?thesis by auto
    next
      case False
      with Inr run b have "RemoveCampusOperator E (trim_space target) w1 = (Inr x, w')"
        by (auto simp: Let_def split: if_splits elim!: or_fail_InrE)
      from RemoveCampusOperator_run [OF this] False show ?thesis by auto
    qed
    with Inr role a [OF b] d show ?thesis by simp
  qed
qed

theorem AdminUpdateUserRole_spec_witness:
  "\<exists>w'. AdminUpdateUserRole access_env ''7'' ''12'' ''Operator'' access_world = (Inr (), w')
     \<and> role_of (db w') 12 = ''operator'' \<and> role_of (db w') 8 = ''operator''"
proof -
  have p: "trim_space ''12'' = ''12''" "parseID ''12'' = 12" "role_of (db access_world) 8 = ''operator''"
    apply (simp add: go_string_eval)
    apply (simp add: parseID_def go_string_eval)
    by (simp add: access_world_def empty_world_def empty_tables_def role_of_def)
  have l: "lower_trim ''Operator'' = ''operator''"
    by (simp add: lower_trim_def go_string_eval char_of_eq_iff)
  have f: "faults access_world = []" by (simp add: access_world_def empty_world_def)
  have n: "admin_now access_env (db access_world) ''7''" by (simp add: access_eval)
  have a: "isCampusAdmin access_env ''7'' access_world = (Inr True, access_world)"
    using isCampusAdmin_run [of access_env "''7''" access_world] f n by (metis surj_pair)
  obtain w' where run: "AdminUpdateUserRole access_env ''7'' ''12'' ''Operator'' access_world = (Inr (), w')"
    using f by (simp add: AdminUpdateUserRole_def io_bind_def [of "isCampusAdmin access_env ''7''"] a l p
        or_fail_def UpsertCampusOperator_def sql_upsert_def command_def Let_def)
  from AdminUpdateUserRole_spec [OF run]
  have "role_of (db w') = (role_of (db access_world))(12 := ''operator'')" by (simp add: p l)
  with run p(3) show ?thesis by (intro exI [of _ w']) simp
qed

text \<open>
  A target that is not a number is taken for user 0, and so is every caller whose id is not a
  number: granting a right to one such name grants it to all of them.
\<close>

lemma role_of_names:
  "fst (parse_int64 target) = 0 \<Longrightarrow> fst (parse_int64 user) = 0 \<Longrightarrow>
   role_of t (parseID target) = role_of t (parseID user)"
  by (simp add: parseID_def)

subsection \<open>Settings read back\<close>

definition setting_now :: "tables \<Rightarrow> string \<Rightarrow> string option" where
  "setting_now t key = map_option os_value (find (\<lambda>r. os_key r = trim_space key) (ops_settings t))"

lemma setting_after_set:
  assumes "SetOpsSetting E key value by w = (Inr x, w')"
  shows "setting_now (db w') k = (if trim_space k = trim_space key then Some (trim_space value)
    else setting_now (db w) k)"
proof -
  let ?f = "\<lambda>r. r\<lparr>os_value := trim_space value, os_updated_by := parseID by, os_updated_at := now E\<rparr>"
  let ?P = "\<lambda>r. os_key r = trim_space key"
  have same: "map_option os_value (find ?P (upd_where ?P ?f rs)) = Some (trim_space value)"
    if "\<exists>r \<in> set rs. ?P r" for rs :: "campusOpsSettingModel list" using that by (induction rs) auto
  have other: "find (\<lambda>r. os_key r = trim_space k) (upd_where ?P ?f rs) = find (\<lambda>r. os_key r = trim_space k) rs"
    if "trim_space k \<noteq> trim_space key" for rs :: "campusOpsSettingModel list" using that by (induction rs) auto
  show ?thesis
  proof (cases "\<exists>r \<in> set (ops_settings (db w)). ?P r")
    case True
    with assms same [OF True] other show ?thesis
      by (auto simp: SetOpsSetting_def setting_now_def upsert_def Let_def elim!: sql_upsert_InrE)
  next
    case False
    then have n: "find ?P (ops_settings (db w)) = None" by (auto simp: find_None_iff)
    with False assms show ?thesis
      by (auto simp: SetOpsSetting_def setting_now_def upsert_def Let_def find_append
          elim!: sql_upsert_InrE split: option.splits)
  qed
qed

end
