(* ===== verification/RateLimit.thy ===== *)
theory RateLimit
  imports Access
begin

text \<open>
  The gate before every request of the campus API (\<open>biz/campus.go\<close>: \<open>CheckCampusRequest\<close>;
  \<open>data/campus.go\<close>: \<open>IsIPBlocked\<close>, \<open>AllowCampusRequest\<close>, \<open>BlockIP\<close>, \<open>UnblockIP\<close>): a list of blocked
  addresses and a counter per client in Redis that expires after a window. The counter is
  created by \<open>INCR\<close> and gets its expiry by a second command.
\<close>

subsection \<open>The operations\<close>

definition CampusIPBlockStatusActive :: int where "CampusIPBlockStatusActive = 1"
definition CampusIPBlockStatusInactive :: int where "CampusIPBlockStatusInactive = 0"

lemmas ip_status_defs = CampusIPBlockStatusActive_def CampusIPBlockStatusInactive_def

definition IsIPBlocked :: "string \<Rightarrow> bool io" where
  "IsIPBlocked ip = io_bind (sql_count ip_blocks (\<lambda>b. ib_ip b = ip \<and> ib_status b = CampusIPBlockStatusActive))
     (\<lambda>count. ret (0 < count))"

text \<open>A counter that is still there: it has no expiry, or one in the future.\<close>

definition live :: "time \<Rightarrow> (int \<times> time option) option \<Rightarrow> (int \<times> time option) option" where
  "live t c = (case c of
     Some (n, Some e) \<Rightarrow> if t < e then c else None
   | _ \<Rightarrow> c)"

text \<open>\<open>INCR\<close> and \<open>EXPIRE\<close> of Redis.\<close>

definition redis_incr :: "env \<Rightarrow> string \<Rightarrow> int io" where
  "redis_incr E key = command (\<lambda>w. case live (now E) (map_of (rl_counters w) key) of
     None \<Rightarrow> (Inr 1, w\<lparr>rl_counters := AList.update key (1, None) (rl_counters w)\<rparr>)
   | Some (n, e) \<Rightarrow> (Inr (n + 1), w\<lparr>rl_counters := AList.update key (n + 1, e) (rl_counters w)\<rparr>))"

definition redis_expire :: "env \<Rightarrow> string \<Rightarrow> time \<Rightarrow> unit io" where
  "redis_expire E key window = command (\<lambda>w. (Inr (), case live (now E) (map_of (rl_counters w) key) of
     None \<Rightarrow> w
   | Some (n, e) \<Rightarrow> w\<lparr>rl_counters := AList.update key (n, Some (now E + window)) (rl_counters w)\<rparr>))"

text \<open>With an error the code returns \<open>true\<close> as well, which no caller reads.\<close>

definition AllowCampusRequest :: "env \<Rightarrow> string \<Rightarrow> int \<Rightarrow> time \<Rightarrow> bool io" where
  "AllowCampusRequest E key limit window w =
     (if \<not> rds_on w then (Inr True, w)
      else io_bind (redis_incr E key) (\<lambda>count.
        io_then (if count = 1 then ignore (redis_expire E key window) else ret ())
        (ret (count \<le> limit))) w)"

record CampusRateLimitInput =
  rl_UserID :: string
  rl_IP :: string
  rl_Method :: string
  rl_Path :: string
  rl_Category :: string

definition rate_limit_key :: "CampusRateLimitInput \<Rightarrow> string" where
  "rate_limit_key input = (let
     ip = (if trim_space (rl_IP input) = [] then ''unknown'' else trim_space (rl_IP input));
     userKey = (if trim_space (rl_UserID input) = [] then ''guest'' else trim_space (rl_UserID input))
   in ''campus:rl:'' @ rl_Category input @ '':'' @ ip @ '':'' @ userKey)"

text \<open>The result: is the address blocked, is the request allowed.\<close>

definition CheckCampusRequest :: "env \<Rightarrow> CampusRateLimitInput \<Rightarrow> (bool \<times> bool) io" where
  "CheckCampusRequest E input = (let
     ip = (if trim_space (rl_IP input) = [] then ''unknown'' else trim_space (rl_IP input)) in
   io_bind (or_fail (internal msg_ip_check_failed) (IsIPBlocked ip)) (\<lambda>blocked.
     if blocked then ret (True, False)
     else case campusRateLimitRule (rl_Category input) (rl_Method input) (rl_Path input) of (limit, window) \<Rightarrow>
       if limit \<le> 0 then ret (False, True)
       else io_bind (attempt (AllowCampusRequest E (rate_limit_key input) limit window)) (\<lambda>res.
         case res of Inl e \<Rightarrow> ret (False, True) | Inr allowed \<Rightarrow> ret (False, allowed))))"

record CampusIPBlock =
  blk_id :: int
  blk_ip :: string
  blk_reason :: string
  blk_status :: int
  blk_created_by :: string

definition BlockIP :: "env \<Rightarrow> CampusIPBlock \<Rightarrow> unit io" where
  "BlockIP E b = io_then (sql_upsert ip_blocks_update (\<lambda>r. ib_id r = blk_id b) (\<lambda>r. ib_ip r = blk_ip b)
       (\<lambda>r. r\<lparr>ib_reason := blk_reason b, ib_status := CampusIPBlockStatusActive,
          ib_created_by := parseID (blk_created_by b), ib_updated_at := now E\<rparr>)
       \<lparr>ib_id = blk_id b, ib_ip = blk_ip b, ib_reason = blk_reason b, ib_status = blk_status b,
          ib_created_by = parseID (blk_created_by b), ib_created_at = now E, ib_updated_at = now E\<rparr>)
     (deleteCacheKeys E [campusSecurityOverviewCacheKey])"

definition UnblockIP :: "env \<Rightarrow> string \<Rightarrow> unit io" where
  "UnblockIP E ip = io_then (sql_update ip_blocks_update (\<lambda>r. ib_ip r = ip)
       (\<lambda>r. r\<lparr>ib_status := CampusIPBlockStatusInactive, ib_updated_at := now E\<rparr>))
     (deleteCacheKeys E [campusSecurityOverviewCacheKey])"

record BlockCampusIPInput =
  bi_UserID :: string
  bi_IP :: string
  bi_Reason :: string

definition AdminBlockIP :: "env \<Rightarrow> BlockCampusIPInput \<Rightarrow> unit io" where
  "AdminBlockIP E input = io_bind (isCampusOperator E (bi_UserID input)) (\<lambda>ok.
     if \<not> ok then fail (Forbidden msg_no_admin_right)
     else let ip = trim_space (bi_IP input) in
       if ip = [] \<or> 64 < length ip then fail (InvalidArgument msg_ip_invalid)
       else let reason = (if trim_space (bi_Reason input) = [] then msg_manual_block else trim_space (bi_Reason input)) in
         if 120 < rune_count reason then fail (InvalidArgument msg_block_reason_long)
         else io_bind (NextID E) (\<lambda>i.
           BlockIP E \<lparr>blk_id = i, blk_ip = ip, blk_reason = reason, blk_status = CampusIPBlockStatusActive,
             blk_created_by = bi_UserID input\<rparr>))"

definition AdminUnblockIP :: "env \<Rightarrow> BlockCampusIPInput \<Rightarrow> unit io" where
  "AdminUnblockIP E input = io_bind (isCampusOperator E (bi_UserID input)) (\<lambda>ok.
     if \<not> ok then fail (Forbidden msg_no_admin_right)
     else let ip = trim_space (bi_IP input) in
       if ip = [] \<or> 64 < length ip then fail (InvalidArgument msg_ip_invalid)
       else UnblockIP E ip)"

subsection \<open>The counter of a client\<close>

definition counter :: "string \<Rightarrow> world \<Rightarrow> (int \<times> time option) option" where
  "counter key w = map_of (rl_counters w) key"

text \<open>What a request does to the counter, when Redis works, and when the second command is lost.\<close>

definition hit :: "time \<Rightarrow> time \<Rightarrow> (int \<times> time option) option \<Rightarrow> int \<times> time option" where
  "hit t window c = (case live t c of None \<Rightarrow> (1, Some (t + window)) | Some (n, e) \<Rightarrow> (n + 1, if n = 0 then Some (t + window) else e))"

lemma Allow_run:
  assumes "rds_on w" and "faults w = []" and "0 < window"
  shows "\<exists>w'. AllowCampusRequest E key limit window w =
      (Inr (fst (hit (now E) window (counter key w)) \<le> limit), w') \<and>
    counter key w' = Some (hit (now E) window (counter key w)) \<and> rds_on w' \<and> faults w' = [] \<and> db w' = db w"
proof (cases "live (now E) (map_of (rl_counters w) key)")
  case None
  with assms show ?thesis
    by (simp add: AllowCampusRequest_def redis_incr_def redis_expire_def hit_def counter_def command_def
        io_bind_def io_then_def ignore_def attempt_def update_conv' live_def)
next
  case (Some ne)
  obtain n e where ne: "ne = (n, e)" by fastforce
  with Some have l: "live (now E) (Some (n + 1, e)) = Some (n + 1, e)"
    by (auto simp: live_def split: option.splits if_splits)
  show ?thesis
  proof (cases "n = 0")
    case True
    with assms Some ne l show ?thesis
      by (simp add: AllowCampusRequest_def redis_incr_def redis_expire_def hit_def counter_def command_def
        io_bind_def io_then_def ignore_def attempt_def update_conv')
  next
    case False
    with assms Some ne show ?thesis
      by (simp add: AllowCampusRequest_def redis_incr_def hit_def counter_def command_def
        io_bind_def io_then_def update_conv')
  qed
qed

text \<open>The answers to the requests of one client, at the times of the environments.\<close>

fun answers :: "env list \<Rightarrow> string \<Rightarrow> int \<Rightarrow> time \<Rightarrow> world \<Rightarrow> (go_error + bool) list" where
  "answers [] key limit window w = []"
| "answers (E # Es) key limit window w = (case AllowCampusRequest E key limit window w of
     (r, w') \<Rightarrow> r # answers Es key limit window w')"

fun hits :: "time list \<Rightarrow> int \<Rightarrow> time \<Rightarrow> (int \<times> time option) option \<Rightarrow> bool list" where
  "hits [] limit window c = []"
| "hits (t # ts) limit window c = (let c' = hit t window c in (fst c' \<le> limit) # hits ts limit window (Some c'))"

lemma answers_hits:
  "rds_on w \<Longrightarrow> faults w = [] \<Longrightarrow> 0 < window \<Longrightarrow>
   answers Es key limit window w = map Inr (hits (map now Es) limit window (counter key w))"
proof (induction Es arbitrary: w)
  case (Cons E Es)
  from Allow_run [OF Cons.prems, of E key limit] Cons.IH Cons.prems(3) show ?case by (auto simp: Let_def)
qed simp

text \<open>While a counter does not expire, only what it has left gets through.\<close>

definition lasts :: "time option \<Rightarrow> time list \<Rightarrow> bool" where
  "lasts e ts \<longleftrightarrow> (case e of None \<Rightarrow> True | Some x \<Rightarrow> (\<forall>t \<in> set ts. t < x))"

lemma live_lasts: "lasts e (t # ts) \<Longrightarrow> live t (Some (n, e)) = Some (n, e)"
  by (auto simp: lasts_def live_def split: option.splits)

lemma hits_left:
  assumes "lasts e ts" and "1 \<le> n"
  shows "hits ts limit window (Some (n, e)) = map (\<lambda>i. n + int i + 1 \<le> limit) [0..<length ts]"
  using assms
proof (induction ts arbitrary: n)
  case (Cons t ts)
  have h: "hit t window (Some (n, e)) = (n + 1, e)"
    using Cons.prems live_lasts [OF Cons.prems(1)] by (simp add: hit_def)
  have "lasts e ts" using Cons.prems(1) by (auto simp: lasts_def split: option.splits)
  with Cons.IH [of "n + 1"] Cons.prems(2)
  have "hits ts limit window (Some (n + 1, e)) = map (\<lambda>i. n + 1 + int i + 1 \<le> limit) [0..<length ts]" by simp
  moreover have "map (\<lambda>i. n + int i + 1 \<le> limit) [0..<length (t # ts)] =
      (n + 1 \<le> limit) # map (\<lambda>i. n + 1 + int i + 1 \<le> limit) [0..<length ts]"
    by (simp add: upt_conv_Cons map_Suc_upt [symmetric] del: upt_Suc)
  ultimately show ?case by (simp add: h Let_def del: upt_Suc)
qed simp

lemma count_below: "count_where (\<lambda>b. b) (map (\<lambda>i. n + int i + 1 \<le> limit) [0..<k]) \<le> max 0 (limit - n)"
proof -
  have "count_where (\<lambda>b. b) (map (\<lambda>i. n + int i + 1 \<le> limit) [0..<k]) = min (int k) (max 0 (limit - n))" for k
    by (induction k) auto
  then show ?thesis by simp
qed

lemma hits_fresh:
  assumes "live t c = None" and "\<And>t'. t' \<in> set ts \<Longrightarrow> t' < t + window"
  shows "hits (t # ts) limit window c = map (\<lambda>i. int i < limit) [0..<length (t # ts)]"
proof -
  have h: "hit t window c = (1, Some (t + window))" using assms(1) by (simp add: hit_def)
  have "lasts (Some (t + window)) ts" using assms(2) by (simp add: lasts_def)
  from hits_left [OF this, of 1 limit window]
  have "hits ts limit window (Some (1, Some (t + window))) = map (\<lambda>i. int (Suc i) < limit) [0..<length ts]"
    by (auto simp: algebra_simps intro!: map_cong)
  with h show ?thesis
    by (auto simp: Let_def upt_conv_Cons map_Suc_upt [symmetric] comp_def simp del: upt_Suc)
qed

lemma count_first: "count_where (\<lambda>b. b) (map (\<lambda>i. int i < limit) [0..<k]) \<le> max 0 limit"
proof -
  have "count_where (\<lambda>b. b) (map (\<lambda>i. int i < limit) [0..<k]) = min (int k) (max 0 limit)" for k
    by (induction k) auto
  then show ?thesis by simp
qed

lemma hits_bound:
  assumes "\<And>t. t \<in> set ts \<Longrightarrow> T \<le> t \<and> t < T + window" and "1 \<le> n"
  shows "count_where (\<lambda>b. b) (hits ts limit window (Some (n, e))) \<le> max 0 (limit - n) + max 0 limit"
  using assms
proof (induction ts arbitrary: n e)
  case (Cons t ts)
  show ?case
  proof (cases "live t (Some (n, e))")
    case None
    have "t' < t + window" if "t' \<in> set ts" for t' using Cons.prems(1) [of t'] Cons.prems(1) [of t] that by simp
    then have "hits (t # ts) limit window (Some (n, e)) = map (\<lambda>i. int i < limit) [0..<length (t # ts)]"
      by (rule hits_fresh [OF None])
    with count_first [of limit "length (t # ts)"] show ?thesis by (simp del: upt_Suc hits.simps)
  next
    case (Some ne)
    then have "ne = (n, e)" by (auto simp: live_def split: option.splits if_splits)
    with Some Cons.prems(2) have h: "hit t window (Some (n, e)) = (n + 1, e)" by (simp add: hit_def)
    have "count_where (\<lambda>b. b) (hits ts limit window (Some (n + 1, e))) \<le> max 0 (limit - (n + 1)) + max 0 limit"
      by (rule Cons.IH) (use Cons.prems in auto)
    then show ?thesis by (cases "n + 1 \<le> limit") (simp_all add: h Let_def max_def split: if_splits)
  qed
qed simp

definition rl_wf :: "world \<Rightarrow> bool" where
  "rl_wf w \<longleftrightarrow> list_all (\<lambda>(k, n, e). 1 \<le> n) (rl_counters w)"

lemma rl_wf_counter: "rl_wf w \<Longrightarrow> counter key w = Some (n, e) \<Longrightarrow> 1 \<le> n"
  by (auto simp: rl_wf_def counter_def list_all_iff dest!: map_of_SomeD)


text \<open>Four requests with limit 2: the second half of one window and the first of the next.\<close>

definition at_time :: "time \<Rightarrow> env" where
  "at_time t = \<lparr>now = t, detail_ttl = 30, idgen = int, unix_nano = int, getenv = (\<lambda>_. [])\<rparr>"


text \<open>
  C16. The counter and its expiry are two commands: when the first request of a client reaches
  Redis but the command that sets the expiry is lost, the client has \<open>limit\<close> requests in all, and
  every later one is refused, however much later it comes.
\<close>

theorem lost_expiry_locks_out:
  assumes "rds_on w" and "faults w = [False, True]" and "0 < window"
    and "live (now E) (counter key w) = None"
  shows "answers (E # Es) key limit window w = map (\<lambda>i. Inr (int i < limit)) [0..<length (E # Es)]"
proof -
  obtain w' where w': "AllowCampusRequest E key limit window w = (Inr (1 \<le> limit), w')" "rds_on w'" "faults w' = []"
    "counter key w' = Some (1, None)"
    using assms
    by (auto simp: AllowCampusRequest_def redis_incr_def redis_expire_def counter_def command_def
        io_bind_def io_then_def ignore_def attempt_def update_conv')
  have "hits (map now Es) limit window (Some (1, None)) = map (\<lambda>i. int (Suc i) < limit) [0..<length Es]"
    using hits_left [of None "map now Es" 1 limit window] by (auto simp: lasts_def algebra_simps intro!: map_cong)
  with answers_hits [OF w'(2,3) assms(3), of Es key limit] w'(4)
  have "answers Es key limit window w' = map (\<lambda>i. Inr (int (Suc i) < limit)) [0..<length Es]"
    by (simp add: comp_def)
  with w'(1) show ?thesis
    by (auto simp: upt_conv_Cons map_Suc_upt [symmetric] comp_def simp del: upt_Suc)
qed

text \<open>Limit 1: the request of a day later is refused.\<close>

theorem lost_expiry_locks_out_witness:
  "answers [at_time 0, at_time (minutes 1440)] ''k'' 1 (minutes 1) (empty_world\<lparr>faults := [False, True]\<rparr>) = [Inr True, Inr False]"
proof -
  let ?w = "empty_world\<lparr>faults := [False, True]\<rparr>"
  have "rds_on ?w" "faults ?w = [False, True]" "0 < minutes 1" "live (now (at_time 0)) (counter ''k'' ?w) = None"
    by (simp_all add: empty_world_def counter_def live_def nanos_per_second_def)
  from lost_expiry_locks_out [OF this, of "[at_time (minutes 1440)]" 1] show ?thesis by simp
qed


subsection \<open>Blocked addresses\<close>

definition ip_blocked :: "tables \<Rightarrow> string \<Rightarrow> bool" where
  "ip_blocked t ip \<longleftrightarrow> list_ex (\<lambda>b. ib_ip b = ip \<and> ib_status b = CampusIPBlockStatusActive) (ip_blocks t)"

definition client_ip :: "CampusRateLimitInput \<Rightarrow> string" where
  "client_ip input = (if trim_space (rl_IP input) = [] then ''unknown'' else trim_space (rl_IP input))"

lemma ip_blocked_count:
  "0 < count_where (\<lambda>b. ib_ip b = ip \<and> ib_status b = CampusIPBlockStatusActive) (ip_blocks t) \<longleftrightarrow> ip_blocked t ip"
  by (auto simp: ip_blocked_def count_where_def list_ex_iff filter_empty_conv)

lemma redis_db:
  "redis_incr E key w = (r, w') \<Longrightarrow> db w' = db w"
  "redis_expire E key window w = (r', w') \<Longrightarrow> db w' = db w"
  by (auto simp: redis_incr_def redis_expire_def command_def split: list.splits option.splits if_splits)

lemma Allow_db: "AllowCampusRequest E key limit window w = (r, w') \<Longrightarrow> db w' = db w"
  unfolding AllowCampusRequest_def
  by (auto split: if_splits elim!: io_bind_E io_then_E ignore_E dest!: redis_db)

lemma Check_run:
  assumes "CheckCampusRequest E input w = (r, w')"
  shows "db w' = db w \<and> (case r of
      Inl e \<Rightarrow> (\<exists>c. e = internal msg_ip_check_failed c) \<and> faults w \<noteq> []
    | Inr (blocked, allowed) \<Rightarrow> blocked = ip_blocked (db w) (client_ip input) \<and> \<not> (blocked \<and> allowed))"
proof -
  obtain r1 w1 where i: "IsIPBlocked (client_ip input) w = (r1, w1)" by fastforce
  have i1: "db w1 = db w" "case r1 of Inl e \<Rightarrow> faults w \<noteq> [] | Inr b \<Rightarrow> b = ip_blocked (db w) (client_ip input)"
    using i by (auto simp: IsIPBlocked_def io_bind_def sql_count_def command_def ip_blocked_count
        split: list.splits if_splits)
  show ?thesis
  proof (cases r1)
    case (Inl e)
    with assms i i1 show ?thesis
      by (auto simp: CheckCampusRequest_def io_bind_def or_fail_def client_ip_def [symmetric])
  next
    case (Inr b)
    obtain limit window where rule: "campusRateLimitRule (rl_Category input) (rl_Method input) (rl_Path input) = (limit, window)"
      by fastforce
    obtain r2 w2 where a: "AllowCampusRequest E (rate_limit_key input) limit window w1 = (r2, w2)" by fastforce
    from Allow_db [OF a] assms i i1 Inr rule a show ?thesis
      by (auto simp: CheckCampusRequest_def io_bind_def or_fail_def client_ip_def [symmetric] attempt_def
          split: if_splits sum.splits)
  qed
qed


lemma BlockIP_blocks:
  assumes "BlockIP E b w = (Inr x, w')" and "blk_status b = CampusIPBlockStatusActive"
    and "blk_id b \<notin> ib_id ` set (ip_blocks (db w))"
  shows "ip_blocked (db w') ip \<longleftrightarrow> ip = blk_ip b \<or> ip_blocked (db w) ip"
proof -
  let ?f = "\<lambda>r. r\<lparr>ib_reason := blk_reason b, ib_status := CampusIPBlockStatusActive,
          ib_created_by := parseID (blk_created_by b), ib_updated_at := now E\<rparr>"
  have "\<not> (\<exists>r \<in> set (ip_blocks (db w)). ib_id r = blk_id b)" using assms(3) by (metis imageI)
  with assms(1,2) have t: "db w' = ip_blocks_update (\<lambda>xs. if \<exists>r \<in> set xs. ib_ip r = blk_ip b
      then upd_where (\<lambda>r. ib_ip r = blk_ip b) ?f xs
      else xs @ [\<lparr>ib_id = blk_id b, ib_ip = blk_ip b, ib_reason = blk_reason b, ib_status = CampusIPBlockStatusActive,
          ib_created_by = parseID (blk_created_by b), ib_created_at = now E, ib_updated_at = now E\<rparr>]) (db w)"
    by (auto simp: BlockIP_def upsert_def elim!: io_then_InrE sql_upsert_InrE dest!: cache_stepD [OF cache_steps(3)])
  have "list_ex (\<lambda>r. ib_ip r = ip \<and> ib_status r = CampusIPBlockStatusActive) (upd_where (\<lambda>r. ib_ip r = blk_ip b) ?f xs) \<longleftrightarrow>
      ip = blk_ip b \<and> (\<exists>r \<in> set xs. ib_ip r = ip) \<or>
      list_ex (\<lambda>r. ib_ip r = ip \<and> ib_status r = CampusIPBlockStatusActive) xs" for xs
    by (induction xs) auto
  then show ?thesis by (auto simp: ip_blocked_def t)
qed

lemma UnblockIP_unblocks:
  assumes "UnblockIP E i w = (Inr x, w')"
  shows "ip_blocked (db w') ip \<longleftrightarrow> ip \<noteq> i \<and> ip_blocked (db w) ip"
proof -
  let ?f = "\<lambda>r. r\<lparr>ib_status := CampusIPBlockStatusInactive, ib_updated_at := now E\<rparr>"
  have t: "db w' = ip_blocks_update (upd_where (\<lambda>r. ib_ip r = i) ?f) (db w)"
    using assms by (auto simp: UnblockIP_def elim!: io_then_InrE sql_update_InrE dest!: cache_stepD [OF cache_steps(3)])
  have "list_ex (\<lambda>r. ib_ip r = ip \<and> ib_status r = CampusIPBlockStatusActive) (upd_where (\<lambda>r. ib_ip r = i) ?f xs) \<longleftrightarrow>
      ip \<noteq> i \<and> list_ex (\<lambda>r. ib_ip r = ip \<and> ib_status r = CampusIPBlockStatusActive) xs" for xs
    by (induction xs) (auto simp: ip_status_defs)
  then show ?thesis by (auto simp: ip_blocked_def t)
qed

text \<open>
  C17. The gate: whatever fails, it says that an address is blocked exactly when the table says so,
  never lets a blocked address through, and answers with an error (not with a pass) when it cannot
  read the table. Only operators block and unblock; blocking adds exactly the given address to the
  blocked ones and unblocking takes exactly it away; and a request that is refused changes nothing.
\<close>

theorem ip_gate:
  assumes fresh: "idgen E (next_seq w) \<notin> ib_id ` set (ip_blocks (db w))"
    and block: "AdminBlockIP E input w = (r, w')" and unblock: "AdminUnblockIP E input w = (u, v)"
    and check: "CheckCampusRequest E request w = (c, x)"
  shows "(case c of Inl e \<Rightarrow> HTTPStatus (Code e) = 500 \<and> faults w \<noteq> []
      | Inr (blocked, allowed) \<Rightarrow> blocked = ip_blocked (db w) (client_ip request) \<and> \<not> (blocked \<and> allowed))
    \<and> (case r of Inl e \<Rightarrow> db w' = db w
      | Inr _ \<Rightarrow> operator_now E (db w) (bi_UserID input) \<and>
          (\<forall>ip. ip_blocked (db w') ip = (ip = trim_space (bi_IP input) \<or> ip_blocked (db w) ip)))
    \<and> (case u of Inl e \<Rightarrow> db v = db w
      | Inr _ \<Rightarrow> operator_now E (db w) (bi_UserID input) \<and>
          (\<forall>ip. ip_blocked (db v) ip = (ip \<noteq> trim_space (bi_IP input) \<and> ip_blocked (db w) ip)))"
proof (intro conjI)
  show "case c of Inl e \<Rightarrow> HTTPStatus (Code e) = 500 \<and> faults w \<noteq> []
      | Inr (blocked, allowed) \<Rightarrow> blocked = ip_blocked (db w) (client_ip request) \<and> \<not> (blocked \<and> allowed)"
    using Check_run [OF check] by (auto simp: HTTPStatus_def code_defs app_error_defs split: sum.splits)
next
  from block show "case r of Inl e \<Rightarrow> db w' = db w
      | Inr _ \<Rightarrow> operator_now E (db w) (bi_UserID input) \<and>
          (\<forall>ip. ip_blocked (db w') ip = (ip = trim_space (bi_IP input) \<or> ip_blocked (db w) ip))"
    unfolding AdminBlockIP_def
  proof (cases rule: isCampusOperator_E)
    case (1 b w1)
    show ?thesis
    proof (cases r)
      case (Inl e)
      with 1 show ?thesis
        by (auto simp: Let_def NextID_def BlockIP_def split: if_splits elim!: io_bind_E io_then_E dest!: sql_InlD
            cache_stepD [OF cache_steps(3)])
    next
      case (Inr x)
      with 1 obtain i w2 reason where id: "NextID E w1 = (Inr i, w2)" and b: "b" and
        run: "BlockIP E \<lparr>blk_id = i, blk_ip = trim_space (bi_IP input), blk_reason = reason,
           blk_status = CampusIPBlockStatusActive, blk_created_by = bi_UserID input\<rparr> w2 = (Inr x, w')"
        by (auto simp: Let_def split: if_splits elim!: io_bind_InrE)
      have i: "i = idgen E (next_seq w)" "db w2 = db w" using id 1(2,5) by (auto simp: NextID_def)
      from BlockIP_blocks [OF run] fresh i Inr 1(3) b show ?thesis by auto
    qed
  qed
next
  from unblock show "case u of Inl e \<Rightarrow> db v = db w
      | Inr _ \<Rightarrow> operator_now E (db w) (bi_UserID input) \<and>
          (\<forall>ip. ip_blocked (db v) ip = (ip \<noteq> trim_space (bi_IP input) \<and> ip_blocked (db w) ip))"
    unfolding AdminUnblockIP_def
  proof (cases rule: isCampusOperator_E)
    case (1 b w1)
    show ?thesis
    proof (cases u)
      case (Inl e)
      with 1 show ?thesis
        by (auto simp: Let_def UnblockIP_def split: if_splits elim!: io_then_E dest!: sql_InlD
            cache_stepD [OF cache_steps(3)])
    next
      case (Inr x)
      with 1 have b: "b" and run: "UnblockIP E (trim_space (bi_IP input)) w1 = (Inr x, v)"
        by (auto simp: Let_def split: if_splits)
      from UnblockIP_unblocks [OF run] Inr 1(2,3) b show ?thesis by auto
    qed
  qed
qed

text \<open>Operator 8 blocks an address, and the next request from it is stopped.\<close>

definition sample_block :: BlockCampusIPInput where
  "sample_block = \<lparr>bi_UserID = ''8'', bi_IP = ''1.2.3.4'', bi_Reason = ''spam''\<rparr>"

lemma operator_8: "isCampusOperator access_env ''8'' access_world = (Inr True, access_world)"
proof -
  have f: "faults access_world = []" by (simp add: access_world_def empty_world_def)
  have n: "operator_now access_env (db access_world) ''8''" by (simp add: access_eval)
  show ?thesis using isCampusOperator_run [of access_env "''8''" access_world] f n by (metis surj_pair)
qed

theorem ip_gate_witness:
  "\<exists>w'. AdminBlockIP access_env sample_block access_world = (Inr (), w') \<and> ip_blocked (db w') ''1.2.3.4''
     \<and> \<not> ip_blocked (db w') ''5.6.7.8''"
proof -
  let ?r = "AdminBlockIP access_env sample_block access_world"
  have t: "trim_space ''1.2.3.4'' = ''1.2.3.4''" "trim_space ''spam'' = ''spam''" "rune_count ''spam'' = 4"
    by (simp_all add: go_string_eval rune_count_def runes_def)
  have f: "faults access_world = []" and fresh: "idgen access_env (next_seq access_world) \<notin> ib_id ` set (ip_blocks (db access_world))"
    by (simp_all add: access_world_def empty_world_def empty_tables_def)
  have "fst ?r = Inr ()"
    using f by (simp add: AdminBlockIP_def io_bind_def [of "isCampusOperator access_env ''8''"] operator_8 sample_block_def
      t Let_def BlockIP_def NextID_def io_online deleteCacheKeys_def ignore_def attempt_def)
  then obtain w' where w': "?r = (Inr (), w')" by (metis prod.collapse)
  obtain u v where u: "AdminUnblockIP access_env sample_block access_world = (u, v)" by fastforce
  obtain c x where c: "CheckCampusRequest access_env \<lparr>rl_UserID = [], rl_IP = ''1.2.3.4'', rl_Method = ''GET'',
     rl_Path = [], rl_Category = ''read''\<rparr> access_world = (c, x)" by fastforce
  have "\<not> ip_blocked (db access_world) ip" for ip by (simp add: ip_blocked_def access_world_def empty_world_def empty_tables_def)
  with ip_gate [OF fresh w' u c] w' t show ?thesis by (simp add: sample_block_def)
qed

end
