(* ===== verification/Outbox.thy ===== *)
theory Outbox
  imports Cache
begin

text \<open>
  The records of a notification and of its outbox entry in the business layer
  (\<open>biz/campus.go\<close>), how an entry is built and stored, and how it is read back. Users are
  strings in the business layer and numbers in the tables.
\<close>

record CampusNotification =
  nt_id :: int
  nt_recipient_id :: string
  nt_actor_id :: string
  nt_event_type :: string
  nt_target_type :: string
  nt_target_id :: int
  nt_dedupe_key :: string
  nt_title :: string
  nt_content :: string
  nt_link_page :: string
  nt_link_params :: "(string \<times> string) list"
  nt_read_at :: "time option"
  nt_created_at :: time
  nt_updated_at :: time

record CampusNotificationOutbox =
  bo_id :: int
  bo_recipient_id :: string
  bo_actor_id :: string
  bo_event_type :: string
  bo_target_type :: string
  bo_target_id :: int
  bo_dedupe_key :: string
  bo_title :: string
  bo_content :: string
  bo_link_page :: string
  bo_link_params :: "(string \<times> string) list"
  bo_audience :: string
  bo_status :: string
  bo_retry_count :: int
  bo_next_retry_at :: "time option"
  bo_locked_until :: "time option"
  bo_last_error :: string
  bo_processed_at :: "time option"
  bo_created_at :: time
  bo_updated_at :: time

text \<open>The zero values of Go, for the fields that a struct literal leaves out.\<close>

definition zero_CampusNotification :: CampusNotification where
  "zero_CampusNotification = \<lparr>nt_id = 0, nt_recipient_id = [], nt_actor_id = [], nt_event_type = [],
     nt_target_type = [], nt_target_id = 0, nt_dedupe_key = [], nt_title = [], nt_content = [],
     nt_link_page = [], nt_link_params = [], nt_read_at = None, nt_created_at = 0, nt_updated_at = 0\<rparr>"

definition zero_CampusNotificationOutbox :: CampusNotificationOutbox where
  "zero_CampusNotificationOutbox = \<lparr>bo_id = 0, bo_recipient_id = [], bo_actor_id = [],
     bo_event_type = [], bo_target_type = [], bo_target_id = 0, bo_dedupe_key = [], bo_title = [],
     bo_content = [], bo_link_page = [], bo_link_params = [], bo_audience = [], bo_status = [],
     bo_retry_count = 0, bo_next_retry_at = None, bo_locked_until = None, bo_last_error = [],
     bo_processed_at = None, bo_created_at = 0, bo_updated_at = 0\<rparr>"

definition dedupe_column :: "string \<Rightarrow> string option" where
  "dedupe_column key = (if trim_space key \<noteq> [] then Some (trim_space key) else None)"

definition toNotificationModel :: "env \<Rightarrow> CampusNotification \<Rightarrow> campusNotificationModel" where
  "toNotificationModel E n = \<lparr>
     n_id = nt_id n,
     n_recipient_id = parseID (nt_recipient_id n),
     n_actor_id = parseID (nt_actor_id n),
     n_event_type = nt_event_type n,
     n_target_type = nt_target_type n,
     n_target_id = nt_target_id n,
     n_dedupe_key = dedupe_column (nt_dedupe_key n),
     n_title = nt_title n,
     n_content = nt_content n,
     n_link_page = nt_link_page n,
     n_link_params = nt_link_params n,
     n_read_at = nt_read_at n,
     n_is_deleted = False,
     n_created_at = now E,
     n_updated_at = now E\<rparr>"

definition toNotificationOutboxModel ::
    "env \<Rightarrow> CampusNotificationOutbox \<Rightarrow> campusNotificationOutboxModel" where
  "toNotificationOutboxModel E b = \<lparr>
     t_id = bo_id b,
     t_status = (if bo_status b = [] then ''pending'' else bo_status b),
     t_retry_count = bo_retry_count b,
     t_next_retry_at = bo_next_retry_at b,
     t_locked_until = bo_locked_until b,
     t_created_at = now E,
     t_updated_at = now E,
     ob_recipient_id = parseID (bo_recipient_id b),
     ob_actor_id = parseID (bo_actor_id b),
     ob_event_type = bo_event_type b,
     ob_target_type = bo_target_type b,
     ob_target_id = bo_target_id b,
     ob_dedupe_key = dedupe_column (bo_dedupe_key b),
     ob_title = bo_title b,
     ob_content = bo_content b,
     ob_link_page = bo_link_page b,
     ob_link_params = bo_link_params b,
     ob_audience = bo_audience b,
     ob_last_error = bo_last_error b,
     ob_processed_at = bo_processed_at b\<rparr>"

definition toBizNotificationOutbox ::
    "campusNotificationOutboxModel \<Rightarrow> CampusNotificationOutbox" where
  "toBizNotificationOutbox row = \<lparr>
     bo_id = t_id row,
     bo_recipient_id = fmt_d (ob_recipient_id row),
     bo_actor_id = fmt_d (ob_actor_id row),
     bo_event_type = ob_event_type row,
     bo_target_type = ob_target_type row,
     bo_target_id = ob_target_id row,
     bo_dedupe_key = (case ob_dedupe_key row of None \<Rightarrow> [] | Some k \<Rightarrow> k),
     bo_title = ob_title row,
     bo_content = ob_content row,
     bo_link_page = ob_link_page row,
     bo_link_params = ob_link_params row,
     bo_audience = ob_audience row,
     bo_status = t_status row,
     bo_retry_count = t_retry_count row,
     bo_next_retry_at = t_next_retry_at row,
     bo_locked_until = t_locked_until row,
     bo_last_error = ob_last_error row,
     bo_processed_at = ob_processed_at row,
     bo_created_at = t_created_at row,
     bo_updated_at = t_updated_at row\<rparr>"

text \<open>
  \<open>createNotificationOutboxWithTx\<close>: with a deduplication key the insert does nothing when the
  key (or the id) is taken, without one a taken id is an error.
\<close>

definition createNotificationOutboxWithTx ::
    "env \<Rightarrow> CampusNotificationOutbox option \<Rightarrow> unit io" where
  "createNotificationOutboxWithTx E ob = (case ob of
     None \<Rightarrow> ret ()
   | Some b \<Rightarrow> let row = toNotificationOutboxModel E b in
       (case ob_dedupe_key row of
          Some k \<Rightarrow> (if trim_space k \<noteq> []
            then sql_upsert outbox_update (\<lambda>r. t_id r = t_id row) (\<lambda>r. ob_dedupe_key r = Some k) id row
            else sql_create outbox outbox_update (\<lambda>r. t_id r = t_id row \<or> ob_dedupe_key r = Some k) row)
        | None \<Rightarrow> sql_create outbox outbox_update (\<lambda>r. t_id r = t_id row) row))"

definition CreateNotificationOutbox :: "env \<Rightarrow> CampusNotificationOutbox \<Rightarrow> unit io" where
  "CreateNotificationOutbox E b = createNotificationOutboxWithTx E (Some b)"

definition campusNotificationDedupeKey :: "CampusNotification \<Rightarrow> string" where
  "campusNotificationDedupeKey n = (let
     recipientID = trim_space (nt_recipient_id n);
     actorID = trim_space (nt_actor_id n);
     eventType = trim_space (nt_event_type n);
     targetType = trim_space (nt_target_type n)
   in if recipientID = [] \<or> recipientID = ''0'' \<or> actorID = [] \<or> actorID = ''0'' \<or>
         eventType = [] \<or> targetType = [] \<or> nt_target_id n = 0 then []
      else ''campus:'' @ recipientID @ '':'' @ actorID @ '':'' @ eventType @ '':'' @ targetType @ '':'' @
           fmt_d (nt_target_id n))"

text \<open>Nobody is notified of what they did themselves; \<open>None\<close> is the nil pointer.\<close>

definition buildNotificationOutbox ::
    "env \<Rightarrow> CampusNotification option \<Rightarrow> bool \<Rightarrow> CampusNotificationOutbox option io" where
  "buildNotificationOutbox E no uniq = (case no of
     None \<Rightarrow> ret None
   | Some n \<Rightarrow>
     if trim_space (nt_recipient_id n) = [] \<or> nt_recipient_id n = ''0'' \<or>
        nt_recipient_id n = nt_actor_id n then ret None
     else io_bind (NextID E) (\<lambda>outboxID. let
         k0 = trim_space (nt_dedupe_key n);
         k1 = (if k0 = [] \<and> uniq then campusNotificationDedupeKey n else k0);
         k2 = (if k1 = [] then ''campus:notification-outbox:'' @ fmt_d outboxID else k1)
       in ret (Some (zero_CampusNotificationOutbox\<lparr>
         bo_id := outboxID,
         bo_recipient_id := trim_space (nt_recipient_id n),
         bo_actor_id := trim_space (nt_actor_id n),
         bo_event_type := trimLimit (nt_event_type n) 32,
         bo_target_type := trimLimit (nt_target_type n) 32,
         bo_target_id := nt_target_id n,
         bo_dedupe_key := k2,
         bo_title := trimLimit (nt_title n) 80,
         bo_content := trimLimit (nt_content n) 500,
         bo_link_page := trimLimit (firstNonEmpty [nt_link_page n, ''post-detail'']) 64,
         bo_link_params := sanitizeTrackExtra (nt_link_params n),
         bo_status := ''pending''\<rparr>))))"

subsection \<open>What storing an entry does\<close>

text \<open>A table that the insert of an entry does not touch reads the same afterwards.\<close>

lemma createOutbox_InrE:
  assumes "createNotificationOutboxWithTx E ob w = (Inr x, w')"
  obtains fs f where "w' = w\<lparr>faults := fs, db := outbox_update f (db w)\<rparr>"
    and "ob = None \<Longrightarrow> f = id" and "\<And>xs. set xs \<subseteq> set (f xs)"
proof (cases ob)
  case None
  with assms have "w' = w\<lparr>faults := faults w, db := outbox_update id (db w)\<rparr>"
    by (simp add: createNotificationOutboxWithTx_def)
  with that [OF this] show ?thesis by auto
next
  case (Some b)
  let ?row = "toNotificationOutboxModel E b"
  have up: "set xs \<subseteq> set (upsert P Q id r xs)" for P Q and r :: campusNotificationOutboxModel and xs
    by (auto simp: upsert_def set_upd_where)
  show ?thesis
  proof (cases "ob_dedupe_key ?row")
    case None
    with Some assms show ?thesis
      by (auto simp: createNotificationOutboxWithTx_def Let_def elim!: sql_create_InrE intro: that)
  next
    case k: (Some k)
    show ?thesis
    proof (cases "trim_space k = []")
      case True
      with k Some assms show ?thesis
        by (auto simp: createNotificationOutboxWithTx_def Let_def elim!: sql_create_InrE intro: that)
    next
      case False
      with k Some assms show ?thesis
        by (auto simp: createNotificationOutboxWithTx_def Let_def elim!: sql_upsert_InrE
            intro: that [OF _ _ up])
    qed
  qed
qed

lemma upd_where_id [simp]: "upd_where P id xs = xs"
  by (simp add: upd_where_def cong: if_cong)

text \<open>An upsert that changes nothing on a conflict: the row is appended, or is known already.\<close>

lemma upsert_id:
  "upsert P Q id r xs = (if (\<exists>x \<in> set xs. P x) \<or> (\<exists>x \<in> set xs. Q x) then xs else xs @ [r])"
  by (auto simp: upsert_def)

lemma createOutbox_append:
  assumes "createNotificationOutboxWithTx E ob w = (Inr x, w')"
  shows "\<exists>h. db w' = outbox_update h (db w) \<and> (h (outbox (db w)) = outbox (db w) \<or>
    (\<exists>r. h (outbox (db w)) = outbox (db w) @ [r] \<and> t_id r \<notin> t_id ` set (outbox (db w))))"
proof (cases ob)
  case None
  with assms have "db w' = outbox_update (\<lambda>xs. xs) (db w)"
    by (simp add: createNotificationOutboxWithTx_def)
  then show ?thesis by blast
next
  case (Some b)
  let ?row = "toNotificationOutboxModel E b"
  have plain: ?thesis
    if "sql_create outbox outbox_update P ?row w = (Inr x, w')" and "\<And>r. t_id r = t_id ?row \<Longrightarrow> P r" for P
    using that by (intro exI [of _ "\<lambda>xs. xs @ [?row]"]) (auto elim!: sql_create_InrE)
  have dedupe: ?thesis
    if "sql_upsert outbox_update (\<lambda>r. t_id r = t_id ?row) Q id ?row w = (Inr x, w')" for Q
    using that by (intro exI [of _ "upsert (\<lambda>r. t_id r = t_id ?row) Q id ?row"])
      (auto simp: upsert_id elim!: sql_upsert_InrE)
  from assms Some plain dedupe show ?thesis
    by (auto simp: createNotificationOutboxWithTx_def Let_def split: option.splits if_splits)
qed

lemma createOutbox_fail: "createNotificationOutboxWithTx E ob w = (Inl e, w') \<Longrightarrow> db w' = db w"
  by (auto simp: createNotificationOutboxWithTx_def Let_def dest!: sql_InlD split: option.splits if_splits)

lemma createOutbox_frames [frames]:
  "(\<And>h t. g (outbox_update h t) = g t) \<Longrightarrow> keeps g (createNotificationOutboxWithTx E ob)"
  "no_ids (createNotificationOutboxWithTx E ob)"
  unfolding createNotificationOutboxWithTx_def Let_def by (intro frames; assumption?)+

lemma buildNotificationOutbox_frame [frames]: "keeps g (buildNotificationOutbox E n u)"
  unfolding buildNotificationOutbox_def Let_def by (intro frames)

text \<open>The stored entries have unique ids and unique deduplication keys.\<close>

definition outbox_wf :: "campusNotificationOutboxModel list \<Rightarrow> bool" where
  "outbox_wf xs \<longleftrightarrow> unique_on t_id xs \<and>
     distinct (map ob_dedupe_key (filter (\<lambda>r. ob_dedupe_key r \<noteq> None) xs))"

lemma createOutbox_wf:
  assumes "outbox_wf (outbox (db w))" and "createNotificationOutboxWithTx E ob w = (Inr x, w')"
  shows "outbox_wf (outbox (db w'))"
proof (cases ob)
  case None
  with assms show ?thesis by (simp add: createNotificationOutboxWithTx_def)
next
  case (Some b)
  let ?row = "toNotificationOutboxModel E b"
  have snoc: "outbox_wf (xs @ [?row])"
    if "outbox_wf xs" "\<forall>r \<in> set xs. t_id r \<noteq> t_id ?row"
      "\<forall>k. ob_dedupe_key ?row = Some k \<longrightarrow> (\<forall>r \<in> set xs. ob_dedupe_key r \<noteq> Some k)" for xs
    using that by (auto simp: outbox_wf_def)
  have ups: "outbox_wf (upsert (\<lambda>r. t_id r = t_id ?row) (\<lambda>r. ob_dedupe_key r = ob_dedupe_key ?row) id ?row xs)"
    if "outbox_wf xs" for xs
  proof (cases "(\<exists>r \<in> set xs. t_id r = t_id ?row) \<or> (\<exists>r \<in> set xs. ob_dedupe_key r = ob_dedupe_key ?row)")
    case True
    with that show ?thesis unfolding upsert_def upd_where_id by presburger
  next
    case False
    then have "outbox_wf (xs @ [?row])" by (intro snoc [OF that]) fastforce+
    with False show ?thesis by (simp add: upsert_def)
  qed
  show ?thesis
  proof (cases "ob_dedupe_key ?row")
    case None
    with Some assms show ?thesis
      by (auto simp: createNotificationOutboxWithTx_def Let_def elim!: sql_create_InrE intro!: snoc)
  next
    case k: (Some k)
    show ?thesis
    proof (cases "trim_space k = []")
      case True
      with k Some assms show ?thesis
        by (auto simp: createNotificationOutboxWithTx_def Let_def elim!: sql_create_InrE intro!: snoc)
    next
      case False
      with k Some assms ups show ?thesis
        by (auto simp: createNotificationOutboxWithTx_def Let_def elim!: sql_upsert_InrE)
    qed
  qed
qed

end
