(* ===== verification/TaskQueue.thy ===== *)
theory TaskQueue
  imports Outbox
begin

text \<open>
  The four task queues of \<open>data/campus.go\<close>: the notification outbox, the AI replies, the AI
  content audits and the operations alerts. A worker claims tasks that are due, for a bounded
  time, and then marks each done or to be retried; a task whose worker is silent for longer
  than its lock can be claimed again. The four repositories run the same transaction over
  their own table, which is \<open>claim\<close>, \<open>retry_row\<close> and \<open>done_row\<close> here.
\<close>

subsection \<open>Claiming, finishing, retrying\<close>

definition claimable :: "time \<Rightarrow> 'a task_scheme \<Rightarrow> bool" where
  "claimable t r \<longleftrightarrow>
     (t_status r = ''pending'' \<and> (case t_next_retry_at r of None \<Rightarrow> True | Some n \<Rightarrow> n \<le> t)) \<or>
     (t_status r = ''processing'' \<and> (case t_locked_until r of None \<Rightarrow> True | Some l \<Rightarrow> l < t))"

text \<open>What the claim returns of a row, and what it leaves in the table.\<close>

definition claimed_row :: "time \<Rightarrow> 'a task_scheme \<Rightarrow> 'a task_scheme" where
  "claimed_row until r = r\<lparr>t_status := ''processing'', t_locked_until := Some until\<rparr>"

definition lock_row :: "time \<Rightarrow> time \<Rightarrow> 'a task_scheme \<Rightarrow> 'a task_scheme" where
  "lock_row t until r = (claimed_row until r)\<lparr>t_updated_at := t\<rparr>"

definition claim ::
    "(tables \<Rightarrow> 'a task_scheme list) \<Rightarrow> (('a task_scheme list \<Rightarrow> 'a task_scheme list) \<Rightarrow> tables \<Rightarrow> tables) \<Rightarrow>
     env \<Rightarrow> int \<Rightarrow> time \<Rightarrow> 'a task_scheme list io"
where
  "claim g u E limit lockFor = (let lockedUntil = now E + lockFor in
     io_bind (transaction (
       io_bind (sql_find_ordered g (claimable (now E)) (\<lambda>r. (t_created_at r, t_id r)) limit) (\<lambda>rows.
       if rows = [] then ret rows
       else io_then (sql_update u (\<lambda>r. t_id r \<in> t_id ` set rows) (lock_row (now E) lockedUntil))
            (ret rows))))
     (\<lambda>rows. ret (map (claimed_row lockedUntil) rows)))"

definition done_row :: "time \<Rightarrow> 'a task_scheme \<Rightarrow> 'a task_scheme" where
  "done_row t r = r\<lparr>t_status := ''done'', t_locked_until := None, t_next_retry_at := None, t_updated_at := t\<rparr>"

definition retry_row :: "time \<Rightarrow> int \<Rightarrow> time option \<Rightarrow> bool \<Rightarrow> 'a task_scheme \<Rightarrow> 'a task_scheme" where
  "retry_row t n nextRetryAt final r = r\<lparr>
     t_status := (if final then ''failed'' else ''pending''),
     t_retry_count := n, t_next_retry_at := nextRetryAt, t_locked_until := None, t_updated_at := t\<rparr>"

text \<open>The defaults of a limit and of a lock time that are not positive.\<close>

definition or_default :: "int \<Rightarrow> int \<Rightarrow> int" where
  "or_default v d = (if v \<le> 0 then d else v)"

subsection \<open>The notification outbox\<close>

definition ClaimNotificationOutbox :: "env \<Rightarrow> int \<Rightarrow> time \<Rightarrow> CampusNotificationOutbox list io" where
  "ClaimNotificationOutbox E limit lockFor =
     io_bind (claim outbox outbox_update E (or_default limit 100) (or_default lockFor (seconds 30)))
     (\<lambda>rows. ret (map toBizNotificationOutbox rows))"

definition MarkNotificationOutboxDone :: "env \<Rightarrow> int \<Rightarrow> unit io" where
  "MarkNotificationOutboxDone E i = sql_update outbox_update (\<lambda>r. t_id r = i)
     (\<lambda>r. (done_row (now E) r)\<lparr>ob_last_error := [], ob_processed_at := Some (now E)\<rparr>)"

definition MarkNotificationOutboxRetry ::
    "env \<Rightarrow> int \<Rightarrow> int \<Rightarrow> time option \<Rightarrow> string \<Rightarrow> bool \<Rightarrow> unit io" where
  "MarkNotificationOutboxRetry E i retryCount nextRetryAt lastError final =
     sql_update outbox_update (\<lambda>r. t_id r = i)
     (\<lambda>r. (retry_row (now E) retryCount nextRetryAt final r)\<lparr>ob_last_error := trimLimitData lastError 600\<rparr>)"

subsection \<open>AI replies\<close>

record CampusAIReplyTask =
  br_id :: int
  br_post_id :: int
  br_root_comment_id :: int
  br_trigger_comment_id :: int
  br_asker_id :: string
  br_bot_user_id :: string
  br_prompt :: string
  br_status :: string
  br_retry_count :: int
  br_next_retry_at :: "time option"
  br_locked_until :: "time option"
  br_answer_comment_id :: int
  br_last_error :: string
  br_created_at :: time
  br_updated_at :: time
  br_processed_at :: "time option"

definition zero_CampusAIReplyTask :: CampusAIReplyTask where
  "zero_CampusAIReplyTask = \<lparr>br_id = 0, br_post_id = 0, br_root_comment_id = 0,
     br_trigger_comment_id = 0, br_asker_id = [], br_bot_user_id = [], br_prompt = [], br_status = [],
     br_retry_count = 0, br_next_retry_at = None, br_locked_until = None, br_answer_comment_id = 0,
     br_last_error = [], br_created_at = 0, br_updated_at = 0, br_processed_at = None\<rparr>"

definition toAIReplyTaskModel :: "env \<Rightarrow> CampusAIReplyTask \<Rightarrow> campusAIReplyTaskModel" where
  "toAIReplyTaskModel E b = \<lparr>
     t_id = br_id b,
     t_status = (if br_status b = [] then ''pending'' else br_status b),
     t_retry_count = br_retry_count b,
     t_next_retry_at = br_next_retry_at b,
     t_locked_until = br_locked_until b,
     t_created_at = now E,
     t_updated_at = now E,
     ar_post_id = br_post_id b,
     ar_root_comment_id = br_root_comment_id b,
     ar_trigger_comment_id = br_trigger_comment_id b,
     ar_asker_id = parseID (br_asker_id b),
     ar_bot_user_id = parseID (br_bot_user_id b),
     ar_prompt = br_prompt b,
     ar_answer_comment_id = br_answer_comment_id b,
     ar_last_error = br_last_error b,
     ar_processed_at = br_processed_at b\<rparr>"

definition toBizAIReplyTask :: "campusAIReplyTaskModel \<Rightarrow> CampusAIReplyTask" where
  "toBizAIReplyTask row = \<lparr>
     br_id = t_id row,
     br_post_id = ar_post_id row,
     br_root_comment_id = ar_root_comment_id row,
     br_trigger_comment_id = ar_trigger_comment_id row,
     br_asker_id = fmt_d (ar_asker_id row),
     br_bot_user_id = fmt_d (ar_bot_user_id row),
     br_prompt = ar_prompt row,
     br_status = t_status row,
     br_retry_count = t_retry_count row,
     br_next_retry_at = t_next_retry_at row,
     br_locked_until = t_locked_until row,
     br_answer_comment_id = ar_answer_comment_id row,
     br_last_error = ar_last_error row,
     br_created_at = t_created_at row,
     br_updated_at = t_updated_at row,
     br_processed_at = ar_processed_at row\<rparr>"

definition CreateAIReplyTask :: "env \<Rightarrow> CampusAIReplyTask \<Rightarrow> unit io" where
  "CreateAIReplyTask E b = (let row = toAIReplyTaskModel E b in
     sql_upsert ai_reply_tasks_update (\<lambda>r. t_id r = t_id row)
       (\<lambda>r. ar_trigger_comment_id r = ar_trigger_comment_id row) id row)"

definition ClaimAIReplyTasks :: "env \<Rightarrow> int \<Rightarrow> time \<Rightarrow> CampusAIReplyTask list io" where
  "ClaimAIReplyTasks E limit lockFor =
     io_bind (claim ai_reply_tasks ai_reply_tasks_update E (or_default limit 20) (or_default lockFor (seconds 45)))
     (\<lambda>rows. ret (map toBizAIReplyTask rows))"

definition MarkAIReplyTaskDone :: "env \<Rightarrow> int \<Rightarrow> int \<Rightarrow> unit io" where
  "MarkAIReplyTaskDone E i answerCommentID = sql_update ai_reply_tasks_update (\<lambda>r. t_id r = i)
     (\<lambda>r. (done_row (now E) r)\<lparr>ar_answer_comment_id := answerCommentID, ar_last_error := [],
        ar_processed_at := Some (now E)\<rparr>)"

definition MarkAIReplyTaskRetry ::
    "env \<Rightarrow> int \<Rightarrow> int \<Rightarrow> time option \<Rightarrow> string \<Rightarrow> bool \<Rightarrow> unit io" where
  "MarkAIReplyTaskRetry E i retryCount nextRetryAt lastError final =
     sql_update ai_reply_tasks_update (\<lambda>r. t_id r = i)
     (\<lambda>r. (retry_row (now E) retryCount nextRetryAt final r)\<lparr>ar_last_error := trimLimitData lastError 600\<rparr>)"

definition ResetAIReplyTask :: "env \<Rightarrow> int \<Rightarrow> unit io" where
  "ResetAIReplyTask E i = sql_update ai_reply_tasks_update (\<lambda>r. t_id r = i)
     (\<lambda>r. r\<lparr>t_status := ''pending'', t_retry_count := 0, t_next_retry_at := None,
        t_locked_until := None, t_updated_at := now E, ar_last_error := []\<rparr>)"

subsection \<open>AI content audits\<close>

text \<open>The record of the business layer has the fields of the row.\<close>

type_synonym CampusAIContentAuditTask = campusAIContentAuditTaskModel

definition toAIContentAuditTaskModel :: "env \<Rightarrow> CampusAIContentAuditTask \<Rightarrow> campusAIContentAuditTaskModel" where
  "toAIContentAuditTaskModel E b = b\<lparr>
     t_status := (if t_status b = [] then ''pending'' else t_status b),
     t_created_at := now E, t_updated_at := now E\<rparr>"

definition CreateAIContentAuditTask :: "env \<Rightarrow> CampusAIContentAuditTask \<Rightarrow> unit io" where
  "CreateAIContentAuditTask E b = (let row = toAIContentAuditTaskModel E b in
     sql_upsert ai_audit_tasks_update (\<lambda>r. t_id r = t_id row)
       (\<lambda>r. at_target_type r = at_target_type row \<and> at_target_id r = at_target_id row) id row)"

definition ClaimAIContentAuditTasks :: "env \<Rightarrow> int \<Rightarrow> time \<Rightarrow> CampusAIContentAuditTask list io" where
  "ClaimAIContentAuditTasks E limit lockFor =
     claim ai_audit_tasks ai_audit_tasks_update E (or_default limit 10) (or_default lockFor (seconds 45))"

definition MarkAIContentAuditTaskDone ::
    "env \<Rightarrow> int \<Rightarrow> string \<Rightarrow> string \<Rightarrow> string \<Rightarrow> string \<Rightarrow> unit io" where
  "MarkAIContentAuditTaskDone E i decision riskLevel reason rawResult =
     sql_update ai_audit_tasks_update (\<lambda>r. t_id r = i)
     (\<lambda>r. (done_row (now E) r)\<lparr>at_decision := trimLimitData decision 24,
        at_risk_level := trimLimitData riskLevel 24, at_reason := trimLimitData reason 255,
        at_raw_result := trimLimitData rawResult 4000, at_last_error := [],
        at_processed_at := Some (now E)\<rparr>)"

definition MarkAIContentAuditTaskRetry ::
    "env \<Rightarrow> int \<Rightarrow> int \<Rightarrow> time option \<Rightarrow> string \<Rightarrow> bool \<Rightarrow> unit io" where
  "MarkAIContentAuditTaskRetry E i retryCount nextRetryAt lastError final =
     sql_update ai_audit_tasks_update (\<lambda>r. t_id r = i)
     (\<lambda>r. (retry_row (now E) retryCount nextRetryAt final r)\<lparr>at_last_error := trimLimitData lastError 600\<rparr>)"

subsection \<open>Operations alerts\<close>

type_synonym CampusOpsAlert = campusOpsAlertModel

definition toOpsAlertModel :: "env \<Rightarrow> CampusOpsAlert \<Rightarrow> campusOpsAlertModel" where
  "toOpsAlertModel E b = b\<lparr>
     t_status := trimLimitData (if t_status b = [] then ''pending'' else t_status b) 24,
     t_created_at := now E, t_updated_at := now E,
     oa_alert_type := trimLimitData (oa_alert_type b) 48,
     oa_priority := trimLimitData (if oa_priority b = [] then ''normal'' else oa_priority b) 24,
     oa_target_type := trimLimitData (oa_target_type b) 32,
     oa_dedupe_key := trimLimitData (oa_dedupe_key b) 160,
     oa_title := trimLimitData (oa_title b) 160,
     oa_summary := trimLimitData (oa_summary b) 800,
     oa_feishu_status := trimLimitData (if oa_feishu_status b = [] then ''pending'' else oa_feishu_status b) 24,
     oa_feishu_error := trimLimitData (oa_feishu_error b) 1000\<rparr>"

text \<open>A second alert with the same key refreshes the first one and sends it again.\<close>

definition CreateOpsAlert :: "env \<Rightarrow> CampusOpsAlert \<Rightarrow> unit io" where
  "CreateOpsAlert E b = (let row = toOpsAlertModel E b in
     sql_upsert ops_alerts_update (\<lambda>r. t_id r = t_id row)
       (\<lambda>r. oa_dedupe_key r = oa_dedupe_key row)
       (\<lambda>r. r\<lparr>oa_priority := oa_priority row, oa_title := oa_title row, oa_summary := oa_summary row,
          oa_payload := oa_payload row, t_status := ''pending'', oa_feishu_status := ''pending'',
          oa_feishu_error := [], t_next_retry_at := None, t_locked_until := None,
          t_updated_at := now E\<rparr>) row)"

definition ClaimOpsAlerts :: "env \<Rightarrow> int \<Rightarrow> time \<Rightarrow> CampusOpsAlert list io" where
  "ClaimOpsAlerts E limit lockFor =
     claim ops_alerts ops_alerts_update E (or_default limit 20) (or_default lockFor (seconds 30))"

definition MarkOpsAlertSent :: "env \<Rightarrow> int \<Rightarrow> string \<Rightarrow> string \<Rightarrow> time option \<Rightarrow> unit io" where
  "MarkOpsAlertSent E i feishuStatus feishuError sentAt =
     sql_update ops_alerts_update (\<lambda>r. t_id r = i)
     (\<lambda>r. r\<lparr>t_status := (if feishuStatus = ''skipped'' then ''skipped'' else ''sent''),
        oa_feishu_status := trimLimitData feishuStatus 24,
        oa_feishu_error := trimLimitData feishuError 1000, oa_sent_at := sentAt,
        t_locked_until := None, t_next_retry_at := None, t_updated_at := now E\<rparr>)"

definition MarkOpsAlertRetry ::
    "env \<Rightarrow> int \<Rightarrow> int \<Rightarrow> time option \<Rightarrow> string \<Rightarrow> bool \<Rightarrow> unit io" where
  "MarkOpsAlertRetry E i retryCount nextRetryAt lastError final =
     sql_update ops_alerts_update (\<lambda>r. t_id r = i)
     (\<lambda>r. (retry_row (now E) retryCount nextRetryAt final r)\<lparr>oa_feishu_status := ''failed'',
        oa_feishu_error := trimLimitData lastError 1000\<rparr>)"

subsection \<open>Retry policies of the workers\<close>

text \<open>The notification outbox and the alerts wait by a table, the two AI queues by a square.\<close>

definition campusNotificationOutboxMaxRetry :: int where "campusNotificationOutboxMaxRetry = 5"
definition campusAIReplyTaskMaxRetry :: int where "campusAIReplyTaskMaxRetry = 3"
definition campusAIContentAuditTaskMaxRetry :: int where "campusAIContentAuditTaskMaxRetry = 3"
definition campusOpsAlertMaxRetry :: int where "campusOpsAlertMaxRetry = 5"

definition campusNotificationOutboxBackoff :: "int \<Rightarrow> time" where
  "campusNotificationOutboxBackoff n =
     (if n = 1 then seconds 10 else if n = 2 then seconds 30 else if n = 3 then minutes 2
      else if n = 4 then minutes 10 else minutes 30)"

definition campusOpsAlertBackoff :: "int \<Rightarrow> time" where
  "campusOpsAlertBackoff n =
     (if n = 1 then seconds 15 else if n = 2 then minutes 1 else if n = 3 then minutes 5
      else if n = 4 then minutes 15 else minutes 30)"

definition aiReplyBackoff :: "int \<Rightarrow> time" where
  "aiReplyBackoff n = n * n * seconds 5"

definition aiContentAuditBackoff :: "int \<Rightarrow> time" where
  "aiContentAuditBackoff n = n * n * minutes 1"

text \<open>How often a task has failed now, whether that was the last time, when it is due again.\<close>

definition next_retry :: "int \<Rightarrow> (int \<Rightarrow> time) \<Rightarrow> time \<Rightarrow> int \<Rightarrow> int \<times> bool \<times> time option" where
  "next_retry mx backoff t n = (let n' = n + 1; final = mx \<le> n' in
     (n', final, if final then None else Some (t + backoff n')))"

definition markNotificationOutboxRetry :: "env \<Rightarrow> CampusNotificationOutbox \<Rightarrow> go_error \<Rightarrow> unit io" where
  "markNotificationOutboxRetry E item err =
     (case next_retry campusNotificationOutboxMaxRetry campusNotificationOutboxBackoff (now E)
             (bo_retry_count item) of (retryCount, final, nextRetryAt) \<Rightarrow>
      ignore (MarkNotificationOutboxRetry E (bo_id item) retryCount nextRetryAt
        (trimLimit (error_text err) 500) final))"

definition markOpsAlertRetry :: "env \<Rightarrow> CampusOpsAlert \<Rightarrow> go_error \<Rightarrow> unit io" where
  "markOpsAlertRetry E item err =
     (case next_retry campusOpsAlertMaxRetry campusOpsAlertBackoff (now E) (t_retry_count item) of
        (retryCount, final, nextRetryAt) \<Rightarrow>
      ignore (MarkOpsAlertRetry E (t_id item) retryCount nextRetryAt
        (trimLimit (error_text err) 1000) final))"

subsection \<open>What a claim does\<close>

abbreviation age :: "'a task_scheme \<Rightarrow> time \<times> int" where
  "age r \<equiv> (t_created_at r, t_id r)"

text \<open>The rows a claim takes: the oldest of those that are due.\<close>

definition due :: "time \<Rightarrow> int \<Rightarrow> 'a task_scheme list \<Rightarrow> 'a task_scheme list" where
  "due t limit rs = take (nat limit) (sort_key age (filter (claimable t) rs))"

lemma due_props:
  "length (due t limit rs) \<le> nat limit"
  "set (due t limit rs) \<subseteq> {r \<in> set rs. claimable t r}"
  "sorted (map age (due t limit rs))"
  by (auto simp: due_def dest: in_set_takeD intro: sorted_wrt_take simp flip: take_map)

text \<open>Nothing that is due and left out is older than something that is taken.\<close>

lemma due_oldest:
  assumes "r \<in> set (due t limit rs)" and "r' \<in> set rs" "claimable t r'" "r' \<notin> set (due t limit rs)"
  shows "age r \<le> age r'"
proof -
  let ?s = "sort_key age (filter (claimable t) rs)"
  have "r' \<in> set (drop (nat limit) ?s)"
  proof -
    have "r' \<in> set (take (nat limit) ?s @ drop (nat limit) ?s)" using assms(2,3) by simp
    then show ?thesis using assms(4) unfolding due_def set_append by blast
  qed
  moreover have "sorted (map age (take (nat limit) ?s) @ map age (drop (nat limit) ?s))"
    by (simp flip: map_append)
  ultimately show ?thesis using assms(1) by (auto simp: due_def sorted_append)
qed

locale task_queue =
  fixes rows :: "tables \<Rightarrow> 'a task_scheme list"
    and upd_rows :: "('a task_scheme list \<Rightarrow> 'a task_scheme list) \<Rightarrow> tables \<Rightarrow> tables"
  assumes rows_upd [simp]: "rows (upd_rows f t) = f (rows t)"
begin

lemma claim_ok:
  assumes "claim rows upd_rows E limit lockFor w = (Inr out, w')"
  defines "sel \<equiv> due (now E) limit (rows (db w))" and "until \<equiv> now E + lockFor"
  shows "out = map (claimed_row until) sel
    \<and> rows (db w') = upd_where (\<lambda>r. t_id r \<in> t_id ` set sel) (lock_row (now E) until) (rows (db w))"
  using assms(1)
  by (auto simp: claim_def due_def sel_def until_def Let_def upd_where_none split: if_splits
      elim!: io_InrE transaction_InrE)

lemma claim_atomic: "claim rows upd_rows E limit lockFor w = (Inl e, w') \<Longrightarrow> db w' = db w"
  by (auto simp: claim_def Let_def elim!: io_bind_E dest: transaction_atomic)

lemma claim_frame:
  assumes "claim rows upd_rows E limit lockFor w = (Inr out, w')" and "\<And>f t. obs (upd_rows f t) = obs t"
  shows "obs (db w') = obs (db w)"
  using assms
  by (auto simp: claim_def Let_def split: if_splits elim!: io_InrE transaction_InrE)

end

interpretation obq: task_queue outbox outbox_update by unfold_locales simp
interpretation arq: task_queue ai_reply_tasks ai_reply_tasks_update by unfold_locales simp
interpretation atq: task_queue ai_audit_tasks ai_audit_tasks_update by unfold_locales simp
interpretation oaq: task_queue ops_alerts ops_alerts_update by unfold_locales simp

subsection \<open>The queues seen alike\<close>

datatype queue = NotificationOutbox | AIReply | AIAudit | OpsAlert

fun queue_tasks :: "tables \<Rightarrow> queue \<Rightarrow> task list" where
  "queue_tasks t NotificationOutbox = map task.truncate (outbox t)"
| "queue_tasks t AIReply = map task.truncate (ai_reply_tasks t)"
| "queue_tasks t AIAudit = map task.truncate (ai_audit_tasks t)"
| "queue_tasks t OpsAlert = map task.truncate (ops_alerts t)"

fun default_limit :: "queue \<Rightarrow> int" where
  "default_limit NotificationOutbox = 100"
| "default_limit AIReply = 20"
| "default_limit AIAudit = 10"
| "default_limit OpsAlert = 20"

fun default_lock :: "queue \<Rightarrow> time" where
  "default_lock NotificationOutbox = seconds 30"
| "default_lock AIReply = seconds 45"
| "default_lock AIAudit = seconds 45"
| "default_lock OpsAlert = seconds 30"

text \<open>A claim, by the ids of the tasks it hands out.\<close>

fun claim_queue :: "queue \<Rightarrow> env \<Rightarrow> int \<Rightarrow> time \<Rightarrow> int list io" where
  "claim_queue NotificationOutbox E limit lockFor =
     io_bind (ClaimNotificationOutbox E limit lockFor) (\<lambda>xs. ret (map bo_id xs))"
| "claim_queue AIReply E limit lockFor =
     io_bind (ClaimAIReplyTasks E limit lockFor) (\<lambda>xs. ret (map br_id xs))"
| "claim_queue AIAudit E limit lockFor =
     io_bind (ClaimAIContentAuditTasks E limit lockFor) (\<lambda>xs. ret (map t_id xs))"
| "claim_queue OpsAlert E limit lockFor =
     io_bind (ClaimOpsAlerts E limit lockFor) (\<lambda>xs. ret (map t_id xs))"

lemma truncate_simps [simp]:
  "t_id (task.truncate r) = t_id r" "t_status (task.truncate r) = t_status r"
  "t_created_at (task.truncate r) = t_created_at r"
  "t_retry_count (task.truncate r) = t_retry_count r"
  "t_next_retry_at (task.truncate r) = t_next_retry_at r"
  "t_locked_until (task.truncate r) = t_locked_until r"
  "claimable t (task.truncate r) = claimable t r"
  "task.truncate (lock_row t u r) = lock_row t u (task.truncate r)"
  by (simp_all add: task.truncate_def claimable_def lock_row_def claimed_row_def)

lemma lock_row_simps [simp]:
  "t_id (lock_row t u r) = t_id r" "t_status (lock_row t u r) = ''processing''"
  "t_locked_until (lock_row t u r) = Some u" "t_id (claimed_row u r) = t_id r"
  "t_retry_count (lock_row t u r) = t_retry_count r"
  by (simp_all add: lock_row_def claimed_row_def)

lemma insort_key_map: "insort_key k (f x) (map f xs) = map f (insort_key (\<lambda>x. k (f x)) x xs)"
  by (induction xs) auto

lemma sort_key_map: "sort_key k (map f xs) = map f (sort_key (\<lambda>x. k (f x)) xs)"
  by (induction xs) (simp_all add: insort_key_map)

lemma due_truncate: "due t limit (map task.truncate rs) = map task.truncate (due t limit rs)"
  by (simp add: due_def filter_map comp_def sort_key_map take_map)

lemma ids_due_truncate [simp]:
  "map t_id (due t limit (map task.truncate rs)) = map t_id (due t limit rs)"
  by (simp add: due_truncate comp_def)

lemma truncate_upd_where:
  assumes "\<And>r. P (task.truncate r) = Q r" and "\<And>r. task.truncate (f r) = g (task.truncate r)"
  shows "map task.truncate (upd_where Q f rs) = upd_where P g (map task.truncate rs)"
  by (simp add: upd_where_def assms)

lemma queue_all:
  "(\<forall>q. P q) \<longleftrightarrow> P NotificationOutbox \<and> P AIReply \<and> P AIAudit \<and> P OpsAlert"
proof safe
  fix q
  assume "P NotificationOutbox" "P AIReply" "P AIAudit" "P OpsAlert"
  then show "P q" by (cases q) simp_all
qed simp_all

definition claim_effect :: "queue \<Rightarrow> time \<Rightarrow> int \<Rightarrow> time \<Rightarrow> int list \<Rightarrow> tables \<Rightarrow> tables \<Rightarrow> bool" where
  "claim_effect q t limit lockFor ids tb tb' \<longleftrightarrow>
     ids = map t_id (due t (or_default limit (default_limit q)) (queue_tasks tb q)) \<and>
     queue_tasks tb' q = upd_where (\<lambda>r. t_id r \<in> set ids)
       (lock_row t (t + or_default lockFor (default_lock q))) (queue_tasks tb q) \<and>
     (\<forall>q'. q' \<noteq> q \<longrightarrow> queue_tasks tb' q' = queue_tasks tb q')"

lemma claim_queue_ok:
  assumes "claim_queue q E limit lockFor w = (r, w')"
  shows "case r of Inl e \<Rightarrow> db w' = db w | Inr ids \<Rightarrow> claim_effect q (now E) limit lockFor ids (db w) (db w')"
proof (cases r)
  case (Inl e)
  with assms show ?thesis
    by (cases q) (auto simp: ClaimNotificationOutbox_def ClaimAIReplyTasks_def
        ClaimAIContentAuditTasks_def ClaimOpsAlerts_def elim!: io_bind_E
        dest: obq.claim_atomic arq.claim_atomic atq.claim_atomic oaq.claim_atomic)
next
  case (Inr ids)
  have fr: "map task.truncate (upd_where (\<lambda>r. t_id r \<in> I) (lock_row t u) rs) =
      upd_where (\<lambda>r. t_id r \<in> I) (lock_row t u) (map task.truncate rs)"
    for I t u and rs :: "'x task_scheme list"
    by (rule truncate_upd_where) simp_all
  show ?thesis
  proof (cases q)
    case NotificationOutbox
    with assms Inr obtain out where
      c: "claim outbox outbox_update E (or_default limit 100) (or_default lockFor (seconds 30)) w = (Inr out, w')"
      and ids: "ids = map bo_id (map toBizNotificationOutbox out)"
      by (auto simp: ClaimNotificationOutbox_def elim!: io_bind_InrE)
    have "(ai_reply_tasks (db w'), ai_audit_tasks (db w'), ops_alerts (db w')) =
        (ai_reply_tasks (db w), ai_audit_tasks (db w), ops_alerts (db w))"
      by (rule obq.claim_frame [where obs = "\<lambda>t. (ai_reply_tasks t, ai_audit_tasks t, ops_alerts t)", OF c]) simp
    with Inr NotificationOutbox obq.claim_ok [OF c] ids show ?thesis
      by (simp add: claim_effect_def queue_all fr comp_def toBizNotificationOutbox_def)
  next
    case AIReply
    with assms Inr obtain out where
      c: "claim ai_reply_tasks ai_reply_tasks_update E (or_default limit 20) (or_default lockFor (seconds 45)) w = (Inr out, w')"
      and ids: "ids = map br_id (map toBizAIReplyTask out)"
      by (auto simp: ClaimAIReplyTasks_def elim!: io_bind_InrE)
    have "(outbox (db w'), ai_audit_tasks (db w'), ops_alerts (db w')) =
        (outbox (db w), ai_audit_tasks (db w), ops_alerts (db w))"
      by (rule arq.claim_frame [where obs = "\<lambda>t. (outbox t, ai_audit_tasks t, ops_alerts t)", OF c]) simp
    with Inr AIReply arq.claim_ok [OF c] ids show ?thesis
      by (simp add: claim_effect_def queue_all fr comp_def toBizAIReplyTask_def)
  next
    case AIAudit
    with assms Inr obtain out where
      c: "claim ai_audit_tasks ai_audit_tasks_update E (or_default limit 10) (or_default lockFor (seconds 45)) w = (Inr out, w')"
      and ids: "ids = map t_id out"
      by (auto simp: ClaimAIContentAuditTasks_def elim!: io_bind_InrE)
    have "(outbox (db w'), ai_reply_tasks (db w'), ops_alerts (db w')) =
        (outbox (db w), ai_reply_tasks (db w), ops_alerts (db w))"
      by (rule atq.claim_frame [where obs = "\<lambda>t. (outbox t, ai_reply_tasks t, ops_alerts t)", OF c]) simp
    with Inr AIAudit atq.claim_ok [OF c] ids show ?thesis
      by (simp add: claim_effect_def queue_all fr comp_def)
  next
    case OpsAlert
    with assms Inr obtain out where
      c: "claim ops_alerts ops_alerts_update E (or_default limit 20) (or_default lockFor (seconds 30)) w = (Inr out, w')"
      and ids: "ids = map t_id out"
      by (auto simp: ClaimOpsAlerts_def elim!: io_bind_InrE)
    have "(outbox (db w'), ai_reply_tasks (db w'), ai_audit_tasks (db w')) =
        (outbox (db w), ai_reply_tasks (db w), ai_audit_tasks (db w))"
      by (rule oaq.claim_frame [where obs = "\<lambda>t. (outbox t, ai_reply_tasks t, ai_audit_tasks t)", OF c]) simp
    with Inr OpsAlert oaq.claim_ok [OF c] ids show ?thesis
      by (simp add: claim_effect_def queue_all fr comp_def)
  qed
qed

text \<open>
  C3. A claim on any of the four queues hands out at most the limit, only tasks that are due, the
  oldest ones first; it locks exactly these for the lock time; the other queues and the other
  tasks stay as they were. A claim that fails changes nothing.
\<close>

theorem claims_bounded_fifo:
  assumes "claim_queue q E limit lockFor w = (r, w')"
  shows "case r of
      Inl e \<Rightarrow> db w' = db w
    | Inr ids \<Rightarrow> (let sel = due (now E) (or_default limit (default_limit q)) (queue_tasks (db w) q) in
        ids = map t_id sel
        \<and> int (length ids) \<le> or_default limit (default_limit q)
        \<and> list_all (claimable (now E)) sel
        \<and> sorted (map age sel)
        \<and> list_all (\<lambda>r'. list_all (\<lambda>r. age r \<le> age r') sel)
            (filter (\<lambda>r'. claimable (now E) r' \<and> r' \<notin> set sel) (queue_tasks (db w) q))
        \<and> queue_tasks (db w') = (queue_tasks (db w))(q :=
            upd_where (\<lambda>r. t_id r \<in> set ids) (lock_row (now E) (now E + or_default lockFor (default_lock q)))
              (queue_tasks (db w) q)))"
proof (cases r)
  case (Inl e)
  with claim_queue_ok [OF assms] show ?thesis by simp
next
  case (Inr ids)
  let ?l = "or_default limit (default_limit q)"
  let ?sel = "due (now E) ?l (queue_tasks (db w) q)"
  have e: "claim_effect q (now E) limit lockFor ids (db w) (db w')"
    using claim_queue_ok [OF assms] Inr by simp
  then have q: "queue_tasks (db w') = (queue_tasks (db w))(q :=
            upd_where (\<lambda>r. t_id r \<in> set ids) (lock_row (now E) (now E + or_default lockFor (default_lock q)))
              (queue_tasks (db w) q))" and i: "ids = map t_id ?sel"
    by (auto simp: claim_effect_def)
  have "0 < ?l" by (cases q) (auto simp: or_default_def)
  with due_props(1) [of "now E" ?l "queue_tasks (db w) q"] have b: "int (length ids) \<le> ?l"
    by (simp add: i)
  have c: "list_all (claimable (now E)) ?sel"
    using due_props(2) [of "now E" ?l "queue_tasks (db w) q"] by (auto simp: list_all_iff)
  have o: "list_all (\<lambda>r'. list_all (\<lambda>r. age r \<le> age r') ?sel)
            (filter (\<lambda>r'. claimable (now E) r' \<and> r' \<notin> set ?sel) (queue_tasks (db w) q))"
    unfolding list_all_iff set_filter by (blast intro: due_oldest)
  show ?thesis using Inr q i b c o due_props(3) by (simp only: sum.case Let_def simp_thms)
qed

text \<open>Three audit tasks: one is due, a second is due since its lock has run out, a third waits.\<close>

definition sample_audit :: "int \<Rightarrow> string \<Rightarrow> time option \<Rightarrow> time option \<Rightarrow> time \<Rightarrow> campusAIContentAuditTaskModel" where
  "sample_audit i status nx lock created = \<lparr>t_id = i, t_status = status, t_retry_count = 0,
     t_next_retry_at = nx, t_locked_until = lock, t_created_at = created, t_updated_at = created,
     at_target_type = ''post'', at_target_id = i, at_risk_level = [], at_decision = [],
     at_reason = [], at_raw_result = [], at_last_error = [], at_processed_at = None\<rparr>"

definition queue_world :: world where
  "queue_world = empty_world\<lparr>db := empty_tables\<lparr>ai_audit_tasks :=
     [sample_audit 1 ''pending'' None None 20, sample_audit 2 ''processing'' None (Some 50) 10,
      sample_audit 3 ''pending'' (Some 200) None 5]\<rparr>\<rparr>"

definition queue_env :: env where
  "queue_env = \<lparr>now = 100, detail_ttl = 30, idgen = int, unix_nano = int, getenv = (\<lambda>_. [])\<rparr>"

lemmas queue_eval = queue_world_def sample_audit_def queue_env_def empty_world_def empty_tables_def
  ClaimAIContentAuditTasks_def claim_def transaction_def command_def io_bind_def io_then_def
  sql_find_ordered_def sql_update_def or_default_def claimable_def lock_row_def claimed_row_def Let_def

lemma queue_claim: "\<exists>w'. claim_queue AIAudit queue_env 5 0 queue_world = (Inr [2, 1], w')"
  by (simp add: queue_eval)

theorem claims_bounded_fifo_witness:
  "\<exists>w'. claim_queue AIAudit queue_env 5 0 queue_world = (Inr [2, 1], w')
    \<and> map t_status (queue_tasks (db w') AIAudit) = [''processing'', ''processing'', ''pending'']"
proof -
  obtain w' where c: "claim_queue AIAudit queue_env 5 0 queue_world = (Inr [2, 1], w')"
    using queue_claim by blast
  from claims_bounded_fifo [OF c] have "queue_tasks (db w') = (queue_tasks (db queue_world))(AIAudit :=
      upd_where (\<lambda>r. t_id r \<in> set [2, 1]) (lock_row (now queue_env)
        (now queue_env + or_default 0 (default_lock AIAudit))) (queue_tasks (db queue_world) AIAudit))"
    by (simp only: sum.case Let_def)
  with c show ?thesis
    by (intro exI [of _ w']) (simp add: queue_world_def sample_audit_def empty_tables_def task.truncate_def)
qed

subsection \<open>Leases\<close>

text \<open>A worker reports on a task by marking it done or to be retried.\<close>

inductive reports :: "queue \<Rightarrow> env \<Rightarrow> int \<Rightarrow> unit io \<Rightarrow> bool" where
  "reports NotificationOutbox E i (MarkNotificationOutboxDone E i)"
| "reports NotificationOutbox E i (MarkNotificationOutboxRetry E i n nx err final)"
| "reports AIReply E i (MarkAIReplyTaskDone E i answer)"
| "reports AIReply E i (MarkAIReplyTaskRetry E i n nx err final)"
| "reports AIAudit E i (MarkAIContentAuditTaskDone E i decision risk reason raw)"
| "reports AIAudit E i (MarkAIContentAuditTaskRetry E i n nx err final)"
| "reports OpsAlert E i (MarkOpsAlertSent E i fs fe sent)"
| "reports OpsAlert E i (MarkOpsAlertRetry E i n nx err final)"

text \<open>New tasks. (A new alert with a known key puts the old one back, whoever works on it.)\<close>

inductive enqueues :: "env \<Rightarrow> unit io \<Rightarrow> bool" where
  "enqueues E (CreateNotificationOutbox E b)"
| "enqueues E (CreateAIReplyTask E b')"
| "enqueues E (CreateAIContentAuditTask E b'')"

record lease_state =
  ls_world :: world
  ls_now :: time
  ls_leases :: "(queue \<times> int \<times> time) list"

text \<open>
  The four kinds of workers, the requests that create tasks, and time. A lease is what a worker
  holds after a claim; a worker reports while its lease runs.
\<close>

inductive queue_step :: "lease_state \<Rightarrow> lease_state \<Rightarrow> bool" where
  claim: "now E = t \<Longrightarrow> claim_queue q E limit lockFor w = (Inr ids, w') \<Longrightarrow>
    queue_step \<lparr>ls_world = w, ls_now = t, ls_leases = ls\<rparr>
      \<lparr>ls_world = w', ls_now = t,
       ls_leases = map (\<lambda>i. (q, i, t + or_default lockFor (default_lock q))) ids @ ls\<rparr>"
| claim_fails: "claim_queue q E limit lockFor w = (Inl e, w') \<Longrightarrow>
    queue_step \<lparr>ls_world = w, ls_now = t, ls_leases = ls\<rparr> \<lparr>ls_world = w', ls_now = t, ls_leases = ls\<rparr>"
| report: "(q, i, u) \<in> set ls \<Longrightarrow> t \<le> u \<Longrightarrow> now E = t \<Longrightarrow> reports q E i m \<Longrightarrow> m w = (Inr (), w') \<Longrightarrow>
    queue_step \<lparr>ls_world = w, ls_now = t, ls_leases = ls\<rparr>
      \<lparr>ls_world = w', ls_now = t, ls_leases = filter (\<lambda>(q', i', u'). (q', i') \<noteq> (q, i)) ls\<rparr>"
| report_fails: "reports q E i m \<Longrightarrow> m w = (Inl e, w') \<Longrightarrow>
    queue_step \<lparr>ls_world = w, ls_now = t, ls_leases = ls\<rparr> \<lparr>ls_world = w', ls_now = t, ls_leases = ls\<rparr>"
| enqueue: "enqueues E m \<Longrightarrow> m w = (r, w') \<Longrightarrow>
    queue_step \<lparr>ls_world = w, ls_now = t, ls_leases = ls\<rparr> \<lparr>ls_world = w', ls_now = t, ls_leases = ls\<rparr>"
| tick: "t \<le> t' \<Longrightarrow>
    queue_step \<lparr>ls_world = w, ls_now = t, ls_leases = ls\<rparr> \<lparr>ls_world = w, ls_now = t', ls_leases = ls\<rparr>"

inductive_cases queue_stepE: "queue_step s s'"

definition running :: "lease_state \<Rightarrow> (queue \<times> int \<times> time) list" where
  "running s = filter (\<lambda>(q, i, u). ls_now s \<le> u) (ls_leases s)"

definition lease_inv :: "lease_state \<Rightarrow> bool" where
  "lease_inv s \<longleftrightarrow>
     (\<forall>q. unique_on t_id (queue_tasks (db (ls_world s)) q)) \<and>
     (\<forall>(q, i, u) \<in> set (running s). \<exists>r \<in> set (queue_tasks (db (ls_world s)) q).
        t_id r = i \<and> t_status r = ''processing'' \<and> t_locked_until r = Some u) \<and>
     distinct (map (\<lambda>(q, i, u). (q, i)) (running s))"

text \<open>A report changes its own task alone, and an insert adds at most one new task.\<close>

lemma others_upd_where:
  "(\<And>r. t_id (f r) = t_id r) \<Longrightarrow>
   filter (\<lambda>r. t_id r \<noteq> i) (map task.truncate (upd_where (\<lambda>r. t_id r = i) f rs)) =
   filter (\<lambda>r. t_id r \<noteq> i) (map task.truncate rs)"
  "(\<And>r. t_id (f r) = t_id r) \<Longrightarrow>
   map t_id (map task.truncate (upd_where (\<lambda>r. t_id r = i) f rs)) = map t_id (map task.truncate rs)"
  by (induction rs) auto

definition report_effect :: "queue \<Rightarrow> int \<Rightarrow> tables \<Rightarrow> tables \<Rightarrow> bool" where
  "report_effect q i tb tb' \<longleftrightarrow>
     map t_id (queue_tasks tb' q) = map t_id (queue_tasks tb q) \<and>
     filter (\<lambda>r. t_id r \<noteq> i) (queue_tasks tb' q) = filter (\<lambda>r. t_id r \<noteq> i) (queue_tasks tb q) \<and>
     (\<forall>q'. q' \<noteq> q \<longrightarrow> queue_tasks tb' q' = queue_tasks tb q')"

lemmas report_defs = MarkNotificationOutboxDone_def MarkNotificationOutboxRetry_def
  MarkAIReplyTaskDone_def MarkAIReplyTaskRetry_def MarkAIContentAuditTaskDone_def
  MarkAIContentAuditTaskRetry_def MarkOpsAlertSent_def MarkOpsAlertRetry_def done_row_def retry_row_def

lemma reports_ok: "reports q E i m \<Longrightarrow> m w = (Inr x, w') \<Longrightarrow> report_effect q i (db w) (db w')"
  by (induction rule: reports.induct)
     (auto simp: report_defs report_effect_def queue_all others_upd_where simp del: map_map
       elim!: sql_update_InrE)

lemma reports_fail: "reports q E i m \<Longrightarrow> m w = (Inl e, w') \<Longrightarrow> db w' = db w"
  by (induction rule: reports.induct) (auto simp: report_defs dest!: sql_InlD)

definition enqueue_effect :: "tables \<Rightarrow> tables \<Rightarrow> bool" where
  "enqueue_effect tb tb' \<longleftrightarrow> (\<forall>q. queue_tasks tb' q = queue_tasks tb q \<or>
     (\<exists>r. queue_tasks tb' q = queue_tasks tb q @ [r] \<and> t_id r \<notin> t_id ` set (queue_tasks tb q)))"

lemma upsert_enqueues:
  fixes row :: "'x task_scheme"
  shows "map task.truncate (upsert (\<lambda>r. t_id r = t_id row) Q id row xs) = map task.truncate xs \<or>
    (\<exists>r. map task.truncate (upsert (\<lambda>r. t_id r = t_id row) Q id row xs) = map task.truncate xs @ [r] \<and>
       t_id r \<notin> t_id ` task.truncate ` set xs)"
proof (cases "(\<exists>x \<in> set xs. t_id x = t_id row) \<or> (\<exists>x \<in> set xs. Q x)")
  case True
  then show ?thesis by (simp add: upsert_id)
next
  case False
  then show ?thesis
    by (intro disjI2 exI [of _ "task.truncate row"]) (auto simp: upsert_id)
qed

lemma enqueues_ok: "enqueues E m \<Longrightarrow> m w = (r, w') \<Longrightarrow> enqueue_effect (db w) (db w')"
proof (induction rule: enqueues.induct)
  case (1 E b)
  show ?case
  proof (cases r)
    case (Inl e)
    with 1 createOutbox_fail show ?thesis
      by (simp add: CreateNotificationOutbox_def enqueue_effect_def)
  next
    case (Inr x)
    with 1 createOutbox_append [of E "Some b" w x w'] show ?thesis
      by (auto simp: CreateNotificationOutbox_def enqueue_effect_def queue_all image_iff)
  qed
next
  case (2 E b)
  then have "db w' = db w \<or> db w' = ai_reply_tasks_update (upsert (\<lambda>r. t_id r = t_id (toAIReplyTaskModel E b))
      (\<lambda>r. ar_trigger_comment_id r = ar_trigger_comment_id (toAIReplyTaskModel E b)) id
      (toAIReplyTaskModel E b)) (db w)"
    by (cases r) (auto simp: CreateAIReplyTask_def Let_def elim!: sql_upsert_InrE dest!: sql_InlD)
  with upsert_enqueues [of "toAIReplyTaskModel E b"
      "\<lambda>r. ar_trigger_comment_id r = ar_trigger_comment_id (toAIReplyTaskModel E b)" "ai_reply_tasks (db w)"]
  show ?case unfolding enqueue_effect_def queue_all by (elim disjE) simp_all
next
  case (3 E b)
  then have "db w' = db w \<or> db w' = ai_audit_tasks_update (upsert (\<lambda>r. t_id r = t_id (toAIContentAuditTaskModel E b))
      (\<lambda>r. at_target_type r = at_target_type (toAIContentAuditTaskModel E b) \<and>
         at_target_id r = at_target_id (toAIContentAuditTaskModel E b)) id
      (toAIContentAuditTaskModel E b)) (db w)"
    by (cases r) (auto simp: CreateAIContentAuditTask_def Let_def elim!: sql_upsert_InrE dest!: sql_InlD)
  with upsert_enqueues [of "toAIContentAuditTaskModel E b"
      "\<lambda>r. at_target_type r = at_target_type (toAIContentAuditTaskModel E b) \<and>
         at_target_id r = at_target_id (toAIContentAuditTaskModel E b)" "ai_audit_tasks (db w)"]
  show ?case unfolding enqueue_effect_def queue_all by (elim disjE) simp_all
qed

lemma distinct_due: "unique_on t_id rs \<Longrightarrow> distinct (map t_id (due t n rs))"
proof -
  assume "unique_on t_id rs"
  then have "distinct (map t_id (filter (claimable t) rs))"
    by (simp add: unique_on_def distinct_map_filter)
  then have "distinct (map t_id (sort_key age (filter (claimable t) rs)))"
    by (metis (no_types, lifting) distinct_map distinct_sort set_sort)
  then show ?thesis by (simp add: due_def flip: take_map)
qed

lemma lease_inv_step:
  assumes "queue_step s s'" and "lease_inv s"
  shows "lease_inv s'"
  using assms
proof (induction rule: queue_step.induct)
  case (claim E t q limit lockFor w ids w' ls)
  let ?u = "t + or_default lockFor (default_lock q)"
  let ?new = "map (\<lambda>i. (q, i, ?u)) ids"
  let ?old = "filter (\<lambda>(q, i, u). t \<le> u) ls"
  have lock: "0 < or_default lockFor (default_lock q)"
    by (cases q) (auto simp: or_default_def nanos_per_second_def)
  have eff: "claim_effect q t limit lockFor ids (db w) (db w')"
    using claim_queue_ok [OF claim(2)] claim(1) by simp
  then have e: "queue_tasks (db w') q = upd_where (\<lambda>r. t_id r \<in> set ids) (lock_row t ?u) (queue_tasks (db w) q)"
    by (simp add: claim_effect_def)
  have un: "unique_on t_id (queue_tasks (db w) q')" for q'
    using claim(3) by (simp add: lease_inv_def)
  have held: "\<exists>r \<in> set (queue_tasks (db w) q'). t_id r = i \<and> t_status r = ''processing'' \<and> t_locked_until r = Some u"
    if "(q', i, u) \<in> set ?old" for q' i u
    using claim(3) that by (auto simp: lease_inv_def running_def)
  have free: "i \<notin> set ids" if o: "(q, i, u) \<in> set ?old" for i u
  proof
    assume "i \<in> set ids"
    then obtain r where r: "r \<in> set (queue_tasks (db w) q)" "claimable t r" "t_id r = i"
      using eff due_props(2) by (fastforce simp: claim_effect_def)
    obtain r' where r': "r' \<in> set (queue_tasks (db w) q)" "t_id r' = i" "t_status r' = ''processing''"
        "t_locked_until r' = Some u" using held [OF o] by blast
    have "r = r'" using unique_on_eq [OF un r(1) r'(1)] r(3) r'(2) by simp
    with r(2) r'(3,4) o show False by (auto simp: claimable_def)
  qed
  have "distinct (map (\<lambda>(q, i, u). (q, i)) (?new @ ?old))"
  proof -
    have "distinct ids" using eff distinct_due [OF un] by (simp add: claim_effect_def)
    then have "distinct (map (\<lambda>(q, i, u). (q, i)) ?new)" by (auto simp: distinct_map inj_on_def)
    with claim(3) free show ?thesis by (fastforce simp: lease_inv_def running_def)
  qed
  moreover have "\<exists>r \<in> set (queue_tasks (db w') q'). t_id r = i \<and> t_status r = ''processing'' \<and> t_locked_until r = Some u"
    if m: "(q', i, u) \<in> set (?new @ ?old)" for q' i u
  proof (cases "(q', i, u) \<in> set ?new")
    case True
    then have q: "q' = q" "u = ?u" "i \<in> set ids" by auto
    then obtain r where r: "r \<in> set (queue_tasks (db w) q)" "t_id r = i"
      using eff due_props(2) by (fastforce simp: claim_effect_def)
    have "lock_row t ?u r \<in> set (queue_tasks (db w') q)"
      using r q(3) unfolding e set_upd_where by (intro image_eqI [of _ _ r]) simp_all
    with q r show ?thesis by (intro bexI [of _ "lock_row t ?u r"]) simp_all
  next
    case False
    with m have o: "(q', i, u) \<in> set ?old" by auto
    show ?thesis
    proof (cases "q' = q")
      case True
      obtain r where r: "r \<in> set (queue_tasks (db w) q)" "t_id r = i" "t_status r = ''processing''"
          "t_locked_until r = Some u" using held [OF o] True by blast
      moreover have "i \<notin> set ids" using free o True by blast
      ultimately have "r \<in> set (queue_tasks (db w') q)"
        unfolding e set_upd_where by (intro image_eqI [of _ _ r]) simp_all
      with r True show ?thesis by blast
    next
      case False
      with held [OF o] eff show ?thesis by (simp add: claim_effect_def)
    qed
  qed
  moreover have "unique_on t_id (queue_tasks (db w') q')" for q'
    using un eff by (cases "q' = q") (simp_all add: claim_effect_def)
  moreover have "running \<lparr>ls_world = w', ls_now = t, ls_leases = ?new @ ls\<rparr> = ?new @ ?old"
    using lock by (simp add: running_def)
  ultimately show ?case unfolding lease_inv_def by auto
next
  case (claim_fails q E limit lockFor w e w' t ls)
  then show ?case using claim_queue_ok [OF claim_fails(1)] by (simp add: lease_inv_def running_def)
next
  case (report q i u ls t E m w w')
  have eff: "report_effect q i (db w) (db w')" by (rule reports_ok [OF report(4,5)])
  have "\<exists>r \<in> set (queue_tasks (db w') q'). t_id r = j \<and> t_status r = ''processing'' \<and> t_locked_until r = Some v"
    if m: "(q', j, v) \<in> set ls" "t \<le> v" "(q', j) \<noteq> (q, i)" for q' j v
  proof -
    obtain r where r: "r \<in> set (queue_tasks (db w) q')" "t_id r = j" "t_status r = ''processing''"
        "t_locked_until r = Some v" using report(6) m by (fastforce simp: lease_inv_def running_def)
    have "r \<in> set (queue_tasks (db w') q')"
    proof (cases "q' = q")
      case True
      with r m have "r \<in> set (filter (\<lambda>r. t_id r \<noteq> i) (queue_tasks (db w) q))" by auto
      with eff True show ?thesis unfolding report_effect_def by (metis filter_is_subset subsetD)
    next
      case False
      with eff r show ?thesis by (simp add: report_effect_def)
    qed
    with r show ?thesis by blast
  qed
  moreover have "unique_on t_id (queue_tasks (db w') q')" for q'
    using report(6) eff by (cases "q' = q") (simp_all add: lease_inv_def report_effect_def unique_on_def)
  moreover have "distinct (map (\<lambda>(q, i, u). (q, i))
      (running \<lparr>ls_world = w', ls_now = t, ls_leases = filter (\<lambda>(q', i', u'). (q', i') \<noteq> (q, i)) ls\<rparr>))"
  proof -
    have "running \<lparr>ls_world = w', ls_now = t, ls_leases = filter (\<lambda>(q', i', u'). (q', i') \<noteq> (q, i)) ls\<rparr> =
        filter (\<lambda>(q', i', u'). (q', i') \<noteq> (q, i)) (running \<lparr>ls_world = w, ls_now = t, ls_leases = ls\<rparr>)"
      by (simp add: running_def conj_commute split_def cong: conj_cong)
    with report(6) show ?thesis by (simp add: lease_inv_def distinct_map_filter)
  qed
  ultimately show ?case unfolding lease_inv_def by (auto simp: running_def)
next
  case (report_fails q E i m w e w' t ls)
  then show ?case using reports_fail [OF report_fails(1,2)] by (simp add: lease_inv_def running_def)
next
  case (enqueue E m w r w' t ls)
  have eff: "enqueue_effect (db w) (db w')" by (rule enqueues_ok [OF enqueue(1,2)])
  then have "set (queue_tasks (db w) q) \<subseteq> set (queue_tasks (db w') q)" for q
    unfolding enqueue_effect_def by (metis Un_upper1 order_refl set_append)
  moreover have "unique_on t_id (queue_tasks (db w') q)" if "unique_on t_id (queue_tasks (db w) q)" for q
    using eff that unfolding enqueue_effect_def by (metis unique_on_snoc)
  ultimately show ?case using enqueue(3) unfolding lease_inv_def by (fastforce simp: running_def)
next
  case (tick t t' w ls)
  have "running \<lparr>ls_world = w, ls_now = t', ls_leases = ls\<rparr> =
      filter (\<lambda>(q, i, u). t' \<le> u) (running \<lparr>ls_world = w, ls_now = t, ls_leases = ls\<rparr>)"
    using tick(1) by (auto simp: running_def intro!: filter_cong)
  with tick(2) show ?case by (auto simp: lease_inv_def distinct_map_filter)
qed



subsection \<open>Retrying ends\<close>

text \<open>
  The interface of a retry policy: a positive number of attempts, and a positive wait that does
  not shrink while there are attempts left. A policy gives up after exactly its number of attempts.
\<close>

fun fail_times :: "nat \<Rightarrow> int \<Rightarrow> (int \<Rightarrow> time) \<Rightarrow> (time \<Rightarrow> time) \<Rightarrow> time \<Rightarrow> int \<Rightarrow> (int \<times> bool \<times> time option) list" where
  "fail_times 0 mx backoff latency t n = []"
| "fail_times (Suc k) mx backoff latency t n =
     (case next_retry mx backoff t n of (n', final, nx) \<Rightarrow> (n', final, nx) #
        (case nx of None \<Rightarrow> [] | Some t' \<Rightarrow> fail_times k mx backoff latency (latency t') n'))"

locale retry_policy =
  fixes mx :: int and backoff :: "int \<Rightarrow> time"
  assumes mx_pos: "0 < mx"
    and backoff_pos: "1 \<le> n \<Longrightarrow> 0 < backoff n"
    and backoff_mono: "1 \<le> n \<Longrightarrow> n + 1 < mx \<Longrightarrow> backoff n \<le> backoff (n + 1)"
begin

lemma gives_up:
  assumes "0 \<le> n" and "n < mx" and "nat (mx - n) \<le> k"
  shows "map fst (fail_times k mx backoff latency t n) = [n + 1..mx]
    \<and> map (\<lambda>(n', final, nx). final) (fail_times k mx backoff latency t n) =
       replicate (nat (mx - n) - 1) False @ [True]"
  using assms
proof (induction k arbitrary: t n)
  case 0
  then show ?case by simp
next
  case (Suc k)
  show ?case
  proof (cases "mx \<le> n + 1")
    case True
    with Suc.prems have "mx = n + 1" by simp
    then show ?thesis by (simp add: next_retry_def)
  next
    case False
    let ?t = "latency (t + backoff (n + 1))"
    have IH: "map fst (fail_times k mx backoff latency ?t (n + 1)) = [n + 1 + 1..mx]
      \<and> map (\<lambda>(n', final, nx). final) (fail_times k mx backoff latency ?t (n + 1)) =
         replicate (nat (mx - (n + 1)) - 1) False @ [True]"
      using False Suc.prems by (intro Suc.IH) auto
    have "[n + 1..mx] = (n + 1) # [n + 1 + 1..mx]" using False by (simp add: upto_rec1)
    moreover have "replicate (nat (mx - n) - 1) False = False # replicate (nat (mx - (n + 1)) - 1) False"
    proof -
      have "nat (mx - n) - 1 = Suc (nat (mx - (n + 1)) - 1)" using False by simp
      then show ?thesis by (simp only: replicate_Suc)
    qed
    ultimately show ?thesis using False IH by (simp add: next_retry_def Let_def)
  qed
qed

lemma waits:
  assumes "0 \<le> n" and "next_retry mx backoff t n = (n', final, nx)"
  shows "n' = n + 1 \<and> (final \<longleftrightarrow> mx \<le> n') \<and> (nx = None \<longleftrightarrow> final) \<and>
    (case nx of None \<Rightarrow> True | Some t' \<Rightarrow> t < t')"
  using assms backoff_pos [of "n + 1"] by (auto simp: next_retry_def Let_def split: if_splits)

end

lemmas backoff_defs = campusNotificationOutboxMaxRetry_def campusAIReplyTaskMaxRetry_def
  campusAIContentAuditTaskMaxRetry_def campusOpsAlertMaxRetry_def campusNotificationOutboxBackoff_def
  campusOpsAlertBackoff_def aiReplyBackoff_def aiContentAuditBackoff_def nanos_per_second_def

lemma square_mono: "1 \<le> (n::int) \<Longrightarrow> n * n \<le> (n + 1) * (n + 1)"
  by (simp add: algebra_simps)

interpretation obr: retry_policy campusNotificationOutboxMaxRetry campusNotificationOutboxBackoff
  by unfold_locales (auto simp: backoff_defs)

interpretation arr: retry_policy campusAIReplyTaskMaxRetry aiReplyBackoff
  by unfold_locales (auto simp: backoff_defs square_mono)

interpretation atr: retry_policy campusAIContentAuditTaskMaxRetry aiContentAuditBackoff
  by unfold_locales (auto simp: backoff_defs square_mono)

interpretation oar: retry_policy campusOpsAlertMaxRetry campusOpsAlertBackoff
  by unfold_locales (auto simp: backoff_defs)


end
