(* ===== verification/Notifications.thy ===== *)
theory Notifications
  imports TaskQueue Access
begin

text \<open>
  Notifications (\<open>biz/campus.go\<close> and \<open>data/campus.go\<close>): the worker that delivers the entries of the
  outbox, the rows it writes, and what a user does with them. An entry is delivered at least
  once, since its mark "done" may get lost; the unique deduplication key turns this into one row.
\<close>

subsection \<open>The rows\<close>

definition notificationDedupeKey :: "int \<Rightarrow> int \<Rightarrow> string \<Rightarrow> string \<Rightarrow> int \<Rightarrow> string" where
  "notificationDedupeKey recipientID actorID eventType targetType targetID =
     (if recipientID = 0 \<or> actorID = 0 \<or> trim_space eventType = [] \<or> trim_space targetType = [] \<or> targetID = 0 then []
      else fmt_d recipientID @ '':'' @ fmt_d actorID @ '':'' @ eventType @ '':'' @ targetType @ '':'' @ fmt_d targetID)"

text \<open>The row, with the key that a unique notification gets when it has none.\<close>

definition notification_row :: "env \<Rightarrow> CampusNotification \<Rightarrow> bool \<Rightarrow> campusNotificationModel" where
  "notification_row E n uniq = (let row = toNotificationModel E n in
     if uniq \<and> (case n_dedupe_key row of None \<Rightarrow> True | Some k \<Rightarrow> trim_space k = [])
     then row\<lparr>n_dedupe_key := Some (notificationDedupeKey (n_recipient_id row) (n_actor_id row)
            (n_event_type row) (n_target_type row) (n_target_id row))\<rparr>
     else row)"

definition refresh_row :: "time \<Rightarrow> campusNotificationModel \<Rightarrow> campusNotificationModel \<Rightarrow> campusNotificationModel" where
  "refresh_row t row r = r\<lparr>n_title := n_title row, n_content := n_content row, n_link_page := n_link_page row,
     n_link_params := n_link_params row, n_is_deleted := False, n_updated_at := t\<rparr>"

text \<open>A unique notification refreshes the row that has its key; another one must have a new key.\<close>

definition CreateNotification :: "env \<Rightarrow> CampusNotification \<Rightarrow> bool \<Rightarrow> unit io" where
  "CreateNotification E n uniq = (let row = notification_row E n uniq in
     if uniq then sql_upsert notifications_update (\<lambda>r. n_id r = n_id row)
         (\<lambda>r. n_dedupe_key r = n_dedupe_key row) (refresh_row (now E) row) row
     else sql_create notifications notifications_update
         (\<lambda>r. n_id r = n_id row \<or> (n_dedupe_key row \<noteq> None \<and> n_dedupe_key r = n_dedupe_key row)) row)"

definition toBizNotification :: "campusNotificationModel \<Rightarrow> CampusNotification" where
  "toBizNotification row = \<lparr>
     nt_id = n_id row,
     nt_recipient_id = fmt_d (n_recipient_id row),
     nt_actor_id = fmt_d (n_actor_id row),
     nt_event_type = n_event_type row,
     nt_target_type = n_target_type row,
     nt_target_id = n_target_id row,
     nt_dedupe_key = (case n_dedupe_key row of None \<Rightarrow> [] | Some k \<Rightarrow> k),
     nt_title = n_title row,
     nt_content = n_content row,
     nt_link_page = n_link_page row,
     nt_link_params = n_link_params row,
     nt_read_at = n_read_at row,
     nt_created_at = n_created_at row,
     nt_updated_at = n_updated_at row\<rparr>"

definition reply_types :: "string list" where
  "reply_types = [''comment'', ''reply'', ''mention'']"

definition interaction_types :: "string list" where
  "interaction_types = [''post_like'', ''post_collect'', ''comment_like'']"

definition in_group :: "string \<Rightarrow> campusNotificationModel \<Rightarrow> bool" where
  "in_group grp r \<longleftrightarrow>
     (if grp = ''reply'' then n_event_type r \<in> set reply_types
      else if grp = ''interaction'' then n_event_type r \<in> set interaction_types
      else if grp = ''system'' then n_event_type r = ''system''
      else True)"

text \<open>Newest first; a page that is not positive starts at the beginning. The authors that are
  joined to the entries for display are left out.\<close>

definition ListNotifications_repo :: "string \<Rightarrow> string \<Rightarrow> int \<Rightarrow> int \<Rightarrow> (CampusNotification list \<times> int) io" where
  "ListNotifications_repo userID grp off page_size = (let
     P = (\<lambda>r. n_recipient_id r = parseID userID \<and> \<not> n_is_deleted r \<and> in_group grp r) in
   io_bind (sql_count notifications P) (\<lambda>total.
   io_bind (command (\<lambda>w. (Inr (take (nat page_size) (drop (nat off)
       (sort_key (\<lambda>r. (- n_created_at r, - n_id r)) (filter P (notifications (db w)))))), w))) (\<lambda>rows.
   ret (map toBizNotification rows, total))))"

record CampusUnreadNotificationCount =
  un_Total :: int
  un_Reply :: int
  un_Interaction :: int
  un_System :: int

definition unread_of :: "int \<Rightarrow> campusNotificationModel \<Rightarrow> bool" where
  "unread_of u r \<longleftrightarrow> n_recipient_id r = u \<and> n_read_at r = None \<and> \<not> n_is_deleted r"

definition CountUnreadNotifications_repo :: "string \<Rightarrow> CampusUnreadNotificationCount io" where
  "CountUnreadNotifications_repo userID = (let u = parseID userID in
     io_bind (sql_count notifications (unread_of u)) (\<lambda>total.
     io_bind (sql_count notifications (\<lambda>r. unread_of u r \<and> n_event_type r \<in> set reply_types)) (\<lambda>reply.
     io_bind (sql_count notifications (\<lambda>r. unread_of u r \<and> n_event_type r \<in> set interaction_types)) (\<lambda>interaction.
     io_bind (sql_count notifications (\<lambda>r. unread_of u r \<and> n_event_type r = ''system'')) (\<lambda>system.
     ret \<lparr>un_Total = total, un_Reply = reply, un_Interaction = interaction, un_System = system\<rparr>)))))"

definition read_row :: "time \<Rightarrow> campusNotificationModel \<Rightarrow> campusNotificationModel" where
  "read_row t r = r\<lparr>n_read_at := Some t, n_updated_at := t\<rparr>"

definition MarkNotificationRead_repo :: "env \<Rightarrow> string \<Rightarrow> int \<Rightarrow> unit io" where
  "MarkNotificationRead_repo E userID i = sql_update notifications_update
     (\<lambda>r. n_id r = i \<and> n_recipient_id r = parseID userID \<and> \<not> n_is_deleted r) (read_row (now E))"

definition MarkAllNotificationsRead_repo :: "env \<Rightarrow> string \<Rightarrow> unit io" where
  "MarkAllNotificationsRead_repo E userID =
     sql_update notifications_update (unread_of (parseID userID)) (read_row (now E))"

definition ListNotificationRecipients :: "string list io" where
  "ListNotificationRecipients = command (\<lambda>w. (Inr (map fmt_d (sort (users (db w)))), w))"

subsection \<open>What a user does\<close>

definition ListNotifications :: "string \<Rightarrow> string \<Rightarrow> 32 word \<Rightarrow> 32 word \<Rightarrow> (CampusNotification list \<times> int) io" where
  "ListNotifications userID type page0 size0 =
     (if trim_space userID = [] then fail (Unauthorized msg_login_required)
      else case normalizePage page0 size0 of (page, sz) \<Rightarrow>
        or_fail (internal msg_list_notifications_failed)
          (ListNotifications_repo userID (normalizeCampusNotificationGroup type) (page_offset page sz) (sint sz)))"

definition CountUnreadNotifications :: "string \<Rightarrow> CampusUnreadNotificationCount io" where
  "CountUnreadNotifications userID =
     (if trim_space userID = [] then fail (Unauthorized msg_login_required)
      else or_fail (internal msg_unread_failed) (CountUnreadNotifications_repo userID))"

definition MarkNotificationRead :: "env \<Rightarrow> string \<Rightarrow> int \<Rightarrow> unit io" where
  "MarkNotificationRead E userID i =
     (if trim_space userID = [] then fail (Unauthorized msg_login_required)
      else if i \<le> 0 then fail (InvalidArgument msg_notification_id_invalid)
      else or_fail (internal msg_mark_read_failed) (MarkNotificationRead_repo E userID i))"

definition MarkAllNotificationsRead :: "env \<Rightarrow> string \<Rightarrow> unit io" where
  "MarkAllNotificationsRead E userID =
     (if trim_space userID = [] then fail (Unauthorized msg_login_required)
      else or_fail (internal msg_mark_all_read_failed) (MarkAllNotificationsRead_repo E userID))"

subsection \<open>Broadcasts and delivery\<close>

record CreateCampusAdminNotificationInput =
  an_UserID :: string
  an_Title :: string
  an_Content :: string
  an_LinkPage :: string
  an_LinkParams :: "(string \<times> string) list"
  an_Audience :: string

definition AdminCreateSystemNotification :: "env \<Rightarrow> CreateCampusAdminNotificationInput \<Rightarrow> int io" where
  "AdminCreateSystemNotification E input = io_bind (isCampusOperator E (an_UserID input)) (\<lambda>ok.
     if \<not> ok then fail (Forbidden msg_no_admin_right)
     else let title = trimLimit (an_Title input) 80; content = trimLimit (an_Content input) 500 in
       if rune_count title < 2 then fail (InvalidArgument msg_notice_title_short)
       else if rune_count content < 2 then fail (InvalidArgument msg_notice_content_short)
       else if trim_space (an_Audience input) \<noteq> [] \<and> trim_space (an_Audience input) \<noteq> ''all_users''
       then fail (InvalidArgument msg_notice_audience)
       else io_bind (NextID E) (\<lambda>taskID.
         io_then (or_fail (internal msg_notice_create_failed) (CreateNotificationOutbox E (zero_CampusNotificationOutbox\<lparr>
           bo_id := taskID,
           bo_actor_id := an_UserID input,
           bo_event_type := ''system'',
           bo_target_type := ''system'',
           bo_target_id := taskID,
           bo_dedupe_key := ''campus:system-task:'' @ fmt_d taskID,
           bo_title := title,
           bo_content := content,
           bo_link_page := trimLimit (firstNonEmpty [an_LinkPage input, ''community'']) 64,
           bo_link_params := sanitizeTrackExtra (an_LinkParams input),
           bo_audience := ''all_users'',
           bo_status := ''pending''\<rparr>)))
         (ret taskID)))"

definition system_notification :: "CampusNotificationOutbox \<Rightarrow> int \<Rightarrow> string \<Rightarrow> CampusNotification" where
  "system_notification item i recipientID = zero_CampusNotification\<lparr>
     nt_id := i,
     nt_recipient_id := recipientID,
     nt_actor_id := bo_actor_id item,
     nt_event_type := ''system'',
     nt_target_type := firstNonEmpty [bo_target_type item, ''system''],
     nt_target_id := bo_id item,
     nt_dedupe_key := ''campus:system:'' @ fmt_d (bo_id item) @ '':'' @ recipientID,
     nt_title := bo_title item,
     nt_content := bo_content item,
     nt_link_page := firstNonEmpty [bo_link_page item, ''community''],
     nt_link_params := sanitizeTrackExtra (bo_link_params item)\<rparr>"

fun deliverSystem_loop :: "env \<Rightarrow> CampusNotificationOutbox \<Rightarrow> string list \<Rightarrow> unit io" where
  "deliverSystem_loop E item [] = ret ()"
| "deliverSystem_loop E item (r # rs) = (let recipientID = trim_space r in
     if recipientID = [] \<or> recipientID = ''0'' then deliverSystem_loop E item rs
     else io_bind (NextID E) (\<lambda>i.
       io_then (CreateNotification E (system_notification item i recipientID) True)
       (deliverSystem_loop E item rs)))"

definition deliverSystemNotificationOutbox :: "env \<Rightarrow> CampusNotificationOutbox \<Rightarrow> unit io" where
  "deliverSystemNotificationOutbox E item =
     (if trim_space (bo_audience item) \<noteq> [] \<and> bo_audience item \<noteq> ''all_users''
      then fail (PlainError (''unsupported notification audience: '' @ bo_audience item) None)
      else io_bind ListNotificationRecipients (deliverSystem_loop E item))"

definition interaction_key :: "CampusNotificationOutbox \<Rightarrow> string" where
  "interaction_key item = (let k = trim_space (bo_dedupe_key item) in
     if k = [] then ''campus:notification-outbox:'' @ fmt_d (bo_id item) else k)"

definition interaction_notification :: "CampusNotificationOutbox \<Rightarrow> int \<Rightarrow> CampusNotification" where
  "interaction_notification item i = zero_CampusNotification\<lparr>
     nt_id := i,
     nt_recipient_id := bo_recipient_id item,
     nt_actor_id := bo_actor_id item,
     nt_event_type := bo_event_type item,
     nt_target_type := bo_target_type item,
     nt_target_id := bo_target_id item,
     nt_dedupe_key := interaction_key item,
     nt_title := bo_title item,
     nt_content := bo_content item,
     nt_link_page := firstNonEmpty [bo_link_page item, ''post-detail''],
     nt_link_params := sanitizeTrackExtra (bo_link_params item)\<rparr>"

definition deliverInteractionNotificationOutbox :: "env \<Rightarrow> CampusNotificationOutbox \<Rightarrow> unit io" where
  "deliverInteractionNotificationOutbox E item =
     (if trim_space (bo_recipient_id item) = [] \<or> bo_recipient_id item = ''0'' \<or>
         bo_recipient_id item = bo_actor_id item then ret ()
      else io_bind (NextID E) (\<lambda>i. CreateNotification E (interaction_notification item i) True))"

definition processNotificationOutboxItem :: "env \<Rightarrow> CampusNotificationOutbox \<Rightarrow> unit io" where
  "processNotificationOutboxItem E item =
     (if bo_event_type item = ''system'' \<and> trim_space (bo_audience item) = ''all_users''
      then deliverSystemNotificationOutbox E item
      else deliverInteractionNotificationOutbox E item)"

text \<open>The loop over the claimed entries; \<open>firstErr\<close> is the first failure.\<close>

fun process_items :: "env \<Rightarrow> CampusNotificationOutbox list \<Rightarrow> go_error option \<Rightarrow> go_error option io" where
  "process_items E [] firstErr = ret firstErr"
| "process_items E (item # items) firstErr = io_bind (attempt (processNotificationOutboxItem E item)) (\<lambda>res.
     case res of
       Inl err \<Rightarrow> io_then (markNotificationOutboxRetry E item err)
          (process_items E items (if firstErr = None then Some err else firstErr))
     | Inr _ \<Rightarrow> io_bind (attempt (MarkNotificationOutboxDone E (bo_id item))) (\<lambda>done_res.
          process_items E items (case done_res of
            Inl err \<Rightarrow> if firstErr = None then Some err else firstErr | Inr _ \<Rightarrow> firstErr)))"

definition ProcessPendingNotificationOutbox :: "env \<Rightarrow> int \<Rightarrow> unit io" where
  "ProcessPendingNotificationOutbox E limit =
     io_bind (or_fail (internal msg_claim_notifications_failed)
       (ClaimNotificationOutbox E (if limit \<le> 0 then 100 else limit) (seconds 30))) (\<lambda>items.
     io_bind (process_items E items None) (\<lambda>firstErr.
     case firstErr of None \<Rightarrow> ret () | Some e \<Rightarrow> fail e))"

subsection \<open>What storing a unique notification does\<close>

text \<open>The ids and the keys of the rows are unique, and the generator gives out new ids.\<close>

definition has_key :: "string \<Rightarrow> campusNotificationModel \<Rightarrow> bool" where
  "has_key K n \<longleftrightarrow> n_dedupe_key n = Some K"

definition inbox_ok :: "env \<Rightarrow> world \<Rightarrow> bool" where
  "inbox_ok E w \<longleftrightarrow> unique_on n_id (notifications (db w)) \<and>
     (\<forall>K. count_where (has_key K) (notifications (db w)) \<le> 1) \<and>
     inj (idgen E) \<and> (\<forall>k \<ge> next_seq w. idgen E k \<notin> n_id ` set (notifications (db w)))"

text \<open>No row is lost, and none changes its owner, its key, or whether it was read.\<close>

definition inbox_keeps :: "tables \<Rightarrow> tables \<Rightarrow> bool" where
  "inbox_keeps t t' \<longleftrightarrow> (\<exists>h. t' = notifications_update h t) \<and>
     (\<forall>n \<in> set (notifications t). \<exists>n' \<in> set (notifications t'). n_id n' = n_id n \<and>
        n_dedupe_key n' = n_dedupe_key n \<and> n_recipient_id n' = n_recipient_id n \<and>
        n_read_at n' = n_read_at n \<and> (n_is_deleted n' \<longrightarrow> n_is_deleted n))"

lemma inbox_keeps_refl [simp]: "inbox_keeps t t"
  unfolding inbox_keeps_def by (auto intro!: exI [of _ "\<lambda>xs. xs"])

lemma inbox_keeps_trans: "inbox_keeps t u \<Longrightarrow> inbox_keeps u v \<Longrightarrow> inbox_keeps t v"
  unfolding inbox_keeps_def
proof (elim conjE exE, intro conjI)
  fix g h assume "u = notifications_update g t" "v = notifications_update h u"
  then have "v = notifications_update (\<lambda>xs. h (g xs)) t" by (simp add: comp_def)
  then show "\<exists>h. v = notifications_update h t" by blast
qed (metis (no_types, opaque_lifting))

definition stored_key :: "CampusNotification \<Rightarrow> string" where
  "stored_key n = (let k = trim_space (nt_dedupe_key n) in
     if k \<noteq> [] \<and> trim_space k \<noteq> [] then k
     else notificationDedupeKey (parseID (nt_recipient_id n)) (parseID (nt_actor_id n))
       (nt_event_type n) (nt_target_type n) (nt_target_id n))"

lemma notification_row_simps [simp]:
  "n_dedupe_key (notification_row E n True) = Some (stored_key n)"
  "n_id (notification_row E n u) = nt_id n"
  "n_recipient_id (notification_row E n u) = parseID (nt_recipient_id n)"
  "n_title (notification_row E n u) = nt_title n"
  "n_content (notification_row E n u) = nt_content n"
  "\<not> n_is_deleted (notification_row E n u)"
  "n_read_at (notification_row E n u) = nt_read_at n"
  by (auto simp: notification_row_def toNotificationModel_def dedupe_column_def stored_key_def Let_def)

lemma refresh_row_simps [simp]:
  "n_id (refresh_row t row r) = n_id r" "n_dedupe_key (refresh_row t row r) = n_dedupe_key r"
  "n_recipient_id (refresh_row t row r) = n_recipient_id r" "n_read_at (refresh_row t row r) = n_read_at r"
  "n_title (refresh_row t row r) = n_title row" "\<not> n_is_deleted (refresh_row t row r)"
  "has_key K (refresh_row t row r) = has_key K r"
  by (simp_all add: refresh_row_def has_key_def)

text \<open>The rows after a unique notification with a new id.\<close>

definition add_notification :: "env \<Rightarrow> CampusNotification \<Rightarrow> campusNotificationModel list \<Rightarrow> campusNotificationModel list" where
  "add_notification E n xs = (let row = notification_row E n True in
     if \<exists>r \<in> set xs. has_key (stored_key n) r then upd_where (has_key (stored_key n)) (refresh_row (now E) row) xs
     else xs @ [row])"

lemma CreateNotification_run:
  assumes "CreateNotification E n True w = (r, w')" and "nt_id n \<notin> n_id ` set (notifications (db w))"
  shows "next_seq w' = next_seq w \<and> (case r of
      Inl e \<Rightarrow> db w' = db w
    | Inr _ \<Rightarrow> db w' = notifications_update (add_notification E n) (db w))"
proof -
  have k: "(\<lambda>r. n_dedupe_key r = Some (stored_key n)) = has_key (stored_key n)" by (simp add: has_key_def fun_eq_iff)
  have u: "notifications_update (upsert (\<lambda>r. n_id r = nt_id n) (has_key (stored_key n)) (refresh_row (now E) row) row) t =
      notifications_update (\<lambda>xs. if \<exists>r \<in> set xs. has_key (stored_key n) r
        then upd_where (has_key (stored_key n)) (refresh_row (now E) row) xs else xs @ [row]) t"
    if "nt_id n \<notin> n_id ` set (notifications t)" for row t
  proof -
    have "\<not> (\<exists>r \<in> set (notifications t). n_id r = nt_id n)" using that by (metis imageI)
    then show ?thesis by (simp add: upsert_def)
  qed
  have seq: "next_seq w' = next_seq w"
    using assms(1) by (auto simp: CreateNotification_def Let_def sql_upsert_def command_def split: list.splits if_splits)
  show ?thesis
  proof (cases r)
    case (Inl e)
    with assms(1) seq show ?thesis by (auto simp: CreateNotification_def Let_def dest!: sql_InlD)
  next
    case (Inr x)
    with assms seq u [OF assms(2)] show ?thesis
      by (auto simp: CreateNotification_def Let_def k add_notification_def [abs_def] elim!: sql_upsert_InrE)
  qed
qed

lemma count_has_key_add:
  "count_where (has_key K) (add_notification E n xs) =
     (if K = stored_key n \<and> count_where (has_key K) xs = 0 then 1 else count_where (has_key K) xs)"
proof -
  have z: "count_where (has_key (stored_key n)) xs = 0 \<longleftrightarrow> \<not> (\<exists>r \<in> set xs. has_key (stored_key n) r)"
    by (auto simp: count_where_def filter_empty_conv)
  have r: "has_key L (notification_row E n True) \<longleftrightarrow> L = stored_key n" for L by (auto simp: has_key_def)
  show ?thesis
    by (auto simp: add_notification_def Let_def z r count_where_upd_same)
qed

lemma add_notification_ids:
  "map n_id (add_notification E n xs) =
     (if \<exists>r \<in> set xs. has_key (stored_key n) r then map n_id xs else map n_id xs @ [nt_id n])"
  by (simp add: add_notification_def Let_def)

lemma add_notification_old:
  "x \<in> set xs \<Longrightarrow> (if has_key (stored_key n) x then refresh_row (now E) (notification_row E n True) x else x)
     \<in> set (add_notification E n xs)"
  by (auto simp: add_notification_def Let_def set_upd_where)

lemma add_notification_keeps: "inbox_keeps t (notifications_update (add_notification E n) t)"
  unfolding inbox_keeps_def
proof (intro conjI ballI)
  show "\<exists>h. notifications_update (add_notification E n) t = notifications_update h t" by blast
  fix x assume "x \<in> set (notifications t)"
  note m = add_notification_old [OF this, of n E]
  show "\<exists>n' \<in> set (notifications (notifications_update (add_notification E n) t)). n_id n' = n_id x \<and>
        n_dedupe_key n' = n_dedupe_key x \<and> n_recipient_id n' = n_recipient_id x \<and>
        n_read_at n' = n_read_at x \<and> (n_is_deleted n' \<longrightarrow> n_is_deleted x)"
    by (rule bexI [of _ "if has_key (stored_key n) x then refresh_row (now E) (notification_row E n True) x else x"])
      (simp, use m in simp)
qed

text \<open>One unique notification: the invariant, and who has it afterwards.\<close>

definition delivered :: "string \<Rightarrow> int \<Rightarrow> tables \<Rightarrow> bool" where
  "delivered K u t \<longleftrightarrow> list_ex (\<lambda>n. has_key K n \<and> n_recipient_id n = u \<and> \<not> n_is_deleted n) (notifications t)"

definition owned :: "string \<Rightarrow> int \<Rightarrow> tables \<Rightarrow> bool" where
  "owned K u t \<longleftrightarrow> list_all (\<lambda>n. has_key K n \<longrightarrow> n_recipient_id n = u) (notifications t)"

lemma delivered_keeps: "inbox_keeps t t' \<Longrightarrow> delivered K u t \<Longrightarrow> delivered K u t'"
  unfolding inbox_keeps_def delivered_def list_ex_iff has_key_def by metis

lemma add_notification_delivers:
  assumes "owned (stored_key n) (parseID (nt_recipient_id n)) t"
  shows "delivered (stored_key n) (parseID (nt_recipient_id n)) (notifications_update (add_notification E n) t)"
proof (cases "\<exists>r \<in> set (notifications t). has_key (stored_key n) r")
  case True
  then obtain r where r: "r \<in> set (notifications t)" "has_key (stored_key n) r" by blast
  with assms have "n_recipient_id r = parseID (nt_recipient_id n)" by (simp add: owned_def list_all_iff)
  with r add_notification_old [OF r(1), of n E] show ?thesis
    by (auto simp: delivered_def list_ex_iff intro!: bexI [of _ "refresh_row (now E) (notification_row E n True) r"])
next
  case False
  then show ?thesis by (simp add: delivered_def add_notification_def Let_def has_key_def)
qed

lemma CreateNotification_ok:
  assumes ok: "inbox_ok E w" and i: "NextID E w = (Inr i, w1)" and n: "nt_id n = i"
    and run: "CreateNotification E n True w1 = (r, w')"
  shows "inbox_ok E w' \<and> (case r of Inl e \<Rightarrow> db w' = db w
    | Inr _ \<Rightarrow> db w' = notifications_update (add_notification E n) (db w))"
proof -
  have i': "i = idgen E (next_seq w)" "db w1 = db w" "next_seq w1 = Suc (next_seq w)"
    using i by (auto simp: NextID_def)
  have fresh: "nt_id n \<notin> n_id ` set (notifications (db w1))" using ok n i' by (auto simp: inbox_ok_def)
  from CreateNotification_run [OF run fresh, unfolded i'(2,3)] have seq: "next_seq w' = Suc (next_seq w)"
    and res: "case r of Inl e \<Rightarrow> db w' = db w
    | Inr _ \<Rightarrow> db w' = notifications_update (add_notification E n) (db w)" by simp_all
  have "inbox_ok E w'"
  proof (cases r)
    case (Inl e)
    with res seq ok show ?thesis by (auto simp: inbox_ok_def)
  next
    case (Inr x)
    with res have t: "notifications (db w') = add_notification E n (notifications (db w))" by simp
    have ids: "n_id ` set (add_notification E n xs) \<subseteq> insert i (n_id ` set xs)" for xs
    proof -
      have "set (map n_id (add_notification E n xs)) \<subseteq> insert i (set (map n_id xs))"
        unfolding add_notification_ids using n by auto
      then show ?thesis by simp
    qed
    have "idgen E k \<notin> n_id ` set (notifications (db w'))" if "k \<ge> next_seq w'" for k
    proof -
      have "inj (idgen E)" using ok by (simp add: inbox_ok_def)
      then have "idgen E k \<noteq> i" using that seq i'(1) by (simp add: inj_eq)
      moreover have "idgen E k \<notin> n_id ` set (notifications (db w))" using ok that seq by (auto simp: inbox_ok_def)
      ultimately show ?thesis using ids t by (metis insertE subsetD)
    qed
    moreover have "unique_on n_id (notifications (db w'))"
      using ok fresh i'(2) by (auto simp: t unique_on_def add_notification_ids inbox_ok_def)
    moreover have "count_where (has_key K) (notifications (db w')) \<le> 1" for K
      using ok by (simp add: t count_has_key_add inbox_ok_def)
    ultimately show ?thesis using ok by (simp add: inbox_ok_def)
  qed
  with res show ?thesis by simp
qed

text \<open>Which keys an entry is delivered under, and to whom.\<close>

definition addressed :: "CampusNotificationOutbox \<Rightarrow> tables \<Rightarrow> (string \<times> int) list" where
  "addressed item t =
     (if bo_event_type item = ''system'' \<and> trim_space (bo_audience item) = ''all_users''
      then map (\<lambda>r. (stored_key (system_notification item 0 r), parseID r))
        (filter (\<lambda>r. r \<noteq> [] \<and> r \<noteq> ''0'') (map trim_space (map fmt_d (sort (users t)))))
      else if trim_space (bo_recipient_id item) = [] \<or> bo_recipient_id item = ''0'' \<or> bo_recipient_id item = bo_actor_id item
      then []
      else [(stored_key (interaction_notification item 0), parseID (bo_recipient_id item))])"

lemma stored_key_id:
  "stored_key (system_notification item i r) = stored_key (system_notification item 0 r)"
  "stored_key (interaction_notification item i) = stored_key (interaction_notification item 0)"
  by (simp_all add: stored_key_def system_notification_def interaction_notification_def Let_def)

lemma built_notifications [simp]:
  "nt_id (system_notification item i r) = i" "nt_recipient_id (system_notification item i r) = r"
  "nt_id (interaction_notification item i) = i"
  "nt_recipient_id (interaction_notification item i) = bo_recipient_id item"
  by (simp_all add: system_notification_def interaction_notification_def)

definition delivery_done :: "tables \<Rightarrow> tables \<Rightarrow> (string \<times> int) list \<Rightarrow> bool" where
  "delivery_done t t' kus \<longleftrightarrow> list_all (\<lambda>(K, u). count_where (has_key K) (notifications t') = 1 \<and>
     (owned K u t \<longrightarrow> delivered K u t')) kus"

text \<open>The ids of the rows do not change when every key of the entry is there already.\<close>

definition keys_known :: "(string \<times> int) list \<Rightarrow> tables \<Rightarrow> bool" where
  "keys_known kus t \<longleftrightarrow> list_all (\<lambda>(K, u). count_where (has_key K) (notifications t) = 1) kus"

text \<open>One entry of the loop, whoever it is for.\<close>

lemma deliver_one:
  assumes ok: "inbox_ok E w"
    and run: "io_bind (NextID E) (\<lambda>i. CreateNotification E (f i) True) w = (r, w')"
    and f: "\<And>i. nt_id (f i) = i" "\<And>i. stored_key (f i) = K" "\<And>i. parseID (nt_recipient_id (f i)) = u"
  shows "inbox_ok E w' \<and> inbox_keeps (db w) (db w') \<and>
    (r = Inr () \<longrightarrow> count_where (has_key K) (notifications (db w')) = 1 \<and>
       (owned K u (db w) \<longrightarrow> delivered K u (db w'))) \<and>
    (count_where (has_key K) (notifications (db w)) = 1 \<longrightarrow> map n_id (notifications (db w')) = map n_id (notifications (db w))) \<and>
    (\<forall>L v. owned L v (db w) \<longrightarrow> L \<noteq> K \<or> v = u \<longrightarrow> owned L v (db w'))"
proof -
  obtain i w1 where i: "NextID E w = (Inr i, w1)" and c: "CreateNotification E (f i) True w1 = (r, w')"
    using run by (auto simp: io_bind_def NextID_def)
  from CreateNotification_ok [OF ok i f(1) c] have ok': "inbox_ok E w'" and
    res: "case r of Inl e \<Rightarrow> db w' = db w | Inr _ \<Rightarrow> db w' = notifications_update (add_notification E (f i)) (db w)" by auto
  show ?thesis
  proof (cases r)
    case (Inl e)
    with res ok' show ?thesis by simp
  next
    case (Inr x)
    with res have t: "db w' = notifications_update (add_notification E (f i)) (db w)" by simp
    have c1: "count_where (has_key K) (notifications (db w)) = 0 \<or> count_where (has_key K) (notifications (db w)) = 1"
    proof -
      have "count_where (has_key K) (notifications (db w)) \<le> 1" using ok by (simp add: inbox_ok_def)
      with count_where_nonneg [of "has_key K" "notifications (db w)"] show ?thesis by linarith
    qed
    have "owned K u (db w) \<Longrightarrow> delivered K u (db w')"
      using add_notification_delivers [of "f i" "db w" E] f by (simp add: t)
    moreover have "map n_id (notifications (db w')) = map n_id (notifications (db w))"
      if "count_where (has_key K) (notifications (db w)) = 1"
    proof -
      have "\<exists>r \<in> set (notifications (db w)). has_key K r"
        using that by (metis count_where_zero zero_neq_one)
      then show ?thesis by (simp add: t add_notification_ids f)
    qed
    moreover have "owned L v (db w')" if "owned L v (db w)" "L \<noteq> K \<or> v = u" for L v
      using that by (auto simp: owned_def t add_notification_def Let_def list_all_iff set_upd_where f has_key_def)
    ultimately show ?thesis
      using ok' c1 add_notification_keeps [of "db w" E "f i"] by (auto simp: t count_has_key_add f)
  qed
qed

text \<open>The part of it that is left when other tables change too.\<close>

definition rows_kept :: "tables \<Rightarrow> tables \<Rightarrow> bool" where
  "rows_kept t t' \<longleftrightarrow> users t' = users t \<and> (\<forall>n \<in> set (notifications t). \<exists>n' \<in> set (notifications t').
     n_id n' = n_id n \<and> n_dedupe_key n' = n_dedupe_key n \<and> n_recipient_id n' = n_recipient_id n \<and>
     n_read_at n' = n_read_at n \<and> (n_is_deleted n' \<longrightarrow> n_is_deleted n))"

lemma inbox_keeps_rows: "inbox_keeps t t' \<Longrightarrow> rows_kept t t'"
  by (auto simp: inbox_keeps_def rows_kept_def)

lemma rows_kept_trans: "rows_kept t u \<Longrightarrow> rows_kept u v \<Longrightarrow> rows_kept t v"
  unfolding rows_kept_def by (metis (no_types, opaque_lifting))

lemma key_stays:
  assumes "rows_kept (db w) (db w')" and "inbox_ok E w'" and "count_where (has_key K) (notifications (db w)) = 1"
  shows "count_where (has_key K) (notifications (db w')) = 1"
proof -
  obtain n where "n \<in> set (notifications (db w))" "has_key K n"
    using assms(3) by (metis count_where_zero zero_neq_one)
  then obtain n' where "n' \<in> set (notifications (db w'))" "has_key K n'"
    using assms(1) unfolding rows_kept_def has_key_def by metis
  then have "1 \<le> count_where (has_key K) (notifications (db w'))" by (rule count_where_pos)
  moreover have "count_where (has_key K) (notifications (db w')) \<le> 1" using assms(2) by (simp add: inbox_ok_def)
  ultimately show ?thesis by simp
qed

text \<open>The recipients of a broadcast, and the keys they get it under.\<close>

definition broadcast_to :: "string list \<Rightarrow> string list" where
  "broadcast_to rs = filter (\<lambda>r. r \<noteq> [] \<and> r \<noteq> ''0'') (map trim_space rs)"

lemma system_key: "graphic r \<Longrightarrow> stored_key (system_notification item i r) = ''campus:system:'' @ fmt_d (bo_id item) @ '':'' @ r"
  by (simp add: stored_key_def system_notification_def trim_space_graphic byte_def Let_def)

lemma broadcast_graphic:
  "r \<in> set (broadcast_to (map fmt_d us)) \<Longrightarrow> graphic r"
  by (auto simp: broadcast_to_def trim_space_graphic)

definition keys_of :: "CampusNotificationOutbox \<Rightarrow> string list \<Rightarrow> (string \<times> int) list" where
  "keys_of item rs = map (\<lambda>r. (stored_key (system_notification item 0 r), parseID r)) (broadcast_to rs)"

text \<open>Two keys of the list that are equal are for the same user.\<close>

definition key_functional :: "(string \<times> int) list \<Rightarrow> bool" where
  "key_functional kus \<longleftrightarrow> (\<forall>(K, u) \<in> set kus. \<forall>(L, v) \<in> set kus. K = L \<longrightarrow> u = v)"

lemma keys_of_functional: "key_functional (keys_of item (map fmt_d us))"
proof -
  have "stored_key (system_notification item 0 r) = stored_key (system_notification item 0 r') \<Longrightarrow> r = r'"
    if "r \<in> set (broadcast_to (map fmt_d us))" "r' \<in> set (broadcast_to (map fmt_d us))" for r r'
    using that [THEN broadcast_graphic] by (simp add: system_key)
  then show ?thesis unfolding key_functional_def keys_of_def by fastforce
qed

lemma deliver_system:
  assumes "inbox_ok E w" and "deliverSystem_loop E item rs w = (r, w')" and "key_functional (keys_of item rs)"
  shows "inbox_ok E w' \<and> inbox_keeps (db w) (db w') \<and>
    (r = Inr () \<longrightarrow> delivery_done (db w) (db w') (keys_of item rs)) \<and>
    (keys_known (keys_of item rs) (db w) \<longrightarrow> map n_id (notifications (db w')) = map n_id (notifications (db w)))"
  using assms
proof (induction rs arbitrary: w)
  case Nil
  then show ?case by (simp add: keys_of_def broadcast_to_def delivery_done_def)
next
  case (Cons a rs)
  let ?r = "trim_space a"
  show ?case
  proof (cases "?r = [] \<or> ?r = ''0''")
    case True
    with Cons show ?thesis by (auto simp: keys_of_def broadcast_to_def)
  next
    case False
    let ?K = "stored_key (system_notification item 0 ?r)" and ?u = "parseID ?r"
    have ks: "keys_of item (a # rs) = (?K, ?u) # keys_of item rs"
      using False by (simp add: keys_of_def broadcast_to_def)
    have fn: "key_functional (keys_of item rs)" using Cons.prems(3) by (auto simp: ks key_functional_def)
    have "\<exists>r1 w1. io_bind (NextID E) (\<lambda>i. CreateNotification E (system_notification item i ?r) True) w = (r1, w1) \<and>
        (case r1 of Inl e \<Rightarrow> r = Inl e \<and> w' = w1 | Inr _ \<Rightarrow> deliverSystem_loop E item rs w1 = (r, w'))"
      using Cons.prems(2) False by (auto simp: io_bind_def io_then_def Let_def split: prod.splits sum.splits)
    then obtain r1 w1 where one: "io_bind (NextID E) (\<lambda>i. CreateNotification E (system_notification item i ?r) True) w = (r1, w1)"
      and rest: "case r1 of Inl e \<Rightarrow> r = Inl e \<and> w' = w1 | Inr _ \<Rightarrow> deliverSystem_loop E item rs w1 = (r, w')" by blast
    note D = deliver_one [OF Cons.prems(1) one built_notifications(1) stored_key_id(1), of ?u, unfolded built_notifications(2), OF refl]
    show ?thesis
    proof (cases r1)
      case (Inl e)
      with D rest ks show ?thesis by (auto simp: keys_known_def)
    next
      case (Inr x)
      with rest have run: "deliverSystem_loop E item rs w1 = (r, w')" by simp
      have ok1: "inbox_ok E w1" and k1: "inbox_keeps (db w) (db w1)" using D by blast+
      have c1: "count_where (has_key ?K) (notifications (db w1)) = 1"
        and d1: "owned ?K ?u (db w) \<longrightarrow> delivered ?K ?u (db w1)" using D Inr by auto
      have o1: "owned L v (db w1)" if "owned L v (db w)" "(L, v) \<in> set (keys_of item rs)" for L v
        using D that Cons.prems(3) by (auto simp: ks key_functional_def)
      have ok': "inbox_ok E w'" and k2: "inbox_keeps (db w1) (db w')"
        and d2: "r = Inr () \<longrightarrow> delivery_done (db w1) (db w') (keys_of item rs)"
        and i2: "keys_known (keys_of item rs) (db w1) \<longrightarrow>
          map n_id (notifications (db w')) = map n_id (notifications (db w1))"
        using Cons.IH [OF ok1 run fn] by blast+
      have "delivery_done (db w) (db w') (keys_of item (a # rs))" if "r = Inr ()"
      proof -
        have "count_where (has_key ?K) (notifications (db w')) = 1" by (rule key_stays [OF inbox_keeps_rows [OF k2] ok' c1])
        moreover have "owned ?K ?u (db w) \<longrightarrow> delivered ?K ?u (db w')" using d1 delivered_keeps [OF k2] by blast
        moreover have "delivery_done (db w) (db w') (keys_of item rs)"
          using d2 that o1 by (fastforce simp: delivery_done_def list_all_iff)
        ultimately show ?thesis by (simp add: ks delivery_done_def)
      qed
      moreover have "map n_id (notifications (db w')) = map n_id (notifications (db w))"
        if "keys_known (keys_of item (a # rs)) (db w)"
      proof -
        have "keys_known (keys_of item rs) (db w1)"
          using that key_stays [OF inbox_keeps_rows [OF k1] ok1] by (auto simp: keys_known_def ks list_all_iff)
        moreover have "map n_id (notifications (db w1)) = map n_id (notifications (db w))"
          using that D by (auto simp: keys_known_def ks)
        ultimately show ?thesis using i2 by simp
      qed
      ultimately show ?thesis using ok' inbox_keeps_trans [OF k1 k2] by blast
    qed
  qed
qed

lemma deliver_item:
  assumes ok: "inbox_ok E w" and run: "processNotificationOutboxItem E item w = (r, w')"
  shows "inbox_ok E w' \<and> inbox_keeps (db w) (db w') \<and>
    (r = Inr () \<longrightarrow> delivery_done (db w) (db w') (addressed item (db w))) \<and>
    (keys_known (addressed item (db w)) (db w) \<longrightarrow> map n_id (notifications (db w')) = map n_id (notifications (db w)))"
proof (cases "bo_event_type item = ''system'' \<and> trim_space (bo_audience item) = ''all_users''")
  case False
  show ?thesis
  proof (cases "trim_space (bo_recipient_id item) = [] \<or> bo_recipient_id item = ''0'' \<or> bo_recipient_id item = bo_actor_id item")
    case True
    with run False ok show ?thesis
      by (auto simp: processNotificationOutboxItem_def deliverInteractionNotificationOutbox_def addressed_def delivery_done_def)
  next
    case send: False
    with run False have one: "io_bind (NextID E) (\<lambda>i. CreateNotification E (interaction_notification item i) True) w = (r, w')"
      by (auto simp: processNotificationOutboxItem_def deliverInteractionNotificationOutbox_def)
    from deliver_one [OF ok one built_notifications(3) stored_key_id(2), of "parseID (bo_recipient_id item)",
        unfolded built_notifications(4), OF refl] send False
    show ?thesis by (auto simp: addressed_def delivery_done_def keys_known_def)
  qed
next
  case True
  have a: "addressed item t = keys_of item (map fmt_d (sort (users t)))" for t
    using True by (simp add: addressed_def keys_of_def broadcast_to_def)
  have empty: ?thesis if "db w' = db w" "next_seq w' = next_seq w" "\<exists>e. r = Inl e"
    using that ok by (auto simp: inbox_ok_def)
  show ?thesis
  proof (cases "bo_audience item = ''all_users''")
    case False
    with True run show ?thesis
      by (intro empty) (auto simp: processNotificationOutboxItem_def deliverSystemNotificationOutbox_def split: if_splits)
  next
    case True
    have "io_bind ListNotificationRecipients (deliverSystem_loop E item) w = (r, w')"
      using run True \<open>bo_event_type item = ''system'' \<and> _\<close>
      by (simp add: processNotificationOutboxItem_def deliverSystemNotificationOutbox_def)
    then consider (err) e where "r = Inl e" "db w' = db w" "next_seq w' = next_seq w"
      | (loop) fs where "deliverSystem_loop E item (map fmt_d (sort (users (db w)))) (w\<lparr>faults := fs\<rparr>) = (r, w')"
      unfolding ListNotificationRecipients_def by (auto elim!: io_bind_E command_InlE command_InrE)
    then show ?thesis
    proof cases
      case err
      then show ?thesis by (intro empty) auto
    next
      case loop
      have ok': "inbox_ok E (w\<lparr>faults := fs\<rparr>)" using ok by (simp add: inbox_ok_def)
      from deliver_system [OF ok' loop keys_of_functional] show ?thesis by (simp add: a)
    qed
  qed
qed

text \<open>
  C12. The worker delivers an entry of the outbox exactly once to each of its recipients, though it
  may process it many times: a run that succeeds leaves one row under the key of each recipient,
  which is shown to that recipient (unless another user already had the key); processing the entry
  again, with any failures, adds no row; and no run loses a row or changes its owner or whether it was read.
\<close>

theorem delivery_exactly_once:
  assumes "inbox_ok E w" and "processNotificationOutboxItem E item w = (Inr (), w1)"
    and "processNotificationOutboxItem E item (w1\<lparr>faults := fs\<rparr>) = (r, w2)"
  shows "inbox_keeps (db w) (db w1) \<and> inbox_keeps (db w1) (db w2)
    \<and> map n_id (notifications (db w2)) = map n_id (notifications (db w1))
    \<and> list_all (\<lambda>(K, u). count_where (has_key K) (notifications (db w2)) = 1 \<and>
        (owned K u (db w) \<longrightarrow> delivered K u (db w2))) (addressed item (db w))"
proof -
  from deliver_item [OF assms(1,2)] have ok1: "inbox_ok E (w1\<lparr>faults := fs\<rparr>)" and k1: "inbox_keeps (db w) (db w1)"
    and d1: "delivery_done (db w) (db w1) (addressed item (db w))" by (auto simp: inbox_ok_def)
  have a: "addressed item (db w1) = addressed item (db w)"
    using k1 by (auto simp: inbox_keeps_def addressed_def)
  from deliver_item [OF ok1 assms(3)] have ok2: "inbox_ok E w2" and k2: "inbox_keeps (db w1) (db w2)"
    and i: "keys_known (addressed item (db w)) (db w1) \<longrightarrow> map n_id (notifications (db w2)) = map n_id (notifications (db w1))"
    by (auto simp: a)
  have "keys_known (addressed item (db w)) (db w1)" using d1 by (auto simp: keys_known_def delivery_done_def list_all_iff)
  moreover have "delivery_done (db w) (db w2) (addressed item (db w))"
    using d1 key_stays [OF inbox_keeps_rows [OF k2] ok2] delivered_keeps [OF k2] by (fastforce simp: delivery_done_def list_all_iff)
  ultimately show ?thesis using k1 k2 i by (simp add: delivery_done_def)
qed


text \<open>A reply to user 7; the second run meets a database that is down.\<close>

definition sample_outbox :: CampusNotificationOutbox where
  "sample_outbox = zero_CampusNotificationOutbox\<lparr>bo_id := 5, bo_recipient_id := ''7'', bo_actor_id := ''8'',
     bo_event_type := ''reply'', bo_target_type := ''post'', bo_target_id := 1, bo_dedupe_key := ''campus:reply:3''\<rparr>"

lemma sample_outbox_key: "stored_key (interaction_notification sample_outbox i) = ''campus:reply:3''"
  by (simp add: stored_key_def interaction_notification_def interaction_key_def sample_outbox_def
      zero_CampusNotification_def zero_CampusNotificationOutbox_def trim_space_graphic byte_def)

theorem delivery_exactly_once_witness:
  "\<exists>w1 w2 e. processNotificationOutboxItem access_env sample_outbox empty_world = (Inr (), w1)
     \<and> processNotificationOutboxItem access_env sample_outbox (w1\<lparr>faults := [True]\<rparr>) = (Inl e, w2)
     \<and> count_where (has_key ''campus:reply:3'') (notifications (db w2)) = 1
     \<and> delivered ''campus:reply:3'' 7 (db w2)"
proof -
  let ?p = "processNotificationOutboxItem access_env sample_outbox"
  have ok: "inbox_ok access_env empty_world"
    by (simp add: inbox_ok_def empty_world_def empty_tables_def access_env_def inj_def)
  have send: "?p w = io_bind (NextID access_env) (\<lambda>i. CreateNotification access_env (interaction_notification sample_outbox i) True) w" for w
    by (simp add: processNotificationOutboxItem_def deliverInteractionNotificationOutbox_def sample_outbox_def
        zero_CampusNotificationOutbox_def trim_space_graphic byte_def)
  have "fst (?p empty_world) = Inr ()"
    by (simp add: send NextID_def io_online CreateNotification_def Let_def empty_world_def)
  then obtain w1 where w1: "?p empty_world = (Inr (), w1)" by (metis prod.collapse)
  obtain e w2 where w2: "?p (w1\<lparr>faults := [True]\<rparr>) = (Inl e, w2)"
    by (simp add: send NextID_def io_bind_def CreateNotification_def Let_def sql_upsert_def command_def)
  have p: "parseID ''7'' = 7" by (simp add: parseID_def go_string_eval)
  have a: "addressed sample_outbox (db empty_world) = [(''campus:reply:3'', 7)]"
    unfolding addressed_def sample_outbox_key
    by (simp add: sample_outbox_def zero_CampusNotificationOutbox_def trim_space_graphic byte_def p)
  have "owned K u (db empty_world)" for K u by (simp add: owned_def empty_world_def empty_tables_def)
  with delivery_exactly_once [OF ok w1 w2] w1 w2 show ?thesis by (auto simp: a)
qed

subsection \<open>The worker\<close>

text \<open>Which entries are done, and what that says.\<close>

definition done_ids :: "tables \<Rightarrow> int set" where
  "done_ids t = t_id ` {x \<in> set (outbox t). t_status x = ''done''}"

lemma mark_frames [frames]:
  "(\<And>h t. g (outbox_update h t) = g t) \<Longrightarrow> keeps g (MarkNotificationOutboxDone E i)"
  "(\<And>h t. g (outbox_update h t) = g t) \<Longrightarrow> keeps g (markNotificationOutboxRetry E item err)"
  "no_ids (MarkNotificationOutboxDone E i)" "no_ids (markNotificationOutboxRetry E item err)"
  unfolding MarkNotificationOutboxDone_def markNotificationOutboxRetry_def MarkNotificationOutboxRetry_def
  by (auto intro!: frames split: prod.split)

lemma claim_outbox_frames [frames]:
  "(\<And>h t. g (outbox_update h t) = g t) \<Longrightarrow> keeps g (ClaimNotificationOutbox E limit lockFor)"
  "no_ids (ClaimNotificationOutbox E limit lockFor)"
  unfolding ClaimNotificationOutbox_def claim_def Let_def by (auto intro!: frames)

lemma inbox_ok_frame:
  assumes "inbox_ok E w" and "notifications (db w') = notifications (db w)" and "next_seq w' = next_seq w"
  shows "inbox_ok E w'"
  using assms by (simp add: inbox_ok_def)

lemma mark_done_ids:
  "MarkNotificationOutboxDone E i w = (r, w') \<Longrightarrow> done_ids (db w') \<subseteq> insert i (done_ids (db w)) \<and>
     ((\<exists>e. r = Inl e) \<longrightarrow> db w' = db w)"
  "markNotificationOutboxRetry E item err w = (r', v') \<Longrightarrow> done_ids (db v') \<subseteq> done_ids (db w)"
proof -
  assume run: "MarkNotificationOutboxDone E i w = (r, w')"
  show "done_ids (db w') \<subseteq> insert i (done_ids (db w)) \<and> ((\<exists>e. r = Inl e) \<longrightarrow> db w' = db w)"
  proof (cases r)
    case (Inl e)
    with run show ?thesis by (auto simp: MarkNotificationOutboxDone_def dest!: sql_InlD)
  next
    case (Inr x)
    with run have "db w' = outbox_update (upd_where (\<lambda>r. t_id r = i)
        (\<lambda>r. (done_row (now E) r)\<lparr>ob_last_error := [], ob_processed_at := Some (now E)\<rparr>)) (db w)"
      by (auto simp: MarkNotificationOutboxDone_def elim!: sql_update_InrE)
    with Inr show ?thesis by (auto simp: done_ids_def set_upd_where done_row_def split: if_splits)
  qed
next
  assume run: "markNotificationOutboxRetry E item err w = (r', v')"
  obtain n fin nx where nr: "next_retry campusNotificationOutboxMaxRetry campusNotificationOutboxBackoff (now E)
      (bo_retry_count item) = (n, fin, nx)" by (metis prod_cases3)
  obtain r2 where m: "MarkNotificationOutboxRetry E (bo_id item) n nx (trimLimit (error_text err) 500) fin w = (r2, v')"
    using run by (auto simp: markNotificationOutboxRetry_def nr elim: ignore_E)
  show "done_ids (db v') \<subseteq> done_ids (db w)"
  proof (cases r2)
    case (Inl e)
    with m show ?thesis by (auto simp: MarkNotificationOutboxRetry_def dest!: sql_InlD)
  next
    case (Inr x)
    with m have "db v' = outbox_update (upd_where (\<lambda>r. t_id r = bo_id item)
        (\<lambda>r. (retry_row (now E) n nx fin r)\<lparr>ob_last_error := trimLimitData (trimLimit (error_text err) 500) 600\<rparr>)) (db w)"
      by (auto simp: MarkNotificationOutboxRetry_def elim!: sql_update_InrE)
    then show ?thesis by (auto simp: done_ids_def set_upd_where retry_row_def split: if_splits)
  qed
qed

lemma addressed_users: "users t' = users t \<Longrightarrow> addressed item t' = addressed item t"
  by (simp add: addressed_def)

lemma deliver_outbox: "processNotificationOutboxItem E item w = (r, w') \<Longrightarrow> inbox_ok E w \<Longrightarrow> outbox (db w') = outbox (db w)"
  using deliver_item [of E w item r w'] by (auto simp: inbox_keeps_def)

lemma known_keeps:
  assumes "keys_known kus (db w)" and "rows_kept (db w) (db w')" and "inbox_ok E w'"
  shows "keys_known kus (db w')"
  using assms(1) key_stays [OF assms(2,3)] by (auto simp: keys_known_def list_all_iff)

lemma rows_kept_eq: "notifications t' = notifications t \<Longrightarrow> users t' = users t \<Longrightarrow> rows_kept t t'"
  by (auto simp: rows_kept_def)


text \<open>Whatever the loop marks done was delivered, under any failures.\<close>

lemma process_items_done:
  assumes "inbox_ok E w" and "process_items E items fe w = (r, w')"
  shows "inbox_ok E w' \<and> rows_kept (db w) (db w') \<and>
    (\<forall>i \<in> done_ids (db w'). i \<in> done_ids (db w) \<or>
       (\<exists>item \<in> set items. bo_id item = i \<and> keys_known (addressed item (db w)) (db w')))"
  using assms
proof (induction items arbitrary: fe w)
  case Nil
  then show ?case by (auto simp: rows_kept_eq)
next
  case (Cons item items)
  obtain r1 w1 where p: "processNotificationOutboxItem E item w = (r1, w1)" by fastforce
  note D = deliver_item [OF Cons.prems(1) p]
  have k1: "rows_kept (db w) (db w1)" and ok1: "inbox_ok E w1" using D inbox_keeps_rows by blast+
  have o1: "done_ids (db w1) = done_ids (db w)" using deliver_outbox [OF p Cons.prems(1)] by (simp add: done_ids_def)
  have "\<exists>r2 w2 fe'. (case r1 of Inl err \<Rightarrow> markNotificationOutboxRetry E item err w1 = (r2, w2)
      | Inr _ \<Rightarrow> MarkNotificationOutboxDone E (bo_id item) w1 = (r2, w2)) \<and> process_items E items fe' w2 = (r, w')"
  proof (cases r1)
    case (Inl err)
    obtain r2 w2 where m: "markNotificationOutboxRetry E item err w1 = (r2, w2)" by fastforce
    then have "r2 = Inr ()" by (auto simp: markNotificationOutboxRetry_def elim!: ignore_E split: prod.splits)
    with Cons.prems(2) p Inl m show ?thesis
      by (auto simp: io_bind_def io_then_def attempt_def split: if_splits)
  next
    case (Inr x)
    obtain r2 w2 where m: "MarkNotificationOutboxDone E (bo_id item) w1 = (r2, w2)" by fastforce
    with Cons.prems(2) p Inr show ?thesis by (auto simp: io_bind_def attempt_def)
  qed
  then obtain r2 w2 fe' where m: "case r1 of Inl err \<Rightarrow> markNotificationOutboxRetry E item err w1 = (r2, w2)
      | Inr _ \<Rightarrow> MarkNotificationOutboxDone E (bo_id item) w1 = (r2, w2)"
    and rest: "process_items E items fe' w2 = (r, w')" by blast
  have frame: "notifications (db w2) = notifications (db w1)" "users (db w2) = users (db w1)" "next_seq w2 = next_seq w1"
    using m mark_frames(1,2) [THEN keepsD, of notifications] mark_frames(1,2) [THEN keepsD, of users]
      mark_frames(3,4) [THEN no_idsD] by (cases r1; simp)+
  have ok2: "inbox_ok E w2" by (rule inbox_ok_frame [OF ok1 frame(1,3)])
  have k2: "rows_kept (db w) (db w2)" using k1 frame by (auto simp: rows_kept_def)
  have I: "inbox_ok E w' \<and> rows_kept (db w2) (db w') \<and> (\<forall>i \<in> done_ids (db w'). i \<in> done_ids (db w2) \<or>
       (\<exists>item \<in> set items. bo_id item = i \<and> keys_known (addressed item (db w2)) (db w')))"
    by (rule Cons.IH [OF ok2 rest])
  have u: "addressed x (db w2) = addressed x (db w)" for x
    using k2 by (intro addressed_users) (simp add: rows_kept_def)
  have d2: "i \<in> done_ids (db w) \<or> (bo_id item = i \<and> keys_known (addressed item (db w)) (db w2))" if "i \<in> done_ids (db w2)" for i
  proof (cases r1)
    case (Inl err)
    with m have "done_ids (db w2) \<subseteq> done_ids (db w1)" by (intro mark_done_ids(2)) simp
    with that o1 show ?thesis by auto
  next
    case (Inr x)
    with D have "keys_known (addressed item (db w)) (db w1)"
      by (auto simp: delivery_done_def keys_known_def list_all_iff)
    then have "keys_known (addressed item (db w)) (db w2)" using frame(1) by (simp add: keys_known_def)
    moreover have "done_ids (db w2) \<subseteq> insert (bo_id item) (done_ids (db w1))"
      using m Inr mark_done_ids(1) by simp
    ultimately show ?thesis using that o1 by auto
  qed
  have "keys_known (addressed item (db w)) (db w2) \<Longrightarrow> keys_known (addressed item (db w)) (db w')"
    using known_keeps I by blast
  with I d2 show ?case by (auto simp: u intro: rows_kept_trans [OF k2])
qed

lemma biz_id: "bo_id (toBizNotificationOutbox (claimed_row until row)) = t_id row"
  by (simp add: toBizNotificationOutbox_def claimed_row_def)

lemma addressed_claimed: "addressed (toBizNotificationOutbox (claimed_row until row)) t = addressed (toBizNotificationOutbox row) t"
  by (simp add: addressed_def toBizNotificationOutbox_def claimed_row_def stored_key_def system_notification_def
      interaction_notification_def interaction_key_def Let_def)

text \<open>
  C13. At least once: whatever fails while the worker runs, an entry of the outbox that it marked
  done has a row for every one of its recipients, and no notification was lost.
\<close>

theorem outbox_done_means_delivered:
  assumes "inbox_ok E w" and "ProcessPendingNotificationOutbox E limit w = (r, w')"
  shows "inbox_ok E w' \<and> rows_kept (db w) (db w') \<and>
    (\<forall>i \<in> done_ids (db w') - done_ids (db w). \<exists>row \<in> set (outbox (db w)). t_id row = i \<and> claimable (now E) row \<and>
       list_all (\<lambda>(K, u). count_where (has_key K) (notifications (db w')) = 1)
         (addressed (toBizNotificationOutbox row) (db w)))"
proof -
  let ?page_size = "if limit \<le> 0 then 100 else limit"
  obtain r1 w1 where c: "ClaimNotificationOutbox E ?page_size (seconds 30) w = (r1, w1)" by fastforce
  have frame: "notifications (db w1) = notifications (db w)" "users (db w1) = users (db w)" "next_seq w1 = next_seq w"
    using claim_outbox_frames(1) [THEN keepsD, OF _ c, of notifications]
      claim_outbox_frames(1) [THEN keepsD, OF _ c, of users] no_idsD [OF claim_outbox_frames(2) c] by simp_all
  have ok1: "inbox_ok E w1" by (rule inbox_ok_frame [OF assms(1) frame(1,3)])
  have k1: "rows_kept (db w) (db w1)" by (rule rows_kept_eq [OF frame(1,2)])
  show ?thesis
  proof (cases r1)
    case (Inl e)
    with c have "db w1 = db w"
      by (auto simp: ClaimNotificationOutbox_def elim!: io_bind_E dest: obq.claim_atomic)
    moreover have "w' = w1" using assms(2) c Inl by (simp add: ProcessPendingNotificationOutbox_def or_fail_def io_bind_def)
    ultimately show ?thesis using ok1 by (simp add: rows_kept_eq)
  next
    case (Inr items)
    define sel where "sel = due (now E) (or_default ?page_size 100) (outbox (db w))"
    define until where "until = now E + or_default (seconds 30) (seconds 30)"
    obtain out where out: "claim outbox outbox_update E (or_default ?page_size 100) (or_default (seconds 30) (seconds 30)) w = (Inr out, w1)"
      and items0: "items = map toBizNotificationOutbox out"
      using c Inr by (auto simp: ClaimNotificationOutbox_def elim!: io_bind_InrE)
    have items: "items = map (\<lambda>x. toBizNotificationOutbox (claimed_row until x)) sel"
      and t: "outbox (db w1) = upd_where (\<lambda>x. t_id x \<in> t_id ` set sel) (lock_row (now E) until) (outbox (db w))"
      using obq.claim_ok [OF out] items0 by (simp_all add: sel_def until_def)
    have sel: "set sel \<subseteq> {x \<in> set (outbox (db w)). claimable (now E) x}" unfolding sel_def by (rule due_props(2))
    have d1: "done_ids (db w1) \<subseteq> done_ids (db w)"
      by (auto simp: done_ids_def t set_upd_where lock_row_def claimed_row_def split: if_splits)
    obtain r2 where p: "process_items E items None w1 = (r2, w')"
      using assms(2) c Inr by (auto simp: ProcessPendingNotificationOutbox_def or_fail_def io_bind_def
          split: prod.splits sum.splits option.splits)
    from process_items_done [OF ok1 p] have ok': "inbox_ok E w'" and k2: "rows_kept (db w1) (db w')"
      and d2: "\<forall>i \<in> done_ids (db w'). i \<in> done_ids (db w1) \<or>
       (\<exists>item \<in> set items. bo_id item = i \<and> keys_known (addressed item (db w1)) (db w'))" by blast+
    have "\<exists>row \<in> set (outbox (db w)). t_id row = i \<and> claimable (now E) row \<and>
       list_all (\<lambda>(K, u). count_where (has_key K) (notifications (db w')) = 1)
         (addressed (toBizNotificationOutbox row) (db w))" if i: "i \<in> done_ids (db w') - done_ids (db w)" for i
    proof -
      obtain item where item: "item \<in> set items" "bo_id item = i" "keys_known (addressed item (db w1)) (db w')"
        using d1 d2 i by blast
      then obtain row where row: "row \<in> set sel" "item = toBizNotificationOutbox (claimed_row until row)"
        by (auto simp: items)
      with item sel show ?thesis
        by (intro bexI [of _ row]) (auto simp: keys_known_def addressed_claimed addressed_users [OF frame(2)] biz_id)
    qed
    with ok' rows_kept_trans [OF k1 k2] show ?thesis by blast
  qed
qed


text \<open>An entry for user 7 waits in the outbox; the worker runs once.\<close>

definition outbox_world :: world where
  "outbox_world = empty_world\<lparr>db := empty_tables\<lparr>outbox := [toNotificationOutboxModel access_env sample_outbox]\<rparr>\<rparr>"

lemmas outbox_eval = outbox_world_def empty_world_def empty_tables_def toNotificationOutboxModel_def sample_outbox_def
  zero_CampusNotificationOutbox_def

theorem outbox_done_means_delivered_witness:
  "\<exists>w'. ProcessPendingNotificationOutbox access_env 0 outbox_world = (Inr (), w') \<and> 5 \<in> done_ids (db w') \<and>
     rows_kept (db outbox_world) (db w')"
proof -
  let ?r = "ProcessPendingNotificationOutbox access_env 0 outbox_world"
  have ok: "inbox_ok access_env outbox_world"
    by (simp add: inbox_ok_def outbox_world_def empty_world_def empty_tables_def access_env_def inj_def)
  have p: "parseID ''7'' = 7" "fmt_d 7 = ''7''" "parseID ''8'' = 8" "fmt_d 8 = ''8''"
    by (simp_all add: parseID_def go_string_eval char_of_eq_iff)
  have t: "trim_space ''7'' = ''7''" "trim_space ''campus:reply:3'' = ''campus:reply:3''"
    by (simp_all add: trim_space_graphic byte_def)
  note ev = ProcessPendingNotificationOutbox_def ClaimNotificationOutbox_def claim_def or_fail_def or_default_def
    processNotificationOutboxItem_def deliverInteractionNotificationOutbox_def MarkNotificationOutboxDone_def
    attempt_def NextID_def CreateNotification_def Let_def io_online outbox_eval toBizNotificationOutbox_def
    claimable_def claimed_row_def lock_row_def done_row_def p t dedupe_column_def
  have f: "fst ?r = Inr ()" by (simp add: ev)
  have d: "5 \<in> done_ids (db (snd ?r))" by (simp add: ev done_ids_def image_iff)
  have "rows_kept (db outbox_world) (db (snd ?r))"
    using outbox_done_means_delivered [OF ok prod.collapse [symmetric], of 0] by blast
  with f d show ?thesis by (intro exI [of _ "snd ?r"]) (simp add: prod_eq_iff)
qed


subsection \<open>Reading\<close>

text \<open>The counts of a user, as the tables have them.\<close>

definition unread_now :: "tables \<Rightarrow> int \<Rightarrow> CampusUnreadNotificationCount" where
  "unread_now t u = \<lparr>un_Total = count_where (unread_of u) (notifications t),
     un_Reply = count_where (\<lambda>r. unread_of u r \<and> n_event_type r \<in> set reply_types) (notifications t),
     un_Interaction = count_where (\<lambda>r. unread_of u r \<and> n_event_type r \<in> set interaction_types) (notifications t),
     un_System = count_where (\<lambda>r. unread_of u r \<and> n_event_type r = ''system'') (notifications t)\<rparr>"

lemma read_row_simps [simp]:
  "n_recipient_id (read_row t r) = n_recipient_id r" "n_read_at (read_row t r) = Some t"
  "n_event_type (read_row t r) = n_event_type r" "n_is_deleted (read_row t r) = n_is_deleted r"
  "n_id (read_row t r) = n_id r" "\<not> unread_of u (read_row t r)"
  by (simp_all add: read_row_def unread_of_def)

lemma unread_now_others:
  assumes "\<And>r. P r \<Longrightarrow> n_recipient_id r = u" and "v \<noteq> u"
  shows "unread_now (notifications_update (upd_where P (read_row t)) tb) v = unread_now tb v"
proof -
  have n: "\<not> unread_of v r" if "P r" for r using that assms by (auto simp: unread_of_def)
  have "count_where Q (upd_where P (read_row t) ns) = count_where Q ns"
    if "\<And>r. Q r \<Longrightarrow> unread_of v r" for Q ns
  proof (rule count_where_upd_same)
    fix x assume "P x"
    with that n show "Q (read_row t x) = Q x" by (metis read_row_simps(6))
  qed
  note this [of "unread_of v"] this [of "\<lambda>r. unread_of v r \<and> n_event_type r \<in> set reply_types"]
    this [of "\<lambda>r. unread_of v r \<and> n_event_type r \<in> set interaction_types"]
    this [of "\<lambda>r. unread_of v r \<and> n_event_type r = ''system''"]
  then show ?thesis by (simp add: unread_now_def)
qed

lemma read_one_total:
  assumes "unique_on n_id ns"
  shows "count_where (unread_of u) (upd_where (\<lambda>r. n_id r = i \<and> n_recipient_id r = u \<and> \<not> n_is_deleted r) (read_row t) ns) =
    count_where (unread_of u) ns - (if list_ex (\<lambda>n. n_id n = i \<and> unread_of u n) ns then 1 else 0)"
proof -
  have "count_where (\<lambda>n. n_id n = i \<and> unread_of u n) ns = (if list_ex (\<lambda>n. n_id n = i \<and> unread_of u n) ns then 1 else 0)"
  proof (cases "list_ex (\<lambda>n. n_id n = i \<and> unread_of u n) ns")
    case True
    then obtain n where "n \<in> set ns" "n_id n = i" "unread_of u n" by (auto simp: list_ex_iff)
    with count_where_unique [OF assms, of n "unread_of u"] True show ?thesis by simp
  next
    case False
    then have "count_where (\<lambda>n. n_id n = i \<and> unread_of u n) ns = 0" by (intro count_where_zero) (auto simp: list_ex_iff)
    with False show ?thesis by simp
  qed
  moreover have "(\<lambda>x. (n_id x = i \<and> n_recipient_id x = u \<and> \<not> n_is_deleted x) \<and> unread_of u x) =
      (\<lambda>n. n_id n = i \<and> unread_of u n)" by (auto simp: unread_of_def fun_eq_iff)
  ultimately show ?thesis by (simp add: count_where_upd)
qed

lemma CountUnread_run:
  assumes "CountUnreadNotifications_repo user w = (Inr c, w')"
  shows "c = unread_now (db w) (parseID user) \<and> db w' = db w"
  using assms by (auto simp: CountUnreadNotifications_repo_def unread_now_def Let_def elim!: io_InrE)

lemma CountUnread_err: "CountUnreadNotifications_repo user w = (Inl e, w') \<Longrightarrow> faults w \<noteq> []"
  by (auto simp: CountUnreadNotifications_repo_def Let_def io_online)

lemma repo_reads:
  "MarkNotificationRead_repo E user i w = (r, w') \<Longrightarrow> (case r of Inl e \<Rightarrow> db w' = db w | Inr _ \<Rightarrow>
     db w' = notifications_update (upd_where (\<lambda>r. n_id r = i \<and> n_recipient_id r = parseID user \<and> \<not> n_is_deleted r)
       (read_row (now E))) (db w))"
  "MarkAllNotificationsRead_repo E user w = (r', v') \<Longrightarrow> (case r' of Inl e \<Rightarrow> db v' = db w | Inr _ \<Rightarrow>
     db v' = notifications_update (upd_where (unread_of (parseID user)) (read_row (now E))) (db w))"
  unfolding MarkNotificationRead_repo_def MarkAllNotificationsRead_repo_def
  by (auto elim!: sql_update_InrE dest!: sql_InlD split: sum.splits)

text \<open>
  C14. Marking as read touches only what is the user's own: after "mark all" the user has nothing
  unread and everybody else's counts are what they were; "mark one" lowers the user's count by one
  when the notification is an unread one of the user, and otherwise changes nobody's counts (so an
  id of another user's notification does nothing); requests without a user fail with 401 and
  change nothing; and the count reported is the count in the tables.
\<close>

theorem reading_is_private:
  assumes ids: "unique_on n_id (notifications (db w))" and u: "u = parseID user" and v: "v \<noteq> u"
    and all: "MarkAllNotificationsRead E user w = (r, w1)" and one: "MarkNotificationRead E user i w = (q, w2)"
    and cnt: "CountUnreadNotifications user w = (c, w3)"
  shows "(case r of Inl e \<Rightarrow> db w1 = db w \<and> (trim_space user = [] \<longrightarrow> Code e = CodeUnauthorized)
      | Inr _ \<Rightarrow> un_Total (unread_now (db w1) u) = 0)
    \<and> unread_now (db w1) v = unread_now (db w) v \<and> unread_now (db w2) v = unread_now (db w) v
    \<and> (case q of Inl e \<Rightarrow> db w2 = db w
      | Inr _ \<Rightarrow> un_Total (unread_now (db w2) u) = un_Total (unread_now (db w) u) -
          (if list_ex (\<lambda>n. n_id n = i \<and> unread_of u n) (notifications (db w)) then 1 else 0))
    \<and> (case c of Inl e \<Rightarrow> trim_space user = [] \<or> faults w \<noteq> [] | Inr n \<Rightarrow> n = unread_now (db w) u) \<and> db w3 = db w"
proof (intro conjI)
  have mark: "case q of Inl e \<Rightarrow> db w2 = db w | Inr _ \<Rightarrow> trim_space user \<noteq> [] \<and>
     db w2 = notifications_update (upd_where (\<lambda>r. n_id r = i \<and> n_recipient_id r = u \<and> \<not> n_is_deleted r) (read_row (now E))) (db w)"
    using one repo_reads(1) [of E user i w] u
    by (auto simp: MarkNotificationRead_def split: if_splits sum.splits elim!: or_fail_E)
  have mark_all: "case r of Inl e \<Rightarrow> db w1 = db w \<and> (trim_space user = [] \<longrightarrow> Code e = CodeUnauthorized) | Inr _ \<Rightarrow>
     db w1 = notifications_update (upd_where (unread_of u) (read_row (now E))) (db w)"
    using all repo_reads(2) [of E user w] u
    by (auto simp: MarkAllNotificationsRead_def app_error_defs split: if_splits sum.splits elim!: or_fail_E)
  have "count_where (unread_of u) (upd_where (unread_of u) (read_row t) ns) = 0" for t ns
    by (intro count_where_zero) (auto simp: set_upd_where)
  with mark_all show "case r of Inl e \<Rightarrow> db w1 = db w \<and> (trim_space user = [] \<longrightarrow> Code e = CodeUnauthorized)
      | Inr _ \<Rightarrow> un_Total (unread_now (db w1) u) = 0"
    by (auto simp: unread_now_def split: sum.splits)
  have own: "unread_of u x \<Longrightarrow> n_recipient_id x = u" for x by (simp add: unread_of_def)
  show "unread_now (db w1) v = unread_now (db w) v"
    using mark_all unread_now_others [OF own v] by (auto split: sum.splits)
  show "unread_now (db w2) v = unread_now (db w) v"
    using mark unread_now_others [of "\<lambda>r. n_id r = i \<and> n_recipient_id r = u \<and> \<not> n_is_deleted r", OF _ v]
    by (auto split: sum.splits)
  show "case q of Inl e \<Rightarrow> db w2 = db w
      | Inr _ \<Rightarrow> un_Total (unread_now (db w2) u) = un_Total (unread_now (db w) u) -
          (if list_ex (\<lambda>n. n_id n = i \<and> unread_of u n) (notifications (db w)) then 1 else 0)"
    using mark read_one_total [OF ids, of u i "now E"] by (auto simp: unread_now_def split: sum.splits)
  show "case c of Inl e \<Rightarrow> trim_space user = [] \<or> faults w \<noteq> [] | Inr n \<Rightarrow> n = unread_now (db w) u"
    using cnt CountUnread_run [of user w] u CountUnread_err [of user w]
    by (auto simp: CountUnreadNotifications_def split: if_splits sum.splits elim!: or_fail_E)
  have "keeps (\<lambda>t. t) (CountUnreadNotifications user)"
    unfolding CountUnreadNotifications_def CountUnreadNotifications_repo_def Let_def by (intro frames)
  from keepsD [OF this cnt] show "db w3 = db w" .
qed


text \<open>Users 7 and 8 have one unread notification each.\<close>

definition two_inboxes :: world where
  "two_inboxes = empty_world\<lparr>db := empty_tables\<lparr>notifications :=
     map (\<lambda>u. \<lparr>n_id = u, n_recipient_id = u, n_actor_id = 3, n_event_type = ''reply'', n_target_type = ''post'',
       n_target_id = 1, n_dedupe_key = None, n_title = [], n_content = [], n_link_page = [], n_link_params = [],
       n_read_at = None, n_is_deleted = False, n_created_at = 0, n_updated_at = 0\<rparr>) [7, 8]\<rparr>\<rparr>"

theorem reading_is_private_witness:
  "\<exists>w1. MarkAllNotificationsRead access_env ''7'' two_inboxes = (Inr (), w1) \<and>
     un_Total (unread_now (db w1) 7) = 0 \<and> un_Total (unread_now (db w1) 8) = 1"
proof -
  let ?r = "MarkAllNotificationsRead access_env ''7'' two_inboxes"
  have p: "7 = parseID ''7''" "trim_space ''7'' = ''7''" by (simp_all add: parseID_def go_string_eval)
  have i: "unique_on n_id (notifications (db two_inboxes))"
    by (simp add: two_inboxes_def unique_on_def)
  have f: "fst ?r = Inr ()"
    by (simp add: MarkAllNotificationsRead_def p(2) or_fail_def MarkAllNotificationsRead_repo_def online two_inboxes_def empty_world_def)
  then obtain w1 where w1: "?r = (Inr (), w1)" by (metis prod.collapse)
  obtain q w2 where w2: "MarkNotificationRead access_env ''7'' 8 two_inboxes = (q, w2)" by fastforce
  obtain c w3 where w3: "CountUnreadNotifications ''7'' two_inboxes = (c, w3)" by fastforce
  have v: "8 \<noteq> (7 :: int)" by simp
  have "un_Total (unread_now (db two_inboxes) 8) = 1" by (simp add: two_inboxes_def unread_now_def unread_of_def)
  with reading_is_private [OF i p(1) v w1 w2 w3] w1 show ?thesis by auto
qed

end
