(* ===== verification/Telemetry.thy ===== *)
theory Telemetry
  imports Access "HOL-Library.Sublist"
begin

text \<open>
  Tracked events and access logs (\<open>biz/campus.go\<close>: \<open>TrackEvent\<close>, \<open>RecordAccessLog\<close>,
  \<open>persistCampusEvents\<close>, \<open>persistCampusAccessLogs\<close>, the flush and the stop of the batches, the
  clean-up; \<open>data/campus.go\<close>: the inserts of both tables). Both kinds of rows go through a batch
  processor of \<open>Batches\<close> and are inserted in one statement; when that fails, one by one. The
  locale \<open>row_sink\<close> is the interface between the batches and the two tables.
  The third batch processor, for the index of the knowledge base, is a parameter.
\<close>

subsection \<open>A batch processor in the state\<close>

text \<open>\<open>g\<close> reads the processor of the state and \<open>u\<close> writes it; the mutex is released before the
  batch is processed.\<close>

definition process_batch :: "('a list \<Rightarrow> unit io) \<Rightarrow> 'a list \<Rightarrow> unit io" where
  "process_batch processor items = (if items = [] then ret () else processor items)"

definition Add ::
    "(world \<Rightarrow> 'a CampusBatchProcessor) \<Rightarrow> (('a CampusBatchProcessor \<Rightarrow> 'a CampusBatchProcessor) \<Rightarrow> world \<Rightarrow> world) \<Rightarrow>
     ('a list \<Rightarrow> unit io) \<Rightarrow> time \<Rightarrow> 'a \<Rightarrow> unit io" where
  "Add g u processor t item w = (case Add_locked t item (g w) of (items, b) \<Rightarrow>
     process_batch processor items (u (\<lambda>_. b) w))"

definition Flush ::
    "(world \<Rightarrow> 'a CampusBatchProcessor) \<Rightarrow> (('a CampusBatchProcessor \<Rightarrow> 'a CampusBatchProcessor) \<Rightarrow> world \<Rightarrow> world) \<Rightarrow>
     ('a list \<Rightarrow> unit io) \<Rightarrow> unit io" where
  "Flush g u processor w = (case Flush_locked (g w) of (items, b) \<Rightarrow>
     process_batch processor items (u (\<lambda>_. b) w))"

definition Stop ::
    "(world \<Rightarrow> 'a CampusBatchProcessor) \<Rightarrow> (('a CampusBatchProcessor \<Rightarrow> 'a CampusBatchProcessor) \<Rightarrow> world \<Rightarrow> world) \<Rightarrow>
     ('a list \<Rightarrow> unit io) \<Rightarrow> unit io" where
  "Stop g u processor w = (case Stop_locked (g w) of (items, b) \<Rightarrow>
     process_batch processor items (u (\<lambda>_. b) w))"

text \<open>All at once; when that fails one by one, and the failure is reported all the same.\<close>

fun each :: "('a \<Rightarrow> unit io) \<Rightarrow> 'a list \<Rightarrow> unit io" where
  "each f [] = ret ()"
| "each f (x # xs) = io_then (ignore (f x)) (each f xs)"

definition all_or_each :: "('a list \<Rightarrow> unit io) \<Rightarrow> ('a \<Rightarrow> unit io) \<Rightarrow> 'a list \<Rightarrow> unit io" where
  "all_or_each many one xs = io_bind (attempt (many xs)) (\<lambda>r.
     case r of Inr _ \<Rightarrow> ret () | Inl e \<Rightarrow> io_then (each one xs) (fail e))"

subsection \<open>Events\<close>

definition event_row :: "time \<Rightarrow> int \<Rightarrow> TrackCampusEventInput \<Rightarrow> campusEventModel" where
  "event_row t i e = \<lparr>
     ev_id = i,
     ev_user_id = parseID (te_user_id e),
     ev_event_type = te_event_type e,
     ev_page = te_page e,
     ev_target_type = te_target_type e,
     ev_target_id = te_target_id e,
     ev_channel = te_channel e,
     ev_extra = te_extra e,
     ev_user_agent = te_user_agent e,
     ev_ip = te_ip e,
     ev_created_at = t\<rparr>"

definition TrackEvent_repo :: "env \<Rightarrow> TrackCampusEventInput \<Rightarrow> unit io" where
  "TrackEvent_repo E e = io_bind (UnixNano E) (\<lambda>i.
     sql_create events events_update (\<lambda>r. ev_id r = i) (event_row (now E) i e))"

text \<open>The id of the \<open>k\<close>-th row of a batch is a reading of the clock plus \<open>k\<close>.\<close>

fun event_rows :: "env \<Rightarrow> int \<Rightarrow> TrackCampusEventInput list \<Rightarrow> campusEventModel list io" where
  "event_rows E k [] = ret []"
| "event_rows E k (e # es) = io_bind (UnixNano E) (\<lambda>i.
     io_bind (event_rows E (k + 1) es) (\<lambda>rows. ret (event_row (now E) (i + k) e # rows)))"

definition TrackEvents :: "env \<Rightarrow> TrackCampusEventInput list \<Rightarrow> unit io" where
  "TrackEvents E es = (if es = [] then ret ()
     else io_bind (event_rows E 0 es) (\<lambda>rows. sql_create_all events events_update ev_id rows))"

definition persistCampusEvents :: "env \<Rightarrow> TrackCampusEventInput list \<Rightarrow> unit io" where
  "persistCampusEvents E = all_or_each (TrackEvents E) (TrackEvent_repo E)"

definition tracked :: "TrackCampusEventInput \<Rightarrow> TrackCampusEventInput" where
  "tracked input = \<lparr>
     te_user_id = trim_space (te_user_id input),
     te_event_type = normalizeCampusEvent (te_event_type input),
     te_page = trimLimit (te_page input) 64,
     te_target_type = trimLimit (te_target_type input) 32,
     te_target_id = te_target_id input,
     te_channel = trimLimit (te_channel input) 64,
     te_extra = sanitizeTrackExtra (te_extra input),
     te_user_agent = trimLimit (te_user_agent input) 512,
     te_ip = trimLimit (te_ip input) 64\<rparr>"

definition TrackEvent :: "env \<Rightarrow> TrackCampusEventInput option \<Rightarrow> unit io" where
  "TrackEvent E inp = (case inp of
     None \<Rightarrow> fail (InvalidArgument msg_event_nil)
   | Some input \<Rightarrow>
       if normalizeCampusEvent (te_event_type input) = [] then fail (InvalidArgument msg_event_type_invalid)
       else or_fail (internal msg_track_failed)
         (Add event_batcher event_batcher_update (persistCampusEvents E) (now E) (tracked input)))"

definition trackEvent :: "env \<Rightarrow> TrackCampusEventInput option \<Rightarrow> unit io" where
  "trackEvent E inp = (if inp = None then ret () else ignore (TrackEvent E inp))"

text \<open>The events the handlers track; the other fields are left out.\<close>

definition track :: "env \<Rightarrow> string \<Rightarrow> string \<Rightarrow> string \<Rightarrow> string \<Rightarrow> int \<Rightarrow> unit io" where
  "track E user event page targetType targetID = trackEvent E (Some \<lparr>te_user_id = user, te_event_type = event,
     te_page = page, te_target_type = targetType, te_target_id = targetID, te_channel = [], te_extra = [],
     te_user_agent = [], te_ip = []\<rparr>)"

subsection \<open>Access logs\<close>

record CampusAccessLogInput =
  li_user_id :: string
  li_ip :: string
  li_method :: string
  li_path :: string
  li_status_code :: int
  li_duration_ms :: int
  li_user_agent :: string
  li_rate_limited :: bool
  li_blocked :: bool

definition access_row :: "time \<Rightarrow> CampusAccessLog \<Rightarrow> campusAccessLogModel" where
  "access_row t l = \<lparr>
     ac_id = lg_id l,
     ac_user_id = parseID (lg_user_id l),
     ac_ip = lg_ip l,
     ac_method = lg_method l,
     ac_path = lg_path l,
     ac_status_code = lg_status_code l,
     ac_duration_ms = lg_duration_ms l,
     ac_user_agent = lg_user_agent l,
     ac_rate_limited = lg_rate_limited l,
     ac_blocked = lg_blocked l,
     ac_created_at = t\<rparr>"

definition CreateAccessLog :: "env \<Rightarrow> CampusAccessLog \<Rightarrow> unit io" where
  "CreateAccessLog E l =
     sql_create access_logs access_logs_update (\<lambda>r. ac_id r = lg_id l) (access_row (now E) l)"

definition CreateAccessLogs :: "env \<Rightarrow> CampusAccessLog list \<Rightarrow> unit io" where
  "CreateAccessLogs E ls = (if ls = [] then ret ()
     else sql_create_all access_logs access_logs_update ac_id
       (map (\<lambda>l. access_row (if lg_created_at l = 0 then now E else lg_created_at l) l) ls))"

definition persistCampusAccessLogs :: "env \<Rightarrow> CampusAccessLog list \<Rightarrow> unit io" where
  "persistCampusAccessLogs E = all_or_each (CreateAccessLogs E) (CreateAccessLog E)"

definition RecordAccessLog :: "env \<Rightarrow> CampusAccessLogInput option \<Rightarrow> unit io" where
  "RecordAccessLog E inp = (case inp of None \<Rightarrow> ret ()
   | Some i \<Rightarrow> io_bind (NextID E) (\<lambda>logID.
       ignore (Add access_batcher access_batcher_update (persistCampusAccessLogs E) (now E) \<lparr>
         lg_id = logID,
         lg_user_id = trim_space (li_user_id i),
         lg_ip = trimLimit (li_ip i) 64,
         lg_method = trimLimit (to_upper (li_method i)) 12,
         lg_path = trimLimit (li_path i) 255,
         lg_status_code = li_status_code i,
         lg_duration_ms = li_duration_ms i,
         lg_user_agent = trimLimit (li_user_agent i) 512,
         lg_rate_limited = li_rate_limited i,
         lg_blocked = li_blocked i,
         lg_created_at = now E\<rparr>)))"

text \<open>The time 0 is the zero time of Go.\<close>

definition DeleteAccessLogsBefore :: "time \<Rightarrow> int io" where
  "DeleteAccessLogsBefore before = (if before = 0 then ret 0
     else command (\<lambda>w. (Inr (count_where (\<lambda>r. ac_created_at r < before) (access_logs (db w))),
       w\<lparr>db := access_logs_update (filter (\<lambda>r. \<not> ac_created_at r < before)) (db w)\<rparr>)))"

text \<open>A day back is 24 hours (the service runs in a zone without daylight saving).\<close>

definition CleanupExpiredAccessLogs :: "env \<Rightarrow> int io" where
  "CleanupExpiredAccessLogs E = (let days = envInt64 E ''LEHU_ACCESS_LOG_RETENTION_DAYS'' 7 in
     if days \<le> 0 then ret 0
     else DeleteAccessLogsBefore (now E - min days 365 * (24 * 60 * 60 * nanos_per_second)))"

text \<open>All three processors are flushed or stopped, whatever fails; the first error is returned.\<close>

definition first_error :: "unit io list \<Rightarrow> unit io" where
  "first_error ms = foldr (\<lambda>m rest. io_bind (attempt m) (\<lambda>r. case r of Inr _ \<Rightarrow> rest
     | Inl e \<Rightarrow> io_bind (attempt rest) (\<lambda>_. fail e))) ms (ret ())"

definition FlushCampusBatches :: "env \<Rightarrow> unit io \<Rightarrow> unit io" where
  "FlushCampusBatches E flush_knowledge = first_error
     [Flush event_batcher event_batcher_update (persistCampusEvents E),
      Flush access_batcher access_batcher_update (persistCampusAccessLogs E), flush_knowledge]"

definition StopCampusBatches :: "env \<Rightarrow> unit io \<Rightarrow> unit io" where
  "StopCampusBatches E stop_knowledge = first_error
     [Stop event_batcher event_batcher_update (persistCampusEvents E),
      Stop access_batcher access_batcher_update (persistCampusAccessLogs E), stop_knowledge]"

subsection \<open>What tracking leaves alone\<close>

lemma each_frames [frames]:
  "(\<And>x. keeps g (f x)) \<Longrightarrow> keeps g (each f xs)" "(\<And>x. no_ids (f x)) \<Longrightarrow> no_ids (each f xs)"
  by (induction xs) (auto intro!: frames)

lemma persistCampusEvents_frames [frames]:
  "(\<And>h t. g (events_update h t) = g t) \<Longrightarrow> keeps g (persistCampusEvents E es)"
  "no_ids (persistCampusEvents E es)"
proof -
  have rows: "keeps g (event_rows E k es)" "no_ids (event_rows E k es)" for k
    by (induction es arbitrary: k) (auto intro!: frames)
  show "(\<And>h t. g (events_update h t) = g t) \<Longrightarrow> keeps g (persistCampusEvents E es)"
    unfolding persistCampusEvents_def all_or_each_def TrackEvents_def TrackEvent_repo_def
    by (intro frames rows; assumption?)
  show "no_ids (persistCampusEvents E es)"
    unfolding persistCampusEvents_def all_or_each_def TrackEvents_def TrackEvent_repo_def
    by (intro frames rows)
qed

lemma keeps_Add:
  "(\<And>xs. keeps g (p xs)) \<Longrightarrow> (\<And>h w. db (u h w) = db w) \<Longrightarrow> keeps g (Add r u p t x)"
  by (auto simp: keeps_def Add_def process_batch_def split: prod.splits)

lemma no_ids_Add:
  "(\<And>xs. no_ids (p xs)) \<Longrightarrow> (\<And>h w. next_seq (u h w) = next_seq w) \<Longrightarrow> no_ids (Add r u p t x)"
  by (auto simp: no_ids_def Add_def process_batch_def split: prod.splits)

lemma trackEvent_frames [frames]:
  "(\<And>h t. g (events_update h t) = g t) \<Longrightarrow> keeps g (trackEvent E i)"
  "no_ids (trackEvent E i)"
  unfolding trackEvent_def TrackEvent_def
  by (intro frames keeps_Add no_ids_Add; simp)+

lemma track_frames [frames]:
  "(\<And>h t. g (events_update h t) = g t) \<Longrightarrow> keeps g (track E user event page ty i)"
  "no_ids (track E user event page ty i)"
  unfolding track_def by (intro frames; assumption?)+

lemma track_run: "\<exists>w'. track E user event page ty i w = (Inr (), w')"
  by (auto simp: track_def trackEvent_def ignore_def attempt_def io_bind_def split: prod.splits)

subsection \<open>What an insert of a batch promises\<close>

text \<open>
  \<open>tbl\<close> is a table, \<open>content\<close> what is kept of its rows (without the time, and without an id that
  is made by the insert), \<open>image\<close> the same of an item. An insert adds the rows of its items at the
  end, or nothing.
\<close>

locale row_sink =
  fixes tbl :: "tables \<Rightarrow> 'r list"
    and content :: "'r \<Rightarrow> 'k"
    and img :: "'a \<Rightarrow> 'k"
    and many :: "'a list \<Rightarrow> unit io"
    and one :: "'a \<Rightarrow> unit io"
  assumes many_Inr: "many xs w = (Inr y, w') \<Longrightarrow>
      map content (tbl (db w')) = map content (tbl (db w)) @ map img xs"
    and many_Inl: "many xs w = (Inl e, w') \<Longrightarrow> tbl (db w') = tbl (db w)"
    and one_Inr: "one x w = (Inr y, w') \<Longrightarrow>
      map content (tbl (db w')) = map content (tbl (db w)) @ [img x]"
    and one_Inl: "one x w = (Inl e, w') \<Longrightarrow> tbl (db w') = tbl (db w)"
begin

lemma each_stores:
  "each one xs w = (r, w') \<Longrightarrow> \<exists>ys. subseq ys xs \<and>
     map content (tbl (db w')) = map content (tbl (db w)) @ map img ys \<and> r = Inr ()"
proof (induction xs arbitrary: w)
  case Nil
  then show ?case by auto
next
  case (Cons x xs)
  then obtain r1 w1 where one: "one x w = (r1, w1)" and rest: "each one xs w1 = (r, w')"
    by (auto elim!: io_then_E ignore_E simp: ignore_def attempt_def io_bind_def split: prod.splits)
  from Cons.IH [OF rest] obtain ys where ys: "subseq ys xs"
    "map content (tbl (db w')) = map content (tbl (db w1)) @ map img ys" "r = Inr ()" by blast
  show ?case
  proof (cases r1)
    case (Inl e)
    with one one_Inl ys show ?thesis by (intro exI [of _ ys]) auto
  next
    case (Inr y)
    with one one_Inr ys show ?thesis by (intro exI [of _ "x # ys"]) auto
  qed
qed

lemma all_or_each_stores:
  assumes "all_or_each many one xs w = (r, w')"
  shows "\<exists>ys. subseq ys xs \<and> map content (tbl (db w')) = map content (tbl (db w)) @ map img ys
    \<and> (r = Inr () \<longrightarrow> ys = xs)"
proof -
  obtain r1 w1 where m: "many xs w = (r1, w1)" by fastforce
  show ?thesis
  proof (cases r1)
    case (Inr y)
    with m assms many_Inr show ?thesis
      by (intro exI [of _ xs]) (auto simp: all_or_each_def attempt_def io_bind_def)
  next
    case (Inl e)
    with m assms obtain r2 where "each one xs w1 = (r2, w')" and "r = Inl e \<or> r = r2"
      and "r2 = Inr () \<longrightarrow> r = Inl e"
      by (auto simp: all_or_each_def attempt_def io_bind_def io_then_def split: prod.splits sum.splits)
    with each_stores m Inl many_Inl show ?thesis by fastforce
  qed
qed

end

text \<open>The two tables.\<close>

definition event_content :: "campusEventModel \<Rightarrow> campusEventModel" where
  "event_content r = r\<lparr>ev_id := 0, ev_created_at := 0\<rparr>"

definition access_content :: "campusAccessLogModel \<Rightarrow> campusAccessLogModel" where
  "access_content r = r\<lparr>ac_created_at := 0\<rparr>"

lemma event_content_row [simp]: "event_content (event_row t i e) = event_row 0 0 e"
  by (simp add: event_content_def event_row_def)

lemma access_content_row [simp]: "access_content (access_row t l) = access_row 0 l"
  by (simp add: access_content_def access_row_def)

lemma event_rows_run:
  "event_rows E k es w = (Inr (map (\<lambda>j. event_row (now E) (unix_nano E (ticks w + j) + k + int j) (es ! j))
     [0..<length es]), w\<lparr>ticks := ticks w + length es\<rparr>)"
proof (induction es arbitrary: k w)
  case Nil
  then show ?case by simp
next
  case (Cons e es)
  have "[0..<length (e # es)] = 0 # map Suc [0..<length es]" by (simp add: upt_conv_Cons map_Suc_upt del: upt_Suc)
  with Cons show ?case by (simp add: io_bind_def UnixNano_def algebra_simps)
qed

lemma event_rows_content: "event_rows E k es w = (r, w') \<Longrightarrow>
    \<exists>rows. r = Inr rows \<and> map event_content rows = map (event_row 0 0) es \<and> db w' = db w"
proof -
  have "map (\<lambda>x. event_row 0 0 (es ! x)) [0..<length es] = map (event_row 0 0) es"
    by (rule nth_equalityI) simp_all
  then show "event_rows E k es w = (r, w') \<Longrightarrow>
    \<exists>rows. r = Inr rows \<and> map event_content rows = map (event_row 0 0) es \<and> db w' = db w"
    by (auto simp: event_rows_run comp_def)
qed

interpretation evs: row_sink events event_content "event_row 0 0" "TrackEvents E" "TrackEvent_repo E" for E
proof unfold_locales
  fix xs w y w'
  assume "TrackEvents E xs w = (Inr y, w')"
  then show "map event_content (events (db w')) = map event_content (events (db w)) @ map (event_row 0 0) xs"
    by (auto simp: TrackEvents_def dest!: event_rows_content elim!: io_bind_InrE sql_create_all_InrE split: if_splits)
next
  fix xs w e w'
  assume "TrackEvents E xs w = (Inl e, w')"
  then show "events (db w') = events (db w)"
    by (auto simp: TrackEvents_def dest!: event_rows_content sql_InlD elim!: io_bind_E split: if_splits)
next
  fix x w y w'
  assume "TrackEvent_repo E x w = (Inr y, w')"
  then show "map event_content (events (db w')) = map event_content (events (db w)) @ [event_row 0 0 x]"
    by (auto simp: TrackEvent_repo_def UnixNano_def elim!: io_bind_InrE sql_create_InrE)
next
  fix x w e w'
  assume "TrackEvent_repo E x w = (Inl e, w')"
  then show "events (db w') = events (db w)"
    by (auto simp: TrackEvent_repo_def UnixNano_def io_bind_def dest!: sql_InlD)
qed

interpretation acs: row_sink access_logs access_content "access_row 0" "CreateAccessLogs E" "CreateAccessLog E" for E
proof unfold_locales
  fix xs w y w'
  assume "CreateAccessLogs E xs w = (Inr y, w')"
  then show "map access_content (access_logs (db w')) = map access_content (access_logs (db w)) @ map (access_row 0) xs"
    by (auto simp: CreateAccessLogs_def elim!: sql_create_all_InrE split: if_splits)
next
  fix xs w e w'
  assume "CreateAccessLogs E xs w = (Inl e, w')"
  then show "access_logs (db w') = access_logs (db w)"
    by (auto simp: CreateAccessLogs_def dest!: sql_InlD split: if_splits)
next
  fix x w y w'
  assume "CreateAccessLog E x w = (Inr y, w')"
  then show "map access_content (access_logs (db w')) = map access_content (access_logs (db w)) @ [access_row 0 x]"
    by (auto simp: CreateAccessLog_def elim!: sql_create_InrE)
next
  fix x w e w'
  assume "CreateAccessLog E x w = (Inl e, w')"
  then show "access_logs (db w') = access_logs (db w)"
    by (auto simp: CreateAccessLog_def dest!: sql_InlD)
qed

text \<open>
  C20. Persisting a batch stores every item at most once, in order, and nothing else, whatever
  fails; when it reports no error every item is stored. So for the events and for the access logs.
\<close>

theorem persisting_stores_at_most_once:
  "(\<exists>ys. subseq ys es
     \<and> map event_content (events (db (snd (persistCampusEvents E es w)))) =
         map event_content (events (db w)) @ map (event_row 0 0) ys
     \<and> (fst (persistCampusEvents E es w) = Inr () \<longrightarrow> ys = es))
   \<and> (\<exists>zs. subseq zs ls
     \<and> map access_content (access_logs (db (snd (persistCampusAccessLogs E ls w)))) =
         map access_content (access_logs (db w)) @ map (access_row 0) zs
     \<and> (fst (persistCampusAccessLogs E ls w) = Inr () \<longrightarrow> zs = ls))"
  unfolding persistCampusEvents_def persistCampusAccessLogs_def
  by (intro conjI; rule evs.all_or_each_stores acs.all_or_each_stores) simp_all

text \<open>The batch insert fails, the first of the two single inserts too: the second event is stored.\<close>

definition sample_event :: "int \<Rightarrow> TrackCampusEventInput" where
  "sample_event i = \<lparr>te_user_id = ''7'', te_event_type = ''like'', te_page = [], te_target_type = ''post'',
     te_target_id = i, te_channel = [], te_extra = [], te_user_agent = [], te_ip = []\<rparr>"

theorem persisting_stores_at_most_once_witness:
  "\<exists>ys. subseq ys [sample_event 1, sample_event 2]
     \<and> fst (persistCampusEvents access_env [sample_event 1, sample_event 2] (empty_world\<lparr>faults := [True, True, False]\<rparr>))
       = Inl StoreDown
     \<and> map event_content (events (db (snd (persistCampusEvents access_env [sample_event 1, sample_event 2]
         (empty_world\<lparr>faults := [True, True, False]\<rparr>))))) = map (event_row 0 0) ys
     \<and> length ys = 1"
proof -
  let ?m = "persistCampusEvents access_env [sample_event 1, sample_event 2] (empty_world\<lparr>faults := [True, True, False]\<rparr>)"
  obtain ys where ys: "subseq ys [sample_event 1, sample_event 2]"
    "map event_content (events (db (snd ?m))) = map event_content (events (db (empty_world\<lparr>faults := [True, True, False]\<rparr>)))
       @ map (event_row 0 0) ys"
    using persisting_stores_at_most_once [of "[sample_event 1, sample_event 2]" access_env
      "empty_world\<lparr>faults := [True, True, False]\<rparr>" "[]"] by blast
  have m: "fst ?m = Inl StoreDown" "length (events (db (snd ?m))) = 1"
    by (simp_all add: persistCampusEvents_def all_or_each_def TrackEvents_def TrackEvent_repo_def io_bind_def
        io_then_def ignore_def attempt_def UnixNano_def command_def sql_create_all_def sql_create_def
        empty_world_def empty_tables_def)
  have e: "events (db (empty_world\<lparr>faults := [True, True, False]\<rparr>)) = []" by (simp add: empty_world_def empty_tables_def)
  with ys(2) have "map event_content (events (db (snd ?m))) = map (event_row 0 0) ys" by simp
  moreover from this m(2) have "length ys = 1" by (metis length_map)
  ultimately show ?thesis using ys(1) m(1) by blast
qed

subsection \<open>From a request to the table\<close>

text \<open>What is in the table of events and what waits for it; the state in which nothing fails.\<close>

definition event_pipeline :: "world \<Rightarrow> campusEventModel list" where
  "event_pipeline w = map event_content (events (db w)) @ map (event_row 0 0) (b_items (event_batcher w))"

definition events_ready :: "env \<Rightarrow> world \<Rightarrow> bool" where
  "events_ready E w \<longleftrightarrow> faults w = [] \<and> b_size (event_batcher w) = 100 \<and>
     length (b_items (event_batcher w)) < 100 \<and>
     (b_stopped (event_batcher w) \<longrightarrow> b_items (event_batcher w) = []) \<and>
     (\<forall>r \<in> set (events (db w)). ev_id r < unix_nano E (ticks w))"

text \<open>Two readings of the clock are at least as far apart as a batch is long, in nanoseconds.\<close>

definition clock_advances :: "env \<Rightarrow> bool" where
  "clock_advances E \<longleftrightarrow> (\<forall>i. unix_nano E i + 100 \<le> unix_nano E (Suc i))"

lemma clock_mono:
  assumes "clock_advances E" and "i < j"
  shows "unix_nano E i + 100 \<le> unix_nano E j"
  using assms(2)
proof (induction j)
  case (Suc j)
  have "unix_nano E j + 100 \<le> unix_nano E (Suc j)" using assms(1) by (simp add: clock_advances_def)
  with Suc show ?case by (cases "i = j") auto
qed simp

lemma persist_run:
  assumes "clock_advances E" and "faults w = []" and "length es \<le> 100"
    and "\<forall>r \<in> set (events (db w)). ev_id r < unix_nano E (ticks w)"
  shows "\<exists>w'. process_batch (persistCampusEvents E) es w = (Inr (), w') \<and> faults w' = [] \<and>
     event_batcher w' = event_batcher w \<and>
     map event_content (events (db w')) = map event_content (events (db w)) @ map (event_row 0 0) es \<and>
     (\<forall>r \<in> set (events (db w')). ev_id r < unix_nano E (ticks w'))"
proof (cases "es = []")
  case True
  with assms show ?thesis by (simp add: process_batch_def)
next
  case False
  let ?id = "\<lambda>j. unix_nano E (ticks w + j) + int j"
  let ?rows = "map (\<lambda>j. event_row (now E) (?id j) (es ! j)) [0..<length es]"
  have less: "?id i < ?id j" if "i < j" "j < length es" for i j
    using clock_mono [OF assms(1), of "ticks w + i" "ticks w + j"] that assms(3) by simp
  have bound: "?id j < unix_nano E (ticks w + length es)" if "j < length es" for j
    using clock_mono [OF assms(1), of "ticks w + j" "ticks w + length es"] that assms(3) by simp
  have low: "unix_nano E (ticks w) \<le> ?id j" for j
    using clock_mono [OF assms(1), of "ticks w" "ticks w + j"] by (cases j) auto
  have ids: "map ev_id ?rows = map ?id [0..<length es]" by (simp add: comp_def event_row_def)
  have "distinct (map ?id [0..<length es])"
    unfolding distinct_map by (auto simp: inj_on_def) (metis less linorder_neqE_nat order_less_irrefl)
  then have d: "distinct (map ev_id ?rows)" unfolding ids .
  have "?id j \<notin> ev_id ` set (events (db w))" for j
    using assms(4) low [of j] by (auto dest!: bspec)
  then have new: "\<forall>r \<in> set ?rows. ev_id r \<notin> ev_id ` set (events (db w))"
    by (auto simp: event_row_def)
  have old: "unix_nano E (ticks w) < unix_nano E (ticks w + length es)"
    using clock_mono [OF assms(1), of "ticks w" "ticks w + length es"] False by simp
  let ?w = "w\<lparr>ticks := ticks w + length es, db := events_update (\<lambda>xs. xs @ ?rows) (db w)\<rparr>"
  have "process_batch (persistCampusEvents E) es w = (Inr (), ?w)"
    using False assms(2) d new
    by (simp add: process_batch_def persistCampusEvents_def all_or_each_def TrackEvents_def attempt_def
        io_bind_def event_rows_run online del: map_map)
  moreover have "map event_content ?rows = map (event_row 0 0) es"
    by (rule nth_equalityI) simp_all
  moreover have "\<forall>r \<in> set (events (db ?w)). ev_id r < unix_nano E (ticks ?w)"
    using assms(4) old bound by (auto simp: event_row_def)
  ultimately show ?thesis using assms(2) by (intro exI [of _ ?w]) (simp del: map_map)
qed

lemma Add_locked_cases:
  assumes "Add_locked t x b = (items, b')"
  obtains "items = []" and "b_items b' = b_items b @ [x]" and "b_size b' = b_size b" and "int (length (b_items b')) < b_size b"
  | "items = [x]" and "b' = b" and "b_stopped b"
  | "items = b_items b @ [x]" and "b_items b' = []" and "b_size b' = b_size b"
  using assms by (auto simp: Add_locked_def takeLocked_def Let_def split: if_splits)

lemma add_event_run:
  assumes c: "clock_advances E" and r: "events_ready E w"
  shows "\<exists>w'. Add event_batcher event_batcher_update (persistCampusEvents E) t e w = (Inr (), w')
     \<and> events_ready E w' \<and> event_pipeline w' = event_pipeline w @ [event_row 0 0 e]"
proof -
  obtain items b' where a: "Add_locked t e (event_batcher w) = (items, b')" by fastforce
  let ?w = "w\<lparr>event_batcher := b'\<rparr>"
  have w: "faults ?w = []" "event_batcher ?w = b'" "\<forall>r \<in> set (events (db ?w)). ev_id r < unix_nano E (ticks ?w)"
    "db ?w = db w" using r by (simp_all add: events_ready_def)
  have n: "length items \<le> 100"
    using a r by (cases rule: Add_locked_cases) (auto simp: events_ready_def)
  from persist_run [OF c w(1) n w(3)] obtain w' where
    p: "process_batch (persistCampusEvents E) items ?w = (Inr (), w')" and f: "faults w' = []"
      "event_batcher w' = b'" "\<forall>r \<in> set (events (db w')). ev_id r < unix_nano E (ticks w')"
    and ev: "map event_content (events (db w')) = map event_content (events (db w)) @ map (event_row 0 0) items"
    by auto
  have "Add event_batcher event_batcher_update (persistCampusEvents E) t e w = (Inr (), w')"
    using a p by (simp add: Add_def)
  moreover have b: "b_size b' = 100 \<and> length (b_items b') < 100 \<and> (b_stopped b' \<longrightarrow> b_items b' = [])"
    and i: "items @ b_items b' = b_items (event_batcher w) @ [e]"
    using a r by (auto simp: events_ready_def Add_locked_def takeLocked_def Let_def split: if_splits)
  moreover have "event_pipeline w' = event_pipeline w @ [event_row 0 0 e]"
    using arg_cong [OF i, of "map (event_row 0 0)"] f(2) ev by (simp add: event_pipeline_def)
  ultimately show ?thesis using f by (auto simp: events_ready_def)
qed

text \<open>The events of a list of requests, and the end of the service.\<close>

fun track_all :: "env \<Rightarrow> TrackCampusEventInput list \<Rightarrow> unit io" where
  "track_all E [] = ret ()"
| "track_all E (i # inputs) = io_then (trackEvent E (Some i)) (track_all E inputs)"

definition valid_events :: "TrackCampusEventInput list \<Rightarrow> TrackCampusEventInput list" where
  "valid_events inputs = map tracked (filter (\<lambda>i. normalizeCampusEvent (te_event_type i) \<noteq> []) inputs)"

lemma track_all_run:
  "clock_advances E \<Longrightarrow> events_ready E w \<Longrightarrow>
   \<exists>w'. track_all E inputs w = (Inr (), w') \<and> events_ready E w' \<and>
     event_pipeline w' = event_pipeline w @ map (event_row 0 0) (valid_events inputs)"
proof (induction inputs arbitrary: w)
  case Nil
  then show ?case by (simp add: valid_events_def)
next
  case (Cons i inputs)
  have "\<exists>w1. trackEvent E (Some i) w = (Inr (), w1) \<and> events_ready E w1 \<and>
     event_pipeline w1 = event_pipeline w @ map (event_row 0 0) (valid_events [i])"
  proof (cases "normalizeCampusEvent (te_event_type i) = []")
    case True
    with Cons.prems show ?thesis
      by (simp add: trackEvent_def TrackEvent_def ignore_def attempt_def io_bind_def valid_events_def)
  next
    case False
    from add_event_run [OF Cons.prems, of "now E" "tracked i"] obtain w1
      where "Add event_batcher event_batcher_update (persistCampusEvents E) (now E) (tracked i) w = (Inr (), w1)"
        "events_ready E w1" "event_pipeline w1 = event_pipeline w @ [event_row 0 0 (tracked i)]" by blast
    with False show ?thesis
      by (simp add: trackEvent_def TrackEvent_def ignore_def attempt_def io_bind_def or_fail_def valid_events_def)
  qed
  then obtain w1 where 1: "trackEvent E (Some i) w = (Inr (), w1)" "events_ready E w1"
    "event_pipeline w1 = event_pipeline w @ map (event_row 0 0) (valid_events [i])" by blast
  from Cons.IH [OF Cons.prems(1) 1(2)] obtain w2 where 2: "track_all E inputs w1 = (Inr (), w2)"
    "events_ready E w2" "event_pipeline w2 = event_pipeline w1 @ map (event_row 0 0) (valid_events inputs)" by blast
  have "valid_events (i # inputs) = valid_events [i] @ valid_events inputs" by (simp add: valid_events_def)
  with 1 2 show ?case by (simp add: io_then_def io_bind_def)
qed


text \<open>Two likes and an event of an unknown kind.\<close>

definition telemetry_env :: env where
  "telemetry_env = access_env\<lparr>unix_nano := \<lambda>i. 1000 * int i\<rparr>"


end
