(* ===== verification/Interactions.thy ===== *)
theory Interactions
  imports Outbox
begin

text \<open>
  Likes and collections (\<open>data/campus.go\<close>: \<open>AddPostLikeWithOutbox\<close>, \<open>RemovePostLike\<close> and their
  counterparts for collections and comment likes). The three relations run the same transaction
  over their own table and counter, so they are three instances of one pair of operations; the
  locale \<open>counted_relation\<close> is the interface between the two: a table of rows that are switched
  on and off, and a counter on the target.
  The abstract specification is a set of pairs of a target and a user: adding inserts the pair,
  removing deletes it, and the counter is the number of users of the target.
\<close>

subsection \<open>The transactions\<close>

text \<open>\<open>SET is_deleted = b, updated_at = t\<close>.\<close>

definition switch :: "bool \<Rightarrow> time \<Rightarrow> relRow \<Rightarrow> relRow" where
  "switch b t r = r\<lparr>rel_is_deleted := b, rel_updated_at := t\<rparr>"

definition add_relation ::
    "(tables \<Rightarrow> relRow list) \<Rightarrow> ((relRow list \<Rightarrow> relRow list) \<Rightarrow> tables \<Rightarrow> tables) \<Rightarrow>
     (int \<Rightarrow> int \<Rightarrow> tables \<Rightarrow> tables) \<Rightarrow> env \<Rightarrow> int \<Rightarrow> int \<Rightarrow> int \<Rightarrow> CampusNotificationOutbox option \<Rightarrow> unit io"
where
  "add_relation g u bump E rid user target ob = transaction (
     io_bind (sql_first g (\<lambda>r. rel_target r = target \<and> rel_user r = user)) (\<lambda>existing.
       case existing of
         Some e \<Rightarrow>
           if \<not> rel_is_deleted e then ret ()
           else io_then (sql_update u (\<lambda>r. rel_id r = rel_id e)
                  (switch False (now E)))
                (io_then (sql_exec (bump target 1))
                (createNotificationOutboxWithTx E ob))
       | None \<Rightarrow>
           io_then (sql_create g u
              (\<lambda>r. rel_id r = rid \<or> (rel_target r = target \<and> rel_user r = user))
              \<lparr>rel_id = rid, rel_target = target, rel_user = user, rel_is_deleted = False,
               rel_created_at = now E, rel_updated_at = now E\<rparr>)
           (io_then (sql_exec (bump target 1))
           (createNotificationOutboxWithTx E ob))))"

definition remove_relation ::
    "(tables \<Rightarrow> relRow list) \<Rightarrow> ((relRow list \<Rightarrow> relRow list) \<Rightarrow> tables \<Rightarrow> tables) \<Rightarrow>
     (int \<Rightarrow> int \<Rightarrow> tables \<Rightarrow> tables) \<Rightarrow> env \<Rightarrow> int \<Rightarrow> int \<Rightarrow> unit io"
where
  "remove_relation g u bump E user target = transaction (
     io_bind (sql_update_rows g u
        (\<lambda>r. rel_target r = target \<and> rel_user r = user \<and> \<not> rel_is_deleted r)
        (switch True (now E))) (\<lambda>rows.
     if 0 < rows then sql_exec (bump target (-1)) else ret ()))"

text \<open>\<open>GetPostLikeStatus\<close> and its counterparts: the ids of the list that the user has.\<close>

definition relation_status :: "(tables \<Rightarrow> relRow list) \<Rightarrow> string \<Rightarrow> int list \<Rightarrow> (int \<Rightarrow> bool) io" where
  "relation_status g userID ids =
     (if userID = [] \<or> ids = [] then ret (\<lambda>i. False)
      else io_bind (sql_find g (\<lambda>r. rel_user r = parseID userID \<and> rel_target r \<in> set ids \<and>
             \<not> rel_is_deleted r))
        (\<lambda>rows. ret (\<lambda>i. i \<in> set (map rel_target rows))))"

text \<open>The counters: \<open>UPDATE .. SET like_count = GREATEST(like_count + d, 0) WHERE id = i\<close>.\<close>

definition bump_post_like :: "int \<Rightarrow> int \<Rightarrow> tables \<Rightarrow> tables" where
  "bump_post_like i d = posts_update (upd_where (\<lambda>p. p_id p = i)
     (\<lambda>p. p\<lparr>p_like_count := greatest0 (p_like_count p + d)\<rparr>))"

definition bump_post_collected :: "int \<Rightarrow> int \<Rightarrow> tables \<Rightarrow> tables" where
  "bump_post_collected i d = posts_update (upd_where (\<lambda>p. p_id p = i)
     (\<lambda>p. p\<lparr>p_collected_count := greatest0 (p_collected_count p + d)\<rparr>))"

definition bump_comment_like :: "int \<Rightarrow> int \<Rightarrow> tables \<Rightarrow> tables" where
  "bump_comment_like i d = comments_update (upd_where (\<lambda>c. c_id c = i)
     (\<lambda>c. c\<lparr>c_like_count := greatest0 (c_like_count c + d)\<rparr>))"

definition AddPostLikeWithOutbox ::
    "env \<Rightarrow> int \<Rightarrow> string \<Rightarrow> int \<Rightarrow> CampusNotificationOutbox option \<Rightarrow> unit io" where
  "AddPostLikeWithOutbox E rid userID postID ob =
     io_then (add_relation post_likes post_likes_update bump_post_like E rid (parseID userID) postID ob)
     (invalidatePostDetailCache E postID)"

definition RemovePostLike :: "env \<Rightarrow> string \<Rightarrow> int \<Rightarrow> unit io" where
  "RemovePostLike E userID postID =
     io_then (remove_relation post_likes post_likes_update bump_post_like E (parseID userID) postID)
     (invalidatePostDetailCache E postID)"

definition GetPostLikeStatus :: "string \<Rightarrow> int list \<Rightarrow> (int \<Rightarrow> bool) io" where
  "GetPostLikeStatus = relation_status post_likes"

definition AddPostCollectionWithOutbox ::
    "env \<Rightarrow> int \<Rightarrow> string \<Rightarrow> int \<Rightarrow> CampusNotificationOutbox option \<Rightarrow> unit io" where
  "AddPostCollectionWithOutbox E rid userID postID ob =
     io_then (add_relation post_collections post_collections_update bump_post_collected E rid
       (parseID userID) postID ob)
     (invalidatePostDetailCache E postID)"

definition RemovePostCollection :: "env \<Rightarrow> string \<Rightarrow> int \<Rightarrow> unit io" where
  "RemovePostCollection E userID postID =
     io_then (remove_relation post_collections post_collections_update bump_post_collected E
       (parseID userID) postID)
     (invalidatePostDetailCache E postID)"

definition GetPostCollectionStatus :: "string \<Rightarrow> int list \<Rightarrow> (int \<Rightarrow> bool) io" where
  "GetPostCollectionStatus = relation_status post_collections"

definition AddCommentLikeWithOutbox ::
    "env \<Rightarrow> int \<Rightarrow> string \<Rightarrow> int \<Rightarrow> CampusNotificationOutbox option \<Rightarrow> unit io" where
  "AddCommentLikeWithOutbox E rid userID commentID ob =
     add_relation comment_likes comment_likes_update bump_comment_like E rid (parseID userID) commentID ob"

definition RemoveCommentLike :: "env \<Rightarrow> string \<Rightarrow> int \<Rightarrow> unit io" where
  "RemoveCommentLike E userID commentID =
     remove_relation comment_likes comment_likes_update bump_comment_like E (parseID userID) commentID"

definition GetCommentLikeStatus :: "string \<Rightarrow> int list \<Rightarrow> (int \<Rightarrow> bool) io" where
  "GetCommentLikeStatus = relation_status comment_likes"

definition AddPostLike :: "env \<Rightarrow> int \<Rightarrow> string \<Rightarrow> int \<Rightarrow> unit io" where
  "AddPostLike E rid userID postID = AddPostLikeWithOutbox E rid userID postID None"

definition AddPostCollection :: "env \<Rightarrow> int \<Rightarrow> string \<Rightarrow> int \<Rightarrow> unit io" where
  "AddPostCollection E rid userID postID = AddPostCollectionWithOutbox E rid userID postID None"

definition AddCommentLike :: "env \<Rightarrow> int \<Rightarrow> string \<Rightarrow> int \<Rightarrow> unit io" where
  "AddCommentLike E rid userID commentID = AddCommentLikeWithOutbox E rid userID commentID None"

subsection \<open>The abstract specification\<close>

definition rel_key :: "relRow \<Rightarrow> int \<times> int" where
  "rel_key r = (rel_target r, rel_user r)"

text \<open>The pairs that are switched on.\<close>

definition active :: "relRow list \<Rightarrow> (int \<times> int) set" where
  "active rs = rel_key ` set (filter (\<lambda>r. \<not> rel_is_deleted r) rs)"

definition active_count :: "relRow list \<Rightarrow> int \<Rightarrow> int" where
  "active_count rs i = count_where (\<lambda>r. rel_target r = i \<and> \<not> rel_is_deleted r) rs"

text \<open>The keys are unique and every counter is the number of active rows.\<close>

definition rel_ok :: "relRow list \<Rightarrow> (int \<times> int) list \<Rightarrow> bool" where
  "rel_ok rs cs \<longleftrightarrow> unique_on rel_id rs \<and> unique_on rel_key rs \<and>
     list_all (\<lambda>(i, c). c = active_count rs i) cs"

lemma in_active:
  "(i, u) \<in> active rs \<longleftrightarrow> (\<exists>r \<in> set rs. rel_target r = i \<and> rel_user r = u \<and> \<not> rel_is_deleted r)"
  by (auto simp: active_def rel_key_def)

lemma active_count_card:
  assumes "unique_on rel_key rs"
  shows "active_count rs i = int (card {u. (i, u) \<in> active rs})"
proof -
  let ?rs = "filter (\<lambda>r. rel_target r = i \<and> \<not> rel_is_deleted r) rs"
  have e: "{u. (i, u) \<in> active rs} = set (map rel_user ?rs)"
    unfolding in_active by auto
  have d: "distinct (map rel_user ?rs)"
  proof -
    have "distinct (map rel_key ?rs)" using assms by (simp add: unique_on_def distinct_map_filter)
    moreover have "map rel_key ?rs = map (Pair i) (map rel_user ?rs)"
      by (simp add: rel_key_def)
    ultimately show ?thesis by (simp only: distinct_map)
  qed
  show ?thesis unfolding e distinct_card [OF d] by (simp add: active_count_def count_where_def)
qed

lemma active_snoc: "\<not> rel_is_deleted r \<Longrightarrow> active (rs @ [r]) = insert (rel_key r) (active rs)"
  by (auto simp: active_def)

lemma switch_simps [simp]:
  "rel_id (switch b t r) = rel_id r" "rel_target (switch b t r) = rel_target r"
  "rel_user (switch b t r) = rel_user r" "rel_is_deleted (switch b t r) = b"
  "rel_key (switch b t r) = rel_key r"
  by (simp_all add: switch_def rel_key_def)

lemma active_switch_on:
  assumes "unique_on rel_id rs" and "e \<in> set rs"
  shows "active (upd_where (\<lambda>r. rel_id r = rel_id e) (switch False t) rs) = insert (rel_key e) (active rs)"
proof -
  have u: "rel_id r = rel_id e \<longleftrightarrow> r = e" if "r \<in> set rs" for r
    using unique_on_eq [OF assms(1) that assms(2)] by auto
  have "upd_where (\<lambda>r. rel_id r = rel_id e) (switch False t) rs = upd_where (\<lambda>r. r = e) (switch False t) rs"
    by (rule upd_where_cong) (simp_all add: u)
  moreover have "(i, v) \<in> active (upd_where (\<lambda>r. r = e) (switch False t) rs) \<longleftrightarrow>
      (i, v) \<in> insert (rel_key e) (active rs)" for i v
    using assms(2) unfolding insert_iff in_active set_upd_where by (auto simp: rel_key_def)
  ultimately show ?thesis by auto
qed

lemma active_switch_off:
  "active (upd_where (\<lambda>r. rel_target r = i \<and> rel_user r = v \<and> \<not> rel_is_deleted r) (switch True t) rs) =
     active rs - {(i, v)}"
proof -
  have "(j, u) \<in> active (upd_where (\<lambda>r. rel_target r = i \<and> rel_user r = v \<and> \<not> rel_is_deleted r) (switch True t) rs) \<longleftrightarrow>
      (j, u) \<in> active rs - {(i, v)}" for j u
    unfolding Diff_iff in_active set_upd_where by auto
  then show ?thesis by auto
qed

lemma active_count_switch_on:
  assumes "unique_on rel_id rs" and "e \<in> set rs" and "rel_is_deleted e"
  shows "active_count (upd_where (\<lambda>r. rel_id r = rel_id e) (switch False t) rs) i =
    active_count rs i + (if i = rel_target e then 1 else 0)"
proof -
  have u: "rel_id r = rel_id e \<longleftrightarrow> r = e" if "r \<in> set rs" for r
    using unique_on_eq [OF assms(1) that assms(2)] by auto
  have "count_where (\<lambda>r. rel_id r = rel_id e \<and> rel_target r = i \<and> \<not> rel_is_deleted r) rs = 0"
    using assms(3) by (intro count_where_zero) (auto simp: u)
  with count_where_unique [OF assms(1,2), of "\<lambda>r. rel_target r = i"]
  show ?thesis by (simp add: active_count_def count_where_upd)
qed

lemma active_count_switch_off:
  fixes i v :: int
  assumes "unique_on rel_key rs"
  defines "P \<equiv> \<lambda>r. rel_target r = i \<and> rel_user r = v \<and> \<not> rel_is_deleted r"
  shows "active_count (upd_where P (switch True t) rs) j =
    active_count rs j - (if j = i then count_where P rs else 0)"
    and "count_where P rs = (if (i, v) \<in> active rs then 1 else 0)"
proof -
  have "count_where (\<lambda>r. P r \<and> rel_target r = j \<and> \<not> rel_is_deleted r) rs =
      (if j = i then count_where P rs else 0)"
    by (auto simp: P_def intro: count_where_cong count_where_zero)
  then show "active_count (upd_where P (switch True t) rs) j =
    active_count rs j - (if j = i then count_where P rs else 0)"
    by (simp add: active_count_def count_where_upd count_where_zero)
  show "count_where P rs = (if (i, v) \<in> active rs then 1 else 0)"
  proof (cases "(i, v) \<in> active rs")
    case True
    then obtain e where e: "e \<in> set rs" "rel_target e = i" "rel_user e = v" "\<not> rel_is_deleted e"
      by (auto simp: in_active)
    with count_where_unique [OF assms(1) e(1), of "\<lambda>r. \<not> rel_is_deleted r"] True
    show ?thesis by (simp add: P_def rel_key_def conj_assoc)
  next
    case False
    then have "count_where P rs = 0" by (intro count_where_zero) (auto simp: P_def in_active)
    with False show ?thesis by simp
  qed
qed

lemma active_count_snoc:
  "\<not> rel_is_deleted e \<Longrightarrow> active_count (rs @ [e]) i = active_count rs i + (if i = rel_target e then 1 else 0)"
  by (simp add: active_count_def)

lemma active_count_nonneg [simp]: "0 \<le> active_count rs i"
  by (simp add: active_count_def)

subsection \<open>The interface, and what it gives\<close>

lemma bump_counters:
  assumes "list_all (\<lambda>(i, c). c = n i) cs" and "\<And>i. 0 \<le> n i"
    and "\<And>i. n' i = n i + (if i = target then d else 0)" and "\<And>i. 0 \<le> n' i"
  shows "list_all (\<lambda>(i, c). c = n' i) (map (\<lambda>(k, c). (k, if k = target then greatest0 (c + d) else c)) cs)"
proof -
  have "greatest0 (n target + d) = n' target"
    using assms(3) [of target] assms(4) [of target] by (simp add: greatest0_def)
  moreover have "n i = n' i" if "i \<noteq> target" for i using that assms(3) [of i] by simp
  ultimately show ?thesis using assms(1) by (auto simp: list_all_iff)
qed

locale counted_relation =
  fixes rows :: "tables \<Rightarrow> relRow list"
    and upd_rows :: "(relRow list \<Rightarrow> relRow list) \<Rightarrow> tables \<Rightarrow> tables"
    and bump :: "int \<Rightarrow> int \<Rightarrow> tables \<Rightarrow> tables"
    and counters :: "tables \<Rightarrow> (int \<times> int) list"
  assumes rows_upd [simp]: "rows (upd_rows f t) = f (rows t)"
    and rows_bump [simp]: "rows (bump i d t) = rows t"
    and counters_upd [simp]: "counters (upd_rows f t) = counters t"
    and counters_bump [simp]: "counters (bump i d t) =
      map (\<lambda>(k, c). (k, if k = i then greatest0 (c + d) else c)) (counters t)"
    and rows_outbox [simp]: "rows (outbox_update h t) = rows t"
    and counters_outbox [simp]: "counters (outbox_update h t) = counters t"
begin

lemma add_ok:
  assumes ok: "rel_ok (rows (db w)) (counters (db w))"
    and run: "add_relation rows upd_rows bump E rid user target ob w = (Inr x, w')"
  shows "rel_ok (rows (db w')) (counters (db w'))
    \<and> active (rows (db w')) = insert (target, user) (active (rows (db w)))
    \<and> ((target, user) \<in> active (rows (db w)) \<longrightarrow> db w' = db w)"
proof -
  let ?rs = "rows (db w)" and ?cs = "counters (db w)"
  let ?P = "\<lambda>r. rel_target r = target \<and> rel_user r = user"
  from ok have id: "unique_on rel_id ?rs" and key: "unique_on rel_key ?rs"
    and cs: "list_all (\<lambda>(i, c). c = active_count ?rs i) ?cs" by (auto simp: rel_ok_def)
  show ?thesis
  proof (cases "find ?P ?rs")
    case None
    let ?new = "\<lparr>rel_id = rid, rel_target = target, rel_user = user, rel_is_deleted = False,
               rel_created_at = now E, rel_updated_at = now E\<rparr>"
    have na: "(target, user) \<notin> active ?rs" using find_NoneD [OF None] by (auto simp: in_active)
    from run None obtain h where w': "db w' = outbox_update h (bump target 1 (upd_rows (\<lambda>xs. xs @ [?new]) (db w)))"
      and fresh: "\<forall>r \<in> set ?rs. \<not> (rel_id r = rid \<or> ?P r)"
      unfolding add_relation_def
      by (auto elim!: transaction_InrE io_InrE createOutbox_InrE)
    have "unique_on rel_id (?rs @ [?new])" "unique_on rel_key (?rs @ [?new])"
      using id key fresh by (auto simp: rel_key_def)
    moreover have "list_all (\<lambda>(i, c). c = active_count (?rs @ [?new]) i)
        (map (\<lambda>(k, c). (k, if k = target then greatest0 (c + 1) else c)) ?cs)"
      by (rule bump_counters [OF cs]) (auto simp: active_count_snoc)
    ultimately show ?thesis using w' na active_snoc [of ?new ?rs]
      by (simp add: rel_ok_def rel_key_def)
  next
    case (Some e)
    with find_SomeD [OF Some] have e: "e \<in> set ?rs" "rel_target e = target" "rel_user e = user" by auto
    show ?thesis
    proof (cases "rel_is_deleted e")
      case False
      with run Some have "db w' = db w"
        unfolding add_relation_def by (auto elim!: transaction_InrE io_InrE)
      moreover have "(target, user) \<in> active ?rs" using e False by (auto simp: in_active)
      ultimately show ?thesis using ok by (auto simp: insert_absorb)
    next
      case True
      let ?rs' = "upd_where (\<lambda>r. rel_id r = rel_id e) (switch False (now E)) ?rs"
      have na: "(target, user) \<notin> active ?rs"
      proof
        assume "(target, user) \<in> active ?rs"
        then obtain r where r: "r \<in> set ?rs" "rel_key r = rel_key e" "\<not> rel_is_deleted r"
          using e by (auto simp: in_active rel_key_def)
        with unique_on_eq [OF key r(1) e(1)] True show False by auto
      qed
      from run Some True obtain h where
        w': "db w' = outbox_update h (bump target 1 (upd_rows (\<lambda>xs.
               upd_where (\<lambda>r. rel_id r = rel_id e) (switch False (now E)) xs) (db w)))"
        unfolding add_relation_def
        by (auto elim!: transaction_InrE io_InrE createOutbox_InrE)
      have "list_all (\<lambda>(i, c). c = active_count ?rs' i)
          (map (\<lambda>(k, c). (k, if k = target then greatest0 (c + 1) else c)) ?cs)"
        by (rule bump_counters [OF cs]) (auto simp: active_count_switch_on [OF id e(1) True] e(2))
      then show ?thesis using w' na id key active_switch_on [OF id e(1)] e(2,3)
        by (simp add: rel_ok_def rel_key_def [of e])
    qed
  qed
qed

lemma remove_ok:
  assumes ok: "rel_ok (rows (db w)) (counters (db w))"
    and run: "remove_relation rows upd_rows bump E user target w = (Inr x, w')"
  shows "rel_ok (rows (db w')) (counters (db w'))
    \<and> active (rows (db w')) = active (rows (db w)) - {(target, user)}
    \<and> ((target, user) \<notin> active (rows (db w)) \<longrightarrow> rows (db w') = rows (db w) \<and> counters (db w') = counters (db w))"
proof -
  let ?rs = "rows (db w)" and ?cs = "counters (db w)"
  let ?P = "\<lambda>r. rel_target r = target \<and> rel_user r = user \<and> \<not> rel_is_deleted r"
  let ?u = "upd_where ?P (switch True (now E))"
  from ok have id: "unique_on rel_id ?rs" and key: "unique_on rel_key ?rs"
    and cs: "list_all (\<lambda>(i, c). c = active_count ?rs i) ?cs" by (auto simp: rel_ok_def)
  from run have w': "db w' = (if 0 < count_where ?P ?rs then bump target (-1) (upd_rows ?u (db w))
      else upd_rows ?u (db w))"
    unfolding remove_relation_def by (auto elim!: transaction_InrE io_InrE split: if_splits)
  note n1 = active_count_switch_off(1) [OF key, where i = target and v = user and t = "now E"]
    and n2 = active_count_switch_off(2) [OF key, where i = target and v = user]
  show ?thesis
  proof (cases "(target, user) \<in> active ?rs")
    case True
    then have one: "count_where ?P ?rs = 1" using n2 by simp
    have "count_where ?P ?rs \<le> active_count ?rs target"
      unfolding active_count_def by (rule count_where_le) simp
    with one have "list_all (\<lambda>(i, c). c = active_count (?u ?rs) i)
        (map (\<lambda>(k, c). (k, if k = target then greatest0 (c + - 1) else c)) ?cs)"
      by (intro bump_counters [OF cs]) (auto simp: n1)
    with one show ?thesis using w' True id key by (simp add: rel_ok_def active_switch_off)
  next
    case False
    then have z: "count_where ?P ?rs = 0" using n2 by simp
    then have "?u ?rs = ?rs" using False by (intro upd_where_none) (auto simp: in_active)
    with z w' False ok show ?thesis by simp
  qed
qed

text \<open>What the two transactions do not write, they leave alone.\<close>

lemma add_frame:
  assumes "add_relation rows upd_rows bump E rid user target ob w = (Inr x, w')"
    and "\<And>f t. obs (upd_rows f t) = obs t" and "\<And>i d t. obs (bump i d t) = obs t"
    and "\<And>h t. obs (outbox_update h t) = obs t"
  shows "obs (db w') = obs (db w)"
  using assms unfolding add_relation_def
  by (auto split: option.splits if_splits elim!: transaction_InrE io_InrE createOutbox_InrE)

lemma remove_frame:
  assumes "remove_relation rows upd_rows bump E user target w = (Inr x, w')"
    and "\<And>f t. obs (upd_rows f t) = obs t" and "\<And>i d t. obs (bump i d t) = obs t"
  shows "obs (db w') = obs (db w)"
  using assms unfolding remove_relation_def
  by (auto split: if_splits elim!: transaction_InrE io_InrE)

text \<open>Without failures, and with an id that is not in use, adding succeeds.\<close>

lemma add_succeeds:
  assumes "faults w = []" and "rid \<notin> rel_id ` set (rows (db w))"
  shows "\<exists>w'. add_relation rows upd_rows bump E rid user target None w = (Inr (), w')"
proof (cases "find (\<lambda>r. rel_target r = target \<and> rel_user r = user) (rows (db w))")
  case None
  with assms find_NoneD [OF None] show ?thesis
    by (auto simp: add_relation_def transaction_def command_def io_bind_def io_then_def sql_first_def
        sql_create_def sql_exec_def createNotificationOutboxWithTx_def)
next
  case (Some e)
  with assms show ?thesis
    by (auto simp: add_relation_def transaction_def command_def io_bind_def io_then_def sql_first_def
        sql_update_def sql_exec_def createNotificationOutboxWithTx_def)
qed

lemma remove_succeeds:
  assumes "faults w = []"
  shows "\<exists>w'. remove_relation rows upd_rows bump E user target w = (Inr (), w')"
  using assms
  by (auto simp: remove_relation_def transaction_def command_def io_bind_def sql_update_rows_def sql_exec_def)

text \<open>The status query reads the abstract set.\<close>

lemma status_ok:
  assumes "relation_status rows userID ids w = (Inr f, w')" and "userID \<noteq> []"
  shows "f i \<longleftrightarrow> i \<in> set ids \<and> (i, parseID userID) \<in> active (rows (db w))"
  using assms unfolding relation_status_def
  by (force simp: in_active split: if_splits elim!: io_InrE)

end

subsection \<open>The three relations\<close>

definition post_like_counters :: "tables \<Rightarrow> (int \<times> int) list" where
  "post_like_counters t = map (\<lambda>p. (p_id p, p_like_count p)) (posts t)"

definition post_collected_counters :: "tables \<Rightarrow> (int \<times> int) list" where
  "post_collected_counters t = map (\<lambda>p. (p_id p, p_collected_count p)) (posts t)"

definition comment_like_counters :: "tables \<Rightarrow> (int \<times> int) list" where
  "comment_like_counters t = map (\<lambda>c. (c_id c, c_like_count c)) (comments t)"

interpretation plk: counted_relation post_likes post_likes_update bump_post_like post_like_counters
  by unfold_locales (auto simp: bump_post_like_def post_like_counters_def upd_where_def)

interpretation pcl: counted_relation post_collections post_collections_update bump_post_collected
    post_collected_counters
  by unfold_locales (auto simp: bump_post_collected_def post_collected_counters_def upd_where_def)

interpretation clk: counted_relation comment_likes comment_likes_update bump_comment_like
    comment_like_counters
  by unfold_locales (auto simp: bump_comment_like_def comment_like_counters_def upd_where_def)

subsection \<open>Sequences of operations refine sets\<close>

datatype relation = PostLike | PostCollection | CommentLike

datatype interaction =
    Add relation int string int "CampusNotificationOutbox option"
  | Remove relation string int

fun run_interaction :: "env \<Rightarrow> interaction \<Rightarrow> unit io" where
  "run_interaction E (Add PostLike rid u i ob) = AddPostLikeWithOutbox E rid u i ob"
| "run_interaction E (Add PostCollection rid u i ob) = AddPostCollectionWithOutbox E rid u i ob"
| "run_interaction E (Add CommentLike rid u i ob) = AddCommentLikeWithOutbox E rid u i ob"
| "run_interaction E (Remove PostLike u i) = RemovePostLike E u i"
| "run_interaction E (Remove PostCollection u i) = RemovePostCollection E u i"
| "run_interaction E (Remove CommentLike u i) = RemoveCommentLike E u i"

text \<open>The abstract state: for each relation the set of its pairs.\<close>

fun abs_rel :: "tables \<Rightarrow> relation \<Rightarrow> (int \<times> int) set" where
  "abs_rel t PostLike = active (post_likes t)"
| "abs_rel t PostCollection = active (post_collections t)"
| "abs_rel t CommentLike = active (comment_likes t)"

fun abs_step :: "interaction \<Rightarrow> (relation \<Rightarrow> (int \<times> int) set) \<Rightarrow> relation \<Rightarrow> (int \<times> int) set" where
  "abs_step (Add k rid u i ob) s = s(k := insert (i, parseID u) (s k))"
| "abs_step (Remove k u i) s = s(k := s k - {(i, parseID u)})"

text \<open>A sequence of requests, each with its own surroundings; a request that fails is skipped.
  The result lists the requests that succeeded.\<close>

fun run_interactions :: "(env \<times> interaction) list \<Rightarrow> world \<Rightarrow> interaction list \<times> world" where
  "run_interactions [] w = ([], w)"
| "run_interactions ((E, i) # ops) w =
     (case run_interaction E i w of
        (Inl e, w1) \<Rightarrow> run_interactions ops w1
      | (Inr _, w1) \<Rightarrow> (case run_interactions ops w1 of (done, w2) \<Rightarrow> (i # done, w2)))"

definition interactions_ok :: "tables \<Rightarrow> bool" where
  "interactions_ok t \<longleftrightarrow> rel_ok (post_likes t) (post_like_counters t) \<and>
     rel_ok (post_collections t) (post_collected_counters t) \<and>
     rel_ok (comment_likes t) (comment_like_counters t)"

lemma then_cache_E:
  assumes "cache_step k" and "io_then m k w = (r, w')"
  obtains e where "m w = (Inl e, w')" and "r = Inl e"
  | w1 x where "m w = (Inr (), w1)" and "db w' = db w1" and "r = Inr x"
  using assms(2)
proof (cases rule: io_then_E)
  case (1 e)
  then show ?thesis by (rule that(1))
next
  case (2 w1)
  with cache_stepD [OF assms(1) 2(2)] that(2) show ?thesis by auto
qed

lemma bump_frames [simp]:
  "post_collections (bump_post_like i d t) = post_collections t"
  "comment_likes (bump_post_like i d t) = comment_likes t"
  "post_collected_counters (bump_post_like i d t) = post_collected_counters t"
  "comment_like_counters (bump_post_like i d t) = comment_like_counters t"
  "post_likes (bump_post_collected i d t) = post_likes t"
  "comment_likes (bump_post_collected i d t) = comment_likes t"
  "post_like_counters (bump_post_collected i d t) = post_like_counters t"
  "comment_like_counters (bump_post_collected i d t) = comment_like_counters t"
  "post_likes (bump_comment_like i d t) = post_likes t"
  "post_collections (bump_comment_like i d t) = post_collections t"
  "post_like_counters (bump_comment_like i d t) = post_like_counters t"
  "post_collected_counters (bump_comment_like i d t) = post_collected_counters t"
  by (simp_all add: bump_post_like_def bump_post_collected_def bump_comment_like_def
      post_like_counters_def post_collected_counters_def comment_like_counters_def upd_where_def)

lemma counters_frames [simp]:
  "post_like_counters (post_likes_update f t) = post_like_counters t"
  "post_like_counters (post_collections_update f t) = post_like_counters t"
  "post_like_counters (comment_likes_update f t) = post_like_counters t"
  "post_like_counters (outbox_update h t) = post_like_counters t"
  "post_collected_counters (post_likes_update f t) = post_collected_counters t"
  "post_collected_counters (post_collections_update f t) = post_collected_counters t"
  "post_collected_counters (comment_likes_update f t) = post_collected_counters t"
  "post_collected_counters (outbox_update h t) = post_collected_counters t"
  "comment_like_counters (post_likes_update f t) = comment_like_counters t"
  "comment_like_counters (post_collections_update f t) = comment_like_counters t"
  "comment_like_counters (comment_likes_update f t) = comment_like_counters t"
  "comment_like_counters (outbox_update h t) = comment_like_counters t"
  by (simp_all add: post_like_counters_def post_collected_counters_def comment_like_counters_def)

lemma relation_fun_eq:
  "f = g \<longleftrightarrow> f PostLike = g PostLike \<and> f PostCollection = g PostCollection \<and> f CommentLike = g CommentLike"
proof
  assume e: "f PostLike = g PostLike \<and> f PostCollection = g PostCollection \<and> f CommentLike = g CommentLike"
  show "f = g"
  proof
    fix k show "f k = g k" using e by (cases k) simp_all
  qed
qed simp

lemma plk_add:
  assumes ok: "interactions_ok (db w)"
    and run: "add_relation post_likes post_likes_update bump_post_like E rid (parseID u) i ob w = (Inr x, w')"
  shows "interactions_ok (db w') \<and> abs_rel (db w') = abs_step (Add PostLike rid u i ob) (abs_rel (db w))"
proof -
  let ?obs = "\<lambda>t. (post_collections t, post_collected_counters t, comment_likes t, comment_like_counters t)"
  have "?obs (db w') = ?obs (db w)"
    by (rule plk.add_frame [where obs = ?obs, OF run]) simp_all
  with ok plk.add_ok [OF _ run] show ?thesis
    by (simp add: interactions_ok_def relation_fun_eq)
qed

lemma plk_remove:
  assumes ok: "interactions_ok (db w)"
    and run: "remove_relation post_likes post_likes_update bump_post_like E (parseID u) i w = (Inr x, w')"
  shows "interactions_ok (db w') \<and> abs_rel (db w') = abs_step (Remove PostLike u i) (abs_rel (db w))"
proof -
  let ?obs = "\<lambda>t. (post_collections t, post_collected_counters t, comment_likes t, comment_like_counters t)"
  have "?obs (db w') = ?obs (db w)"
    by (rule plk.remove_frame [where obs = ?obs, OF run]) simp_all
  with ok plk.remove_ok [OF _ run] show ?thesis
    by (simp add: interactions_ok_def relation_fun_eq)
qed

lemma pcl_add:
  assumes ok: "interactions_ok (db w)"
    and run: "add_relation post_collections post_collections_update bump_post_collected E rid (parseID u) i ob w = (Inr x, w')"
  shows "interactions_ok (db w') \<and> abs_rel (db w') = abs_step (Add PostCollection rid u i ob) (abs_rel (db w))"
proof -
  let ?obs = "\<lambda>t. (post_likes t, post_like_counters t, comment_likes t, comment_like_counters t)"
  have "?obs (db w') = ?obs (db w)"
    by (rule pcl.add_frame [where obs = ?obs, OF run]) simp_all
  with ok pcl.add_ok [OF _ run] show ?thesis
    by (simp add: interactions_ok_def relation_fun_eq)
qed

lemma pcl_remove:
  assumes ok: "interactions_ok (db w)"
    and run: "remove_relation post_collections post_collections_update bump_post_collected E (parseID u) i w = (Inr x, w')"
  shows "interactions_ok (db w') \<and> abs_rel (db w') = abs_step (Remove PostCollection u i) (abs_rel (db w))"
proof -
  let ?obs = "\<lambda>t. (post_likes t, post_like_counters t, comment_likes t, comment_like_counters t)"
  have "?obs (db w') = ?obs (db w)"
    by (rule pcl.remove_frame [where obs = ?obs, OF run]) simp_all
  with ok pcl.remove_ok [OF _ run] show ?thesis
    by (simp add: interactions_ok_def relation_fun_eq)
qed

lemma clk_add:
  assumes ok: "interactions_ok (db w)"
    and run: "add_relation comment_likes comment_likes_update bump_comment_like E rid (parseID u) i ob w = (Inr x, w')"
  shows "interactions_ok (db w') \<and> abs_rel (db w') = abs_step (Add CommentLike rid u i ob) (abs_rel (db w))"
proof -
  let ?obs = "\<lambda>t. (post_likes t, post_like_counters t, post_collections t, post_collected_counters t)"
  have "?obs (db w') = ?obs (db w)"
    by (rule clk.add_frame [where obs = ?obs, OF run]) simp_all
  with ok clk.add_ok [OF _ run] show ?thesis
    by (simp add: interactions_ok_def relation_fun_eq)
qed

lemma clk_remove:
  assumes ok: "interactions_ok (db w)"
    and run: "remove_relation comment_likes comment_likes_update bump_comment_like E (parseID u) i w = (Inr x, w')"
  shows "interactions_ok (db w') \<and> abs_rel (db w') = abs_step (Remove CommentLike u i) (abs_rel (db w))"
proof -
  let ?obs = "\<lambda>t. (post_likes t, post_like_counters t, post_collections t, post_collected_counters t)"
  have "?obs (db w') = ?obs (db w)"
    by (rule clk.remove_frame [where obs = ?obs, OF run]) simp_all
  with ok clk.remove_ok [OF _ run] show ?thesis
    by (simp add: interactions_ok_def relation_fun_eq)
qed

lemmas interaction_defs = AddPostLikeWithOutbox_def AddPostCollectionWithOutbox_def
  AddCommentLikeWithOutbox_def RemovePostLike_def RemovePostCollection_def RemoveCommentLike_def

lemma relation_atomic:
  "add_relation g u b E rid us i ob w = (Inl e, w') \<Longrightarrow> db w' = db w"
  "remove_relation g u b E us i w = (Inl e, w') \<Longrightarrow> db w' = db w"
  unfolding add_relation_def remove_relation_def by (erule transaction_atomic)+

lemma run_interaction_ok:
  assumes "interactions_ok (db w)" and "run_interaction E op w = (Inr x, w')"
  shows "interactions_ok (db w') \<and> abs_rel (db w') = abs_step op (abs_rel (db w))"
proof (cases "(E, op)" rule: run_interaction.cases)
  case (1 E' rid u i ob)
  with assms plk_add show ?thesis
    by (auto simp: interaction_defs elim!: then_cache_E [OF cache_step_invalidate(1)])
next
  case (2 E' rid u i ob)
  with assms pcl_add show ?thesis
    by (auto simp: interaction_defs elim!: then_cache_E [OF cache_step_invalidate(1)])
next
  case (3 E' rid u i ob)
  with assms clk_add show ?thesis by (auto simp: interaction_defs)
next
  case (4 E' u i)
  with assms plk_remove show ?thesis
    by (auto simp: interaction_defs elim!: then_cache_E [OF cache_step_invalidate(1)])
next
  case (5 E' u i)
  with assms pcl_remove show ?thesis
    by (auto simp: interaction_defs elim!: then_cache_E [OF cache_step_invalidate(1)])
next
  case (6 E' u i)
  with assms clk_remove show ?thesis by (auto simp: interaction_defs)
qed

lemma run_interaction_atomic: "run_interaction E op w = (Inl e, w') \<Longrightarrow> db w' = db w"
  by (cases "(E, op)" rule: run_interaction.cases)
     (auto simp: interaction_defs dest: relation_atomic
       elim!: then_cache_E [OF cache_step_invalidate(1)])

lemma interactions_ok_counts:
  "interactions_ok t \<Longrightarrow>
     list_all (\<lambda>p. p_like_count p = int (card {u. (p_id p, u) \<in> abs_rel t PostLike})
          \<and> p_collected_count p = int (card {u. (p_id p, u) \<in> abs_rel t PostCollection})) (posts t)
     \<and> list_all (\<lambda>c. c_like_count c = int (card {u. (c_id c, u) \<in> abs_rel t CommentLike})) (comments t)"
  by (auto simp: interactions_ok_def rel_ok_def list_all_iff post_like_counters_def
      post_collected_counters_def comment_like_counters_def active_count_card)

text \<open>
  C1. Along every sequence of likes, collections and their withdrawals, each with any pattern of
  failures of the database and the cache: the tables stay consistent, the pairs that are switched
  on are those of the abstract sets after exactly the requests that succeeded, and the counters
  shown to the users are the numbers of users in these sets.
\<close>

theorem interactions_refine_sets:
  assumes "interactions_ok (db w)" and "run_interactions ops w = (succeeded, w')"
  shows "interactions_ok (db w')
    \<and> abs_rel (db w') = fold abs_step succeeded (abs_rel (db w))
    \<and> list_all (\<lambda>p. p_like_count p = int (card {u. (p_id p, u) \<in> abs_rel (db w') PostLike})
          \<and> p_collected_count p = int (card {u. (p_id p, u) \<in> abs_rel (db w') PostCollection}))
        (posts (db w'))
    \<and> list_all (\<lambda>c. c_like_count c = int (card {u. (c_id c, u) \<in> abs_rel (db w') CommentLike}))
        (comments (db w'))"
proof -
  have "interactions_ok (db w') \<and> abs_rel (db w') = fold abs_step succeeded (abs_rel (db w))"
    using assms
  proof (induction ops w arbitrary: succeeded rule: run_interactions.induct)
    case (1 w)
    then show ?case by simp
  next
    case (2 E i ops w)
    show ?case
    proof (cases "run_interaction E i w")
      case (Pair r w1)
      then show ?thesis
      proof (cases r)
        case (Inl e)
        with 2 Pair run_interaction_atomic [of E i w e w1] show ?thesis by simp
      next
        case (Inr x)
        obtain dn w2 where "run_interactions ops w1 = (dn, w2)" by fastforce
        with 2 Pair Inr run_interaction_ok [OF 2(3), of E i x w1] show ?thesis by auto
      qed
    qed
  qed
  with interactions_ok_counts [of "db w'"] show ?thesis by simp
qed

text \<open>The tables with one post, which user 7 likes, and how to run on them.\<close>

definition sample_post :: campusForumPostModel where
  "sample_post = \<lparr>p_id = 1, p_category_code = [], p_author_id = 5, p_title = [], p_content = [],
     p_images = [], p_media_type = ''text'', p_post_type = ''note'', p_extra = [], p_cover_url = [],
     p_is_official = False, p_is_featured = False, p_is_pinned = False, p_sort_weight = 0,
     p_status = 1, p_audit_reason = [], p_like_count = 1, p_comment_count = 0,
     p_collected_count = 0, p_is_deleted = False, p_created_at = 0, p_updated_at = 0\<rparr>"

definition sample_env :: env where
  "sample_env = \<lparr>now = 100, detail_ttl = 30, idgen = int, unix_nano = int, getenv = (\<lambda>_. [])\<rparr>"

definition sample_world :: world where
  "sample_world = empty_world\<lparr>db := empty_tables\<lparr>posts := [sample_post],
     post_likes := [\<lparr>rel_id = 9, rel_target = 1, rel_user = 7, rel_is_deleted = False,
       rel_created_at = 0, rel_updated_at = 0\<rparr>]\<rparr>\<rparr>"

lemmas io_eval = add_relation_def remove_relation_def transaction_def command_def io_bind_def
  io_then_def sql_first_def sql_create_def sql_update_def sql_update_rows_def sql_exec_def
  createNotificationOutboxWithTx_def ignore_def attempt_def invalidatePostDetailCache_def
  deleteCacheKeys_def cacheEnabled_def envBoolFalseData_def trim_lower_def

lemmas sample_defs = sample_world_def sample_post_def sample_env_def empty_world_def empty_tables_def

lemma sample_ok [simp]: "interactions_ok (db sample_world)"
  by (simp add: sample_defs interactions_ok_def rel_ok_def post_like_counters_def
      post_collected_counters_def comment_like_counters_def active_count_def unique_on_def)

text \<open>User 8 likes the post while the cache is down, user 7 takes the like back, and a third
  request meets a database that does not answer.\<close>

theorem interactions_refine_sets_witness:
  "\<exists>w'. run_interactions
      [(sample_env, Add PostLike 10 ''8'' 1 None), (sample_env, Remove PostLike ''7'' 1),
       (sample_env, Add PostCollection 11 ''8'' 1 None)]
      (sample_world\<lparr>faults := [False, False, False, False, False, True, False, False, False, False, False, True]\<rparr>) =
      ([Add PostLike 10 ''8'' 1 None, Remove PostLike ''7'' 1], w')
   \<and> interactions_ok (db w')
   \<and> abs_rel (db w') PostLike = {(1, 8)}"
proof -
  let ?w = "sample_world\<lparr>faults := [False, False, False, False, False, True, False, False, False, False, False, True]\<rparr>"
  let ?ops = "[(sample_env, Add PostLike 10 ''8'' 1 None), (sample_env, Remove PostLike ''7'' 1),
       (sample_env, Add PostCollection 11 ''8'' 1 None)]"
  obtain w' where run: "run_interactions ?ops ?w = ([Add PostLike 10 ''8'' 1 None, Remove PostLike ''7'' 1], w')"
    by (simp add: sample_defs interaction_defs io_eval parseID_def go_string_eval bump_post_like_def)
  have ok: "interactions_ok (db ?w)" by simp
  have "abs_rel (db ?w) PostLike = {(1, 7)}"
    by (simp add: sample_defs active_def rel_key_def)
  with interactions_refine_sets [OF ok run] run show ?thesis
    by (intro exI [of _ w']) (auto simp: parseID_def go_string_eval)
qed

text \<open>
  C4. A like that fails changes no table; a like that is already there changes no table either,
  so that it is neither counted nor notified a second time; and without failures a like with a
  fresh id succeeds.
\<close>

theorem AddPostLike_atomic_idempotent:
  assumes "interactions_ok (db w)"
  shows "(AddPostLikeWithOutbox E rid u i ob w = (Inl e, w') \<longrightarrow> db w' = db w)
    \<and> ((i, parseID u) \<in> abs_rel (db w) PostLike \<and> AddPostLikeWithOutbox E rid u i ob w = (Inr (), w')
          \<longrightarrow> db w' = db w)
    \<and> (faults w = [] \<and> rid \<notin> rel_id ` set (post_likes (db w))
          \<longrightarrow> (\<exists>w'. AddPostLike E rid u i w = (Inr (), w')))"
proof (intro conjI impI)
  show "db w' = db w" if "AddPostLikeWithOutbox E rid u i ob w = (Inl e, w')"
    using that run_interaction_atomic [of E "Add PostLike rid u i ob"] by simp
next
  assume a: "(i, parseID u) \<in> abs_rel (db w) PostLike \<and> AddPostLikeWithOutbox E rid u i ob w = (Inr (), w')"
  then obtain w1 where run: "add_relation post_likes post_likes_update bump_post_like E rid (parseID u) i ob w
      = (Inr (), w1)" and w': "db w' = db w1"
    by (auto simp: interaction_defs elim!: then_cache_E [OF cache_step_invalidate(1)])
  have "rel_ok (post_likes (db w)) (post_like_counters (db w))"
    using assms by (simp add: interactions_ok_def)
  from plk.add_ok [OF this run] w' a show "db w' = db w" by simp
next
  assume "faults w = [] \<and> rid \<notin> rel_id ` set (post_likes (db w))"
  then obtain w1 where "add_relation post_likes post_likes_update bump_post_like E rid (parseID u) i None w
      = (Inr (), w1)" using plk.add_succeeds by blast
  moreover obtain x w2 where "invalidatePostDetailCache E i w1 = (Inr x, w2)"
    using cache_stepD [OF cache_step_invalidate(1)] by (metis surj_pair)
  ultimately show "\<exists>w'. AddPostLike E rid u i w = (Inr (), w')"
    by (simp add: AddPostLike_def interaction_defs io_then_def io_bind_def)
qed

theorem AddPostLike_atomic_idempotent_witness:
  "\<exists>w'. AddPostLike sample_env 10 ''8'' 1 sample_world = (Inr (), w')"
proof -
  have "faults sample_world = []" and "10 \<notin> rel_id ` set (post_likes (db sample_world))"
    by (simp_all add: sample_defs)
  with AddPostLike_atomic_idempotent [OF sample_ok] show ?thesis by blast
qed

end
