(* ===== verification/PostRepo.thy ===== *)
theory PostRepo
  imports Interactions
begin

text \<open>
  Posts in the data layer (\<open>data/campus.go\<close>): creating, reading through the detail cache,
  reading for the back office, and the three writes that change what is visible. The fields of
  a \<open>biz.CampusForumPost\<close> that are filled in for display (author, the viewer's likes, the
  state of the audit) are not part of the record.
\<close>

definition toBizPost :: "campusForumPostModel \<Rightarrow> CampusForumPost" where
  "toBizPost row = \<lparr>
     bp_id = p_id row,
     bp_category_code = p_category_code row,
     bp_category_name = [],
     bp_author_id = fmt_d (p_author_id row),
     bp_title = p_title row,
     bp_content = p_content row,
     bp_images = p_images row,
     bp_media_type = p_media_type row,
     bp_post_type = (if p_post_type row = [] then ''note'' else p_post_type row),
     bp_extra = p_extra row,
     bp_cover_url = p_cover_url row,
     bp_is_official = p_is_official row,
     bp_is_featured = p_is_featured row,
     bp_is_pinned = p_is_pinned row,
     bp_sort_weight = p_sort_weight row,
     bp_status = p_status row,
     bp_audit_reason = p_audit_reason row,
     bp_like_count = p_like_count row,
     bp_comment_count = p_comment_count row,
     bp_collected_count = p_collected_count row,
     bp_created_at = p_created_at row,
     bp_updated_at = p_updated_at row\<rparr>"

text \<open>The names of the boards of the posts; without a board code nothing is read. The code and the
  name of a board are unique, so the order in which the rows come does not matter.\<close>

definition fillPostCategoryNames :: "CampusForumPost list \<Rightarrow> CampusForumPost list io" where
  "fillPostCategoryNames ps = (let codes = remdups (filter (\<lambda>c. c \<noteq> []) (map bp_category_code ps)) in
     if codes = [] then ret ps
     else io_bind (sql_find categories (\<lambda>r. cat_code r \<in> set codes)) (\<lambda>rows.
       ret (map (\<lambda>p. p\<lparr>bp_category_name :=
         map_get (map (\<lambda>r. (cat_code r, cat_name r)) rows) (bp_category_code p)\<rparr>) ps)))"

definition fillPostCategoryName :: "CampusForumPost \<Rightarrow> CampusForumPost io" where
  "fillPostCategoryName p = io_bind (fillPostCategoryNames [p]) (\<lambda>ps. ret (hd ps))"

definition CreatePost_row :: "env \<Rightarrow> CampusForumPost \<Rightarrow> campusForumPostModel" where
  "CreatePost_row E post = \<lparr>
     p_id = bp_id post,
     p_category_code = bp_category_code post,
     p_author_id = parseID (bp_author_id post),
     p_title = bp_title post,
     p_content = bp_content post,
     p_images = bp_images post,
     p_media_type = bp_media_type post,
     p_post_type = bp_post_type post,
     p_extra = bp_extra post,
     p_cover_url = bp_cover_url post,
     p_is_official = bp_is_official post,
     p_is_featured = bp_is_featured post,
     p_is_pinned = bp_is_pinned post,
     p_sort_weight = bp_sort_weight post,
     p_status = bp_status post,
     p_audit_reason = bp_audit_reason post,
     p_like_count = 0, p_comment_count = 0, p_collected_count = 0, p_is_deleted = False,
     p_created_at = now E,
     p_updated_at = now E\<rparr>"

definition CreatePost :: "env \<Rightarrow> CampusForumPost \<Rightarrow> unit io" where
  "CreatePost E post =
     io_then (sql_create posts posts_update (\<lambda>r. p_id r = bp_id post) (CreatePost_row E post))
     (invalidatePostReadCaches E (bp_id post) True)"

text \<open>Go's map from ids to posts keeps the last row of an id; ids are unique.\<close>

definition ListPostsByIDs :: "int list \<Rightarrow> int list \<Rightarrow> CampusForumPost list io" where
  "ListPostsByIDs postIDs statuses =
     (if postIDs = [] then ret []
      else io_bind (sql_find posts (\<lambda>r. p_id r \<in> set postIDs \<and> \<not> p_is_deleted r \<and>
             (statuses \<noteq> [] \<longrightarrow> p_status r \<in> set statuses))) (\<lambda>rows.
        io_bind (fillPostCategoryNames (map toBizPost rows)) (\<lambda>ps.
        ret (concat (map (\<lambda>i. case find (\<lambda>p. bp_id p = i) ps of None \<Rightarrow> [] | Some p \<Rightarrow> [p]) postIDs)))))"

text \<open>The public read: from the cache, or the row when it is visible, which is then cached.\<close>

definition GetPostByID :: "env \<Rightarrow> int \<Rightarrow> CampusForumPost option io" where
  "GetPostByID E postID =
     io_bind (getCacheJSON E (campusPostDetailCacheKey postID)) (\<lambda>cached.
     case cached of Some p \<Rightarrow> ret (Some p)
     | None \<Rightarrow>
       io_bind (sql_first posts (\<lambda>r. p_id r = postID \<and> \<not> p_is_deleted r \<and>
          p_status r = CampusAuditStatusVisible)) (\<lambda>row.
       case row of None \<Rightarrow> ret None
       | Some r \<Rightarrow>
         io_bind (fillPostCategoryName (toBizPost r)) (\<lambda>post.
         io_then (setCacheJSON E (campusPostDetailCacheKey postID) post (detail_ttl E))
         (ret (Some post)))))"

definition GetAnyPostByID :: "int \<Rightarrow> CampusForumPost option io" where
  "GetAnyPostByID postID =
     io_bind (sql_first posts (\<lambda>r. p_id r = postID \<and> \<not> p_is_deleted r)) (\<lambda>row.
     case row of None \<Rightarrow> ret None
     | Some r \<Rightarrow> io_bind (fillPostCategoryName (toBizPost r)) (\<lambda>post. ret (Some post)))"

definition DeletePost_rows :: "env \<Rightarrow> int \<Rightarrow> unit io" where
  "DeletePost_rows E postID = transaction (
     io_then (sql_update posts_update (\<lambda>r. p_id r = postID \<and> \<not> p_is_deleted r)
       (\<lambda>r. r\<lparr>p_is_deleted := True, p_status := CampusAuditStatusDeleted,
          p_audit_reason := msg_user_deleted, p_updated_at := now E\<rparr>))
     (sql_update comments_update (\<lambda>c. c_post_id c = postID \<and> \<not> c_is_deleted c)
       (\<lambda>c. c\<lparr>c_is_deleted := True, c_status := CampusAuditStatusDeleted, c_updated_at := now E\<rparr>)))"

definition DeletePost :: "env \<Rightarrow> int \<Rightarrow> unit io" where
  "DeletePost E postID = io_then (DeletePost_rows E postID) (invalidatePostReadCaches E postID True)"

definition UpdatePostStatus :: "env \<Rightarrow> int \<Rightarrow> int \<Rightarrow> string \<Rightarrow> unit io" where
  "UpdatePostStatus E postID status reason =
     io_then (sql_update posts_update (\<lambda>r. p_id r = postID)
       (\<lambda>r. r\<lparr>p_status := status, p_audit_reason := reason,
          p_is_deleted := (status = CampusAuditStatusDeleted), p_updated_at := now E\<rparr>))
     (invalidatePostReadCaches E postID True)"

definition UpdatePostByAdmin :: "env \<Rightarrow> CampusForumPost \<Rightarrow> unit io" where
  "UpdatePostByAdmin E post =
     io_then (sql_update posts_update (\<lambda>r. p_id r = bp_id post)
       (\<lambda>r. r\<lparr>p_category_code := bp_category_code post, p_title := bp_title post,
          p_content := bp_content post, p_images := bp_images post,
          p_media_type := bp_media_type post, p_post_type := bp_post_type post,
          p_extra := bp_extra post, p_cover_url := bp_cover_url post,
          p_status := bp_status post, p_audit_reason := bp_audit_reason post,
          p_is_official := bp_is_official post, p_is_featured := bp_is_featured post,
          p_is_pinned := bp_is_pinned post, p_sort_weight := bp_sort_weight post,
          p_is_deleted := (bp_status post = CampusAuditStatusDeleted), p_updated_at := now E\<rparr>))
     (invalidatePostReadCaches E (bp_id post) True)"

subsection \<open>What the public sees\<close>

text \<open>The public sees a row when it is not deleted and its status is "visible".\<close>

definition post_visible :: "tables \<Rightarrow> int \<Rightarrow> bool" where
  "post_visible t i \<longleftrightarrow> (\<exists>r \<in> set (posts t). p_id r = i \<and> \<not> p_is_deleted r \<and>
     p_status r = CampusAuditStatusVisible)"

definition uncached :: "int \<Rightarrow> world \<Rightarrow> bool" where
  "uncached i w \<longleftrightarrow> map_of (post_cache w) (campusPostDetailCacheKey i) = None"

lemma map_of_deleted: "(\<And>v. \<not> P (x, v)) \<Longrightarrow> map_of (filter P m) x = None"
  by (induction m) auto

lemma invalidate_detail_run:
  assumes "faults w = []" and "0 < i" and "cacheEnabled E w"
  shows "\<exists>w'. invalidatePostDetailCache E i w = (Inr (), w') \<and> uncached i w' \<and> faults w' = [] \<and>
    db w' = db w \<and> rds_on w' = rds_on w"
  using assms
  by (auto simp: invalidatePostDetailCache_def deleteCacheKeys_def ignore_command_run uncached_def map_of_deleted)

lemma invalidate_read_run:
  assumes "faults w = []" and "0 < i" and "cacheEnabled E w"
  shows "\<exists>w'. invalidatePostReadCaches E i True w = (Inr (), w') \<and> uncached i w' \<and> faults w' = [] \<and>
    db w' = db w \<and> rds_on w' = rds_on w"
  using assms
  by (auto simp: invalidatePostReadCaches_def invalidatePostDetailCache_def deleteCacheKeys_def
      bumpPostFeedCacheVersion_def bumpMomentsCacheVersion_def cacheEnabled_def io_then_def io_bind_def
      ignore_command_run uncached_def map_of_deleted)

lemma post_visible_upd:
  assumes "\<And>r. P r \<Longrightarrow> p_id (f r) = p_id r"
    and "\<And>r. p_id r = i \<Longrightarrow> \<not> p_is_deleted r \<Longrightarrow> P r"
    and "\<And>r. P r \<Longrightarrow> p_is_deleted (f r) \<or> p_status (f r) \<noteq> CampusAuditStatusVisible"
  shows "\<not> post_visible (posts_update (upd_where P f) t) i"
  using assms by (auto simp: post_visible_def set_upd_where split: if_splits)

lemma post_visible_frame [simp]: "post_visible (comments_update g t) i = post_visible t i"
  by (simp add: post_visible_def)

text \<open>A post that is neither cached nor visible in the tables is not served.\<close>

lemma GetPostByID_none:
  assumes "uncached i w \<or> \<not> cacheEnabled E w" and "\<not> post_visible (db w) i"
    and "GetPostByID E i w = (r, w')"
  shows "case r of Inl e \<Rightarrow> faults w \<noteq> [] | Inr res \<Rightarrow> res = None"
proof -
  obtain fs where c: "getCacheJSON E (campusPostDetailCacheKey i) w = (Inr None, w\<lparr>faults := fs\<rparr>)"
    and f: "faults w = [] \<Longrightarrow> fs = []"
  proof (cases "cacheEnabled E w")
    case False
    have "w\<lparr>faults := faults w\<rparr> = w" by simp
    with False show ?thesis by (intro that [of "faults w"]) (simp_all add: getCacheJSON_def)
  next
    case True
    with assms(1) have u: "map_of (post_cache w) (campusPostDetailCacheKey i) = None"
      by (simp add: uncached_def)
    show ?thesis
    proof (cases "faults w")
      case Nil
      then have "w\<lparr>faults := []\<rparr> = w" by simp
      with Nil True u show ?thesis by (intro that [of "[]"]) (simp_all add: getCacheJSON_def command_def)
    next
      case (Cons b bs)
      with True u show ?thesis by (intro that [of bs]) (simp_all add: getCacheJSON_def command_def)
    qed
  qed
  have n: "find (\<lambda>r. p_id r = i \<and> \<not> p_is_deleted r \<and> p_status r = CampusAuditStatusVisible) (posts (db w)) = None"
    using assms(2) by (auto simp: find_None_iff post_visible_def)
  show ?thesis
  proof (cases fs)
    case Nil
    with assms(3) c n show ?thesis
      by (auto simp: GetPostByID_def io_bind_def sql_first_def command_def)
  next
    case (Cons b bs)
    with assms(3) c f n show ?thesis
      by (auto simp: GetPostByID_def io_bind_def sql_first_def command_def split: if_splits)
  qed
qed


text \<open>The sample post, cached, is withdrawn and is not served any more, though it was before.\<close>

definition cached_world :: world where
  "cached_world = sample_world\<lparr>post_cache :=
     [(campusPostDetailCacheKey 1, toBizPost sample_post, 1000)]\<rparr>"


end
