(* ===== verification/CommentRepo.thy ===== *)
theory CommentRepo
  imports PostRepo
begin

text \<open>
  Comments in the data layer (\<open>data/campus.go\<close>): creating, reading, withdrawing and reviewing a
  comment, each with the counters of comments per post and of replies per comment, and the
  reconciliation that recomputes all counters from the tables. The invariant is that the
  counters of the rows that are not deleted are the numbers of visible comments.
\<close>

record CampusForumComment =
  bc_id :: int
  bc_post_id :: int
  bc_parent_id :: int
  bc_reply_to_comment_id :: int
  bc_reply_to_user_id :: string
  bc_author_id :: string
  bc_content :: string
  bc_images :: "string list"
  bc_status :: int
  bc_audit_reason :: string
  bc_like_count :: int
  bc_reply_count :: int
  bc_created_at :: time
  bc_updated_at :: time

definition toBizComment :: "campusForumCommentModel \<Rightarrow> CampusForumComment" where
  "toBizComment row = \<lparr>
     bc_id = c_id row,
     bc_post_id = c_post_id row,
     bc_parent_id = c_parent_id row,
     bc_reply_to_comment_id = c_reply_to_comment_id row,
     bc_reply_to_user_id = fmt_d (c_reply_to_user_id row),
     bc_author_id = fmt_d (c_author_id row),
     bc_content = c_content row,
     bc_images = c_images row,
     bc_status = c_status row,
     bc_audit_reason = c_audit_reason row,
     bc_like_count = c_like_count row,
     bc_reply_count = c_reply_count row,
     bc_created_at = c_created_at row,
     bc_updated_at = c_updated_at row\<rparr>"

definition CreateComment_row :: "env \<Rightarrow> CampusForumComment \<Rightarrow> campusForumCommentModel" where
  "CreateComment_row E b = \<lparr>
     c_id = bc_id b,
     c_post_id = bc_post_id b,
     c_parent_id = bc_parent_id b,
     c_reply_to_comment_id = bc_reply_to_comment_id b,
     c_reply_to_user_id = parseID (bc_reply_to_user_id b),
     c_author_id = parseID (bc_author_id b),
     c_content = bc_content b,
     c_images = bc_images b,
     c_status = bc_status b,
     c_audit_reason = bc_audit_reason b,
     c_like_count = 0, c_reply_count = 0, c_is_deleted = False,
     c_created_at = now E,
     c_updated_at = now E\<rparr>"

text \<open>\<open>UPDATE .. SET comment_count = f(comment_count) WHERE id = i\<close>, and \<open>reply_count\<close>.\<close>

definition set_comment_count :: "(int \<Rightarrow> int) \<Rightarrow> int \<Rightarrow> tables \<Rightarrow> tables" where
  "set_comment_count f i = posts_update (upd_where (\<lambda>p. p_id p = i)
     (\<lambda>p. p\<lparr>p_comment_count := f (p_comment_count p)\<rparr>))"

definition set_reply_count :: "(int \<Rightarrow> int) \<Rightarrow> int \<Rightarrow> tables \<Rightarrow> tables" where
  "set_reply_count f i = comments_update (upd_where (\<lambda>c. c_id c = i)
     (\<lambda>c. c\<lparr>c_reply_count := f (c_reply_count c)\<rparr>))"

definition CreateComment_rows ::
    "env \<Rightarrow> CampusForumComment \<Rightarrow> CampusNotificationOutbox option \<Rightarrow> unit io" where
  "CreateComment_rows E b ob = transaction (
     io_then (sql_create comments comments_update (\<lambda>c. c_id c = bc_id b) (CreateComment_row E b))
     (io_then (if bc_status b = CampusAuditStatusVisible
        then io_then (sql_exec (set_comment_count (\<lambda>n. n + 1) (bc_post_id b)))
             (if 0 < bc_parent_id b then sql_exec (set_reply_count (\<lambda>n. n + 1) (bc_parent_id b)) else ret ())
        else ret ())
     (createNotificationOutboxWithTx E ob)))"

definition CreateCommentWithOutbox ::
    "env \<Rightarrow> CampusForumComment \<Rightarrow> CampusNotificationOutbox option \<Rightarrow> unit io" where
  "CreateCommentWithOutbox E b ob =
     io_then (CreateComment_rows E b ob)
     (io_then (invalidatePostDetailCache E (bc_post_id b))
     (deleteCacheKeys E [campusAdminSummaryCacheKey]))"

definition CreateComment_repo :: "env \<Rightarrow> CampusForumComment \<Rightarrow> unit io" where
  "CreateComment_repo E b = CreateCommentWithOutbox E b None"

definition GetCommentByID :: "int \<Rightarrow> CampusForumComment option io" where
  "GetCommentByID commentID =
     io_bind (sql_first comments (\<lambda>c. c_id c = commentID \<and> \<not> c_is_deleted c)) (\<lambda>row.
     ret (map_option toBizComment row))"

definition GetAnyCommentByID :: "int \<Rightarrow> CampusForumComment option io" where
  "GetAnyCommentByID commentID =
     io_bind (sql_first comments (\<lambda>c. c_id c = commentID)) (\<lambda>row. ret (map_option toBizComment row))"

text \<open>The transactions return the post, whose cached detail is then dropped.\<close>

definition withdraw_row :: "time \<Rightarrow> string \<Rightarrow> campusForumCommentModel \<Rightarrow> campusForumCommentModel" where
  "withdraw_row t reason c = c\<lparr>c_is_deleted := True, c_status := CampusAuditStatusDeleted,
     c_audit_reason := reason, c_updated_at := t\<rparr>"

definition DeleteComment_rows :: "env \<Rightarrow> int \<Rightarrow> int io" where
  "DeleteComment_rows E commentID = transaction (
     io_bind (sql_first comments (\<lambda>c. c_id c = commentID \<and> \<not> c_is_deleted c)) (\<lambda>row.
     case row of None \<Rightarrow> fail RecordNotFound
     | Some c \<Rightarrow>
       io_bind (if c_parent_id c = 0 \<and> c_status c = CampusAuditStatusVisible
          then io_bind (sql_count comments (\<lambda>r. c_parent_id r = c_id c \<and>
                 c_status r = CampusAuditStatusVisible \<and> \<not> c_is_deleted r)) (\<lambda>replyCount. ret (1 + replyCount))
          else ret 1) (\<lambda>decrement.
       io_then (sql_update comments_update (\<lambda>r. c_id r = commentID) (withdraw_row (now E) msg_user_deleted))
       (io_then (if c_parent_id c = 0
          then sql_update comments_update (\<lambda>r. c_parent_id r = c_id c \<and> \<not> c_is_deleted r)
                 (withdraw_row (now E) msg_parent_withdrawn)
          else ret ())
       (io_then (if c_status c = CampusAuditStatusVisible
          then io_then (sql_exec (set_comment_count (\<lambda>n. greatest0 (n - decrement)) (c_post_id c)))
               (if 0 < c_parent_id c
                then sql_exec (set_reply_count (\<lambda>n. greatest0 (n - 1)) (c_parent_id c)) else ret ())
          else ret ())
       (ret (c_post_id c)))))))"

definition DeleteComment_repo :: "env \<Rightarrow> int \<Rightarrow> unit io" where
  "DeleteComment_repo E commentID = io_bind (DeleteComment_rows E commentID) (\<lambda>postID.
     io_then (invalidatePostDetailCache E postID) (deleteCacheKeys E [campusAdminSummaryCacheKey]))"

definition review_row :: "time \<Rightarrow> int \<Rightarrow> string \<Rightarrow> campusForumCommentModel \<Rightarrow> campusForumCommentModel" where
  "review_row t status reason c = c\<lparr>c_status := status, c_audit_reason := reason,
     c_is_deleted := (status = CampusAuditStatusDeleted), c_updated_at := t\<rparr>"

definition UpdateCommentStatus_rows :: "env \<Rightarrow> int \<Rightarrow> int \<Rightarrow> string \<Rightarrow> int io" where
  "UpdateCommentStatus_rows E commentID status reason = transaction (
     io_bind (sql_first comments (\<lambda>c. c_id c = commentID)) (\<lambda>row.
     case row of None \<Rightarrow> fail RecordNotFound
     | Some c \<Rightarrow> let
         wasVisible = (c_status c = CampusAuditStatusVisible \<and> \<not> c_is_deleted c);
         willVisible = (status = CampusAuditStatusVisible)
       in io_then (sql_update comments_update (\<lambda>r. c_id r = commentID) (review_row (now E) status reason))
       (if wasVisible = willVisible then ret (c_post_id c)
        else let delta = (if willVisible then 1 else -1) in
          io_then (sql_exec (set_comment_count (\<lambda>n. greatest0 (n + delta)) (c_post_id c)))
          (io_then (if 0 < c_parent_id c
             then sql_exec (set_reply_count (\<lambda>n. greatest0 (n + delta)) (c_parent_id c)) else ret ())
          (ret (c_post_id c))))))"

definition UpdateCommentStatus :: "env \<Rightarrow> int \<Rightarrow> int \<Rightarrow> string \<Rightarrow> unit io" where
  "UpdateCommentStatus E commentID status reason =
     io_bind (UpdateCommentStatus_rows E commentID status reason) (\<lambda>postID.
     if 0 < postID
     then io_then (invalidatePostDetailCache E postID) (deleteCacheKeys E [campusAdminSummaryCacheKey])
     else ret ())"

subsection \<open>Reconciliation\<close>

definition visible_comment :: "campusForumCommentModel \<Rightarrow> bool" where
  "visible_comment c \<longleftrightarrow> c_status c = CampusAuditStatusVisible \<and> \<not> c_is_deleted c"

definition real_comments :: "tables \<Rightarrow> int \<Rightarrow> int" where
  "real_comments t i = count_where (\<lambda>c. c_post_id c = i \<and> visible_comment c) (comments t)"

text \<open>The subquery groups only positive parents; another comment has no replies.\<close>

definition real_replies :: "tables \<Rightarrow> int \<Rightarrow> int" where
  "real_replies t i = count_where (\<lambda>c. 0 < c_parent_id c \<and> c_parent_id c = i \<and> visible_comment c) (comments t)"

definition post_stats_differ :: "tables \<Rightarrow> campusForumPostModel \<Rightarrow> bool" where
  "post_stats_differ t p \<longleftrightarrow> \<not> p_is_deleted p \<and>
     (p_like_count p \<noteq> active_count (post_likes t) (p_id p) \<or>
      p_collected_count p \<noteq> active_count (post_collections t) (p_id p) \<or>
      p_comment_count p \<noteq> real_comments t (p_id p))"

definition comment_stats_differ :: "tables \<Rightarrow> campusForumCommentModel \<Rightarrow> bool" where
  "comment_stats_differ t c \<longleftrightarrow> \<not> c_is_deleted c \<and>
     (c_like_count c \<noteq> active_count (comment_likes t) (c_id c) \<or>
      c_reply_count c \<noteq> real_replies t (c_id c))"

text \<open>The result counts the rows that were corrected.\<close>

definition ReconcileCampusStats :: "env \<Rightarrow> (int \<times> int) io" where
  "ReconcileCampusStats E = transaction (
     io_bind get_world (\<lambda>w0.
     io_bind (sql_update_rows posts posts_update (post_stats_differ (db w0))
       (\<lambda>p. p\<lparr>p_like_count := active_count (post_likes (db w0)) (p_id p),
          p_collected_count := active_count (post_collections (db w0)) (p_id p),
          p_comment_count := real_comments (db w0) (p_id p), p_updated_at := now E\<rparr>)) (\<lambda>updatedPosts.
     io_bind get_world (\<lambda>w1.
     io_bind (sql_update_rows comments comments_update (comment_stats_differ (db w1))
       (\<lambda>c. c\<lparr>c_like_count := active_count (comment_likes (db w1)) (c_id c),
          c_reply_count := real_replies (db w1) (c_id c), c_updated_at := now E\<rparr>)) (\<lambda>updatedComments.
     ret (updatedPosts, updatedComments))))))"

subsection \<open>The invariant of the counters\<close>

definition comments_wf :: "tables \<Rightarrow> bool" where
  "comments_wf t \<longleftrightarrow> unique_on p_id (posts t) \<and> unique_on c_id (comments t) \<and>
     (\<forall>c \<in> set (comments t). 0 < c_id c \<and> c_post_id c \<in> p_id ` set (posts t) \<and>
        (0 < c_parent_id c \<longrightarrow> (\<exists>q \<in> set (comments t). c_id q = c_parent_id c \<and> c_post_id q = c_post_id c)))"

definition counts_ok :: "tables \<Rightarrow> bool" where
  "counts_ok t \<longleftrightarrow>
     (\<forall>p \<in> set (posts t). \<not> p_is_deleted p \<longrightarrow> p_comment_count p = real_comments t (p_id p)) \<and>
     (\<forall>c \<in> set (comments t). \<not> c_is_deleted c \<longrightarrow> c_reply_count c = real_replies t (c_id c))"

definition comments_ok :: "tables \<Rightarrow> bool" where
  "comments_ok t \<longleftrightarrow> comments_wf t \<and> counts_ok t"

text \<open>What a change of the comments does to the number of visible ones.\<close>

definition same_place :: "(campusForumCommentModel \<Rightarrow> campusForumCommentModel) \<Rightarrow> bool" where
  "same_place f \<longleftrightarrow> (\<forall>c. c_id (f c) = c_id c \<and> c_post_id (f c) = c_post_id c \<and>
     c_parent_id (f c) = c_parent_id c \<and> c_reply_count (f c) = c_reply_count c)"

lemma same_place_rows [simp]:
  "same_place (withdraw_row t reason)" "same_place (review_row t status reason)"
  by (simp_all add: same_place_def withdraw_row_def review_row_def)

lemma visible_rows [simp]:
  "\<not> visible_comment (withdraw_row t reason c)"
  "visible_comment (review_row t status reason c) \<longleftrightarrow> status = CampusAuditStatusVisible"
  "c_is_deleted (withdraw_row t reason c)"
  "c_is_deleted (review_row t status reason c) \<longleftrightarrow> status = CampusAuditStatusDeleted"
  by (auto simp: visible_comment_def withdraw_row_def review_row_def audit_status_defs)

lemma same_place_simps:
  "same_place f \<Longrightarrow> c_id (f c) = c_id c" "same_place f \<Longrightarrow> c_post_id (f c) = c_post_id c"
  "same_place f \<Longrightarrow> c_parent_id (f c) = c_parent_id c" "same_place f \<Longrightarrow> c_reply_count (f c) = c_reply_count c"
  by (simp_all add: same_place_def)

lemma count_upd_place:
  assumes "same_place f" and "\<And>c. K (f c) = K c"
  shows "count_where (\<lambda>c. K c \<and> visible_comment c) (upd_where P f cs) =
    count_where (\<lambda>c. K c \<and> visible_comment c) cs - count_where (\<lambda>c. P c \<and> K c \<and> visible_comment c) cs
    + count_where (\<lambda>c. P c \<and> K c \<and> visible_comment (f c)) cs"
  by (simp add: count_where_upd assms(2))

lemma real_comments_upd:
  assumes "same_place f"
  shows "real_comments (comments_update (upd_where P f) t) i = real_comments t i
    - count_where (\<lambda>c. P c \<and> c_post_id c = i \<and> visible_comment c) (comments t)
    + count_where (\<lambda>c. P c \<and> c_post_id c = i \<and> visible_comment (f c)) (comments t)"
  using count_upd_place [OF assms, of "\<lambda>c. c_post_id c = i"] assms
  by (simp add: real_comments_def same_place_simps)

lemma real_replies_upd:
  assumes "same_place f"
  shows "real_replies (comments_update (upd_where P f) t) i = real_replies t i
    - count_where (\<lambda>c. P c \<and> 0 < c_parent_id c \<and> c_parent_id c = i \<and> visible_comment c) (comments t)
    + count_where (\<lambda>c. P c \<and> 0 < c_parent_id c \<and> c_parent_id c = i \<and> visible_comment (f c)) (comments t)"
  using count_upd_place [OF assms, of "\<lambda>c. 0 < c_parent_id c \<and> c_parent_id c = i"] assms
  by (simp add: real_replies_def same_place_simps conj_assoc)

lemma count_one:
  assumes "unique_on c_id (comments t)" and "row \<in> set (comments t)"
  shows "count_where (\<lambda>c. c_id c = c_id row \<and> Q c) (comments t) = (if Q row then 1 else 0)"
  using count_where_unique [OF assms] by simp

text \<open>The counters of the tables do not enter the real numbers.\<close>

lemma real_frames [simp]:
  "real_comments (set_comment_count f j t) i = real_comments t i"
  "real_replies (set_comment_count f j t) i = real_replies t i"
  "real_comments (set_reply_count f j t) i = real_comments t i"
  "real_replies (set_reply_count f j t) i = real_replies t i"
  "real_comments (outbox_update h t) i = real_comments t i"
  "real_replies (outbox_update h t) i = real_replies t i"
  "comments (set_comment_count f j t) = comments t"
  "posts (set_reply_count f j t) = posts t"
  "posts (outbox_update h t) = posts t"
  by (simp_all add: real_comments_def real_replies_def set_comment_count_def set_reply_count_def
      count_where_upd_same visible_comment_def)

lemmas real_frames_fun [simp] = real_frames(1-6) [THEN ext]

lemma real_nonneg [simp]: "0 \<le> real_comments t i" "0 \<le> real_replies t i"
  by (simp_all add: real_comments_def real_replies_def)

text \<open>Which tables have the same rows up to what is not part of the well-formedness.\<close>

lemma comments_wf_cong:
  assumes "map p_id (posts t') = map p_id (posts t)"
    and "map (\<lambda>c. (c_id c, c_post_id c, c_parent_id c)) (comments t') = map (\<lambda>c. (c_id c, c_post_id c, c_parent_id c)) (comments t)"
  shows "comments_wf t' = comments_wf t"
proof -
  let ?k = "\<lambda>c. (c_id c, c_post_id c, c_parent_id c)"
  have id: "map c_id (comments u) = map fst (map ?k (comments u))" for u by simp
  have all: "comments_wf u \<longleftrightarrow> unique_on p_id (posts u) \<and> distinct (map fst (map ?k (comments u))) \<and>
     (\<forall>(i, p, q) \<in> set (map ?k (comments u)). 0 < i \<and> p \<in> set (map p_id (posts u)) \<and>
        (0 < q \<longrightarrow> (\<exists>(i', p', q') \<in> set (map ?k (comments u)). i' = q \<and> p' = p)))" for u
    unfolding comments_wf_def unique_on_def id by (auto simp: image_iff)
  have u: "unique_on p_id (posts t') = unique_on p_id (posts t)"
    unfolding unique_on_def assms(1) by simp
  show ?thesis unfolding all u assms by simp
qed

lemma map_place: "same_place f \<Longrightarrow>
    map (\<lambda>c. (c_id c, c_post_id c, c_parent_id c)) (upd_where P f cs) = map (\<lambda>c. (c_id c, c_post_id c, c_parent_id c)) cs"
  by (rule map_upd_where) (simp add: same_place_simps)

text \<open>The counters agree with two given functions: what each statement does to that.\<close>

definition counters_are :: "(int \<Rightarrow> int) \<Rightarrow> (int \<Rightarrow> int) \<Rightarrow> tables \<Rightarrow> bool" where
  "counters_are nc nr t \<longleftrightarrow>
     (\<forall>p \<in> set (posts t). \<not> p_is_deleted p \<longrightarrow> p_comment_count p = nc (p_id p)) \<and>
     (\<forall>c \<in> set (comments t). \<not> c_is_deleted c \<longrightarrow> c_reply_count c = nr (c_id c))"

lemma counts_ok_counters: "counts_ok t \<longleftrightarrow> counters_are (real_comments t) (real_replies t) t"
  by (simp add: counts_ok_def counters_are_def)

lemma counters_set_comment_count:
  "counters_are nc nr t \<Longrightarrow> counters_are (nc(i := f (nc i))) nr (set_comment_count f i t)"
  by (auto simp: counters_are_def set_comment_count_def set_upd_where)

lemma counters_set_reply_count:
  "counters_are nc nr t \<Longrightarrow> counters_are nc (nr(i := f (nr i))) (set_reply_count f i t)"
  by (auto simp: counters_are_def set_reply_count_def set_upd_where)

lemma counters_upd:
  assumes "counters_are nc nr t" and "same_place f"
    and "\<And>c. c \<in> set (comments t) \<Longrightarrow> P c \<Longrightarrow> \<not> c_is_deleted (f c) \<Longrightarrow> c_reply_count c = nr (c_id c)"
  shows "counters_are nc nr (comments_update (upd_where P f) t)"
  using assms by (auto simp: counters_are_def set_upd_where same_place_simps)

lemma counters_snoc:
  "counters_are nc nr t \<Longrightarrow> c_reply_count c = nr (c_id c) \<Longrightarrow> counters_are nc nr (comments_update (\<lambda>xs. xs @ [c]) t)"
  by (simp add: counters_are_def)

lemma counters_outbox [simp]: "counters_are nc nr (outbox_update h t) = counters_are nc nr t"
  by (simp add: counters_are_def)

lemma counters_cong:
  "counters_are nc nr t \<Longrightarrow> (\<And>i. nc' i = nc i) \<Longrightarrow>
     (\<And>c. c \<in> set (comments t) \<Longrightarrow> \<not> c_is_deleted c \<Longrightarrow> nr' (c_id c) = nr (c_id c)) \<Longrightarrow> counters_are nc' nr' t"
  by (simp add: counters_are_def)

lemma wf_frames [simp]:
  "comments_wf (set_comment_count f i t) = comments_wf t"
  "comments_wf (set_reply_count f i t) = comments_wf t"
  "comments_wf (outbox_update h t) = comments_wf t"
  "same_place f' \<Longrightarrow> comments_wf (comments_update (upd_where P f') t) = comments_wf t"
  by (rule comments_wf_cong; simp add: set_comment_count_def set_reply_count_def map_place)+

text \<open>Both counters are bumped together.\<close>

definition bump_counts :: "(int \<Rightarrow> int) \<Rightarrow> int \<Rightarrow> int \<Rightarrow> tables \<Rightarrow> tables" where
  "bump_counts f i q t = (let t' = set_comment_count f i t
     in if 0 < q then set_reply_count f q t' else t')"

lemma bump_counts_ok:
  assumes c: "counters_are nc nr t" and wf: "comments_wf t" and f: "\<And>n. 0 \<le> n + d \<Longrightarrow> f n = n + d"
    and nc: "\<And>j. real_comments t j = nc j + (if j = i then d else 0)"
    and nr: "\<And>x. x \<in> set (comments t) \<Longrightarrow> \<not> c_is_deleted x \<Longrightarrow>
       real_replies t (c_id x) = nr (c_id x) + (if 0 < q \<and> c_id x = q then d else 0)"
  shows "comments_ok (bump_counts f i q t)"
proof -
  let ?t = "set_comment_count f i t"
  have c1: "counters_are (nc(i := f (nc i))) nr ?t" by (rule counters_set_comment_count [OF c])
  have nc': "real_comments t j = (nc(i := f (nc i))) j" for j
    using nc [of j] f [of "nc i"] real_nonneg(1) [of t i] nc [of i] by simp
  show ?thesis
  proof (cases "0 < q")
    case False
    then have "counters_are (real_comments t) (real_replies t) ?t"
      using nr by (intro counters_cong [OF c1]) (simp_all add: nc')
    with False wf show ?thesis by (simp add: bump_counts_def comments_ok_def counts_ok_counters)
  next
    case True
    let ?u = "set_reply_count f q ?t"
    have c2: "counters_are (nc(i := f (nc i))) (nr(q := f (nr q))) ?u"
      by (rule counters_set_reply_count [OF c1])
    have "real_replies t (c_id x) = (nr(q := f (nr q))) (c_id x)" if x: "x \<in> set (comments ?u)" "\<not> c_is_deleted x" for x
    proof -
      obtain y where y: "y \<in> set (comments t)" "c_id y = c_id x" "\<not> c_is_deleted y"
        using x by (auto simp: set_reply_count_def set_upd_where split: if_splits)
      have n: "real_replies t (c_id x) = nr (c_id x) + (if c_id x = q then d else 0)"
        using nr [OF y(1,3)] y(2) True by simp
      show ?thesis
      proof (cases "c_id x = q")
        case True
        with n f [of "nr q"] real_nonneg(2) [of t q] show ?thesis by simp
      qed (use n in simp)
    qed
    then have "counters_are (real_comments t) (real_replies t) ?u"
      by (intro counters_cong [OF c2]) (simp_all add: nc')
    with True wf show ?thesis by (simp add: bump_counts_def comments_ok_def counts_ok_counters)
  qed
qed

subsection \<open>The operations keep the counters right\<close>

text \<open>A comment may be created at a post that is there, and as a reply to a comment of the same post.\<close>

definition placed :: "tables \<Rightarrow> CampusForumComment \<Rightarrow> bool" where
  "placed t b \<longleftrightarrow> 0 < bc_id b \<and> bc_post_id b \<in> p_id ` set (posts t) \<and>
     (0 < bc_parent_id b \<longrightarrow> (\<exists>q \<in> set (comments t). c_id q = bc_parent_id b \<and> c_post_id q = bc_post_id b))"

lemma no_replies_of_fresh:
  assumes "comments_wf t" and "\<And>c. c \<in> set (comments t) \<Longrightarrow> c_id c \<noteq> i"
  shows "real_replies t i = 0"
  using assms unfolding real_replies_def comments_wf_def by (intro count_where_zero) auto

lemma createOutbox_E:
  assumes "createNotificationOutboxWithTx E ob w = (Inr x, w')"
  obtains h where "db w' = outbox_update h (db w)"
  using createOutbox_append [OF assms] by blast

lemma CreateComment_tables:
  assumes "CreateComment_rows E b ob w = (Inr x, w')"
  shows "(\<forall>c \<in> set (comments (db w)). c_id c \<noteq> bc_id b) \<and> (\<exists>h. db w' = outbox_update h
    (if bc_status b = CampusAuditStatusVisible
     then bump_counts (\<lambda>n. n + 1) (bc_post_id b) (bc_parent_id b) (comments_update (\<lambda>xs. xs @ [CreateComment_row E b]) (db w))
     else comments_update (\<lambda>xs. xs @ [CreateComment_row E b]) (db w)))"
  using assms unfolding CreateComment_rows_def
  by (auto simp: bump_counts_def elim!: transaction_InrE io_InrE createOutbox_E split: if_splits) blast+

lemma CreateComment_row_simps [simp]:
  "c_id (CreateComment_row E b) = bc_id b" "c_post_id (CreateComment_row E b) = bc_post_id b"
  "c_parent_id (CreateComment_row E b) = bc_parent_id b" "c_reply_count (CreateComment_row E b) = 0"
  "c_status (CreateComment_row E b) = bc_status b" "\<not> c_is_deleted (CreateComment_row E b)"
  "visible_comment (CreateComment_row E b) \<longleftrightarrow> bc_status b = CampusAuditStatusVisible"
  by (simp_all add: CreateComment_row_def visible_comment_def)

lemma comments_wf_snoc:
  assumes "comments_wf t" and "placed t b" and "\<forall>c \<in> set (comments t). c_id c \<noteq> bc_id b"
  shows "comments_wf (comments_update (\<lambda>xs. xs @ [CreateComment_row E b]) t)"
  using assms by (auto simp: comments_wf_def placed_def)

lemma CreateComment_ok:
  assumes ok: "comments_ok (db w)" and pl: "placed (db w) b"
    and run: "CreateComment_rows E b ob w = (Inr x, w')"
  shows "comments_ok (db w')"
proof -
  let ?t = "db w" and ?v = "comments_update (\<lambda>xs. xs @ [CreateComment_row E b]) (db w)"
  from CreateComment_tables [OF run] obtain h where fresh: "\<forall>c \<in> set (comments ?t). c_id c \<noteq> bc_id b"
    and w': "db w' = outbox_update h (if bc_status b = CampusAuditStatusVisible
       then bump_counts (\<lambda>n. n + 1) (bc_post_id b) (bc_parent_id b) ?v else ?v)" by blast
  have wf: "comments_wf ?t" and c: "counters_are (real_comments ?t) (real_replies ?t) ?t"
    using ok by (simp_all add: comments_ok_def counts_ok_counters)
  have wv: "comments_wf ?v" by (rule comments_wf_snoc [OF wf pl fresh])
  have "real_replies ?t (bc_id b) = 0" using fresh by (intro no_replies_of_fresh [OF wf]) simp
  then have cv: "counters_are (real_comments ?t) (real_replies ?t) ?v"
    by (intro counters_snoc [OF c]) simp
  have rc: "real_comments ?v j = real_comments ?t j + (if j = bc_post_id b \<and> bc_status b = CampusAuditStatusVisible then 1 else 0)"
    and rr: "real_replies ?v j = real_replies ?t j +
      (if 0 < bc_parent_id b \<and> j = bc_parent_id b \<and> bc_status b = CampusAuditStatusVisible then 1 else 0)" for j
    by (auto simp: real_comments_def real_replies_def)
  have "comments_ok (bump_counts (\<lambda>n. n + 1) (bc_post_id b) (bc_parent_id b) ?v)"
    if "bc_status b = CampusAuditStatusVisible"
    using that by (intro bump_counts_ok [OF cv wv, of 1]) (simp_all add: rc rr)
  moreover have "comments_ok ?v" if "bc_status b \<noteq> CampusAuditStatusVisible"
    using that counters_cong [OF cv] wv by (simp add: comments_ok_def counts_ok_counters rc rr)
  moreover have "comments_ok (outbox_update h t) = comments_ok t" for h t
    by (simp add: comments_ok_def counts_ok_counters)
  ultimately show ?thesis by (simp add: w')
qed


text \<open>A change of the status.\<close>

lemma UpdateCommentStatus_tables:
  assumes "UpdateCommentStatus_rows E cid status reason w = (Inr x, w')"
  obtains c t where "c \<in> set (comments (db w))" and "c_id c = cid"
    and "t = comments_update (upd_where (\<lambda>r. c_id r = cid) (review_row (now E) status reason)) (db w)"
    and "db w' = (if visible_comment c = (status = CampusAuditStatusVisible) then t
       else bump_counts (\<lambda>n. greatest0 (n + (if status = CampusAuditStatusVisible then 1 else -1)))
              (c_post_id c) (c_parent_id c) t)"
proof -
  obtain c where c: "find (\<lambda>c. c_id c = cid) (comments (db w)) = Some c"
    using assms unfolding UpdateCommentStatus_rows_def
    by (auto elim!: transaction_InrE io_InrE split: option.splits)
  have "db w' = (if visible_comment c = (status = CampusAuditStatusVisible)
       then comments_update (upd_where (\<lambda>r. c_id r = cid) (review_row (now E) status reason)) (db w)
       else bump_counts (\<lambda>n. greatest0 (n + (if status = CampusAuditStatusVisible then 1 else -1)))
              (c_post_id c) (c_parent_id c)
              (comments_update (upd_where (\<lambda>r. c_id r = cid) (review_row (now E) status reason)) (db w)))"
    using assms c unfolding UpdateCommentStatus_rows_def
    by (auto simp: Let_def bump_counts_def visible_comment_def elim!: transaction_InrE io_InrE split: if_splits)
  with find_SomeD [OF c] that show thesis by blast
qed

lemma UpdateCommentStatus_ok:
  assumes ok: "comments_ok (db w)" and run: "UpdateCommentStatus_rows E cid status reason w = (Inr x, w')"
    and fresh: "\<And>c. c \<in> set (comments (db w)) \<Longrightarrow> c_id c = cid \<Longrightarrow> c_is_deleted c \<Longrightarrow> status \<noteq> CampusAuditStatusDeleted \<Longrightarrow>
       c_reply_count c = real_replies (db w) cid"
  shows "comments_ok (db w')"
proof -
  from UpdateCommentStatus_tables [OF run] obtain c t where c: "c \<in> set (comments (db w))" "c_id c = cid"
    and t: "t = comments_update (upd_where (\<lambda>r. c_id r = cid) (review_row (now E) status reason)) (db w)"
    and w': "db w' = (if visible_comment c = (status = CampusAuditStatusVisible) then t
       else bump_counts (\<lambda>n. greatest0 (n + (if status = CampusAuditStatusVisible then 1 else -1)))
              (c_post_id c) (c_parent_id c) t)" by blast
  have wf: "comments_wf (db w)" and cw: "counters_are (real_comments (db w)) (real_replies (db w)) (db w)"
    using ok by (simp_all add: comments_ok_def counts_ok_counters)
  have wt: "comments_wf t" using wf by (simp add: t)
  have "c_reply_count x = real_replies (db w) (c_id x)"
    if "x \<in> set (comments (db w))" "c_id x = cid" "\<not> c_is_deleted (review_row (now E) status reason x)" for x
    using that fresh [of x] cw by (cases "c_is_deleted x") (auto simp: counters_are_def)
  then have ct: "counters_are (real_comments (db w)) (real_replies (db w)) t"
    unfolding t by (intro counters_upd [OF cw same_place_rows(2)])
  define d :: int where "d = (if status = CampusAuditStatusVisible then 1 else 0) - (if visible_comment c then 1 else 0)"
  note one = count_one [of "db w", OF _ c(1), unfolded c(2)]
  have u: "unique_on c_id (comments (db w))" using wf by (simp add: comments_wf_def)
  have rc: "real_comments t j = real_comments (db w) j + (if j = c_post_id c then d else 0)"
    and rr: "real_replies t j = real_replies (db w) j + (if 0 < c_parent_id c \<and> j = c_parent_id c then d else 0)" for j
    using one [OF u] by (auto simp: t d_def real_comments_upd real_replies_upd)
  show ?thesis
  proof (cases "visible_comment c = (status = CampusAuditStatusVisible)")
    case True
    then have "d = 0" by (simp add: d_def)
    then have "counters_are (real_comments t) (real_replies t) t"
      by (intro counters_cong [OF ct]) (simp_all add: rc rr)
    with True wt show ?thesis by (simp add: w' comments_ok_def counts_ok_counters)
  next
    case False
    then have d: "d = (if status = CampusAuditStatusVisible then 1 else -1)" by (auto simp: d_def)
    have "comments_ok (bump_counts (\<lambda>n. greatest0 (n + d)) (c_post_id c) (c_parent_id c) t)"
      by (rule bump_counts_ok [OF ct wt]) (simp_all add: rc rr)
    with False show ?thesis by (simp add: w' d)
  qed
qed


text \<open>A withdrawal: the comment first, then its replies when it is a root.\<close>

definition visible_replies :: "tables \<Rightarrow> int \<Rightarrow> int" where
  "visible_replies t i = count_where (\<lambda>r. c_parent_id r = i \<and> visible_comment r) (comments t)"

definition withdrawn :: "env \<Rightarrow> campusForumCommentModel \<Rightarrow> tables \<Rightarrow> tables" where
  "withdrawn E c t = (let t1 = comments_update (upd_where (\<lambda>r. c_id r = c_id c) (withdraw_row (now E) msg_user_deleted)) t
     in if c_parent_id c = 0
        then comments_update (upd_where (\<lambda>r. c_parent_id r = c_id c \<and> \<not> c_is_deleted r)
               (withdraw_row (now E) msg_parent_withdrawn)) t1
        else t1)"

lemma DeleteComment_tables:
  assumes "DeleteComment_rows E cid w = (Inr x, w')"
  obtains c where "c \<in> set (comments (db w))" and "c_id c = cid" and "\<not> c_is_deleted c"
    and "db w' = (if visible_comment c
       then bump_counts (\<lambda>n. greatest0 (n - (if c_parent_id c = 0 then 1 + visible_replies (db w) cid else 1)))
              (c_post_id c) (c_parent_id c) (withdrawn E c (db w))
       else withdrawn E c (db w))"
proof -
  obtain c where c: "find (\<lambda>c. c_id c = cid \<and> \<not> c_is_deleted c) (comments (db w)) = Some c"
    using assms unfolding DeleteComment_rows_def
    by (auto elim!: transaction_InrE io_InrE split: option.splits)
  note f = find_SomeD [OF c]
  have e: "c_id c = cid" "\<not> c_is_deleted c" using f by auto
  have "db w' = (if visible_comment c
       then bump_counts (\<lambda>n. greatest0 (n - (if c_parent_id c = 0 then 1 + visible_replies (db w) cid else 1)))
              (c_post_id c) (c_parent_id c) (withdrawn E c (db w))
       else withdrawn E c (db w))"
    using assms c e unfolding DeleteComment_rows_def
    by (auto simp: Let_def bump_counts_def visible_comment_def visible_replies_def withdrawn_def
        elim!: transaction_InrE io_InrE split: if_splits)
  with f that show thesis by blast
qed


lemma replies_same_post:
  assumes "comments_wf t" and "c \<in> set (comments t)" and "r \<in> set (comments t)" and "c_parent_id r = c_id c"
  shows "c_post_id r = c_post_id c"
proof -
  have "0 < c_parent_id r" using assms by (simp add: comments_wf_def)
  then obtain q where q: "q \<in> set (comments t)" "c_id q = c_parent_id r" "c_post_id q = c_post_id r"
    using assms(1,3) by (auto simp: comments_wf_def)
  with assms have "q = c" by (intro unique_on_eq [of c_id "comments t"]) (simp_all add: comments_wf_def)
  with q show ?thesis by simp
qed

lemma count_replies_of_root:
  fixes n :: time and s :: string
  assumes wf: "comments_wf t" and c: "c \<in> set (comments t)" "c_parent_id c = 0"
  defines "t1 \<equiv> comments_update (upd_where (\<lambda>r. c_id r = c_id c) (withdraw_row n s)) t"
  shows "count_where (\<lambda>r. (c_parent_id r = c_id c \<and> \<not> c_is_deleted r) \<and> c_post_id r = j \<and> visible_comment r) (comments t1) =
    (if j = c_post_id c then visible_replies t (c_id c) else 0)"
proof -
  have u: "unique_on c_id (comments t)" and pos: "0 < c_id c" using wf c by (simp_all add: comments_wf_def)
  have "count_where (\<lambda>r. (c_parent_id r = c_id c \<and> \<not> c_is_deleted r) \<and> c_post_id r = j \<and> visible_comment r) (comments t1) =
      count_where (\<lambda>r. (c_parent_id r = c_id c \<and> \<not> c_is_deleted r) \<and> c_post_id r = j \<and> visible_comment r) (comments t)"
  proof -
    have "c_parent_id r = 0" if "r \<in> set (comments t)" "c_id r = c_id c" for r
      using unique_on_eq [OF u that(1) c(1) that(2)] c(2) by simp
    with pos show ?thesis unfolding t1_def
      by (simp, intro count_where_upd_same) (auto simp: withdraw_row_def)
  qed
  also have "\<dots> = (if j = c_post_id c then visible_replies t (c_id c) else 0)"
    using replies_same_post [OF wf c(1)]
    by (auto simp: visible_replies_def visible_comment_def intro!: count_where_cong count_where_zero)
  finally show ?thesis .
qed

lemma real_withdraw:
  "real_comments (comments_update (upd_where P (withdraw_row n s)) t) i =
     real_comments t i - count_where (\<lambda>c. P c \<and> c_post_id c = i \<and> visible_comment c) (comments t)"
  "real_replies (comments_update (upd_where P (withdraw_row n s)) t) i =
     real_replies t i - count_where (\<lambda>c. P c \<and> 0 < c_parent_id c \<and> c_parent_id c = i \<and> visible_comment c) (comments t)"
  by (simp_all add: real_comments_upd real_replies_upd)

lemma counters_withdraw:
  "counters_are nc nr t \<Longrightarrow> counters_are nc nr (comments_update (upd_where P (withdraw_row n s)) t)"
  by (rule counters_upd) simp_all

lemma withdrawn_counts:
  assumes wf: "comments_wf t" and c: "c \<in> set (comments t)" "\<not> c_is_deleted c"
  shows "comments_wf (withdrawn E c t)"
    and "real_comments (withdrawn E c t) j = real_comments t j -
      (if j = c_post_id c then (if visible_comment c then 1 else 0) +
         (if c_parent_id c = 0 then visible_replies t (c_id c) else 0) else 0)"
    and "x \<in> set (comments (withdrawn E c t)) \<Longrightarrow> \<not> c_is_deleted x \<Longrightarrow>
      real_replies (withdrawn E c t) (c_id x) = real_replies t (c_id x) -
      (if 0 < c_parent_id c \<and> c_id x = c_parent_id c \<and> visible_comment c then 1 else 0)"
    and "counters_are nc nr t \<Longrightarrow> counters_are nc nr (withdrawn E c t)"
proof -
  let ?t1 = "comments_update (upd_where (\<lambda>r. c_id r = c_id c) (withdraw_row (now E) msg_user_deleted)) t"
  have u: "unique_on c_id (comments t)" using wf by (simp add: comments_wf_def)
  note one = count_one [OF u c(1)]
  have rc: "real_comments ?t1 j = real_comments t j - (if j = c_post_id c \<and> visible_comment c then 1 else 0)" for j
    using one by (auto simp: real_comments_upd)
  have rr: "real_replies ?t1 i = real_replies t i - (if 0 < c_parent_id c \<and> i = c_parent_id c \<and> visible_comment c then 1 else 0)" for i
    using one by (auto simp: real_replies_upd)
  show "comments_wf (withdrawn E c t)" using wf
    unfolding withdrawn_def Let_def by (simp only: wf_frames same_place_rows split: if_split) simp
  show "counters_are nc nr t \<Longrightarrow> counters_are nc nr (withdrawn E c t)"
    unfolding withdrawn_def Let_def by (simp only: counters_withdraw split: if_split) simp
  show "real_comments (withdrawn E c t) j = real_comments t j -
      (if j = c_post_id c then (if visible_comment c then 1 else 0) +
         (if c_parent_id c = 0 then visible_replies t (c_id c) else 0) else 0)"
  proof (cases "c_parent_id c = 0")
    case True
    show ?thesis unfolding withdrawn_def Let_def if_P [OF True] real_withdraw(1) [where t = ?t1] rc
        count_replies_of_root [OF wf c(1) True] by simp
  qed (simp add: withdrawn_def rc)
  assume x: "x \<in> set (comments (withdrawn E c t))" "\<not> c_is_deleted x"
  show "real_replies (withdrawn E c t) (c_id x) = real_replies t (c_id x) -
      (if 0 < c_parent_id c \<and> c_id x = c_parent_id c \<and> visible_comment c then 1 else 0)"
  proof (cases "c_parent_id c = 0")
    case False
    then show ?thesis by (simp add: withdrawn_def rr)
  next
    case True
    have "c_id x \<noteq> c_id c"
      using x True by (auto simp: withdrawn_def Let_def set_upd_where split: if_splits)
    then have "count_where (\<lambda>r. (c_parent_id r = c_id c \<and> \<not> c_is_deleted r) \<and> 0 < c_parent_id r \<and> c_parent_id r = c_id x \<and>
        visible_comment r) (comments ?t1) = 0"
      by (intro count_where_zero) auto
    with True show ?thesis unfolding withdrawn_def Let_def if_P [OF True] real_withdraw(2) [where t = ?t1] rr
      by simp
  qed
qed

text \<open>The counters stay right unless a root that readers did not see still has visible replies.\<close>

lemma DeleteComment_ok:
  assumes ok: "comments_ok (db w)" and run: "DeleteComment_rows E cid w = (Inr x, w')"
    and seen: "\<And>c. c \<in> set (comments (db w)) \<Longrightarrow> c_id c = cid \<Longrightarrow>
       visible_comment c \<or> c_parent_id c \<noteq> 0 \<or> visible_replies (db w) cid = 0"
  shows "comments_ok (db w')"
proof -
  from DeleteComment_tables [OF run] obtain c where c: "c \<in> set (comments (db w))" "c_id c = cid" "\<not> c_is_deleted c"
    and w': "db w' = (if visible_comment c
       then bump_counts (\<lambda>n. greatest0 (n - (if c_parent_id c = 0 then 1 + visible_replies (db w) cid else 1)))
              (c_post_id c) (c_parent_id c) (withdrawn E c (db w))
       else withdrawn E c (db w))" by blast
  let ?d = "if c_parent_id c = 0 then 1 + visible_replies (db w) cid else 1"
  have wf: "comments_wf (db w)" and cw: "counters_are (real_comments (db w)) (real_replies (db w)) (db w)"
    using ok by (simp_all add: comments_ok_def counts_ok_counters)
  note W = withdrawn_counts [OF wf c(1,3), where E = E, unfolded c(2)]
  note ct = W(4) [OF cw]
  show ?thesis
  proof (cases "visible_comment c")
    case True
    have "comments_ok (bump_counts (\<lambda>n. greatest0 (n - ?d)) (c_post_id c) (c_parent_id c) (withdrawn E c (db w)))"
      by (rule bump_counts_ok [OF ct W(1), of "- ?d"]) (simp_all add: W(2,3) True)
    with True show ?thesis by (simp add: w')
  next
    case False
    with seen [OF c(1,2)] have "c_parent_id c = 0 \<Longrightarrow> visible_replies (db w) cid = 0" by simp
    with False have "counters_are (real_comments (withdrawn E c (db w))) (real_replies (withdrawn E c (db w))) (withdrawn E c (db w))"
      by (intro counters_cong [OF ct]) (simp_all add: W(2,3))
    with False W(1) show ?thesis by (simp add: w' comments_ok_def counts_ok_counters)
  qed
qed


datatype comment_op =
    CreateOp CampusForumComment "CampusNotificationOutbox option"
  | ReviewOp int int string
  | WithdrawOp int

fun run_comment_op :: "env \<Rightarrow> comment_op \<Rightarrow> unit io" where
  "run_comment_op E (CreateOp b ob) = CreateCommentWithOutbox E b ob"
| "run_comment_op E (ReviewOp cid status reason) = UpdateCommentStatus E cid status reason"
| "run_comment_op E (WithdrawOp cid) = DeleteComment_repo E cid"

text \<open>
  When the counters stay right: a new comment is placed at a post and a parent that are there; a
  row that is restored has kept its number of replies; a withdrawn root is one that readers saw,
  or has no visible reply.
\<close>

fun counters_safe :: "tables \<Rightarrow> comment_op \<Rightarrow> bool" where
  "counters_safe t (CreateOp b ob) = placed t b"
| "counters_safe t (ReviewOp cid status reason) = list_all (\<lambda>c. c_id c = cid \<and> c_is_deleted c \<and>
     status \<noteq> CampusAuditStatusDeleted \<longrightarrow> c_reply_count c = real_replies t cid) (comments t)"
| "counters_safe t (WithdrawOp cid) = list_all (\<lambda>c. c_id c = cid \<longrightarrow>
     visible_comment c \<or> c_parent_id c \<noteq> 0 \<or> visible_replies t cid = 0) (comments t)"

lemma cache_steps_then:
  "cache_step (io_then (invalidatePostDetailCache E i) (deleteCacheKeys E ks))" by simp

lemma comment_op_run:
  assumes "run_comment_op E op w = (r, w')"
  shows "db w' = db w \<or> (\<exists>x w1. (case op of
      CreateOp b ob \<Rightarrow> CreateComment_rows E b ob w = (Inr (), w1)
    | ReviewOp cid status reason \<Rightarrow> UpdateCommentStatus_rows E cid status reason w = (Inr x, w1)
    | WithdrawOp cid \<Rightarrow> DeleteComment_rows E cid w = (Inr x, w1)) \<and> db w' = db w1)"
proof (cases op)
  case (CreateOp b ob)
  have atomic: "CreateComment_rows E b ob w = (Inl e, w') \<Longrightarrow> db w' = db w" for e w'
    unfolding CreateComment_rows_def by (rule transaction_atomic)
  from CreateOp assms atomic show ?thesis
    by (auto simp: CreateCommentWithOutbox_def elim!: io_then_E dest!: cache_stepD [OF cache_steps(3)]
        cache_stepD [OF cache_step_invalidate(1)])
next
  case (ReviewOp cid status reason)
  have atomic: "UpdateCommentStatus_rows E cid status reason w = (Inl e, w') \<Longrightarrow> db w' = db w" for e w'
    unfolding UpdateCommentStatus_rows_def by (rule transaction_atomic)
  from ReviewOp assms atomic show ?thesis
    by (auto simp: UpdateCommentStatus_def elim!: io_then_E io_bind_E dest!: cache_stepD [OF cache_steps(3)]
        cache_stepD [OF cache_step_invalidate(1)] split: if_splits)
next
  case (WithdrawOp cid)
  have atomic: "DeleteComment_rows E cid w = (Inl e, w') \<Longrightarrow> db w' = db w" for e w'
    unfolding DeleteComment_rows_def by (rule transaction_atomic)
  from WithdrawOp assms atomic show ?thesis
    by (auto simp: DeleteComment_repo_def elim!: io_then_E io_bind_E dest!: cache_stepD [OF cache_steps(3)]
        cache_stepD [OF cache_step_invalidate(1)])
qed

text \<open>
  C7. Creating, reviewing and withdrawing comments, with any pattern of failures, keeps the
  counters: every post that is not deleted shows the number of its visible comments and every
  comment that is not deleted the number of its visible replies, given that the operation is one
  of \<open>counters_safe\<close>.
\<close>

theorem comment_counters_preserved:
  assumes "comments_ok (db w)" and "counters_safe (db w) op" and "run_comment_op E op w = (r, w')"
  shows "comments_ok (db w') \<and>
    list_all (\<lambda>p. p_is_deleted p \<or> p_comment_count p = count_where (\<lambda>c. c_post_id c = p_id p \<and>
       c_status c = CampusAuditStatusVisible \<and> \<not> c_is_deleted c) (comments (db w'))) (posts (db w'))"
proof -
  have "comments_ok (db w')"
    using comment_op_run [OF assms(3)]
  proof (elim disjE exE conjE)
    assume "db w' = db w"
    with assms(1) show ?thesis by simp
  next
    fix x w1
    assume run: "case op of
      CreateOp b ob \<Rightarrow> CreateComment_rows E b ob w = (Inr (), w1)
    | ReviewOp cid status reason \<Rightarrow> UpdateCommentStatus_rows E cid status reason w = (Inr x, w1)
    | WithdrawOp cid \<Rightarrow> DeleteComment_rows E cid w = (Inr x, w1)" and e: "db w' = db w1"
    have "comments_ok (db w1)"
    proof (cases op)
      case (CreateOp b ob)
      with run assms(2) show ?thesis by (intro CreateComment_ok [OF assms(1)]) simp_all
    next
      case (ReviewOp cid status reason)
      with run assms(2) show ?thesis
        by (intro UpdateCommentStatus_ok [OF assms(1)]) (auto simp: list_all_iff)
    next
      case (WithdrawOp cid)
      with run assms(2) show ?thesis
        by (intro DeleteComment_ok [OF assms(1)]) (auto simp: list_all_iff)
    qed
    with e show ?thesis by simp
  qed
  then show ?thesis
    by (auto simp: comments_ok_def counts_ok_def real_comments_def visible_comment_def list_all_iff)
qed


subsection \<open>Samples\<close>

definition sample_comment :: campusForumCommentModel where
  "sample_comment = \<lparr>c_id = 2, c_post_id = 1, c_parent_id = 0, c_reply_to_comment_id = 0,
     c_reply_to_user_id = 0, c_author_id = 5, c_content = ''root'', c_images = [], c_status = 1,
     c_audit_reason = [], c_like_count = 0, c_reply_count = 1, c_is_deleted = False,
     c_created_at = 0, c_updated_at = 0\<rparr>"

text \<open>A post with a comment and a reply to it.\<close>

definition thread_world :: world where
  "thread_world = sample_world\<lparr>db := empty_tables\<lparr>
     posts := [sample_post\<lparr>p_comment_count := 2\<rparr>],
     comments := [sample_comment,
       sample_comment\<lparr>c_id := 3, c_parent_id := 2, c_reply_count := 0, c_content := ''reply''\<rparr>]\<rparr>\<rparr>"

lemmas thread_defs = thread_world_def sample_comment_def sample_defs audit_status_defs

lemmas comment_io_eval = io_online ignore_def attempt_def invalidatePostDetailCache_def deleteCacheKeys_def
  cacheEnabled_def CreateCommentWithOutbox_def CreateComment_rows_def
  CreateComment_row_def UpdateCommentStatus_def UpdateCommentStatus_rows_def DeleteComment_repo_def
  DeleteComment_rows_def withdraw_row_def review_row_def set_comment_count_def set_reply_count_def Let_def

lemma thread_ok [simp]: "comments_ok (db thread_world)"
  by (simp add: thread_defs comments_ok_def comments_wf_def counts_ok_def real_comments_def
      real_replies_def visible_comment_def unique_on_def)

text \<open>The reply is withdrawn, while the cache is down.\<close>

theorem comment_counters_preserved_witness:
  "\<exists>w'. run_comment_op sample_env (WithdrawOp 3) (thread_world\<lparr>rds_on := False\<rparr>) = (Inr (), w') \<and>
     comments_ok (db w') \<and> map p_comment_count (posts (db w')) = [1] \<and>
     map c_reply_count (comments (db w')) = [0, 0]"
proof -
  let ?w = "thread_world\<lparr>rds_on := False\<rparr>"
  let ?r = "run_comment_op sample_env (WithdrawOp 3) ?w"
  have f: "fst ?r = Inr ()" by (simp add: comment_io_eval thread_defs)
  have c: "map p_comment_count (posts (db (snd ?r))) = [1]" by (simp add: comment_io_eval thread_defs)
  have n: "map c_reply_count (comments (db (snd ?r))) = [0, 0]" by (simp add: comment_io_eval thread_defs)
  have "comments_ok (db ?w)" by simp
  moreover have "counters_safe (db ?w) (WithdrawOp 3)" by (simp add: thread_defs visible_comment_def)
  ultimately have "comments_ok (db (snd ?r))" by (rule comment_counters_preserved [OF _ _ prod.collapse [symmetric], THEN conjunct1])
  with f c n show ?thesis by (intro exI [of _ "snd ?r"]) (simp add: prod_eq_iff)
qed

fun run_comment_ops :: "env \<Rightarrow> comment_op list \<Rightarrow> unit io" where
  "run_comment_ops E [] = ret ()"
| "run_comment_ops E (op # ops) = io_then (run_comment_op E op) (run_comment_ops E ops)"

lemma run_two:
  assumes "run_comment_op E a w = (Inr (), w1)" and "run_comment_op E b w1 = (Inr (), w2)"
  shows "run_comment_ops E [a, b] w = (Inr (), w2)"
  using assms by (simp add: io_then_def io_bind_def)

text \<open>The thread after its root was rejected, and after it was withdrawn, with no cache.\<close>

abbreviation thread_offline :: world where "thread_offline \<equiv> thread_world\<lparr>rds_on := False\<rparr>"

definition rejected_world :: world where
  "rejected_world = thread_offline\<lparr>db := empty_tables\<lparr>
     posts := [sample_post\<lparr>p_comment_count := 1\<rparr>],
     comments := [review_row 100 CampusAuditStatusRejected [] sample_comment,
       sample_comment\<lparr>c_id := 3, c_parent_id := 2, c_reply_count := 0, c_content := ''reply''\<rparr>]\<rparr>\<rparr>"

definition withdrawn_world :: world where
  "withdrawn_world = thread_offline\<lparr>db := empty_tables\<lparr>
     posts := [sample_post],
     comments := [withdraw_row 100 msg_user_deleted sample_comment, withdraw_row 100 msg_parent_withdrawn
       (sample_comment\<lparr>c_id := 3, c_parent_id := 2, c_reply_count := 0, c_content := ''reply''\<rparr>)]\<rparr>\<rparr>"

lemma rejected_run: "run_comment_op sample_env (ReviewOp 2 CampusAuditStatusRejected []) thread_offline = (Inr (), rejected_world)"
  by (simp add: comment_io_eval thread_defs rejected_world_def)

lemma withdrawn_run: "run_comment_op sample_env (WithdrawOp 2) thread_offline = (Inr (), withdrawn_world)"
  by (simp add: comment_io_eval thread_defs withdrawn_world_def)


text \<open>
  The exception for restored rows is real too: a withdrawn comment that an operator makes
  visible again shows one reply, though its reply was withdrawn with it and stays so.
\<close>

theorem restoring_root_miscounts:
  "\<exists>w'. run_comment_ops sample_env [WithdrawOp 2, ReviewOp 2 CampusAuditStatusVisible []] thread_offline = (Inr (), w') \<and>
     map p_comment_count (posts (db w')) = [1] \<and> real_comments (db w') 1 = 1 \<and>
     map c_reply_count (comments (db w')) = [1, 0] \<and> real_replies (db w') 2 = 0"
proof -
  let ?r = "run_comment_op sample_env (ReviewOp 2 CampusAuditStatusVisible []) withdrawn_world"
  have f: "fst ?r = Inr ()" by (simp add: comment_io_eval thread_defs withdrawn_world_def)
  have f0: "map p_comment_count (posts (db (snd ?r))) = [1]" by (simp add: comment_io_eval thread_defs withdrawn_world_def real_comments_def real_replies_def visible_comment_def)
  have f1: "real_comments (db (snd ?r)) 1 = 1" by (simp add: comment_io_eval thread_defs withdrawn_world_def real_comments_def real_replies_def visible_comment_def)
  have f2: "map c_reply_count (comments (db (snd ?r))) = [1, 0]" by (simp add: comment_io_eval thread_defs withdrawn_world_def real_comments_def real_replies_def visible_comment_def)
  have f3: "real_replies (db (snd ?r)) 2 = 0" by (simp add: comment_io_eval thread_defs withdrawn_world_def real_comments_def real_replies_def visible_comment_def)
  from f have "?r = (Inr (), snd ?r)" by (simp add: prod_eq_iff)
  with f0 f1 f2 f3 show ?thesis by (intro exI [of _ "snd ?r"] conjI run_two [OF withdrawn_run]) assumption+
qed


subsection \<open>Reconciliation repairs the counters\<close>

definition all_counters_right :: "tables \<Rightarrow> bool" where
  "all_counters_right t \<longleftrightarrow>
     list_all (\<lambda>p. p_is_deleted p \<or> (p_like_count p = active_count (post_likes t) (p_id p) \<and>
       p_collected_count p = active_count (post_collections t) (p_id p) \<and>
       p_comment_count p = real_comments t (p_id p))) (posts t) \<and>
     list_all (\<lambda>c. c_is_deleted c \<or> (c_like_count c = active_count (comment_likes t) (c_id c) \<and>
       c_reply_count c = real_replies t (c_id c))) (comments t)"

lemma all_counters_right_differ:
  "all_counters_right t \<longleftrightarrow> list_all (\<lambda>p. \<not> post_stats_differ t p) (posts t) \<and>
     list_all (\<lambda>c. \<not> comment_stats_differ t c) (comments t)"
  by (auto simp: all_counters_right_def post_stats_differ_def comment_stats_differ_def list_all_iff)

definition reconcile_post :: "time \<Rightarrow> tables \<Rightarrow> campusForumPostModel \<Rightarrow> campusForumPostModel" where
  "reconcile_post n t p = p\<lparr>p_like_count := active_count (post_likes t) (p_id p),
     p_collected_count := active_count (post_collections t) (p_id p),
     p_comment_count := real_comments t (p_id p), p_updated_at := n\<rparr>"

definition reconcile_comment :: "time \<Rightarrow> tables \<Rightarrow> campusForumCommentModel \<Rightarrow> campusForumCommentModel" where
  "reconcile_comment n t c = c\<lparr>c_like_count := active_count (comment_likes t) (c_id c),
     c_reply_count := real_replies t (c_id c), c_updated_at := n\<rparr>"

definition reconciled :: "time \<Rightarrow> tables \<Rightarrow> tables" where
  "reconciled n t = comments_update (upd_where (comment_stats_differ t) (reconcile_comment n t))
     (posts_update (upd_where (post_stats_differ t) (reconcile_post n t)) t)"

lemma posts_update_frames [simp]:
  "real_replies (posts_update f t) = real_replies t" "comment_stats_differ (posts_update f t) = comment_stats_differ t"
  "reconcile_comment n (posts_update f t) = reconcile_comment n t"
  by (rule ext, simp add: real_replies_def comment_stats_differ_def reconcile_comment_def)+

lemma Reconcile_tables:
  "ReconcileCampusStats E w = (Inr n, w') \<Longrightarrow> db w' = reconciled (now E) (db w) \<and>
     n = (count_where (post_stats_differ (db w)) (posts (db w)), count_where (comment_stats_differ (db w)) (comments (db w)))"
  unfolding ReconcileCampusStats_def reconciled_def reconcile_post_def [abs_def] reconcile_comment_def [abs_def]
  by (auto simp: get_world_def elim!: transaction_InrE io_InrE)

lemma reconciled_right: "all_counters_right (reconciled n t)"
proof -
  let ?t = "reconciled n t"
  have [simp]: "post_likes ?t = post_likes t" "post_collections ?t = post_collections t"
    "comment_likes ?t = comment_likes t" by (simp_all add: reconciled_def)
  have [simp]: "real_comments ?t = real_comments t" "real_replies ?t = real_replies t"
    by (rule ext, simp add: real_comments_def real_replies_def reconciled_def, intro count_where_upd_same,
      auto simp: reconcile_comment_def visible_comment_def)+
  have p: "p_like_count p = active_count (post_likes t) (p_id p) \<and> p_collected_count p = active_count (post_collections t) (p_id p) \<and>
      p_comment_count p = real_comments t (p_id p)" if "p \<in> set (posts ?t)" "\<not> p_is_deleted p" for p
    using that by (auto simp: reconciled_def set_upd_where post_stats_differ_def reconcile_post_def split: if_splits)
  have c: "c_like_count c = active_count (comment_likes t) (c_id c) \<and> c_reply_count c = real_replies t (c_id c)"
    if "c \<in> set (comments ?t)" "\<not> c_is_deleted c" for c
    using that by (auto simp: reconciled_def set_upd_where comment_stats_differ_def reconcile_comment_def split: if_splits)
  from p c show ?thesis by (simp add: all_counters_right_def list_all_iff) blast
qed

text \<open>
  C8. Whatever the counters were, a successful reconciliation leaves every counter of every post
  and comment that is not deleted at the number of likes, collections, visible comments and
  visible replies in the tables; a failed one changes nothing; and a run when the counters are
  right reports and changes nothing.
\<close>

theorem ReconcileCampusStats_repairs:
  assumes "ReconcileCampusStats E w = (r, w')"
  shows "(case r of
      Inl e \<Rightarrow> db w' = db w
    | Inr n \<Rightarrow> all_counters_right (db w') \<and> (all_counters_right (db w) \<longrightarrow> n = (0, 0) \<and> db w' = db w))"
proof (cases r)
  case (Inl e)
  with assms show ?thesis by (auto simp: ReconcileCampusStats_def dest: transaction_atomic)
next
  case (Inr n)
  with assms Reconcile_tables have t: "db w' = reconciled (now E) (db w)" and
    n: "n = (count_where (post_stats_differ (db w)) (posts (db w)), count_where (comment_stats_differ (db w)) (comments (db w)))"
    by blast+
  have "n = (0, 0) \<and> db w' = db w" if "all_counters_right (db w)"
  proof -
    have p: "\<not> post_stats_differ (db w) p" if "p \<in> set (posts (db w))" for p
      using \<open>all_counters_right (db w)\<close> that by (auto simp: all_counters_right_differ list_all_iff)
    have c: "\<not> comment_stats_differ (db w) c" if "c \<in> set (comments (db w))" for c
      using \<open>all_counters_right (db w)\<close> that by (auto simp: all_counters_right_differ list_all_iff)
    have "upd_where (post_stats_differ (db w)) f (posts (db w)) = posts (db w)" for f
      by (rule upd_where_none) (rule p)
    moreover have "upd_where (comment_stats_differ (db w)) f (comments (db w)) = comments (db w)" for f
      by (rule upd_where_none) (rule c)
    ultimately have "db w' = db w" by (simp add: t reconciled_def)
    with p c show ?thesis by (simp add: n count_where_zero)
  qed
  with Inr show ?thesis by (simp add: t reconciled_right)
qed

theorem ReconcileCampusStats_repairs_witness:
  "\<exists>w'. ReconcileCampusStats sample_env thread_offline = (Inr (1, 0), w') \<and> all_counters_right (db w')
     \<and> \<not> all_counters_right (db thread_offline)"
proof -
  let ?r = "ReconcileCampusStats sample_env thread_offline"
  have f: "fst ?r = Inr (1, 0)"
    by (simp add: ReconcileCampusStats_def io_online get_world_def post_stats_differ_def comment_stats_differ_def
        thread_defs active_count_def real_comments_def real_replies_def visible_comment_def)
  have "all_counters_right (db (snd ?r))"
    using ReconcileCampusStats_repairs [OF prod.collapse [symmetric], of sample_env thread_offline] by (simp add: f)
  moreover have "\<not> all_counters_right (db thread_offline)"
    by (simp add: all_counters_right_def thread_defs active_count_def real_comments_def visible_comment_def)
  ultimately show ?thesis using f by (intro exI [of _ "snd ?r"]) (simp add: prod_eq_iff)
qed

end
