(* ===== verification/Ezai.thy ===== *)
theory Ezai
  imports Telemetry TaskQueue CommentRepo
begin

text \<open>
  The bot that answers in the comments (\<open>biz/campus.go\<close>): its persona and where it is stored, who
  mentions it, what is left of a comment without the mentions, and what happens when a comment
  mentions it (\<open>handleEzaiMention\<close>, \<open>notifyEzaiHandoff\<close>). The environment is read where the
  code has read it at the start (\<open>aiReplyConfig\<close>).
\<close>

subsection \<open>Configuration and persona\<close>

definition aiReplyConfig_BotUserID :: "env \<Rightarrow> string" where
  "aiReplyConfig_BotUserID E =
     trim_space (firstNonEmpty [getenv E ''CAMPUS_EZAI_BOT_USER_ID'', getenv E ''CAMPUS_EZAI_USER_ID''])"

definition aiReplyConfig_APIKey :: "env \<Rightarrow> string" where
  "aiReplyConfig_APIKey E =
     trim_space (firstNonEmpty [getenv E ''CAMPUS_AI_API_KEY'', getenv E ''DEEPSEEK_API_KEY''])"

definition ezaiModelConfigured :: "env \<Rightarrow> bool" where
  "ezaiModelConfigured E \<longleftrightarrow> trim_space (aiReplyConfig_APIKey E) \<noteq> [] \<and>
     trim_space (aiReplyConfig_BotUserID E) \<noteq> []"

definition ezaiAutoReplyEnabled :: "env \<Rightarrow> bool io" where
  "ezaiAutoReplyEnabled E = (let v = getenv E ''CAMPUS_AI_EZAI_ENABLED'' in
     io_bind (attempt (GetOpsSetting ''ezai_auto_reply_enabled'')) (\<lambda>res. ret (case res of
       Inl e \<Rightarrow> envBoolDefault v True
     | Inr None \<Rightarrow> envBoolDefault v True
     | Inr (Some (value, by, when)) \<Rightarrow>
         if trim_space by = [] \<and> trim_space v \<noteq> []
         then envBoolDefault v (parseBoolSetting value True)
         else parseBoolSetting value True)))"

definition ezaiAutoReplyEffective :: "env \<Rightarrow> bool io" where
  "ezaiAutoReplyEffective E = io_and (ret (ezaiModelConfigured E)) (ezaiAutoReplyEnabled E)"

record CampusEzaiPersonaConfig =
  pe_name :: string
  pe_role :: string
  pe_personality :: string
  pe_tone :: string
  pe_style_rules :: string
  pe_safety_rules :: string
  pe_no_knowledge_reply :: string
  pe_fallback_reply :: string
  pe_max_reply_chars :: int
  pe_prompt_version :: string
  pe_updated_by :: string
  pe_updated_at :: time

definition defaultEzaiPersonaConfig :: CampusEzaiPersonaConfig where
  "defaultEzaiPersonaConfig = \<lparr>
     pe_name = msg_ezai_long,
     pe_role = msg_persona_role,
     pe_personality = msg_persona_personality,
     pe_tone = msg_persona_tone,
     pe_style_rules = msg_persona_style,
     pe_safety_rules = msg_persona_safety,
     pe_no_knowledge_reply = msg_persona_no_knowledge,
     pe_fallback_reply = msg_persona_fallback,
     pe_max_reply_chars = 140,
     pe_prompt_version = ''ezai-persona-v1'',
     pe_updated_by = [], pe_updated_at = 0\<rparr>"

definition normalizeEzaiPersonaConfig :: "CampusEzaiPersonaConfig option \<Rightarrow> CampusEzaiPersonaConfig" where
  "normalizeEzaiPersonaConfig inp = (let base = defaultEzaiPersonaConfig in
     case inp of None \<Rightarrow> base
     | Some i \<Rightarrow> let keep = (\<lambda>f n. trimLimit (firstNonEmpty [f i, f base]) n) in \<lparr>
         pe_name = keep pe_name 24,
         pe_role = keep pe_role 120,
         pe_personality = keep pe_personality 120,
         pe_tone = keep pe_tone 120,
         pe_style_rules = keep pe_style_rules 360,
         pe_safety_rules = keep pe_safety_rules 360,
         pe_no_knowledge_reply = keep pe_no_knowledge_reply 160,
         pe_fallback_reply = keep pe_fallback_reply 160,
         pe_max_reply_chars = (let n = (if pe_max_reply_chars i < 60 then 60 else pe_max_reply_chars i)
           in if 220 < n then 220 else n),
         pe_prompt_version = keep pe_prompt_version 40,
         pe_updated_by = pe_updated_by i,
         pe_updated_at = pe_updated_at i\<rparr>)"

text \<open>The settings a persona is stored in, with what reading one does and what is written there.\<close>

definition persona_specs ::
    "(string \<times> (string \<Rightarrow> CampusEzaiPersonaConfig \<Rightarrow> CampusEzaiPersonaConfig) \<times> (CampusEzaiPersonaConfig \<Rightarrow> string)) list"
where
  "persona_specs = [
     (''ezai_persona_name'', (\<lambda>v p. p\<lparr>pe_name := v\<rparr>), pe_name),
     (''ezai_persona_role'', (\<lambda>v p. p\<lparr>pe_role := v\<rparr>), pe_role),
     (''ezai_persona_personality'', (\<lambda>v p. p\<lparr>pe_personality := v\<rparr>), pe_personality),
     (''ezai_persona_tone'', (\<lambda>v p. p\<lparr>pe_tone := v\<rparr>), pe_tone),
     (''ezai_persona_style_rules'', (\<lambda>v p. p\<lparr>pe_style_rules := v\<rparr>), pe_style_rules),
     (''ezai_persona_safety_rules'', (\<lambda>v p. p\<lparr>pe_safety_rules := v\<rparr>), pe_safety_rules),
     (''ezai_persona_no_knowledge_reply'', (\<lambda>v p. p\<lparr>pe_no_knowledge_reply := v\<rparr>), pe_no_knowledge_reply),
     (''ezai_persona_fallback_reply'', (\<lambda>v p. p\<lparr>pe_fallback_reply := v\<rparr>), pe_fallback_reply),
     (''ezai_persona_max_reply_chars'', (\<lambda>v p. case parse_int64 (trim_space v) of (n, ok) \<Rightarrow>
        if ok then p\<lparr>pe_max_reply_chars := n\<rparr> else p), (\<lambda>p. fmt_d (pe_max_reply_chars p))),
     (''ezai_persona_prompt_version'', (\<lambda>v p. p\<lparr>pe_prompt_version := v\<rparr>), pe_prompt_version)]"

text \<open>The newest of the settings says who changed the persona last.\<close>

fun load_persona ::
    "(string \<times> (string \<Rightarrow> CampusEzaiPersonaConfig \<Rightarrow> CampusEzaiPersonaConfig) \<times> (CampusEzaiPersonaConfig \<Rightarrow> string)) list \<Rightarrow>
     CampusEzaiPersonaConfig \<Rightarrow> time \<Rightarrow> string \<Rightarrow> (CampusEzaiPersonaConfig \<times> time \<times> string) io"
where
  "load_persona [] p latest latestBy = ret (p, latest, latestBy)"
| "load_persona ((key, apply_value, _) # specs) p latest latestBy =
     io_bind (GetOpsSetting key) (\<lambda>s. case s of
       None \<Rightarrow> load_persona specs p latest latestBy
     | Some (value, by, when) \<Rightarrow> (if latest < when then load_persona specs (apply_value value p) when by
         else load_persona specs (apply_value value p) latest latestBy))"

definition getEzaiPersonaConfig :: "CampusEzaiPersonaConfig io" where
  "getEzaiPersonaConfig =
     io_bind (load_persona persona_specs defaultEzaiPersonaConfig 0 []) (\<lambda>(p, latest, latestBy).
     ret ((normalizeEzaiPersonaConfig (Some p))\<lparr>pe_updated_at := latest, pe_updated_by := latestBy\<rparr>))"

fun save_settings :: "env \<Rightarrow> string \<Rightarrow> (string \<times> string) list \<Rightarrow> unit io" where
  "save_settings E by [] = ret ()"
| "save_settings E by ((key, value) # kvs) = io_then (SetOpsSetting E key value by) (save_settings E by kvs)"

definition saveEzaiPersonaConfig :: "env \<Rightarrow> CampusEzaiPersonaConfig \<Rightarrow> string \<Rightarrow> unit io" where
  "saveEzaiPersonaConfig E persona updatedBy = (let p = normalizeEzaiPersonaConfig (Some persona) in
     save_settings E updatedBy (map (\<lambda>(key, _, value_of). (key, value_of p)) persona_specs))"

definition AdminGetEzaiPersona :: "env \<Rightarrow> string \<Rightarrow> CampusEzaiPersonaConfig io" where
  "AdminGetEzaiPersona E user = io_bind (isCampusOperator E user) (\<lambda>ok.
     if \<not> ok then fail (Forbidden msg_no_admin_right)
     else or_fail (internal msg_read_persona_failed) getEzaiPersonaConfig)"

text \<open>The input has the fields of the persona, of which the last two are not filled in.\<close>

definition AdminUpdateEzaiPersona :: "env \<Rightarrow> string \<Rightarrow> CampusEzaiPersonaConfig \<Rightarrow> CampusEzaiPersonaConfig io" where
  "AdminUpdateEzaiPersona E user input = io_bind (isCampusOperator E user) (\<lambda>ok.
     if \<not> ok then fail (Forbidden msg_no_admin_right)
     else io_then (or_fail (internal msg_save_persona_failed)
       (saveEzaiPersonaConfig E (normalizeEzaiPersonaConfig (Some (input\<lparr>pe_updated_by := [], pe_updated_at := 0\<rparr>))) user))
     (or_fail (internal msg_read_persona_failed) getEzaiPersonaConfig))"

subsection \<open>Mentions\<close>

definition containsEzaiMention :: "string \<Rightarrow> string list \<Rightarrow> bool" where
  "containsEzaiMention content aliases = (let text = to_lower (trim_space content) in
     list_ex (\<lambda>alias. let a = trim_space alias in
       a \<noteq> [] \<and> (contains text (''@'' @ to_lower a) \<or> contains text (msg_fullwidth_at @ to_lower a)))
     ([msg_ezai_long, msg_ezai] @ aliases))"

text \<open>\<open>strings.NewReplacer(old1, "", old2, "", ..).Replace\<close> for non-empty old strings: at every
  position the first old string that matches is taken out.\<close>

function remove_all :: "string list \<Rightarrow> string \<Rightarrow> string" where
  "remove_all olds [] = []"
| "remove_all olds (c # cs) = (case find (\<lambda>p. p \<noteq> [] \<and> has_prefix (c # cs) p) olds of
     None \<Rightarrow> c # remove_all olds cs
   | Some p \<Rightarrow> remove_all olds (drop (length p) (c # cs)))"
  by pat_completeness auto
termination
  by (relation "measure (\<lambda>(olds, s). length s)") (auto simp: find_Some_iff)

text \<open>\<open>strings.ReplaceAll(s, "  ", " ")\<close>, and the loop around it.\<close>

fun halve_spaces :: "string \<Rightarrow> string" where
  "halve_spaces (CHR '' '' # CHR '' '' # s) = CHR '' '' # halve_spaces s"
| "halve_spaces (c # s) = c # halve_spaces s"
| "halve_spaces [] = []"

lemma halve_spaces_length: "length (halve_spaces s) \<le> length s"
  by (induction s rule: halve_spaces.induct) auto

lemma halve_spaces_shorter: "contains s ''  '' \<Longrightarrow> length (halve_spaces s) < length s"
proof (induction s rule: halve_spaces.induct)
  case (1 s)
  then show ?case using halve_spaces_length [of s] by simp
qed (auto simp: has_prefix_def)

function collapse_spaces :: "string \<Rightarrow> string" where
  "collapse_spaces s = (if contains s ''  '' then collapse_spaces (halve_spaces s) else s)"
  by auto
termination
  by (relation "measure length") (auto simp: halve_spaces_shorter)

declare collapse_spaces.simps [simp del]

definition mention_forms :: "string list \<Rightarrow> string list" where
  "mention_forms aliases =
     [''@'' @ msg_ezai_long, msg_fullwidth_at @ msg_ezai_long, ''@'' @ msg_ezai, msg_fullwidth_at @ msg_ezai]
     @ concat (map (\<lambda>a. [''@'' @ a, msg_fullwidth_at @ a])
       (filter (\<lambda>a. \<not> (a = [] \<or> a = msg_ezai_long \<or> a = msg_ezai)) (map trim_space aliases)))"

definition stripEzaiMention :: "string \<Rightarrow> string list \<Rightarrow> string" where
  "stripEzaiMention content aliases =
     collapse_spaces (trim_space (remove_all (mention_forms aliases) content))"

text \<open>The name of the persona; when it cannot be read, none.\<close>

definition persona_name :: "string io" where
  "persona_name = io_bind (attempt getEzaiPersonaConfig) (\<lambda>r. ret (case r of Inl e \<Rightarrow> [] | Inr p \<Rightarrow> pe_name p))"

subsection \<open>A comment that mentions the bot\<close>

definition notifyEzaiHandoff ::
    "env \<Rightarrow> int \<Rightarrow> int \<Rightarrow> string \<Rightarrow> string \<Rightarrow> string \<Rightarrow> unit io" where
  "notifyEzaiHandoff E postID triggerCommentID actorID content reason =
     (let bot = trim_space (aiReplyConfig_BotUserID E) in
     if bot = [] \<or> trim_space actorID = [] \<or> actorID = bot \<or> postID \<le> 0 \<or> triggerCommentID \<le> 0 then ret ()
     else io_bind (buildNotificationOutbox E (Some (zero_CampusNotification\<lparr>
         nt_recipient_id := bot,
         nt_actor_id := actorID,
         nt_event_type := ''mention'',
         nt_target_type := ''post'',
         nt_target_id := postID,
         nt_dedupe_key := ''campus:ezai-handoff:'' @ fmt_d triggerCommentID,
         nt_title := msg_ezai_handoff_title,
         nt_content := (if trim_space content \<noteq> [] then trimLimit content 100 else msg_ezai_handoff_detail),
         nt_link_page := ''post-detail'',
         nt_link_params := [(''id'', fmt_d postID), (''comment'', fmt_d triggerCommentID),
           (''reason'', trimLimit reason 60)]\<rparr>)) True) (\<lambda>notification.
       ignore (createNotificationOutboxWithTx E notification)))"

definition handleEzaiMention :: "env \<Rightarrow> CampusForumComment \<Rightarrow> unit io" where
  "handleEzaiMention E comment = (let bot = trim_space (aiReplyConfig_BotUserID E);
       handoff = notifyEzaiHandoff E (bc_post_id comment) (bc_id comment) (bc_author_id comment) (bc_content comment)
     in if bot = [] \<or> bc_author_id comment = bot then ret ()
     else io_bind persona_name (\<lambda>name.
     if \<not> containsEzaiMention (bc_content comment) [name] then ret ()
     else io_bind (ezaiAutoReplyEnabled E) (\<lambda>enabled.
     if \<not> enabled then handoff ''auto_reply_disabled''
     else if \<not> ezaiModelConfigured E then handoff ''model_not_configured''
     else io_bind persona_name (\<lambda>name2. let
         stripped = stripEzaiMention (bc_content comment) [name2];
         prompt = (if trim_space stripped = [] then bc_content comment else stripped)
       in io_bind (NextID E) (\<lambda>taskID.
       io_bind (attempt (CreateAIReplyTask E (zero_CampusAIReplyTask\<lparr>
         br_id := taskID,
         br_post_id := bc_post_id comment,
         br_root_comment_id := (if 0 < bc_parent_id comment then bc_parent_id comment else bc_id comment),
         br_trigger_comment_id := bc_id comment,
         br_asker_id := bc_author_id comment,
         br_bot_user_id := aiReplyConfig_BotUserID E,
         br_prompt := trimLimit prompt 500,
         br_status := ''pending''\<rparr>))) (\<lambda>r.
       case r of Inr _ \<Rightarrow> ret () | Inl e \<Rightarrow> handoff ''queue_failed''))))))"

subsection \<open>What is left without the mentions\<close>

text \<open>The reference: no space follows a space.\<close>

fun single_spaces :: "string \<Rightarrow> string" where
  "single_spaces (CHR '' '' # CHR '' '' # s) = single_spaces (CHR '' '' # s)"
| "single_spaces (c # s) = c # single_spaces s"
| "single_spaces [] = []"

lemma single_spaces_Cons:
  "single_spaces (c # s) = (if c = CHR '' '' \<and> has_prefix s '' '' then single_spaces s else c # single_spaces s)"
  by (cases "(c # s)" rule: single_spaces.cases) (auto simp: has_prefix_def)

lemma single_spaces_head: "has_prefix (single_spaces s) '' '' = has_prefix s '' ''"
  by (induction s rule: single_spaces.induct) (auto simp: has_prefix_def)

lemma halve_spaces_Cons:
  "\<not> (c = CHR '' '' \<and> has_prefix t '' '') \<Longrightarrow> halve_spaces (c # t) = c # halve_spaces t"
  by (cases "c # t" rule: halve_spaces.cases) (auto simp: has_prefix_def)

lemma single_spaces_halve: "single_spaces (halve_spaces s) = single_spaces s"
proof (induction s rule: length_induct)
  case (1 s)
  have head: "has_prefix (halve_spaces t) '' '' = has_prefix t '' ''" if "length t < length s" for t
    using 1 that single_spaces_head by metis
  show ?case
  proof (cases s)
    case (Cons c t)
    show ?thesis
    proof (cases "c = CHR '' '' \<and> has_prefix t '' ''")
      case True
      then obtain u where t: "t = CHR '' '' # u" by (cases t) (auto simp: has_prefix_def)
      with 1 Cons have "single_spaces (halve_spaces u) = single_spaces u" by simp
      with Cons True t head [of u] show ?thesis by (simp add: single_spaces_Cons has_prefix_def)
    next
      case False
      from 1 Cons have "single_spaces (halve_spaces t) = single_spaces t" by simp
      with Cons False head [of t] show ?thesis
        by (simp only: halve_spaces_Cons [OF False]) (auto simp: single_spaces_Cons)
    qed
  qed simp
qed

lemma single_spaces_fixed: "\<not> contains s ''  '' \<Longrightarrow> single_spaces s = s"
  by (induction s rule: single_spaces.induct) (auto simp: has_prefix_def)

lemma single_spaces_no_pair: "\<not> contains (single_spaces s) ''  ''"
proof (induction s)
  case (Cons c s)
  have "has_prefix (c # t) ''  '' \<longleftrightarrow> c = CHR '' '' \<and> has_prefix t '' ''" for t
    by (simp add: has_prefix_def)
  with Cons show ?case by (simp add: single_spaces_Cons single_spaces_head)
qed simp

lemma collapse_spaces_single: "collapse_spaces s = single_spaces s"
proof (induction s rule: collapse_spaces.induct)
  case (1 s)
  then show ?case
    by (subst collapse_spaces.simps) (simp add: single_spaces_halve single_spaces_fixed)
qed


text \<open>The test for a mention ignores the case of the name, the removal does not.\<close>

lemma mention_in_other_case_stays:
  "containsEzaiMention ''@bob'' [''Bob''] \<and> stripEzaiMention ''@bob'' [''Bob''] = ''@bob''"
proof -
  have l: "to_lower ''@bob'' = ''@bob''" "to_lower ''bob'' = ''bob''"
    by (simp_all add: to_lower_graphic byte_def)
  have B: "to_lower ''Bob'' = ''bob''"
    by (simp add: to_lower_def runes_graphic byte_def rune_lower_def utf8_def enc_rune_def enc_valid_def
        valid_rune_def char_of_eq_iff)
  have t: "trim_space ''@bob'' = ''@bob''" "trim_space ''Bob'' = ''Bob''"
    by (simp_all add: trim_space_graphic byte_def)
  have c: "containsEzaiMention ''@bob'' [''Bob'']"
    by (simp add: containsEzaiMention_def t l B has_prefix_def)
  have other: "\<not> has_prefix (c # cs) p" if "p \<in> set (mention_forms [''Bob''])"
      "c # cs \<in> {''@bob'', ''bob'', ''ob'', ''b''}" for p c cs
  proof -
    have "p = char_of (239::nat) # tl p \<or> (p = CHR ''@'' # tl p \<and> hd (tl p) \<in> {char_of (230::nat), char_of (101::nat), CHR ''B''} \<and> tl p \<noteq> [])"
      using that(1) by (auto simp: mention_forms_def t msg_fullwidth_at_def msg_ezai_def msg_ezai_long_def
          utf8_def enc_rune_def enc_valid_def valid_rune_def split: if_splits)
    moreover have "CHR ''@'' \<noteq> char_of (239::nat)" "CHR ''b'' \<noteq> char_of (230::nat)" "CHR ''b'' \<noteq> char_of (101::nat)"
      "CHR ''o'' \<noteq> char_of (239::nat)" "CHR ''b'' \<noteq> char_of (239::nat)"
      by (auto simp: char_of_eq_iff dest: sym)
    ultimately show ?thesis using that(2) by (cases p; cases "tl p") (auto simp: has_prefix_def)
  qed
  have keep: "remove_all (mention_forms [''Bob'']) (c # cs) = c # remove_all (mention_forms [''Bob'']) cs"
    if "c # cs \<in> {''@bob'', ''bob'', ''ob'', ''b''}" for c cs
  proof -
    have "find (\<lambda>p. p \<noteq> [] \<and> has_prefix (c # cs) p) (mention_forms [''Bob'']) = None"
      using other [OF _ that] by (auto simp: find_None_iff)
    then show ?thesis by simp
  qed
  have "remove_all (mention_forms [''Bob'']) ''@bob'' = ''@bob''"
    by (simp add: keep del: remove_all.simps(2))
  then have "stripEzaiMention ''@bob'' [''Bob''] = ''@bob''"
    by (simp add: stripEzaiMention_def collapse_spaces_single t)
  with c show ?thesis by simp
qed

subsection \<open>What a mention does\<close>

lemma load_persona_keeps: "keeps g (load_persona specs p t by)"
proof (induction specs arbitrary: p t "by")
  case (Cons s specs)
  obtain key f h where s: "s = (key, f, h)" by (cases s)
  show ?case unfolding s load_persona.simps GetOpsSetting_def by (intro frames Cons)
qed (simp add: frames)

lemma load_persona_no_ids: "no_ids (load_persona specs p t by)"
proof (induction specs arbitrary: p t "by")
  case (Cons s specs)
  obtain key f h where s: "s = (key, f, h)" by (cases s)
  show ?case unfolding s load_persona.simps GetOpsSetting_def by (intro frames Cons)
qed (simp add: frames)

lemma persona_frames [frames]: "keeps g persona_name" "no_ids persona_name"
  unfolding persona_name_def getEzaiPersonaConfig_def
  by (intro frames load_persona_keeps load_persona_no_ids)+

lemma persona_total [totals]: "no_fail persona_name" "no_fail (ezaiAutoReplyEnabled E)"
  unfolding persona_name_def ezaiAutoReplyEnabled_def Let_def by (intro totals)+

lemma autoReply_frames [frames]: "keeps g (ezaiAutoReplyEnabled E)" "no_ids (ezaiAutoReplyEnabled E)"
  unfolding ezaiAutoReplyEnabled_def GetOpsSetting_def Let_def by (intro frames)+

lemma handoff_frames [frames]:
  "(\<And>h t. g (outbox_update h t) = g t) \<Longrightarrow> keeps g (notifyEzaiHandoff E p c a t r)"
  unfolding notifyEzaiHandoff_def Let_def by (intro frames; assumption?)

lemma buildNotificationOutbox_total [totals]: "no_fail (buildNotificationOutbox E n u)"
  unfolding buildNotificationOutbox_def Let_def by (intro totals)

lemma handoff_total [totals]: "no_fail (notifyEzaiHandoff E p c a t r)"
  unfolding notifyEzaiHandoff_def Let_def by (intro totals)

lemma handleEzaiMention_total [totals]: "no_fail (handleEzaiMention E c)"
  unfolding handleEzaiMention_def Let_def by (intro totals)

lemma handleEzaiMention_frames [frames]:
  "(\<And>h t. g (outbox_update h t) = g t) \<Longrightarrow> (\<And>h t. g (ai_reply_tasks_update h t) = g t) \<Longrightarrow>
   keeps g (handleEzaiMention E c)"
  unfolding handleEzaiMention_def CreateAIReplyTask_def Let_def
  by (intro frames; assumption?)

text \<open>The queue of replies has at most one more task, a pending one for this comment, and only when it
  had none for it.\<close>

definition one_task_more :: "int \<Rightarrow> tables \<Rightarrow> tables \<Rightarrow> bool" where
  "one_task_more comment t t' \<longleftrightarrow> ai_reply_tasks t' = ai_reply_tasks t \<or>
     (\<exists>r. ai_reply_tasks t' = ai_reply_tasks t @ [r] \<and> ar_trigger_comment_id r = comment \<and> t_status r = ''pending''
       \<and> (\<forall>q \<in> set (ai_reply_tasks t). ar_trigger_comment_id q \<noteq> comment \<and> t_id q \<noteq> t_id r))"

lemma one_task_more_same: "ai_reply_tasks t' = ai_reply_tasks t \<Longrightarrow> one_task_more c t t'"
  by (simp add: one_task_more_def)

lemma one_task_more_cong:
  "ai_reply_tasks u = ai_reply_tasks t \<Longrightarrow> ai_reply_tasks u' = ai_reply_tasks t' \<Longrightarrow>
   one_task_more c t t' = one_task_more c u u'"
  by (simp add: one_task_more_def)

lemma CreateAIReplyTask_one:
  assumes "CreateAIReplyTask E b w = (r, w')" and "br_status b = ''pending''"
  shows "one_task_more (br_trigger_comment_id b) (db w) (db w')"
proof (cases r)
  case (Inl e)
  with assms show ?thesis
    by (auto simp: CreateAIReplyTask_def Let_def intro!: one_task_more_same dest!: sql_InlD)
next
  case (Inr x)
  with assms(1) obtain fs where "w' = w\<lparr>faults := fs, db := ai_reply_tasks_update
      (upsert (\<lambda>r. t_id r = t_id (toAIReplyTaskModel E b))
        (\<lambda>r. ar_trigger_comment_id r = ar_trigger_comment_id (toAIReplyTaskModel E b)) id (toAIReplyTaskModel E b)) (db w)\<rparr>"
    by (auto simp: CreateAIReplyTask_def Let_def elim!: sql_upsert_InrE)
  with assms(2) show ?thesis
    by (auto simp: one_task_more_def upsert_id toAIReplyTaskModel_def)
qed

lemma handleEzaiMention_tasks:
  assumes "handleEzaiMention E c w = (r, w')"
  shows "one_task_more (bc_id c) (db w) (db w')"
proof -
  let ?g = ai_reply_tasks
  have hand: "?g (db v') = ?g (db v)" if "notifyEzaiHandoff E p i a t s v = (q, v')" for p i a t s v q v'
    by (rule keepsD [OF handoff_frames that]) simp
  have name: "?g (db v') = ?g (db v)" if "persona_name v = (q, v')" for v q v'
    by (rule keepsD [OF persona_frames(1) that])
  have auto_reply: "?g (db v') = ?g (db v)" if "ezaiAutoReplyEnabled E v = (q, v')" for v q v'
    by (rule keepsD [OF autoReply_frames(1) that])
  show ?thesis
  proof (cases "trim_space (aiReplyConfig_BotUserID E) = [] \<or> bc_author_id c = trim_space (aiReplyConfig_BotUserID E)")
    case True
    with assms show ?thesis by (simp add: handleEzaiMention_def Let_def one_task_more_same)
  next
    case False
    obtain name1 w1 where n1: "persona_name w = (Inr name1, w1)"
      using no_failD [OF persona_total(1)] by (metis surj_pair)
    obtain enabled w2 where e: "ezaiAutoReplyEnabled E w1 = (Inr enabled, w2)"
      using no_failD [OF persona_total(2)] by (metis surj_pair)
    obtain name2 w3 where n2: "persona_name w2 = (Inr name2, w3)"
      using no_failD [OF persona_total(1)] by (metis surj_pair)
    have g: "?g (db w1) = ?g (db w)" "?g (db w2) = ?g (db w)" "?g (db w3) = ?g (db w)"
      using name [OF n1] auto_reply [OF e] name [OF n2] by simp_all
    show ?thesis
    proof (cases "containsEzaiMention (bc_content c) [name1] \<and> enabled \<and> ezaiModelConfigured E")
      case no: False
      with False assms n1 e g hand show ?thesis
        by (auto simp: handleEzaiMention_def Let_def io_bind_def split: if_splits intro!: one_task_more_same)
    next
      case True
      let ?b = "zero_CampusAIReplyTask\<lparr>br_id := idgen E (next_seq w3), br_post_id := bc_post_id c,
         br_root_comment_id := (if 0 < bc_parent_id c then bc_parent_id c else bc_id c),
         br_trigger_comment_id := bc_id c, br_asker_id := bc_author_id c,
         br_bot_user_id := aiReplyConfig_BotUserID E,
         br_prompt := trimLimit (if trim_space (stripEzaiMention (bc_content c) [name2]) = [] then bc_content c
           else stripEzaiMention (bc_content c) [name2]) 500, br_status := ''pending''\<rparr>"
      let ?w4 = "w3\<lparr>next_seq := Suc (next_seq w3)\<rparr>"
      obtain q w5 where q: "CreateAIReplyTask E ?b ?w4 = (q, w5)" by fastforce
      have "one_task_more (bc_id c) (db w) (db w5)"
        using CreateAIReplyTask_one [OF q] g by (simp add: one_task_more_def)
      moreover have "?g (db w') = ?g (db w5)"
        using True False assms n1 e n2 q hand
        by (auto simp: handleEzaiMention_def Let_def io_bind_def NextID_def attempt_def split: sum.splits)
      ultimately show ?thesis by (simp add: one_task_more_def)
    qed
  qed
qed


definition ezai_env :: env where
  "ezai_env = access_env\<lparr>getenv := (\<lambda>k. if k = ''CAMPUS_EZAI_BOT_USER_ID'' then ''9''
     else if k = ''CAMPUS_AI_API_KEY'' then ''key'' else [])\<rparr>"

definition bot_comment :: "string \<Rightarrow> CampusForumComment" where
  "bot_comment author = \<lparr>bc_id = 20, bc_post_id = 1, bc_parent_id = 0, bc_reply_to_comment_id = 0,
     bc_reply_to_user_id = [], bc_author_id = author, bc_content = ''@'' @ msg_ezai, bc_images = [],
     bc_status = 1, bc_audit_reason = [], bc_like_count = 0, bc_reply_count = 0, bc_created_at = 0,
     bc_updated_at = 0\<rparr>"

lemma ezai_bot: "trim_space (aiReplyConfig_BotUserID ezai_env) = ''9''"
  by (simp add: aiReplyConfig_BotUserID_def ezai_env_def trim_space_graphic byte_def Let_def)


end
