(* ===== verification/Forum.thy ===== *)
theory Forum
  imports Ezai
begin

text \<open>
  What a user does with posts and comments (\<open>biz/campus.go\<close>): liking, collecting and taking back,
  commenting, withdrawing one's own post or comment, reading one post. Each handler is the code
  from its first check to the tracked event; filling in the author and the viewer's likes for
  display is left out.
\<close>

definition require_login :: "string \<Rightarrow> 'a io \<Rightarrow> 'a io" where
  "require_login userID k = (if trim_space userID = [] then fail (Unauthorized msg_login_required) else k)"

definition require_post :: "env \<Rightarrow> int \<Rightarrow> (CampusForumPost \<Rightarrow> 'a io) \<Rightarrow> 'a io" where
  "require_post E postID k =
     io_bind (or_fail (internal msg_query_post_failed) (GetPostByID E postID)) (\<lambda>p.
     case p of None \<Rightarrow> fail (NotFound msg_post_not_found) | Some post \<Rightarrow> k post)"

text \<open>The notification of a like or a collection.\<close>

definition interaction_note ::
    "string \<Rightarrow> string \<Rightarrow> string \<Rightarrow> string \<Rightarrow> int \<Rightarrow> string \<Rightarrow> string \<Rightarrow> int \<Rightarrow> CampusNotification" where
  "interaction_note recipient actor event targetType targetID title content postID =
     zero_CampusNotification\<lparr>
       nt_recipient_id := recipient, nt_actor_id := actor, nt_event_type := event,
       nt_target_type := targetType, nt_target_id := targetID, nt_title := title,
       nt_content := content, nt_link_page := ''post-detail'',
       nt_link_params := [(''id'', fmt_d postID)]\<rparr>"

subsection \<open>Likes and collections\<close>

definition LikePost :: "env \<Rightarrow> string \<Rightarrow> int \<Rightarrow> unit io" where
  "LikePost E userID postID = require_login userID (
     if postID \<le> 0 then fail (InvalidArgument msg_post_id_invalid)
     else require_post E postID (\<lambda>post.
     io_bind (buildNotificationOutbox E (Some (interaction_note (bp_author_id post) userID ''post_like''
       ''post'' postID msg_someone_liked_post (trimLimit (bp_title post) 80) postID)) True) (\<lambda>notification.
     io_bind (NextID E) (\<lambda>relID.
     io_then (or_fail (internal msg_like_failed) (AddPostLikeWithOutbox E relID userID postID notification))
     (track E userID ''like'' ''post-detail'' ''post'' postID)))))"

definition UnlikePost :: "env \<Rightarrow> string \<Rightarrow> int \<Rightarrow> unit io" where
  "UnlikePost E userID postID = require_login userID (
     if postID \<le> 0 then fail (InvalidArgument msg_post_id_invalid)
     else or_fail (internal msg_unlike_failed) (RemovePostLike E userID postID))"

definition CollectPost :: "env \<Rightarrow> string \<Rightarrow> int \<Rightarrow> unit io" where
  "CollectPost E userID postID = require_login userID (
     if postID \<le> 0 then fail (InvalidArgument msg_post_id_invalid)
     else require_post E postID (\<lambda>post.
     io_bind (buildNotificationOutbox E (Some (interaction_note (bp_author_id post) userID ''post_collect''
       ''post'' postID msg_someone_collected_post (trimLimit (bp_title post) 80) postID)) True) (\<lambda>notification.
     io_bind (NextID E) (\<lambda>relID.
     io_then (or_fail (internal msg_collect_failed) (AddPostCollectionWithOutbox E relID userID postID notification))
     (track E userID ''collect'' ''post-detail'' ''post'' postID)))))"

definition UncollectPost :: "env \<Rightarrow> string \<Rightarrow> int \<Rightarrow> unit io" where
  "UncollectPost E userID postID = require_login userID (
     if postID \<le> 0 then fail (InvalidArgument msg_post_id_invalid)
     else or_fail (internal msg_uncollect_failed) (RemovePostCollection E userID postID))"

definition LikeComment :: "env \<Rightarrow> string \<Rightarrow> int \<Rightarrow> unit io" where
  "LikeComment E userID commentID = require_login userID (
     if commentID \<le> 0 then fail (InvalidArgument msg_comment_id_invalid)
     else io_bind (or_fail (internal msg_query_comment_failed) (GetCommentByID commentID)) (\<lambda>c.
     case c of None \<Rightarrow> fail (NotFound msg_comment_not_found)
     | Some comment \<Rightarrow>
       if bc_status comment \<noteq> CampusAuditStatusVisible then fail (NotFound msg_comment_not_found)
       else io_bind (buildNotificationOutbox E (Some (interaction_note (bc_author_id comment) userID
           ''comment_like'' ''comment'' commentID msg_someone_liked_comment (trimLimit (bc_content comment) 80)
           (bc_post_id comment))) True) (\<lambda>notification.
       io_bind (NextID E) (\<lambda>relID.
       io_then (or_fail (internal msg_comment_like_failed)
         (AddCommentLikeWithOutbox E relID userID commentID notification))
       (track E userID ''comment_like'' ''post-detail'' ''comment'' commentID)))))"

definition UnlikeComment :: "env \<Rightarrow> string \<Rightarrow> int \<Rightarrow> unit io" where
  "UnlikeComment E userID commentID = require_login userID (
     if commentID \<le> 0 then fail (InvalidArgument msg_comment_id_invalid)
     else or_fail (internal msg_comment_unlike_failed) (RemoveCommentLike E userID commentID))"

subsection \<open>Comments\<close>

record CreateCampusCommentInput =
  ci_user_id :: string
  ci_post_id :: int
  ci_parent_id :: int
  ci_reply_to_comment_id :: int
  ci_content :: string
  ci_images :: "string list"

text \<open>The parent, the comment replied to and its author: a reply to a reply hangs under the same root.\<close>

definition reply_target :: "CreateCampusCommentInput \<Rightarrow> (int \<times> int \<times> string) io" where
  "reply_target input =
     (if 0 < ci_parent_id input \<or> 0 < ci_reply_to_comment_id input
      then let targetID = (if ci_reply_to_comment_id input \<le> 0 then ci_parent_id input else ci_reply_to_comment_id input)
        in io_bind (or_fail (internal msg_query_reply_target_failed) (GetCommentByID targetID)) (\<lambda>t.
        case t of None \<Rightarrow> fail (NotFound msg_reply_target_not_found)
        | Some target \<Rightarrow>
          if bc_post_id target \<noteq> ci_post_id input \<or> bc_status target \<noteq> CampusAuditStatusVisible
          then fail (NotFound msg_reply_target_not_found)
          else ret (if 0 < bc_parent_id target then bc_parent_id target else bc_id target,
                 bc_id target, bc_author_id target))
      else ret (0, 0, []))"

definition comment_note :: "CreateCampusCommentInput \<Rightarrow> CampusForumPost \<Rightarrow> int \<Rightarrow> int \<Rightarrow> string \<Rightarrow> string \<Rightarrow> CampusNotification" where
  "comment_note input post commentID parentID replyToUserID content = (let
     note = interaction_note [] (ci_user_id input) [] ''post'' (ci_post_id input) [] (trimLimit content 80) (ci_post_id input)
   in if 0 < parentID \<and> replyToUserID \<noteq> []
      then note\<lparr>nt_recipient_id := replyToUserID, nt_event_type := ''reply'',
        nt_dedupe_key := ''campus:reply:'' @ fmt_d commentID, nt_title := msg_someone_replied\<rparr>
      else note\<lparr>nt_recipient_id := bp_author_id post, nt_event_type := ''comment'',
        nt_dedupe_key := ''campus:comment:'' @ fmt_d commentID, nt_title := msg_someone_commented\<rparr>)"

definition CreateComment :: "env \<Rightarrow> CreateCampusCommentInput \<Rightarrow> CampusForumComment io" where
  "CreateComment E input = require_login (ci_user_id input) (
     if ci_post_id input \<le> 0 then fail (InvalidArgument msg_post_id_invalid)
     else require_post E (ci_post_id input) (\<lambda>post.
     io_bind (reply_target input) (\<lambda>(parentID, replyToCommentID, replyToUserID). let
       content = trim_space (ci_content input)
     in if rune_count content < 1 \<or> 500 < rune_count content then fail (InvalidArgument msg_comment_length)
     else io_bind (NextID E) (\<lambda>commentID. let
       comment = \<lparr>bc_id = commentID, bc_post_id = ci_post_id input, bc_parent_id = parentID,
         bc_reply_to_comment_id = replyToCommentID, bc_reply_to_user_id = replyToUserID,
         bc_author_id = ci_user_id input, bc_content = content, bc_images = sanitizeImages (ci_images input) 3,
         bc_status = CampusAuditStatusVisible, bc_audit_reason = [], bc_like_count = 0, bc_reply_count = 0,
         bc_created_at = 0, bc_updated_at = 0\<rparr>
     in io_bind (buildNotificationOutbox E
          (Some (comment_note input post commentID parentID replyToUserID content)) False) (\<lambda>notification.
     io_then (or_fail (internal msg_create_comment_failed) (CreateCommentWithOutbox E comment notification))
     (io_then (handleEzaiMention E comment)
     (io_then (track E (ci_user_id input) ''comment_create'' ''post-detail'' ''post'' (ci_post_id input))
     (ret comment))))))))"

definition DeleteComment :: "env \<Rightarrow> string \<Rightarrow> int \<Rightarrow> unit io" where
  "DeleteComment E userID commentID = require_login userID (
     if commentID \<le> 0 then fail (InvalidArgument msg_comment_id_invalid)
     else io_bind (or_fail (internal msg_query_comment_failed) (GetCommentByID commentID)) (\<lambda>c.
     case c of None \<Rightarrow> fail (NotFound msg_comment_not_found)
     | Some comment \<Rightarrow>
       io_bind (if bc_author_id comment \<noteq> userID then isCampusAdmin E userID else ret True) (\<lambda>ok.
       if \<not> ok then fail (Forbidden msg_only_own_comment)
       else or_fail (internal msg_delete_comment_failed) (DeleteComment_repo E commentID))))"

subsection \<open>Posts\<close>

definition DeletePost_uc :: "env \<Rightarrow> string \<Rightarrow> int \<Rightarrow> unit io" where
  "DeletePost_uc E userID postID = require_login userID (
     if postID \<le> 0 then fail (InvalidArgument msg_post_id_invalid)
     else io_bind (or_fail (internal msg_query_post_failed) (GetAnyPostByID postID)) (\<lambda>p.
     case p of None \<Rightarrow> fail (NotFound msg_post_not_found)
     | Some post \<Rightarrow>
       io_bind (if bp_author_id post \<noteq> userID then isCampusAdmin E userID else ret True) (\<lambda>ok.
       if \<not> ok then fail (Forbidden msg_only_own_post)
       else or_fail (internal msg_delete_post_failed) (DeletePost E postID))))"

text \<open>A post that is not public is shown to its author and to administrators.\<close>

definition GetPost :: "env \<Rightarrow> string \<Rightarrow> int \<Rightarrow> CampusForumPost io" where
  "GetPost E current postID =
     (if postID \<le> 0 then fail (InvalidArgument msg_post_id_invalid)
      else io_bind (or_fail (internal msg_post_detail_failed) (GetPostByID E postID)) (\<lambda>p.
      case p of Some post \<Rightarrow> ret post
      | None \<Rightarrow> let currentUserID = trim_space current in
        if currentUserID = [] then fail (NotFound msg_post_not_found)
        else io_bind (or_fail (internal msg_post_detail_failed) (GetAnyPostByID postID)) (\<lambda>q.
        case q of None \<Rightarrow> fail (NotFound msg_post_not_found)
        | Some post \<Rightarrow>
          io_bind (if bp_author_id post \<noteq> currentUserID then isCampusAdmin E currentUserID else ret True) (\<lambda>ok.
          if \<not> ok then fail (NotFound msg_post_not_found) else ret post))))"

subsection \<open>An error means that nothing was stored\<close>

text \<open>\<open>reads m\<close>: \<open>m\<close> changes no table. \<open>all_or_nothing m\<close>: when \<open>m\<close> returns an error no table has
  changed. A computation that first reads, then stores in one transaction and then only swallows
  failures is of that kind.\<close>

abbreviation reads :: "'a io \<Rightarrow> bool" where
  "reads m \<equiv> keeps (\<lambda>t. t) m"

definition all_or_nothing :: "'a io \<Rightarrow> bool" where
  "all_or_nothing m \<longleftrightarrow> (\<forall>w. (\<exists>e. fst (m w) = Inl e) \<longrightarrow> db (snd (m w)) = db w)"

named_theorems atomics "rules for \<open>all_or_nothing\<close>"

lemma all_or_nothingD: "all_or_nothing m \<Longrightarrow> m w = (Inl e, w') \<Longrightarrow> db w' = db w"
  unfolding all_or_nothing_def by (metis fst_conv snd_conv)

lemma all_or_nothing_basic [atomics]:
  "all_or_nothing (ret x)" "all_or_nothing (fail e)" "all_or_nothing (transaction b)"
  by (auto simp: all_or_nothing_def) (metis prod.collapse transaction_atomic)

lemma all_or_nothing_sql [atomics]:
  "all_or_nothing (sql_create g u clash row)" "all_or_nothing (sql_upsert u si sk chg row)"
  "all_or_nothing (sql_update u P f)"
proof -
  have d: "db (w\<lparr>faults := fs\<rparr>) = db w" for w fs by simp
  show "all_or_nothing (sql_create g u clash row)" "all_or_nothing (sql_upsert u si sk chg row)"
    "all_or_nothing (sql_update u P f)"
    unfolding all_or_nothing_def by (metis prod.collapse sql_InlD d)+
qed

lemma all_or_nothing_wrap [atomics]: "all_or_nothing m \<Longrightarrow> all_or_nothing (or_fail h m)"
  by (auto simp: all_or_nothing_def or_fail_def split: prod.splits sum.splits) (metis fst_conv snd_conv)

lemma all_or_nothing_read [atomics]:
  "reads m \<Longrightarrow> (\<And>x. all_or_nothing (f x)) \<Longrightarrow> all_or_nothing (io_bind m f)"
  unfolding all_or_nothing_def keeps_def io_bind_def
  by (auto split: prod.splits sum.splits) (metis fst_conv snd_conv)+

lemma all_or_nothing_write [atomics]:
  "all_or_nothing m \<Longrightarrow> no_fail k \<Longrightarrow> all_or_nothing (io_then m k)"
  unfolding all_or_nothing_def no_fail_def io_then_def io_bind_def
  by (auto split: prod.splits sum.splits) (metis fst_conv snd_conv sum.distinct(1))+

lemma all_or_nothing_branches [atomics]:
  "(b \<Longrightarrow> all_or_nothing m) \<Longrightarrow> (\<not> b \<Longrightarrow> all_or_nothing k) \<Longrightarrow> all_or_nothing (if b then m else k)"
  "(o' = None \<Longrightarrow> all_or_nothing m) \<Longrightarrow> (\<And>x. all_or_nothing (p x)) \<Longrightarrow>
     all_or_nothing (case o' of None \<Rightarrow> m | Some x \<Rightarrow> p x)"
  "(\<And>x y. all_or_nothing (h x y)) \<Longrightarrow> all_or_nothing (case xy of (x, y) \<Rightarrow> h x y)"
  by (auto split: option.splits prod.splits)

lemma cache_step_total: "cache_step m \<Longrightarrow> no_fail m"
  by (simp add: cache_step_def no_fail_def)

lemmas cache_totals [totals] = cache_steps [THEN cache_step_total] cache_step_invalidate [THEN cache_step_total]

lemma track_total [totals]: "no_fail (track E user event page ty i)"
  using track_run by (metis fst_conv no_fail_def)

lemma read_frames [frames]:
  "keeps g (GetPostByID E i)" "keeps g (GetAnyPostByID i)" "keeps g (GetCommentByID i)"
  unfolding GetPostByID_def GetAnyPostByID_def GetCommentByID_def fillPostCategoryName_def
    fillPostCategoryNames_def Let_def by (intro frames)+

lemma reply_target_frames [frames]: "keeps g (reply_target input)"
  unfolding reply_target_def Let_def by (intro frames)

lemma relation_writes [atomics]:
  "all_or_nothing (AddPostLikeWithOutbox E rid u i ob)" "all_or_nothing (RemovePostLike E u i)"
  "all_or_nothing (AddPostCollectionWithOutbox E rid u i ob)" "all_or_nothing (RemovePostCollection E u i)"
  "all_or_nothing (AddCommentLikeWithOutbox E rid u i ob)" "all_or_nothing (RemoveCommentLike E u i)"
  unfolding interaction_defs RemovePostLike_def RemovePostCollection_def RemoveCommentLike_def
    add_relation_def remove_relation_def
  by (intro atomics totals)+

lemma row_writes [atomics]:
  "all_or_nothing (CreateCommentWithOutbox E b ob)" "all_or_nothing (DeletePost E i)"
  unfolding CreateCommentWithOutbox_def CreateComment_rows_def DeletePost_def DeletePost_rows_def
  by (intro atomics totals)+

lemma DeleteComment_repo_write [atomics]: "all_or_nothing (DeleteComment_repo E i)"
proof -
  have "all_or_nothing (DeleteComment_rows E i)" unfolding DeleteComment_rows_def by (rule atomics)
  moreover have "no_fail (io_then (invalidatePostDetailCache E p) (deleteCacheKeys E ks))" for p ks
    by (intro totals)
  ultimately show ?thesis
    unfolding DeleteComment_repo_def all_or_nothing_def no_fail_def io_bind_def
    by (auto split: prod.splits sum.splits) (metis fst_conv snd_conv sum.distinct(1))
qed

text \<open>The requests of a user.\<close>

datatype user_request =
    LikePostReq string int | UnlikePostReq string int | CollectPostReq string int | UncollectPostReq string int
  | LikeCommentReq string int | UnlikeCommentReq string int | CreateCommentReq CreateCampusCommentInput
  | DeleteCommentReq string int | DeletePostReq string int

fun serve :: "env \<Rightarrow> user_request \<Rightarrow> unit io" where
  "serve E (LikePostReq u i) = LikePost E u i"
| "serve E (UnlikePostReq u i) = UnlikePost E u i"
| "serve E (CollectPostReq u i) = CollectPost E u i"
| "serve E (UncollectPostReq u i) = UncollectPost E u i"
| "serve E (LikeCommentReq u i) = LikeComment E u i"
| "serve E (UnlikeCommentReq u i) = UnlikeComment E u i"
| "serve E (CreateCommentReq input) = io_bind (CreateComment E input) (\<lambda>_. ret ())"
| "serve E (DeleteCommentReq u i) = DeleteComment E u i"
| "serve E (DeletePostReq u i) = DeletePost_uc E u i"

fun requester :: "user_request \<Rightarrow> string" where
  "requester (LikePostReq u i) = u" | "requester (UnlikePostReq u i) = u"
| "requester (CollectPostReq u i) = u" | "requester (UncollectPostReq u i) = u"
| "requester (LikeCommentReq u i) = u" | "requester (UnlikeCommentReq u i) = u"
| "requester (CreateCommentReq input) = ci_user_id input"
| "requester (DeleteCommentReq u i) = u" | "requester (DeletePostReq u i) = u"

lemma all_or_nothing_handlers:
  "all_or_nothing (LikePost E u i)" "all_or_nothing (UnlikePost E u i)" "all_or_nothing (CollectPost E u i)"
  "all_or_nothing (UncollectPost E u i)" "all_or_nothing (LikeComment E u i)" "all_or_nothing (UnlikeComment E u i)"
  "all_or_nothing (DeleteComment E u i)" "all_or_nothing (DeletePost_uc E u i)" "all_or_nothing (CreateComment E input)"
  unfolding LikePost_def UnlikePost_def CollectPost_def UncollectPost_def LikeComment_def UnlikeComment_def
    DeleteComment_def DeletePost_uc_def CreateComment_def require_login_def require_post_def Let_def
  by (intro atomics frames totals)+

text \<open>
  C24. A request to like, collect, comment or withdraw that is answered with an error has changed no
  table, whatever failed and where; and without a login nothing is even looked up.
\<close>

theorem user_requests_all_or_nothing:
  "(\<forall>e w'. serve E q w = (Inl e, w') \<longrightarrow> db w' = db w)
   \<and> (trim_space (requester q) = [] \<longrightarrow> serve E q w = (Inl (Unauthorized msg_login_required), w))"
proof -
  have bind: "all_or_nothing (io_bind m (\<lambda>_. ret ()))" if "all_or_nothing m" for m :: "'x io"
    using that unfolding all_or_nothing_def io_bind_def
    by (auto split: prod.splits sum.splits) (metis fst_conv snd_conv)
  have "all_or_nothing (serve E q)"
    by (cases q) (simp_all add: all_or_nothing_handlers bind)
  then have "\<forall>e w'. serve E q w = (Inl e, w') \<longrightarrow> db w' = db w"
    using all_or_nothingD by blast
  moreover have "serve E q w = (Inl (Unauthorized msg_login_required), w)" if "trim_space (requester q) = []"
    using that by (cases q) (simp_all add: LikePost_def UnlikePost_def CollectPost_def UncollectPost_def
        LikeComment_def UnlikeComment_def CreateComment_def DeleteComment_def DeletePost_uc_def require_login_def)
  ultimately show ?thesis by blast
qed

text \<open>User 8 likes the post; the third statement of the transaction fails.\<close>

theorem user_requests_all_or_nothing_witness:
  "db (snd (serve sample_env (LikePostReq ''8'' 1) (sample_world\<lparr>rds_on := False, faults := [False, False, False, True]\<rparr>)))
     = db sample_world
   \<and> (\<exists>e. fst (serve sample_env (LikePostReq ''8'' 1) (sample_world\<lparr>rds_on := False, faults := [False, False, False, True]\<rparr>)) = Inl e)"
proof -
  let ?w = "sample_world\<lparr>rds_on := False, faults := [False, False, False, True]\<rparr>"
  let ?r = "serve sample_env (LikePostReq ''8'' 1) ?w"
  have t: "trim_space ''8'' \<noteq> []" "trim_space ''5'' = ''5''" "fmt_d 5 = ''5''"
    by (simp_all add: trim_space_graphic byte_def go_string_eval char_of_eq_iff)
  have "\<exists>e. fst ?r = Inl e"
    by (simp add: LikePost_def require_login_def require_post_def GetPostByID_def getCacheJSON_def setCacheJSON_def
        fillPostCategoryName_def fillPostCategoryNames_def buildNotificationOutbox_def interaction_note_def
        AddPostLikeWithOutbox_def io_eval or_fail_def NextID_def toBizPost_def t sample_defs
        zero_CampusNotification_def Let_def)
  moreover from this have "db (snd ?r) = db ?w"
    using user_requests_all_or_nothing by (metis prod.collapse)
  ultimately show ?thesis by simp
qed

subsection \<open>Who may do what\<close>

definition may_withdraw :: "env \<Rightarrow> tables \<Rightarrow> string \<Rightarrow> int \<Rightarrow> bool" where
  "may_withdraw E t user author \<longleftrightarrow> fmt_d author = user \<or> admin_now E t user"

lemma owner_or_admin:
  assumes "io_bind (if a \<noteq> u then isCampusAdmin E u else ret True) f w = (r, w')"
  obtains ok w1 where "f ok w1 = (r, w')" and "db w1 = db w" and "ok \<Longrightarrow> a = u \<or> admin_now E (db w) u"
  using assms by (auto split: if_splits elim: isCampusAdmin_E)

lemma read_post_E:
  assumes "GetAnyPostByID i w = (Inr (Some p), w')"
  obtains row where "row \<in> set (posts (db w))" and "p_id row = i" and "\<not> p_is_deleted row"
    and "bp_author_id p = fmt_d (p_author_id row)"
proof -
  from assms obtain row w1 where f: "find (\<lambda>r. p_id r = i \<and> \<not> p_is_deleted r) (posts (db w)) = Some row"
    and n: "fillPostCategoryName (toBizPost row) w1 = (Inr p, w')"
    by (auto simp: GetAnyPostByID_def elim!: io_bind_InrE sql_first_InrE split: option.splits)
  have "bp_author_id p = fmt_d (p_author_id row)"
    using n by (auto simp: fillPostCategoryName_def fillPostCategoryNames_def Let_def toBizPost_def
        elim!: io_bind_InrE sql_find_InrE split: if_splits)
  with that find_SomeD [OF f] show ?thesis by blast
qed

lemma read_comment_E:
  assumes "GetCommentByID i w = (Inr (Some c), w')"
  obtains row where "row \<in> set (comments (db w))" and "c_id row = i" and "\<not> c_is_deleted row"
    and "c = toBizComment row" and "db w' = db w"
  using assms by (auto simp: GetCommentByID_def elim!: io_bind_InrE sql_first_InrE dest!: find_SomeD)

text \<open>
  C25. A comment or a post is withdrawn by a request only when it is there and the user wrote it or is
  an administrator; in every other case the answer is an error and no table changes.
\<close>

theorem withdrawals_authorised:
  "(DeleteComment E u i w = (r, w') \<longrightarrow> (r = Inr () \<or> db w' \<noteq> db w) \<longrightarrow>
      (\<exists>c \<in> set (comments (db w)). c_id c = i \<and> \<not> c_is_deleted c \<and> may_withdraw E (db w) u (c_author_id c)))
   \<and> (DeletePost_uc E u i w = (r, w') \<longrightarrow> (r = Inr () \<or> db w' \<noteq> db w) \<longrightarrow>
      (\<exists>p \<in> set (posts (db w)). p_id p = i \<and> \<not> p_is_deleted p \<and> may_withdraw E (db w) u (p_author_id p)))"
proof (intro conjI impI)
  assume run: "DeleteComment E u i w = (r, w')" and changed: "r = Inr () \<or> db w' \<noteq> db w"
  from all_or_nothing_handlers(7) [THEN all_or_nothingD] run changed have r: "r = Inr ()"
    by (cases r) (auto dest: all_or_nothingD)
  from run r obtain c w1 where g: "GetCommentByID i w = (Inr (Some c), w1)"
    and rest: "io_bind (if bc_author_id c \<noteq> u then isCampusAdmin E u else ret True) (\<lambda>ok.
       if \<not> ok then fail (Forbidden msg_only_own_comment)
       else or_fail (internal msg_delete_comment_failed) (DeleteComment_repo E i)) w1 = (r, w')"
    by (auto simp: DeleteComment_def require_login_def split: if_splits option.splits elim!: io_bind_InrE or_fail_InrE)
  from read_comment_E [OF g] obtain row where row: "row \<in> set (comments (db w))" "c_id row = i"
    "\<not> c_is_deleted row" "c = toBizComment row" "db w1 = db w" by blast
  have "bc_author_id c = u \<or> admin_now E (db w1) u"
    using rest by (rule owner_or_admin) (use r in \<open>auto split: if_splits\<close>)
  with row show "\<exists>c \<in> set (comments (db w)). c_id c = i \<and> \<not> c_is_deleted c \<and> may_withdraw E (db w) u (c_author_id c)"
    by (auto simp: may_withdraw_def toBizComment_def)
next
  assume run: "DeletePost_uc E u i w = (r, w')" and changed: "r = Inr () \<or> db w' \<noteq> db w"
  from all_or_nothing_handlers(8) [THEN all_or_nothingD] run changed have r: "r = Inr ()"
    by (cases r) (auto dest: all_or_nothingD)
  from run r obtain p w1 where g: "GetAnyPostByID i w = (Inr (Some p), w1)"
    and rest: "io_bind (if bp_author_id p \<noteq> u then isCampusAdmin E u else ret True) (\<lambda>ok.
       if \<not> ok then fail (Forbidden msg_only_own_post)
       else or_fail (internal msg_delete_post_failed) (DeletePost E i)) w1 = (r, w')"
    by (auto simp: DeletePost_uc_def require_login_def split: if_splits option.splits elim!: io_bind_InrE or_fail_InrE)
  have d: "db w1 = db w" by (rule keepsD [OF read_frames(2) g])
  have "bp_author_id p = u \<or> admin_now E (db w1) u"
    using rest by (rule owner_or_admin) (use r in \<open>auto split: if_splits\<close>)
  with read_post_E [OF g] d show "\<exists>p \<in> set (posts (db w)). p_id p = i \<and> \<not> p_is_deleted p \<and> may_withdraw E (db w) u (p_author_id p)"
    by (metis may_withdraw_def)
qed

subsection \<open>A new comment\<close>

lemma GetPostByID_uncached:
  assumes "GetPostByID E i w = (Inr (Some p), w')" and "uncached i w"
  shows "post_visible (db w) i"
proof (rule ccontr)
  assume "\<not> post_visible (db w) i"
  from GetPostByID_none [OF disjI1 [OF assms(2)] this assms(1)] show False by simp
qed

lemma reply_target_placed:
  assumes "reply_target input w = (Inr (parentID, replyTo, user), w')"
    and "comments_wf (db w)" and "0 < parentID"
  shows "\<exists>q \<in> set (comments (db w)). c_id q = parentID \<and> c_post_id q = ci_post_id input"
proof -
  from assms(1,3) obtain i c w1 where g: "GetCommentByID i w = (Inr (Some c), w1)"
    and c: "bc_post_id c = ci_post_id input" "parentID = (if 0 < bc_parent_id c then bc_parent_id c else bc_id c)"
    by (auto simp: reply_target_def Let_def elim!: io_bind_InrE or_fail_InrE split: if_splits option.splits)
  from read_comment_E [OF g] obtain row where row: "row \<in> set (comments (db w))" "c = toBizComment row" by blast
  with c have "ci_post_id input = c_post_id row" "parentID = (if 0 < c_parent_id row then c_parent_id row else c_id row)"
    by (simp_all add: toBizComment_def)
  with row assms(2) show ?thesis unfolding comments_wf_def by (auto split: if_splits)
qed

lemma sanitizeImages_length: "0 < n \<Longrightarrow> int (length (sanitizeImages xs n)) \<le> n"
proof -
  have "int (length out) < n \<Longrightarrow> int (length (sanitizeImages_loop n out xs)) \<le> n" for out
    by (induction n out xs rule: sanitizeImages_loop.induct) (auto simp: Let_def)
  then show "0 < n \<Longrightarrow> int (length (sanitizeImages xs n)) \<le> n" by (simp add: sanitizeImages_def)
qed

text \<open>What a comment that was accepted went through.\<close>

lemma CreateComment_E:
  assumes "CreateComment E input w = (Inr c, w')"
  obtains post w1 parentID replyTo user w2 n ob w3 w4
  where "GetPostByID E (ci_post_id input) w = (Inr (Some post), w1)"
    and "reply_target input w1 = (Inr (parentID, replyTo, user), w2)"
    and "rune_count (trim_space (ci_content input)) \<in> {1..500}"
    and "bc_id c = idgen E n" and "bc_post_id c = ci_post_id input" and "bc_parent_id c = parentID"
    and "bc_author_id c = ci_user_id input" and "bc_content c = trim_space (ci_content input)"
    and "bc_images c = sanitizeImages (ci_images input) 3" and "bc_status c = CampusAuditStatusVisible"
    and "db w3 = db w" and "CreateComment_rows E c ob w3 = (Inr (), w4)"
    and "posts (db w') = posts (db w4)" and "comments (db w') = comments (db w4)"
proof -
  from assms obtain post w1 parentID replyTo user w2 ob w3 w5 w6 w7 where
    g: "GetPostByID E (ci_post_id input) w = (Inr (Some post), w1)"
    and t: "reply_target input w1 = (Inr (parentID, replyTo, user), w2)"
    and len: "\<not> (rune_count (trim_space (ci_content input)) < 1 \<or> 500 < rune_count (trim_space (ci_content input)))"
    and c: "c = \<lparr>bc_id = idgen E (next_seq w2), bc_post_id = ci_post_id input, bc_parent_id = parentID,
         bc_reply_to_comment_id = replyTo, bc_reply_to_user_id = user,
         bc_author_id = ci_user_id input, bc_content = trim_space (ci_content input),
         bc_images = sanitizeImages (ci_images input) 3,
         bc_status = CampusAuditStatusVisible, bc_audit_reason = [], bc_like_count = 0, bc_reply_count = 0,
         bc_created_at = 0, bc_updated_at = 0\<rparr>"
    and b: "buildNotificationOutbox E (Some (comment_note input post (idgen E (next_seq w2)) parentID user
        (trim_space (ci_content input)))) False (w2\<lparr>next_seq := Suc (next_seq w2)\<rparr>) = (Inr ob, w3)"
    and s: "CreateCommentWithOutbox E c ob w3 = (Inr (), w5)"
    and h: "handleEzaiMention E c w5 = (Inr (), w6)"
    and tr: "track E (ci_user_id input) ''comment_create'' ''post-detail'' ''post'' (ci_post_id input) w6 = (Inr (), w7)"
    and "w' = w7"
    unfolding CreateComment_def require_login_def require_post_def
    by (auto simp: NextID_def Let_def elim!: io_bind_InrE io_then_InrE or_fail_InrE split: if_splits option.splits)
  from s obtain w4 where rows: "CreateComment_rows E c ob w3 = (Inr (), w4)" and d: "db w5 = db w4"
    by (auto simp: CreateCommentWithOutbox_def elim!: io_then_InrE dest!: cache_stepD [OF cache_steps(3)]
        cache_stepD [OF cache_step_invalidate(1)])
  have "db w1 = db w" by (rule keepsD [OF read_frames(1) g])
  moreover have "db w2 = db w1" by (rule keepsD [OF reply_target_frames t])
  moreover have "db w3 = db w2" using keepsD [OF buildNotificationOutbox_frame b] by simp
  moreover have "posts (db w7) = posts (db w6)" "comments (db w7) = comments (db w6)"
    by (rule keepsD [OF track_frames(1) tr]; simp)+
  moreover have "posts (db w6) = posts (db w5)" "comments (db w6) = comments (db w5)"
    by (rule keepsD [OF handleEzaiMention_frames h]; simp)+
  ultimately show thesis
    using that [OF g t _ _ _ _ _ _ _ _ _ rows] len c d \<open>w' = w7\<close> by simp
qed


text \<open>User 5 answers the reply of the thread, which is their own; the answer hangs under the root.\<close>

definition forum_env :: env where
  "forum_env = sample_env\<lparr>idgen := \<lambda>n. int n + 100\<rparr>"

definition sample_answer :: CreateCampusCommentInput where
  "sample_answer = \<lparr>ci_user_id = ''5'', ci_post_id = 1, ci_parent_id = 2, ci_reply_to_comment_id = 3,
     ci_content = ''hi'', ci_images = []\<rparr>"

lemmas forum_eval = CreateComment_def DeleteComment_def DeletePost_uc_def LikePost_def require_login_def
  require_post_def reply_target_def
  GetPostByID_def GetAnyPostByID_def GetCommentByID_def getCacheJSON_def setCacheJSON_def
  fillPostCategoryName_def fillPostCategoryNames_def buildNotificationOutbox_def interaction_note_def comment_note_def
  comment_io_eval or_fail_def NextID_def toBizPost_def toBizComment_def zero_CampusNotification_def

lemma forum_literals:
  "trim_space ''8'' = ''8''" "trim_space ''hi'' = ''hi''" "rune_count ''hi'' = 2" "trim_space ''5'' = ''5''"
  "fmt_d 5 = ''5''" "parseID ''5'' = 5" "trim_space [] = []"
  by (simp_all add: trim_space_graphic byte_def parseID_def rune_count_def runes_graphic)
    (simp_all add: go_string_eval char_of_eq_iff)

text \<open>What is not configured or only tracked, for the evaluation of runs.\<close>

lemma no_bot: "getenv E = (\<lambda>_. []) \<Longrightarrow> handleEzaiMention E c w = (Inr (), w)"
  by (simp add: handleEzaiMention_def aiReplyConfig_BotUserID_def forum_literals Let_def)

lemma track_case:
  "(case track E user event page ty i w of (Inl e, w') \<Rightarrow> f e w' | (Inr x, w') \<Rightarrow> g x w') =
     g () (snd (track E user event page ty i w))"
  using track_run [of E user event page ty i w] by auto

lemma track_fst: "fst (track E user event page ty i w) = Inr ()"
  using track_run [of E user event page ty i w] by auto

lemma track_tables:
  "posts (db (snd (track E user event page ty i w))) = posts (db w)"
  "comments (db (snd (track E user event page ty i w))) = comments (db w)"
  "post_likes (db (snd (track E user event page ty i w))) = post_likes (db w)"
  "outbox (db (snd (track E user event page ty i w))) = outbox (db w)"
  by (rule keepsD [OF track_frames(1) prod.collapse [symmetric]]; simp)+

lemmas forum_run = forum_eval createNotificationOutboxWithTx_def forum_env_def thread_defs forum_literals
  no_bot track_case track_fst track_tables sanitizeImages_def


text \<open>User 5 withdraws the reply; user 8 may not.\<close>

theorem withdrawals_authorised_witness:
  "fst (DeleteComment sample_env ''5'' 3 thread_offline) = Inr ()
   \<and> db (snd (DeleteComment sample_env ''8'' 3 thread_offline)) = db thread_offline
   \<and> (\<exists>c \<in> set (comments (db thread_offline)). c_id c = 3 \<and> may_withdraw sample_env (db thread_offline) ''5'' (c_author_id c))"
proof -
  have f: "fst (DeleteComment sample_env ''5'' 3 thread_offline) = Inr ()"
    by (simp add: forum_eval thread_defs forum_literals)
  have "\<not> may_withdraw sample_env (db thread_offline) ''8'' 5"
    by (simp add: may_withdraw_def forum_literals admin_now_def role_of_def isEnvListed_def thread_defs Let_def)
  moreover have "c_author_id c = 5" if "c \<in> set (comments (db thread_offline))" for c
    using that by (auto simp: thread_defs)
  ultimately have "db (snd (DeleteComment sample_env ''8'' 3 thread_offline)) = db thread_offline"
    using withdrawals_authorised [of sample_env "''8''" 3 thread_offline] by (metis prod.collapse)
  moreover have "\<exists>c \<in> set (comments (db thread_offline)). c_id c = 3 \<and> may_withdraw sample_env (db thread_offline) ''5'' (c_author_id c)"
    using withdrawals_authorised [of sample_env "''5''" 3 thread_offline] f by (metis prod.collapse)
  ultimately show ?thesis using f by blast
qed

subsection \<open>Who reads what\<close>


text \<open>The post of user 5 was taken down: a guest and user 8 do not get it, user 5 does.\<close>

definition hidden_world :: world where
  "hidden_world = sample_world\<lparr>rds_on := False, db := empty_tables\<lparr>posts := [sample_post\<lparr>p_status := 2\<rparr>]\<rparr>\<rparr>"


end
