(* ===== verification/OpsAlerts.thy ===== *)
theory OpsAlerts
  imports Forum
begin

text \<open>
  Alerts to the operators (\<open>biz/campus.go\<close>: \<open>enqueueOpsAlert\<close> and what calls it, the buttons of an
  alert with their one-time tokens, the worker that sends the alerts) and the system notifications
  about moderation. The random tokens, SHA-256, the lifetime of a token, the names of the users
  and the sending of a card are parameters.
\<close>

text \<open>\<open>gen_token\<close> is the token drawn when so many ids were given out, or the error of the random
  generator; a name is the pair of name and nickname in the table of users.\<close>

record ops_ext =
  gen_token :: "nat \<Rightarrow> go_error + string"
  sha256_hex :: "string \<Rightarrow> string"
  token_ttl :: time
  user_name :: "int \<Rightarrow> string \<times> string"
  send_card :: "campusOpsAlertModel \<Rightarrow> (string \<times> time option \<times> string) io"

subsection \<open>One-time tokens\<close>

text \<open>The record of the business layer has the fields of the row.\<close>

type_synonym CampusOpsActionToken = campusOpsActionTokenModel

definition toOpsActionTokenModel :: "env \<Rightarrow> CampusOpsActionToken \<Rightarrow> campusOpsActionTokenModel" where
  "toOpsActionTokenModel E b = b\<lparr>
     tk_token_hash := trimLimitData (tk_token_hash b) 64,
     tk_action := trimLimitData (tk_action b) 32,
     tk_target_type := trimLimitData (tk_target_type b) 32,
     tk_reason := trimLimitData (tk_reason b) 255,
     tk_status := trimLimitData (if tk_status b = [] then ''active'' else tk_status b) 24,
     tk_created_at := now E, tk_updated_at := now E\<rparr>"

definition CreateOpsActionToken :: "env \<Rightarrow> CampusOpsActionToken \<Rightarrow> unit io" where
  "CreateOpsActionToken E b = (let row = toOpsActionTokenModel E b in
     sql_create action_tokens action_tokens_update
       (\<lambda>r. tk_id r = tk_id row \<or> tk_token_hash r = tk_token_hash row) row)"

text \<open>The first answer says whether the token was good and is now used; the row is locked.\<close>

definition UseOpsActionToken :: "string \<Rightarrow> time \<Rightarrow> (bool \<times> CampusOpsActionToken option) io" where
  "UseOpsActionToken tokenHash t = transaction (
     io_bind (sql_first action_tokens (\<lambda>r. tk_token_hash r = tokenHash)) (\<lambda>row.
     case row of None \<Rightarrow> ret (False, None)
     | Some r \<Rightarrow>
       if tk_status r \<noteq> ''active'' \<or> \<not> t < tk_expires_at r then ret (False, Some r)
       else io_then (sql_update action_tokens_update (\<lambda>q. tk_id q = tk_id r \<and> tk_status q = ''active'')
           (\<lambda>q. q\<lparr>tk_status := ''used'', tk_used_at := Some t, tk_updated_at := t\<rparr>))
         (ret (True, Some (r\<lparr>tk_status := ''used'', tk_used_at := Some t, tk_updated_at := t\<rparr>)))))"

definition hashOpsActionToken :: "'x ops_ext_scheme \<Rightarrow> string \<Rightarrow> string" where
  "hashOpsActionToken X token = sha256_hex X (trim_space token)"

definition generateOpsActionToken :: "'x ops_ext_scheme \<Rightarrow> string io" where
  "generateOpsActionToken X w = (gen_token X (next_seq w), w)"

definition createOpsActionToken ::
    "env \<Rightarrow> 'x ops_ext_scheme \<Rightarrow> string \<Rightarrow> string \<Rightarrow> int \<Rightarrow> string \<Rightarrow> string io" where
  "createOpsActionToken E X action targetType targetID reason =
     (if targetID \<le> 0 then ret []
      else io_bind (generateOpsActionToken X) (\<lambda>token.
      io_bind (NextID E) (\<lambda>tokenID.
      io_then (CreateOpsActionToken E \<lparr>tk_id = tokenID, tk_token_hash = hashOpsActionToken X token,
         tk_action = lower_trim action, tk_target_type = lower_trim targetType, tk_target_id = targetID,
         tk_reason = trimLimit reason 255, tk_status = ''active'', tk_expires_at = now E + token_ttl X,
         tk_used_at = None, tk_created_at = 0, tk_updated_at = 0\<rparr>)
      (ret token))))"

subsection \<open>Links\<close>

definition feishuCardCallbackEnabled :: "env \<Rightarrow> bool" where
  "feishuCardCallbackEnabled E \<longleftrightarrow> \<not> envBoolFalse (getenv E ''LEHU_FEISHU_CARD_CALLBACK_ENABLED'')"

definition trim_right :: "char \<Rightarrow> string \<Rightarrow> string" where
  "trim_right c s = rev (dropWhile (\<lambda>x. x = c) (rev s))"

definition trim_left :: "char \<Rightarrow> string \<Rightarrow> string" where
  "trim_left c s = dropWhile (\<lambda>x. x = c) s"

definition adminURL :: "env \<Rightarrow> string \<Rightarrow> string" where
  "adminURL E path0 = (let path = trim_space path0 in
     if has_prefix path ''http://'' \<or> has_prefix path ''https://'' then path
     else let base = firstNonEmpty [getenv E ''LEHU_ADMIN_ROOT_URL'', getenv E ''ADMIN_ROOT_URL''] in
       if base = [] then path
       else trim_right (CHR ''/'') base @ ''/'' @ trim_left (CHR ''/'') path)"

text \<open>\<open>url.QueryEscape\<close>.\<close>

definition hex_digit :: "nat \<Rightarrow> char" where
  "hex_digit n = (if n < 10 then char_of (48 + n) else char_of (55 + n))"

definition query_escape_char :: "char \<Rightarrow> string" where
  "query_escape_char c = (let b = byte c in
     if (48 \<le> b \<and> b \<le> 57) \<or> (65 \<le> b \<and> b \<le> 90) \<or> (97 \<le> b \<and> b \<le> 122) \<or> c \<in> set ''-_.~'' then [c]
     else if c = CHR '' '' then ''+''
     else [CHR ''%'', hex_digit (b div 16), hex_digit (b mod 16)])"

definition query_escape :: "string \<Rightarrow> string" where
  "query_escape s = concat (map query_escape_char s)"

definition has_suffix :: "string \<Rightarrow> string \<Rightarrow> bool" where
  "has_suffix s p \<longleftrightarrow> has_prefix (rev s) (rev p)"

definition buildFeishuActionURL :: "env \<Rightarrow> string \<Rightarrow> string \<Rightarrow> string" where
  "buildFeishuActionURL E token action =
     (let base = trim_right (CHR ''/'') (trim_space (getenv E ''LEHU_PUBLIC_API_BASE_URL'')) in
      if base = [] then adminURL E ''/admin/posts?status=0''
      else (if has_suffix base ''/v1'' then take (length base - 3) base else base) @
        ''/v1/campus/feishu/card/callback?action='' @ query_escape action @ ''&token='' @ query_escape token)"

subsection \<open>Alerts\<close>

definition enqueueOpsAlert ::
    "env \<Rightarrow> string \<Rightarrow> string \<Rightarrow> string \<Rightarrow> int \<Rightarrow> string \<Rightarrow> string \<Rightarrow> string \<Rightarrow> (string \<times> json) list \<Rightarrow> unit io"
where
  "enqueueOpsAlert E alertType0 priority targetType0 targetID dedupeKey title summary payload =
     io_bind (feishuOpsEnabled E) (\<lambda>on.
     if \<not> on \<or> targetID \<le> 0 then ret ()
     else let alertType = trim_space alertType0; targetType = trim_space targetType0 in
       if alertType = [] \<or> targetType = [] then ret ()
       else io_bind (NextID E) (\<lambda>alertID.
       CreateOpsAlert E \<lparr>t_id = alertID, t_status = ''pending'', t_retry_count = 0, t_next_retry_at = None,
         t_locked_until = None, t_created_at = 0, t_updated_at = 0,
         oa_alert_type = alertType,
         oa_priority = (if priority = [] then ''normal'' else priority),
         oa_target_type = targetType, oa_target_id = targetID,
         oa_dedupe_key = (if dedupeKey = [] then alertType @ '':'' @ targetType @ '':'' @ fmt_d targetID else dedupeKey),
         oa_title = trimLimit title 160, oa_summary = trimLimit summary 800, oa_payload = payload,
         oa_feishu_status = ''pending'', oa_feishu_error = [], oa_sent_at = None\<rparr>))"

text \<open>A button is there when its token could be stored.\<close>

definition button :: "string \<Rightarrow> string \<Rightarrow> string \<Rightarrow> (string \<times> json) list \<Rightarrow> json" where
  "button label style url extra_keys = JObj ([(''label'', JStr label), (''style'', JStr style), (''url'', JStr url)] @ extra_keys)"

definition enqueueAuditOpsAlert ::
    "env \<Rightarrow> 'x ops_ext_scheme \<Rightarrow> CampusForumPost \<Rightarrow> string \<Rightarrow> string \<Rightarrow> string \<Rightarrow> string list \<Rightarrow> unit io" where
  "enqueueAuditOpsAlert E X post decision riskLevel0 reason evidence =
     (if bp_id post \<le> 0 then ret ()
      else io_bind (feishuOpsEnabled E) (\<lambda>on. if \<not> on then ret ()
      else let riskLevel = normalizeAIContentAuditRiskLevel riskLevel0;
        high = (riskLevel = ''high'' \<or> decision = ''reject'')
      in io_bind (if high then highRiskNotifyEnabled E else ret True) (\<lambda>notify. if \<not> notify then ret ()
      else io_bind (if feishuCardCallbackEnabled E
        then io_bind (attempt (createOpsActionToken E X ''approve'' ''post'' (bp_id post) msg_by_feishu_approve)) (\<lambda>a.
             io_bind (attempt (createOpsActionToken E X ''reject'' ''post'' (bp_id post) reason)) (\<lambda>r.
             ret ((case a of Inr t \<Rightarrow> if t \<noteq> [] then [button msg_btn_approve ''primary'' (buildFeishuActionURL E t ''approve'') []] else []
                   | Inl e \<Rightarrow> []) @
                  (case r of Inr t \<Rightarrow> if t \<noteq> [] then [button msg_btn_reject ''danger'' (buildFeishuActionURL E t ''reject'') []] else []
                   | Inl e \<Rightarrow> []))))
        else ret []) (\<lambda>buttons.
      enqueueOpsAlert E (if high then ''audit_high_risk'' else ''audit_review_required'')
        (if high then ''critical'' else ''high'') ''post'' (bp_id post) (''audit:'' @ fmt_d (bp_id post))
        msg_alert_audit_title
        (msg_post_open_quote @ trimLimit (bp_title post) 50 @ msg_needs_review_colon @ firstNonEmpty [reason, msg_agent_suggests])
        [(''post_id'', JStr (fmt_d (bp_id post))), (''author_id'', JStr (bp_author_id post)),
         (''title'', JStr (bp_title post)), (''content'', JStr (trimLimit (bp_content post) 500)),
         (''decision'', JStr decision), (''risk_level'', JStr riskLevel), (''reason'', JStr reason),
         (''evidence'', JArr (map JStr evidence)),
         (''actions'', JArr (buttons @ [button msg_btn_admin ''default'' (adminURL E ''/admin/posts?status=0'') []])),
         (''admin_path'', JStr ''/admin/posts?status=0''),
         (''callback_ok'', JBool (feishuCardCallbackEnabled E))]))))"

subsection \<open>Reports and feedback\<close>

text \<open>A report with what is filled in for display: the reporter (name, nickname and id), the post,
  and the comment with its post.\<close>

record CampusForumReport =
  rt_id :: int
  rt_target_type :: string
  rt_target_id :: int
  rt_reporter_id :: string
  rt_reason :: string
  rt_detail :: string
  rt_status :: int
  rt_target :: "CampusForumPost option"
  rt_comment :: "(CampusForumComment \<times> CampusForumPost option) option"
  rt_reporter :: "(string \<times> string \<times> string) option"

definition campusReportReporterName :: "CampusForumReport \<Rightarrow> string" where
  "campusReportReporterName r = (case rt_reporter r of
     Some (name, nickname, userID) \<Rightarrow> firstNonEmpty [name, nickname, userID, rt_reporter_id r, msg_user]
   | None \<Rightarrow> firstNonEmpty [rt_reporter_id r, msg_user])"

text \<open>Title and excerpt of the target, excerpt of the comment, id and title of the post.\<close>

definition campusReportTargetSummary :: "CampusForumReport \<Rightarrow> string \<times> string \<times> string \<times> int \<times> string" where
  "campusReportTargetSummary r = (let
     (title, excerpt, postID, postTitle) = (case rt_target r of None \<Rightarrow> ([], [], 0, [])
       | Some p \<Rightarrow> (trimLimit (bp_title p) 80, trimLimit (bp_content p) 180, bp_id p, trimLimit (bp_title p) 80))
   in case rt_comment r of None \<Rightarrow> (title, excerpt, [], postID, postTitle)
      | Some (c, po) \<Rightarrow> let commentExcerpt = trimLimit (bc_content c) 180 in
        (case po of
           Some p \<Rightarrow> let t = trimLimit (bp_title p) 80 in
             (if title = [] then t else title, excerpt, commentExcerpt, bp_id p, t)
         | None \<Rightarrow> (title, excerpt, commentExcerpt, if 0 < bc_post_id c then bc_post_id c else postID, postTitle)))"

definition target_label :: "string \<Rightarrow> string" where
  "target_label ty = (if ty = ''post'' then msg_label_post else if ty = ''comment'' then msg_label_comment
     else msg_label_content)"

definition enqueueReportOpsAlert :: "env \<Rightarrow> 'x ops_ext_scheme \<Rightarrow> CampusForumReport \<Rightarrow> unit io" where
  "enqueueReportOpsAlert E X report = io_bind (reportNotifyEnabled E) (\<lambda>on.
     let targetType = normalizeCampusTargetType (rt_target_type report); label = target_label targetType
     in if \<not> on \<or> targetType = [] then ret ()
     else io_bind (if feishuCardCallbackEnabled E
       then io_bind (attempt (createOpsActionToken E X ''delete_reported'' targetType (rt_target_id report) msg_report_confirmed)) (\<lambda>d.
            io_bind (attempt (createOpsActionToken E X ''dismiss_report'' targetType (rt_target_id report) msg_report_unfounded)) (\<lambda>i.
            ret ((case d of Inr t \<Rightarrow> if t \<noteq> [] then [button (msg_btn_take_down @ label) ''danger''
                    (buildFeishuActionURL E t ''delete_reported'') [(''action'', JStr ''delete_reported'')]] else []
                  | Inl e \<Rightarrow> []) @
                 (case i of Inr t \<Rightarrow> if t \<noteq> [] then [button msg_btn_ignore_report ''default''
                    (buildFeishuActionURL E t ''dismiss_report'') [(''action'', JStr ''dismiss_report'')]] else []
                  | Inl e \<Rightarrow> []))))
       else ret []) (\<lambda>buttons. let
         adminPath = ''/admin/moderation?tab=reports&status=0'';
         reporterName = campusReportReporterName report;
         (title, excerpt, commentExcerpt, postID, postTitle) = campusReportTargetSummary report;
         targetText = firstNonEmpty [title, commentExcerpt, excerpt, label @ '' '' @ fmt_d (rt_target_id report)];
         summary = reporterName @ msg_reported @ label @ msg_open_quote @ trimLimit targetText 60 @
           msg_close_quote_colon @ firstNonEmpty [rt_reason report, msg_no_reason]
       in ignore (enqueueOpsAlert E ''report_created'' ''high'' ''report'' (rt_id report)
         (''report:'' @ fmt_d (rt_id report)) msg_alert_report_title summary
         [(''report_id'', JStr (fmt_d (rt_id report))), (''target_type'', JStr targetType),
          (''target_id'', JStr (fmt_d (rt_target_id report))), (''target_title'', JStr title),
          (''target_excerpt'', JStr excerpt), (''comment_excerpt'', JStr commentExcerpt),
          (''post_id'', JNum postID), (''post_title'', JStr postTitle),
          (''reporter_id'', JStr (rt_reporter_id report)), (''reporter_name'', JStr reporterName),
          (''reason'', JStr (rt_reason report)), (''detail'', JStr (rt_detail report)),
          (''actions'', JArr (buttons @ [button msg_btn_admin ''default'' (adminURL E adminPath)
             [(''action'', JStr ''open_admin'')]])),
          (''admin_path'', JStr adminPath), (''callback_ok'', JBool (feishuCardCallbackEnabled E))])))"

text \<open>The record of the business layer has the fields of the row, with the user as a string.\<close>

record CampusFeedback =
  fd_id :: int
  fd_user_id :: string
  fd_feedback_type :: string
  fd_content :: string
  fd_contact :: string
  fd_images :: "string list"
  fd_status :: int

definition opsFeishuFeedbackTypeEnabled :: "env \<Rightarrow> string \<Rightarrow> bool" where
  "opsFeishuFeedbackTypeEnabled E feedbackType = (let
     a = trim_space (getenv E ''CAMPUS_OPS_FEISHU_FEEDBACK_NOTIFY_TYPES'');
     allowed = (if a = [] then ''contact,cooperation,bug,content'' else a)
   in list_ex (\<lambda>item. lower_trim item = lower_trim feedbackType) (split_byte (CHR '','') allowed))"

definition enqueueFeedbackOpsAlert :: "env \<Rightarrow> CampusFeedback \<Rightarrow> unit io" where
  "enqueueFeedbackOpsAlert E f = io_bind (feedbackNotifyEnabled E) (\<lambda>on.
     if \<not> on \<or> \<not> opsFeishuFeedbackTypeEnabled E (fd_feedback_type f) then ret ()
     else ignore (enqueueOpsAlert E ''feedback_important'' ''high'' ''feedback'' (fd_id f)
       (''feedback:'' @ fmt_d (fd_id f)) msg_alert_feedback_title
       (fd_feedback_type f @ msg_kind_feedback @ trimLimit (fd_content f) 120)
       [(''feedback_id'', JStr (fmt_d (fd_id f))), (''feedback_type'', JStr (fd_feedback_type f)),
        (''user_id'', JStr (fd_user_id f)), (''contact'', JStr (fd_contact f)),
        (''content'', JStr (fd_content f)), (''image_count'', JNum (int (length (fd_images f))))]))"

subsection \<open>The worker that sends the alerts\<close>

text \<open>What is put on the card is a function of the alert and belongs to the parameter that sends it.\<close>

definition processOpsAlert :: "env \<Rightarrow> 'x ops_ext_scheme \<Rightarrow> CampusOpsAlert \<Rightarrow> unit io" where
  "processOpsAlert E X alert = (if t_id alert \<le> 0 then ret ()
     else io_bind (feishuOpsEnabled E) (\<lambda>on.
     if \<not> on then MarkOpsAlertSent E (t_id alert) ''skipped'' ''feishu disabled'' None
     else io_bind (send_card X alert) (\<lambda>(status, sentAt, errorMessage).
       MarkOpsAlertSent E (t_id alert) status errorMessage sentAt)))"

fun process_alerts :: "env \<Rightarrow> 'x ops_ext_scheme \<Rightarrow> CampusOpsAlert list \<Rightarrow> go_error option \<Rightarrow> go_error option io" where
  "process_alerts E X [] firstErr = ret firstErr"
| "process_alerts E X (item # items) firstErr = io_bind (attempt (processOpsAlert E X item)) (\<lambda>r. case r of
     Inr _ \<Rightarrow> process_alerts E X items firstErr
   | Inl e \<Rightarrow> io_then (markOpsAlertRetry E item e)
       (process_alerts E X items (case firstErr of None \<Rightarrow> Some e | Some f \<Rightarrow> Some f)))"

definition ProcessPendingOpsAlerts :: "env \<Rightarrow> 'x ops_ext_scheme \<Rightarrow> int \<Rightarrow> unit io" where
  "ProcessPendingOpsAlerts E X limit = io_bind (feishuOpsEnabled E) (\<lambda>on. if \<not> on then ret ()
     else io_bind (or_fail (internal msg_claim_alerts_failed)
         (ClaimOpsAlerts E (if limit \<le> 0 then 20 else limit) (seconds 30))) (\<lambda>items.
     io_bind (process_alerts E X items None) (\<lambda>firstErr.
     case firstErr of None \<Rightarrow> ret () | Some e \<Rightarrow> fail e)))"

subsection \<open>System notifications to one user\<close>

definition notifyPostAuditResult :: "env \<Rightarrow> CampusForumPost \<Rightarrow> bool \<Rightarrow> string \<Rightarrow> unit io" where
  "notifyPostAuditResult E post passed title =
     (if trim_space (bp_author_id post) = [] then ret ()
      else io_bind (NextID E) (\<lambda>outboxID.
      ignore (CreateNotificationOutbox E (zero_CampusNotificationOutbox\<lparr>
        bo_id := outboxID,
        bo_recipient_id := bp_author_id post,
        bo_actor_id := ''0'',
        bo_event_type := ''system'',
        bo_target_type := ''post'',
        bo_target_id := bp_id post,
        bo_dedupe_key := ''campus:post-audit:'' @ fmt_d (bp_id post) @ '':'' @ (if passed then ''true'' else ''false''),
        bo_title := title,
        bo_content := trimLimit (if passed then msg_published else msg_not_published) 80,
        bo_link_page := (if passed then ''post-detail'' else ''my-posts''),
        bo_link_params := (if passed then [(''id'', fmt_d (bp_id post))] else []),
        bo_status := ''pending''\<rparr>))))"

definition queueUserSystemNotification ::
    "env \<Rightarrow> string \<Rightarrow> string \<Rightarrow> int \<Rightarrow> string \<Rightarrow> string \<Rightarrow> string \<Rightarrow> (string \<times> string) list \<Rightarrow> string \<Rightarrow> unit io" where
  "queueUserSystemNotification E recipient targetType targetID title content linkPage linkParams dedupeKey =
     (let recipientID = trim_space recipient; ty = firstNonEmpty [targetType, ''system''] in
      if recipientID = [] \<or> recipientID = ''0'' then ret ()
      else io_bind (NextID E) (\<lambda>outboxID.
      ignore (CreateNotificationOutbox E (zero_CampusNotificationOutbox\<lparr>
        bo_id := outboxID,
        bo_recipient_id := recipientID,
        bo_actor_id := ''0'',
        bo_event_type := ''system'',
        bo_target_type := ty,
        bo_target_id := targetID,
        bo_dedupe_key := trimLimit (if dedupeKey = [] then ''campus:system:'' @ ty @ '':'' @ fmt_d targetID @ '':'' @
           recipientID @ '':'' @ title else dedupeKey) 160,
        bo_title := trimLimit title 80,
        bo_content := trimLimit content 500,
        bo_link_page := trimLimit (firstNonEmpty [linkPage, ''community'']) 64,
        bo_link_params := sanitizeTrackExtra linkParams,
        bo_status := ''pending''\<rparr>))))"

definition notifyReportReceived :: "env \<Rightarrow> string \<Rightarrow> int \<Rightarrow> string \<Rightarrow> unit io" where
  "notifyReportReceived E targetType targetID reporterID =
     queueUserSystemNotification E reporterID ''report'' targetID msg_report_received_title msg_report_received
       ''community'' [] (''campus:report-received:'' @ normalizeCampusTargetType targetType @ '':'' @
         fmt_d targetID @ '':'' @ trim_space reporterID)"

definition notifyReportResult :: "env \<Rightarrow> CampusForumReport \<Rightarrow> int \<Rightarrow> unit io" where
  "notifyReportResult E report status = (if trim_space (rt_reporter_id report) = [] then ret ()
     else queueUserSystemNotification E (rt_reporter_id report) ''report'' (rt_id report) msg_report_result_title
       (if status = CampusAuditStatusVisible then msg_report_handled else msg_report_dismissed)
       ''community'' [] (''campus:report-result:'' @ normalizeCampusTargetType (rt_target_type report) @ '':'' @
         fmt_d (rt_target_id report) @ '':'' @ trim_space (rt_reporter_id report) @ '':'' @ fmt_d status))"

subsection \<open>What the alerts leave alone\<close>

lemma setting_frames [frames]:
  "keeps g (GetOpsSetting k)" "keeps g (boolOpsSetting E k n d)" "keeps g (feishuOpsEnabled E)"
  "keeps g (highRiskNotifyEnabled E)" "keeps g (reportNotifyEnabled E)" "keeps g (feedbackNotifyEnabled E)"
  "keeps g (agentAuditEnabled E)" "keeps g (getCampusAuditSettings E)"
  unfolding GetOpsSetting_def boolOpsSetting_def feishuOpsEnabled_def highRiskNotifyEnabled_def reportNotifyEnabled_def
    feedbackNotifyEnabled_def agentAuditEnabled_def agentEnabled_def getCampusAuditSettings_def io_and_def Let_def
  by (intro frames)+

lemma SetOpsSetting_frames [frames]:
  "(\<And>h t. g (ops_settings_update h t) = g t) \<Longrightarrow> keeps g (SetOpsSetting E k v by)"
  unfolding SetOpsSetting_def Let_def by (intro frames; assumption?)

lemma token_frames [frames]:
  "(\<And>h t. g (action_tokens_update h t) = g t) \<Longrightarrow> keeps g (createOpsActionToken E X a ty i r)"
proof -
  have "keeps g (generateOpsActionToken X)" by (simp add: keeps_def generateOpsActionToken_def)
  then show "(\<And>h t. g (action_tokens_update h t) = g t) \<Longrightarrow> keeps g (createOpsActionToken E X a ty i r)"
    unfolding createOpsActionToken_def CreateOpsActionToken_def Let_def by (intro frames; assumption?)
qed

lemma alert_frames [frames]:
  "(\<And>h t. g (ops_alerts_update h t) = g t) \<Longrightarrow> keeps g (enqueueOpsAlert E a p ty i k t' s d)"
  "(\<And>h t. g (ops_alerts_update h t) = g t) \<Longrightarrow> keeps g (enqueueFeedbackOpsAlert E f)"
  unfolding enqueueOpsAlert_def enqueueFeedbackOpsAlert_def CreateOpsAlert_def Let_def by (intro frames; assumption?)+

lemma card_alert_frames [frames]:
  assumes "\<And>h t. g (ops_alerts_update h t) = g t" and "\<And>h t. g (action_tokens_update h t) = g t"
  shows "keeps g (enqueueAuditOpsAlert E X post d r s ev)" "keeps g (enqueueReportOpsAlert E X report)"
  unfolding enqueueAuditOpsAlert_def enqueueReportOpsAlert_def campusReportTargetSummary_def Let_def
  by (intro frames assms)+

lemma system_note_frames [frames]:
  assumes "\<And>h t. g (outbox_update h t) = g t"
  shows "keeps g (notifyPostAuditResult E post b t)" "keeps g (queueUserSystemNotification E r ty i t' c p l k)"
    "keeps g (notifyReportReceived E ty i u)" "keeps g (notifyReportResult E report st)"
  unfolding notifyPostAuditResult_def queueUserSystemNotification_def notifyReportReceived_def notifyReportResult_def
    CreateNotificationOutbox_def Let_def
  by (intro frames assms)+

lemma alert_totals [totals]:
  "no_fail (boolOpsSetting E k n d)" "no_fail (feishuOpsEnabled E)" "no_fail (reportNotifyEnabled E)"
  "no_fail (highRiskNotifyEnabled E)" "no_fail (feedbackNotifyEnabled E)" "no_fail (agentAuditEnabled E)"
  "no_fail (enqueueFeedbackOpsAlert E f)" "no_fail (enqueueReportOpsAlert E X report)"
  "no_fail (notifyPostAuditResult E post b t)" "no_fail (queueUserSystemNotification E r ty i t' c p l k)"
  "no_fail (notifyReportReceived E ty i u)" "no_fail (notifyReportResult E report st)"
  unfolding boolOpsSetting_def feishuOpsEnabled_def reportNotifyEnabled_def highRiskNotifyEnabled_def
    feedbackNotifyEnabled_def agentAuditEnabled_def agentEnabled_def io_and_def
    enqueueFeedbackOpsAlert_def enqueueReportOpsAlert_def notifyPostAuditResult_def queueUserSystemNotification_def
    notifyReportReceived_def notifyReportResult_def Let_def
  by (intro totals)+

subsection \<open>Questions while nothing fails\<close>

definition bool_setting_now :: "env \<Rightarrow> tables \<Rightarrow> string \<Rightarrow> string \<Rightarrow> bool \<Rightarrow> bool" where
  "bool_setting_now E t key envName fallback = (case setting_now t key of
     None \<Rightarrow> envBoolDefault (getenv E envName) fallback | Some v \<Rightarrow> parseBoolSetting v fallback)"

lemma boolOpsSetting_online:
  "faults w = [] \<Longrightarrow> boolOpsSetting E k n d w = (Inr (bool_setting_now E (db w) k n d), w)"
  by (simp add: boolOpsSetting_def GetOpsSetting_def attempt_def io_online bool_setting_now_def setting_now_def
      split: option.splits)

definition feishu_on :: "env \<Rightarrow> tables \<Rightarrow> bool" where
  "feishu_on E t \<longleftrightarrow> bool_setting_now E t ''feishu_ops_enabled'' []
     (\<not> envBoolFalse (getenv E ''CAMPUS_AGENT_FEISHU_ENABLED'') \<and>
      \<not> envBoolFalse (getenv E ''CAMPUS_OPS_FEISHU_EVENTS_ENABLED''))"

lemma feishuOpsEnabled_online: "faults w = [] \<Longrightarrow> feishuOpsEnabled E w = (Inr (feishu_on E (db w)), w)"
  by (simp add: feishuOpsEnabled_def feishu_on_def boolOpsSetting_online Let_def)

lemma operator_online: "faults w = [] \<Longrightarrow> isCampusOperator E u w = (Inr (operator_now E (db w) u), w)"
  using isCampusOperator_run [OF prod.collapse [symmetric], of E u w] by (auto simp: prod_eq_iff)

subsection \<open>A token works once\<close>

text \<open>
  Tokens are issued and redeemed in any order, by any process, with stores that fail at any point;
  \<open>accepted\<close> lists what was redeemed with success: the hash given, the time, the row.
\<close>

datatype token_call = Issue env campusOpsActionTokenModel | Redeem string time

fun accepted :: "token_call list \<Rightarrow> world \<Rightarrow> (string \<times> time \<times> campusOpsActionTokenModel) list" where
  "accepted [] w = []"
| "accepted (Issue E b # cs) w = accepted cs (snd (CreateOpsActionToken E b w))"
| "accepted (Redeem h t # cs) w = (case UseOpsActionToken h t w of (answer, w') \<Rightarrow>
     (case answer of Inr (True, Some r) \<Rightarrow> [(h, t, r)] | _ \<Rightarrow> []) @ accepted cs w')"

definition token_row :: "string \<Rightarrow> world \<Rightarrow> campusOpsActionTokenModel option" where
  "token_row h w = find (\<lambda>r. tk_token_hash r = h) (action_tokens (db w))"

definition spent :: "string \<Rightarrow> world \<Rightarrow> bool" where
  "spent h w \<longleftrightarrow> (\<exists>r. token_row h w = Some r \<and> tk_status r \<noteq> ''active'')"

lemma issue_keeps_spent:
  assumes "spent h w" and "CreateOpsActionToken E b w = (r, w')"
  shows "spent h w'"
proof -
  have "\<exists>ys. action_tokens (db w') = action_tokens (db w) @ ys"
  proof (cases r)
    case (Inl e)
    then have "db w' = db w" using assms(2) by (auto simp: CreateOpsActionToken_def Let_def dest: sql_InlD)
    then show ?thesis by simp
  next
    case (Inr x)
    then show ?thesis using assms(2) by (auto simp: CreateOpsActionToken_def Let_def elim!: sql_create_InrE)
  qed
  then show ?thesis using assms(1) by (auto simp: spent_def token_row_def find_append)
qed

abbreviation token_used :: "time \<Rightarrow> campusOpsActionTokenModel \<Rightarrow> campusOpsActionTokenModel" where
  "token_used t q \<equiv> q\<lparr>tk_status := ''used'', tk_used_at := Some t, tk_updated_at := t\<rparr>"

lemma UseOpsActionToken_effect:
  assumes "UseOpsActionToken h t w = (r, w')"
  shows "(\<forall>q. r \<noteq> Inr (True, q)) \<and> action_tokens (db w') = action_tokens (db w) \<or>
    (\<exists>q. token_row h w = Some q \<and> tk_status q = ''active'' \<and> t < tk_expires_at q \<and>
       r = Inr (True, Some (token_used t q)) \<and>
       action_tokens (db w') = upd_where (\<lambda>x. tk_id x = tk_id q \<and> tk_status x = ''active'')
         (token_used t) (action_tokens (db w)))"
proof (cases r)
  case (Inl e)
  then have "db w' = db w" using assms by (auto simp: UseOpsActionToken_def dest: transaction_atomic)
  with Inl show ?thesis by simp
next
  case (Inr x)
  show ?thesis
    using assms unfolding Inr UseOpsActionToken_def
    by (auto split: option.splits if_splits simp: token_row_def elim!: transaction_InrE io_InrE sql_first_InrE)
qed

lemma UseOpsActionToken_E:
  assumes "UseOpsActionToken h t w = (r, w')"
  obtains (refused) "\<forall>q. r \<noteq> Inr (True, q)" "action_tokens (db w') = action_tokens (db w)"
  | (used) q where "token_row h w = Some q" "tk_status q = ''active''" "t < tk_expires_at q"
      "r = Inr (True, Some (token_used t q))"
      "action_tokens (db w') = upd_where (\<lambda>x. tk_id x = tk_id q \<and> tk_status x = ''active'')
         (token_used t) (action_tokens (db w))"
  using UseOpsActionToken_effect [OF assms] by blast

lemma redeem_keeps_spent:
  assumes "spent h w" and "UseOpsActionToken h' t w = (r, w')"
  shows "spent h w'"
  using assms(2)
proof (cases rule: UseOpsActionToken_E)
  case refused
  then show ?thesis using assms(1) by (simp add: spent_def token_row_def)
next
  case (used q)
  then show ?thesis using assms(1) by (auto simp: spent_def token_row_def find_upd_where)
qed

lemma redeem_spends:
  assumes "UseOpsActionToken h t w = (Inr (True, q), w')"
  shows "spent h w'" and "\<not> spent h w"
    and "\<exists>r. q = Some r \<and> tk_status r = ''used'' \<and> tk_token_hash r = h \<and> t < tk_expires_at r"
proof -
  from assms obtain p where p: "token_row h w = Some p" "tk_status p = ''active''" "t < tk_expires_at p"
      "q = Some (token_used t p)"
      "action_tokens (db w') = upd_where (\<lambda>x. tk_id x = tk_id p \<and> tk_status x = ''active'')
         (token_used t) (action_tokens (db w))"
    by (cases rule: UseOpsActionToken_E) auto
  then have *: "token_row h w' = q" by (auto simp: token_row_def find_upd_where)
  have "tk_token_hash p = h" using p(1) by (auto simp: token_row_def find_Some_iff)
  with p * show "spent h w'" "\<not> spent h w"
    "\<exists>r. q = Some r \<and> tk_status r = ''used'' \<and> tk_token_hash r = h \<and> t < tk_expires_at r"
    by (auto simp: spent_def)
qed

lemma spent_not_accepted: "spent h w \<Longrightarrow> h \<notin> fst ` set (accepted cs w)"
proof (induction cs arbitrary: w)
  case (Cons c cs)
  show ?case
  proof (cases c)
    case (Issue E b)
    then show ?thesis using Cons.IH issue_keeps_spent [OF Cons.prems prod.collapse [symmetric]] by simp
  next
    case (Redeem h' t)
    obtain r w' where u: "UseOpsActionToken h' t w = (r, w')" by fastforce
    have "\<exists>q. r = Inr (True, q) \<Longrightarrow> h' \<noteq> h" using redeem_spends(2) u Cons.prems by metis
    then show ?thesis using Redeem u Cons.IH [OF redeem_keeps_spent [OF Cons.prems u]]
      by (auto split: sum.splits prod.splits bool.splits option.splits)
  qed
qed simp

text \<open>
  C28. The one-time tokens behind the buttons of an alert: however tokens are issued and redeemed,
  and wherever a store fails, each token is accepted at most once, with its own row, and never
  after it expired.
\<close>

theorem tokens_work_once:
  "distinct (map fst (accepted cs w))
   \<and> list_all (\<lambda>(h, t, r). tk_token_hash r = h \<and> tk_status r = ''used'' \<and> t < tk_expires_at r) (accepted cs w)"
proof (induction cs arbitrary: w)
  case (Cons c cs)
  show ?case
  proof (cases c)
    case (Redeem h t)
    obtain r w' where u: "UseOpsActionToken h t w = (r, w')" by fastforce
    show ?thesis
    proof (cases "\<exists>q. r = Inr (True, q)")
      case True
      then obtain q where r: "r = Inr (True, q)" by blast
      note s = redeem_spends [OF u [unfolded r]]
      show ?thesis using s(3) spent_not_accepted [OF s(1), of cs] Cons.IH [of w'] Redeem u r by (auto simp: image_iff)
    next
      case False
      then show ?thesis using Cons.IH [of w'] Redeem u
        by (auto split: sum.splits prod.splits bool.splits option.splits)
    qed
  qed (use Cons.IH in simp)
qed simp

end
