(* ===== verification/AiBudget.thy ===== *)
theory AiBudget
  imports OpsAlerts
begin

text \<open>
  What the model calls cost and when the budget forbids them (\<open>biz/campus.go\<close>:
  \<open>aiBudgetAllowsModel\<close>, \<open>aiBudgetSnapshot\<close>, \<open>recordAIUsage\<close>, \<open>maybeEnqueueAIBudgetWarning\<close>;
  \<open>data/campus.go\<close>: the usage log). Amounts are doubles; the two cost columns are \<open>DECIMAL(12,6)\<close>,
  into which MySQL rounds half away from zero. The warning ratios are written with the shortest
  decimals that give the double back, so they are kept as doubles here.
\<close>

subsection \<open>Settings that are numbers or strings\<close>

definition envFloatBiz :: "env \<Rightarrow> string \<Rightarrow> rat \<Rightarrow> rat" where
  "envFloatBiz E key fallback = (let value = trim_space (getenv E key) in
     if value = [] then fallback
     else case parse_float value of None \<Rightarrow> fallback | Some x \<Rightarrow> if x < 0 then fallback else x)"

definition floatOpsSetting :: "env \<Rightarrow> string \<Rightarrow> string \<Rightarrow> rat \<Rightarrow> rat io" where
  "floatOpsSetting E key envName fallback =
     io_bind (attempt (GetOpsSetting key)) (\<lambda>res. ret (case res of
       Inl e \<Rightarrow> envFloatBiz E envName fallback
     | Inr None \<Rightarrow> envFloatBiz E envName fallback
     | Inr (Some (value, by, when)) \<Rightarrow>
         (case parse_float (trim_space value) of None \<Rightarrow> fallback | Some x \<Rightarrow> if x < 0 then fallback else x)))"

definition stringOpsSetting :: "env \<Rightarrow> string \<Rightarrow> string \<Rightarrow> string \<Rightarrow> string io" where
  "stringOpsSetting E key envName fallback =
     io_bind (attempt (GetOpsSetting key)) (\<lambda>res. ret (case res of
       Inl e \<Rightarrow> firstNonEmpty [getenv E envName, fallback]
     | Inr None \<Rightarrow> firstNonEmpty [getenv E envName, fallback]
     | Inr (Some (value, by, when)) \<Rightarrow> if trim_space value = [] then fallback else trim_space value))"

definition clampRatioFloat :: "rat \<Rightarrow> rat \<Rightarrow> rat" where
  "clampRatioFloat value fallback = (if value \<le> 0 \<or> 1 < value then fallback else value)"

definition defaultAIMonthlyBudgetCNY :: "env \<Rightarrow> rat" where
  "defaultAIMonthlyBudgetCNY E = envFloatBiz E ''CAMPUS_AI_MONTHLY_BUDGET_CNY'' 5"

definition defaultAIDailyBudgetCNY :: "env \<Rightarrow> rat" where
  "defaultAIDailyBudgetCNY E = envFloatBiz E ''CAMPUS_AI_DAILY_BUDGET_CNY'' (1 / 2)"

definition defaultAgentAuditAutoPassConfidence :: "env \<Rightarrow> rat" where
  "defaultAgentAuditAutoPassConfidence E = envFloatBiz E ''CAMPUS_AGENT_AUDIT_AUTO_PASS_CONFIDENCE'' (round64 (85 / 100))"

definition agentAuditAutoPassConfidence :: "env \<Rightarrow> rat io" where
  "agentAuditAutoPassConfidence E = (let d = defaultAgentAuditAutoPassConfidence E in
     io_bind (floatOpsSetting E ''agent_audit_auto_pass_confidence'' ''CAMPUS_AGENT_AUDIT_AUTO_PASS_CONFIDENCE'' d)
       (\<lambda>x. ret (clampRatioFloat x d)))"

definition defaultAIBudgetWarnRatio :: "env \<Rightarrow> string" where
  "defaultAIBudgetWarnRatio E = firstNonEmpty [getenv E ''CAMPUS_AI_BUDGET_WARN_RATIO'', ''0.7,0.9'']"

text \<open>The ratios strictly between 0 and 1 of a list with commas.\<close>

definition ratios_of :: "string \<Rightarrow> rat list" where
  "ratios_of value = concat (map (\<lambda>part. case parse_float (trim_space part) of None \<Rightarrow> []
     | Some r \<Rightarrow> if 0 < r \<and> r < 1 then [r] else []) (split_byte (CHR '','') value))"

definition parseAIBudgetWarnRatios :: "env \<Rightarrow> string \<Rightarrow> rat list" where
  "parseAIBudgetWarnRatios E value0 = (let value = trim_space value0 in
     if value = [] \<or> ratios_of value = [] then ratios_of (defaultAIBudgetWarnRatio E) else ratios_of value)"

subsection \<open>Days and months in Shanghai\<close>

definition nanos_per_day :: int where "nanos_per_day = 24 * 60 * 60 * nanos_per_second"
definition zone_offset :: int where "zone_offset = 8 * 60 * 60 * nanos_per_second"

text \<open>The day of a time, counted from 1 January of the year 1.\<close>

definition local_day :: "time \<Rightarrow> int" where
  "local_day t = (t + zone_offset) div nanos_per_day"

definition day_start :: "int \<Rightarrow> time" where
  "day_start d = d * nanos_per_day - zone_offset"

text \<open>The Gregorian calendar by eras of 400 years that begin on 1 March: year, month and day of a
  day, and the day back.\<close>

definition civil_of_day :: "int \<Rightarrow> int \<times> int \<times> int" where
  "civil_of_day n = (let z = n + 306; era = z div 146097; doe = z mod 146097;
     yoe = (doe - doe div 1460 + doe div 36524 - doe div 146096) div 365;
     doy = doe - (365 * yoe + yoe div 4 - yoe div 100);
     mp = (5 * doy + 2) div 153;
     d = doy - (153 * mp + 2) div 5 + 1;
     m = (if mp < 10 then mp + 3 else mp - 9)
   in (yoe + era * 400 + (if m \<le> 2 then 1 else 0), m, d))"

definition day_of_civil :: "int \<Rightarrow> int \<Rightarrow> int \<Rightarrow> int" where
  "day_of_civil y0 m d = (let y = (if m \<le> 2 then y0 - 1 else y0); era = y div 400; yoe = y mod 400;
     doy = (153 * (if 2 < m then m - 3 else m + 9) + 2) div 5 + d - 1;
     doe = yoe * 365 + yoe div 4 - yoe div 100 + doy
   in era * 146097 + doe - 306)"

definition campusDayRange :: "time \<Rightarrow> time \<times> time" where
  "campusDayRange t = (day_start (local_day t), day_start (local_day t) + nanos_per_day)"

definition campusMonthRange :: "time \<Rightarrow> time \<times> time" where
  "campusMonthRange t = (case civil_of_day (local_day t) of (y, m, d) \<Rightarrow>
     (day_start (day_of_civil y m 1),
      day_start (if m = 12 then day_of_civil (y + 1) 1 1 else day_of_civil y (m + 1) 1)))"

subsection \<open>The usage log\<close>

record CampusAIModelUsage =
  mu_model :: string
  mu_prompt_tokens :: int
  mu_completion_tokens :: int
  mu_total_tokens :: int
  mu_estimated_cost_usd :: rat
  mu_estimated_cost_cny :: rat

text \<open>The record of the business layer has the fields of the row.\<close>

type_synonym CampusAIUsageLog = campusAIUsageLogModel

definition decimal6 :: "rat \<Rightarrow> rat" where
  "decimal6 x = of_int (\<lfloor>\<bar>x\<bar> * 1000000 + 1 / 2\<rfloor>) / 1000000 * sgn x"

definition toAIUsageLogModel :: "env \<Rightarrow> CampusAIUsageLog \<Rightarrow> campusAIUsageLogModel" where
  "toAIUsageLogModel E b = b\<lparr>
     au_feature := trimLimitData (au_feature b) 48,
     au_source_type := trimLimitData (au_source_type b) 48,
     au_source_id := trimLimitData (au_source_id b) 64,
     au_model := trimLimitData (au_model b) 64,
     au_status := trimLimitData (au_status b) 24,
     au_error_message := trimLimitData (au_error_message b) 1000,
     au_created_at := if au_created_at b = 0 then now E else au_created_at b\<rparr>"

definition stored_costs :: "campusAIUsageLogModel \<Rightarrow> campusAIUsageLogModel" where
  "stored_costs r = r\<lparr>au_estimated_cost_usd := decimal6 (au_estimated_cost_usd r),
     au_estimated_cost_cny := decimal6 (au_estimated_cost_cny r)\<rparr>"

definition CreateAIUsageLog :: "env \<Rightarrow> CampusAIUsageLog \<Rightarrow> unit io" where
  "CreateAIUsageLog E b = (let row = stored_costs (toAIUsageLogModel E b) in
     sql_create ai_usage_logs ai_usage_logs_update (\<lambda>r. au_id r = au_id row) row)"

record CampusAIUsageFeatureCost =
  fc_feature :: string
  fc_call_count :: int
  fc_failed_count :: int
  fc_prompt_tokens :: int
  fc_completion_tokens :: int
  fc_total_tokens :: int
  fc_estimated_cost_usd :: rat
  fc_estimated_cost_cny :: rat

text \<open>The sums over rows that both statements of the summary select; the sum of a decimal column is
  exact and read as a double. The total is the record without a feature.\<close>

definition usage_sums :: "string \<Rightarrow> campusAIUsageLogModel list \<Rightarrow> CampusAIUsageFeatureCost" where
  "usage_sums feature rows = \<lparr>
     fc_feature = feature,
     fc_call_count = int (length rows),
     fc_failed_count = count_where (\<lambda>r. au_status r = ''failed'') rows,
     fc_prompt_tokens = sum_list (map au_prompt_tokens rows),
     fc_completion_tokens = sum_list (map au_completion_tokens rows),
     fc_total_tokens = sum_list (map au_total_tokens rows),
     fc_estimated_cost_usd = round64 (sum_list (map au_estimated_cost_usd rows)),
     fc_estimated_cost_cny = round64 (sum_list (map au_estimated_cost_cny rows))\<rparr>"

definition in_period :: "time \<Rightarrow> time \<Rightarrow> campusAIUsageLogModel \<Rightarrow> bool" where
  "in_period s e r \<longleftrightarrow> (s \<noteq> 0 \<longrightarrow> s \<le> au_created_at r) \<and> (e \<noteq> 0 \<longrightarrow> au_created_at r < e)"

text \<open>Total and the features, the most expensive first, then the most called.\<close>

definition GetAIUsageSummary :: "time \<Rightarrow> time \<Rightarrow> (CampusAIUsageFeatureCost \<times> CampusAIUsageFeatureCost list) io" where
  "GetAIUsageSummary s e =
     io_bind (sql_find ai_usage_logs (in_period s e)) (\<lambda>rows.
     io_bind (sql_find ai_usage_logs (in_period s e)) (\<lambda>rows'.
     ret (usage_sums [] rows,
          sort_key (\<lambda>f. - fc_estimated_cost_cny f) (sort_key (\<lambda>f. - fc_call_count f)
            (map (\<lambda>f. usage_sums f (filter (\<lambda>r. au_feature r = f) rows')) (remdups (map au_feature rows')))))))"

subsection \<open>The budget\<close>

definition dayBudget :: "env \<Rightarrow> rat io" where
  "dayBudget E = floatOpsSetting E ''ai_daily_budget_cny'' ''CAMPUS_AI_DAILY_BUDGET_CNY'' (defaultAIDailyBudgetCNY E)"

definition monthBudget :: "env \<Rightarrow> rat io" where
  "monthBudget E = floatOpsSetting E ''ai_monthly_budget_cny'' ''CAMPUS_AI_MONTHLY_BUDGET_CNY'' (defaultAIMonthlyBudgetCNY E)"

definition aiBudgetEnabled :: "env \<Rightarrow> bool io" where
  "aiBudgetEnabled E = boolOpsSetting E ''ai_budget_enabled'' ''CAMPUS_AI_BUDGET_ENABLED'' True"

text \<open>The cost of a summary that may have failed.\<close>

definition cost_or_zero :: "go_error + CampusAIUsageFeatureCost \<times> 'a \<Rightarrow> rat" where
  "cost_or_zero s = (case s of Inl e \<Rightarrow> 0 | Inr (tot, _) \<Rightarrow> fc_estimated_cost_cny tot)"

definition aiBudgetSnapshot :: "env \<Rightarrow> (rat \<times> rat \<times> string) io" where
  "aiBudgetSnapshot E = (case (campusDayRange (now E), campusMonthRange (now E)) of ((ds, de), (ms, me)) \<Rightarrow>
     io_bind (attempt (GetAIUsageSummary ds de)) (\<lambda>day.
     io_bind (attempt (GetAIUsageSummary ms me)) (\<lambda>month. let dayCost = cost_or_zero day; monthCost = cost_or_zero month in
     io_bind (dayBudget E) (\<lambda>db. io_bind (monthBudget E) (\<lambda>mb.
     ret (dayCost, monthCost,
       if 0 < db \<and> db \<le> dayCost then ''daily_exceeded''
       else if 0 < mb \<and> mb \<le> monthCost then ''monthly_exceeded''
       else if (0 < db \<and> f_mul db (round64 (9 / 10)) \<le> dayCost) \<or> (0 < mb \<and> f_mul mb (round64 (9 / 10)) \<le> monthCost)
       then ''warning'' else ''ok''))))))"

definition aiBudgetAllowsModel :: "env \<Rightarrow> (bool \<times> string) io" where
  "aiBudgetAllowsModel E = io_bind (aiBudgetEnabled E) (\<lambda>on.
     if \<not> on then ret (True, [])
     else case (campusDayRange (now E), campusMonthRange (now E)) of ((ds, de), (ms, me)) \<Rightarrow>
     io_bind (dayBudget E) (\<lambda>db. io_bind (monthBudget E) (\<lambda>mb.
     io_bind (attempt (GetAIUsageSummary ds de)) (\<lambda>day.
     io_bind (attempt (GetAIUsageSummary ms me)) (\<lambda>month.
     ret (case (day, month) of
       (Inr (d, _), Inr (m, _)) \<Rightarrow>
         if 0 < db \<and> db \<le> fc_estimated_cost_cny d then (False, ''model_skipped_daily_budget'')
         else if 0 < mb \<and> mb \<le> fc_estimated_cost_cny m then (False, ''model_skipped_monthly_budget'')
         else (True, [])
     | _ \<Rightarrow> (True, [])))))))"

definition estimateCampusAIUsageCost :: "env \<Rightarrow> int \<Rightarrow> int \<Rightarrow> rat \<times> rat" where
  "estimateCampusAIUsageCost E promptTokens completionTokens = (let
     inputPrice = envFloatBiz E ''CAMPUS_AI_PRICE_INPUT_USD_PER_M'' (round64 (14 / 100));
     outputPrice = envFloatBiz E ''CAMPUS_AI_PRICE_OUTPUT_USD_PER_M'' (round64 (28 / 100));
     rate = envFloatBiz E ''CAMPUS_AI_USD_CNY_RATE'' (round64 (72 / 10));
     usd = f_add (f_mul (f_div (round64 (of_int promptTokens)) 1000000) inputPrice)
                 (f_mul (f_div (round64 (of_int completionTokens)) 1000000) outputPrice)
   in (usd, f_mul usd rate))"

text \<open>One warning for every ratio that has been reached, once a month.\<close>

fun warn_ratios :: "env \<Rightarrow> CampusAIUsageLog \<Rightarrow> rat \<Rightarrow> rat \<Rightarrow> rat list \<Rightarrow> unit io" where
  "warn_ratios E latest used budget [] = ret ()"
| "warn_ratios E latest used budget (ratio # ratios) =
     (if used < f_mul budget ratio then warn_ratios E latest used budget ratios
      else let percent = \<lfloor>f_mul ratio 100\<rfloor>;
        (y, m, d) = civil_of_day (local_day (now E));
        key = ''ai_budget_warn_sent_'' @ pad_left 4 (fmt_d y) @ pad_left 2 (fmt_d m) @ ''_'' @ fmt_d percent in
      io_bind (attempt (GetOpsSetting key)) (\<lambda>sent. case sent of
        Inr (Some _) \<Rightarrow> warn_ratios E latest used budget ratios
      | _ \<Rightarrow>
        io_bind (attempt (enqueueOpsAlert E ''ai_budget_warning'' ''high'' ''ai_budget'' percent key
          (msg_ai_budget_used @ fmt_f 0 (f_mul ratio 100) @ ''%'')
          (msg_ai_cost_this_month @ fmt_f 2 used @ msg_yuan_monthly_budget @ fmt_f 2 budget @
           msg_yuan_last_feature @ au_feature latest @ msg_full_stop)
          [(''used_cny'', JStr (fmt_f 4 used)), (''budget_cny'', JStr (fmt_f 2 budget)),
           (''ratio'', JStr (fmt_f 2 ratio)), (''feature'', JStr (au_feature latest)),
           (''admin_path'', JStr ''/admin/audit'')])) (\<lambda>queued.
        io_then (case queued of Inl e \<Rightarrow> ret () | Inr _ \<Rightarrow> ignore (SetOpsSetting E key ''true'' ''system''))
          (warn_ratios E latest used budget ratios))))"

definition maybeEnqueueAIBudgetWarning :: "env \<Rightarrow> CampusAIUsageLog \<Rightarrow> unit io" where
  "maybeEnqueueAIBudgetWarning E latest =
     io_bind (io_and (feishuOpsEnabled E) (aiBudgetEnabled E)) (\<lambda>on. if \<not> on then ret ()
     else case campusMonthRange (now E) of (ms, me) \<Rightarrow>
     io_bind (attempt (GetAIUsageSummary ms me)) (\<lambda>s. case s of Inl e \<Rightarrow> ret ()
     | Inr (tot, _) \<Rightarrow>
       io_bind (monthBudget E) (\<lambda>budget. if budget \<le> 0 then ret ()
       else io_bind (stringOpsSetting E ''ai_budget_warn_ratio'' ''CAMPUS_AI_BUDGET_WARN_RATIO'' (defaultAIBudgetWarnRatio E))
         (\<lambda>ratios. warn_ratios E latest (fc_estimated_cost_cny tot) budget (parseAIBudgetWarnRatios E ratios)))))"

definition usage_item :: "env \<Rightarrow> int \<Rightarrow> string \<Rightarrow> string \<Rightarrow> string \<Rightarrow> string \<Rightarrow> string \<Rightarrow> CampusAIModelUsage option \<Rightarrow> CampusAIUsageLog" where
  "usage_item E i feature0 sourceType sourceID status errorMessage usage = (let
     feature = trimLimit (trim_space feature0) 48;
     item = \<lparr>au_id = i, au_feature = (if feature = [] then ''unknown'' else feature),
       au_source_type = trimLimit sourceType 48, au_source_id = trimLimit sourceID 64,
       au_model = (case usage of None \<Rightarrow> [] | Some u \<Rightarrow> mu_model u),
       au_prompt_tokens = (case usage of None \<Rightarrow> 0 | Some u \<Rightarrow> mu_prompt_tokens u),
       au_completion_tokens = (case usage of None \<Rightarrow> 0 | Some u \<Rightarrow> mu_completion_tokens u),
       au_total_tokens = (case usage of None \<Rightarrow> 0 | Some u \<Rightarrow> mu_total_tokens u),
       au_estimated_cost_usd = (case usage of None \<Rightarrow> 0 | Some u \<Rightarrow> mu_estimated_cost_usd u),
       au_estimated_cost_cny = (case usage of None \<Rightarrow> 0 | Some u \<Rightarrow> mu_estimated_cost_cny u),
       au_status = firstNonEmpty [status, ''success''], au_error_message = trimLimit errorMessage 1000,
       au_created_at = now E\<rparr>
   in if au_estimated_cost_usd item = 0 \<and> (0 < au_prompt_tokens item \<or> 0 < au_completion_tokens item)
      then case estimateCampusAIUsageCost E (au_prompt_tokens item) (au_completion_tokens item) of (usd, cny) \<Rightarrow>
        item\<lparr>au_estimated_cost_usd := usd, au_estimated_cost_cny := cny\<rparr>
      else item)"

definition recordAIUsage ::
    "env \<Rightarrow> string \<Rightarrow> string \<Rightarrow> string \<Rightarrow> string \<Rightarrow> string \<Rightarrow> CampusAIModelUsage option \<Rightarrow> unit io" where
  "recordAIUsage E feature sourceType sourceID status errorMessage usage =
     io_bind (NextID E) (\<lambda>i. let item = usage_item E i feature sourceType sourceID status errorMessage usage in
     io_bind (attempt (CreateAIUsageLog E item)) (\<lambda>r. case r of
       Inl e \<Rightarrow> ret ()
     | Inr _ \<Rightarrow> maybeEnqueueAIBudgetWarning E item))"

subsection \<open>What the budget leaves alone\<close>

lemma budget_frames [frames]:
  "keeps g (floatOpsSetting E k n d)" "keeps g (stringOpsSetting E k n d')" "keeps g (agentAuditAutoPassConfidence E)"
  "keeps g (GetAIUsageSummary s e)" "keeps g (dayBudget E)" "keeps g (monthBudget E)" "keeps g (aiBudgetEnabled E)"
  "keeps g (aiBudgetAllowsModel E)" "keeps g (aiBudgetSnapshot E)"
  unfolding floatOpsSetting_def stringOpsSetting_def agentAuditAutoPassConfidence_def GetAIUsageSummary_def dayBudget_def
    monthBudget_def aiBudgetEnabled_def aiBudgetAllowsModel_def aiBudgetSnapshot_def Let_def
  by (intro frames)+

lemma budget_totals [totals]:
  "no_fail (floatOpsSetting E k n d)" "no_fail (stringOpsSetting E k n d')" "no_fail (agentAuditAutoPassConfidence E)"
  "no_fail (dayBudget E)" "no_fail (monthBudget E)" "no_fail (aiBudgetEnabled E)"
  "no_fail (aiBudgetAllowsModel E)" "no_fail (aiBudgetSnapshot E)"
  unfolding floatOpsSetting_def stringOpsSetting_def agentAuditAutoPassConfidence_def dayBudget_def
    monthBudget_def aiBudgetEnabled_def aiBudgetAllowsModel_def aiBudgetSnapshot_def Let_def
  by (intro totals)+

lemma warn_ratios_frames:
  assumes "\<And>h t. g (ops_alerts_update h t) = g t" and "\<And>h t. g (ops_settings_update h t) = g t"
  shows "keeps g (warn_ratios E latest used budget ratios)"
proof (induction ratios)
  case (Cons ratio ratios)
  show ?case unfolding warn_ratios.simps Let_def by (intro frames assms Cons)
qed (unfold warn_ratios.simps, intro frames)

lemma warn_ratios_total: "no_fail (warn_ratios E latest used budget ratios)"
proof (induction ratios)
  case (Cons ratio ratios)
  show ?case unfolding warn_ratios.simps Let_def by (intro totals Cons)
qed (unfold warn_ratios.simps, intro totals)

lemma recordAIUsage_frames [frames]:
  assumes "\<And>h t. g (ops_alerts_update h t) = g t" and "\<And>h t. g (ops_settings_update h t) = g t"
    and "\<And>h t. g (ai_usage_logs_update h t) = g t"
  shows "keeps g (recordAIUsage E f st si s e u)"
  unfolding recordAIUsage_def maybeEnqueueAIBudgetWarning_def CreateAIUsageLog_def io_and_def Let_def
  by (intro frames warn_ratios_frames assms)+

lemma recordAIUsage_total [totals]: "no_fail (recordAIUsage E f st si s e u)"
  unfolding recordAIUsage_def maybeEnqueueAIBudgetWarning_def io_and_def Let_def
  by (intro totals warn_ratios_total)+

end
