(* ===== verification/PostAudit.thy ===== *)
theory PostAudit
  imports AiBudget
begin

text \<open>
  Publishing a post and auditing it (\<open>biz/campus.go\<close>: \<open>CreatePost\<close>, the rules by words, the worker
  \<open>ProcessPendingAIContentAuditTasks\<close>). The audit agent is another service: \<open>post_audit\<close> sends
  it a document and gives the HTTP status and the body of the answer, \<open>decode_audit\<close> is
  \<open>json.Unmarshal\<close> into the result. \<open>json.Marshal\<close> of the documents that the worker stores is
  written out.
\<close>

subsection \<open>JSON documents\<close>

definition hex_lower :: "nat \<Rightarrow> char" where
  "hex_lower n = (if n < 10 then char_of (48 + n) else char_of (87 + n))"

text \<open>A segment of the string is a rune with its bytes; an invalid byte is U+FFFD with one byte.\<close>

definition json_escape :: "rune \<times> string \<Rightarrow> string" where
  "json_escape seg = (case seg of (r, bs) \<Rightarrow>
     if r = 34 \<or> r = 92 then [char_of (92::nat)] @ bs
     else if r = 8 then [char_of (92::nat), CHR ''b'']
     else if r = 12 then [char_of (92::nat), CHR ''f'']
     else if r = 10 then [char_of (92::nat), CHR ''n'']
     else if r = 13 then [char_of (92::nat), CHR ''r'']
     else if r = 9 then [char_of (92::nat), CHR ''t'']
     else if r < 32 \<or> r \<in> {60, 62, 38} then [char_of (92::nat)] @ ''u00'' @ [hex_lower (r div 16), hex_lower (r mod 16)]
     else if r = rune_error \<and> length bs = 1 then [char_of (92::nat)] @ ''ufffd''
     else if r = 8232 \<or> r = 8233 then [char_of (92::nat)] @ ''u202'' @ [hex_lower (r - 8224)]
     else bs)"

definition json_string :: "string \<Rightarrow> string" where
  "json_string s = [char_of (34::nat)] @ concat (map json_escape (segs s)) @ [char_of (34::nat)]"

definition json_strings :: "string list \<Rightarrow> string" where
  "json_strings ss = ''['' @ join '','' (map json_string ss) @ '']''"

text \<open>An object, its members in the order of the keys, the values already encoded.\<close>

definition json_object :: "(string \<times> string) list \<Rightarrow> string" where
  "json_object kvs = ''{'' @ join '','' (map (\<lambda>(k, v). json_string k @ '':'' @ v) kvs) @ ''}''"

subsection \<open>The rules by words\<close>

record campusContentRuleResult =
  ru_risk_level :: string
  ru_decision :: string
  ru_reason :: string
  ru_evidence :: "string list"

definition no_rule_result :: campusContentRuleResult where
  "no_rule_result = \<lparr>ru_risk_level = [], ru_decision = [], ru_reason = [], ru_evidence = []\<rparr>"

definition word_hit :: "string \<Rightarrow> string \<Rightarrow> bool" where
  "word_hit text word \<longleftrightarrow> trim_space word \<noteq> [] \<and> contains text (to_lower (trim_space word))"

definition classifyCampusPostByWords :: "string \<Rightarrow> string \<Rightarrow> string list \<Rightarrow> string list \<Rightarrow> campusContentRuleResult" where
  "classifyCampusPostByWords title content highWords mediumWords =
     (let text = to_lower (title @ [char_of (10::nat)] @ content) in
      case find (word_hit text) highWords of
        Some w \<Rightarrow> \<lparr>ru_risk_level = ''high'', ru_decision = ''review'',
          ru_reason = msg_high_risk_word @ trim_space w, ru_evidence = [''keyword:'' @ trim_space w]\<rparr>
      | None \<Rightarrow> (case find (word_hit text) mediumWords of
          Some w \<Rightarrow> \<lparr>ru_risk_level = ''medium'', ru_decision = ''review'',
            ru_reason = msg_needs_confirm @ trim_space w, ru_evidence = [''keyword:'' @ trim_space w]\<rparr>
        | None \<Rightarrow> if rune_count (trim_space (title @ content)) < 8
            then \<lparr>ru_risk_level = ''medium'', ru_decision = ''review'', ru_reason = msg_too_short, ru_evidence = [''too_short'']\<rparr>
            else \<lparr>ru_risk_level = ''low'', ru_decision = ''pass'', ru_reason = msg_rule_low_risk, ru_evidence = [''rule_low_risk'']\<rparr>))"

definition defaultAuditHighRiskWords :: "string list" where
  "defaultAuditHighRiskWords = [msg_word_gamble, msg_word_nude, msg_word_fraud, msg_word_exam, msg_word_class,
     msg_word_idcard, msg_word_bankcard, msg_word_drugs, msg_word_accounts, msg_word_orders, msg_word_cash]"

definition defaultAuditReviewWords :: "string list" where
  "defaultAuditReviewWords = [msg_word_wechat, msg_word_job, msg_word_war, msg_word_insult, msg_word_expose,
     msg_word_pillory, msg_word_contact, msg_word_private, msg_word_group, msg_word_qr]"

definition auditHighRiskWords :: "env \<Rightarrow> string list io" where
  "auditHighRiskWords E =
     io_bind (stringOpsSetting E ''audit_high_risk_words'' ''CAMPUS_AUDIT_HIGH_RISK_WORDS'' (join '','' defaultAuditHighRiskWords))
       (\<lambda>value. ret (normalizeAuditWords value defaultAuditHighRiskWords))"

definition auditReviewWords :: "env \<Rightarrow> string list io" where
  "auditReviewWords E =
     io_bind (stringOpsSetting E ''audit_review_words'' ''CAMPUS_AUDIT_REVIEW_WORDS'' (join '','' defaultAuditReviewWords))
       (\<lambda>value. ret (normalizeAuditWords value defaultAuditReviewWords))"

definition classifyCampusPostByRules :: "env \<Rightarrow> string \<Rightarrow> string \<Rightarrow> campusContentRuleResult io" where
  "classifyCampusPostByRules E title content =
     io_bind (auditHighRiskWords E) (\<lambda>high. io_bind (auditReviewWords E) (\<lambda>review.
     ret (classifyCampusPostByWords title content high review)))"

definition campusAgentModelConfigured :: "env \<Rightarrow> bool" where
  "campusAgentModelConfigured E \<longleftrightarrow> list_ex (\<lambda>key. trim_space (getenv E key) \<noteq> [])
     [''CAMPUS_AGENT_API_KEY'', ''CAMPUS_AI_API_KEY'', ''DEEPSEEK_API_KEY'', ''OPENAI_API_KEY'']"

text \<open>\<open>!agentAuditEnabled || !campusAgentModelConfigured\<close>: the second is not a question to a store.\<close>

definition agent_available :: "env \<Rightarrow> bool io" where
  "agent_available E = io_and (agentAuditEnabled E) (ret (campusAgentModelConfigured E))"

subsection \<open>Publishing\<close>

record CreateCampusPostInput =
  pi_user_id :: string
  pi_category_code :: string
  pi_title :: string
  pi_content :: string
  pi_images :: "string list"
  pi_media_type :: string
  pi_post_type :: string
  pi_extra :: "(string \<times> string) list"
  pi_cover_url :: string
  pi_is_official :: bool
  pi_is_featured :: bool
  pi_is_pinned :: bool
  pi_sort_weight :: int

definition GetCategoryByCode :: "string \<Rightarrow> campusForumCategoryModel option io" where
  "GetCategoryByCode code = sql_first categories (\<lambda>r. cat_code r = code \<and> \<not> cat_is_deleted r)"

definition enqueuePostAIContentAudit :: "env \<Rightarrow> CampusForumPost \<Rightarrow> unit io" where
  "enqueuePostAIContentAudit E post = (if bp_id post \<le> 0 then ret ()
     else io_bind (NextID E) (\<lambda>i. CreateAIContentAuditTask E \<lparr>t_id = i, t_status = ''pending'', t_retry_count = 0,
       t_next_retry_at = None, t_locked_until = None, t_created_at = 0, t_updated_at = 0,
       at_target_type = ''post'', at_target_id = bp_id post, at_risk_level = [], at_decision = [], at_reason = [],
       at_raw_result = [], at_last_error = [], at_processed_at = None\<rparr>))"

text \<open>What the audit mode makes of a new post: status and reason of the row, whether a task for the
  agent is queued, and what an alert to the operators will say.\<close>

record audit_route =
  ro_status :: int
  ro_reason :: string
  ro_enqueue :: bool
  ro_rule :: campusContentRuleResult
  ro_alert_reason :: string
  ro_alert_risk :: string
  ro_alert_evidence :: "string list"

definition route_public :: audit_route where
  "route_public = \<lparr>ro_status = CampusAuditStatusVisible, ro_reason = [], ro_enqueue = False, ro_rule = no_rule_result,
     ro_alert_reason = [], ro_alert_risk = [], ro_alert_evidence = []\<rparr>"

definition route_manual :: audit_route where
  "route_manual = route_public\<lparr>ro_status := CampusAuditStatusPending, ro_reason := msg_wait_manual\<rparr>"

definition route_ai :: "campusContentRuleResult \<Rightarrow> audit_route" where
  "route_ai rule = route_public\<lparr>ro_rule := rule, ro_alert_risk := ru_risk_level rule, ro_alert_evidence := ru_evidence rule\<rparr>"

definition route_ai_wait :: "campusContentRuleResult \<Rightarrow> string \<Rightarrow> audit_route" where
  "route_ai_wait rule alertReason = (route_ai rule)\<lparr>ro_status := CampusAuditStatusPending, ro_reason := msg_syncing,
     ro_alert_reason := alertReason\<rparr>"

definition audit_route_of :: "env \<Rightarrow> string \<Rightarrow> string \<Rightarrow> string \<Rightarrow> audit_route io" where
  "audit_route_of E auditMode title content =
     (if auditMode = ''manual'' then ret route_manual
      else if auditMode = ''ai'' then io_bind (classifyCampusPostByRules E title content) (\<lambda>rule.
        io_bind (agent_available E) (\<lambda>available.
        if \<not> available then
          (if ru_risk_level rule = ''low'' then ret (route_ai rule)
           else io_bind (agentAuditEnabled E) (\<lambda>on.
             ret (route_ai_wait rule (if \<not> on then msg_agent_off_wait else msg_model_missing_wait))))
        else io_bind (aiBudgetAllowsModel E) (\<lambda>(allowed, skippedReason).
          if \<not> allowed then
            (if ru_risk_level rule = ''low'' then ret (route_ai rule) else ret (route_ai_wait rule skippedReason))
          else ret ((route_ai_wait rule [])\<lparr>ro_enqueue := True\<rparr>))))
      else ret route_public)"

definition choose_route :: "env \<Rightarrow> bool \<Rightarrow> string \<Rightarrow> string \<Rightarrow> (string \<times> audit_route) io" where
  "choose_route E isOperator title content =
     (if isOperator then ret ([], route_public)
      else io_bind (getCampusAuditSettings E) (\<lambda>settings.
        io_bind (audit_route_of E (PostAuditMode settings) title content) (\<lambda>ro.
        ret (PostAuditMode settings, ro))))"

text \<open>After the insert: the task of the agent, or an alert, also when the task could not be queued.\<close>

definition announce_pending :: "env \<Rightarrow> 'x ops_ext_scheme \<Rightarrow> CampusForumPost \<Rightarrow> bool \<Rightarrow> string \<Rightarrow> audit_route \<Rightarrow> unit io" where
  "announce_pending E X post isOperator auditMode ro =
     (if isOperator \<or> ro_status ro \<noteq> CampusAuditStatusPending then ret ()
      else if auditMode = ''ai'' \<and> ro_enqueue ro then
        io_bind (attempt (enqueuePostAIContentAudit E post)) (\<lambda>r. case r of Inr _ \<Rightarrow> ret ()
        | Inl e \<Rightarrow> ignore (enqueueAuditOpsAlert E X post ''review''
            (firstNonEmpty [ro_alert_risk ro, ru_risk_level (ro_rule ro), ''medium''])
            (firstNonEmpty [ru_reason (ro_rule ro), msg_audit_queue_failed])
            (if ro_alert_evidence ro = [] then [''ai_audit_queue_failed''] else ro_alert_evidence ro)))
      else ignore (enqueueAuditOpsAlert E X post ''review'' (firstNonEmpty [ro_alert_risk ro, ''medium''])
        (firstNonEmpty [ro_alert_reason ro, ru_reason (ro_rule ro), ro_reason ro, msg_new_post_confirm])
        (if ro_alert_evidence ro = [] then [''manual_review''] else ro_alert_evidence ro)))"

definition post_images :: "string \<Rightarrow> string list \<Rightarrow> string list" where
  "post_images mediaType images = (if mediaType \<noteq> ''image'' then [] else images)"

definition new_post ::
    "CreateCampusPostInput \<Rightarrow> campusForumCategoryModel \<Rightarrow> string list \<Rightarrow> string \<Rightarrow> string \<Rightarrow> bool \<Rightarrow> audit_route \<Rightarrow>
     int \<Rightarrow> CampusForumPost" where
  "new_post input category images mediaType coverURL isOperator ro postID = \<lparr>
     bp_id = postID, bp_category_code = cat_code category, bp_category_name = cat_name category,
     bp_author_id = pi_user_id input, bp_title = trim_space (pi_title input), bp_content = trim_space (pi_content input),
     bp_images = images,
     bp_media_type = mediaType, bp_post_type = normalizeCampusPostType (pi_post_type input),
     bp_extra = sanitizeCampusPostExtra (pi_extra input), bp_cover_url = coverURL,
     bp_is_official = (pi_is_official input \<and> isOperator),
     bp_is_featured = (pi_is_featured input \<and> isOperator),
     bp_is_pinned = (pi_is_pinned input \<and> isOperator),
     bp_sort_weight = (if isOperator then clampSortWeight (pi_sort_weight input) else 0),
     bp_status = ro_status ro, bp_audit_reason = ro_reason ro,
     bp_like_count = 0, bp_comment_count = 0, bp_collected_count = 0, bp_created_at = 0, bp_updated_at = 0\<rparr>"

definition CreatePost_uc :: "env \<Rightarrow> 'x ops_ext_scheme \<Rightarrow> CreateCampusPostInput \<Rightarrow> CampusForumPost io" where
  "CreatePost_uc E X input = require_login (pi_user_id input) (
     let categoryCode = trim_space (pi_category_code input) in
     if categoryCode = [] then fail (InvalidArgument msg_select_board)
     else io_bind (or_fail (internal msg_query_board_failed) (GetCategoryByCode categoryCode)) (\<lambda>cat.
     case cat of None \<Rightarrow> fail (InvalidArgument msg_board_not_found)
     | Some category \<Rightarrow>
       let title = trim_space (pi_title input); content = trim_space (pi_content input) in
       if rune_count title < 2 \<or> 60 < rune_count title then fail (InvalidArgument msg_title_length)
       else if rune_count content < 2 \<or> 2000 < rune_count content then fail (InvalidArgument msg_body_length)
       else let images0 = sanitizeImages (pi_images input) 9 in
       (case normalizeCampusPostMedia (pi_media_type input) images0 (pi_cover_url input) of
         Inl e \<Rightarrow> fail e
       | Inr (mediaType, coverURL) \<Rightarrow>
         io_bind (isCampusOperator E (pi_user_id input)) (\<lambda>isOperator.
         io_bind (choose_route E isOperator title content) (\<lambda>(auditMode, ro).
         io_bind (NextID E) (\<lambda>postID.
         let post = new_post input category (post_images mediaType images0) mediaType coverURL isOperator ro postID in
         io_then (or_fail (internal msg_publish_failed) (CreatePost E post))
         (io_then (announce_pending E X post isOperator auditMode ro)
         (io_then (track E (pi_user_id input) ''post_create'' ''publish'' ''post'' postID)
         (ret post)))))))))"

subsection \<open>The worker of the audits\<close>

record aiContentAuditResult =
  re_decision :: string
  re_confidence :: rat
  re_risk_level :: string
  re_reason :: string
  re_evidence :: "string list"
  re_rule_risk_level :: string
  re_model_used :: bool
  re_model_usage :: "CampusAIModelUsage option"
  re_model_skipped_reason :: string

record audit_ext = ops_ext +
  post_audit :: "(string \<times> json) list \<Rightarrow> (int \<times> string) io"
  decode_audit :: "string \<Rightarrow> aiContentAuditResult option"

definition auditPostWithAI :: "env \<Rightarrow> 'x audit_ext_scheme \<Rightarrow> CampusForumPost \<Rightarrow> (aiContentAuditResult \<times> string) io" where
  "auditPostWithAI E X post =
     io_bind (auditHighRiskWords E) (\<lambda>high. io_bind (auditReviewWords E) (\<lambda>review.
     io_bind (post_audit X [(''post_id'', JStr (fmt_d (bp_id post))), (''author_id'', JStr (bp_author_id post)),
       (''title'', JStr (trimLimit (bp_title post) 160)), (''content'', JStr (trimLimit (bp_content post) 2400)),
       (''post_type'', JStr (bp_post_type post)), (''media_type'', JStr (bp_media_type post)),
       (''image_count'', JNum (int (length (bp_images post)))), (''model_allowed'', JBool True),
       (''high_risk_words'', JArr (map JStr high)), (''review_words'', JArr (map JStr review))]) (\<lambda>(status, raw).
     if status < 200 \<or> 300 \<le> status
     then fail (PlainError (''agent audit status='' @ fmt_d status @ '' body='' @ trimLimit raw 300) None)
     else ret (case decode_audit X raw of Some result \<Rightarrow> (result, raw)
       | None \<Rightarrow> (\<lparr>re_decision = ''review'', re_confidence = 0, re_risk_level = ''medium'', re_reason = msg_agent_bad_format,
           re_evidence = [], re_rule_risk_level = [], re_model_used = False, re_model_usage = None,
           re_model_skipped_reason = []\<rparr>, raw)))))"

definition CreateAuditLog ::
    "env \<Rightarrow> string \<Rightarrow> int \<Rightarrow> string \<Rightarrow> string \<Rightarrow> string \<Rightarrow> string \<Rightarrow> unit io" where
  "CreateAuditLog E targetType targetID userID provider result reason =
     io_bind (NextID E) (\<lambda>i. sql_create audit_logs audit_logs_update (\<lambda>r. al_id r = i)
       \<lparr>al_id = i, al_target_type = targetType, al_target_id = targetID, al_user_id = parseID userID,
        al_provider = provider, al_result = result, al_reason = reason, al_created_at = now E\<rparr>)"

definition passPostByRuleFallback ::
    "env \<Rightarrow> CampusAIContentAuditTask \<Rightarrow> CampusForumPost \<Rightarrow> campusContentRuleResult \<Rightarrow> string \<Rightarrow> unit io" where
  "passPostByRuleFallback E tsk post rule skippedReason =
     io_then (UpdatePostStatus E (bp_id post) CampusAuditStatusVisible [])
     (let reason = firstNonEmpty [ru_reason rule, msg_rule_low_risk];
        rawResult = json_object [(''confidence'', ''0.96''), (''decision'', json_string ''pass''),
          (''evidence'', json_strings (ru_evidence rule)), (''fallback'', ''true''),
          (''model_skipped_reason'', json_string skippedReason), (''model_used'', ''false''),
          (''reason'', json_string reason), (''risk_level'', json_string ''low''),
          (''rule_risk_level'', json_string ''low'')] in
      io_then (ignore (CreateAuditLog E ''post'' (bp_id post) (bp_author_id post) ''rule'' ''pass'' reason))
      (MarkAIContentAuditTaskDone E (t_id tsk) ''pass'' ''low'' reason rawResult))"

text \<open>The agent is not asked: a post of low risk passes, any other waits for the operators.\<close>

definition audit_without_agent ::
    "env \<Rightarrow> 'x audit_ext_scheme \<Rightarrow> CampusAIContentAuditTask \<Rightarrow> CampusForumPost \<Rightarrow> campusContentRuleResult \<Rightarrow>
     string \<Rightarrow> string \<Rightarrow> string list \<Rightarrow> unit io" where
  "audit_without_agent E X tsk post rule reason skippedReason alertEvidence =
     (if ru_risk_level rule = ''low'' then passPostByRuleFallback E tsk post rule reason
      else let rawResult = json_object [(''decision'', json_string ''review''),
          (''evidence'', json_strings (ru_evidence rule)), (''model_skipped_reason'', json_string skippedReason),
          (''model_used'', ''false''), (''reason'', json_string reason),
          (''risk_level'', json_string (ru_risk_level rule)), (''rule_risk_level'', json_string (ru_risk_level rule))] in
        io_then (UpdatePostStatus E (bp_id post) CampusAuditStatusPending reason)
        (io_then (ignore (enqueueAuditOpsAlert E X post ''review'' (ru_risk_level rule) reason alertEvidence))
        (MarkAIContentAuditTaskDone E (t_id tsk) ''review'' (ru_risk_level rule) reason rawResult)))"

text \<open>The agent could not be asked.\<close>

definition audit_agent_failed ::
    "env \<Rightarrow> 'x audit_ext_scheme \<Rightarrow> CampusAIContentAuditTask \<Rightarrow> CampusForumPost \<Rightarrow> campusContentRuleResult \<Rightarrow>
     go_error \<Rightarrow> unit io" where
  "audit_agent_failed E X tsk post rule err =
     (if ru_risk_level rule = ''low''
      then passPostByRuleFallback E tsk post rule (''agent_error:'' @ trimLimit (error_text err) 120)
      else let rawResult = json_object [(''decision'', json_string ''review''), (''error'', json_string (error_text err)),
          (''reason'', json_string msg_agent_down), (''risk_level'', json_string ''high'')] in
        io_then (ignore (enqueueAuditOpsAlert E X post ''review'' ''high'' msg_agent_down
          [''agent_error:'' @ trimLimit (error_text err) 180]))
        (io_then (ignore (CreateAuditLog E ''post'' (bp_id post) (bp_author_id post) ''agent'' ''review'' msg_agent_down))
        (MarkAIContentAuditTaskDone E (t_id tsk) ''review'' ''high'' msg_agent_down rawResult)))"

text \<open>What the answer of the agent comes to: the post passes, or it waits with an alert that shows
  the decision; the decision, the risk and the reason are kept in the task.\<close>

record audit_outcome =
  oc_pass :: bool
  oc_decision :: string
  oc_risk_level :: string
  oc_reason :: string
  oc_alert_decision :: string
  oc_alert_evidence :: "string list"

definition audit_outcome_of :: "campusContentRuleResult \<Rightarrow> aiContentAuditResult \<Rightarrow> rat \<Rightarrow> audit_outcome" where
  "audit_outcome_of rule result threshold = (let
     d = normalizeAIContentAuditDecision (re_decision result);
     decision = (if d = [] then ''review'' else d);
     riskLevel = normalizeAIContentAuditRiskLevel (re_risk_level result);
     ruleRiskLevel = normalizeAIContentAuditRiskLevel (firstNonEmpty [re_rule_risk_level result, ru_risk_level rule]);
     reason = trimLimit (firstNonEmpty [re_reason result, msg_ai_suggests_review]) 240;
     confidence = (if re_confidence result < 0 \<or> 1 < re_confidence result then 0 else re_confidence result)
   in if ruleRiskLevel \<noteq> ''high'' \<and> decision = ''pass'' \<and> riskLevel = ''low'' \<and> threshold \<le> confidence
      then \<lparr>oc_pass = True, oc_decision = decision, oc_risk_level = riskLevel, oc_reason = reason,
        oc_alert_decision = [], oc_alert_evidence = []\<rparr>
      else if ruleRiskLevel = ''high''
      then \<lparr>oc_pass = False, oc_decision = ''review'', oc_risk_level = ''high'',
        oc_reason = firstNonEmpty [reason, ru_reason rule, msg_rule_high_risk], oc_alert_decision = ''review'',
        oc_alert_evidence = re_evidence result @ ru_evidence rule\<rparr>
      else \<lparr>oc_pass = False, oc_decision = ''review'', oc_risk_level = riskLevel, oc_reason = reason,
        oc_alert_decision = (if decision = ''reject'' then ''reject'' else ''review''),
        oc_alert_evidence = re_evidence result\<rparr>)"

text \<open>The threshold is read only when everything else lets the post pass.\<close>

definition read_threshold :: "env \<Rightarrow> campusContentRuleResult \<Rightarrow> aiContentAuditResult \<Rightarrow> rat io" where
  "read_threshold E rule result =
     (if oc_pass (audit_outcome_of rule result 0) then agentAuditAutoPassConfidence E else ret 0)"

definition record_audit_usage :: "env \<Rightarrow> CampusForumPost \<Rightarrow> aiContentAuditResult \<Rightarrow> unit io" where
  "record_audit_usage E post result =
     (if re_model_usage result = None \<and> \<not> re_model_used result then ret ()
      else let skipped = re_model_skipped_reason result; failed = (skipped \<noteq> [] \<and> skipped \<noteq> ''rule_low_risk'') in
        recordAIUsage E ''content_audit'' ''post'' (fmt_d (bp_id post)) (if failed then ''failed'' else ''success'')
          (if failed then skipped else []) (re_model_usage result))"

definition apply_outcome ::
    "env \<Rightarrow> 'x audit_ext_scheme \<Rightarrow> CampusAIContentAuditTask \<Rightarrow> CampusForumPost \<Rightarrow> audit_outcome \<Rightarrow> string \<Rightarrow> unit io" where
  "apply_outcome E X tsk post oc raw =
     io_then (UpdatePostStatus E (bp_id post) (if oc_pass oc then CampusAuditStatusVisible else CampusAuditStatusPending)
       (if oc_pass oc then [] else oc_reason oc))
     (io_then (if oc_pass oc then ret () else ignore (enqueueAuditOpsAlert E X post (oc_alert_decision oc)
        (oc_risk_level oc) (oc_reason oc) (oc_alert_evidence oc)))
     (io_then (ignore (CreateAuditLog E ''post'' (bp_id post) (bp_author_id post) ''agent'' (oc_decision oc) (oc_reason oc)))
     (MarkAIContentAuditTaskDone E (t_id tsk) (oc_decision oc) (oc_risk_level oc) (oc_reason oc) raw)))"

definition audit_with_answer ::
    "env \<Rightarrow> 'x audit_ext_scheme \<Rightarrow> CampusAIContentAuditTask \<Rightarrow> CampusForumPost \<Rightarrow> campusContentRuleResult \<Rightarrow>
     aiContentAuditResult \<Rightarrow> string \<Rightarrow> unit io" where
  "audit_with_answer E X tsk post rule result raw =
     io_then (record_audit_usage E post result)
     (io_bind (read_threshold E rule result) (\<lambda>threshold.
      apply_outcome E X tsk post (audit_outcome_of rule result threshold) raw))"

definition audit_pending_post :: "env \<Rightarrow> 'x audit_ext_scheme \<Rightarrow> CampusAIContentAuditTask \<Rightarrow> CampusForumPost \<Rightarrow> unit io" where
  "audit_pending_post E X tsk post =
     io_bind (classifyCampusPostByRules E (bp_title post) (bp_content post)) (\<lambda>rule.
     io_bind (agent_available E) (\<lambda>available.
     if \<not> available then audit_without_agent E X tsk post rule
       (if \<not> campusAgentModelConfigured E then msg_agent_no_model else msg_agent_unavailable)
       ''model_unavailable'' (ru_evidence rule)
     else io_bind (aiBudgetAllowsModel E) (\<lambda>(allowed, skippedReason).
       if \<not> allowed then (let reason = firstNonEmpty [skippedReason, ''model_skipped_budget''] in
         audit_without_agent E X tsk post rule reason reason (ru_evidence rule @ [reason]))
       else io_bind (attempt (auditPostWithAI E X post)) (\<lambda>answer. case answer of
         Inl err \<Rightarrow> audit_agent_failed E X tsk post rule err
       | Inr (result, raw) \<Rightarrow> audit_with_answer E X tsk post rule result raw))))"

definition processAIContentAuditTask :: "env \<Rightarrow> 'x audit_ext_scheme \<Rightarrow> CampusAIContentAuditTask \<Rightarrow> unit io" where
  "processAIContentAuditTask E X tsk =
     (if at_target_type tsk \<noteq> ''post''
      then fail (PlainError (''unsupported ai audit target type: '' @ at_target_type tsk) None)
      else io_bind (GetAnyPostByID (at_target_id tsk)) (\<lambda>p. case p of
        None \<Rightarrow> fail (PlainError ''post not found'' None)
      | Some post \<Rightarrow>
        if bp_status post \<noteq> CampusAuditStatusPending
        then MarkAIContentAuditTaskDone E (t_id tsk) ''review'' ''none'' msg_no_longer_pending []
        else audit_pending_post E X tsk post))"

definition markAIContentAuditTaskRetry ::
    "env \<Rightarrow> 'x audit_ext_scheme \<Rightarrow> CampusAIContentAuditTask \<Rightarrow> go_error \<Rightarrow> unit io" where
  "markAIContentAuditTaskRetry E X item err =
     (case next_retry campusAIContentAuditTaskMaxRetry aiContentAuditBackoff (now E) (t_retry_count item) of
        (retryCount, final, nextRetryAt) \<Rightarrow>
      io_then (ignore (MarkAIContentAuditTaskRetry E (t_id item) retryCount nextRetryAt (error_text err) final))
      (if final \<and> at_target_type item = ''post'' then
         io_then (ignore (UpdatePostStatus E (at_target_id item) CampusAuditStatusPending msg_audit_failed_wait))
         (io_bind (attempt (GetAnyPostByID (at_target_id item))) (\<lambda>p. case p of
            Inr (Some post) \<Rightarrow> ignore (enqueueAuditOpsAlert E X post ''review'' ''high'' msg_agent_failed_often
              [trimLimit (error_text err) 180])
          | _ \<Rightarrow> ret ()))
       else ret ()))"

fun process_audits :: "env \<Rightarrow> 'x audit_ext_scheme \<Rightarrow> CampusAIContentAuditTask list \<Rightarrow> go_error option \<Rightarrow> go_error option io" where
  "process_audits E X [] firstErr = ret firstErr"
| "process_audits E X (tsk # tasks) firstErr =
     io_bind (attempt (processAIContentAuditTask E X tsk)) (\<lambda>r. case r of
       Inr _ \<Rightarrow> process_audits E X tasks firstErr
     | Inl e \<Rightarrow> io_then (markAIContentAuditTaskRetry E X tsk e)
         (process_audits E X tasks (case firstErr of None \<Rightarrow> Some e | Some f \<Rightarrow> Some f)))"

definition ProcessPendingAIContentAuditTasks :: "env \<Rightarrow> 'x audit_ext_scheme \<Rightarrow> int \<Rightarrow> unit io" where
  "ProcessPendingAIContentAuditTasks E X limit =
     io_bind (or_fail (internal msg_claim_audits_failed)
       (ClaimAIContentAuditTasks E (if limit \<le> 0 then 10 else limit) (seconds 45))) (\<lambda>tasks.
     io_bind (process_audits E X tasks None) (\<lambda>firstErr.
     case firstErr of None \<Rightarrow> ret () | Some e \<Rightarrow> fail e))"

subsection \<open>What auditing leaves alone\<close>

lemma rules_frames [frames]:
  "keeps g (auditHighRiskWords E)" "keeps g (auditReviewWords E)" "keeps g (classifyCampusPostByRules E title content)"
  "keeps g (agent_available E)" "keeps g (audit_route_of E m title content)" "keeps g (GetCategoryByCode code)"
  "keeps g (choose_route E op title content)"
  "keeps g (read_threshold E rule result)"
  unfolding auditHighRiskWords_def auditReviewWords_def classifyCampusPostByRules_def agent_available_def io_and_def
    audit_route_of_def choose_route_def GetCategoryByCode_def read_threshold_def Let_def
  by (intro frames)+

lemma announce_frames [frames]:
  assumes "\<And>h t. g (ops_alerts_update h t) = g t" and "\<And>h t. g (action_tokens_update h t) = g t"
    and "\<And>h t. g (ai_audit_tasks_update h t) = g t"
  shows "keeps g (announce_pending E X post op m ro)"
  unfolding announce_pending_def enqueuePostAIContentAudit_def CreateAIContentAuditTask_def Let_def
  by (intro frames assms)+

lemma announce_total [totals]: "no_fail (announce_pending E X post op m ro)"
  unfolding announce_pending_def Let_def by (intro totals)+

lemma CreateAuditLog_frames [frames]:
  "(\<And>h t. g (audit_logs_update h t) = g t) \<Longrightarrow> keeps g (CreateAuditLog E ty i u p r s)"
  unfolding CreateAuditLog_def by (intro frames; assumption?)

lemma auditPostWithAI_frames [frames]:
  "(\<And>doc. keeps g (post_audit X doc)) \<Longrightarrow> keeps g (auditPostWithAI E X post)"
  unfolding auditPostWithAI_def Let_def by (intro frames; assumption?)

lemma task_done_frames [frames]:
  "(\<And>h t. g (ai_audit_tasks_update h t) = g t) \<Longrightarrow> keeps g (MarkAIContentAuditTaskDone E i d l r raw)"
  unfolding MarkAIContentAuditTaskDone_def by (intro frames; assumption?)

subsection \<open>A new post is public only when the audit lets it\<close>

definition audit_mode :: "tables \<Rightarrow> string" where
  "audit_mode t = (case setting_now t ''post_audit_mode'' of None \<Rightarrow> ''off''
     | Some v \<Rightarrow> let m = normalizeCampusPostAuditMode v in if m = [] then ''off'' else m)"

lemma audit_mode_cases: "audit_mode t \<in> {''off'', ''manual'', ''ai''}"
  by (auto simp: audit_mode_def normalizeCampusPostAuditMode_def Let_def split: option.splits)

text \<open>The rules, with the words as read under some pattern of failures, find no risk in the text.\<close>

definition rules_say :: "env \<Rightarrow> tables \<Rightarrow> string \<Rightarrow> string \<Rightarrow> campusContentRuleResult \<Rightarrow> bool" where
  "rules_say E t title content rule \<longleftrightarrow>
     (\<exists>w1 w2. db w1 = t \<and> classifyCampusPostByRules E title content w1 = (Inr rule, w2))"

definition rules_clear :: "env \<Rightarrow> tables \<Rightarrow> string \<Rightarrow> string \<Rightarrow> bool" where
  "rules_clear E t title content \<longleftrightarrow> (\<exists>rule. rules_say E t title content rule \<and> ru_risk_level rule = ''low'')"

lemma audit_settings_mode:
  assumes "getCampusAuditSettings E w = (Inr s, w')"
  shows "PostAuditMode s = audit_mode (db w)" and "db w' = db w"
proof -
  show "PostAuditMode s = audit_mode (db w)"
    using assms
    by (auto simp: getCampusAuditSettings_def GetOpsSetting_def audit_mode_def setting_now_def Let_def
        elim!: io_InrE sql_first_InrE split: option.splits)
  show "db w' = db w" by (rule keepsD [OF setting_frames(8) assms])
qed

lemma ro_status_simps [simp]:
  "ro_status route_public = CampusAuditStatusVisible" "ro_status route_manual = CampusAuditStatusPending"
  "ro_status (route_ai rule) = CampusAuditStatusVisible" "ro_status (route_ai_wait rule s) = CampusAuditStatusPending"
  by (simp_all add: route_public_def route_manual_def route_ai_def route_ai_wait_def)

lemma audit_route_status:
  assumes "audit_route_of E m title content w = (Inr ro, w')"
  shows "ro_status ro = CampusAuditStatusPending \<or>
    (ro_status ro = CampusAuditStatusVisible \<and> m \<noteq> ''manual'' \<and> (m = ''ai'' \<longrightarrow> rules_clear E (db w) title content))"
proof (cases "m = ''ai''")
  case True
  then have "m \<noteq> ''manual''" by simp
  from assms True obtain rule w1 where c: "classifyCampusPostByRules E title content w = (Inr rule, w1)"
    and k: "ro_status ro = CampusAuditStatusPending \<or> (ro_status ro = CampusAuditStatusVisible \<and> ru_risk_level rule = ''low'')"
    by (auto simp: audit_route_of_def elim!: io_bind_InrE split: if_splits)
  with True show ?thesis unfolding rules_clear_def rules_say_def by blast
qed (use assms in \<open>auto simp: audit_route_of_def split: if_splits\<close>)

lemma CreatePost_uc_E:
  assumes "CreatePost_uc E X input w = (Inr post, w')"
  obtains category images mediaType coverURL isOperator ro n w1 w2
  where "post = new_post input category images mediaType coverURL isOperator ro (idgen E n)"
    and "rune_count (trim_space (pi_title input)) \<in> {2..60}" and "rune_count (trim_space (pi_content input)) \<in> {2..2000}"
    and "images = [] \<or> images = sanitizeImages (pi_images input) 9"
    and "isOperator \<Longrightarrow> operator_now E (db w) (pi_user_id input)"
    and "ro_status ro = CampusAuditStatusPending \<or> (ro_status ro = CampusAuditStatusVisible \<and> (isOperator \<or>
      (audit_mode (db w) \<noteq> ''manual'' \<and> (audit_mode (db w) = ''ai'' \<longrightarrow>
        rules_clear E (db w) (trim_space (pi_title input)) (trim_space (pi_content input))))))"
    and "db w1 = db w" and "CreatePost E post w1 = (Inr (), w2)" and "posts (db w') = posts (db w2)"
proof -
  let ?title = "trim_space (pi_title input)" and ?content = "trim_space (pi_content input)"
  from assms obtain category w1 mediaType coverURL isOperator w2 auditMode ro w3 w4 w5 w6 where
    g: "GetCategoryByCode (trim_space (pi_category_code input)) w = (Inr (Some category), w1)"
    and len: "\<not> (rune_count ?title < 2 \<or> 60 < rune_count ?title)" "\<not> (rune_count ?content < 2 \<or> 2000 < rune_count ?content)"
    and op: "isCampusOperator E (pi_user_id input) w1 = (Inr isOperator, w2)"
    and route: "choose_route E isOperator ?title ?content w2 = (Inr (auditMode, ro), w3)"
    and post: "post = new_post input category (post_images mediaType (sanitizeImages (pi_images input) 9)) mediaType
      coverURL isOperator ro (idgen E (next_seq w3))"
    and c: "CreatePost E post (w3\<lparr>next_seq := Suc (next_seq w3)\<rparr>) = (Inr (), w4)"
    and ann: "announce_pending E X post isOperator auditMode ro w4 = (Inr (), w5)"
    and tr: "track E (pi_user_id input) ''post_create'' ''publish'' ''post'' (idgen E (next_seq w3)) w5 = (Inr (), w6)"
    and "w' = w6"
    unfolding CreatePost_uc_def require_login_def
    by (auto simp: NextID_def Let_def elim!: io_bind_InrE io_then_InrE or_fail_InrE split: if_splits option.splits sum.splits)
  have d1: "db w1 = db w" by (rule keepsD [OF rules_frames(6) g])
  have "io_bind (isCampusOperator E (pi_user_id input)) ret w1 = (Inr isOperator, w2)"
    using op by (simp add: io_bind_def)
  then have op_now: "isOperator \<Longrightarrow> operator_now E (db w) (pi_user_id input)"
    using d1 by (auto elim: isCampusOperator_E)
  have d2: "db w2 = db w1" by (rule keepsD [OF rights_frames(2) op])
  have d3: "db w3 = db w2" by (rule keepsD [OF rules_frames(7) route])
  have r: "ro_status ro = CampusAuditStatusPending \<or> (ro_status ro = CampusAuditStatusVisible \<and> (isOperator \<or>
      (audit_mode (db w2) \<noteq> ''manual'' \<and> (audit_mode (db w2) = ''ai'' \<longrightarrow> rules_clear E (db w2) ?title ?content))))"
  proof (cases isOperator)
    case False
    with route obtain s v where s: "getCampusAuditSettings E w2 = (Inr s, v)"
      and a: "audit_route_of E (PostAuditMode s) ?title ?content v = (Inr ro, w3)"
      by (auto simp: choose_route_def elim!: io_bind_InrE)
    from audit_settings_mode [OF s] audit_route_status [OF a] show ?thesis by auto
  qed (use route in \<open>auto simp: choose_route_def\<close>)
  have "posts (db w5) = posts (db w4)" by (rule keepsD [OF announce_frames ann]; simp)
  moreover have "posts (db w6) = posts (db w5)" by (rule keepsD [OF track_frames(1) tr]; simp)
  ultimately have p: "posts (db w') = posts (db w4)" using \<open>w' = w6\<close> by simp
  show thesis
  proof (rule that [OF post])
    show "db (w3\<lparr>next_seq := Suc (next_seq w3)\<rparr>) = db w" using d1 d2 d3 by simp
    show "CreatePost E post (w3\<lparr>next_seq := Suc (next_seq w3)\<rparr>) = (Inr (), w4)" by (rule c)
  qed (use len p op_now r d1 d2 in \<open>auto simp: post_images_def\<close>)
qed

text \<open>
  C29. Publishing: a post that is accepted is stored once, with a title of 2 to 60 and a body of 2 to
  2000 characters, and only an operator makes it official, featured, pinned or weighted. It is
  public at once only when its author is an operator, when the audit is off, or when the audit is
  by the agent and the rules find no risk in the text; in every other case it waits, and in the
  manual mode it always waits. So whatever fails and whatever the agent and the budget say.
\<close>

theorem new_posts_audited:
  assumes "CreatePost_uc E X input w = (Inr post, w')"
  shows "\<exists>r. posts (db w') = posts (db w) @ [r] \<and> p_id r = bp_id post \<and> p_id r \<notin> p_id ` set (posts (db w))
    \<and> p_author_id r = parseID (pi_user_id input) \<and> \<not> p_is_deleted r
    \<and> rune_count (p_title r) \<in> {2..60} \<and> rune_count (p_content r) \<in> {2..2000} \<and> length (p_images r) \<le> 9
    \<and> (p_is_official r \<or> p_is_featured r \<or> p_is_pinned r \<or> p_sort_weight r \<noteq> 0 \<longrightarrow>
        operator_now E (db w) (pi_user_id input))
    \<and> (p_status r = CampusAuditStatusPending \<or> p_status r = CampusAuditStatusVisible \<and>
        (operator_now E (db w) (pi_user_id input) \<or> audit_mode (db w) = ''off'' \<or>
         (audit_mode (db w) = ''ai'' \<and> rules_clear E (db w) (p_title r) (p_content r))))"
proof -
  from CreatePost_uc_E [OF assms] obtain category images mediaType coverURL isOperator ro n w1 w2 where
    post: "post = new_post input category images mediaType coverURL isOperator ro (idgen E n)"
    and len: "rune_count (trim_space (pi_title input)) \<in> {2..60}" "rune_count (trim_space (pi_content input)) \<in> {2..2000}"
    and images: "images = [] \<or> images = sanitizeImages (pi_images input) 9"
    and op: "isOperator \<Longrightarrow> operator_now E (db w) (pi_user_id input)"
    and ro: "ro_status ro = CampusAuditStatusPending \<or> (ro_status ro = CampusAuditStatusVisible \<and> (isOperator \<or>
      (audit_mode (db w) \<noteq> ''manual'' \<and> (audit_mode (db w) = ''ai'' \<longrightarrow>
        rules_clear E (db w) (trim_space (pi_title input)) (trim_space (pi_content input))))))"
    and c: "db w1 = db w" "CreatePost E post w1 = (Inr (), w2)" "posts (db w') = posts (db w2)" by metis
  from c have "posts (db w') = posts (db w) @ [CreatePost_row E post] \<and> bp_id post \<notin> p_id ` set (posts (db w))"
    by (auto simp: CreatePost_def elim!: io_then_InrE sql_create_InrE dest!: cache_stepD [OF cache_step_invalidate(2)])
  moreover have "length images \<le> 9" using images sanitizeImages_length [of 9 "pi_images input"] by auto
  ultimately show ?thesis
    using op ro len audit_mode_cases [of "db w"]
    by (intro exI [of _ "CreatePost_row E post"]) (auto simp: CreatePost_row_def post new_post_def)
qed

text \<open>User 8 publishes while the operators review every post, and asks for a pinned one.\<close>

definition audit_sample :: audit_ext where
  "audit_sample = \<lparr>gen_token = (\<lambda>n. Inr ''t''), sha256_hex = (\<lambda>s. s), token_ttl = 10, user_name = (\<lambda>_. ([], [])),
     send_card = (\<lambda>_. ret (''sent'', None, [])), post_audit = (\<lambda>_. fail StoreDown), decode_audit = (\<lambda>_. None)\<rparr>"

definition setting_row :: "string \<Rightarrow> string \<Rightarrow> campusOpsSettingModel" where
  "setting_row k v = \<lparr>os_key = k, os_value = v, os_updated_by = 1, os_created_at = 0, os_updated_at = 0\<rparr>"

definition board_world :: world where
  "board_world = empty_world\<lparr>rds_on := False, db := empty_tables\<lparr>
     categories := [\<lparr>cat_id = 1, cat_code = ''life'', cat_name = ''Life'', cat_description = [], cat_sort_order = 1, cat_is_deleted = False\<rparr>],
     ops_settings := [setting_row ''post_audit_mode'' ''manual'', setting_row ''feishu_ops_enabled'' ''false'']\<rparr>\<rparr>"

definition sample_input :: CreateCampusPostInput where
  "sample_input = \<lparr>pi_user_id = ''8'', pi_category_code = ''life'', pi_title = ''hello'', pi_content = ''hello'',
     pi_images = [], pi_media_type = [], pi_post_type = [], pi_extra = [], pi_cover_url = [],
     pi_is_official = False, pi_is_featured = False, pi_is_pinned = True, pi_sort_weight = 9\<rparr>"

lemma audit_literals:
  "trim_space ''life'' = ''life''" "trim_space ''hello'' = ''hello''" "rune_count ''hello'' = 5"
  "trim_space ''post_audit_mode'' = ''post_audit_mode''" "trim_space ''feishu_ops_enabled'' = ''feishu_ops_enabled''"
  "trim_lower ''manual'' = ''manual''" "lower_trim [] = []" "parseID ''8'' = 8" "lower_trim ''false'' = ''false''" "trim_lower ''false'' = ''false''"
  by (simp_all add: trim_space_graphic byte_def parseID_def rune_count_def runes_graphic trim_lower_def lower_trim_def
      to_lower_graphic)
    (simp_all add: go_string_eval char_of_eq_iff)

lemma board_facts:
  "faults board_world = []" "\<not> operator_now forum_env (db board_world) ''8''" "audit_mode (db board_world) = ''manual''"
  "\<not> feishu_on forum_env (db board_world)" "posts (db board_world) = []"
  by (simp_all add: board_world_def empty_world_def empty_tables_def operator_now_def forum_env_def sample_env_def
      role_of_def isEnvListed_def audit_mode_def setting_now_def setting_row_def feishu_on_def bool_setting_now_def
      audit_literals forum_literals normalizeCampusPostAuditMode_def parseBoolSetting_def Let_def admin_now_def)

lemma audit_settings_online:
  assumes "faults w = []"
  shows "\<exists>s. getCampusAuditSettings E w = (Inr s, w) \<and> PostAuditMode s = audit_mode (db w)"
proof -
  have "\<exists>s. getCampusAuditSettings E w = (Inr s, w)"
    using assms by (simp add: getCampusAuditSettings_def GetOpsSetting_def agentAuditEnabled_def agentEnabled_def io_and_def
        boolOpsSetting_online or_fail_def io_online Let_def split: option.splits)
  then show ?thesis using audit_settings_mode(1) by blast
qed

lemma manual_route:
  assumes "faults w = []" and "audit_mode (db w) = ''manual''"
  shows "choose_route E False title content w = (Inr (''manual'', route_manual), w)"
  using audit_settings_online [OF assms(1), of E] assms(2)
  by (auto simp: choose_route_def audit_route_of_def io_bind_def)

lemma no_fail_case:
  "no_fail m \<Longrightarrow> (case m w of (Inl e, w') \<Rightarrow> f e w' | (Inr (x::unit), w') \<Rightarrow> g x w') = g () (snd (m w))"
  by (cases "m w") (auto dest!: no_failD split: sum.splits)

lemma no_fail_fst: "no_fail m \<Longrightarrow> \<exists>x. fst (m w) = Inr x"
  by (simp add: no_fail_def)

theorem new_posts_audited_witness:
  "\<exists>post w' r. CreatePost_uc forum_env audit_sample sample_input board_world = (Inr post, w')
     \<and> posts (db w') = [r] \<and> p_status r = CampusAuditStatusPending \<and> \<not> p_is_pinned r \<and> p_sort_weight r = 0"
proof -
  let ?r = "CreatePost_uc forum_env audit_sample sample_input board_world"
  have "GetCategoryByCode ''life'' board_world =
      (Inr (Some \<lparr>cat_id = 1, cat_code = ''life'', cat_name = ''Life'', cat_description = [], cat_sort_order = 1, cat_is_deleted = False\<rparr>), board_world)"
    by (simp add: GetCategoryByCode_def io_online board_facts) (simp add: board_world_def empty_tables_def)
  moreover have "faults (board_world\<lparr>next_seq := n\<rparr>) = []" "posts (db (board_world\<lparr>next_seq := n\<rparr>)) = []"
    "rds_on (board_world\<lparr>next_seq := n\<rparr>) = False" for n
    using board_facts by (simp_all add: board_world_def)
  ultimately have "\<exists>post. fst ?r = Inr post"
    by (simp add: CreatePost_uc_def sample_input_def require_login_def forum_literals audit_literals or_fail_def
        operator_online board_facts manual_route normalizeCampusPostMedia_def sanitizeImages_def io_online NextID_def
        CreatePost_def Let_def no_fail_case [OF cache_totals(9)]
        no_fail_case [OF announce_total] no_fail_case [OF track_total])
  then obtain post w' where run: "?r = (Inr post, w')" by (metis prod.collapse)
  from new_posts_audited [OF run] board_facts
  have "\<exists>r. posts (db w') = [r] \<and> p_status r = CampusAuditStatusPending \<and> \<not> p_is_pinned r \<and> p_sort_weight r = 0"
    by (auto simp: sample_input_def)
  with run show ?thesis by blast
qed

subsection \<open>The worker publishes only what was cleared\<close>

definition reviewed :: "env \<Rightarrow> int \<Rightarrow> string \<Rightarrow> campusForumPostModel \<Rightarrow> campusForumPostModel" where
  "reviewed E status reason r = r\<lparr>p_status := status, p_audit_reason := reason,
     p_is_deleted := (status = CampusAuditStatusDeleted), p_updated_at := now E\<rparr>"

text \<open>\<open>status_step E i S t t'\<close>: the posts are the same, or the rows of post \<open>i\<close> got a status of \<open>S\<close>.\<close>

definition status_step :: "env \<Rightarrow> int \<Rightarrow> int set \<Rightarrow> tables \<Rightarrow> tables \<Rightarrow> bool" where
  "status_step E i S t t' \<longleftrightarrow> posts t' = posts t \<or>
     (\<exists>status \<in> S. \<exists>reason. posts t' = upd_where (\<lambda>r. p_id r = i) (reviewed E status reason) (posts t))"

lemma status_step_mono: "status_step E i S t t' \<Longrightarrow> S \<subseteq> S' \<Longrightarrow> status_step E i S' t t'"
  by (auto simp: status_step_def)

lemma UpdatePostStatus_step:
  assumes "UpdatePostStatus E i status reason w = (r, w')"
  shows "status_step E i {status} (db w) (db w')"
  using assms cache_stepD [OF cache_step_invalidate(2)]
  by (auto simp: UpdatePostStatus_def status_step_def reviewed_def [abs_def] elim!: io_then_E sql_update_InrE dest!: sql_InlD)

lemma then_keeps:
  assumes "io_then m k w = (r, w')" and "keeps g k"
  obtains r1 w1 where "m w = (r1, w1)" and "g (db w') = g (db w1)"
  using assms by (auto elim!: io_then_E dest: keepsD)

lemma status_then:
  assumes "io_then (UpdatePostStatus E i status reason) k w = (r, w')" and "keeps posts k"
  shows "status_step E i {status} (db w) (db w')"
proof -
  obtain r1 w1 where u: "UpdatePostStatus E i status reason w = (r1, w1)" and "posts (db w') = posts (db w1)"
    by (rule then_keeps [OF assms])
  with UpdatePostStatus_step [OF u] show ?thesis by (simp add: status_step_def)
qed

lemma fallback_step:
  assumes "passPostByRuleFallback E tsk post rule s w = (r, w')"
  shows "status_step E (bp_id post) {CampusAuditStatusVisible} (db w) (db w')"
  using assms unfolding passPostByRuleFallback_def Let_def by (rule status_then) (intro frames; simp)

lemma without_agent_step:
  assumes "audit_without_agent E X tsk post rule reason s ev w = (r, w')"
  shows "status_step E (bp_id post) (if ru_risk_level rule = ''low'' then {CampusAuditStatusVisible} else {CampusAuditStatusPending})
    (db w) (db w')"
proof (cases "ru_risk_level rule = ''low''")
  case True
  with assms fallback_step show ?thesis by (simp add: audit_without_agent_def)
next
  case False
  have "status_step E (bp_id post) {CampusAuditStatusPending} (db w) (db w')"
    using assms unfolding audit_without_agent_def Let_def if_not_P [OF False]
    by (rule status_then) (intro frames; simp)
  with False show ?thesis by simp
qed

lemma agent_failed_step:
  assumes "audit_agent_failed E X tsk post rule err w = (r, w')"
  shows "status_step E (bp_id post) (if ru_risk_level rule = ''low'' then {CampusAuditStatusVisible} else {}) (db w) (db w')"
proof (cases "ru_risk_level rule = ''low''")
  case True
  with assms fallback_step show ?thesis by (simp add: audit_agent_failed_def)
next
  case False
  have "keeps posts (audit_agent_failed E X tsk post rule err)"
    using False unfolding audit_agent_failed_def Let_def by simp (intro frames; simp)
  from keepsD [OF this assms] show ?thesis by (simp add: status_step_def)
qed

text \<open>The agent may pass a post: its decision, risk and confidence are good, and neither its own risk
  by the rules nor, when it gives none, that of the service is high.\<close>

definition agent_clears :: "campusContentRuleResult \<Rightarrow> aiContentAuditResult \<Rightarrow> rat \<Rightarrow> bool" where
  "agent_clears rule result threshold \<longleftrightarrow>
     normalizeAIContentAuditDecision (re_decision result) = ''pass'' \<and>
     normalizeAIContentAuditRiskLevel (re_risk_level result) = ''low'' \<and>
     normalizeAIContentAuditRiskLevel (firstNonEmpty [re_rule_risk_level result, ru_risk_level rule]) \<noteq> ''high'' \<and>
     threshold \<le> (if re_confidence result < 0 \<or> 1 < re_confidence result then 0 else re_confidence result)"

lemma outcome_pass: "oc_pass (audit_outcome_of rule result threshold) \<longleftrightarrow> agent_clears rule result threshold"
  by (auto simp: audit_outcome_of_def agent_clears_def Let_def)

lemma usage_frames [frames]: "keeps posts (record_audit_usage E post result)"
  unfolding record_audit_usage_def Let_def by (intro frames; simp)

lemma outcome_step:
  assumes "apply_outcome E X tsk post oc raw w = (r, w')"
  shows "status_step E (bp_id post) {if oc_pass oc then CampusAuditStatusVisible else CampusAuditStatusPending} (db w) (db w')"
  using assms unfolding apply_outcome_def by (rule status_then) (intro frames; simp)

lemma answer_step:
  assumes "audit_with_answer E X tsk post rule result raw w = (r, w')"
  shows "posts (db w') = posts (db w) \<or> (\<exists>threshold w1 w2. read_threshold E rule result w1 = (Inr threshold, w2) \<and>
    status_step E (bp_id post) {if agent_clears rule result threshold then CampusAuditStatusVisible else CampusAuditStatusPending}
      (db w) (db w'))"
proof -
  obtain r1 w1 where u: "record_audit_usage E post result w = (r1, w1)" by fastforce
  have p: "posts (db w1) = posts (db w)" by (rule keepsD [OF usage_frames u])
  show ?thesis
  proof (cases r1)
    case (Inl e)
    with assms u p show ?thesis by (simp add: audit_with_answer_def io_then_def io_bind_def)
  next
    case (Inr x)
    with assms u have "io_bind (read_threshold E rule result)
        (\<lambda>threshold. apply_outcome E X tsk post (audit_outcome_of rule result threshold) raw) w1 = (r, w')"
      by (simp add: audit_with_answer_def io_then_def io_bind_def)
    then show ?thesis
    proof (cases rule: io_bind_E)
      case (1 e)
      have "db w' = db w1" by (rule keepsD [OF rules_frames(8) 1(1)])
      with p show ?thesis by simp
    next
      case (2 threshold w2)
      have "db w2 = db w1" by (rule keepsD [OF rules_frames(8) 2(1)])
      with outcome_step [OF 2(2)] p have "status_step E (bp_id post)
          {if agent_clears rule result threshold then CampusAuditStatusVisible else CampusAuditStatusPending} (db w) (db w')"
        by (simp add: status_step_def outcome_pass)
      with 2(1) show ?thesis by blast
    qed
  qed
qed

lemma pending_post_step:
  assumes "audit_pending_post E X tsk post w = (r, w')" and agent: "\<And>doc. keeps posts (post_audit X doc)"
  shows "posts (db w') = posts (db w) \<or> status_step E (bp_id post) {CampusAuditStatusPending} (db w) (db w') \<or>
    (status_step E (bp_id post) {CampusAuditStatusVisible} (db w) (db w') \<and>
      (\<exists>rule. rules_say E (db w) (bp_title post) (bp_content post) rule \<and> (ru_risk_level rule = ''low'' \<or>
        (\<exists>result raw threshold w1 w2 w3 w4. auditPostWithAI E X post w1 = (Inr (result, raw), w2) \<and>
          read_threshold E rule result w3 = (Inr threshold, w4) \<and> agent_clears rule result threshold))))"
  (is "?same \<or> ?wait \<or> ?public")
  using assms(1) unfolding audit_pending_post_def
proof (cases rule: io_bind_E)
  case (1 e)
  have "db w' = db w" by (rule keepsD [OF rules_frames(3) 1(1)])
  then show ?thesis by simp
next
  case (2 rule w1)
  have d1: "db w1 = db w" by (rule keepsD [OF rules_frames(3) 2(1)])
  have says: "rules_say E (db w) (bp_title post) (bp_content post) rule" using 2(1) unfolding rules_say_def by blast
  have local: ?thesis if "status_step E (bp_id post) S v (db w')" "posts v = posts (db w)"
    "S \<subseteq> (if ru_risk_level rule = ''low'' then {CampusAuditStatusVisible} else {CampusAuditStatusPending})" for S v
  proof -
    have "status_step E (bp_id post) (if ru_risk_level rule = ''low'' then {CampusAuditStatusVisible} else {CampusAuditStatusPending})
        (db w) (db w')"
      using status_step_mono [OF that(1,3)] that(2) by (simp add: status_step_def)
    with says show ?thesis by (cases "ru_risk_level rule = ''low''") auto
  qed
  from 2(2) show ?thesis
  proof (cases rule: io_bind_E)
    case (1 e)
    have "db w' = db w1" by (rule keepsD [OF rules_frames(4) 1(1)])
    with d1 show ?thesis by simp
  next
    case (2 available w2)
    have d2: "db w2 = db w1" by (rule keepsD [OF rules_frames(4) 2(1)])
    show ?thesis
    proof (cases available)
      case False
      with 2(2) have "audit_without_agent E X tsk post rule
         (if \<not> campusAgentModelConfigured E then msg_agent_no_model else msg_agent_unavailable)
         ''model_unavailable'' (ru_evidence rule) w2 = (r, w')" by simp
      from without_agent_step [OF this] d1 d2 show ?thesis by (intro local) auto
    next
      case True
      with 2(2) obtain allowed skipped w3 where b: "aiBudgetAllowsModel E w2 = (Inr (allowed, skipped), w3)"
        and rest: "(if \<not> allowed then (let reason = firstNonEmpty [skipped, ''model_skipped_budget''] in
           audit_without_agent E X tsk post rule reason reason (ru_evidence rule @ [reason]))
         else io_bind (attempt (auditPostWithAI E X post)) (\<lambda>answer. case answer of
           Inl err \<Rightarrow> audit_agent_failed E X tsk post rule err
         | Inr (result, raw) \<Rightarrow> audit_with_answer E X tsk post rule result raw)) w3 = (r, w')"
        using no_failD [OF budget_totals(7)] by (auto elim!: io_bind_E) (metis Inl_Inr_False old.prod.exhaust)
      have d3: "db w3 = db w2" by (rule keepsD [OF budget_frames(8) b])
      show ?thesis
      proof (cases allowed)
        case False
        with rest obtain reason ev where "audit_without_agent E X tsk post rule reason reason ev w3 = (r, w')"
          by (auto simp: Let_def)
        from without_agent_step [OF this] d1 d2 d3 show ?thesis by (intro local) auto
      next
        case True
        obtain answer w4 where a: "auditPostWithAI E X post w3 = (answer, w4)" by fastforce
        have d4: "posts (db w4) = posts (db w)"
          using keepsD [OF auditPostWithAI_frames [of posts X E post, OF agent] a] d1 d2 d3 by simp
        show ?thesis
        proof (cases answer)
          case (Inl err)
          with rest True a have "audit_agent_failed E X tsk post rule err w4 = (r, w')"
            by (simp add: io_bind_def attempt_def)
          then have "status_step E (bp_id post) (if ru_risk_level rule = ''low'' then {CampusAuditStatusVisible} else {}) (db w4) (db w')"
            by (rule agent_failed_step)
          then show ?thesis using d4 by (rule local) simp
        next
          case (Inr answered)
          obtain result raw where answered: "answered = (result, raw)" by fastforce
          with rest True a Inr have "audit_with_answer E X tsk post rule result raw w4 = (r, w')"
            by (simp add: io_bind_def attempt_def)
          from answer_step [OF this] d4 have "?same \<or> (\<exists>threshold w5 w6.
              read_threshold E rule result w5 = (Inr threshold, w6) \<and> status_step E (bp_id post)
                {if agent_clears rule result threshold then CampusAuditStatusVisible else CampusAuditStatusPending} (db w) (db w'))"
            by (simp add: status_step_def)
          then show ?thesis
          proof (elim disjE exE conjE)
            assume "posts (db w') = posts (db w)"
            then show ?thesis by simp
          next
            fix threshold w5 w6
            assume t: "read_threshold E rule result w5 = (Inr threshold, w6)"
              and s: "status_step E (bp_id post) {if agent_clears rule result threshold then CampusAuditStatusVisible
                else CampusAuditStatusPending} (db w) (db w')"
            show ?thesis
            proof (cases "agent_clears rule result threshold")
              case True
              with a [unfolded Inr answered] t s says show ?thesis by auto metis
            next
              case False
              with s show ?thesis by simp
            qed
          qed
        qed
      qed
    qed
  qed
qed

lemma read_post_fields:
  assumes "GetAnyPostByID i w = (Inr (Some p), w')"
  shows "\<exists>row \<in> set (posts (db w)). p_id row = i \<and> \<not> p_is_deleted row \<and> bp_id p = p_id row \<and> bp_title p = p_title row \<and>
    bp_content p = p_content row \<and> bp_status p = p_status row"
proof -
  from assms obtain row w1 where f: "find (\<lambda>r. p_id r = i \<and> \<not> p_is_deleted r) (posts (db w)) = Some row"
    and n: "fillPostCategoryName (toBizPost row) w1 = (Inr p, w')"
    by (auto simp: GetAnyPostByID_def elim!: io_bind_InrE sql_first_InrE split: option.splits)
  have "bp_id p = p_id row \<and> bp_title p = p_title row \<and> bp_content p = p_content row \<and> bp_status p = p_status row"
    using n by (auto simp: fillPostCategoryName_def fillPostCategoryNames_def Let_def toBizPost_def
        elim!: io_bind_InrE sql_find_InrE split: if_splits)
  with find_SomeD [OF f] show ?thesis by blast
qed


text \<open>The rules clear the post of a waiting task while no agent is configured.\<close>

definition audit_world :: world where
  "audit_world = empty_world\<lparr>rds_on := False, db := empty_tables\<lparr>
     ops_settings := [setting_row ''audit_high_risk_words'' ''bad'', setting_row ''audit_review_words'' ''rude''],
     posts := [CreatePost_row forum_env (new_post sample_input \<lparr>cat_id = 0, cat_code = [], cat_name = [], cat_description = [], cat_sort_order = 0, cat_is_deleted = False\<rparr>
       [] ''image'' [] False route_manual 5)]\<rparr>\<rparr>"

definition audit_task :: CampusAIContentAuditTask where
  "audit_task = \<lparr>t_id = 1, t_status = ''processing'', t_retry_count = 2, t_next_retry_at = None, t_locked_until = None,
     t_created_at = 0, t_updated_at = 0, at_target_type = ''post'', at_target_id = 5, at_risk_level = [], at_decision = [],
     at_reason = [], at_raw_result = [], at_last_error = [], at_processed_at = None\<rparr>"

lemma audit_world_facts:
  "faults audit_world = []" "rds_on audit_world = False"
  "setting_now (db audit_world) ''audit_high_risk_words'' = Some ''bad''"
  "setting_now (db audit_world) ''audit_review_words'' = Some ''rude''"
  by (simp_all add: audit_world_def empty_world_def empty_tables_def setting_now_def setting_row_def
      trim_space_graphic byte_def)

lemma word_literals:
  "trim_space ''bad'' = ''bad''" "trim_space ''rude'' = ''rude''"
  "to_lower ''bad'' = ''bad''" "to_lower ''rude'' = ''rude''"
  "trim_space ''hellohello'' = ''hellohello''" "rune_count ''hellohello'' = 10"
  by (simp_all add: trim_space_graphic to_lower_graphic byte_def rune_count_def runes_graphic)

lemma word_lists:
  "normalizeAuditWords ''bad'' ws = [''bad'']" "normalizeAuditWords ''rude'' ws = [''rude'']"
  by (simp_all add: normalizeAuditWords_def Let_def word_literals) 
   (simp_all add: go_string_eval char_of_eq_iff audit_word_sep_def word_literals)

lemma stringOpsSetting_online:
  assumes "faults w = []" and "setting_now (db w) key = Some v" and "trim_space v = v" and "v \<noteq> []"
  shows "stringOpsSetting E key n d w = (Inr v, w)"
  using assms by (auto simp: stringOpsSetting_def GetOpsSetting_def attempt_def io_online setting_now_def split: option.splits)

lemma board_words:
  assumes "faults w = []" "db w = db audit_world"
  shows "auditHighRiskWords E w = (Inr [''bad''], w)" "auditReviewWords E w = (Inr [''rude''], w)"
  using audit_world_facts(3,4) assms
  by (simp_all add: auditHighRiskWords_def auditReviewWords_def io_bind_def stringOpsSetting_online word_lists word_literals)

lemma clean_text: "classifyCampusPostByWords ''hello'' ''hello'' [''bad''] [''rude''] =
    \<lparr>ru_risk_level = ''low'', ru_decision = ''pass'', ru_reason = msg_rule_low_risk, ru_evidence = [''rule_low_risk'']\<rparr>"
proof -
  have "to_lower (''hello'' @ [char_of (10::nat)] @ ''hello'') = ''hello'' @ [char_of (10::nat)] @ ''hello''"
    by (simp add: go_string_eval char_of_eq_iff)
  then show ?thesis
    by (simp add: classifyCampusPostByWords_def word_hit_def word_literals) (simp add: char_of_eq_iff go_string_eval Let_def word_hit_def word_literals)
qed

lemma board_rules:
  assumes "faults w = []" "db w = db audit_world"
  shows "classifyCampusPostByRules E ''hello'' ''hello'' w =
    (Inr \<lparr>ru_risk_level = ''low'', ru_decision = ''pass'', ru_reason = msg_rule_low_risk, ru_evidence = [''rule_low_risk'']\<rparr>, w)"
  using assms by (simp add: classifyCampusPostByRules_def io_bind_def board_words clean_text)

lemma no_agent: "agent_available forum_env audit_world = (Inr False, audit_world)"
  using audit_world_facts by (simp add: agent_available_def io_and_def io_bind_def agentAuditEnabled_def agentEnabled_def 
      boolOpsSetting_online campusAgentModelConfigured_def forum_env_def sample_env_def forum_literals if_run)

lemma ignore_ok: "m w = (Inr x, w') \<Longrightarrow> ignore m w = (Inr (), w')"
  by (simp add: ignore_def attempt_def io_bind_def)

lemma UpdatePostStatus_online:
  assumes "faults w = []"
  obtains w' where "UpdatePostStatus E i status reason w = (Inr (), w')"
    and "posts (db w') = upd_where (\<lambda>r. p_id r = i) (reviewed E status reason) (posts (db w))"
proof -
  let ?w = "w\<lparr>db := posts_update (upd_where (\<lambda>r. p_id r = i) (reviewed E status reason)) (db w)\<rparr>"
  obtain r w' where c: "invalidatePostReadCaches E i True ?w = (r, w')" by fastforce
  from cache_stepD [OF cache_step_invalidate(2) c] have "r = Inr ()" "db w' = db ?w" by auto
  with c assms that show thesis
    by (simp add: UpdatePostStatus_def io_online reviewed_def [abs_def])
qed

lemma fallback_online:
  assumes "faults w = []" and "passPostByRuleFallback E tsk post rule s w = (r, w')"
  shows "posts (db w') = upd_where (\<lambda>r. p_id r = bp_id post) (reviewed E CampusAuditStatusVisible []) (posts (db w))"
proof -
  obtain w1 where u: "UpdatePostStatus E (bp_id post) CampusAuditStatusVisible [] w = (Inr (), w1)"
    and p: "posts (db w1) = upd_where (\<lambda>r. p_id r = bp_id post) (reviewed E CampusAuditStatusVisible []) (posts (db w))"
    by (rule UpdatePostStatus_online [OF assms(1)])
  from assms(2) show ?thesis
    unfolding passPostByRuleFallback_def Let_def
  proof (rule then_keeps [where g = posts])
    fix r1 w2
    assume "UpdatePostStatus E (bp_id post) CampusAuditStatusVisible [] w = (r1, w2)" and "posts (db w') = posts (db w2)"
    with u p show ?thesis by simp
  qed (intro frames; simp)
qed


text \<open>
  A post that was withdrawn while the task of its audit kept failing is back: the last retry of the
  task sets its status to pending and with that clears the mark of deletion.
\<close>

lemma upd_where_in: "x \<in> set xs \<Longrightarrow> P x \<Longrightarrow> f x \<in> set (upd_where P f xs)"
  by (auto simp: set_upd_where image_iff)

lemma withdrawn_post_resurrected:
  assumes "faults w = []" and "at_target_type tsk = ''post''" and "t_retry_count tsk = 2"
    and "unique_on p_id (posts (db w))" and "p \<in> set (posts (db w))" and "p_id p = at_target_id tsk" and "p_is_deleted p"
    and "process_audits E X [tsk] None w = (r, w')"
  shows "reviewed E CampusAuditStatusPending msg_audit_failed_wait p \<in> set (posts (db w'))"
    and "\<not> p_is_deleted (reviewed E CampusAuditStatusPending msg_audit_failed_wait p)"
proof -
  let ?e = "PlainError ''post not found'' None"
  have "find (\<lambda>r. p_id r = at_target_id tsk \<and> \<not> p_is_deleted r) (posts (db w)) = None"
    using assms(4-7) by (auto simp: find_None_iff dest: unique_on_eq)
  then have failed: "processAIContentAuditTask E X tsk w = (Inl ?e, w)"
    using assms(1,2) by (simp add: processAIContentAuditTask_def GetAnyPostByID_def io_online)
  have retry: "next_retry campusAIContentAuditTaskMaxRetry aiContentAuditBackoff (now E) 2 = (3, True, None)"
    by (simp add: next_retry_def campusAIContentAuditTaskMaxRetry_def)
  have "io_then (markAIContentAuditTaskRetry E X tsk ?e) (ret (Some ?e)) w = (r, w')"
    using assms(3,8) failed by (simp add: io_bind_def attempt_def)
  moreover obtain w2 where "ignore (MarkAIContentAuditTaskRetry E (t_id tsk) 3 None (error_text ?e) True) w = (Inr (), w2)"
    and w2: "faults w2 = []" "posts (db w2) = posts (db w)"
    using assms(1) by (simp add: MarkAIContentAuditTaskRetry_def ignore_def io_online attempt_def)
  moreover obtain w3 where "UpdatePostStatus E (at_target_id tsk) CampusAuditStatusPending msg_audit_failed_wait w2 = (Inr (), w3)"
    and w3: "posts (db w3) = upd_where (\<lambda>r. p_id r = at_target_id tsk)
      (reviewed E CampusAuditStatusPending msg_audit_failed_wait) (posts (db w2))"
    by (rule UpdatePostStatus_online [OF w2(1)])
  ultimately have "io_then (io_bind (attempt (GetAnyPostByID (at_target_id tsk))) (\<lambda>p. case p of
        Inr (Some post) \<Rightarrow> ignore (enqueueAuditOpsAlert E X post ''review'' ''high'' msg_agent_failed_often
          [trimLimit ''post not found'' 180])
      | _ \<Rightarrow> ret ())) (ret (Some ?e)) w3 = (r, w')"
    using assms(2,3) retry by (simp add: markAIContentAuditTaskRetry_def io_then_run ignore_ok)
  moreover have keep: "keeps posts (io_then (io_bind (attempt (GetAnyPostByID (at_target_id tsk))) (\<lambda>p. case p of
        Inr (Some post) \<Rightarrow> ignore (enqueueAuditOpsAlert E X post ''review'' ''high'' msg_agent_failed_often
          [trimLimit ''post not found'' 180])
      | _ \<Rightarrow> ret ())) (ret (Some ?e)))"
    by (intro frames; simp)
  ultimately have "posts (db w') = posts (db w3)" by (intro keepsD [OF keep])
  with w2 w3 have "posts (db w') = upd_where (\<lambda>r. p_id r = at_target_id tsk)
      (reviewed E CampusAuditStatusPending msg_audit_failed_wait) (posts (db w))"
    by simp
  then show "reviewed E CampusAuditStatusPending msg_audit_failed_wait p \<in> set (posts (db w'))"
    using upd_where_in [of p _ "\<lambda>r. p_id r = at_target_id tsk"] assms(5,6) by simp
  show "\<not> p_is_deleted (reviewed E CampusAuditStatusPending msg_audit_failed_wait p)"
    by (simp add: reviewed_def audit_status_defs)
qed
end
