(* ===== verification/Moderation.thy ===== *)
theory Moderation
  imports PostAudit
begin

text \<open>
  Reports, feedback and what the operators decide (\<open>biz/campus.go\<close>: \<open>ReportContent\<close>,
  \<open>ReviewContent\<close>, \<open>AdminReviewReport\<close>, \<open>HandleFeishuCardAction\<close>, \<open>CreateFeedback\<close> and their
  neighbours; \<open>data/campus.go\<close>: the rows of reports and feedback). Further parameters: the author
  known to the user service, and the sending of a receipt to the operators' chat.
\<close>

record mod_ext = ops_ext +
  load_author :: "string \<Rightarrow> (string \<times> string \<times> string) option io"
  send_receipt :: "string \<Rightarrow> int \<Rightarrow> string \<Rightarrow> string \<Rightarrow> unit io"

subsection \<open>Rows of reports\<close>

definition toBizReport :: "campusForumReportModel \<Rightarrow> CampusForumReport" where
  "toBizReport r = \<lparr>rt_id = rp_id r, rt_target_type = rp_target_type r, rt_target_id = rp_target_id r,
     rt_reporter_id = fmt_d (rp_reporter_id r), rt_reason = rp_reason r, rt_detail = rp_detail r,
     rt_status = rp_status r, rt_target = None, rt_comment = None, rt_reporter = None\<rparr>"

text \<open>The comments with their posts; a comment whose post is withdrawn has none.\<close>

definition FillCommentPosts :: "CampusForumComment list \<Rightarrow> (CampusForumComment \<times> CampusForumPost option) list io" where
  "FillCommentPosts cs = (let ids = filter (\<lambda>i. 0 < i) (map bc_post_id cs) in
     if ids = [] then ret (map (\<lambda>c. (c, None)) cs)
     else io_bind (sql_find posts (\<lambda>r. p_id r \<in> set ids \<and> \<not> p_is_deleted r)) (\<lambda>rows.
       io_bind (fillPostCategoryNames (map toBizPost rows)) (\<lambda>ps.
       ret (map (\<lambda>c. (c, find (\<lambda>p. bp_id p = bc_post_id c) ps)) cs))))"

definition report_author :: "'x ops_ext_scheme \<Rightarrow> int list \<Rightarrow> string \<Rightarrow> (string \<times> string \<times> string) option" where
  "report_author X found reporterID = (case find (\<lambda>u. fmt_d u = reporterID) found of None \<Rightarrow> None
     | Some u \<Rightarrow> (case user_name X u of (name, nickname) \<Rightarrow>
         Some (firstNonEmptyData [nickname, name, msg_classmate], nickname, fmt_d u)))"

definition fillReports :: "'x ops_ext_scheme \<Rightarrow> CampusForumReport list \<Rightarrow> CampusForumReport list io" where
  "fillReports X rs = (if rs = [] then ret [] else let
     postIDs = map rt_target_id (filter (\<lambda>r. rt_target_type r = ''post'') rs);
     commentIDs = map rt_target_id (filter (\<lambda>r. rt_target_type r = ''comment'') rs);
     reporterIDs = filter (\<lambda>u. u \<noteq> []) (map rt_reporter_id rs)
   in io_bind (if postIDs = [] then ret []
       else io_bind (sql_find posts (\<lambda>p. p_id p \<in> set postIDs)) (\<lambda>rows. fillPostCategoryNames (map toBizPost rows))) (\<lambda>ps.
      io_bind (if commentIDs = [] then ret []
       else io_bind (sql_find comments (\<lambda>c. c_id c \<in> set commentIDs)) (\<lambda>rows. FillCommentPosts (map toBizComment rows))) (\<lambda>cs.
      io_bind (if reporterIDs = [] then ret []
       else sql_find users (\<lambda>u. u \<in> set (map parseID reporterIDs))) (\<lambda>us.
      ret (map (\<lambda>r. r\<lparr>
          rt_reporter := report_author X us (rt_reporter_id r),
          rt_target := (if rt_target_type r = ''post'' then find (\<lambda>p. bp_id p = rt_target_id r) ps else rt_target r),
          rt_comment := (if rt_target_type r = ''comment'' then find (\<lambda>(c, p). bc_id c = rt_target_id r) cs else rt_comment r)\<rparr>)
        rs)))))"

definition same_report :: "string \<Rightarrow> int \<Rightarrow> int \<Rightarrow> campusForumReportModel \<Rightarrow> bool" where
  "same_report targetType targetID reporter r \<longleftrightarrow>
     rp_target_type r = targetType \<and> rp_target_id r = targetID \<and> rp_reporter_id r = reporter"

text \<open>Reporting the same target again changes the row of the first report, and opens it again.\<close>

definition CreateReport :: "env \<Rightarrow> CampusForumReport \<Rightarrow> unit io" where
  "CreateReport E b = sql_upsert reports_update (\<lambda>r. rp_id r = rt_id b)
     (same_report (rt_target_type b) (rt_target_id b) (parseID (rt_reporter_id b)))
     (\<lambda>r. r\<lparr>rp_reason := rt_reason b, rp_detail := rt_detail b, rp_status := rt_status b, rp_updated_at := now E\<rparr>)
     \<lparr>rp_id = rt_id b, rp_target_type = rt_target_type b, rp_target_id = rt_target_id b,
      rp_reporter_id = parseID (rt_reporter_id b), rp_reason = rt_reason b, rp_detail = rt_detail b,
      rp_status = rt_status b, rp_created_at = now E, rp_updated_at = now E\<rparr>"

definition GetReport :: "'x ops_ext_scheme \<Rightarrow> (campusForumReportModel \<Rightarrow> bool) \<Rightarrow> CampusForumReport option io" where
  "GetReport X P = io_bind (sql_first tables.reports P) (\<lambda>row. case row of None \<Rightarrow> ret None
     | Some r \<Rightarrow> io_bind (fillReports X [toBizReport r]) (\<lambda>rs. ret (Some (hd rs))))"

definition GetReportByID :: "'x ops_ext_scheme \<Rightarrow> int \<Rightarrow> CampusForumReport option io" where
  "GetReportByID X reportID = GetReport X (\<lambda>r. rp_id r = reportID)"

definition GetReportByTargetAndReporter :: "'x ops_ext_scheme \<Rightarrow> string \<Rightarrow> int \<Rightarrow> string \<Rightarrow> CampusForumReport option io" where
  "GetReportByTargetAndReporter X targetType targetID reporterID =
     GetReport X (same_report (trim_space targetType) targetID (parseID reporterID))"

text \<open>A negative status stands for all.\<close>

definition ListReportsByTarget :: "'x ops_ext_scheme \<Rightarrow> string \<Rightarrow> int \<Rightarrow> int \<Rightarrow> CampusForumReport list io" where
  "ListReportsByTarget X targetType targetID status =
     io_bind (sql_find tables.reports (\<lambda>r. rp_target_type r = trim_space targetType \<and> rp_target_id r = targetID \<and>
       (0 \<le> status \<longrightarrow> rp_status r = status))) (\<lambda>rows.
     fillReports X (map toBizReport (sort_key (\<lambda>r. (rp_created_at r, rp_id r)) rows)))"

definition set_report_status :: "env \<Rightarrow> int \<Rightarrow> campusForumReportModel \<Rightarrow> campusForumReportModel" where
  "set_report_status E status r = r\<lparr>rp_status := status, rp_updated_at := now E\<rparr>"

definition UpdateReportStatus :: "env \<Rightarrow> int \<Rightarrow> int \<Rightarrow> unit io" where
  "UpdateReportStatus E reportID status =
     sql_update reports_update (\<lambda>r. rp_id r = reportID) (set_report_status E status)"

definition UpdateReportsStatusByTarget :: "env \<Rightarrow> string \<Rightarrow> int \<Rightarrow> int \<Rightarrow> unit io" where
  "UpdateReportsStatusByTarget E targetType targetID status =
     sql_update reports_update (\<lambda>r. rp_target_type r = targetType \<and> rp_target_id r = targetID \<and>
       rp_status r = CampusAuditStatusPending) (set_report_status E status)"

subsection \<open>Reporting\<close>

record ReportCampusContentInput =
  ri_user_id :: string
  ri_target_type :: string
  ri_target_id :: int
  ri_reason :: string
  ri_detail :: string

text \<open>The target must be there for everybody.\<close>

definition report_target ::
    "env \<Rightarrow> string \<Rightarrow> int \<Rightarrow> (CampusForumPost option \<times> (CampusForumComment \<times> CampusForumPost option) option) io" where
  "report_target E targetType targetID =
     (if targetType = ''post''
      then io_bind (or_fail (internal msg_query_post_failed) (GetPostByID E targetID)) (\<lambda>p. case p of
        None \<Rightarrow> fail (NotFound msg_post_not_found) | Some post \<Rightarrow> ret (Some post, None))
      else io_bind (or_fail (internal msg_query_comment_failed) (GetCommentByID targetID)) (\<lambda>c. case c of
        None \<Rightarrow> fail (NotFound msg_comment_not_found)
      | Some comment \<Rightarrow> if bc_status comment \<noteq> CampusAuditStatusVisible then fail (NotFound msg_comment_not_found)
          else ret (None, Some (comment, None))))"

definition new_report ::
    "ReportCampusContentInput \<Rightarrow> string \<Rightarrow> string \<Rightarrow> string \<Rightarrow> CampusForumPost option \<Rightarrow>
     (CampusForumComment \<times> CampusForumPost option) option \<Rightarrow> int \<Rightarrow> CampusForumReport" where
  "new_report input targetType reason detail post comment i = \<lparr>
     rt_id = i, rt_target_type = targetType, rt_target_id = ri_target_id input, rt_reporter_id = ri_user_id input,
     rt_reason = reason, rt_detail = detail, rt_status = CampusAuditStatusPending,
     rt_target = post, rt_comment = comment, rt_reporter = None\<rparr>"

text \<open>The alert shows the stored report, completed with what is at hand.\<close>

definition alert_report :: "env \<Rightarrow> 'x mod_ext_scheme \<Rightarrow> ReportCampusContentInput \<Rightarrow> string \<Rightarrow> CampusForumReport \<Rightarrow> unit io" where
  "alert_report E X input targetType report =
     io_bind (attempt (GetReportByTargetAndReporter X targetType (ri_target_id input) (ri_user_id input))) (\<lambda>saved.
     let shown = (case saved of Inr (Some s) \<Rightarrow> s | _ \<Rightarrow> report) in
     io_bind (if rt_reporter shown = None then attempt (load_author X (ri_user_id input)) else ret (Inr (rt_reporter shown)))
       (\<lambda>author.
     enqueueReportOpsAlert E X (shown\<lparr>
       rt_reporter := (case author of Inr a \<Rightarrow> a | Inl e \<Rightarrow> rt_reporter shown),
       rt_target := (if rt_target shown = None then rt_target report else rt_target shown),
       rt_comment := (if rt_comment shown = None then rt_comment report else rt_comment shown)\<rparr>)))"

definition submit_report :: "env \<Rightarrow> 'x mod_ext_scheme \<Rightarrow> ReportCampusContentInput \<Rightarrow> string \<Rightarrow> CampusForumReport \<Rightarrow> unit io" where
  "submit_report E X input targetType report =
     io_then (or_fail (internal msg_report_failed) (CreateReport E report))
     (io_then (notifyReportReceived E targetType (ri_target_id input) (ri_user_id input))
     (alert_report E X input targetType report))"

definition ReportContent :: "env \<Rightarrow> 'x mod_ext_scheme \<Rightarrow> ReportCampusContentInput \<Rightarrow> unit io" where
  "ReportContent E X input = require_login (ri_user_id input) (
     let targetType = normalizeCampusTargetType (ri_target_type input) in
     if targetType = [] then fail (InvalidArgument msg_report_target_invalid)
     else if ri_target_id input \<le> 0 then fail (InvalidArgument msg_report_target_id_invalid)
     else io_bind (report_target E targetType (ri_target_id input)) (\<lambda>(post, comment).
       let reason = firstNonEmpty [ri_reason input, msg_reason_other]; detail = trim_space (ri_detail input) in
       if 60 < rune_count reason then fail (InvalidArgument msg_reason_long)
       else if 300 < rune_count detail then fail (InvalidArgument msg_detail_long)
       else io_bind (NextID E) (\<lambda>i.
         submit_report E X input targetType (new_report input targetType reason detail post comment i))))"

subsection \<open>Decisions of the operators\<close>

record ReviewCampusContentInput =
  vi_user_id :: string
  vi_target_type :: string
  vi_target_id :: int
  vi_action :: string
  vi_reason :: string

definition require_operator :: "env \<Rightarrow> string \<Rightarrow> string \<Rightarrow> 'a io \<Rightarrow> 'a io" where
  "require_operator E userID message k = io_bind (isCampusOperator E userID) (\<lambda>ok.
     if \<not> ok then fail (Forbidden message) else k)"

definition review_status :: "string \<Rightarrow> int option" where
  "review_status action =
     (if action \<in> set [''approve'', ''pass'', ''visible''] then Some CampusAuditStatusVisible
      else if action = ''reject'' then Some CampusAuditStatusRejected
      else if action = ''delete'' then Some CampusAuditStatusDeleted else None)"

definition review_post :: "env \<Rightarrow> int \<Rightarrow> int \<Rightarrow> string \<Rightarrow> unit io" where
  "review_post E postID status reason =
     io_bind (or_fail (internal msg_query_post_failed) (GetAnyPostByID postID)) (\<lambda>p. case p of
       None \<Rightarrow> fail (NotFound msg_post_not_found)
     | Some post0 \<Rightarrow>
       io_then (or_fail (internal msg_review_post_failed) (UpdatePostStatus E postID status reason))
       (let post = post0\<lparr>bp_status := status, bp_audit_reason := reason\<rparr> in
        if status = CampusAuditStatusRejected then notifyPostAuditResult E post False msg_content_not_synced
        else if status = CampusAuditStatusDeleted then notifyPostAuditResult E post False msg_content_taken_down
        else ret ()))"

definition review_comment :: "env \<Rightarrow> int \<Rightarrow> int \<Rightarrow> string \<Rightarrow> unit io" where
  "review_comment E commentID status reason =
     io_bind (or_fail (internal msg_query_comment_failed) (GetAnyCommentByID commentID)) (\<lambda>c. case c of
       None \<Rightarrow> fail (NotFound msg_comment_not_found)
     | Some comment \<Rightarrow> or_fail (internal msg_review_comment_failed) (UpdateCommentStatus E commentID status reason))"

definition ReviewContent :: "env \<Rightarrow> ReviewCampusContentInput \<Rightarrow> unit io" where
  "ReviewContent E input = require_operator E (vi_user_id input) msg_no_review_right (
     let targetType = normalizeCampusTargetType (vi_target_type input) in
     if targetType = [] then fail (InvalidArgument msg_review_target_invalid)
     else let action = trim_space (to_lower (vi_action input)) in
     case review_status action of None \<Rightarrow> fail (InvalidArgument msg_review_action_invalid)
     | Some status \<Rightarrow>
       let reason = trim_space (vi_reason input) in
       io_then (if targetType = ''post'' then review_post E (vi_target_id input) status reason
         else review_comment E (vi_target_id input) status reason)
       (ignore (CreateAuditLog E targetType (vi_target_id input) (vi_user_id input) ''manual'' action reason)))"

definition AdminDeletePost :: "env \<Rightarrow> string \<Rightarrow> int \<Rightarrow> unit io" where
  "AdminDeletePost E userID postID = require_operator E userID msg_no_admin_right (
     if postID \<le> 0 then fail (InvalidArgument msg_post_id_invalid)
     else io_bind (or_fail (internal msg_query_post_failed) (GetAnyPostByID postID)) (\<lambda>p.
     io_then (or_fail (internal msg_admin_delete_post_failed) (DeletePost E postID))
     (case p of None \<Rightarrow> ret ()
      | Some post \<Rightarrow> notifyPostAuditResult E (post\<lparr>bp_status := CampusAuditStatusDeleted\<rparr>) False msg_content_taken_down)))"

definition AdminDeleteComment :: "env \<Rightarrow> string \<Rightarrow> int \<Rightarrow> unit io" where
  "AdminDeleteComment E userID commentID = require_operator E userID msg_no_admin_right (
     if commentID \<le> 0 then fail (InvalidArgument msg_comment_id_invalid)
     else or_fail (internal msg_admin_delete_comment_failed) (DeleteComment_repo E commentID))"

record ReviewCampusReportInput =
  wi_user_id :: string
  wi_report_id :: int
  wi_action :: string
  wi_reason :: string

definition report_review_status :: "string \<Rightarrow> int option" where
  "report_review_status action =
     (if action \<in> set [''resolve'', ''handled'', ''approve'', ''pass''] then Some 1
      else if action \<in> set [''reject'', ''dismiss''] then Some 2 else None)"

definition AdminReviewReport :: "env \<Rightarrow> 'x mod_ext_scheme \<Rightarrow> ReviewCampusReportInput \<Rightarrow> unit io" where
  "AdminReviewReport E X input = require_operator E (wi_user_id input) msg_no_admin_right (
     if wi_report_id input \<le> 0 then fail (InvalidArgument msg_report_id_invalid)
     else io_bind (or_fail (internal msg_query_report_failed) (GetReportByID X (wi_report_id input))) (\<lambda>r. case r of
       None \<Rightarrow> fail (NotFound msg_report_not_found)
     | Some report \<Rightarrow> (case report_review_status (trim_space (to_lower (wi_action input))) of
         None \<Rightarrow> fail (InvalidArgument msg_report_action_invalid)
       | Some status \<Rightarrow>
         io_then (or_fail (internal msg_handle_report_failed) (UpdateReportStatus E (wi_report_id input) status))
         (io_then (notifyReportResult E report status)
         (ignore (CreateAuditLog E ''report'' (wi_report_id input) (wi_user_id input) ''manual'' (wi_action input)
           (trim_space (wi_reason input))))))))"

subsection \<open>The buttons of a card\<close>

fun notify_reporters :: "env \<Rightarrow> int \<Rightarrow> CampusForumReport list \<Rightarrow> unit io" where
  "notify_reporters E status [] = ret ()"
| "notify_reporters E status (r # rs) = io_then (notifyReportResult E r status) (notify_reporters E status rs)"

definition markReportsHandledByTarget :: "env \<Rightarrow> 'x mod_ext_scheme \<Rightarrow> string \<Rightarrow> int \<Rightarrow> int \<Rightarrow> unit io" where
  "markReportsHandledByTarget E X targetType targetID status =
     io_bind (attempt (ListReportsByTarget X targetType targetID CampusAuditStatusPending)) (\<lambda>listed.
     io_then (UpdateReportsStatusByTarget E targetType targetID status)
     (notify_reporters E status (case listed of Inl e \<Rightarrow> [] | Inr rs \<Rightarrow> rs)))"

definition scheduledAgentOperatorID :: "env \<Rightarrow> string" where
  "scheduledAgentOperatorID E = (let value = trim_space (getenv E ''CAMPUS_AGENT_OPERATOR_USER_ID'') in
     if value \<noteq> [] then value
     else case filter (\<lambda>v. v \<noteq> []) (map trim_space
         (split_byte (CHR '','') (getenv E ''LEHU_CAMPUS_ADMIN_USER_IDS'') @
          split_byte (CHR '','') (getenv E ''LEHU_CAMPUS_OPERATOR_USER_IDS''))) of
       [] \<Rightarrow> ''1'' | v # _ \<Rightarrow> v)"

definition sendFeishuActionReceipt :: "env \<Rightarrow> 'x mod_ext_scheme \<Rightarrow> string \<Rightarrow> int \<Rightarrow> string \<Rightarrow> string \<Rightarrow> unit io" where
  "sendFeishuActionReceipt E X targetType targetID action message = io_bind (feishuOpsEnabled E) (\<lambda>on.
     if \<not> on \<or> targetID \<le> 0 then ret () else ignore (send_receipt X targetType targetID action message))"

text \<open>What a button does. \<open>Inl\<close> is an answer that ends the request at once, \<open>Inr\<close> the message and
  the reason with which it goes on.\<close>

definition take_down_actions :: "string list" where
  "take_down_actions = [''delete'', ''delete_reported'', ''takedown'', ''offline'']"

definition card_post_action ::
    "env \<Rightarrow> 'x mod_ext_scheme \<Rightarrow> CampusForumPost \<Rightarrow> string \<Rightarrow> string \<Rightarrow> (string + string \<times> string) io" where
  "card_post_action E X post action reason =
     (if action \<in> set [''approve'', ''pass'', ''visible''] then
        if bp_status post \<noteq> CampusAuditStatusPending then ret (Inl msg_post_already_handled)
        else io_then (or_fail (internal msg_approve_failed) (UpdatePostStatus E (bp_id post) CampusAuditStatusVisible []))
          (ret (Inr (msg_approved, reason)))
      else if action = ''reject'' then
        if bp_status post \<noteq> CampusAuditStatusPending then ret (Inl msg_post_already_handled)
        else io_then (or_fail (internal msg_reject_failed) (UpdatePostStatus E (bp_id post) CampusAuditStatusRejected reason))
          (io_then (notifyPostAuditResult E (post\<lparr>bp_status := CampusAuditStatusRejected, bp_audit_reason := reason\<rparr>)
             False msg_content_not_synced)
          (ret (Inr (msg_rejected, reason))))
      else if action \<in> set take_down_actions then
        if bp_status post = CampusAuditStatusDeleted then
          io_then (ignore (markReportsHandledByTarget E X ''post'' (bp_id post) CampusAuditStatusVisible))
            (ret (Inl msg_post_already_down))
        else let reason' = firstNonEmpty [reason, msg_report_confirmed] in
          io_then (or_fail (internal msg_take_down_failed) (UpdatePostStatus E (bp_id post) CampusAuditStatusDeleted reason'))
          (io_then (notifyPostAuditResult E (post\<lparr>bp_status := CampusAuditStatusDeleted, bp_audit_reason := reason'\<rparr>)
             False msg_content_taken_down)
          (io_then (ignore (markReportsHandledByTarget E X ''post'' (bp_id post) CampusAuditStatusVisible))
          (ret (Inr (msg_post_taken_down, reason')))))
      else if action = ''dismiss_report'' then
        io_then (ignore (markReportsHandledByTarget E X ''post'' (bp_id post) CampusAuditStatusRejected))
          (ret (Inr (msg_post_reports_ignored, reason)))
      else fail (InvalidArgument msg_action_invalid))"

definition card_comment_action ::
    "env \<Rightarrow> 'x mod_ext_scheme \<Rightarrow> CampusForumComment \<Rightarrow> string \<Rightarrow> string \<Rightarrow> (string + string \<times> string) io" where
  "card_comment_action E X comment action reason =
     (if action \<in> set take_down_actions then
        if bc_status comment = CampusAuditStatusDeleted then
          io_then (ignore (markReportsHandledByTarget E X ''comment'' (bc_id comment) CampusAuditStatusVisible))
            (ret (Inl msg_comment_already_down))
        else let reason' = firstNonEmpty [reason, msg_report_confirmed] in
          io_then (or_fail (internal msg_take_comment_down_failed)
             (UpdateCommentStatus E (bc_id comment) CampusAuditStatusDeleted reason'))
          (io_then (ignore (markReportsHandledByTarget E X ''comment'' (bc_id comment) CampusAuditStatusVisible))
          (ret (Inr (msg_comment_taken_down, reason'))))
      else if action = ''dismiss_report'' then
        io_then (ignore (markReportsHandledByTarget E X ''comment'' (bc_id comment) CampusAuditStatusRejected))
          (ret (Inr (msg_comment_reports_ignored, reason)))
      else fail (InvalidArgument msg_action_invalid))"

definition card_action ::
    "env \<Rightarrow> 'x mod_ext_scheme \<Rightarrow> string \<Rightarrow> int \<Rightarrow> string \<Rightarrow> string \<Rightarrow> (string + string \<times> string) io" where
  "card_action E X targetType targetID action reason =
     (if targetType = ''post'' then
        io_bind (or_fail (internal msg_query_post_failed) (GetAnyPostByID targetID)) (\<lambda>p. case p of
          None \<Rightarrow> fail (NotFound msg_post_not_found) | Some post \<Rightarrow> card_post_action E X post action reason)
      else if targetType = ''comment'' then
        io_bind (or_fail (internal msg_query_comment_failed) (GetAnyCommentByID targetID)) (\<lambda>c. case c of
          None \<Rightarrow> fail (NotFound msg_comment_not_found) | Some comment \<Rightarrow> card_comment_action E X comment action reason)
      else fail (InvalidArgument msg_target_unsupported))"

record HandleFeishuCardActionInput =
  hi_token :: string
  hi_action :: string
  hi_reason :: string

definition finish_card ::
    "env \<Rightarrow> 'x mod_ext_scheme \<Rightarrow> string \<Rightarrow> int \<Rightarrow> string \<Rightarrow> string + string \<times> string \<Rightarrow> string io" where
  "finish_card E X targetType targetID action answer = (case answer of
     Inl message \<Rightarrow> ret message
   | Inr (message, reason) \<Rightarrow>
     io_then (ignore (CreateAuditLog E targetType targetID (scheduledAgentOperatorID E) ''feishu_agent'' action reason))
     (io_then (sendFeishuActionReceipt E X targetType targetID action message) (ret message)))"

definition token_action :: "CampusOpsActionToken \<Rightarrow> HandleFeishuCardActionInput \<Rightarrow> string" where
  "token_action item input = (let a = trim_space (to_lower (tk_action item)) in
     if a = [] then trim_space (to_lower (hi_action input)) else a)"

definition HandleFeishuCardAction :: "env \<Rightarrow> 'x mod_ext_scheme \<Rightarrow> HandleFeishuCardActionInput \<Rightarrow> string io" where
  "HandleFeishuCardAction E X input =
     (if \<not> feishuCardCallbackEnabled E then fail (Forbidden msg_callback_off)
      else let token = trim_space (hi_token input) in
      if token = [] then fail (InvalidArgument msg_token_empty)
      else io_bind (or_fail (internal msg_token_check_failed) (UseOpsActionToken (hashOpsActionToken X token) (now E)))
        (\<lambda>(used, found). case found of
          None \<Rightarrow> fail (NotFound msg_token_not_found)
        | Some item \<Rightarrow>
          if \<not> used then fail (Conflict msg_token_used)
          else let action = token_action item input; targetType = trim_space (to_lower (tk_target_type item));
              reason = firstNonEmpty [hi_reason input, tk_reason item, msg_by_feishu_agent] in
            io_bind (card_action E X targetType (tk_target_id item) action reason)
              (finish_card E X targetType (tk_target_id item) action)))"

subsection \<open>Feedback\<close>

record CreateCampusFeedbackInput =
  xi_user_id :: string
  xi_feedback_type :: string
  xi_content :: string
  xi_contact :: string
  xi_images :: "string list"

definition CreateFeedback_repo :: "env \<Rightarrow> CampusFeedback \<Rightarrow> unit io" where
  "CreateFeedback_repo E f = sql_create feedbacks feedbacks_update (\<lambda>r. fb_id r = fd_id f)
     \<lparr>fb_id = fd_id f, fb_user_id = parseID (fd_user_id f), fb_feedback_type = fd_feedback_type f,
      fb_content = fd_content f, fb_contact = fd_contact f, fb_images = fd_images f, fb_status = fd_status f,
      fb_operator_note = [], fb_created_at = now E, fb_updated_at = now E\<rparr>"

definition UpdateFeedbackStatus :: "env \<Rightarrow> int \<Rightarrow> int \<Rightarrow> string \<Rightarrow> unit io" where
  "UpdateFeedbackStatus E feedbackID status note = sql_update feedbacks_update (\<lambda>r. fb_id r = feedbackID)
     (\<lambda>r. r\<lparr>fb_status := status, fb_operator_note := note, fb_updated_at := now E\<rparr>)"

definition CreateFeedback :: "env \<Rightarrow> CreateCampusFeedbackInput \<Rightarrow> CampusFeedback io" where
  "CreateFeedback E input = require_login (xi_user_id input) (
     let feedbackType = normalizeCampusFeedbackType (xi_feedback_type input); content = trim_space (xi_content input) in
     if rune_count content < 5 then fail (InvalidArgument msg_feedback_short)
     else if 800 < rune_count content then fail (InvalidArgument msg_feedback_long)
     else let contact = trim_space (xi_contact input) in
     if 80 < rune_count contact then fail (InvalidArgument msg_contact_long)
     else io_bind (NextID E) (\<lambda>i.
       let feedback = \<lparr>fd_id = i, fd_user_id = xi_user_id input, fd_feedback_type = feedbackType, fd_content = content,
         fd_contact = contact, fd_images = sanitizeImages (xi_images input) 3, fd_status = 0\<rparr> in
       io_then (or_fail (internal msg_feedback_failed) (CreateFeedback_repo E feedback))
       (io_then (enqueueFeedbackOpsAlert E feedback)
       (io_then (trackEvent E (Some \<lparr>te_user_id = xi_user_id input, te_event_type = ''feedback_create'',
          te_page = ''feedback'', te_target_type = ''feedback'', te_target_id = i, te_channel = feedbackType,
          te_extra = [], te_user_agent = [], te_ip = []\<rparr>))
       (ret feedback)))))"

record ReviewCampusFeedbackInput =
  zi_user_id :: string
  zi_feedback_id :: int
  zi_status :: int
  zi_operator_note :: string

definition AdminReviewFeedback :: "env \<Rightarrow> ReviewCampusFeedbackInput \<Rightarrow> unit io" where
  "AdminReviewFeedback E input = require_operator E (zi_user_id input) msg_no_admin_right (
     if zi_feedback_id input \<le> 0 then fail (InvalidArgument msg_feedback_id_invalid)
     else if zi_status input < 0 \<or> 2 < zi_status input then fail (InvalidArgument msg_feedback_status_invalid)
     else let note = trim_space (zi_operator_note input) in
     if 300 < rune_count note then fail (InvalidArgument msg_note_long)
     else or_fail (internal msg_feedback_update_failed) (UpdateFeedbackStatus E (zi_feedback_id input) (zi_status input) note))"

subsection \<open>What the decisions leave alone\<close>

lemma fill_frames [frames]:
  "keeps g (FillCommentPosts cs)" "keeps g (fillReports X rs)" "keeps g (GetReport X P)"
  "keeps g (GetReportByID X i)" "keeps g (GetReportByTargetAndReporter X ty i u)" "keeps g (ListReportsByTarget X ty i s)"
  unfolding FillCommentPosts_def fillReports_def GetReport_def GetReportByID_def GetReportByTargetAndReporter_def
    ListReportsByTarget_def fillPostCategoryNames_def Let_def
  by (intro frames)+

lemma report_write_frames [frames]:
  assumes "\<And>h t. g (reports_update h t) = g t"
  shows "keeps g (CreateReport E b)" "keeps g (UpdateReportStatus E i s)" "keeps g (UpdateReportsStatusByTarget E ty i s)"
  unfolding CreateReport_def UpdateReportStatus_def UpdateReportsStatusByTarget_def by (intro frames assms)+

lemma notify_reporters_frames [frames]:
  assumes "\<And>h t. g (outbox_update h t) = g t"
  shows "keeps g (notify_reporters E s rs)"
proof (induction rs)
  case (Cons r rs)
  show ?case unfolding notify_reporters.simps by (intro frames assms Cons.IH)
qed (simp add: keeps_def)

lemma status_write_frames [frames]:
  assumes "\<And>h t. g (posts_update h t) = g t"
  shows "keeps g (UpdatePostStatus E i s q)" "keeps g (UpdatePostByAdmin E p)"
  unfolding UpdatePostStatus_def UpdatePostByAdmin_def by (intro frames assms)+

lemma comment_write_frames [frames]:
  assumes "\<And>h t. g (posts_update h t) = g t" and "\<And>h t. g (comments_update h t) = g t"
  shows "keeps g (UpdateCommentStatus E i s q)" "keeps g (DeleteComment_repo E i)" "keeps g (DeletePost E i)"
  unfolding UpdateCommentStatus_def UpdateCommentStatus_rows_def DeleteComment_repo_def DeleteComment_rows_def
    DeletePost_def DeletePost_rows_def set_comment_count_def set_reply_count_def Let_def
  by (intro frames assms)+

lemma any_comment_frames [frames]: "keeps g (GetAnyCommentByID i)"
  unfolding GetAnyCommentByID_def by (intro frames)

lemma handled_frames [frames]:
  assumes "\<And>h t. g (reports_update h t) = g t" and "\<And>h t. g (outbox_update h t) = g t"
  shows "keeps g (markReportsHandledByTarget E X ty i s)"
  unfolding markReportsHandledByTarget_def by (intro frames assms)+

lemma finish_card_frames:
  assumes "\<And>h t. g (audit_logs_update h t) = g t" and "\<And>ty i a m. keeps g (send_receipt X ty i a m)"
  shows "keeps g (finish_card E X ty i a answer)"
  unfolding finish_card_def sendFeishuActionReceipt_def by (intro frames assms)+

subsection \<open>Only a valid token moves a post or a comment\<close>

text \<open>The statuses a button may give to a post that is pending or not, and to a comment.\<close>

definition card_statuses :: "string \<Rightarrow> bool \<Rightarrow> int set" where
  "card_statuses action pending =
     (if action \<in> set [''approve'', ''pass'', ''visible''] then (if pending then {CampusAuditStatusVisible} else {})
      else if action = ''reject'' then (if pending then {CampusAuditStatusRejected} else {})
      else if action \<in> set take_down_actions then {CampusAuditStatusDeleted} else {})"

text \<open>Rows of posts and comments without their counters of comments and replies.\<close>

definition post_face :: "campusForumPostModel \<Rightarrow> campusForumPostModel" where
  "post_face p = p\<lparr>p_comment_count := 0\<rparr>"

definition comment_face :: "campusForumCommentModel \<Rightarrow> campusForumCommentModel" where
  "comment_face c = c\<lparr>c_reply_count := 0\<rparr>"

definition comment_step :: "env \<Rightarrow> int \<Rightarrow> int set \<Rightarrow> tables \<Rightarrow> tables \<Rightarrow> bool" where
  "comment_step E i S t t' \<longleftrightarrow> map post_face (posts t') = map post_face (posts t) \<and>
     (map comment_face (comments t') = map comment_face (comments t) \<or>
      (\<exists>status \<in> S. \<exists>reason. map comment_face (comments t') =
        upd_where (\<lambda>c. c_id c = i) (review_row (now E) status reason) (map comment_face (comments t))))"

lemma counters_face:
  "map post_face (posts (set_comment_count f i t)) = map post_face (posts t)"
  "comments (set_comment_count f i t) = comments t"
  "map comment_face (comments (set_reply_count f i t)) = map comment_face (comments t)"
  "posts (set_reply_count f i t) = posts t"
  by (simp_all add: set_comment_count_def set_reply_count_def upd_where_def post_face_def comment_face_def)

lemma review_face:
  "map comment_face (upd_where (\<lambda>c. c_id c = i) (review_row t s reason) cs) =
     upd_where (\<lambda>c. c_id c = i) (review_row t s reason) (map comment_face cs)"
  by (simp add: upd_where_def comment_face_def review_row_def)

lemma UpdateCommentStatus_step:
  assumes "UpdateCommentStatus E i status reason w = (r, w')"
  shows "comment_step E i {status} (db w) (db w')"
proof -
  have rows: "comment_step E i {status} (db v) (db v')" if "UpdateCommentStatus_rows E i status reason v = (q, v')" for q v v'
  proof (cases q)
    case (Inl e)
    then have "db v' = db v" using that unfolding UpdateCommentStatus_rows_def by (auto dest: transaction_atomic)
    then show ?thesis by (simp add: comment_step_def)
  next
    case (Inr x)
    from that [unfolded Inr UpdateCommentStatus_rows_def]
    have "map post_face (posts (db v')) = map post_face (posts (db v)) \<and> map comment_face (comments (db v')) =
        upd_where (\<lambda>c. c_id c = i) (review_row (now E) status reason) (map comment_face (comments (db v)))"
      by (auto simp: counters_face review_face Let_def split: option.splits if_splits
          elim!: transaction_InrE io_bind_InrE io_then_InrE sql_first_InrE sql_update_InrE sql_exec_InrE)
    then show ?thesis unfolding comment_step_def by blast
  qed
  have "cache_step (if 0 < p then io_then (invalidatePostDetailCache E p) (deleteCacheKeys E ks) else ret ())" for p ks
    by (simp add: cache_steps cache_step_invalidate)
  note caches = cache_stepD [OF this]
  from assms [unfolded UpdateCommentStatus_def] show ?thesis
  proof (cases rule: io_bind_E)
    case (2 p w1)
    from caches [OF 2(2)] rows [OF 2(1)] show ?thesis by simp
  qed (use rows in blast)
qed

lemma then_status:
  assumes "io_then (or_fail h (UpdatePostStatus E i status reason)) k w = (r, w')"
    and "keeps posts k" "keeps comments k"
  shows "status_step E i {status} (db w) (db w')" and "comments (db w') = comments (db w)"
proof -
  have c: "keeps comments (UpdatePostStatus E i status reason)"
    unfolding UpdatePostStatus_def by (intro frames; simp)
  from assms(1) obtain r1 w1 where u: "UpdatePostStatus E i status reason w = (r1, w1)"
    and p: "posts (db w') = posts (db w1)" "comments (db w') = comments (db w1)"
    using keepsD [OF assms(2)] keepsD [OF assms(3)] by (auto elim!: io_then_E or_fail_E)
  from UpdatePostStatus_step [OF u] p(1) show "status_step E i {status} (db w) (db w')" by (simp add: status_step_def)
  from keepsD [OF c u] p(2) show "comments (db w') = comments (db w)" by simp
qed

lemma then_comment:
  assumes "io_then (or_fail h (UpdateCommentStatus E i status reason)) k w = (r, w')"
    and "keeps posts k" "keeps comments k"
  shows "comment_step E i {status} (db w) (db w')"
proof -
  from assms(1) obtain r1 w1 where u: "UpdateCommentStatus E i status reason w = (r1, w1)"
    and p: "posts (db w') = posts (db w1)" "comments (db w') = comments (db w1)"
    using keepsD [OF assms(2)] keepsD [OF assms(3)] by (auto elim!: io_then_E or_fail_E)
  from UpdateCommentStatus_step [OF u] p show ?thesis by (simp add: comment_step_def)
qed

lemma card_post_step:
  assumes "card_post_action E X post action reason w = (r, w')"
  shows "status_step E (bp_id post) (card_statuses action (bp_status post = CampusAuditStatusPending)) (db w) (db w')
    \<and> comments (db w') = comments (db w)"
proof -
  have step: "status_step E (bp_id post) {s} (db w) (db w') \<and> comments (db w') = comments (db w)"
    if "io_then (or_fail h (UpdatePostStatus E (bp_id post) s q)) k w = (r, w')" "keeps posts k" "keeps comments k" for h s q k
    using then_status [OF that] by blast
  have same: "status_step E (bp_id post) S (db w) (db w') \<and> comments (db w') = comments (db w)"
    if "keeps posts (card_post_action E X post action reason)" "keeps comments (card_post_action E X post action reason)" for S
    using keepsD [OF that(1) assms] keepsD [OF that(2) assms] by (simp add: status_step_def)
  consider (approve) "action \<in> set [''approve'', ''pass'', ''visible'']"
    | (reject) "action = ''reject''" | (down) "action \<in> set take_down_actions"
    | (other) "action \<notin> set [''approve'', ''pass'', ''visible'']" "action \<noteq> ''reject''" "action \<notin> set take_down_actions"
    by blast
  then show ?thesis
  proof cases
    case approve
    show ?thesis
    proof (cases "bp_status post = CampusAuditStatusPending")
      case True
      with assms approve show ?thesis unfolding card_post_action_def card_statuses_def
        by simp (rule step, assumption, (intro frames; simp)+)
    qed (use assms approve in \<open>simp add: card_post_action_def status_step_def\<close>)
  next
    case reject
    show ?thesis
    proof (cases "bp_status post = CampusAuditStatusPending")
      case True
      with assms reject show ?thesis unfolding card_post_action_def card_statuses_def
        by simp (rule step, assumption, (intro frames; simp)+)
    qed (use assms reject in \<open>simp add: card_post_action_def status_step_def\<close>)
  next
    case down
    then have a: "action \<notin> set [''approve'', ''pass'', ''visible'']" "action \<noteq> ''reject''"
      by (auto simp: take_down_actions_def)
    show ?thesis
    proof (cases "bp_status post = CampusAuditStatusDeleted")
      case True
      show ?thesis
        by (rule same) (simp_all only: card_post_action_def if_not_P [OF a(1)] if_not_P [OF a(2)] if_P [OF down]
            if_P [OF True], (intro frames; simp)+)
    next
      case False
      have "card_statuses action p = {CampusAuditStatusDeleted}" for p
        by (simp only: card_statuses_def if_not_P [OF a(1)] if_not_P [OF a(2)] if_P [OF down])
      moreover note assms [unfolded card_post_action_def if_not_P [OF a(1)] if_not_P [OF a(2)] if_P [OF down]
          if_not_P [OF False] Let_def]
      ultimately show ?thesis by simp (rule step, assumption, (intro frames; simp)+)
    qed
  next
    case other
    show ?thesis
      by (rule same) (simp_all only: card_post_action_def if_not_P [OF other(1)] if_not_P [OF other(2)]
          if_not_P [OF other(3)], (intro frames; simp)+)
  qed
qed

lemma card_comment_step:
  assumes "card_comment_action E X comment action reason w = (r, w')"
  shows "comment_step E (bc_id comment) (if action \<in> set take_down_actions then {CampusAuditStatusDeleted} else {})
    (db w) (db w')"
proof -
  have same: "comment_step E (bc_id comment) S (db w) (db w')"
    if "keeps posts (card_comment_action E X comment action reason)"
      "keeps comments (card_comment_action E X comment action reason)" for S
    using keepsD [OF that(1) assms] keepsD [OF that(2) assms] by (simp add: comment_step_def)
  show ?thesis
  proof (cases "action \<in> set take_down_actions")
    case down: True
    show ?thesis
    proof (cases "bc_status comment = CampusAuditStatusDeleted")
      case True
      show ?thesis
        by (rule same) (simp_all only: card_comment_action_def if_P [OF down] if_P [OF True], (intro frames; simp)+)
    next
      case False
      from assms [unfolded card_comment_action_def if_P [OF down] if_not_P [OF False] Let_def]
      have "comment_step E (bc_id comment) {CampusAuditStatusDeleted} (db w) (db w')"
        by (rule then_comment) (intro frames; simp)+
      with down show ?thesis by simp
    qed
  next
    case False
    show ?thesis
      by (rule same) (simp_all only: card_comment_action_def if_not_P [OF False], (intro frames; simp)+)
  qed
qed

lemma read_comment_fields:
  assumes "GetAnyCommentByID i w = (Inr (Some c), w')"
  shows "bc_id c = i"
  using assms by (auto simp: GetAnyCommentByID_def toBizComment_def dest!: find_SomeD elim!: io_bind_InrE sql_first_InrE)

definition card_effect :: "env \<Rightarrow> string \<Rightarrow> int \<Rightarrow> string \<Rightarrow> tables \<Rightarrow> tables \<Rightarrow> bool" where
  "card_effect E targetType i action t t' \<longleftrightarrow>
     (targetType = ''post'' \<and> comments t' = comments t \<and> (\<exists>row \<in> set (posts t). p_id row = i \<and> \<not> p_is_deleted row \<and>
        status_step E i (card_statuses action (p_status row = CampusAuditStatusPending)) t t')) \<or>
     (targetType = ''comment'' \<and> comment_step E i (if action \<in> set take_down_actions then {CampusAuditStatusDeleted} else {}) t t')"

lemma card_action_step:
  assumes "card_action E X ty i action reason w = (r, w')"
  shows "posts (db w') = posts (db w) \<and> comments (db w') = comments (db w) \<or> card_effect E ty i action (db w) (db w')"
proof (cases "ty = ''post''")
  case True
  from assms [unfolded card_action_def if_P [OF True]] show ?thesis
  proof (cases rule: io_bind_E)
    case (1 e)
    have "db w' = db w" by (rule keepsD [OF keeps_wrap(2) [OF read_frames(2)] 1(1)])
    then show ?thesis by simp
  next
    case (2 p w1)
    have d: "db w1 = db w" by (rule keepsD [OF keeps_wrap(2) [OF read_frames(2)] 2(1)])
    show ?thesis
    proof (cases p)
      case None
      with 2(2) d show ?thesis by simp
    next
      case (Some post)
      from 2(1) Some have g: "GetAnyPostByID i w = (Inr (Some post), w1)" by (auto elim: or_fail_InrE)
      obtain row where row: "row \<in> set (posts (db w))" "p_id row = i" "\<not> p_is_deleted row" "bp_id post = p_id row"
        "bp_status post = p_status row" using read_post_fields [OF g] by blast
      from 2(2) Some have "card_post_action E X post action reason w1 = (r, w')" by simp
      from card_post_step [OF this] row d True show ?thesis unfolding card_effect_def by auto
    qed
  qed
next
  case no_post: False
  show ?thesis
  proof (cases "ty = ''comment''")
    case True
    from assms [unfolded card_action_def if_not_P [OF no_post] if_P [OF True]] show ?thesis
    proof (cases rule: io_bind_E)
      case (1 e)
      have "db w' = db w" by (rule keepsD [OF keeps_wrap(2) [OF any_comment_frames] 1(1)])
      then show ?thesis by simp
    next
      case (2 c w1)
      have d: "db w1 = db w" by (rule keepsD [OF keeps_wrap(2) [OF any_comment_frames] 2(1)])
      show ?thesis
      proof (cases c)
        case None
        with 2(2) d show ?thesis by simp
      next
        case (Some comment)
        from 2(1) Some have "bc_id comment = i" by (auto elim: or_fail_InrE intro: read_comment_fields)
        moreover from 2(2) Some have "card_comment_action E X comment action reason w1 = (r, w')" by simp
        ultimately show ?thesis using card_comment_step d True unfolding card_effect_def by metis
      qed
    qed
  qed (use assms no_post in \<open>simp add: card_action_def\<close>)
qed

lemma use_token_frames [frames]:
  assumes "\<And>h t. g (action_tokens_update h t) = g t"
  shows "keeps g (UseOpsActionToken h t)"
  unfolding UseOpsActionToken_def by (intro frames assms)

text \<open>
  C31. The buttons on the cards: a request of the operators' chat changes a post or a comment only
  with a token that is stored, active and not expired, which is used up by it, and then only the
  post or the comment the token was issued for, in the way the token says: a post is published or
  rejected only while it is pending, a post or a comment is taken down, and nothing else. So
  whatever fails and whatever the request asks for. (The chat does not write the tables.)
\<close>

theorem card_actions_need_tokens:
  assumes "HandleFeishuCardAction E X input w = (r, w')" and "\<And>ty i a m. keeps (\<lambda>t. t) (send_receipt X ty i a m)"
  shows "posts (db w') = posts (db w) \<and> comments (db w') = comments (db w) \<or>
    (\<exists>tk \<in> set (action_tokens (db w)).
       tk_token_hash tk = hashOpsActionToken X (trim_space (hi_token input)) \<and> tk_status tk = ''active'' \<and>
       now E < tk_expires_at tk \<and> feishuCardCallbackEnabled E \<and> token_used (now E) tk \<in> set (action_tokens (db w')) \<and>
       card_effect E (trim_space (to_lower (tk_target_type tk))) (tk_target_id tk) (token_action tk input) (db w) (db w'))"
proof -
  let ?h = "hashOpsActionToken X (trim_space (hi_token input))"
  have receipt: "keeps g (send_receipt X ty i a m)" for g ty i a m
    using assms(2) [of ty i a m] by (simp add: keeps_def)
  show ?thesis
  proof (cases "feishuCardCallbackEnabled E \<and> trim_space (hi_token input) \<noteq> []")
    case False
    then have "db w' = db w" using assms(1) by (auto simp: HandleFeishuCardAction_def Let_def split: if_splits)
    then show ?thesis by simp
  next
    case True
    obtain u w1 where u: "UseOpsActionToken ?h (now E) w = (u, w1)" by fastforce
    have p1: "posts (db w1) = posts (db w)" "comments (db w1) = comments (db w)"
      by (rule keepsD [OF use_token_frames u]; simp)+
    show ?thesis
      using u
    proof (cases rule: UseOpsActionToken_E)
      case refused
      with assms(1) True u have "w' = w1"
        by (auto simp: HandleFeishuCardAction_def Let_def io_bind_def or_fail_def split: sum.splits option.splits)
      with p1 show ?thesis by simp
    next
      case (used tk)
      let ?i = "tk_target_id tk" and ?ty = "trim_space (to_lower (tk_target_type tk))"
        and ?a = "token_action tk input" and ?r = "firstNonEmpty [hi_reason input, tk_reason tk, msg_by_feishu_agent]"
      have same_action: "token_action (token_used (now E) tk) input = ?a" by (simp add: token_action_def)
      from assms(1) True u used(4) have "io_bind (card_action E X ?ty ?i ?a ?r) (finish_card E X ?ty ?i ?a) w1 = (r, w')"
        by (simp add: HandleFeishuCardAction_def Let_def io_bind_def or_fail_def same_action del: firstNonEmpty.simps)
      then have "\<exists>r2 w2. card_action E X ?ty ?i ?a ?r w1 = (r2, w2) \<and> posts (db w') = posts (db w2) \<and>
          comments (db w') = comments (db w2) \<and> action_tokens (db w') = action_tokens (db w2)"
      proof (cases rule: io_bind_E)
        case (2 answer w2)
        have "posts (db w') = posts (db w2)" "comments (db w') = comments (db w2)"
          "action_tokens (db w') = action_tokens (db w2)"
          by (rule keepsD [OF finish_card_frames 2(2)]; simp add: receipt)+
        with 2(1) show ?thesis by blast
      qed blast
      then obtain r2 w2 where c: "card_action E X ?ty ?i ?a ?r w1 = (r2, w2)"
        and rest: "posts (db w') = posts (db w2)" "comments (db w') = comments (db w2)"
          "action_tokens (db w') = action_tokens (db w2)" by blast
      have "keeps action_tokens (card_action E X ?ty ?i ?a ?r)"
        unfolding card_action_def card_post_action_def card_comment_action_def Let_def by (intro frames; simp)
      from keepsD [OF this c] rest(3) used(5)
      have tokens: "action_tokens (db w') = upd_where (\<lambda>x. tk_id x = tk_id tk \<and> tk_status x = ''active'')
          (token_used (now E)) (action_tokens (db w))" by simp
      from used(1) have tk: "tk \<in> set (action_tokens (db w))" "tk_token_hash tk = ?h"
        unfolding token_row_def by (auto dest: find_SomeD)
      have burnt: "token_used (now E) tk \<in> set (action_tokens (db w'))"
        unfolding tokens using tk(1) used(2) by (intro upd_where_in [of tk _ _ "token_used (now E)"]) auto
      from card_action_step [OF c]
      have "posts (db w') = posts (db w) \<and> comments (db w') = comments (db w) \<or> card_effect E ?ty ?i ?a (db w) (db w')"
        by (simp add: card_effect_def status_step_def comment_step_def p1 rest)
      with tk burnt True used(2,3) show ?thesis by blast
    qed
  qed
qed

text \<open>The button "publish" of the card about the pending post 5.\<close>

definition card_sample :: mod_ext where
  "card_sample = \<lparr>gen_token = (\<lambda>n. Inr ''t''), sha256_hex = (\<lambda>s. s), token_ttl = 10, user_name = (\<lambda>_. ([], [])),
     send_card = (\<lambda>_. ret (''sent'', None, [])), load_author = (\<lambda>_. ret None), send_receipt = (\<lambda>_ _ _ _. ret ())\<rparr>"

definition card_token :: campusOpsActionTokenModel where
  "card_token = \<lparr>tk_id = 3, tk_token_hash = ''k'', tk_action = ''pass'', tk_target_type = ''post'', tk_target_id = 5,
     tk_reason = [], tk_status = ''active'', tk_expires_at = 200, tk_used_at = None, tk_created_at = 0, tk_updated_at = 0\<rparr>"

definition card_world :: world where
  "card_world = audit_world\<lparr>db := (db audit_world)\<lparr>action_tokens := [card_token]\<rparr>\<rparr>"

definition card_input :: HandleFeishuCardActionInput where
  "card_input = \<lparr>hi_token = ''k'', hi_action = ''delete'', hi_reason = []\<rparr>"

lemma card_literals:
  "trim_space ''k'' = ''k''" "trim_space ''post'' = ''post''" "trim_space ''pass'' = ''pass''"
  "to_lower ''post'' = ''post''" "to_lower ''pass'' = ''pass''" "trim_space [] = []"
  by (simp_all add: trim_space_graphic to_lower_graphic byte_def)

lemma card_facts:
  "faults card_world = []" "action_tokens (db card_world) = [card_token]" "posts (db card_world) = posts (db audit_world)"
  "feishuCardCallbackEnabled forum_env" "now forum_env = 100" "hashOpsActionToken card_sample ''k'' = ''k''"
  by (simp_all add: card_world_def audit_world_facts feishuCardCallbackEnabled_def forum_env_def sample_env_def
      envBoolFalse_def trim_lower_def card_literals hashOpsActionToken_def card_sample_def to_lower_def
      go_string_eval)

lemma card_token_redeemed:
  "UseOpsActionToken ''k'' 100 card_world = (Inr (True, Some (token_used 100 card_token)),
     card_world\<lparr>db := (db card_world)\<lparr>action_tokens := [token_used 100 card_token]\<rparr>\<rparr>)"
  using card_facts(1,2) by (simp add: UseOpsActionToken_def io_online card_token_def)

theorem card_actions_need_tokens_witness:
  "\<exists>r w'. HandleFeishuCardAction forum_env card_sample card_input card_world = (r, w') \<and>
     map p_status (posts (db w')) = [CampusAuditStatusVisible] \<and> token_used 100 card_token \<in> set (action_tokens (db w'))"
proof -
  let ?w1 = "card_world\<lparr>db := (db card_world)\<lparr>action_tokens := [token_used 100 card_token]\<rparr>\<rparr>"
    and ?reason = "firstNonEmpty [[], [], msg_by_feishu_agent]"
  obtain r w' where run: "HandleFeishuCardAction forum_env card_sample card_input card_world = (r, w')" by fastforce
  obtain p where p: "posts (db ?w1) = [p]" "p_id p = 5" "p_status p = CampusAuditStatusPending" "\<not> p_is_deleted p"
      "p_category_code p = []"
    by (auto simp: card_facts audit_world_def CreatePost_row_def new_post_def sample_input_def audit_literals)
  then have g: "GetAnyPostByID 5 ?w1 = (Inr (Some (toBizPost p)), ?w1)"
    using card_facts(1) by (simp add: GetAnyPostByID_def fillPostCategoryName_def fillPostCategoryNames_def io_online toBizPost_def)
  have b: "bp_status (toBizPost p) = CampusAuditStatusPending" "bp_id (toBizPost p) = 5" using p by (simp_all add: toBizPost_def)
  obtain w2 where u: "UpdatePostStatus forum_env 5 CampusAuditStatusVisible [] ?w1 = (Inr (), w2)"
    and p2: "posts (db w2) = upd_where (\<lambda>r. p_id r = 5) (reviewed forum_env CampusAuditStatusVisible []) (posts (db ?w1))"
    by (rule UpdatePostStatus_online [of ?w1]) (simp_all add: card_facts(1))
  have "card_action forum_env card_sample ''post'' 5 ''pass'' ?reason ?w1 = (Inr (Inr (msg_approved, ?reason)), w2)"
    by (simp add: card_action_def io_bind_def or_fail_def g card_post_action_def b io_then_def u del: firstNonEmpty.simps)
  moreover have "token_action (token_used 100 card_token) card_input = ''pass''"
    by (simp add: token_action_def card_token_def card_literals)
  ultimately have "finish_card forum_env card_sample ''post'' 5 ''pass'' (Inr (msg_approved, ?reason)) w2 = (r, w')"
    using run card_token_redeemed card_facts
    by (simp add: HandleFeishuCardAction_def card_input_def card_literals io_bind_def or_fail_def card_token_def Let_def
        del: firstNonEmpty.simps)
  moreover have "keeps posts (finish_card forum_env card_sample ''post'' 5 ''pass'' (Inr (msg_approved, ?reason)))"
    by (rule finish_card_frames) (simp_all add: card_sample_def keeps_def)
  ultimately have "posts (db w') = posts (db w2)" by (metis keepsD)
  then have published: "map p_status (posts (db w')) = [CampusAuditStatusVisible]"
    using p p2 by (simp add: reviewed_def)
  have "keeps (\<lambda>t. t) (send_receipt card_sample ty i a m)" for ty i a m by (simp add: card_sample_def keeps_def)
  from card_actions_need_tokens [OF run this] published p(1,3) card_facts(2,3,5)
  have "token_used 100 card_token \<in> set (action_tokens (db w'))" by (auto simp: audit_status_defs)
  with run published show ?thesis by (intro exI conjI)
qed

text \<open>What goes wrong: a token is used up before its action, so an action that fails cannot be tried again.\<close>

lemma failed_card_action_burns_token:
  assumes "feishuCardCallbackEnabled E" and "trim_space (hi_token input) \<noteq> []"
    and "UseOpsActionToken (hashOpsActionToken X (trim_space (hi_token input))) (now E) w = (Inr (True, Some tk), w1)"
    and "card_action E X (trim_space (to_lower (tk_target_type tk))) (tk_target_id tk) (token_action tk input)
      (firstNonEmpty [hi_reason input, tk_reason tk, msg_by_feishu_agent]) w1 = (Inl e, w2)"
    and "keeps action_tokens (card_action E X (trim_space (to_lower (tk_target_type tk))) (tk_target_id tk) (token_action tk input)
      (firstNonEmpty [hi_reason input, tk_reason tk, msg_by_feishu_agent]))"
  shows "HandleFeishuCardAction E X input w = (Inl e, w2)"
    and "spent (hashOpsActionToken X (trim_space (hi_token input))) w2"
proof -
  show "HandleFeishuCardAction E X input w = (Inl e, w2)"
    using assms(1-4) by (simp add: HandleFeishuCardAction_def io_bind_def or_fail_def Let_def del: firstNonEmpty.simps)
  have "spent (hashOpsActionToken X (trim_space (hi_token input))) w1" by (rule redeem_spends(1) [OF assms(3)])
  then show "spent (hashOpsActionToken X (trim_space (hi_token input))) w2"
    using keepsD [OF assms(5,4)] by (simp add: spent_def token_row_def)
qed

text \<open>And a post that is withdrawn already is not found, so the branch for it is never reached and the
  reports about it stay open.\<close>

lemma taking_down_withdrawn_post:
  assumes "faults w = []" and "\<And>p. p \<in> set (posts (db w)) \<Longrightarrow> p_id p = i \<Longrightarrow> p_is_deleted p"
  shows "card_action E X ''post'' i action reason w = (Inl (NotFound msg_post_not_found), w)"
proof -
  have "find (\<lambda>r. p_id r = i \<and> \<not> p_is_deleted r) (posts (db w)) = None"
    using assms(2) by (auto simp: find_None_iff)
  with assms(1) show ?thesis by (simp add: card_action_def GetAnyPostByID_def or_fail_def io_online)
qed

subsection \<open>One report of a user about a target\<close>

definition report_key :: "campusForumReportModel \<Rightarrow> string \<times> int \<times> int" where
  "report_key r = (rp_target_type r, rp_target_id r, rp_reporter_id r)"

lemma same_report_key: "same_report ty i u r \<longleftrightarrow> report_key r = (ty, i, u)"
  by (auto simp: same_report_def report_key_def)

lemma same_report_fun: "same_report ty i u = (\<lambda>r. report_key r = (ty, i, u))"
  by (rule ext) (rule same_report_key)

lemma CreateReport_effect:
  assumes "CreateReport E b w = (Inr (), w')" and "unique_on report_key (tables.reports (db w))"
    and "rt_id b \<notin> rp_id ` set (tables.reports (db w))"
  defines "k \<equiv> (rt_target_type b, rt_target_id b, parseID (rt_reporter_id b))"
  shows "unique_on report_key (tables.reports (db w')) \<and>
    filter (\<lambda>r. report_key r \<noteq> k) (tables.reports (db w')) = filter (\<lambda>r. report_key r \<noteq> k) (tables.reports (db w)) \<and>
    (\<exists>r \<in> set (tables.reports (db w')). report_key r = k \<and> rp_status r = rt_status b \<and> rp_reason r = rt_reason b \<and>
      rp_detail r = rt_detail b)"
proof -
  let ?old = "tables.reports (db w)" and ?new = "tables.reports (db w')"
  let ?f = "\<lambda>r. r\<lparr>rp_reason := rt_reason b, rp_detail := rt_detail b, rp_status := rt_status b, rp_updated_at := now E\<rparr>"
  have key: "report_key (?f r) = report_key r" for r by (simp add: report_key_def)
  have no_id: "\<not> (\<exists>r \<in> set ?old. rp_id r = rt_id b)" using assms(3) by (metis image_eqI)
  show ?thesis
  proof (cases "\<exists>r \<in> set ?old. report_key r = k")
    case True
    then obtain r where r: "r \<in> set ?old" "report_key r = k" by blast
    have new: "?new = upd_where (\<lambda>r. report_key r = k) ?f ?old"
      using assms(1) True no_id unfolding k_def by (auto simp: CreateReport_def upsert_def same_report_fun elim!: sql_upsert_InrE)
    have "filter (\<lambda>r. report_key r \<noteq> k) (upd_where (\<lambda>r. report_key r = k) ?f xs) = filter (\<lambda>r. report_key r \<noteq> k) xs" for xs
      by (induction xs) (auto simp: key)
    moreover have "?f r \<in> set ?new" unfolding new using r by (intro upd_where_in [of r _ _ ?f])
    ultimately show ?thesis using assms(2) r unfolding new by (auto simp: key intro!: bexI [of _ "?f r"])
  next
    case False
    let ?row = "\<lparr>rp_id = rt_id b, rp_target_type = rt_target_type b, rp_target_id = rt_target_id b,
      rp_reporter_id = parseID (rt_reporter_id b), rp_reason = rt_reason b, rp_detail = rt_detail b,
      rp_status = rt_status b, rp_created_at = now E, rp_updated_at = now E\<rparr>"
    have "?new = ?old @ [?row]"
      using assms(1) False no_id unfolding k_def by (auto simp: CreateReport_def upsert_def same_report_fun elim!: sql_upsert_InrE)
    with assms(2) False show ?thesis by (auto simp: k_def report_key_def image_iff)
  qed
qed

lemma report_target_frames [frames]: "keeps g (report_target E ty i)"
  unfolding report_target_def by (intro frames)

lemma alert_report_frames [frames]:
  assumes "\<And>u. keeps g (load_author X u)" and "\<And>h t. g (ops_alerts_update h t) = g t"
    and "\<And>h t. g (action_tokens_update h t) = g t"
  shows "keeps g (alert_report E X input ty report)"
  unfolding alert_report_def Let_def by (intro frames assms)+

lemma ReportContent_E:
  assumes "ReportContent E X input w = (Inr (), w')"
  obtains ty post comment n w1 where "ty = normalizeCampusTargetType (ri_target_type input)" and "ty \<noteq> []"
    and "rune_count (firstNonEmpty [ri_reason input, msg_reason_other]) \<le> 60" and "rune_count (trim_space (ri_detail input)) \<le> 300"
    and "db w1 = db w"
    and "submit_report E X input ty (new_report input ty (firstNonEmpty [ri_reason input, msg_reason_other])
      (trim_space (ri_detail input)) post comment (idgen E n)) w1 = (Inr (), w')"
proof -
  let ?ty = "normalizeCampusTargetType (ri_target_type input)"
  from assms obtain post comment w1 where
    t: "report_target E ?ty (ri_target_id input) w = (Inr (post, comment), w1)"
    and rest: "?ty \<noteq> []"
      "\<not> 60 < rune_count (firstNonEmpty [ri_reason input, msg_reason_other])" "\<not> 300 < rune_count (trim_space (ri_detail input))"
      "submit_report E X input ?ty (new_report input ?ty (firstNonEmpty [ri_reason input, msg_reason_other])
        (trim_space (ri_detail input)) post comment (idgen E (next_seq w1))) (w1\<lparr>next_seq := Suc (next_seq w1)\<rparr>) = (Inr (), w')"
    unfolding ReportContent_def require_login_def
    by (auto simp: NextID_def Let_def simp del: firstNonEmpty.simps elim!: io_bind_InrE split: if_splits)
  have "db w1 = db w" by (rule keepsD [OF report_target_frames t])
  with rest show thesis
    by (intro that [where n = "next_seq w1" and post = post and comment = comment and ?w1.0 = "w1\<lparr>next_seq := Suc (next_seq w1)\<rparr>"])
      (simp_all del: firstNonEmpty.simps)
qed

text \<open>
  C32. Reports: an accepted report is one row for its reporter and its target, whatever was reported
  before: the row of an earlier report is taken again and is open again, no other report changes,
  and no post and no comment. Reason and detail are at most 60 and 300 characters, the target is a
  post or a comment. (New ids are not those of stored reports; the user service does not write the
  tables.)
\<close>

theorem reports_once_per_target:
  assumes "ReportContent E X input w = (Inr (), w')"
    and "unique_on report_key (tables.reports (db w))" and "\<And>n. idgen E n \<notin> rp_id ` set (tables.reports (db w))"
    and "\<And>u. keeps (\<lambda>t. t) (load_author X u)"
  shows "unique_on report_key (tables.reports (db w')) \<and> posts (db w') = posts (db w) \<and> comments (db w') = comments (db w) \<and>
    (\<exists>r \<in> set (tables.reports (db w')).
       report_key r = (normalizeCampusTargetType (ri_target_type input), ri_target_id input, parseID (ri_user_id input)) \<and>
       rp_target_type r \<in> {''post'', ''comment''} \<and> rp_status r = CampusAuditStatusPending \<and>
       rune_count (rp_reason r) \<le> 60 \<and> rune_count (rp_detail r) \<le> 300 \<and>
       filter (\<lambda>q. report_key q \<noteq> report_key r) (tables.reports (db w')) =
         filter (\<lambda>q. report_key q \<noteq> report_key r) (tables.reports (db w)))"
proof -
  obtain ty post comment n w1 where
    ty: "ty = normalizeCampusTargetType (ri_target_type input)" "ty \<noteq> []"
    and len: "rune_count (firstNonEmpty [ri_reason input, msg_reason_other]) \<le> 60" "rune_count (trim_space (ri_detail input)) \<le> 300"
    and d1: "db w1 = db w"
    and sub: "submit_report E X input ty (new_report input ty (firstNonEmpty [ri_reason input, msg_reason_other])
      (trim_space (ri_detail input)) post comment (idgen E n)) w1 = (Inr (), w')"
    by (rule ReportContent_E [OF assms(1)])
  let ?b = "new_report input ty (firstNonEmpty [ri_reason input, msg_reason_other]) (trim_space (ri_detail input)) post comment (idgen E n)"
  have author: "keeps g (load_author X u)" for g u using assms(4) [of u] by (simp add: keeps_def)
  from sub obtain w2 where c: "CreateReport E ?b w1 = (Inr (), w2)"
    and rest: "io_then (notifyReportReceived E ty (ri_target_id input) (ri_user_id input)) (alert_report E X input ty ?b) w2 = (Inr (), w')"
    unfolding submit_report_def by (elim io_then_InrE or_fail_InrE) (simp add: io_then_run)
  let ?rest = "io_then (notifyReportReceived E ty (ri_target_id input) (ri_user_id input)) (alert_report E X input ty ?b)"
  have keep: "keeps tables.reports ?rest" "keeps posts ?rest" "keeps comments ?rest"
    by (intro frames; simp add: author)+
  note same = keepsD [OF keep(1) rest] keepsD [OF keep(2) rest] keepsD [OF keep(3) rest]
  have p2: "posts (db w2) = posts (db w1)" "comments (db w2) = comments (db w1)"
    by (rule keepsD [OF report_write_frames(1) c]; simp)+
  have b: "rt_id ?b = idgen E n" "rt_target_type ?b = ty" "rt_target_id ?b = ri_target_id input"
    "rt_reporter_id ?b = ri_user_id input" "rt_status ?b = CampusAuditStatusPending"
    "rt_reason ?b = firstNonEmpty [ri_reason input, msg_reason_other]" "rt_detail ?b = trim_space (ri_detail input)"
    by (simp_all add: new_report_def del: firstNonEmpty.simps)
  have "ty \<in> {''post'', ''comment''}"
    using ty by (auto simp: normalizeCampusTargetType_def Let_def split: if_splits)
  moreover from CreateReport_effect [OF c] assms(2,3) d1
  have "unique_on report_key (tables.reports (db w2)) \<and>
    filter (\<lambda>r. report_key r \<noteq> (ty, ri_target_id input, parseID (ri_user_id input))) (tables.reports (db w2)) =
    filter (\<lambda>r. report_key r \<noteq> (ty, ri_target_id input, parseID (ri_user_id input))) (tables.reports (db w)) \<and>
    (\<exists>r \<in> set (tables.reports (db w2)). report_key r = (ty, ri_target_id input, parseID (ri_user_id input)) \<and>
      rp_status r = CampusAuditStatusPending \<and> rp_reason r = firstNonEmpty [ri_reason input, msg_reason_other] \<and>
      rp_detail r = trim_space (ri_detail input))"
    by (simp only: b simp_thms)
  ultimately show ?thesis
    using same p2 d1 len ty by (auto simp: report_key_def simp del: firstNonEmpty.simps)
qed

lemma alert_report_total [totals]: "no_fail (alert_report E X input ty report)"
  unfolding alert_report_def Let_def by (intro totals)

lemma no_fail_unit: "no_fail m \<Longrightarrow> fst (m w) = Inr ()"
  using no_fail_fst [of m w] by auto

text \<open>User 8 reports post 1 once more; the first report was dismissed.\<close>

definition report_world :: world where
  "report_world = sample_world\<lparr>rds_on := False, db := (db sample_world)\<lparr>reports :=
     [\<lparr>rp_id = 4, rp_target_type = ''post'', rp_target_id = 1, rp_reporter_id = 8, rp_reason = ''old'', rp_detail = [],
       rp_status = CampusAuditStatusRejected, rp_created_at = 0, rp_updated_at = 0\<rparr>]\<rparr>\<rparr>"

definition report_input :: ReportCampusContentInput where
  "report_input = \<lparr>ri_user_id = ''8'', ri_target_type = ''post'', ri_target_id = 1, ri_reason = ''spam'', ri_detail = []\<rparr>"

lemma report_literals:
  "trim_space ''spam'' = ''spam''" "rune_count ''spam'' = 4" "rune_count [] = 0" "normalizeCampusTargetType ''post'' = ''post''"
  "trim_space ''8'' = ''8''" "trim_space [] = []" "parseID ''8'' = 8"
  by (simp_all add: trim_space_graphic byte_def rune_count_def runes_graphic normalizeCampusTargetType_def lower_trim_def
      to_lower_graphic audit_literals forum_literals)

theorem reports_once_per_target_witness:
  "\<exists>w'. ReportContent forum_env card_sample report_input report_world = (Inr (), w') \<and>
     (\<exists>r \<in> set (tables.reports (db w')). report_key r = (''post'', 1, 8) \<and> rp_status r = CampusAuditStatusPending) \<and>
     unique_on report_key (tables.reports (db w'))"
proof -
  let ?run = "ReportContent forum_env card_sample report_input report_world"
  have g: "GetPostByID forum_env 1 report_world = (Inr (Some (toBizPost sample_post)), report_world)"
    by (simp add: GetPostByID_def getCacheJSON_def setCacheJSON_def cacheEnabled_def io_online report_world_def
        sample_defs toBizPost_def fillPostCategoryName_def fillPostCategoryNames_def audit_status_defs)
  have "faults report_world = []" by (simp add: report_world_def sample_defs)
  with g have "fst ?run = Inr ()"
    by (simp add: ReportContent_def report_input_def require_login_def report_literals report_target_def or_fail_def
        io_bind_def NextID_def Let_def submit_report_def io_then_run CreateReport_def online
        no_fail_case [OF alert_totals(11)] no_fail_unit [OF alert_report_total])
  then obtain w' where run: "?run = (Inr (), w')" by (metis prod.collapse)
  have "unique_on report_key (tables.reports (db report_world))"
    "idgen forum_env n \<notin> rp_id ` set (tables.reports (db report_world))"
    "keeps (\<lambda>t. t) (load_author card_sample u)" for n u
    by (simp_all add: report_world_def forum_env_def card_sample_def keeps_def unique_on_def)
  from reports_once_per_target [OF run this]
  have "unique_on report_key (tables.reports (db w')) \<and>
    (\<exists>r \<in> set (tables.reports (db w')). report_key r = (''post'', 1, 8) \<and> rp_status r = CampusAuditStatusPending)"
    by (auto simp: report_input_def report_literals)
  with run show ?thesis by (intro exI [of _ w'] conjI) auto
qed
end
