(* ===== verification/PostAdmin.thy ===== *)
theory PostAdmin
  imports Moderation
begin

text \<open>
  What the operators do with posts as a whole (\<open>biz/campus.go\<close>: \<open>AdminUpdatePost\<close>,
  \<open>AdminBatchPosts\<close>, \<open>AdminCreatePost\<close>) and the reconciliation of the counters on demand and on
  schedule.
\<close>

subsection \<open>Editing one post\<close>

text \<open>The images are absent (\<open>nil\<close>) or a list, and so is the extra map.\<close>

record UpdateCampusAdminPostInput =
  yi_user_id :: string
  yi_post_id :: int
  yi_category_code :: string
  yi_title :: string
  yi_content :: string
  yi_images :: "string list option"
  yi_media_type :: string
  yi_post_type :: string
  yi_extra :: "(string \<times> string) list option"
  yi_cover_url :: string
  yi_status :: int
  yi_audit_reason :: string
  yi_is_official :: bool
  yi_is_featured :: bool
  yi_is_pinned :: bool
  yi_sort_weight :: int

definition edited_status :: "int \<Rightarrow> CampusForumPost \<Rightarrow> int" where
  "edited_status status existing =
     (if status < CampusAuditStatusPending \<or> CampusAuditStatusDeleted < status then bp_status existing else status)"

definition edited_post ::
    "UpdateCampusAdminPostInput \<Rightarrow> CampusForumPost \<Rightarrow> campusForumCategoryModel \<Rightarrow> string \<Rightarrow> string \<Rightarrow> string list \<Rightarrow>
     string \<Rightarrow> string \<Rightarrow> CampusForumPost" where
  "edited_post input existing category title content images mediaType coverURL = \<lparr>
     bp_id = bp_id existing, bp_category_code = cat_code category, bp_category_name = cat_name category,
     bp_author_id = bp_author_id existing, bp_title = title, bp_content = content, bp_images = images,
     bp_media_type = mediaType,
     bp_post_type = normalizeCampusPostType (firstNonEmpty [yi_post_type input, bp_post_type existing]),
     bp_extra = mergeCampusPostExtra (bp_extra existing) (yi_extra input), bp_cover_url = coverURL,
     bp_is_official = yi_is_official input, bp_is_featured = yi_is_featured input, bp_is_pinned = yi_is_pinned input,
     bp_sort_weight = clampSortWeight (yi_sort_weight input),
     bp_status = edited_status (yi_status input) existing, bp_audit_reason = trim_space (yi_audit_reason input),
     bp_like_count = bp_like_count existing, bp_comment_count = bp_comment_count existing,
     bp_collected_count = bp_collected_count existing, bp_created_at = bp_created_at existing, bp_updated_at = 0\<rparr>"

definition AdminUpdatePost :: "env \<Rightarrow> UpdateCampusAdminPostInput \<Rightarrow> CampusForumPost io" where
  "AdminUpdatePost E input = require_operator E (yi_user_id input) msg_no_admin_right (
     io_bind (or_fail (internal msg_query_post_failed) (GetAnyPostByID (yi_post_id input))) (\<lambda>p. case p of
       None \<Rightarrow> fail (NotFound msg_post_not_found)
     | Some existing \<Rightarrow>
       let code = (if trim_space (yi_category_code input) = [] then bp_category_code existing
         else trim_space (yi_category_code input)) in
       io_bind (or_fail (internal msg_query_board_failed) (GetCategoryByCode code)) (\<lambda>cat. case cat of
         None \<Rightarrow> fail (InvalidArgument msg_board_not_found)
       | Some category \<Rightarrow>
         let title = firstNonEmpty [yi_title input, bp_title existing];
           content = firstNonEmpty [yi_content input, bp_content existing] in
         if rune_count title < 2 \<or> 60 < rune_count title then fail (InvalidArgument msg_title_length)
         else if rune_count content < 2 \<or> 2000 < rune_count content then fail (InvalidArgument msg_body_length)
         else let images0 = sanitizeImages (case yi_images input of None \<Rightarrow> bp_images existing | Some is \<Rightarrow> is) 9 in
         (case normalizeCampusPostMedia (firstNonEmpty [yi_media_type input, bp_media_type existing]) images0
             (firstNonEmpty [yi_cover_url input, bp_cover_url existing]) of
           Inl e \<Rightarrow> fail e
         | Inr (mediaType, coverURL) \<Rightarrow>
           let post = edited_post input existing category title content (post_images mediaType images0) mediaType coverURL in
           io_then (or_fail (internal msg_update_post_failed) (UpdatePostByAdmin E post))
           (io_then (if bp_status existing = bp_status post then ret ()
              else if bp_status post = CampusAuditStatusRejected then notifyPostAuditResult E post False msg_content_not_synced
              else if bp_status post = CampusAuditStatusDeleted then notifyPostAuditResult E post False msg_content_taken_down
              else ret ())
           (ret post))))))"

definition AdminCreatePost :: "env \<Rightarrow> 'x ops_ext_scheme \<Rightarrow> CreateCampusPostInput \<Rightarrow> CampusForumPost io" where
  "AdminCreatePost E X input = require_operator E (pi_user_id input) msg_no_official_right (CreatePost_uc E X input)"

subsection \<open>Editing many posts\<close>

record BatchCampusAdminPostsInput =
  bi_user_id :: string
  bi_post_ids :: "int list"
  bi_action :: string
  bi_sort_weight :: int

text \<open>The first hundred different ids that are positive.\<close>

fun batch_ids :: "int list \<Rightarrow> int list \<Rightarrow> int list" where
  "batch_ids [] out = out"
| "batch_ids (i # is) out =
     (if i \<le> 0 \<or> i \<in> set out then batch_ids is out
      else if 100 \<le> length (out @ [i]) then out @ [i] else batch_ids is (out @ [i]))"

definition batch_edit :: "string \<Rightarrow> int \<Rightarrow> CampusForumPost \<Rightarrow> CampusForumPost option" where
  "batch_edit action weight p =
     (if action = ''pin'' then Some (p\<lparr>bp_is_pinned := True\<rparr>)
      else if action = ''unpin'' then Some (p\<lparr>bp_is_pinned := False\<rparr>)
      else if action = ''feature'' then Some (p\<lparr>bp_is_featured := True\<rparr>)
      else if action = ''unfeature'' then Some (p\<lparr>bp_is_featured := False\<rparr>)
      else if action = ''official'' then Some (p\<lparr>bp_is_official := True\<rparr>)
      else if action = ''unofficial'' then Some (p\<lparr>bp_is_official := False\<rparr>)
      else if action = ''visible'' then Some (p\<lparr>bp_status := CampusAuditStatusVisible, bp_audit_reason := []\<rparr>)
      else if action = ''delete'' then Some (p\<lparr>bp_status := CampusAuditStatusDeleted, bp_audit_reason := msg_batch_taken_down\<rparr>)
      else if action = ''set_weight'' then Some (p\<lparr>bp_sort_weight := clampSortWeight weight\<rparr>)
      else None)"

fun batch_posts :: "env \<Rightarrow> string \<Rightarrow> int \<Rightarrow> int \<Rightarrow> int list \<Rightarrow> int io" where
  "batch_posts E action weight updated [] = ret updated"
| "batch_posts E action weight updated (i # is) =
     io_bind (or_fail (internal msg_query_post_failed) (GetAnyPostByID i)) (\<lambda>p. case p of
       None \<Rightarrow> batch_posts E action weight updated is
     | Some existing \<Rightarrow> (case batch_edit action weight existing of
         None \<Rightarrow> fail (InvalidArgument msg_batch_action_invalid)
       | Some post \<Rightarrow>
         io_then (or_fail (internal msg_batch_failed) (UpdatePostByAdmin E post))
         (io_then (if action = ''delete'' \<and> bp_status existing \<noteq> CampusAuditStatusDeleted
             then notifyPostAuditResult E post False msg_content_taken_down else ret ())
         (batch_posts E action weight (updated + 1) is))))"

definition AdminBatchPosts :: "env \<Rightarrow> BatchCampusAdminPostsInput \<Rightarrow> int io" where
  "AdminBatchPosts E input = require_operator E (bi_user_id input) msg_no_admin_right (
     let action = trim_space (to_lower (bi_action input)) in
     if action = [] then fail (InvalidArgument msg_batch_choose_action)
     else let is = batch_ids (bi_post_ids input) [] in
     if is = [] then fail (InvalidArgument msg_batch_choose_items)
     else batch_posts E action (bi_sort_weight input) 0 is)"

subsection \<open>Counters\<close>

definition AdminReconcileCampusStats :: "env \<Rightarrow> string \<Rightarrow> (int \<times> int) io" where
  "AdminReconcileCampusStats E userID = require_operator E userID msg_no_admin_right (
     io_bind (or_fail (internal msg_reconcile_failed) (ReconcileCampusStats E)) (\<lambda>(updatedPosts, updatedComments).
     io_then (ignore (CreateAuditLog E ''campus_stats'' 0 userID ''manual'' ''reconcile''
       (''updated_posts='' @ fmt_d updatedPosts @ '' updated_comments='' @ fmt_d updatedComments)))
     (ret (updatedPosts, updatedComments))))"

definition RunCampusStatsReconcile :: "env \<Rightarrow> (int \<times> int) io" where
  "RunCampusStatsReconcile E = or_fail (internal msg_reconcile_failed) (ReconcileCampusStats E)"

end
