(* ===== verification/Accounts.thy ===== *)
theory Accounts
  imports Moderation "HOL-Library.Multiset"
begin

text \<open>
  Campus identities (\<open>biz/campus.go\<close>: \<open>WechatLogin\<close>, the profile, the avatar, the timetable, the
  upload of pictures and documents; \<open>data/campus.go\<close>: the tables of identities, profiles and
  courses). The account service, the user service, the file service, WeChat's session endpoint, the
  timetable of the school, SHA-256 and the signature of a token are parameters.
\<close>

subsection \<open>Parameters\<close>

record UserBaseInfo =
  ui_id :: string
  ui_name :: string
  ui_nickname :: string
  ui_avatar :: string
  ui_mobile :: string
  ui_email :: string

text \<open>The answer of WeChat to a login code: no request, no answer, no JSON, or the decoded fields
  \<open>openid\<close>, \<open>unionid\<close>, \<open>errcode\<close>, \<open>errmsg\<close>.\<close>

datatype wechat_answer =
    RequestFailed go_error
  | NoAnswer go_error
  | BadAnswer go_error
  | Session string string int string

record CampusTimetableCourse =
  co_id :: int
  co_user_id :: string
  co_term :: string
  co_course_name :: string
  co_teacher :: string
  co_classroom :: string
  co_weekday :: int
  co_start_section :: int
  co_end_section :: int
  co_start_week :: int
  co_end_week :: int
  co_week_parity :: int
  co_source :: string
  co_source_course_id :: string
  co_created_at :: time
  co_updated_at :: time

text \<open>The claims of a login token (\<open>pkg/auth/jwt.go\<close>).\<close>

record Claims =
  cl_issued_at :: time
  cl_expires_at :: time
  cl_user_id :: string

record account_ext =
  wechat_session :: "string \<Rightarrow> string \<Rightarrow> string \<Rightarrow> wechat_answer"
  base_register :: "string \<Rightarrow> string \<Rightarrow> string \<Rightarrow> string io"
  base_check_account :: "string \<Rightarrow> string \<Rightarrow> string \<Rightarrow> string io"
  account_by_email :: "string \<Rightarrow> string option io"
  core_get_user :: "string \<Rightarrow> string \<Rightarrow> UserBaseInfo option io"
  core_get_users :: "string list \<Rightarrow> UserBaseInfo list io"
  core_create_user :: "string \<Rightarrow> string \<Rightarrow> string \<Rightarrow> string io"
  core_update_user :: "string \<Rightarrow> string \<Rightarrow> string \<Rightarrow> string \<Rightarrow> unit io"
  timetable_fetch :: "string \<Rightarrow> string \<Rightarrow> string \<Rightarrow> CampusTimetableCourse list io"
  sha256_hex :: "string \<Rightarrow> string"
  auth_secret :: string
  sign_token :: "string \<Rightarrow> Claims \<Rightarrow> go_error + string"
  base_presign :: "string \<Rightarrow> string \<Rightarrow> string \<Rightarrow> int \<Rightarrow> int \<Rightarrow> (string \<times> string) io"
  base_uploaded :: "string \<Rightarrow> string io"
  base_file_object :: "string \<Rightarrow> string option io"

definition lift_error :: "(go_error + 'a) \<Rightarrow> 'a io" where
  "lift_error r = (case r of Inl e \<Rightarrow> fail e | Inr x \<Rightarrow> ret x)"

definition unavailable :: "string \<Rightarrow> go_error \<Rightarrow> go_error" where
  "unavailable m e = the (DependencyUnavailable (Some e) m)"

definition nil_dereference :: go_error where
  "nil_dereference = PlainError ''runtime error: invalid memory address or nil pointer dereference'' None"

definition shortHash :: "'x account_ext_scheme \<Rightarrow> string \<Rightarrow> nat \<Rightarrow> string" where
  "shortHash X input n = take n (sha256_hex X input)"

subsection \<open>Identities and profiles in the tables\<close>

record CampusWechatIdentity =
  wi_id :: int
  wi_provider :: string
  wi_open_id :: string
  wi_union_id :: string
  wi_user_id :: string
  wi_account_id :: string

record CampusProfile =
  pr_id :: int
  pr_user_id :: string
  pr_account_id :: string
  pr_open_id :: string
  pr_union_id :: string
  pr_school_name :: string
  pr_student_no :: string
  pr_real_name :: string
  pr_class_name :: string
  pr_dorm_building :: string
  pr_room_no :: string
  pr_mobile :: string
  pr_auth_status :: int
  pr_created_at :: time
  pr_updated_at :: time

definition CampusAuthStatusUnverified :: int where "CampusAuthStatusUnverified = 0"
definition CampusAuthStatusVerified :: int where "CampusAuthStatusVerified = 1"

definition toBizWechatIdentity :: "campusWechatIdentityModel \<Rightarrow> CampusWechatIdentity" where
  "toBizWechatIdentity r = \<lparr>wi_id = wx_id r, wi_provider = wx_provider r, wi_open_id = wx_open_id r,
     wi_union_id = wx_union_id r, wi_user_id = fmt_d (wx_user_id r), wi_account_id = fmt_d (wx_account_id r)\<rparr>"

definition toBizProfile :: "campusProfileModel \<Rightarrow> CampusProfile" where
  "toBizProfile r = \<lparr>pr_id = pf_id r, pr_user_id = fmt_d (pf_user_id r), pr_account_id = fmt_d (pf_account_id r),
     pr_open_id = pf_open_id r, pr_union_id = pf_union_id r, pr_school_name = pf_school_name r,
     pr_student_no = pf_student_no r, pr_real_name = pf_real_name r, pr_class_name = pf_class_name r,
     pr_dorm_building = pf_dorm_building r, pr_room_no = pf_room_no r, pr_mobile = pf_mobile r,
     pr_auth_status = pf_auth_status r, pr_created_at = pf_created_at r, pr_updated_at = pf_updated_at r\<rparr>"

definition identity_of :: "string \<Rightarrow> string \<Rightarrow> campusWechatIdentityModel \<Rightarrow> bool" where
  "identity_of provider openID r \<longleftrightarrow> wx_provider r = provider \<and> wx_open_id r = openID"

definition GetWechatIdentity :: "string \<Rightarrow> string \<Rightarrow> CampusWechatIdentity option io" where
  "GetWechatIdentity provider openID = io_bind (sql_first wechat_identities (identity_of provider openID)) (\<lambda>row.
     ret (map_option toBizWechatIdentity row))"

text \<open>An identity that is bound already is bound anew.\<close>

definition SaveWechatIdentity :: "env \<Rightarrow> CampusWechatIdentity \<Rightarrow> unit io" where
  "SaveWechatIdentity E b = sql_upsert wechat_identities_update (\<lambda>r. wx_id r = wi_id b)
     (identity_of (wi_provider b) (wi_open_id b))
     (\<lambda>r. r\<lparr>wx_union_id := wi_union_id b, wx_user_id := parseID (wi_user_id b),
        wx_account_id := parseID (wi_account_id b), wx_updated_at := now E\<rparr>)
     \<lparr>wx_id = wi_id b, wx_provider = wi_provider b, wx_open_id = wi_open_id b, wx_union_id = wi_union_id b,
      wx_user_id = parseID (wi_user_id b), wx_account_id = parseID (wi_account_id b),
      wx_created_at = now E, wx_updated_at = now E\<rparr>"

definition GetProfileByUserID :: "string \<Rightarrow> CampusProfile option io" where
  "GetProfileByUserID userID = io_bind (sql_first profiles (\<lambda>r. pf_user_id r = parseID userID)) (\<lambda>row.
     ret (map_option toBizProfile row))"

text \<open>A profile is unique by its user and by its open id. An insert that meets a row with the same
  id, the same user or the same open id changes that row, in this order, unless the change meets
  another row.\<close>

fun upsert_by :: "('r \<Rightarrow> bool) list \<Rightarrow> ('r \<Rightarrow> 'r) \<Rightarrow> 'r \<Rightarrow> 'r list \<Rightarrow> 'r list" where
  "upsert_by [] chg row xs = xs @ [row]"
| "upsert_by (P # Ps) chg row xs = (if \<exists>r \<in> set xs. P r then upd_where P chg xs else upsert_by Ps chg row xs)"

definition profile_row :: "env \<Rightarrow> CampusProfile \<Rightarrow> campusProfileModel" where
  "profile_row E b = \<lparr>pf_id = pr_id b, pf_user_id = parseID (pr_user_id b), pf_account_id = parseID (pr_account_id b),
     pf_open_id = pr_open_id b, pf_union_id = pr_union_id b, pf_school_name = pr_school_name b,
     pf_student_no = pr_student_no b, pf_real_name = pr_real_name b, pf_class_name = pr_class_name b,
     pf_dorm_building = pr_dorm_building b, pf_room_no = pr_room_no b, pf_mobile = pr_mobile b,
     pf_auth_status = pr_auth_status b, pf_created_at = now E, pf_updated_at = now E\<rparr>"

definition SaveProfile_rows :: "env \<Rightarrow> CampusProfile \<Rightarrow> campusProfileModel list \<Rightarrow> campusProfileModel list" where
  "SaveProfile_rows E b = (let row = profile_row E b in
     upsert_by [\<lambda>r. pf_id r = pf_id row, \<lambda>r. pf_user_id r = pf_user_id row, \<lambda>r. pf_open_id r = pf_open_id row]
       (\<lambda>r. r\<lparr>pf_account_id := pf_account_id row, pf_open_id := pf_open_id row, pf_union_id := pf_union_id row,
          pf_school_name := pf_school_name row, pf_mobile := pf_mobile row, pf_updated_at := now E\<rparr>) row)"

definition SaveProfile :: "env \<Rightarrow> CampusProfile \<Rightarrow> unit io" where
  "SaveProfile E b = command (\<lambda>w. let rows = SaveProfile_rows E b (profiles (db w)) in
     if distinct (map pf_user_id rows) \<and> distinct (map pf_open_id rows)
     then (Inr (), w\<lparr>db := profiles_update (\<lambda>_. rows) (db w)\<rparr>) else (Inl DuplicateKey, w))"

text \<open>An empty string is stored as \<open>NULL\<close>, which is read as an empty string.\<close>

definition UpdateProfile_repo :: "env \<Rightarrow> CampusProfile \<Rightarrow> unit io" where
  "UpdateProfile_repo E b = sql_update profiles_update (\<lambda>r. pf_user_id r = parseID (pr_user_id b))
     (\<lambda>r. r\<lparr>pf_school_name := pr_school_name b, pf_student_no := pr_student_no b, pf_real_name := pr_real_name b,
        pf_class_name := pr_class_name b, pf_dorm_building := pr_dorm_building b, pf_room_no := pr_room_no b,
        pf_mobile := pr_mobile b, pf_auth_status := pr_auth_status b, pf_updated_at := now E\<rparr>)"

subsection \<open>Logging in\<close>

text \<open>\<open>strings.EqualFold\<close> on \<open>true\<close>.\<close>

definition equal_fold :: "string \<Rightarrow> string \<Rightarrow> bool" where
  "equal_fold a b \<longleftrightarrow> to_lower a = to_lower b"

definition resolveWechatSession :: "env \<Rightarrow> 'x account_ext_scheme \<Rightarrow> string \<Rightarrow> (string \<times> string) io" where
  "resolveWechatSession E X code =
     (if equal_fold (trim_space (getenv E ''LEHU_WECHAT_MOCK_LOGIN'')) ''true'' \<and> has_prefix code ''mock-''
      then ret (''mock_'' @ drop 5 code, [])
      else if trim_space (getenv E ''LEHU_WECHAT_DEV_OPENID'') \<noteq> []
      then ret (trim_space (getenv E ''LEHU_WECHAT_DEV_OPENID''), [])
      else let appID = trim_space (getenv E ''WECHAT_APP_ID''); secret = trim_space (getenv E ''WECHAT_APP_SECRET'') in
      if appID = [] \<or> secret = []
      then fail (internal msg_wechat_not_configured (PlainError ''wechat app credentials missing'' None))
      else (case wechat_session X appID secret code of
        RequestFailed e \<Rightarrow> fail (internal msg_wechat_request_failed e)
      | NoAnswer e \<Rightarrow> fail (unavailable msg_wechat_down e)
      | BadAnswer e \<Rightarrow> fail (internal msg_wechat_decode_failed e)
      | Session openID unionID errCode errMsg \<Rightarrow>
          if errCode \<noteq> 0 \<or> openID = [] then fail (Unauthorized (firstNonEmpty [errMsg, msg_wechat_login_failed]))
          else ret (openID, unionID)))"

text \<open>The account: registered now, or registered before with the same password, or found by its mail.\<close>

definition wechat_account :: "'x account_ext_scheme \<Rightarrow> string \<Rightarrow> string \<Rightarrow> string io" where
  "wechat_account X email password =
     io_bind (attempt (base_register X [] email password)) (\<lambda>reg. case reg of
       Inr accountID \<Rightarrow> ret accountID
     | Inl _ \<Rightarrow> io_bind (attempt (base_check_account X [] email password)) (\<lambda>chk. case chk of
         Inr accountID \<Rightarrow> ret accountID
       | Inl err \<Rightarrow> io_bind (or_fail (internal msg_query_account_failed) (account_by_email X email)) (\<lambda>found. case found of
           None \<Rightarrow> fail (internal msg_create_account_failed err)
         | Some accountID \<Rightarrow> ret accountID)))"

definition new_wechat_user ::
    "'x account_ext_scheme \<Rightarrow> string \<Rightarrow> string \<Rightarrow> string \<Rightarrow> string \<Rightarrow> (string \<times> string) io" where
  "new_wechat_user X email accountID nickname avatar = (
     let displayName = (if trim_space nickname = [] then msg_wechat_user else trim_space nickname) in
     io_bind (or_fail (internal msg_create_user_failed) (core_create_user X [] email accountID)) (\<lambda>userID.
     io_then (if displayName \<noteq> msg_wechat_user \<or> avatar \<noteq> []
       then ignore (core_update_user X userID displayName displayName avatar) else ret ())
     (ret (accountID, userID))))"

definition createWechatAccountAndUser ::
    "'x account_ext_scheme \<Rightarrow> string \<Rightarrow> string \<Rightarrow> string \<Rightarrow> (string \<times> string) io" where
  "createWechatAccountAndUser X openID nickname avatar = (
     let email = ''wx_'' @ shortHash X openID 24 @ ''@wechat.local'';
       password = ''Wx#'' @ shortHash X (openID @ auth_secret X) 40 in
     io_bind (wechat_account X email password) (\<lambda>accountID.
     io_bind (attempt (core_get_user X ''0'' accountID)) (\<lambda>base.
     case base of Inr (Some u) \<Rightarrow> if ui_id u \<noteq> [] then ret (accountID, ui_id u)
         else new_wechat_user X email accountID nickname avatar
     | _ \<Rightarrow> new_wechat_user X email accountID nickname avatar)))"

definition ensureProfile :: "env \<Rightarrow> CampusWechatIdentity \<Rightarrow> UserBaseInfo option \<Rightarrow> CampusProfile io" where
  "ensureProfile E identity user =
     io_bind (or_fail (internal msg_query_profile_failed) (GetProfileByUserID (wi_user_id identity))) (\<lambda>found. case found of
       Some profile \<Rightarrow> ret profile
     | None \<Rightarrow> io_bind (NextID E) (\<lambda>i. case user of None \<Rightarrow> fail nil_dereference
       | Some u \<Rightarrow>
         let profile = \<lparr>pr_id = i, pr_user_id = wi_user_id identity, pr_account_id = wi_account_id identity,
           pr_open_id = wi_open_id identity, pr_union_id = wi_union_id identity, pr_school_name = msg_school_name,
           pr_student_no = [], pr_real_name = [], pr_class_name = [], pr_dorm_building = [], pr_room_no = [],
           pr_mobile = ui_mobile u, pr_auth_status = CampusAuthStatusUnverified, pr_created_at = 0, pr_updated_at = 0\<rparr> in
         io_then (or_fail (internal msg_create_profile_failed) (SaveProfile E profile)) (ret profile)))"

definition DefaultTokenTTL :: time where "DefaultTokenTTL = 7 * nanos_per_day"

definition NewClaims :: "env \<Rightarrow> string \<Rightarrow> time \<Rightarrow> Claims" where
  "NewClaims E userID ttl = \<lparr>cl_issued_at = now E,
     cl_expires_at = now E + (if ttl \<le> 0 then DefaultTokenTTL else ttl), cl_user_id = userID\<rparr>"

definition GenerateToken :: "'x account_ext_scheme \<Rightarrow> string \<Rightarrow> Claims \<Rightarrow> go_error + string" where
  "GenerateToken X secret claims =
     (if secret = [] then Inl (PlainError ''jwt secret is required'' None) else sign_token X secret claims)"

record WechatLoginInput =
  li_code :: string
  li_nickname :: string
  li_avatar :: string

record WechatLoginOutput =
  lo_token :: string
  lo_profile :: CampusProfile
  lo_user :: UserBaseInfo

definition wechat_identity ::
    "env \<Rightarrow> 'x account_ext_scheme \<Rightarrow> WechatLoginInput \<Rightarrow> string \<Rightarrow> string \<Rightarrow> (CampusWechatIdentity \<times> UserBaseInfo option) io" where
  "wechat_identity E X input openID unionID =
     io_bind (or_fail (internal msg_query_identity_failed) (GetWechatIdentity ''wechat'' openID)) (\<lambda>found. case found of
       Some identity \<Rightarrow>
         io_bind (or_fail (internal msg_user_info_failed) (core_get_user X (wi_user_id identity) [])) (\<lambda>user.
         ret (identity, user))
     | None \<Rightarrow>
         io_bind (createWechatAccountAndUser X openID (li_nickname input) (li_avatar input)) (\<lambda>(accountID, userID).
         io_bind (NextID E) (\<lambda>i.
         let identity = \<lparr>wi_id = i, wi_provider = ''wechat'', wi_open_id = openID, wi_union_id = unionID,
           wi_user_id = userID, wi_account_id = accountID\<rparr> in
         io_then (or_fail (internal msg_save_identity_failed) (SaveWechatIdentity E identity))
         (io_bind (or_fail (internal msg_user_info_failed) (core_get_user X userID [])) (\<lambda>user.
         ret (identity, user))))))"

definition WechatLogin :: "env \<Rightarrow> 'x account_ext_scheme \<Rightarrow> WechatLoginInput \<Rightarrow> WechatLoginOutput io" where
  "WechatLogin E X input = (let code = trim_space (li_code input) in
     if code = [] then fail (InvalidArgument msg_wechat_code_empty)
     else io_bind (resolveWechatSession E X code) (\<lambda>(openID, unionID).
     io_bind (wechat_identity E X input openID unionID) (\<lambda>(identity, user).
     io_bind (ensureProfile E identity user) (\<lambda>profile.
     case user of None \<Rightarrow> fail nil_dereference
     | Some u \<Rightarrow>
       io_bind (or_fail (internal msg_make_session_failed)
         (lift_error (GenerateToken X (auth_secret X) (NewClaims E (ui_id u) DefaultTokenTTL)))) (\<lambda>token.
       io_then (trackEvent E (Some \<lparr>te_user_id = ui_id u, te_event_type = ''login'', te_page = ''mine'',
         te_target_type = [], te_target_id = 0, te_channel = ''wechat'', te_extra = [], te_user_agent = [], te_ip = []\<rparr>))
       (ret \<lparr>lo_token = token, lo_profile = profile, lo_user = u\<rparr>))))))"

subsection \<open>The profile\<close>

record UpdateCampusProfileInput =
  up_user_id :: string
  up_school_name :: string
  up_student_no :: string
  up_real_name :: string
  up_class_name :: string
  up_dorm_building :: string
  up_room_no :: string
  up_mobile :: string

definition GetProfile :: "string \<Rightarrow> CampusProfile io" where
  "GetProfile userID = require_login userID (
     io_bind (or_fail (internal msg_query_profile_failed) (GetProfileByUserID userID)) (\<lambda>p. case p of
       None \<Rightarrow> fail (NotFound msg_profile_not_found) | Some profile \<Rightarrow> ret profile))"

definition UpdateProfile :: "env \<Rightarrow> UpdateCampusProfileInput \<Rightarrow> CampusProfile io" where
  "UpdateProfile E input = require_login (up_user_id input) (
     io_bind (or_fail (internal msg_query_profile_failed) (GetProfileByUserID (up_user_id input))) (\<lambda>p. case p of
       None \<Rightarrow> fail (NotFound msg_profile_not_found)
     | Some old \<Rightarrow>
       let profile = old\<lparr>pr_school_name := firstNonEmpty [up_school_name input, pr_school_name old],
         pr_student_no := trim_space (up_student_no input), pr_real_name := trim_space (up_real_name input),
         pr_class_name := trim_space (up_class_name input), pr_dorm_building := trim_space (up_dorm_building input),
         pr_room_no := trim_space (up_room_no input), pr_mobile := trim_space (up_mobile input)\<rparr> in
       io_then (or_fail (internal msg_update_profile_failed) (UpdateProfile_repo E profile)) (ret profile)))"

definition UpdateAvatar :: "'x account_ext_scheme \<Rightarrow> string \<Rightarrow> string \<Rightarrow> UserBaseInfo option io" where
  "UpdateAvatar X user0 avatar0 = (let userID = trim_space user0; avatar = trim_space avatar0 in
     if userID = [] then fail (Unauthorized msg_login_required)
     else if avatar = [] then fail (InvalidArgument msg_avatar_empty)
     else if 2048 < length avatar then fail (InvalidArgument msg_avatar_long)
     else io_then (or_fail (internal msg_update_avatar_failed) (core_update_user X userID [] [] avatar))
       (or_fail (internal msg_user_info_failed) (core_get_user X userID [])))"

subsection \<open>The timetable\<close>

definition toBizTimetableCourse :: "campusTimetableCourseModel \<Rightarrow> CampusTimetableCourse" where
  "toBizTimetableCourse r = \<lparr>co_id = tc_id r, co_user_id = fmt_d (tc_user_id r), co_term = tc_term r,
     co_course_name = tc_course_name r, co_teacher = tc_teacher r, co_classroom = tc_classroom r,
     co_weekday = tc_weekday r, co_start_section = tc_start_section r, co_end_section = tc_end_section r,
     co_start_week = tc_start_week r, co_end_week = tc_end_week r, co_week_parity = tc_week_parity r,
     co_source = tc_source r, co_source_course_id = tc_source_course_id r, co_created_at = tc_created_at r,
     co_updated_at = tc_updated_at r\<rparr>"

definition course_row :: "env \<Rightarrow> int \<Rightarrow> string \<Rightarrow> string \<Rightarrow> CampusTimetableCourse \<Rightarrow> campusTimetableCourseModel" where
  "course_row E user term source c = \<lparr>tc_id = co_id c, tc_user_id = user, tc_term = term,
     tc_course_name = co_course_name c, tc_teacher = co_teacher c, tc_classroom = co_classroom c,
     tc_weekday = co_weekday c, tc_start_section = co_start_section c, tc_end_section = co_end_section c,
     tc_start_week = co_start_week c, tc_end_week = co_end_week c, tc_week_parity = co_week_parity c,
     tc_source = source, tc_source_course_id = co_source_course_id c, tc_created_at = now E, tc_updated_at = now E\<rparr>"

definition of_term :: "int \<Rightarrow> string \<Rightarrow> campusTimetableCourseModel \<Rightarrow> bool" where
  "of_term user term r \<longleftrightarrow> tc_user_id r = user \<and> tc_term r = term"

definition ReplaceTimetableCourses :: "env \<Rightarrow> string \<Rightarrow> string \<Rightarrow> string \<Rightarrow> CampusTimetableCourse list \<Rightarrow> unit io" where
  "ReplaceTimetableCourses E userID term source courses = transaction (
     io_then (sql_exec (timetable_courses_update (filter (\<lambda>r. \<not> of_term (parseID userID) term r))))
     (if courses = [] then ret ()
      else sql_create_all timetable_courses timetable_courses_update tc_id
        (map (course_row E (parseID userID) term source) courses)))"

definition ListTimetableCourses :: "string \<Rightarrow> string \<Rightarrow> CampusTimetableCourse list io" where
  "ListTimetableCourses userID term =
     io_bind (sql_find timetable_courses (of_term (parseID userID) term)) (\<lambda>rows.
     ret (map toBizTimetableCourse (sort_key (\<lambda>r. (tc_weekday r, tc_start_section r, tc_id r)) rows)))"

text \<open>The term of today: the second term of the year before until July, then the first. The clock of
  the servers is Shanghai's.\<close>

definition normalizeCampusTerm :: "env \<Rightarrow> string \<Rightarrow> string" where
  "normalizeCampusTerm E term0 = (let term = trim_space term0 in
     if term \<noteq> [] then term
     else case civil_of_day (local_day (now E)) of (year, month, d) \<Rightarrow>
       if month < 8 then fmt_d (year - 1) @ ''-'' @ fmt_d year @ ''-2''
       else fmt_d year @ ''-'' @ fmt_d (year + 1) @ ''-1'')"

definition mock_course :: "string \<Rightarrow> string \<Rightarrow> string \<Rightarrow> int \<Rightarrow> int \<Rightarrow> int \<Rightarrow> int \<Rightarrow> int \<Rightarrow> string \<Rightarrow> CampusTimetableCourse" where
  "mock_course name teacher room weekday s e w1 w2 src = \<lparr>co_id = 0, co_user_id = [], co_term = [],
     co_course_name = name, co_teacher = teacher, co_classroom = room, co_weekday = weekday,
     co_start_section = s, co_end_section = e, co_start_week = w1, co_end_week = w2, co_week_parity = 0,
     co_source = [], co_source_course_id = src, co_created_at = 0, co_updated_at = 0\<rparr>"

text \<open>The timetable the development build offers.\<close>

definition Fetch :: "'x account_ext_scheme \<Rightarrow> string \<Rightarrow> string \<Rightarrow> string \<Rightarrow> CampusTimetableCourse list io" where
  "Fetch X studentNo password term =
     (if trim_space password = [] then fail (InvalidArgument msg_edu_password_empty)
      else let seed = shortHash X (studentNo @ term) 8 in
       ret [mock_course msg_course_math msg_teacher_li msg_room_a203 1 1 2 1 16 (''mock-math-'' @ seed),
         mock_course msg_course_english msg_teacher_chen msg_room_b105 2 3 4 1 16 (''mock-english-'' @ seed),
         mock_course msg_course_code msg_teacher_wang msg_room_c301 3 5 6 2 15 (''mock-code-'' @ seed),
         mock_course msg_course_pe msg_teacher_zhou msg_sports_ground 5 7 8 1 12 (''mock-pe-'' @ seed)])"

record ImportCampusTimetableInput =
  ti_user_id :: string
  ti_student_no :: string
  ti_password :: string
  ti_term :: string

fun own_courses :: "env \<Rightarrow> string \<Rightarrow> string \<Rightarrow> CampusTimetableCourse list \<Rightarrow> CampusTimetableCourse list io" where
  "own_courses E userID term [] = ret []"
| "own_courses E userID term (c # cs) = io_bind (NextID E) (\<lambda>i.
     io_bind (own_courses E userID term cs) (\<lambda>rest.
     ret (c\<lparr>co_id := i, co_user_id := userID, co_term := term, co_source := ''demo''\<rparr> # rest)))"

definition ImportTimetable ::
    "env \<Rightarrow> 'x account_ext_scheme \<Rightarrow> ImportCampusTimetableInput \<Rightarrow> (string \<times> CampusTimetableCourse list) io" where
  "ImportTimetable E X input = require_login (ti_user_id input) (
     let studentNo = trim_space (ti_student_no input); password = trim_space (ti_password input) in
     if rune_count studentNo < 4 \<or> 32 < rune_count studentNo then fail (InvalidArgument msg_student_id_wrong)
     else if rune_count password < 4 \<or> 128 < rune_count password then fail (InvalidArgument msg_edu_password_missing)
     else let term = normalizeCampusTerm E (ti_term input) in
       io_bind (timetable_fetch X studentNo password term) (\<lambda>fetched.
       io_bind (own_courses E (ti_user_id input) term fetched) (\<lambda>courses.
       io_then (or_fail (internal msg_save_timetable_failed)
         (ReplaceTimetableCourses E (ti_user_id input) term ''demo'' courses))
       (ret (term, courses)))))"

definition ListTimetable :: "env \<Rightarrow> string \<Rightarrow> string \<Rightarrow> (string \<times> CampusTimetableCourse list) io" where
  "ListTimetable E userID term0 = require_login userID (let term = normalizeCampusTerm E term0 in
     io_bind (or_fail (internal msg_list_timetable_failed) (ListTimetableCourses userID term)) (\<lambda>courses.
     ret (term, courses)))"

subsection \<open>Uploads\<close>

definition PreSignPublicImage ::
    "'x account_ext_scheme \<Rightarrow> string \<Rightarrow> string \<Rightarrow> string \<Rightarrow> int \<Rightarrow> (string \<times> string) io" where
  "PreSignPublicImage X hash0 fileType0 filename0 filesize = (
     let hash = trim_space hash0; fileType = trim_func (\<lambda>r. r = 46) (trim_lower fileType0); filename = trim_space filename0 in
     if hash = [] then fail (InvalidArgument msg_image_hash_empty)
     else if fileType \<notin> {''jpg'', ''jpeg'', ''png'', ''webp''} then fail (InvalidArgument msg_image_type_invalid)
     else if filesize \<le> 0 \<or> 10 * 2 ^ 20 < filesize then fail (InvalidArgument msg_image_too_large)
     else or_fail (internal msg_image_url_failed) (base_presign X hash fileType filename filesize 3600))"

definition PreSignPublicKnowledgeFile ::
    "'x account_ext_scheme \<Rightarrow> string \<Rightarrow> string \<Rightarrow> string \<Rightarrow> int \<Rightarrow> (string \<times> string) io" where
  "PreSignPublicKnowledgeFile X hash0 fileType0 filename0 filesize = (
     let hash = trim_space hash0; fileType = normalizeKnowledgeFileType fileType0; filename = trim_space filename0 in
     if hash = [] then fail (InvalidArgument msg_doc_hash_empty)
     else if fileType \<notin> {''pdf'', ''docx'', ''txt'', ''md''} then fail (InvalidArgument msg_doc_type_invalid)
     else if filesize \<le> 0 \<or> 20 * 2 ^ 20 < filesize then fail (InvalidArgument msg_doc_too_large)
     else or_fail (internal msg_doc_url_failed) (base_presign X hash fileType filename filesize 3600))"

definition campusUploadContentType :: "string \<Rightarrow> string \<Rightarrow> string" where
  "campusUploadContentType mediaType fileType0 = (let fileType = trim_func (\<lambda>r. r = 46) (trim_lower fileType0) in
     if lower_trim mediaType = ''image'' then
       (if fileType = ''jpg'' \<or> fileType = ''jpeg'' then ''image/jpeg''
        else if fileType = ''png'' then ''image/png''
        else if fileType = ''webp'' then ''image/webp'' else ''application/octet-stream'')
     else ''application/octet-stream'')"

record CampusUploadPresignInput =
  pu_media_type :: string
  pu_hash :: string
  pu_file_type :: string
  pu_filename :: string
  pu_size :: int

record CampusUploadPresignOutput =
  px_file_id :: string
  px_upload_url :: string
  px_method :: string
  px_headers :: "(string \<times> string) list"
  px_expires_in :: int

definition PreSignCampusUpload ::
    "'x account_ext_scheme \<Rightarrow> CampusUploadPresignInput option \<Rightarrow> CampusUploadPresignOutput io" where
  "PreSignCampusUpload X inp = (case inp of None \<Rightarrow> fail (InvalidArgument msg_upload_params_empty)
   | Some input \<Rightarrow> let mediaType = lower_trim (pu_media_type input) in
     if mediaType \<noteq> ''image'' then fail (InvalidArgument msg_upload_type_invalid)
     else io_bind (PreSignPublicImage X (pu_hash input) (pu_file_type input) (pu_filename input) (pu_size input))
       (\<lambda>(fileID, uploadURL). ret \<lparr>px_file_id = fileID, px_upload_url = uploadURL, px_method = ''PUT'',
         px_headers = [(''Content-Type'', campusUploadContentType mediaType (pu_file_type input))], px_expires_in = 3600\<rparr>))"

definition report_uploaded :: "'x account_ext_scheme \<Rightarrow> string \<Rightarrow> string \<Rightarrow> string \<Rightarrow> string io" where
  "report_uploaded X invalid failed file0 = (let fileID = trim_space file0 in
     if fileID = [] \<or> fileID = ''0'' then fail (InvalidArgument invalid)
     else or_fail (internal failed) (base_uploaded X fileID))"

definition ReportPublicImageUploaded :: "'x account_ext_scheme \<Rightarrow> string \<Rightarrow> string io" where
  "ReportPublicImageUploaded X = report_uploaded X msg_image_file_id_invalid msg_confirm_image_failed"

definition ReportPublicKnowledgeFileUploaded :: "'x account_ext_scheme \<Rightarrow> string \<Rightarrow> string io" where
  "ReportPublicKnowledgeFileUploaded X = report_uploaded X msg_doc_file_id_invalid msg_confirm_doc_failed"

definition CompleteCampusUpload ::
    "'x account_ext_scheme \<Rightarrow> (string \<times> string) option \<Rightarrow> (string \<times> string \<times> string) io" where
  "CompleteCampusUpload X inp = (case inp of None \<Rightarrow> fail (InvalidArgument msg_upload_confirm_empty)
   | Some (mediaType0, file0) \<Rightarrow> let mediaType = lower_trim mediaType0; fileID = trim_space file0 in
     if fileID = [] \<or> fileID = ''0'' then fail (InvalidArgument msg_file_id_invalid)
     else if mediaType \<noteq> ''image'' then fail (InvalidArgument msg_upload_type_invalid)
     else io_bind (ReportPublicImageUploaded X fileID) (\<lambda>finalURL.
       io_bind (attempt (base_file_object X fileID)) (\<lambda>info.
       ret (fileID, finalURL, case info of Inr (Some objectName) \<Rightarrow> objectName | _ \<Rightarrow> []))))"

subsection \<open>One identity per open id\<close>

text \<open>The services have tables of their own.\<close>

definition services_apart :: "'x account_ext_scheme \<Rightarrow> bool" where
  "services_apart X \<longleftrightarrow> (\<forall>a b c d. keeps (\<lambda>t. t) (base_register X a b c) \<and> keeps (\<lambda>t. t) (base_check_account X a b c) \<and>
     keeps (\<lambda>t. t) (account_by_email X a) \<and> keeps (\<lambda>t. t) (core_get_user X a b) \<and>
     keeps (\<lambda>t. t) (core_create_user X a b c) \<and> keeps (\<lambda>t. t) (core_update_user X a b c d))"

lemma keeps_all: "keeps (\<lambda>t. t) m \<Longrightarrow> keeps g m"
  by (simp add: keeps_def)

lemma account_frames:
  assumes "services_apart X"
  shows "keeps g (core_get_user X a b)" "keeps g (createWechatAccountAndUser X openID nickname avatar)"
proof -
  have x: "keeps g (base_register X a b c)" "keeps g (base_check_account X a b c)" "keeps g (account_by_email X a)"
    "keeps g (core_get_user X a b)" "keeps g (core_create_user X a b c)" "keeps g (core_update_user X a b c d)" for a b c d
    using assms unfolding services_apart_def by (blast intro: keeps_all)+
  show "keeps g (core_get_user X a b)" by (rule x)
  have n: "keeps g (new_wechat_user X email accountID nick av)" for email accountID nick av
    unfolding new_wechat_user_def Let_def by (intro frames x)
  show "keeps g (createWechatAccountAndUser X openID nickname avatar)"
    unfolding createWechatAccountAndUser_def wechat_account_def Let_def by (intro frames x n)
qed

lemma resolve_world: "resolveWechatSession E X code w = (r, w') \<Longrightarrow> w' = w"
  by (auto simp: resolveWechatSession_def Let_def split: if_splits wechat_answer.splits)

lemma session_frames [frames]: "keeps g (lift_error r)"
  unfolding lift_error_def by (intro frames)

definition wx_key :: "campusWechatIdentityModel \<Rightarrow> string \<times> string" where
  "wx_key r = (wx_provider r, wx_open_id r)"

lemma identity_of_key: "identity_of provider openID = (\<lambda>r. wx_key r = (provider, openID))"
  by (auto simp: identity_of_def wx_key_def)

lemma or_fail_then_E:
  assumes "io_then (or_fail h m) k w = (r, w')"
  obtains e w1 where "m w = (Inl e, w1)" and "r = Inl (h e)" and "w' = w1"
  | w1 where "m w = (Inr (), w1)" and "k w1 = (r, w')"
  using assms by (auto simp: io_then_def io_bind_def or_fail_def split: prod.splits sum.splits)

text \<open>What binding an identity does to the identities: nothing, or one row is added for an open id
  that had none.\<close>

definition binds :: "string \<Rightarrow> campusWechatIdentityModel list \<Rightarrow> campusWechatIdentityModel list \<Rightarrow> bool" where
  "binds openID rs rs' \<longleftrightarrow> rs' = rs \<or>
     (\<exists>row. wx_key row = (''wechat'', openID) \<and> wx_key row \<notin> wx_key ` set rs \<and> rs' = rs @ [row])"

definition bound :: "string \<Rightarrow> campusWechatIdentityModel list \<Rightarrow> bool" where
  "bound openID rs \<longleftrightarrow> (\<exists>row \<in> set rs. wx_key row = (''wechat'', openID))"

lemma SaveWechatIdentity_binds:
  assumes "SaveWechatIdentity E b w = (r, w')" and "wi_provider b = ''wechat''" and "wi_open_id b = openID"
    and "wi_id b \<notin> wx_id ` set (wechat_identities (db w))" and "\<not> bound openID (wechat_identities (db w))"
  shows "binds openID (wechat_identities (db w)) (wechat_identities (db w'))"
    and "r = Inr x \<Longrightarrow> bound openID (wechat_identities (db w'))"
proof -
  have "\<not> (\<exists>r \<in> set (wechat_identities (db w)). wx_id r = wi_id b)" using assms(4) by (metis image_eqI)
  then show "binds openID (wechat_identities (db w)) (wechat_identities (db w'))"
    and "r = Inr x \<Longrightarrow> bound openID (wechat_identities (db w'))"
    using assms(1,2,3,5) unfolding SaveWechatIdentity_def
    by (cases r; force simp: binds_def bound_def upsert_def identity_of_key wx_key_def elim!: sql_upsert_InrE dest!: sql_InlD)+
qed

lemma wechat_identity_binds:
  assumes "wechat_identity E X input openID unionID w = (r, w')" and "services_apart X"
    and "\<And>n. idgen E n \<notin> wx_id ` set (wechat_identities (db w))"
  shows "binds openID (wechat_identities (db w)) (wechat_identities (db w')) \<and>
    (\<forall>x. r = Inr x \<longrightarrow> bound openID (wechat_identities (db w')))"
proof -
  let ?ids = "\<lambda>w. wechat_identities (db w)"
  note quiet = account_frames [OF assms(2)]
  have get: "keeps wechat_identities (GetWechatIdentity ''wechat'' openID)"
    unfolding GetWechatIdentity_def by (intro frames)
  from assms(1) show ?thesis unfolding wechat_identity_def
  proof (cases rule: io_bind_E)
    case (1 e)
    then show ?thesis using keepsD [OF get] by (auto simp: binds_def elim!: or_fail_E)
  next
    case (2 found w1)
    then have g: "GetWechatIdentity ''wechat'' openID w = (Inr found, w1)" by (elim or_fail_E) auto
    then have same: "?ids w1 = ?ids w" by (rule keepsD [OF get])
    from g have found: "found = map_option toBizWechatIdentity (find (identity_of ''wechat'' openID) (?ids w))"
      unfolding GetWechatIdentity_def by (auto elim!: io_bind_InrE sql_first_InrE)
    show ?thesis
    proof (cases found)
      case (Some identity)
      have "bound openID (?ids w)"
        using found Some unfolding bound_def by (cases "find (identity_of ''wechat'' openID) (?ids w)")
          (auto simp: identity_of_key dest: find_SomeD)
      moreover have "keeps wechat_identities (io_bind (or_fail (internal msg_user_info_failed) (core_get_user X (wi_user_id identity) []))
          (\<lambda>user. ret (identity, user)))" by (intro frames quiet)
      ultimately show ?thesis using 2(2) Some same by (auto simp: binds_def dest: keepsD)
    next
      case None
      then have unbound: "\<not> bound openID (?ids w)"
        using found by (auto simp: bound_def identity_of_key find_None_iff)
      from 2(2) None have "io_bind (createWechatAccountAndUser X openID (li_nickname input) (li_avatar input)) (\<lambda>(accountID, userID).
         io_bind (NextID E) (\<lambda>i.
         let identity = \<lparr>wi_id = i, wi_provider = ''wechat'', wi_open_id = openID, wi_union_id = unionID,
           wi_user_id = userID, wi_account_id = accountID\<rparr> in
         io_then (or_fail (internal msg_save_identity_failed) (SaveWechatIdentity E identity))
         (io_bind (or_fail (internal msg_user_info_failed) (core_get_user X userID [])) (\<lambda>user.
         ret (identity, user))))) w1 = (r, w')" by simp
      then show ?thesis
      proof (cases rule: io_bind_E)
        case (1 e)
        then show ?thesis using keepsD [OF quiet(2), of _ _ _ _ _ _ wechat_identities] same by (auto simp: binds_def)
      next
        case (2 au w2)
        obtain accountID userID where au: "au = (accountID, userID)" by fastforce
        let ?w = "w2\<lparr>next_seq := Suc (next_seq w2)\<rparr>"
        let ?b = "\<lparr>wi_id = idgen E (next_seq w2), wi_provider = ''wechat'', wi_open_id = openID, wi_union_id = unionID,
           wi_user_id = userID, wi_account_id = accountID\<rparr>"
        have w2: "?ids ?w = ?ids w" using keepsD [OF quiet(2) 2(1), of wechat_identities] same by simp
        from 2(2) have "io_then (or_fail (internal msg_save_identity_failed) (SaveWechatIdentity E ?b))
           (io_bind (or_fail (internal msg_user_info_failed) (core_get_user X userID [])) (\<lambda>user. ret (?b, user))) ?w = (r, w')"
          by (simp add: au NextID_def io_bind_def Let_def)
        moreover have k: "keeps wechat_identities (io_bind (or_fail (internal msg_user_info_failed) (core_get_user X userID [])) (\<lambda>user. ret (?b, user)))"
          by (intro frames quiet)
        moreover have fresh: "wi_id ?b \<notin> wx_id ` set (?ids ?w)" "\<not> bound openID (?ids ?w)" using assms(3) unbound w2 by simp_all
        ultimately show ?thesis
        proof (cases rule: or_fail_then_E)
          case (1 e w3)
          from SaveWechatIdentity_binds(1) [OF 1(1) _ _ fresh] 1 w2 show ?thesis by simp
        next
          case (2 w3)
          from SaveWechatIdentity_binds [OF 2(1) _ _ fresh] w2 keepsD [OF k 2(2)] show ?thesis by simp
        qed
      qed
    qed
  qed
qed

lemma profile_frames [frames]:
  "(\<And>h t. g (profiles_update h t) = g t) \<Longrightarrow> keeps g (SaveProfile E b)" "keeps g (GetProfileByUserID u)"
  unfolding SaveProfile_def GetProfileByUserID_def by (intro keeps_command frames; simp add: Let_def)+

lemma ensureProfile_frames [frames]:
  "(\<And>h t. g (profiles_update h t) = g t) \<Longrightarrow> keeps g (ensureProfile E identity user)"
  unfolding ensureProfile_def Let_def by (intro frames)

text \<open>
  C33. Logging in: the open id that WeChat names for the code belongs to one identity afterwards. An
  identity that was there is found again, with its user, and nothing of the identities changes; else
  exactly one identity is added. So whatever fails, no two users share an open id and nobody's
  identity moves to another user. (New ids are not those of stored rows; the other services have
  their own tables.)
\<close>

theorem login_keeps_identities:
  assumes "WechatLogin E X input w = (r, w')" and "resolveWechatSession E X (trim_space (li_code input)) w = (Inr (openID, unionID), w1)"
    and "services_apart X" and "unique_on wx_key (wechat_identities (db w))"
    and "\<And>n. idgen E n \<notin> wx_id ` set (wechat_identities (db w))"
  shows "unique_on wx_key (wechat_identities (db w')) \<and>
    (wechat_identities (db w') = wechat_identities (db w) \<or>
     (\<exists>row. wx_key row = (''wechat'', openID) \<and> wx_key row \<notin> wx_key ` set (wechat_identities (db w)) \<and>
        wechat_identities (db w') = wechat_identities (db w) @ [row])) \<and>
    (\<forall>out. r = Inr out \<longrightarrow> (\<exists>row \<in> set (wechat_identities (db w')). wx_key row = (''wechat'', openID)))"
proof -
  let ?ids = "\<lambda>w. wechat_identities (db w)"
  have "w1 = w" by (rule resolve_world [OF assms(2)])
  note run = assms(1) [unfolded WechatLogin_def Let_def]
  have "binds openID (?ids w) (?ids w') \<and> (\<forall>out. r = Inr out \<longrightarrow> bound openID (?ids w'))"
  proof (cases "trim_space (li_code input) = []")
    case True
    with run show ?thesis by (auto simp: binds_def)
  next
    case False
    with run assms(2) \<open>w1 = w\<close> have
      "io_bind (wechat_identity E X input openID unionID) (\<lambda>(identity, user).
       io_bind (ensureProfile E identity user) (\<lambda>profile.
       case user of None \<Rightarrow> fail nil_dereference
       | Some u \<Rightarrow>
         io_bind (or_fail (internal msg_make_session_failed)
           (lift_error (GenerateToken X (auth_secret X) (NewClaims E (ui_id u) DefaultTokenTTL)))) (\<lambda>token.
         io_then (trackEvent E (Some \<lparr>te_user_id = ui_id u, te_event_type = ''login'', te_page = ''mine'',
           te_target_type = [], te_target_id = 0, te_channel = ''wechat'', te_extra = [], te_user_agent = [], te_ip = []\<rparr>))
         (ret \<lparr>lo_token = token, lo_profile = profile, lo_user = u\<rparr>)))) w = (r, w')"
      by (simp add: io_bind_def [of "resolveWechatSession E X (trim_space (li_code input))"])
    then show ?thesis
    proof (cases rule: io_bind_E)
      case (1 e)
      from wechat_identity_binds [OF 1(1) assms(3,5)] 1 show ?thesis by simp
    next
      case (2 iu w2)
      have "keeps wechat_identities ((\<lambda>(identity, user). io_bind (ensureProfile E identity user) (\<lambda>profile.
         case user of None \<Rightarrow> fail nil_dereference
         | Some u \<Rightarrow>
           io_bind (or_fail (internal msg_make_session_failed)
             (lift_error (GenerateToken X (auth_secret X) (NewClaims E (ui_id u) DefaultTokenTTL)))) (\<lambda>token.
           io_then (trackEvent E (Some \<lparr>te_user_id = ui_id u, te_event_type = ''login'', te_page = ''mine'',
             te_target_type = [], te_target_id = 0, te_channel = ''wechat'', te_extra = [], te_user_agent = [], te_ip = []\<rparr>))
           (ret \<lparr>lo_token = token, lo_profile = profile, lo_user = u\<rparr>)))) iu)" for iu
        by (intro frames; simp)
      from wechat_identity_binds [OF 2(1) assms(3,5)] keepsD [OF this 2(2)] show ?thesis by simp
    qed
  qed
  with assms(4) show ?thesis by (auto simp: binds_def bound_def)
qed

definition login_sample :: account_ext where
  "login_sample = \<lparr>wechat_session = (\<lambda>a s code. Session ''o1'' [] 0 []), base_register = (\<lambda>m e p. ret ''5''),
     base_check_account = (\<lambda>m e p. ret ''5''), account_by_email = (\<lambda>e. ret None),
     core_get_user = (\<lambda>u a. ret (if u = ''0'' then None else Some \<lparr>ui_id = ''8'', ui_name = [], ui_nickname = [],
       ui_avatar = [], ui_mobile = [], ui_email = []\<rparr>)),
     core_get_users = (\<lambda>us. ret []), core_create_user = (\<lambda>m e a. ret ''8''), core_update_user = (\<lambda>u n k v. ret ()),
     timetable_fetch = (\<lambda>n p t. ret [mock_course ''math'' [] [] 1 1 2 1 16 []]), sha256_hex = (\<lambda>s. s), auth_secret = ''k'',
     sign_token = (\<lambda>s c. Inr (cl_user_id c)), base_presign = (\<lambda>h t n s e. ret ([], [])), base_uploaded = (\<lambda>f. ret []),
     base_file_object = (\<lambda>f. ret None)\<rparr>"

definition login_env :: env where
  "login_env = forum_env\<lparr>getenv := (\<lambda>k. if k = ''LEHU_WECHAT_DEV_OPENID'' then ''o1'' else [])\<rparr>"

definition login_input :: WechatLoginInput where
  "login_input = \<lparr>li_code = ''c'', li_nickname = [], li_avatar = []\<rparr>"

lemma login_literals: "trim_space ''c'' = ''c''" "trim_space ''o1'' = ''o1''" "trim_space [] = []"
  by (rule trim_space_graphic, simp add: go_string_eval)+

theorem login_keeps_identities_witness:
  "\<exists>out w'. WechatLogin login_env login_sample login_input empty_world = (Inr out, w') \<and>
     (\<exists>row. wechat_identities (db w') = [row] \<and> wx_key row = (''wechat'', ''o1''))"
proof -
  let ?run = "WechatLogin login_env login_sample login_input empty_world"
  have env: "getenv login_env ''LEHU_WECHAT_DEV_OPENID'' = ''o1''" "getenv login_env ''LEHU_WECHAT_MOCK_LOGIN'' = []"
    by (simp_all add: login_env_def)
  have res: "resolveWechatSession login_env login_sample (trim_space (li_code login_input)) empty_world = (Inr (''o1'', []), empty_world)"
    by (simp add: resolveWechatSession_def env login_literals login_input_def has_prefix_def)
  have total: "no_fail (trackEvent E (Some e))" for E e unfolding trackEvent_def by (intro totals)
  have ids: "login_input\<lparr>li_code := ''c''\<rparr> = login_input" by (simp add: login_input_def)
  have "\<exists>out. fst ?run = Inr out"
    using res by (simp add: WechatLogin_def login_literals login_input_def wechat_identity_def GetWechatIdentity_def
      createWechatAccountAndUser_def wechat_account_def new_wechat_user_def shortHash_def login_sample_def attempt_def
      SaveWechatIdentity_def ensureProfile_def GetProfileByUserID_def SaveProfile_def SaveProfile_rows_def profile_row_def
      NextID_def upsert_def GenerateToken_def lift_error_def or_fail_def io_online empty_world_def empty_tables_def Let_def
      NewClaims_def no_fail_case [OF total])
  then obtain out w' where run: "?run = (Inr out, w')" by (metis prod.collapse)
  have apart: "services_apart login_sample"
    by (simp add: services_apart_def login_sample_def keeps_def)
  have "unique_on wx_key (wechat_identities (db empty_world))" "idgen login_env n \<notin> wx_id ` set (wechat_identities (db empty_world))" for n
    by (simp_all add: empty_world_def empty_tables_def unique_on_def)
  from login_keeps_identities [OF run res apart this] run show ?thesis
    by (auto simp: empty_world_def empty_tables_def)
qed

subsection \<open>A timetable is replaced as a whole\<close>

lemma own_courses_frames [frames]: "keeps g (own_courses E u term cs)"
proof (induction cs)
  case (Cons c cs)
  show ?case unfolding own_courses.simps by (intro frames Cons.IH)
next
  case Nil
  show ?case unfolding own_courses.simps by (rule keeps_basic)
qed

lemma Replace_effect:
  assumes "ReplaceTimetableCourses E u term source cs w = (Inr (), w')"
  shows "timetable_courses (db w') = filter (\<lambda>q. \<not> of_term (parseID u) term q) (timetable_courses (db w)) @
    map (course_row E (parseID u) term source) cs"
  using assms unfolding ReplaceTimetableCourses_def
  by (auto elim!: transaction_InrE io_then_InrE sql_exec_InrE sql_create_all_InrE split: if_splits)

text \<open>The course that is read back.\<close>

definition stored_course :: "env \<Rightarrow> string \<Rightarrow> string \<Rightarrow> CampusTimetableCourse \<Rightarrow> CampusTimetableCourse" where
  "stored_course E u term c = c\<lparr>co_user_id := fmt_d (parseID u), co_term := term, co_source := ''demo'',
     co_created_at := now E, co_updated_at := now E\<rparr>"

lemma toBiz_course_row: "toBizTimetableCourse (course_row E (parseID u) term ''demo'' c) = stored_course E u term c"
  by (simp add: toBizTimetableCourse_def course_row_def stored_course_def)

definition course_order :: "CampusTimetableCourse \<Rightarrow> int \<times> int \<times> int" where
  "course_order c = (co_weekday c, co_start_section c, co_id c)"

text \<open>
  C34. The timetable: an import that is answered with an error leaves every course as it was; an
  accepted one replaces the courses of this user and this term, and no others, by what the school
  delivered, and reading the term back gives exactly these courses, by weekday and section. (The
  school's system does not write the tables.)
\<close>

theorem timetable_replaced:
  assumes "ImportTimetable E X input w = (r, w')" and "\<And>a b c. keeps (\<lambda>t. t) (timetable_fetch X a b c)"
  shows "(\<forall>e. r = Inl e \<longrightarrow> db w' = db w) \<and>
    (\<forall>term cs. r = Inr (term, cs) \<longrightarrow>
       filter (\<lambda>q. \<not> of_term (parseID (ti_user_id input)) term q) (timetable_courses (db w')) =
         filter (\<lambda>q. \<not> of_term (parseID (ti_user_id input)) term q) (timetable_courses (db w)) \<and>
       (faults w' = [] \<longrightarrow> (\<exists>listed. ListTimetableCourses (ti_user_id input) term w' = (Inr listed, w') \<and>
          mset listed = mset (map (stored_course E (ti_user_id input) term) cs) \<and> sorted (map course_order listed))))"
proof (cases "r")
  case (Inl e)
  have "db w' = db w"
  proof -
    have rep: "ReplaceTimetableCourses E u t s cs w1 = (Inl e', w2) \<Longrightarrow> db w2 = db w1" for u t s cs w1 e' w2
      unfolding ReplaceTimetableCourses_def by (rule transaction_atomic)
    have own: "own_courses E u t cs w1 = (q, w2) \<Longrightarrow> db w2 = db w1" for u t cs w1 q w2
      using keepsD [OF own_courses_frames [where g = "\<lambda>t. t"]] by simp
    have fetch: "timetable_fetch X a b c w1 = (q, w2) \<Longrightarrow> db w2 = db w1" for a b c w1 q w2
      using keepsD [OF assms(2)] by simp
    show ?thesis using assms(1) Inl
      by (auto simp: ImportTimetable_def require_login_def Let_def elim!: io_bind_E or_fail_then_E
          dest!: fetch own rep split: if_splits)
  qed
  with Inl show ?thesis by simp
next
  case (Inr tc)
  obtain tm cs where tc: "tc = (tm, cs)" by fastforce
  let ?u = "ti_user_id input"
  from assms(1) Inr tc obtain fetched w1 w2 where
    f: "timetable_fetch X (trim_space (ti_student_no input)) (trim_space (ti_password input)) tm w = (Inr fetched, w1)"
    and o: "own_courses E ?u tm fetched w1 = (Inr cs, w2)"
    and p: "ReplaceTimetableCourses E ?u tm ''demo'' cs w2 = (Inr (), w')"
    by (auto simp: ImportTimetable_def require_login_def Let_def elim!: io_bind_InrE io_then_InrE or_fail_InrE split: if_splits)
  have d: "db w2 = db w"
    using keepsD [OF assms(2) f] keepsD [OF own_courses_frames [where g = "\<lambda>t. t"] o] by simp
  let ?rows = "map (course_row E (parseID ?u) tm ''demo'') cs"
  have now_rows: "timetable_courses (db w') = filter (\<lambda>q. \<not> of_term (parseID ?u) tm q) (timetable_courses (db w)) @ ?rows"
    using Replace_effect [OF p] d by simp
  have mine: "of_term (parseID ?u) tm q" if "q \<in> set ?rows" for q
    using that by (auto simp: of_term_def course_row_def)
  then have none: "filter (\<lambda>q. \<not> of_term (parseID ?u) tm q) ?rows = []" and all: "filter (of_term (parseID ?u) tm) ?rows = ?rows"
    by (auto simp: filter_empty_conv filter_id_conv)
  let ?key = "\<lambda>r. (tc_weekday r, tc_start_section r, tc_id r)"
  let ?listed = "map toBizTimetableCourse (sort_key ?key ?rows)"
  have "mset ?listed = mset (map (stored_course E ?u tm) cs)"
    by (simp add: image_mset.compositionality o_def toBiz_course_row)
  moreover have "sorted (map course_order ?listed)"
    by (simp add: o_def course_order_def toBizTimetableCourse_def)
  moreover have "ListTimetableCourses ?u tm w' = (Inr ?listed, w')" if "faults w' = []"
    using that by (simp add: ListTimetableCourses_def io_online now_rows all filter_empty_conv)
  ultimately show ?thesis using Inr tc now_rows none by auto
qed

definition import_input :: ImportCampusTimetableInput where
  "import_input = \<lparr>ti_user_id = ''8'', ti_student_no = ''2024'', ti_password = ''pass'', ti_term = ''t''\<rparr>"

lemma import_literals: "trim_space ''8'' = ''8''" "trim_space ''2024'' = ''2024''" "trim_space ''pass'' = ''pass''"
  "trim_space ''t'' = ''t''" "rune_count ''2024'' = 4" "rune_count ''pass'' = 4"
  by (simp_all add: trim_space_graphic rune_count_def runes_graphic byte_def)

theorem timetable_replaced_witness:
  "\<exists>w' c. ListTimetableCourses ''8'' ''t'' w' = (Inr [c], w') \<and> co_course_name c = ''math'' \<and>
     w' = snd (ImportTimetable forum_env login_sample import_input empty_world)"
proof -
  let ?run = "ImportTimetable forum_env login_sample import_input empty_world"
  have "\<exists>c. fst ?run = Inr (''t'', [c]) \<and> co_course_name c = ''math''" and "faults (snd ?run) = []"
    by (simp_all add: ImportTimetable_def require_login_def import_input_def import_literals normalizeCampusTerm_def
        login_sample_def NextID_def ReplaceTimetableCourses_def course_row_def or_fail_def io_online empty_world_def empty_tables_def
        mock_course_def Let_def)
  then obtain c w' where run: "?run = (Inr (''t'', [c]), w')" and c: "co_course_name c = ''math''" and f: "faults w' = []"
    by (metis prod.collapse)
  have "keeps (\<lambda>t. t) (timetable_fetch login_sample a b d)" for a b d by (simp add: login_sample_def keeps_def)
  from timetable_replaced [OF run this] f obtain listed where
    l: "ListTimetableCourses ''8'' ''t'' w' = (Inr listed, w')" and m: "mset listed = {#stored_course forum_env ''8'' ''t'' c#}"
    by (auto simp: import_input_def)
  from m have "listed = [stored_course forum_env ''8'' ''t'' c]" by simp
  with l run c show ?thesis by (intro exI [of _ w']) (auto simp: stored_course_def)
qed

end
