(* ===== verification/Feeds.thy ===== *)
theory Feeds
  imports Accounts "HOL-Library.List_Lexorder"
begin

text \<open>
  Reading lists (\<open>biz/campus.go\<close>: the feeds, the listings of the operators; \<open>campus_assembler.go\<close>;
  \<open>campus_recommend_pool.go\<close>; \<open>data/campus.go\<close>: \<open>ListPosts\<close>, \<open>ListComments\<close> and their neighbours;
  \<open>campus_cache.go\<close>: the cached lists). A page is the part of a filtered and ordered table; the
  public feeds may take the ids of a page from the cache or from the pool, and then read the rows.
\<close>

subsection \<open>Queries\<close>

text \<open>Further parameters: the collation that compares characters, MySQL's \<open>POW\<close>, SHA-1.\<close>

record feed_ext = account_ext +
  collate :: "rune \<Rightarrow> rune"
  sql_pow :: "int \<Rightarrow> rat \<Rightarrow> rat"
  sha1_hex :: "string \<Rightarrow> string"

definition sql_query :: "(tables \<Rightarrow> 'a) \<Rightarrow> 'a io" where
  "sql_query f = command (\<lambda>w. (Inr (f (db w)), w))"

text \<open>\<open>OFFSET .. LIMIT ..\<close>: the ORM leaves out an offset that is not positive and a negative limit.\<close>

definition page_of :: "int \<Rightarrow> int \<Rightarrow> 'a list \<Rightarrow> 'a list" where
  "page_of offset limit xs = (let ys = drop (nat offset) xs in if limit < 0 then ys else take (nat limit) ys)"

text \<open>\<open>LIKE\<close>: \<open>%\<close> stands for any characters, \<open>_\<close> for one, a backslash for the next one itself.\<close>

function like :: "rune list \<Rightarrow> rune list \<Rightarrow> bool" where
  "like [] s = (s = [])"
| "like (c # p) s =
     (if c = 37 then like p s \<or> (case s of [] \<Rightarrow> False | d # t \<Rightarrow> like (c # p) t)
      else if c = 95 then (case s of [] \<Rightarrow> False | d # t \<Rightarrow> like p t)
      else if c = 92 \<and> p \<noteq> [] then (case s of [] \<Rightarrow> False | d # t \<Rightarrow> d = hd p \<and> like (tl p) t)
      else (case s of [] \<Rightarrow> False | d # t \<Rightarrow> c = d \<and> like p t))"
  by pat_completeness auto
termination by (relation "measure (\<lambda>(p, s). length p + length s)") auto

definition sql_like :: "'x feed_ext_scheme \<Rightarrow> string \<Rightarrow> string \<Rightarrow> bool" where
  "sql_like X text pattern = like (map (collate X) (runes pattern)) (map (collate X) (runes text))"

definition containing :: "string \<Rightarrow> string" where
  "containing keyword = ''%'' @ keyword @ ''%''"

subsection \<open>The order of a feed\<close>

text \<open>Whole hours since the post was made, by the seconds of \<open>NOW()\<close>.\<close>

definition age_hours :: "env \<Rightarrow> campusForumPostModel \<Rightarrow> int" where
  "age_hours E p = (let sql_now = now E div nanos_per_second * nanos_per_second in
     max 0 ((sql_now - p_created_at p) div (3600 * nanos_per_second)))"

definition interaction_score :: "campusForumPostModel \<Rightarrow> int" where
  "interaction_score p = p_like_count p * 2 + p_comment_count p * 4 + p_collected_count p * 5"

definition decayed :: "'x feed_ext_scheme \<Rightarrow> env \<Rightarrow> rat \<Rightarrow> campusForumPostModel \<Rightarrow> rat" where
  "decayed X E expo p = of_int (interaction_score p) / sql_pow X (age_hours E p + 2) expo"

definition recommend_score :: "'x feed_ext_scheme \<Rightarrow> env \<Rightarrow> campusForumPostModel \<Rightarrow> rat" where
  "recommend_score X E p = of_int (p_sort_weight p * 10) + (if p_is_featured p then 80 else 0) +
     (if p_is_official p then 30 else 0) + decayed X E (12 / 10) p + 24 / of_int (age_hours E p + 2)"

definition desc_bool :: "bool \<Rightarrow> rat" where
  "desc_bool b = (if b then 0 else 1)"

text \<open>The sort keys of a row, the first one first; descending columns are negated.\<close>

definition campusPostOrder ::
    "'x feed_ext_scheme \<Rightarrow> env \<Rightarrow> string \<Rightarrow> campusForumPostModel \<times> relRow option \<Rightarrow> rat list" where
  "campusPostOrder X E srt = (\<lambda>(p, col). case col of
     Some c \<Rightarrow> [- of_int (rel_updated_at c), - of_int (rel_id c)]
   | None \<Rightarrow>
       if srt = ''recommend'' then [desc_bool (p_is_pinned p), - recommend_score X E p, - of_int (p_created_at p), - of_int (p_id p)]
       else if srt = ''hot'' then [desc_bool (p_is_pinned p), desc_bool (p_is_featured p), - of_int (p_sort_weight p),
         - decayed X E (115 / 100) p, - of_int (p_created_at p), - of_int (p_id p)]
       else [- of_int (p_created_at p), - of_int (p_id p)])"

subsection \<open>Lists in the cache\<close>

definition getCachedDoc :: "env \<Rightarrow> string \<Rightarrow> cached_doc option io" where
  "getCachedDoc E key w =
     (if \<not> cacheEnabled E w then (Inr None, w)
      else case command (\<lambda>w. (Inr (map_of (other_cache w) key), w)) w of
        (Inl e, w') \<Rightarrow> (Inr None, w')
      | (Inr None, w') \<Rightarrow> (Inr None, w')
      | (Inr (Some (d, expiry)), w') \<Rightarrow> (Inr (if now E < expiry then Some d else None), w'))"

definition setCachedDoc :: "env \<Rightarrow> string \<Rightarrow> cached_doc \<Rightarrow> time \<Rightarrow> unit io" where
  "setCachedDoc E key d ttl w =
     (if \<not> cacheEnabled E w \<or> ttl \<le> 0 then (Inr (), w)
      else ignore (command (\<lambda>w. (Inr (),
        w\<lparr>other_cache := AList.update key (d, now E + ttl) (other_cache w)\<rparr>))) w)"

text \<open>\<open>time.ParseDuration\<close>: numbers with units one behind the other, in nanoseconds below \<open>2 ^ 63\<close>.\<close>

fun leadingInt :: "int \<Rightarrow> string \<Rightarrow> (int \<times> string) option" where
  "leadingInt x [] = Some (x, [])"
| "leadingInt x (c # cs) = (if \<not> is_digit c then Some (x, c # cs)
     else if 2 ^ 63 div 10 < x \<or> 2 ^ 63 < x * 10 + (int (byte c) - 48) then None
     else leadingInt (x * 10 + (int (byte c) - 48)) cs)"

text \<open>The digits behind the point, as far as they fit, and the power of ten they are divided by.\<close>

fun leadingFraction :: "int \<Rightarrow> int \<Rightarrow> bool \<Rightarrow> string \<Rightarrow> int \<times> int \<times> string" where
  "leadingFraction x scale overflow [] = (x, scale, [])"
| "leadingFraction x scale overflow (c # cs) = (if \<not> is_digit c then (x, scale, c # cs)
     else if overflow \<or> (2 ^ 63 - 1) div 10 < x \<or> 2 ^ 63 < x * 10 + (int (byte c) - 48) then leadingFraction x scale True cs
     else leadingFraction (x * 10 + (int (byte c) - 48)) (scale * 10) False cs)"

definition duration_unit :: "string \<Rightarrow> int option" where
  "duration_unit u = map_of [(''ns'', 1), (''us'', 10 ^ 3), ([char_of (194 :: nat), char_of (181 :: nat), CHR ''s''], 10 ^ 3),
     ([char_of (206 :: nat), char_of (188 :: nat), CHR ''s''], 10 ^ 3), (''ms'', 10 ^ 6), (''s'', 10 ^ 9), (''m'', 60 * 10 ^ 9),
     (''h'', 3600 * 10 ^ 9)] u"

definition duration_value :: "int \<Rightarrow> int \<Rightarrow> int \<Rightarrow> int \<Rightarrow> int option" where
  "duration_value v f scale unit = (if 2 ^ 63 div unit < v then None
     else let x = v * unit + (if 0 < f then \<lfloor>f_mul (round64 (of_int f)) (f_div (of_int unit) (of_int scale))\<rfloor> else 0) in
       if 2 ^ 63 < x then None else Some x)"

text \<open>One number with its unit, and the rest; each one is at least one byte.\<close>

definition duration_item :: "string \<Rightarrow> (int \<times> string) option" where
  "duration_item s = Option.bind (leadingInt 0 s) (\<lambda>(v, s1).
     let pre = length s1 \<noteq> length s; point = has_prefix s1 ''.'';
       (f, scale, s2) = (if point then leadingFraction 0 1 False (tl s1) else (0, 1, s1));
       post = (point \<and> length s2 \<noteq> length (tl s1));
       u = takeWhile (\<lambda>c. c \<noteq> CHR ''.'' \<and> \<not> is_digit c) s2; s3 = dropWhile (\<lambda>c. c \<noteq> CHR ''.'' \<and> \<not> is_digit c) s2
     in if \<not> pre \<and> \<not> post \<or> u = [] then None
       else Option.bind (duration_unit u) (\<lambda>unit. map_option (\<lambda>x. (x, s3)) (duration_value v f scale unit)))"

lemma leadingInt_shorter: "leadingInt x s = Some (y, r) \<Longrightarrow> length r \<le> length s"
  by (induction x s rule: leadingInt.induct) (auto split: if_splits)

lemma leadingFraction_shorter: "length (snd (snd (leadingFraction x sc b s))) \<le> length s"
  by (induction x sc b s rule: leadingFraction.induct) auto

lemma dropWhile_shorter: "takeWhile P s \<noteq> [] \<Longrightarrow> length (dropWhile P s) < length s"
  by (metis add_less_cancel_right length_append length_greater_0_conv less_add_same_cancel2 takeWhile_dropWhile_id)

text \<open>So as many rounds as there are bytes are enough.\<close>

lemma duration_item_shorter:
  assumes "duration_item s = Some (x, r)"
  shows "length r < length s"
proof -
  from assms obtain v s1 where l: "leadingInt 0 s = Some (v, s1)" by (auto simp: duration_item_def bind_eq_Some_conv)
  obtain f scale s2 where f: "(if has_prefix s1 ''.'' then leadingFraction 0 1 False (tl s1) else (0, 1, s1)) = (f, scale, s2)"
    by (rule prod_cases3)
  from assms have "r = dropWhile (\<lambda>c. c \<noteq> CHR ''.'' \<and> \<not> is_digit c) s2"
    and "takeWhile (\<lambda>c. c \<noteq> CHR ''.'' \<and> \<not> is_digit c) s2 \<noteq> []"
    by (simp_all add: duration_item_def l f Let_def bind_eq_Some_conv split: if_splits) auto
  then have "length r < length s2" by (simp add: dropWhile_shorter)
  moreover have "length s2 \<le> length s1"
    using f leadingFraction_shorter [of 0 1 False "tl s1"] by (auto split: if_splits)
  ultimately show ?thesis using leadingInt_shorter [OF l] by simp
qed

fun duration_items :: "nat \<Rightarrow> int \<Rightarrow> string \<Rightarrow> int option" where
  "duration_items 0 d s = (if s = [] then Some d else None)"
| "duration_items (Suc fuel) d s = (if s = [] then Some d
     else Option.bind (duration_item s) (\<lambda>(x, rest). if 2 ^ 63 < d + x then None else duration_items fuel (d + x) rest))"

definition ParseDuration :: "string \<Rightarrow> int option" where
  "ParseDuration s0 = (let neg = has_prefix s0 ''-'';
       s = (if has_prefix s0 ''-'' \<or> has_prefix s0 ''+'' then tl s0 else s0) in
     if s = ''0'' then Some 0 else if s = [] then None
     else Option.bind (duration_items (length s) 0 s) (\<lambda>d.
       if neg then Some (- d) else if d = 2 ^ 63 then None else Some d))"

definition campusCacheTTL :: "env \<Rightarrow> string \<Rightarrow> time \<Rightarrow> time" where
  "campusCacheTTL E name fallback = (let val = trim_space (getenv E name) in
     if val = [] then fallback
     else case ParseDuration val of
       Some ttl \<Rightarrow> if 0 < ttl then ttl else (case parse_int64 val of (n, ok) \<Rightarrow> if ok \<and> 0 < n then sint (word_of_int (seconds n) :: 64 word) else fallback)
     | None \<Rightarrow> (case parse_int64 val of (n, ok) \<Rightarrow> if ok \<and> 0 < n then sint (word_of_int (seconds n) :: 64 word) else fallback))"

definition campusPostListCacheTTL :: "env \<Rightarrow> time" where
  "campusPostListCacheTTL E = campusCacheTTL E ''LEHU_CACHE_POST_LIST_TTL'' (seconds 10)"

definition campusAdminSummaryCacheTTL :: "env \<Rightarrow> time" where
  "campusAdminSummaryCacheTTL E = campusCacheTTL E ''LEHU_CACHE_ADMIN_SUMMARY_TTL'' (seconds 60)"

definition campusSecurityOverviewCacheTTL :: "env \<Rightarrow> time" where
  "campusSecurityOverviewCacheTTL E = campusCacheTTL E ''LEHU_CACHE_SECURITY_OVERVIEW_TTL'' (seconds 60)"

definition campusCategoriesCacheTTL :: "env \<Rightarrow> time" where
  "campusCategoriesCacheTTL E = campusCacheTTL E ''LEHU_CACHE_CATEGORIES_TTL'' (seconds (30 * 60))"

definition campusMomentsCandidatesCacheTTL :: "env \<Rightarrow> time" where
  "campusMomentsCandidatesCacheTTL E = campusCacheTTL E ''LEHU_CACHE_MOMENTS_CANDIDATES_TTL'' (seconds (3 * 60))"

definition postListCacheKey :: "env \<Rightarrow> 'x feed_ext_scheme \<Rightarrow> ListCampusPostQuery \<Rightarrow> string io" where
  "postListCacheKey E X q = io_bind (postFeedCacheVersion E) (\<lambda>version.
     let payload = ''v='' @ fmt_d version @ ''|category='' @ trim_space (q_category_code q) @
       ''|post_type='' @ trim_space (q_post_type q) @ ''|sort='' @ trim_space (q_sort q) @
       ''|offset='' @ fmt_d (q_offset q) @ ''|limit='' @ fmt_d (q_limit q)
     in ret (campusCachePrefix @ '':postfeed:'' @ sha1_hex X payload))"

subsection \<open>Posts\<close>

definition keyword_matches :: "'x feed_ext_scheme \<Rightarrow> string \<Rightarrow> campusForumPostModel \<Rightarrow> bool" where
  "keyword_matches X keyword p \<longleftrightarrow> keyword = [] \<or>
     (let (i, ok) = parse_int64 (trim_space keyword) in ok \<and> 0 < i \<and> p_id p = i) \<or>
     sql_like X (p_title p) (containing keyword) \<or> sql_like X (p_content p) (containing keyword)"

definition post_matches :: "'x feed_ext_scheme \<Rightarrow> ListCampusPostQuery \<Rightarrow> tables \<Rightarrow> campusForumPostModel \<Rightarrow> bool" where
  "post_matches X q t p \<longleftrightarrow>
     (q_include_deleted q \<or> \<not> p_is_deleted p) \<and>
     (q_statuses q = [] \<or> p_status p \<in> set (q_statuses q)) \<and>
     (q_category_code q = [] \<or> p_category_code p = q_category_code q) \<and>
     (q_post_type q = [] \<or> p_post_type p = q_post_type q) \<and>
     (q_author_id q = [] \<or> p_author_id p = parseID (q_author_id q)) \<and>
     (q_only_reported q \<longrightarrow> list_ex (\<lambda>r. rp_target_type r = ''post'' \<and> rp_target_id r = p_id p \<and>
        rp_status r = CampusAuditStatusPending) (tables.reports t)) \<and>
     keyword_matches X (q_keyword q) p \<and>
     (case q_only_official q of None \<Rightarrow> True | Some b \<Rightarrow> p_is_official p = b) \<and>
     (case q_only_featured q of None \<Rightarrow> True | Some b \<Rightarrow> p_is_featured p = b) \<and>
     (case q_only_pinned q of None \<Rightarrow> True | Some b \<Rightarrow> p_is_pinned p = b)"

text \<open>The rows of the query: each post that matches, or each pair with a collection of the user.\<close>

definition post_rows ::
    "'x feed_ext_scheme \<Rightarrow> ListCampusPostQuery \<Rightarrow> tables \<Rightarrow> (campusForumPostModel \<times> relRow option) list" where
  "post_rows X q t = concat (map (\<lambda>p.
     if q_collected_by q = [] then [(p, None)]
     else map (\<lambda>c. (p, Some c)) (filter (\<lambda>c. rel_target c = p_id p \<and> rel_user c = parseID (q_collected_by q) \<and>
       \<not> rel_is_deleted c) (post_collections t)))
     (filter (post_matches X q t) (posts t)))"

definition post_page :: "env \<Rightarrow> 'x feed_ext_scheme \<Rightarrow> ListCampusPostQuery \<Rightarrow> tables \<Rightarrow> campusForumPostModel list" where
  "post_page E X q t = map fst (page_of (q_offset q) (q_limit q) (sort_key (campusPostOrder X E (q_sort q)) (post_rows X q t)))"

definition ListPosts_db :: "env \<Rightarrow> 'x feed_ext_scheme \<Rightarrow> ListCampusPostQuery \<Rightarrow> (CampusForumPost list \<times> int) io" where
  "ListPosts_db E X q =
     io_bind (sql_query (\<lambda>t. int (length (post_rows X q t)))) (\<lambda>n.
     io_bind (sql_query (post_page E X q)) (\<lambda>rows.
     io_bind (fillPostCategoryNames (map toBizPost rows)) (\<lambda>ps. ret (ps, n))))"

text \<open>A page of the public feed comes from the cache when its ids are there and their rows can be
  read; else from the table, and then its ids are cached.\<close>

definition ListPosts_repo :: "env \<Rightarrow> 'x feed_ext_scheme \<Rightarrow> ListCampusPostQuery \<Rightarrow> (CampusForumPost list \<times> int) io" where
  "ListPosts_repo E X q = io_bind get_world (\<lambda>w.
     if \<not> shouldCachePostList E w q then ListPosts_db E X q
     else io_bind (postListCacheKey E X q) (\<lambda>key.
       let miss = io_bind (ListPosts_db E X q) (\<lambda>(ps, n).
         io_then (setCachedDoc E key (campusPostListCache (map bp_id ps) n) (campusPostListCacheTTL E)) (ret (ps, n)))
       in io_bind (getCachedDoc E key) (\<lambda>cached. case cached of
         Some (campusPostListCache ids n) \<Rightarrow>
           io_bind (attempt (ListPostsByIDs ids (q_statuses q))) (\<lambda>r. case r of Inr ps \<Rightarrow> ret (ps, n) | Inl e \<Rightarrow> miss)
       | _ \<Rightarrow> miss)))"

definition momentsCandidatesCacheKey :: "env \<Rightarrow> (time \<Rightarrow> string) \<Rightarrow> time \<Rightarrow> time \<Rightarrow> int \<Rightarrow> string io" where
  "momentsCandidatesCacheKey E utc_stamp start end limit = io_bind (momentsCacheVersion E) (\<lambda>version.
     ret (campusCachePrefix @ '':moments:candidates:'' @ fmt_d version @ '':'' @ utc_stamp start @ '':'' @
       utc_stamp end @ '':'' @ fmt_d limit))"

definition image_candidate :: "time \<Rightarrow> time \<Rightarrow> campusForumPostModel \<Rightarrow> bool" where
  "image_candidate start end p \<longleftrightarrow> p_status p = CampusAuditStatusVisible \<and> \<not> p_is_deleted p \<and> p_media_type p = ''image'' \<and>
     start \<le> p_created_at p \<and> p_created_at p < end \<and> (p_cover_url p \<noteq> [] \<or> p_images p \<noteq> [])"

definition ListTopImagePostsByDate ::
    "env \<Rightarrow> 'x feed_ext_scheme \<Rightarrow> (time \<Rightarrow> string) \<Rightarrow> time \<Rightarrow> time \<Rightarrow> int \<Rightarrow> CampusForumPost list io" where
  "ListTopImagePostsByDate E X utc_stamp start end limit0 = (let limit = (if limit0 \<le> 0 then 30 else limit0) in
     io_bind (momentsCandidatesCacheKey E utc_stamp start end limit) (\<lambda>key.
     let miss = io_bind (sql_query (\<lambda>t. page_of 0 limit (sort_key (\<lambda>p. campusPostOrder X E ''hot'' (p, None))
           (filter (image_candidate start end) (posts t))))) (\<lambda>rows.
         io_bind (fillPostCategoryNames (map toBizPost rows)) (\<lambda>ps.
         io_then (setCachedDoc E key (CachedCandidates (map bp_id ps)) (campusMomentsCandidatesCacheTTL E)) (ret ps)))
     in io_bind (getCachedDoc E key) (\<lambda>cached. case cached of
       Some (CachedCandidates ids) \<Rightarrow> ListPostsByIDs ids [CampusAuditStatusVisible]
     | _ \<Rightarrow> miss)))"

record CampusPublicUserStats =
  ps_post_count :: int
  ps_like_count :: int
  ps_collected_count :: int
  ps_has_official_post :: bool

definition GetPublicUserPostStats :: "string \<Rightarrow> CampusPublicUserStats io" where
  "GetPublicUserPostStats userID = io_bind (sql_find posts (\<lambda>p. p_author_id p = parseID userID \<and> \<not> p_is_deleted p \<and>
       p_status p = CampusAuditStatusVisible)) (\<lambda>rows.
     ret \<lparr>ps_post_count = int (length rows), ps_like_count = sum_list (map p_like_count rows),
       ps_collected_count = sum_list (map p_collected_count rows), ps_has_official_post = list_ex p_is_official rows\<rparr>)"

definition toBizCategory :: "campusForumCategoryModel \<Rightarrow> CampusForumCategory" where
  "toBizCategory r = \<lparr>ca_id = cat_id r, ca_code = cat_code r, ca_name = cat_name r, ca_description = cat_description r,
     ca_sort_order = cat_sort_order r\<rparr>"

definition ListCategories_repo :: "env \<Rightarrow> CampusForumCategory list io" where
  "ListCategories_repo E =
     io_bind (getCachedDoc E campusCategoriesCacheKey) (\<lambda>cached. case cached of
       Some (CachedCategories cs) \<Rightarrow> ret cs
     | _ \<Rightarrow> io_bind (sql_find categories (\<lambda>c. \<not> cat_is_deleted c)) (\<lambda>rows.
         let cs = map toBizCategory (sort_key (\<lambda>c. (cat_sort_order c, cat_id c)) rows) in
         io_then (setCachedDoc E campusCategoriesCacheKey (CachedCategories cs) (campusCategoriesCacheTTL E)) (ret cs)))"

definition ListCategories :: "env \<Rightarrow> CampusForumCategory list io" where
  "ListCategories E = or_fail (internal msg_list_categories_failed) (ListCategories_repo E)"

subsection \<open>Comments, reports and feedback\<close>

record ListCampusCommentQuery =
  cq_post_id :: int
  cq_parent_id :: "int option"
  cq_author_id :: string
  cq_statuses :: "int list"
  cq_include_deleted :: bool
  cq_offset :: int
  cq_limit :: int

definition comment_matches :: "ListCampusCommentQuery \<Rightarrow> campusForumCommentModel \<Rightarrow> bool" where
  "comment_matches q c \<longleftrightarrow> (cq_include_deleted q \<or> \<not> c_is_deleted c) \<and> (0 < cq_post_id q \<longrightarrow> c_post_id c = cq_post_id q) \<and>
     (case cq_parent_id q of None \<Rightarrow> True | Some i \<Rightarrow> c_parent_id c = i) \<and>
     (cq_author_id q \<noteq> [] \<longrightarrow> c_author_id c = parseID (cq_author_id q)) \<and>
     (cq_statuses q \<noteq> [] \<longrightarrow> c_status c \<in> set (cq_statuses q))"

definition comment_order :: "ListCampusCommentQuery \<Rightarrow> campusForumCommentModel \<Rightarrow> int \<times> int" where
  "comment_order q c = (if cq_author_id q \<noteq> [] then (- c_created_at c, - c_id c) else (c_created_at c, c_id c))"

definition ListComments_repo :: "ListCampusCommentQuery \<Rightarrow> (CampusForumComment list \<times> int) io" where
  "ListComments_repo q =
     io_bind (sql_count comments (comment_matches q)) (\<lambda>n.
     io_bind (sql_query (\<lambda>t. page_of (cq_offset q) (cq_limit q) (sort_key (comment_order q) (filter (comment_matches q) (comments t)))))
       (\<lambda>rows. ret (map toBizComment rows, n)))"

text \<open>Newest first; a negative status stands for all.\<close>

definition ListReports :: "'x ops_ext_scheme \<Rightarrow> int \<Rightarrow> int \<Rightarrow> int \<Rightarrow> (CampusForumReport list \<times> int) io" where
  "ListReports Ops status offset limit = (let P = (\<lambda>r. 0 \<le> status \<longrightarrow> rp_status r = status) in
     io_bind (sql_count tables.reports P) (\<lambda>n.
     io_bind (sql_query (\<lambda>t. page_of offset limit (sort_key (\<lambda>r. (- rp_created_at r, - rp_id r)) (filter P (tables.reports t))))) (\<lambda>rows.
     io_bind (fillReports Ops (map toBizReport rows)) (\<lambda>rs. ret (rs, n)))))"

text \<open>A feedback as the operators see it.\<close>

record CampusForumAuthor =
  fa_user_id :: string
  fa_name :: string
  fa_nickname :: string
  fa_avatar :: string
  fa_school_name :: string
  fa_auth_status :: int

record listed_feedback = CampusFeedback +
  fd_operator_note :: string
  fd_created_at :: time
  fd_updated_at :: time
  fd_author :: "CampusForumAuthor option"

definition toBizFeedback :: "campusFeedbackModel \<Rightarrow> listed_feedback" where
  "toBizFeedback r = \<lparr>fd_id = fb_id r, fd_user_id = fmt_d (fb_user_id r), fd_feedback_type = fb_feedback_type r,
     fd_content = fb_content r, fd_contact = fb_contact r, fd_images = fb_images r, fd_status = fb_status r,
     fd_operator_note = fb_operator_note r, fd_created_at = fb_created_at r, fd_updated_at = fb_updated_at r,
     fd_author = None\<rparr>"

definition ListFeedback :: "int \<Rightarrow> int \<Rightarrow> int \<Rightarrow> (listed_feedback list \<times> int) io" where
  "ListFeedback status offset limit = (let P = (\<lambda>r. 0 \<le> status \<longrightarrow> fb_status r = status) in
     io_bind (sql_count feedbacks P) (\<lambda>n.
     io_bind (sql_query (\<lambda>t. page_of offset limit (sort_key (\<lambda>r. (- fb_created_at r, - fb_id r)) (filter P (feedbacks t))))) (\<lambda>rows.
     ret (map toBizFeedback rows, n))))"

subsection \<open>Authors, likes and previews\<close>

definition appendUniqueUserID :: "string list \<Rightarrow> string \<Rightarrow> string list" where
  "appendUniqueUserID ids user0 = (let userID = trim_space user0 in
     if userID = [] \<or> userID = ''0'' \<or> userID \<in> set ids then ids else ids @ [userID])"

definition author_of :: "UserBaseInfo \<Rightarrow> CampusProfile option \<Rightarrow> CampusForumAuthor" where
  "author_of u profile = \<lparr>fa_user_id = ui_id u, fa_name = firstNonEmpty [ui_nickname u, ui_name u, msg_classmate],
     fa_nickname = ui_nickname u, fa_avatar = ui_avatar u,
     fa_school_name = (case profile of None \<Rightarrow> [] | Some p \<Rightarrow> pr_school_name p),
     fa_auth_status = (case profile of None \<Rightarrow> 0 | Some p \<Rightarrow> pr_auth_status p)\<rparr>"

fun load_each :: "UserBaseInfo list \<Rightarrow> (string \<times> CampusForumAuthor) list \<Rightarrow> (string \<times> CampusForumAuthor) list io" where
  "load_each [] found = ret found"
| "load_each (u # us) found = io_bind (attempt (GetProfileByUserID (ui_id u))) (\<lambda>p.
     load_each us (AList.update (ui_id u) (author_of u (case p of Inr profile \<Rightarrow> profile | Inl e \<Rightarrow> None)) found))"

definition LoadAuthors :: "'x account_ext_scheme \<Rightarrow> string list \<Rightarrow> (string \<times> CampusForumAuthor) list io" where
  "LoadAuthors X userIDs = (if userIDs = [] then ret []
     else io_bind (core_get_users X userIDs) (\<lambda>us. load_each us []))"

record shown_post =
  sp_post :: CampusForumPost
  sp_author :: "CampusForumAuthor option"
  sp_is_liked :: bool
  sp_is_collected :: bool
  sp_ai_audit :: "(string \<times> string \<times> string \<times> string \<times> string) option"

definition plain_post :: "CampusForumPost \<Rightarrow> shown_post" where
  "plain_post p = \<lparr>sp_post = p, sp_author = None, sp_is_liked = False, sp_is_collected = False, sp_ai_audit = None\<rparr>"

text \<open>A status that cannot be read is taken for no.\<close>

definition status_or_no :: "string \<Rightarrow> (int \<Rightarrow> bool) io \<Rightarrow> (int \<Rightarrow> bool) io" where
  "status_or_no user m = (if user = [] \<or> user = ''0'' then ret (\<lambda>_. False)
     else io_bind (attempt m) (\<lambda>r. ret (case r of Inr f \<Rightarrow> f | Inl e \<Rightarrow> (\<lambda>_. False))))"

definition HydratePosts :: "'x account_ext_scheme \<Rightarrow> CampusForumPost list \<Rightarrow> string \<Rightarrow> shown_post list io" where
  "HydratePosts X ps currentUserID = (if ps = [] then ret []
     else io_bind (LoadAuthors X (foldl appendUniqueUserID [] (map bp_author_id ps))) (\<lambda>authors.
     io_bind (status_or_no currentUserID (GetPostLikeStatus currentUserID (map bp_id ps))) (\<lambda>liked.
     io_bind (status_or_no currentUserID (GetPostCollectionStatus currentUserID (map bp_id ps))) (\<lambda>collected.
     ret (map (\<lambda>p. \<lparr>sp_post = p, sp_author = map_of authors (bp_author_id p), sp_is_liked = liked (bp_id p),
       sp_is_collected = collected (bp_id p), sp_ai_audit = None\<rparr>) ps)))))"

text \<open>The handlers show the posts without the rest when it cannot be had.\<close>

definition show_posts :: "'x account_ext_scheme \<Rightarrow> CampusForumPost list \<Rightarrow> string \<Rightarrow> shown_post list io" where
  "show_posts X ps user = io_bind (attempt (HydratePosts X ps user)) (\<lambda>r.
     ret (case r of Inr sps \<Rightarrow> sps | Inl e \<Rightarrow> map plain_post ps))"

datatype shown_comment =
  ShownComment (sc_comment: CampusForumComment) (sc_author: "CampusForumAuthor option")
    (sc_reply_to_user: "CampusForumAuthor option") (sc_is_liked: bool) (sc_previews: "shown_comment list")

definition plain_comment :: "CampusForumComment \<Rightarrow> shown_comment" where
  "plain_comment c = ShownComment c None None False []"

text \<open>A comment and the replies shown below it.\<close>

fun flattenComments :: "shown_comment \<Rightarrow> CampusForumComment list" where
  "flattenComments (ShownComment c a r l ps) = c # concat (map flattenComments ps)"

definition reply_to_user ::
    "(string \<times> CampusForumAuthor) list \<Rightarrow> CampusForumComment \<Rightarrow> CampusForumAuthor option \<Rightarrow> CampusForumAuthor option" where
  "reply_to_user authors c old =
     (if bc_reply_to_user_id c \<noteq> [] \<and> bc_reply_to_user_id c \<noteq> ''0'' then map_of authors (bc_reply_to_user_id c) else old)"

fun hydrate :: "(string \<times> CampusForumAuthor) list \<Rightarrow> (int \<Rightarrow> bool) \<Rightarrow> shown_comment \<Rightarrow> shown_comment" where
  "hydrate authors liked (ShownComment c a r l ps) =
     ShownComment c (map_of authors (bc_author_id c)) (reply_to_user authors c r) (liked (bc_id c)) (map (hydrate authors liked) ps)"

definition HydrateComments :: "'x account_ext_scheme \<Rightarrow> shown_comment list \<Rightarrow> string \<Rightarrow> shown_comment list io" where
  "HydrateComments X cs currentUserID = (if cs = [] then ret []
     else let flat = concat (map flattenComments cs) in
     io_bind (LoadAuthors X (foldl appendUniqueUserID [] (concat (map (\<lambda>c. [bc_author_id c, bc_reply_to_user_id c]) flat)))) (\<lambda>authors.
     io_bind (status_or_no currentUserID (GetCommentLikeStatus currentUserID (map bc_id flat))) (\<lambda>liked.
     ret (map (hydrate authors liked) cs))))"

definition show_comments :: "'x account_ext_scheme \<Rightarrow> CampusForumComment list \<Rightarrow> string \<Rightarrow> shown_comment list io" where
  "show_comments X cs user = io_bind (attempt (HydrateComments X (map plain_comment cs) user)) (\<lambda>r.
     ret (case r of Inr scs \<Rightarrow> scs | Inl e \<Rightarrow> map plain_comment cs))"

definition preview_query :: "CampusForumComment \<Rightarrow> ListCampusCommentQuery" where
  "preview_query c = \<lparr>cq_post_id = bc_post_id c, cq_parent_id = Some (bc_id c), cq_author_id = [],
     cq_statuses = [CampusAuditStatusVisible], cq_include_deleted = False, cq_offset = 0, cq_limit = 2\<rparr>"

text \<open>The first two replies of each comment, up to the first that cannot be read.\<close>

fun FillPreviewReplies :: "'x account_ext_scheme \<Rightarrow> shown_comment list \<Rightarrow> string \<Rightarrow> shown_comment list io" where
  "FillPreviewReplies X [] user = ret []"
| "FillPreviewReplies X (ShownComment c a r l ps # cs) user =
     (if bc_id c \<le> 0 \<or> bc_reply_count c \<le> 0
      then io_bind (FillPreviewReplies X cs user) (\<lambda>rest. ret (ShownComment c a r l ps # rest))
      else io_bind (attempt (io_bind (ListComments_repo (preview_query c)) (\<lambda>(replies, n).
          HydrateComments X (map plain_comment replies) user))) (\<lambda>res. case res of
        Inl e \<Rightarrow> ret (ShownComment c a r l ps # cs)
      | Inr replies \<Rightarrow> io_bind (FillPreviewReplies X cs user) (\<lambda>rest. ret (ShownComment c a r l replies # rest))))"

definition with_authors :: "(string \<times> CampusForumAuthor) list \<Rightarrow> listed_feedback list \<Rightarrow> listed_feedback list" where
  "with_authors authors fs = map (\<lambda>f. f\<lparr>fd_author := map_of authors (fd_user_id f)\<rparr>) fs"

definition HydrateFeedbackAuthors :: "'x account_ext_scheme \<Rightarrow> listed_feedback list \<Rightarrow> listed_feedback list io" where
  "HydrateFeedbackAuthors X fs = (if fs = [] then ret []
     else io_bind (LoadAuthors X (foldl appendUniqueUserID [] (map fd_user_id fs))) (\<lambda>authors. ret (with_authors authors fs)))"

subsection \<open>The pool of recommended posts\<close>

definition pool_set :: "env \<Rightarrow> int list \<Rightarrow> int list \<Rightarrow> unit io" where
  "pool_set E recommend hot w =
     (Inr (), w\<lparr>recommend_pool := \<lparr>cp_recommend = recommend, cp_hot = hot, cp_updated_at = now E\<rparr>\<rparr>)"

definition pool_ids :: "CampusRecommendPool \<Rightarrow> string \<Rightarrow> int list" where
  "pool_ids pool srt = (if srt = ''hot'' then cp_hot pool else if srt = ''recommend'' then cp_recommend pool else [])"

definition pool_get :: "CampusRecommendPool \<Rightarrow> string \<Rightarrow> int \<Rightarrow> int \<Rightarrow> int list option" where
  "pool_get pool srt offset limit = (if offset < 0 \<or> limit \<le> 0 then None
     else let ids = pool_ids pool srt in
     if ids = [] \<or> int (length ids) \<le> offset then None
     else let last = (if int (length ids) < offset + limit then int (length ids) else offset + limit) in
       Some (take (nat (last - offset)) (drop (nat offset) ids)))"

definition pool_total :: "CampusRecommendPool \<Rightarrow> string \<Rightarrow> int" where
  "pool_total pool srt = int (length (pool_ids pool srt))"

definition public_query :: "string \<Rightarrow> int \<Rightarrow> int \<Rightarrow> ListCampusPostQuery" where
  "public_query srt offset limit = \<lparr>q_category_code = [], q_post_type = [], q_sort = srt, q_keyword = [], q_author_id = [],
     q_collected_by = [], q_statuses = [CampusAuditStatusVisible], q_include_deleted = False, q_only_reported = False,
     q_only_official = None, q_only_featured = None, q_only_pinned = None, q_offset = offset, q_limit = limit\<rparr>"

definition postIDs :: "CampusForumPost list \<Rightarrow> int list" where
  "postIDs ps = filter (\<lambda>i. 0 < i) (map bp_id ps)"

definition RefreshCampusRecommendPool :: "env \<Rightarrow> 'x feed_ext_scheme \<Rightarrow> unit io" where
  "RefreshCampusRecommendPool E X =
     io_bind (or_fail (internal msg_refresh_recommend_failed) (ListPosts_repo E X (public_query ''recommend'' 0 200))) (\<lambda>(rec, n).
     io_bind (or_fail (internal msg_refresh_hot_failed) (ListPosts_repo E X (public_query ''hot'' 0 200))) (\<lambda>(hot, m).
     pool_set E (postIDs rec) (postIDs hot)))"

definition EligibleForRecommendPool :: "ListCampusPostQuery \<Rightarrow> bool" where
  "EligibleForRecommendPool q \<longleftrightarrow> (q_sort q = ''recommend'' \<or> q_sort q = ''hot'') \<and> q_category_code q = [] \<and>
     q_post_type q = [] \<and> q_keyword q = [] \<and> q_author_id q = [] \<and> q_collected_by q = [] \<and> \<not> q_include_deleted q \<and>
     q_only_official q = None \<and> q_only_featured q = None \<and> q_only_pinned q = None \<and> \<not> q_only_reported q"

text \<open>\<open>None\<close>: the pool was not used.\<close>

definition listPostsFromPool :: "ListCampusPostQuery \<Rightarrow> (CampusForumPost list \<times> int) option io" where
  "listPostsFromPool q = io_bind get_world (\<lambda>w.
     if \<not> EligibleForRecommendPool q then ret None
     else case pool_get (recommend_pool w) (q_sort q) (q_offset q) (q_limit q) of
       None \<Rightarrow> ret None
     | Some ids \<Rightarrow> if ids = [] then ret None
         else io_bind (ListPostsByIDs ids (q_statuses q)) (\<lambda>ps.
           ret (Some (ps, pool_total (recommend_pool w) (q_sort q)))))"

subsection \<open>The feeds\<close>

record ListCampusPostsInput =
  lp_current_user_id :: string
  lp_author_id :: string
  lp_category_code :: string
  lp_post_type :: string
  lp_sort :: string
  lp_keyword :: string
  lp_page :: "32 word"
  lp_size :: "32 word"

definition with_page :: "32 word \<Rightarrow> 32 word \<Rightarrow> ListCampusPostQuery \<Rightarrow> ListCampusPostQuery" where
  "with_page page0 size0 q = (case normalizePage page0 size0 of (page, sz) \<Rightarrow>
     q\<lparr>q_offset := page_offset page sz, q_limit := sint sz\<rparr>)"

definition feed_query :: "ListCampusPostsInput \<Rightarrow> ListCampusPostQuery" where
  "feed_query input = with_page (lp_page input) (lp_size input)
     ((public_query (normalizeCampusPostSort (lp_sort input) ''recommend'') 0 0)
      \<lparr>q_category_code := trim_space (lp_category_code input), q_post_type := trim_space (lp_post_type input),
       q_keyword := trim_space (lp_keyword input)\<rparr>)"

definition feed_page :: "env \<Rightarrow> 'x feed_ext_scheme \<Rightarrow> ListCampusPostQuery \<Rightarrow> (CampusForumPost list \<times> int) io" where
  "feed_page E X q = io_bind (attempt (listPostsFromPool q)) (\<lambda>pool. case pool of
     Inr (Some page) \<Rightarrow> ret page
   | _ \<Rightarrow> or_fail (internal msg_list_posts_failed) (ListPosts_repo E X q))"

definition show_page :: "'x account_ext_scheme \<Rightarrow> string \<Rightarrow> (CampusForumPost list \<times> int) io \<Rightarrow> (shown_post list \<times> int) io" where
  "show_page X user m = io_bind m (\<lambda>(ps, n). io_bind (show_posts X ps user) (\<lambda>sps. ret (sps, n)))"

definition ListPosts :: "env \<Rightarrow> 'x feed_ext_scheme \<Rightarrow> ListCampusPostsInput \<Rightarrow> (shown_post list \<times> int) io" where
  "ListPosts E X input = show_page X (lp_current_user_id input) (feed_page E X (feed_query input))"

definition my_query :: "ListCampusPostsInput \<Rightarrow> ListCampusPostQuery" where
  "my_query input = (feed_query input)\<lparr>q_sort := normalizeCampusPostSort (lp_sort input) ''new'',
     q_author_id := lp_current_user_id input, q_statuses := []\<rparr>"

definition ListMyPosts :: "env \<Rightarrow> 'x feed_ext_scheme \<Rightarrow> ListCampusPostsInput \<Rightarrow> (shown_post list \<times> int) io" where
  "ListMyPosts E X input = require_login (lp_current_user_id input) (show_page X (lp_current_user_id input)
     (or_fail (internal msg_list_my_posts_failed) (ListPosts_repo E X (my_query input))))"

definition collections_query :: "ListCampusPostsInput \<Rightarrow> ListCampusPostQuery" where
  "collections_query input = (feed_query input)\<lparr>q_sort := normalizeCampusPostSort (lp_sort input) ''new'',
     q_collected_by := lp_current_user_id input\<rparr>"

definition ListMyCollections :: "env \<Rightarrow> 'x feed_ext_scheme \<Rightarrow> ListCampusPostsInput \<Rightarrow> (shown_post list \<times> int) io" where
  "ListMyCollections E X input = require_login (lp_current_user_id input) (show_page X (lp_current_user_id input)
     (or_fail (internal msg_list_my_collections_failed) (ListPosts_repo E X (collections_query input))))"

definition user_posts_query :: "ListCampusPostsInput \<Rightarrow> ListCampusPostQuery" where
  "user_posts_query input = (let srt = normalizeCampusPostSort (lp_sort input) ''new'' in
     with_page (lp_page input) (lp_size input) ((public_query (if srt = ''recommend'' then ''new'' else srt) 0 0)
       \<lparr>q_post_type := trim_space (lp_post_type input), q_author_id := trim_space (lp_author_id input)\<rparr>))"

definition ListPublicUserPosts :: "env \<Rightarrow> 'x feed_ext_scheme \<Rightarrow> ListCampusPostsInput \<Rightarrow> (shown_post list \<times> int) io" where
  "ListPublicUserPosts E X input = (let authorID = trim_space (lp_author_id input) in
     if authorID = [] \<or> authorID = ''0'' then fail (InvalidArgument msg_user_id_invalid)
     else show_page X (lp_current_user_id input)
       (or_fail (internal msg_list_user_posts_failed) (ListPosts_repo E X (user_posts_query input))))"

record CampusPublicUserProfile =
  pp_user_id :: string
  pp_name :: string
  pp_nickname :: string
  pp_avatar :: string
  pp_school_name :: string
  pp_auth_status :: int
  pp_is_official :: bool
  pp_bio :: string
  pp_stats :: CampusPublicUserStats

definition public_bio :: "bool \<Rightarrow> int \<Rightarrow> string" where
  "public_bio official authStatus = (if official then msg_official_bio
     else if authStatus = CampusAuthStatusVerified then msg_verified_bio else msg_community_bio)"

definition GetPublicCampusUserProfile :: "env \<Rightarrow> 'x account_ext_scheme \<Rightarrow> string \<Rightarrow> CampusPublicUserProfile io" where
  "GetPublicCampusUserProfile E X user0 = (let userID = trim_space user0 in
     if userID = [] \<or> userID = ''0'' then fail (InvalidArgument msg_user_id_invalid)
     else io_bind (or_fail (internal msg_user_info_failed) (core_get_user X userID [])) (\<lambda>found. case found of
       None \<Rightarrow> fail (NotFound msg_user_not_found)
     | Some u \<Rightarrow> if trim_space (ui_id u) = [] \<or> trim_space (ui_id u) = ''0'' then fail (NotFound msg_user_not_found)
       else io_bind (or_fail (internal msg_user_stats_failed) (GetPublicUserPostStats userID)) (\<lambda>stats.
       io_bind (if ps_has_official_post stats then ret True else isCampusOperator E userID) (\<lambda>official.
       io_bind (attempt (GetProfileByUserID userID)) (\<lambda>p.
       let profile = (case p of Inr pr \<Rightarrow> pr | Inl e \<Rightarrow> None);
         status = (case profile of None \<Rightarrow> 0 | Some pr \<Rightarrow> pr_auth_status pr) in
       ret \<lparr>pp_user_id = ui_id u, pp_name = firstNonEmpty [ui_nickname u, ui_name u, msg_shenshan_classmate],
         pp_nickname = ui_nickname u, pp_avatar = ui_avatar u,
         pp_school_name = (case profile of None \<Rightarrow> [] | Some pr \<Rightarrow> pr_school_name pr), pp_auth_status = status,
         pp_is_official = official, pp_bio = public_bio official status, pp_stats = stats\<rparr>)))))"

subsection \<open>Comments below a post\<close>

record ListCampusCommentsInput =
  lc_post_id :: int
  lc_user_id :: string
  lc_comment_id :: int
  lc_current_user_id :: string
  lc_page :: "32 word"
  lc_size :: "32 word"

definition comment_query :: "32 word \<Rightarrow> 32 word \<Rightarrow> int \<Rightarrow> int option \<Rightarrow> string \<Rightarrow> ListCampusCommentQuery" where
  "comment_query page0 size0 postID parentID authorID = (case normalizePage page0 size0 of (page, sz) \<Rightarrow>
     \<lparr>cq_post_id = postID, cq_parent_id = parentID, cq_author_id = authorID, cq_statuses = [CampusAuditStatusVisible],
      cq_include_deleted = False, cq_offset = page_offset page sz, cq_limit = sint sz\<rparr>)"

definition ListComments :: "'x account_ext_scheme \<Rightarrow> ListCampusCommentsInput \<Rightarrow> (shown_comment list \<times> int) io" where
  "ListComments X input = (if lc_post_id input \<le> 0 then fail (InvalidArgument msg_post_id_invalid)
     else io_bind (or_fail (internal msg_list_comments_failed)
         (ListComments_repo (comment_query (lc_page input) (lc_size input) (lc_post_id input) (Some 0) []))) (\<lambda>(cs, n).
       io_bind (show_comments X cs (lc_current_user_id input)) (\<lambda>scs.
       io_bind (FillPreviewReplies X scs (lc_current_user_id input)) (\<lambda>full. ret (full, n)))))"

definition ListCommentReplies :: "'x account_ext_scheme \<Rightarrow> ListCampusCommentsInput \<Rightarrow> (shown_comment list \<times> int) io" where
  "ListCommentReplies X input = (if lc_comment_id input \<le> 0 then fail (InvalidArgument msg_comment_id_invalid)
     else io_bind (or_fail (internal msg_query_comment_failed) (GetCommentByID (lc_comment_id input))) (\<lambda>found. case found of
       None \<Rightarrow> fail (NotFound msg_comment_not_found)
     | Some c \<Rightarrow> if bc_status c \<noteq> CampusAuditStatusVisible then fail (NotFound msg_comment_not_found)
       else let rootID = (if 0 < bc_parent_id c then bc_parent_id c else bc_id c) in
       io_bind (or_fail (internal msg_list_replies_failed)
         (ListComments_repo (comment_query (lc_page input) (lc_size input) (bc_post_id c) (Some rootID) []))) (\<lambda>(cs, n).
       io_bind (show_comments X cs (lc_current_user_id input)) (\<lambda>scs. ret (scs, n)))))"

text \<open>The posts of the comments are added when they can be read.\<close>

definition with_posts :: "shown_comment list \<Rightarrow> (shown_comment \<times> CampusForumPost option) list io" where
  "with_posts scs = io_bind (attempt (FillCommentPosts (map sc_comment scs))) (\<lambda>r.
     ret (case r of Inr ps \<Rightarrow> zip scs (map snd ps) | Inl e \<Rightarrow> map (\<lambda>c. (c, None)) scs))"

definition ListMyComments ::
    "'x account_ext_scheme \<Rightarrow> ListCampusCommentsInput \<Rightarrow> ((shown_comment \<times> CampusForumPost option) list \<times> int) io" where
  "ListMyComments X input = require_login (lc_user_id input) (
     io_bind (or_fail (internal msg_list_my_comments_failed)
       (ListComments_repo (comment_query (lc_page input) (lc_size input) 0 None (lc_user_id input)))) (\<lambda>(cs, n).
     io_bind (show_comments X cs (lc_user_id input)) (\<lambda>scs.
     io_bind (with_posts scs) (\<lambda>out. ret (out, n)))))"

subsection \<open>Listings for the operators\<close>

record ListCampusModerationInput =
  lm_user_id :: string
  lm_status :: int
  lm_page :: "32 word"
  lm_size :: "32 word"

definition moderation_status :: "int \<Rightarrow> int" where
  "moderation_status status = (if status < CampusAuditStatusPending \<or> CampusAuditStatusDeleted < status
     then CampusAuditStatusPending else status)"

definition moderation_query :: "ListCampusModerationInput \<Rightarrow> ListCampusPostQuery" where
  "moderation_query input = with_page (lm_page input) (lm_size input)
     ((public_query ''new'' 0 0)\<lparr>q_statuses := [moderation_status (lm_status input)]\<rparr>)"

definition ListModerationPosts :: "env \<Rightarrow> 'x feed_ext_scheme \<Rightarrow> ListCampusModerationInput \<Rightarrow> (shown_post list \<times> int) io" where
  "ListModerationPosts E X input = require_operator E (lm_user_id input) msg_no_review_right (show_page X (lm_user_id input)
     (or_fail (internal msg_list_moderation_posts_failed) (ListPosts_repo E X (moderation_query input))))"

definition ListModerationComments ::
    "env \<Rightarrow> 'x account_ext_scheme \<Rightarrow> ListCampusModerationInput \<Rightarrow> (shown_comment list \<times> int) io" where
  "ListModerationComments E X input = require_operator E (lm_user_id input) msg_no_review_right (
     io_bind (or_fail (internal msg_list_moderation_comments_failed) (ListComments_repo
       ((comment_query (lm_page input) (lm_size input) 0 None [])\<lparr>cq_statuses := [moderation_status (lm_status input)]\<rparr>)))
     (\<lambda>(cs, n). io_bind (show_comments X cs (lm_user_id input)) (\<lambda>scs. ret (scs, n))))"

definition wanted_statuses :: "int \<Rightarrow> int list" where
  "wanted_statuses status = (if CampusAuditStatusPending \<le> status \<and> status \<le> CampusAuditStatusDeleted then [status] else [])"

record ListCampusAdminPostsInput =
  la_user_id :: string
  la_category_code :: string
  la_post_type :: string
  la_ops_filter :: string
  la_keyword :: string
  la_status :: int
  la_sort :: string
  la_page :: "32 word"
  la_size :: "32 word"

definition admin_query :: "ListCampusAdminPostsInput \<Rightarrow> ListCampusPostQuery" where
  "admin_query input = (case parseOpsFilter (la_ops_filter input) of (official, featured, pinned, reported) \<Rightarrow>
     with_page (la_page input) (la_size input) \<lparr>q_category_code = trim_space (la_category_code input),
       q_post_type = trim_space (la_post_type input), q_sort = normalizeCampusPostSort (la_sort input) ''new'',
       q_keyword = trim_space (la_keyword input), q_author_id = [], q_collected_by = [],
       q_statuses = wanted_statuses (la_status input), q_include_deleted = True, q_only_reported = reported,
       q_only_official = official, q_only_featured = featured, q_only_pinned = pinned, q_offset = 0, q_limit = 0\<rparr>)"

text \<open>The newest audit task of each target.\<close>

definition newest_task :: "string \<Rightarrow> int \<Rightarrow> campusAIContentAuditTaskModel list \<Rightarrow> campusAIContentAuditTaskModel option" where
  "newest_task targetType targetID rows = (case sort_key (\<lambda>r. (- t_created_at r, - t_id r))
     (filter (\<lambda>r. at_target_type r = targetType \<and> at_target_id r = targetID) rows) of [] \<Rightarrow> None | r # rs \<Rightarrow> Some r)"

definition GetLatestAIContentAuditTask :: "string \<Rightarrow> int \<Rightarrow> campusAIContentAuditTaskModel option io" where
  "GetLatestAIContentAuditTask targetType targetID = sql_query (\<lambda>t. newest_task targetType targetID (ai_audit_tasks t))"

definition GetLatestAIContentAuditTasks :: "string \<Rightarrow> int list \<Rightarrow> (int \<Rightarrow> campusAIContentAuditTaskModel option) io" where
  "GetLatestAIContentAuditTasks targetType ids = (if ids = [] then ret (\<lambda>_. None)
     else sql_query (\<lambda>t i. if i \<in> set ids then newest_task targetType i (ai_audit_tasks t) else None))"

definition attachLatestAIAuditTasks :: "shown_post list \<Rightarrow> shown_post list io" where
  "attachLatestAIAuditTasks ps = (let ids = filter (\<lambda>i. 0 < i) (map (\<lambda>p. bp_id (sp_post p)) ps) in
     if ids = [] then ret ps
     else io_bind (attempt (GetLatestAIContentAuditTasks ''post'' ids)) (\<lambda>r. case r of
       Inl e \<Rightarrow> ret ps
     | Inr found \<Rightarrow> ret (map (\<lambda>p. case found (bp_id (sp_post p)) of None \<Rightarrow> p
         | Some k \<Rightarrow> p\<lparr>sp_ai_audit := Some (t_status k, at_risk_level k, at_decision k, at_reason k, at_last_error k)\<rparr>) ps)))"

definition AdminListPosts :: "env \<Rightarrow> 'x feed_ext_scheme \<Rightarrow> ListCampusAdminPostsInput \<Rightarrow> (shown_post list \<times> int) io" where
  "AdminListPosts E X input = require_operator E (la_user_id input) msg_no_admin_right (
     io_bind (show_page X (la_user_id input)
       (or_fail (internal msg_admin_list_posts_failed) (ListPosts_repo E X (admin_query input)))) (\<lambda>(sps, n).
     io_bind (attachLatestAIAuditTasks sps) (\<lambda>out. ret (out, n))))"

record ListCampusAdminCommentsInput =
  lk_user_id :: string
  lk_status :: int
  lk_post_id :: int
  lk_page :: "32 word"
  lk_size :: "32 word"

definition AdminListComments ::
    "env \<Rightarrow> 'x account_ext_scheme \<Rightarrow> ListCampusAdminCommentsInput \<Rightarrow> ((shown_comment \<times> CampusForumPost option) list \<times> int) io"
where
  "AdminListComments E X input = require_operator E (lk_user_id input) msg_no_admin_right (
     io_bind (or_fail (internal msg_admin_list_comments_failed) (ListComments_repo
       ((comment_query (lk_page input) (lk_size input) (lk_post_id input) None [])
        \<lparr>cq_statuses := wanted_statuses (lk_status input), cq_include_deleted := True\<rparr>))) (\<lambda>(cs, n).
     io_bind (show_comments X cs (lk_user_id input)) (\<lambda>scs.
     io_bind (with_posts scs) (\<lambda>out. ret (out, n)))))"

record ListCampusReportsInput =
  lr_user_id :: string
  lr_status :: int
  lr_page :: "32 word"
  lr_size :: "32 word"

definition AdminListReports :: "env \<Rightarrow> 'x ops_ext_scheme \<Rightarrow> ListCampusReportsInput \<Rightarrow> (CampusForumReport list \<times> int) io" where
  "AdminListReports E Ops input = require_operator E (lr_user_id input) msg_no_admin_right (
     case normalizePage (lr_page input) (lr_size input) of (page, sz) \<Rightarrow>
     or_fail (internal msg_list_reports_failed) (ListReports Ops
       (if lr_status input < 0 \<or> 2 < lr_status input then -1 else lr_status input) (page_offset page sz) (sint sz)))"

definition AdminListFeedback :: "env \<Rightarrow> 'x account_ext_scheme \<Rightarrow> ListCampusReportsInput \<Rightarrow> (listed_feedback list \<times> int) io" where
  "AdminListFeedback E X input = require_operator E (lr_user_id input) msg_no_admin_right (
     case normalizePage (lr_page input) (lr_size input) of (page, sz) \<Rightarrow>
     io_bind (or_fail (internal msg_list_feedback_failed) (ListFeedback
       (if lr_status input < -1 \<or> 2 < lr_status input then -1 else lr_status input) (page_offset page sz) (sint sz))) (\<lambda>(fs, n).
     io_bind (attempt (HydrateFeedbackAuthors X fs)) (\<lambda>r.
     ret (case r of Inr out \<Rightarrow> out | Inl e \<Rightarrow> fs, n))))"

subsection \<open>Reading changes nothing\<close>

lemma query_frames [frames]: "keeps g (sql_query f)"
  unfolding sql_query_def by (intro keeps_command; simp)

lemma query_InrE:
  assumes "sql_query f w = (Inr x, w')"
  obtains fs where "w' = w\<lparr>faults := fs\<rparr>" and "x = f (db w)"
  using assms unfolding sql_query_def by (auto elim!: command_InrE)

lemma doc_frames [frames]: "keeps g (getCachedDoc E key)" "keeps g (setCachedDoc E key d ttl)"
proof -
  let ?c = "command (\<lambda>w. (Inr (map_of (other_cache w) key), w))"
  have c: "keeps g ?c" by (rule keeps_command) simp
  show "keeps g (getCachedDoc E key)" unfolding keeps_def
  proof
    fix w
    show "g (db (snd (getCachedDoc E key w))) = g (db w)"
      using c [unfolded keeps_def, rule_format, of w]
      by (cases "?c w") (auto simp: getCachedDoc_def split: sum.splits option.splits)
  qed
  have "keeps g (ignore (command (\<lambda>w. (Inr (), w\<lparr>other_cache := AList.update key (d, now E + ttl) (other_cache w)\<rparr>))))"
    by (intro frames keeps_command) simp
  then show "keeps g (setCachedDoc E key d ttl)" by (simp add: keeps_def setCachedDoc_def)
qed

lemma doc_cases [frames]:
  "(\<And>ids n. keeps g (a ids n)) \<Longrightarrow> (\<And>cs. keeps g (b cs)) \<Longrightarrow> (\<And>ks. keeps g (k ks)) \<Longrightarrow>
     keeps g (case d of campusPostListCache ids n \<Rightarrow> a ids n | CachedCandidates cs \<Rightarrow> b cs | CachedCategories ks \<Rightarrow> k ks)"
  by (cases d) auto

lemma names_frames [frames]: "keeps g (fillPostCategoryNames ps)" "keeps g (ListPostsByIDs ids ss)"
  unfolding ListPostsByIDs_def fillPostCategoryNames_def Let_def by (intro frames)+

lemma key_frames [frames]: "keeps g (postListCacheKey E X q)"
proof -
  have "keeps g (postFeedCacheVersion E)"
    by (auto simp: keeps_def postFeedCacheVersion_def command_def split: list.splits)
  then show ?thesis unfolding postListCacheKey_def Let_def by (intro frames)
qed

lemma listing_frames [frames]:
  "keeps g (ListPosts_db E X q)" "keeps g (ListPosts_repo E X q)" "keeps g (listPostsFromPool q)"
proof -
  show a: "keeps g (ListPosts_db E X q)" unfolding ListPosts_db_def by (intro frames)
  show "keeps g (ListPosts_repo E X q)" unfolding ListPosts_repo_def Let_def by (intro frames a)
  show "keeps g (listPostsFromPool q)" unfolding listPostsFromPool_def by (intro frames)
qed

subsection \<open>What a list of posts shows\<close>

lemma fill_names_InrE:
  assumes "fillPostCategoryNames ps w = (Inr qs, w')"
  obtains f where "qs = map (\<lambda>p. p\<lparr>bp_category_name := f p\<rparr>) ps"
proof (cases "remdups (filter (\<lambda>c. c \<noteq> []) (map bp_category_code ps)) = []")
  case True
  with assms have "qs = ps" by (simp add: fillPostCategoryNames_def Let_def)
  then show ?thesis using that [of bp_category_name] by simp
next
  case False
  let ?named = "\<lambda>rows :: campusForumCategoryModel list. map (\<lambda>p. p\<lparr>bp_category_name :=
      map_get (map (\<lambda>r. (cat_code r, cat_name r)) rows) (bp_category_code p)\<rparr>) ps"
  let ?codes = "remdups (filter (\<lambda>c. c \<noteq> []) (map bp_category_code ps))"
  from False assms have "io_bind (sql_find categories (\<lambda>r. cat_code r \<in> set ?codes)) (\<lambda>rows. ret (?named rows)) w = (Inr qs, w')"
    by (simp add: fillPostCategoryNames_def Let_def)
  then obtain rows w1 where "ret (?named rows) w1 = (Inr qs, w')" by (rule io_bind_InrE)
  then have "qs = ?named rows" by (simp del: map_eq_conv)
  then show ?thesis by (rule that)
qed

text \<open>\<open>p\<close> is what the table has in a row with \<open>Q\<close>, except for the name of its board.\<close>

definition shows_row :: "tables \<Rightarrow> (campusForumPostModel \<Rightarrow> bool) \<Rightarrow> CampusForumPost \<Rightarrow> bool" where
  "shows_row t Q p \<longleftrightarrow> (\<exists>r \<in> set (posts t). Q r \<and> p = (toBizPost r)\<lparr>bp_category_name := bp_category_name p\<rparr>)"

lemma named_rows:
  assumes "fillPostCategoryNames (map toBizPost rows) w = (Inr ps, w')" and "p \<in> set ps"
    and "\<And>r. r \<in> set rows \<Longrightarrow> r \<in> set (posts t) \<and> Q r"
  shows "shows_row t Q p"
proof -
  from assms(1) obtain f where "ps = map (\<lambda>p. p\<lparr>bp_category_name := f p\<rparr>) (map toBizPost rows)" by (rule fill_names_InrE)
  with assms(2) obtain r where "r \<in> set rows" and "p = (toBizPost r)\<lparr>bp_category_name := f (toBizPost r)\<rparr>" by auto
  with assms(3) show ?thesis unfolding shows_row_def by (intro bexI [of _ r]) auto
qed

lemma set_page_of: "x \<in> set (page_of offset limit xs) \<Longrightarrow> x \<in> set xs"
  by (auto simp: page_of_def Let_def dest: in_set_takeD in_set_dropD split: if_splits)

lemma post_page_rows:
  assumes "r \<in> set (post_page E X q t)"
  shows "r \<in> set (posts t) \<and> post_matches X q t r"
  using assms by (auto simp: post_page_def post_rows_def dest!: set_page_of split: if_splits)

definition listable :: "ListCampusPostQuery \<Rightarrow> campusForumPostModel \<Rightarrow> bool" where
  "listable q r \<longleftrightarrow> \<not> p_is_deleted r \<and> (q_statuses q \<noteq> [] \<longrightarrow> p_status r \<in> set (q_statuses q))"

lemma ListPostsByIDs_shows:
  assumes "ListPostsByIDs ids (q_statuses q) w = (Inr ps, w')" and "p \<in> set ps"
  shows "shows_row (db w) (listable q) p"
proof -
  let ?rows = "filter (\<lambda>r. p_id r \<in> set ids \<and> \<not> p_is_deleted r \<and>
             (q_statuses q \<noteq> [] \<longrightarrow> p_status r \<in> set (q_statuses q))) (posts (db w))"
  from assms obtain w1 qs i where
    n: "fillPostCategoryNames (map toBizPost ?rows) w1 = (Inr qs, w')" and "find (\<lambda>p. bp_id p = i) qs = Some p"
    by (auto simp: ListPostsByIDs_def elim!: io_bind_InrE sql_find_InrE split: if_splits option.splits dest!: sym [of "Some _"])
  then have p: "p \<in> set qs" using find_SomeD by fast
  show ?thesis by (rule named_rows [OF n p]) (auto simp: listable_def)
qed

lemma ListPosts_db_shows:
  assumes "ListPosts_db E X q w = (Inr (ps, n), w')" and "p \<in> set ps"
  shows "shows_row (db w) (post_matches X q (db w)) p"
proof -
  from assms(1) obtain w1 where f: "fillPostCategoryNames (map toBizPost (post_page E X q (db w))) w1 = (Inr ps, w')"
    by (auto simp: ListPosts_db_def elim!: io_bind_InrE query_InrE)
  show ?thesis by (rule named_rows [OF f assms(2)]) (rule post_page_rows)
qed

lemma shows_row_mono: "shows_row t Q p \<Longrightarrow> (\<And>r. Q r \<Longrightarrow> Q' r) \<Longrightarrow> shows_row t Q' p"
  by (auto simp: shows_row_def)

text \<open>Whatever the cache holds.\<close>

lemma ListPosts_repo_shows:
  assumes "ListPosts_repo E X q w = (Inr (ps, n), w')" and "p \<in> set ps" and "\<not> q_include_deleted q"
  shows "shows_row (db w) (listable q) p"
proof -
  have db: "shows_row t (listable q) p" if "ListPosts_db E X q w1 = (Inr (ps, m), w2)" "db w1 = t" for w1 w2 m t
    using ListPosts_db_shows [OF that(1) assms(2)] assms(3) that(2)
    by (auto simp: listable_def post_matches_def elim!: shows_row_mono)
  show ?thesis
  proof (cases "shouldCachePostList E w q")
    case False
    with assms(1) db show ?thesis by (auto simp: ListPosts_repo_def get_world_def io_bind_def [of get_world])
  next
    case True
    let ?miss = "\<lambda>key. io_bind (ListPosts_db E X q) (\<lambda>(ps, n).
         io_then (setCachedDoc E key (campusPostListCache (map bp_id ps) n) (campusPostListCacheTTL E)) (ret (ps, n)))"
    have miss: "shows_row t (listable q) p" if "?miss key w1 = (Inr (ps, n), w')" "db w1 = t" for key w1 t
      using that by (auto elim!: io_bind_InrE io_then_InrE intro: db)
    from True assms(1) obtain key w1 cached w2 where k: "postListCacheKey E X q w = (Inr key, w1)"
      and c: "getCachedDoc E key w1 = (Inr cached, w2)"
      and rest: "(case cached of
         Some (campusPostListCache ids n) \<Rightarrow>
           io_bind (attempt (ListPostsByIDs ids (q_statuses q))) (\<lambda>r. case r of Inr ps \<Rightarrow> ret (ps, n) | Inl e \<Rightarrow> ?miss key)
       | _ \<Rightarrow> ?miss key) w2 = (Inr (ps, n), w')"
      by (auto simp: ListPosts_repo_def get_world_def io_bind_def [of get_world] Let_def elim!: io_bind_InrE)
    have d2: "db w2 = db w"
      using keepsD [OF key_frames [where g = "\<lambda>t. t"] k] keepsD [OF doc_frames(1) [where g = "\<lambda>t. t"] c] by simp
    show ?thesis
    proof (cases "\<exists>ids m. cached = Some (campusPostListCache ids m)")
      case False
      then have "?miss key w2 = (Inr (ps, n), w')" using rest by (auto split: option.splits cached_doc.splits)
      then show ?thesis by (rule miss) (rule d2)
    next
      case True
      then obtain ids m where "cached = Some (campusPostListCache ids m)" by blast
      with rest obtain r w3 where a: "attempt (ListPostsByIDs ids (q_statuses q)) w2 = (Inr r, w3)"
        and k: "(case r of Inr ps \<Rightarrow> ret (ps, m) | Inl e \<Rightarrow> ?miss key) w3 = (Inr (ps, n), w')"
        by (auto elim!: io_bind_InrE)
      have l: "ListPostsByIDs ids (q_statuses q) w2 = (r, w3)" using a by (auto elim: attempt_E)
      show ?thesis
      proof (cases r)
        case (Inl e)
        then show ?thesis using k keepsD [OF names_frames(2) [where g = "\<lambda>t. t"] l] d2 by (auto intro: miss)
      next
        case (Inr qs)
        then show ?thesis using k ListPostsByIDs_shows [of ids q w2 qs w3 p] l assms(2) d2 by simp
      qed
    qed
  qed
qed

lemma HydratePosts_posts: "HydratePosts X ps u w = (Inr sps, w') \<Longrightarrow> map sp_post sps = ps"
  by (auto simp: HydratePosts_def o_def split: if_splits elim!: io_bind_InrE)

lemma show_posts_posts: "show_posts X ps u w = (Inr sps, w') \<Longrightarrow> map sp_post sps = ps"
  by (auto simp: show_posts_def plain_post_def o_def elim!: io_bind_InrE attempt_E split: sum.splits dest: HydratePosts_posts)

lemma show_page_InrE:
  assumes "show_page X u m w = (Inr (sps, n), w')"
  obtains ps w1 where "m w = (Inr (ps, n), w1)" and "map sp_post sps = ps"
  using assms by (auto simp: show_page_def elim!: io_bind_InrE dest: show_posts_posts)

lemma show_page_shows:
  assumes "show_page X u m w = (Inr (sps, n), w')" and "sp \<in> set sps"
    and "\<And>ps w1 p. m w = (Inr (ps, n), w1) \<Longrightarrow> p \<in> set ps \<Longrightarrow> shows_row t Q p"
  shows "shows_row t Q (sp_post sp)"
proof -
  from assms(1) obtain ps w1 where "m w = (Inr (ps, n), w1)" and "map sp_post sps = ps" by (rule show_page_InrE)
  with assms(2,3) show ?thesis by force
qed

lemma pool_shows:
  assumes "listPostsFromPool q w = (Inr (Some (ps, n)), w')" and "p \<in> set ps"
  shows "shows_row (db w) (listable q) p"
  using assms by (auto simp: listPostsFromPool_def get_world_def io_bind_def [of get_world] elim!: io_bind_InrE
      intro: ListPostsByIDs_shows split: if_splits option.splits)

lemma feed_page_shows:
  assumes "feed_page E X q w = (Inr (ps, n), w')" and "p \<in> set ps" and "\<not> q_include_deleted q"
  shows "shows_row (db w) (listable q) p"
proof -
  from assms(1) obtain r w1 where a: "attempt (listPostsFromPool q) w = (Inr r, w1)"
    and k: "(case r of Inr (Some page) \<Rightarrow> ret page | _ \<Rightarrow> or_fail (internal msg_list_posts_failed) (ListPosts_repo E X q)) w1 = (Inr (ps, n), w')"
    unfolding feed_page_def by (elim io_bind_InrE)
  from a have l: "listPostsFromPool q w = (r, w1)" by (auto elim: attempt_E)
  have d: "db w1 = db w" using keepsD [OF listing_frames(3) [where g = "\<lambda>t. t"] l] by simp
  show ?thesis
  proof (cases "\<exists>page. r = Inr (Some page)")
    case True
    with k l assms(2) show ?thesis by (auto intro: pool_shows)
  next
    case False
    with k have "ListPosts_repo E X q w1 = (Inr (ps, n), w')" by (auto elim!: or_fail_InrE split: sum.splits option.splits)
    from ListPosts_repo_shows [OF this assms(2,3)] d show ?thesis by simp
  qed
qed

lemma query_fields:
  "q_statuses (feed_query i) = [CampusAuditStatusVisible]" "\<not> q_include_deleted (feed_query i)"
  "q_statuses (collections_query i) = [CampusAuditStatusVisible]" "\<not> q_include_deleted (collections_query i)"
  "q_statuses (user_posts_query i) = [CampusAuditStatusVisible]" "\<not> q_include_deleted (user_posts_query i)"
  "q_author_id (user_posts_query i) = trim_space (lp_author_id i)"
  "q_statuses (my_query i) = []" "\<not> q_include_deleted (my_query i)" "q_author_id (my_query i) = lp_current_user_id i"
  by (simp_all add: feed_query_def with_page_def public_query_def collections_query_def user_posts_query_def my_query_def Let_def
      split: prod.splits)

text \<open>A query by author is never answered from the cache.\<close>

lemma author_query:
  assumes "ListPosts_repo E X q w = (Inr (ps, n), w')" and "p \<in> set ps" and "q_author_id q \<noteq> []" and "\<not> q_include_deleted q"
  shows "shows_row (db w) (\<lambda>r. listable q r \<and> p_author_id r = parseID (q_author_id q)) p"
proof -
  have c: "\<not> shouldCachePostList E w q" using assms(3) by (simp add: shouldCachePostList_def)
  have "ListPosts_db E X q w = (Inr (ps, n), w')"
    using assms(1) c by (simp add: ListPosts_repo_def get_world_def io_bind_def [of get_world])
  from ListPosts_db_shows [OF this assms(2)] show ?thesis
    using assms(3,4) by (auto simp: post_matches_def listable_def elim!: shows_row_mono)
qed

text \<open>
  C35. What the lists show: the public feed, a user's collections and the posts of another user show
  posts that are visible now and nothing else, whatever the cache or the pool holds; the posts of
  another user are that user's, and the own list shows the user's own posts that are not withdrawn.
  What is shown is the content of the row in the table. So whatever fails on the way.
\<close>

theorem lists_show_visible_posts:
  "(\<forall>sps n w'. ListPosts E X input w = (Inr (sps, n), w') \<longrightarrow> (\<forall>sp \<in> set sps.
      shows_row (db w) (\<lambda>r. \<not> p_is_deleted r \<and> p_status r = CampusAuditStatusVisible) (sp_post sp))) \<and>
   (\<forall>sps n w'. ListMyCollections E X input w = (Inr (sps, n), w') \<longrightarrow> (\<forall>sp \<in> set sps.
      shows_row (db w) (\<lambda>r. \<not> p_is_deleted r \<and> p_status r = CampusAuditStatusVisible) (sp_post sp))) \<and>
   (\<forall>sps n w'. ListPublicUserPosts E X input w = (Inr (sps, n), w') \<longrightarrow> (\<forall>sp \<in> set sps.
      shows_row (db w) (\<lambda>r. \<not> p_is_deleted r \<and> p_status r = CampusAuditStatusVisible \<and>
        p_author_id r = parseID (trim_space (lp_author_id input))) (sp_post sp))) \<and>
   (\<forall>sps n w'. ListMyPosts E X input w = (Inr (sps, n), w') \<longrightarrow> (\<forall>sp \<in> set sps.
      shows_row (db w) (\<lambda>r. \<not> p_is_deleted r \<and> p_author_id r = parseID (lp_current_user_id input)) (sp_post sp)))"
proof (intro conjI allI impI ballI)
  fix sps n w' sp assume r: "ListPosts E X input w = (Inr (sps, n), w')" and sp: "sp \<in> set sps"
  show "shows_row (db w) (\<lambda>r. \<not> p_is_deleted r \<and> p_status r = CampusAuditStatusVisible) (sp_post sp)"
    by (rule show_page_shows [OF r [unfolded ListPosts_def] sp], drule feed_page_shows)
      (auto simp: query_fields listable_def elim: shows_row_mono)
next
  fix sps n w' sp assume r: "ListMyCollections E X input w = (Inr (sps, n), w')" and sp: "sp \<in> set sps"
  have "show_page X (lp_current_user_id input) (or_fail (internal msg_list_my_collections_failed)
      (ListPosts_repo E X (collections_query input))) w = (Inr (sps, n), w')"
    using r by (simp add: ListMyCollections_def require_login_def split: if_splits)
  from show_page_shows [OF this sp] show "shows_row (db w) (\<lambda>r. \<not> p_is_deleted r \<and> p_status r = CampusAuditStatusVisible) (sp_post sp)"
    by (rule meta_mp) (auto simp: query_fields listable_def elim!: or_fail_InrE dest!: ListPosts_repo_shows elim: shows_row_mono)
next
  fix sps n w' sp assume r: "ListPublicUserPosts E X input w = (Inr (sps, n), w')" and sp: "sp \<in> set sps"
  have a: "trim_space (lp_author_id input) \<noteq> []" and s: "show_page X (lp_current_user_id input) (or_fail (internal msg_list_user_posts_failed)
      (ListPosts_repo E X (user_posts_query input))) w = (Inr (sps, n), w')"
    using r by (simp_all add: ListPublicUserPosts_def Let_def split: if_splits)
  from show_page_shows [OF s sp] show "shows_row (db w) (\<lambda>r. \<not> p_is_deleted r \<and> p_status r = CampusAuditStatusVisible \<and>
        p_author_id r = parseID (trim_space (lp_author_id input))) (sp_post sp)"
    by (rule meta_mp) (auto simp: query_fields listable_def a elim!: or_fail_InrE dest!: author_query elim: shows_row_mono)
next
  fix sps n w' sp assume r: "ListMyPosts E X input w = (Inr (sps, n), w')" and sp: "sp \<in> set sps"
  have a: "lp_current_user_id input \<noteq> []" and s: "show_page X (lp_current_user_id input) (or_fail (internal msg_list_my_posts_failed)
      (ListPosts_repo E X (my_query input))) w = (Inr (sps, n), w')"
    using r login_literals(3) by (auto simp: ListMyPosts_def require_login_def split: if_splits)
  from show_page_shows [OF s sp] show "shows_row (db w) (\<lambda>r. \<not> p_is_deleted r \<and> p_author_id r = parseID (lp_current_user_id input)) (sp_post sp)"
    by (rule meta_mp) (auto simp: query_fields listable_def a elim!: or_fail_InrE dest!: author_query elim: shows_row_mono)
qed

text \<open>One visible post and one that was withdrawn; the pool is empty, the cache is off.\<close>

definition feed_sample :: feed_ext where
  "feed_sample = account_ext.extend login_sample \<lparr>collate = (\<lambda>c. c), sql_pow = (\<lambda>x e. 1), sha1_hex = (\<lambda>s. s)\<rparr>"

definition feed_world :: world where
  "feed_world = empty_world\<lparr>rds_on := False, db := empty_tables\<lparr>posts :=
     [sample_post, sample_post\<lparr>p_id := 2, p_is_deleted := True, p_status := CampusAuditStatusDeleted\<rparr>]\<rparr>\<rparr>"

definition paged_world :: world where
  "paged_world = empty_world\<lparr>rds_on := False, db := empty_tables\<lparr>posts :=
     [sample_post, sample_post\<lparr>p_id := 2, p_created_at := 50\<rparr>, sample_post\<lparr>p_id := 3, p_author_id := 6\<rparr>]\<rparr>\<rparr>"

definition feed_input :: ListCampusPostsInput where
  "feed_input = \<lparr>lp_current_user_id = [], lp_author_id = [], lp_category_code = [], lp_post_type = [], lp_sort = [],
     lp_keyword = [], lp_page = 1, lp_size = 20\<rparr>"

lemma feed_literals: "lower_trim [] = []" "normalizePage 1 20 = (1, 20)" "page_offset 1 20 = 0"
  by (simp_all add: lower_trim_def trim_lower_def go_string_eval normalizePage_def page_offset_def)

theorem lists_show_visible_posts_witness:
  "\<exists>sp w'. ListPosts forum_env feed_sample feed_input feed_world = (Inr ([sp], 1), w') \<and>
     shows_row (db feed_world) (\<lambda>r. \<not> p_is_deleted r \<and> p_status r = CampusAuditStatusVisible) (sp_post sp)"
proof -
  let ?run = "ListPosts forum_env feed_sample feed_input feed_world"
  have q: "feed_query feed_input = public_query ''recommend'' 0 20"
    by (simp add: feed_query_def feed_input_def with_page_def public_query_def feed_literals login_literals
      normalizeCampusPostSort_def)
  have off: "\<not> shouldCachePostList E w q" if "\<not> rds_on w" for E w q
    using that by (simp add: shouldCachePostList_def cacheEnabled_def)
  have step: "?run = show_page feed_sample [] (feed_page forum_env feed_sample (public_query ''recommend'' 0 20)) feed_world"
    unfolding ListPosts_def q by (simp add: feed_input_def)
  have "\<exists>sp. fst ?run = Inr ([sp], 1)"
    unfolding step by (simp add: off show_page_def feed_page_def listPostsFromPool_def get_world_def
      EligibleForRecommendPool_def public_query_def pool_get_def pool_ids_def ListPosts_repo_def ListPosts_db_def
      sql_query_def post_rows_def post_page_def post_matches_def keyword_matches_def page_of_def
      fillPostCategoryNames_def show_posts_def HydratePosts_def LoadAuthors_def status_or_no_def
      feed_sample_def account_ext.defs login_sample_def attempt_def io_online or_fail_def toBizPost_def
      feed_world_def empty_world_def empty_tables_def sample_post_def Let_def CampusAuditStatusVisible_def CampusAuditStatusDeleted_def appendUniqueUserID_def)
  then obtain sp w' where run: "?run = (Inr ([sp], 1), w')" by (metis prod.collapse)
  with lists_show_visible_posts [of forum_env feed_sample feed_input feed_world] show ?thesis by fastforce
qed

subsection \<open>Pages\<close>

definition shown_ids :: "go_error + shown_post list \<times> int \<Rightarrow> int list" where
  "shown_ids r = (case r of Inl e \<Rightarrow> [] | Inr (sps, n) \<Rightarrow> map (\<lambda>sp. bp_id (sp_post sp)) sps)"

definition at_page :: "nat \<Rightarrow> nat \<Rightarrow> ListCampusPostsInput \<Rightarrow> ListCampusPostsInput" where
  "at_page i n input = input\<lparr>lp_page := of_nat i, lp_size := of_nat n\<rparr>"

text \<open>The whole list, without pages.\<close>

definition own_rows :: "env \<Rightarrow> 'x feed_ext_scheme \<Rightarrow> ListCampusPostsInput \<Rightarrow> tables \<Rightarrow> campusForumPostModel list" where
  "own_rows E X input t = (let q = my_query input in
     map fst (sort_key (campusPostOrder X E (q_sort q)) (post_rows X q t)))"

lemma sint_small: "int m < 2 ^ 31 \<Longrightarrow> sint (of_nat m :: 32 word) = int m"
  by transfer (simp add: signed_take_bit_int_eq_self)

lemma page_window:
  assumes "0 < n" and "n \<le> 50" and "int (Suc i) * int n < 2 ^ 31"
  shows "normalizePage (of_nat (Suc i)) (of_nat n) = (of_nat (Suc i), of_nat n)"
    and "page_offset (of_nat (Suc i)) (of_nat n) = int (i * n)" and "sint (of_nat n :: 32 word) = int n"
proof -
  have "int (Suc i) * 1 \<le> int (Suc i) * int n" using assms(1) by (intro mult_left_mono) auto
  with assms have i: "int (Suc i) < 2 ^ 31" and m: "int (i * n) < 2 ^ 31" by (auto simp: algebra_simps)
  have n: "int n < 2 ^ 31" using assms(2) by simp
  show s: "sint (of_nat n :: 32 word) = int n" by (rule sint_small [OF n])
  from sint_small [OF i] s assms(1,2)
  show "normalizePage (of_nat (Suc i)) (of_nat n) = (of_nat (Suc i), of_nat n)"
    by (simp only: normalizePage_def Let_def) simp
  have "(of_nat (Suc i) - 1) * of_nat n = (of_nat (i * n) :: 32 word)" by simp
  then show "page_offset (of_nat (Suc i)) (of_nat n) = int (i * n)"
    using sint_small [OF m] by (simp only: page_offset_def)
qed

lemma my_query_paged:
  assumes "0 < n" and "n \<le> 50" and "int (Suc i) * int n < 2 ^ 31"
  shows "my_query (at_page (Suc i) n input) = (my_query input)\<lparr>q_offset := int (i * n), q_limit := int n\<rparr>"
proof -
  have w: "with_page (of_nat (Suc i)) (of_nat n) q = q\<lparr>q_offset := int (i * n), q_limit := int n\<rparr>" for q
    by (simp only: with_page_def page_window [OF assms] prod.case)
  obtain a b where o: "with_page (lp_page input) (lp_size input) q = q\<lparr>q_offset := a, q_limit := b\<rparr>" for q
    unfolding with_page_def by (cases "normalizePage (lp_page input) (lp_size input)") auto
  have f: "lp_page (at_page (Suc i) n input) = of_nat (Suc i)" "lp_size (at_page (Suc i) n input) = of_nat n"
    by (simp_all add: at_page_def)
  show ?thesis unfolding my_query_def feed_query_def f w o by (simp add: at_page_def)
qed

lemma post_rows_paged: "post_rows X (q\<lparr>q_offset := a, q_limit := b\<rparr>) t = post_rows X q t"
  by (simp add: post_rows_def post_matches_def [abs_def] cong: if_cong)

lemma fill_names_online:
  assumes "faults w = []"
  shows "\<exists>qs. fillPostCategoryNames ps w = (Inr qs, w) \<and> map bp_id qs = map bp_id ps"
  using assms by (auto simp: fillPostCategoryNames_def Let_def io_online o_def)

lemma ListPosts_db_online:
  assumes "faults w = []"
  shows "\<exists>ps. ListPosts_db E X q w = (Inr (ps, int (length (post_rows X q (db w)))), w) \<and>
     map bp_id ps = map p_id (post_page E X q (db w))"
  using fill_names_online [OF assms, of "map toBizPost (post_page E X q (db w))"] assms
  by (auto simp: ListPosts_db_def sql_query_def io_online toBizPost_def o_def)

lemma show_posts_online: "\<exists>sps w'. show_posts X ps u w = (Inr sps, w') \<and> map sp_post sps = ps"
proof -
  have "no_fail (show_posts X ps u)" unfolding show_posts_def by (intro totals)
  then obtain sps where "fst (show_posts X ps u w) = Inr sps" using no_fail_fst by blast
  then show ?thesis using show_posts_posts [of X ps u w sps] by (metis prod.collapse)
qed

lemma own_page:
  assumes "faults w = []" and "trim_space (lp_current_user_id input) \<noteq> []" and "0 < n" and "n \<le> 50" and "int (Suc i) * int n < 2 ^ 31"
  shows "shown_ids (fst (ListMyPosts E X (at_page (Suc i) n input) w)) =
    take n (drop (i * n) (map p_id (own_rows E X input (db w))))"
proof -
  let ?q = "my_query (at_page (Suc i) n input)"
  have "\<not> shouldCachePostList E w ?q" using query_fields(8) by (simp add: shouldCachePostList_def)
  then have "ListPosts_repo E X ?q w = ListPosts_db E X ?q w"
    by (simp add: ListPosts_repo_def get_world_def io_bind_def [of get_world])
  with ListPosts_db_online [OF assms(1)] obtain ps m where l: "ListPosts_repo E X ?q w = (Inr (ps, m), w)"
    and p: "map bp_id ps = map p_id (post_page E X ?q (db w))" by metis
  obtain sps w' where s: "show_posts X ps (lp_current_user_id input) w = (Inr sps, w')" and "map sp_post sps = ps"
    using show_posts_online by blast
  moreover have "fst (ListMyPosts E X (at_page (Suc i) n input) w) = Inr (sps, m)"
    using assms(2) l s by (simp add: ListMyPosts_def require_login_def show_page_def at_page_def or_fail_def io_bind_def)
  ultimately have "shown_ids (fst (ListMyPosts E X (at_page (Suc i) n input) w)) = map p_id (post_page E X ?q (db w))"
    using p by (auto simp: shown_ids_def o_def)
  then show ?thesis
    using assms(3) by (simp add: my_query_paged [OF assms(3-5)] post_page_def post_rows_paged page_of_def own_rows_def Let_def
      take_map drop_map nat_mult_distrib)
qed

text \<open>
  C36. Paging: while the tables stay, the pages of a user's own posts, of any size from 1 to 50, put one
  behind the other are the whole ordered list up to where they reach, without gaps and without
  repetitions; so enough pages show every post of the user, as long as page number times size stays
  below \<open>2 ^ 31\<close>.
\<close>

theorem own_posts_paged:
  assumes "faults w = []" and "trim_space (lp_current_user_id input) \<noteq> []" and "0 < n" and "n \<le> 50" and "int k * int n < 2 ^ 31"
  shows "concat (map (\<lambda>i. shown_ids (fst (ListMyPosts E X (at_page (Suc i) n input) w))) [0..<k]) =
    take (k * n) (map p_id (own_rows E X input (db w)))"
  using assms(5)
proof (induction k)
  case (Suc k)
  then have "int k * int n < 2 ^ 31" by (simp add: algebra_simps)
  with Suc.IH own_page [OF assms(1-4) Suc.prems] show ?case by (simp add: take_add add.commute [of n])
qed simp

theorem own_posts_paged_witness:
  "concat (map (\<lambda>i. shown_ids (fst (ListMyPosts forum_env feed_sample
     (at_page (Suc i) 1 (feed_input\<lparr>lp_current_user_id := ''5''\<rparr>)) paged_world))) [0..<2]) = [2, 1]"
proof -
  let ?i = "feed_input\<lparr>lp_current_user_id := ''5''\<rparr>"
  have "map p_id (own_rows forum_env feed_sample ?i (db paged_world)) = [2, 1]"
    by (simp add: own_rows_def my_query_def feed_query_def with_page_def feed_input_def public_query_def feed_literals login_literals
      post_rows_def post_matches_def [abs_def] keyword_matches_def normalizeCampusPostSort_def campusPostOrder_def forum_literals
      paged_world_def empty_tables_def sample_post_def Let_def cong: if_cong)
  with own_posts_paged [of paged_world ?i 1 2 forum_env feed_sample] show ?thesis
    by (simp add: paged_world_def empty_world_def feed_input_def forum_literals)
qed

text \<open>
  A withdrawn row is not listed for the operators who ask for withdrawn posts: the query asks for the
  status and excludes the rows that are marked as withdrawn.
\<close>

lemma no_withdrawn_posts_to_moderate:
  assumes "ListModerationPosts E X input w = (Inr (sps, n), w')" and "lm_status input = CampusAuditStatusDeleted"
    and "\<And>r. r \<in> set (posts (db w)) \<Longrightarrow> p_status r = CampusAuditStatusDeleted \<Longrightarrow> p_is_deleted r"
  shows "sps = []"
proof (rule ccontr)
  assume "sps \<noteq> []"
  then obtain sp where sp: "sp \<in> set sps" by (cases sps) auto
  let ?q = "moderation_query input"
  have q: "q_statuses ?q = [CampusAuditStatusDeleted]" "\<not> q_include_deleted ?q"
    using assms(2) by (simp_all add: moderation_query_def with_page_def public_query_def moderation_status_def
      CampusAuditStatusDeleted_def CampusAuditStatusPending_def split: prod.splits)
  from assms(1) obtain ok w1 where o: "isCampusOperator E (lm_user_id input) w = (Inr ok, w1)"
    and s: "show_page X (lm_user_id input) (or_fail (internal msg_list_moderation_posts_failed) (ListPosts_repo E X ?q)) w1 = (Inr (sps, n), w')"
    unfolding ListModerationPosts_def require_operator_def by (elim io_bind_InrE) (simp split: if_splits)
  have "shows_row (db w1) (listable ?q) (sp_post sp)"
    by (rule show_page_shows [OF s sp]) (auto elim!: or_fail_InrE dest: ListPosts_repo_shows simp: q)
  moreover have "db w1 = db w" using keepsD [OF rights_frames(2) [where g = "\<lambda>t. t"] o] by simp
  ultimately show False using assms(3) by (auto simp: shows_row_def listable_def q)
qed

end
