(* ===== verification/Knowledge.thy ===== *)
theory Knowledge
  imports Feeds
begin

text \<open>
  The knowledge base (\<open>biz/campus.go\<close>: the handlers of documents, chunks, query logs and evaluation
  cases, the indexer; \<open>biz/campus_rag.go\<close>: the client of the retrieval service; \<open>data/campus.go\<close>: the
  four tables). The retrieval service itself is behind HTTP and a parameter.
\<close>

subsection \<open>The retrieval service\<close>

record CampusKnowledgeChunk =
  ck_id :: int
  ck_document_id :: int
  ck_chunk_index :: int
  ck_title :: string
  ck_content :: string
  ck_summary :: string
  ck_category :: string
  ck_keywords :: "string list"
  ck_source :: string
  ck_status :: string
  ck_qdrant_point_id :: string
  ck_embedding_status :: string
  ck_score :: rat
  ck_created_at :: time
  ck_updated_at :: time

record CampusRAGHealth =
  rh_status :: string
  rh_qdrant :: string
  rh_chunk_count :: int
  rh_failed_count :: int
  rh_last_error :: string

record CampusRAGIndexRequest =
  ix_document_id :: int
  ix_title :: string
  ix_category :: string
  ix_source :: string
  ix_file_url :: string
  ix_file_type :: string
  ix_content :: string
  ix_effective_at :: string
  ix_expired_at :: string
  ix_metadata :: "(string \<times> string) list"

record CampusRAGQueryRequest =
  qq_query :: string
  qq_top_k :: int
  qq_categories :: "string list"
  qq_context :: string

record CampusRAGQueryResponse =
  qr_need_knowledge :: bool
  qr_confidence :: rat
  qr_chunks :: "CampusRAGQueryChunk list"

record CampusRAGClient =
  rag_health :: "CampusRAGHealth io"
  rag_index_document :: "CampusRAGIndexRequest \<Rightarrow> CampusKnowledgeChunk list io"
  rag_index_text :: "CampusRAGIndexRequest \<Rightarrow> CampusKnowledgeChunk list io"
  rag_delete_document :: "int \<Rightarrow> unit io"
  rag_query :: "CampusRAGQueryRequest \<Rightarrow> CampusRAGQueryResponse io"

text \<open>
  An HTTP exchange: no answer, or a status with the first two megabytes of the body, as bytes and as
  what \<open>json.Unmarshal\<close> makes of them. Nil elements of a list are not represented.
\<close>

datatype 'a rag_answer = Unreachable go_error | Answered int string "go_error + 'a"

datatype rag_body = NoBody | IndexBody CampusRAGIndexRequest | DeleteBody int | QueryBody CampusRAGQueryRequest

record rag_http =
  http_health :: "string \<Rightarrow> string \<Rightarrow> rag_body \<Rightarrow> CampusRAGHealth rag_answer io"
  http_index :: "string \<Rightarrow> string \<Rightarrow> rag_body \<Rightarrow> CampusKnowledgeChunk list rag_answer io"
  http_plain :: "string \<Rightarrow> string \<Rightarrow> rag_body \<Rightarrow> unit rag_answer io"
  http_query :: "string \<Rightarrow> string \<Rightarrow> rag_body \<Rightarrow> CampusRAGQueryResponse rag_answer io"

text \<open>\<open>zero\<close> is the value the caller gave for decoding into.\<close>

definition rag_do :: "'a \<Rightarrow> 'a rag_answer io \<Rightarrow> 'a io" where
  "rag_do zero exchange = io_bind exchange (\<lambda>a. case a of
     Unreachable e \<Rightarrow> fail e
   | Answered status raw decoded \<Rightarrow>
       if status < 200 \<or> 300 \<le> status
       then fail (PlainError (''rag status='' @ fmt_d status @ '' body='' @ trimLimit raw 400) None)
       else if raw = [] then ret zero
       else lift_error decoded)"

definition CampusRAGHTTPClient :: "rag_http \<Rightarrow> string \<Rightarrow> CampusRAGClient" where
  "CampusRAGHTTPClient H baseURL = \<lparr>
     rag_health = rag_do \<lparr>rh_status = [], rh_qdrant = [], rh_chunk_count = 0, rh_failed_count = 0, rh_last_error = []\<rparr>
       (http_health H ''GET'' (baseURL @ ''/healthz'') NoBody),
     rag_index_document = (\<lambda>req. rag_do [] (http_index H ''POST'' (baseURL @ ''/internal/rag/index-document'') (IndexBody req))),
     rag_index_text = (\<lambda>req. rag_do [] (http_index H ''POST'' (baseURL @ ''/internal/rag/index-text'') (IndexBody req))),
     rag_delete_document = (\<lambda>i. rag_do () (http_plain H ''POST'' (baseURL @ ''/internal/rag/delete-document'') (DeleteBody i))),
     rag_query = (\<lambda>req. rag_do \<lparr>qr_need_knowledge = False, qr_confidence = 0, qr_chunks = []\<rparr>
       (http_query H ''POST'' (baseURL @ ''/internal/rag/query'') (QueryBody req)))\<rparr>"

definition rag_disabled :: go_error where
  "rag_disabled = PlainError ''campus rag disabled'' None"

definition noopCampusRAGClient :: CampusRAGClient where
  "noopCampusRAGClient = \<lparr>
     rag_health = ret \<lparr>rh_status = ''disabled'', rh_qdrant = ''disabled'', rh_chunk_count = 0, rh_failed_count = 0, rh_last_error = []\<rparr>,
     rag_index_document = (\<lambda>req. fail rag_disabled),
     rag_index_text = (\<lambda>req. fail rag_disabled),
     rag_delete_document = (\<lambda>i. ret ()),
     rag_query = (\<lambda>req. ret \<lparr>qr_need_knowledge = False, qr_confidence = 0, qr_chunks = []\<rparr>)\<rparr>"

text \<open>\<open>strings.TrimRight(.., "/")\<close>.\<close>

definition trim_slashes :: "string \<Rightarrow> string" where
  "trim_slashes s = rev (dropWhile (\<lambda>c. c = CHR ''/'') (rev s))"

definition NewCampusRAGClient :: "env \<Rightarrow> rag_http \<Rightarrow> CampusRAGClient" where
  "NewCampusRAGClient E H = (let baseURL = trim_slashes (trim_space (getenv E ''CAMPUS_RAG_BASE_URL'')) in
     if baseURL = [] then noopCampusRAGClient else CampusRAGHTTPClient H baseURL)"

subsection \<open>Documents and chunks in the tables\<close>

definition CampusKnowledgeDocumentStatusDraft :: string where "CampusKnowledgeDocumentStatusDraft = ''draft''"
definition CampusKnowledgeDocumentStatusIndexing :: string where "CampusKnowledgeDocumentStatusIndexing = ''indexing''"
definition CampusKnowledgeDocumentStatusActive :: string where "CampusKnowledgeDocumentStatusActive = ''active''"
definition CampusKnowledgeDocumentStatusDisabled :: string where "CampusKnowledgeDocumentStatusDisabled = ''disabled''"
definition CampusKnowledgeDocumentStatusFailed :: string where "CampusKnowledgeDocumentStatusFailed = ''failed''"

definition or_default :: "string \<Rightarrow> string \<Rightarrow> string" where
  "or_default s d = (if s = [] then d else s)"

definition toKnowledgeDocumentModel :: "env \<Rightarrow> CampusKnowledgeDocument \<Rightarrow> campusKnowledgeDocumentModel" where
  "toKnowledgeDocumentModel E d = (let status = or_default (do_status d) CampusKnowledgeDocumentStatusDraft in
     \<lparr>kd_id = do_id d, kd_title = trimLimitData (do_title d) 120, kd_source = trimLimitData (do_source d) 120,
      kd_category = trimLimitData (do_category d) 32, kd_content_type = trimLimitData (do_content_type d) 16,
      kd_file_url = trimLimitData (do_file_url d) 1024, kd_file_id = parseID (do_file_id d),
      kd_file_type = trimLimitData (do_file_type d) 16, kd_raw_content = do_raw_content d, kd_status = status,
      kd_parse_status = or_default (do_parse_status d) status, kd_error_message = trimLimitData (do_error_message d) 1000,
      kd_uploaded_by = parseID (do_uploaded_by d), kd_effective_at = do_effective_at d, kd_expired_at = do_expired_at d,
      kd_chunk_count = do_chunk_count d, kd_is_deleted = False, kd_created_at = now E, kd_updated_at = now E\<rparr>)"

definition toBizKnowledgeDocument :: "campusKnowledgeDocumentModel \<Rightarrow> CampusKnowledgeDocument" where
  "toBizKnowledgeDocument r = \<lparr>do_id = kd_id r, do_title = kd_title r, do_source = kd_source r, do_category = kd_category r,
     do_content_type = kd_content_type r, do_file_url = kd_file_url r, do_file_id = fmt_d (kd_file_id r),
     do_file_type = kd_file_type r, do_raw_content = kd_raw_content r, do_status = kd_status r,
     do_parse_status = kd_parse_status r, do_error_message = kd_error_message r, do_uploaded_by = fmt_d (kd_uploaded_by r),
     do_effective_at = kd_effective_at r, do_expired_at = kd_expired_at r, do_chunk_count = kd_chunk_count r,
     do_created_at = kd_created_at r, do_updated_at = kd_updated_at r\<rparr>"

definition toKnowledgeChunkModel :: "env \<Rightarrow> CampusKnowledgeChunk \<Rightarrow> campusKnowledgeChunkModel" where
  "toKnowledgeChunkModel E c = \<lparr>kc_id = ck_id c, kc_document_id = ck_document_id c, kc_chunk_index = ck_chunk_index c,
     kc_title = trimLimitData (ck_title c) 120, kc_content = ck_content c, kc_summary = trimLimitData (ck_summary c) 500,
     kc_category = trimLimitData (ck_category c) 32, kc_keywords = ck_keywords c, kc_source = trimLimitData (ck_source c) 120,
     kc_status = or_default (ck_status c) ''active'', kc_qdrant_point_id = trimLimitData (ck_qdrant_point_id c) 128,
     kc_embedding_status = trimLimitData (or_default (ck_embedding_status c) ''done'') 24, kc_is_deleted = False,
     kc_created_at = now E, kc_updated_at = now E\<rparr>"

definition toBizKnowledgeChunk :: "campusKnowledgeChunkModel \<Rightarrow> CampusKnowledgeChunk" where
  "toBizKnowledgeChunk r = \<lparr>ck_id = kc_id r, ck_document_id = kc_document_id r, ck_chunk_index = kc_chunk_index r,
     ck_title = kc_title r, ck_content = kc_content r, ck_summary = kc_summary r, ck_category = kc_category r,
     ck_keywords = kc_keywords r, ck_source = kc_source r, ck_status = kc_status r, ck_qdrant_point_id = kc_qdrant_point_id r,
     ck_embedding_status = kc_embedding_status r, ck_score = 0, ck_created_at = kc_created_at r, ck_updated_at = kc_updated_at r\<rparr>"

definition CreateKnowledgeDocument :: "env \<Rightarrow> CampusKnowledgeDocument \<Rightarrow> unit io" where
  "CreateKnowledgeDocument E d = sql_create knowledge_documents knowledge_documents_update (\<lambda>r. kd_id r = do_id d)
     (toKnowledgeDocumentModel E d)"

definition live_document :: "int \<Rightarrow> campusKnowledgeDocumentModel \<Rightarrow> bool" where
  "live_document i r \<longleftrightarrow> kd_id r = i \<and> \<not> kd_is_deleted r"

definition UpdateKnowledgeDocument :: "env \<Rightarrow> CampusKnowledgeDocument \<Rightarrow> unit io" where
  "UpdateKnowledgeDocument E d = sql_update knowledge_documents_update (live_document (do_id d))
     (\<lambda>r. r\<lparr>kd_title := do_title d, kd_source := do_source d, kd_category := do_category d, kd_status := do_status d,
        kd_parse_status := do_parse_status d, kd_error_message := trimLimitData (do_error_message d) 1000,
        kd_effective_at := do_effective_at d, kd_expired_at := do_expired_at d, kd_chunk_count := do_chunk_count d,
        kd_updated_at := now E\<rparr>)"

definition GetKnowledgeDocumentByID :: "int \<Rightarrow> CampusKnowledgeDocument option io" where
  "GetKnowledgeDocumentByID i = io_bind (sql_first knowledge_documents (live_document i)) (\<lambda>row.
     ret (map_option toBizKnowledgeDocument row))"

definition or_twenty :: "int \<Rightarrow> int" where
  "or_twenty limit = (if limit \<le> 0 then 20 else limit)"

text \<open>A page of the rows with \<open>P\<close> in the order of \<open>k\<close>, with their number.\<close>

definition counted_page ::
    "(tables \<Rightarrow> 'r list) \<Rightarrow> ('r \<Rightarrow> bool) \<Rightarrow> ('r \<Rightarrow> 'k::linorder) \<Rightarrow> ('r \<Rightarrow> 'b) \<Rightarrow> int \<Rightarrow> int \<Rightarrow> ('b list \<times> int) io" where
  "counted_page tbl P k f offset limit = io_bind (sql_count tbl P) (\<lambda>n.
     io_bind (sql_query (\<lambda>t. page_of offset limit (sort_key k (filter P (tbl t))))) (\<lambda>rows. ret (map f rows, n)))"

definition document_matches :: "'x feed_ext_scheme \<Rightarrow> string \<Rightarrow> string \<Rightarrow> string \<Rightarrow> campusKnowledgeDocumentModel \<Rightarrow> bool" where
  "document_matches X keyword category status r \<longleftrightarrow> \<not> kd_is_deleted r \<and>
     (trim_space keyword = [] \<or> (let pattern = containing (trim_space keyword) in
        sql_like X (kd_title r) pattern \<or> sql_like X (kd_source r) pattern \<or> sql_like X (kd_raw_content r) pattern)) \<and>
     (trim_space category = [] \<or> kd_category r = trim_space category) \<and>
     (trim_space status = [] \<or> kd_status r = trim_space status)"

definition ListKnowledgeDocuments ::
    "'x feed_ext_scheme \<Rightarrow> string \<Rightarrow> string \<Rightarrow> string \<Rightarrow> int \<Rightarrow> int \<Rightarrow> (CampusKnowledgeDocument list \<times> int) io" where
  "ListKnowledgeDocuments X keyword category status offset limit =
     counted_page knowledge_documents (document_matches X keyword category status) (\<lambda>r. (- kd_updated_at r, - kd_id r))
       toBizKnowledgeDocument offset (or_twenty limit)"

definition retire_chunk :: "env \<Rightarrow> campusKnowledgeChunkModel \<Rightarrow> campusKnowledgeChunkModel" where
  "retire_chunk E r = r\<lparr>kc_is_deleted := True, kc_status := ''disabled'', kc_updated_at := now E\<rparr>"

definition ReplaceKnowledgeChunks :: "env \<Rightarrow> int \<Rightarrow> CampusKnowledgeChunk list \<Rightarrow> unit io" where
  "ReplaceKnowledgeChunks E documentID chunks = transaction (
     io_then (sql_update knowledge_chunks_update (\<lambda>r. kc_document_id r = documentID) (retire_chunk E))
     (let rows = map (toKnowledgeChunkModel E) chunks in
     io_then (if rows = [] then ret () else sql_create_all knowledge_chunks knowledge_chunks_update kc_id rows)
     (sql_update knowledge_documents_update (\<lambda>r. kd_id r = documentID)
       (\<lambda>r. r\<lparr>kd_chunk_count := int (length rows), kd_updated_at := now E\<rparr>))))"

definition live_chunk :: "int \<Rightarrow> campusKnowledgeChunkModel \<Rightarrow> bool" where
  "live_chunk i r \<longleftrightarrow> kc_document_id r = i \<and> \<not> kc_is_deleted r"

definition ListKnowledgeChunks :: "int \<Rightarrow> int \<Rightarrow> int \<Rightarrow> (CampusKnowledgeChunk list \<times> int) io" where
  "ListKnowledgeChunks documentID offset limit =
     counted_page knowledge_chunks (live_chunk documentID) (\<lambda>r. (kc_chunk_index r, kc_id r)) toBizKnowledgeChunk
       offset (or_twenty limit)"

subsection \<open>Query logs and evaluation cases in the tables\<close>

record CampusRAGQueryLog =
  ql_id :: int
  ql_user_id :: string
  ql_post_id :: int
  ql_trigger_comment_id :: int
  ql_query :: string
  ql_need_knowledge :: bool
  ql_confidence :: rat
  ql_hit_chunks :: "CampusRAGQueryChunk list"
  ql_answer :: string
  ql_model :: string
  ql_duration_ms :: int
  ql_error_message :: string
  ql_quality_label :: string
  ql_quality_note :: string
  ql_reviewed_by :: string
  ql_reviewed_at :: "time option"
  ql_created_at :: time

record CampusRAGEvalCase =
  ec_id :: int
  ec_question :: string
  ec_expected_document_id :: int
  ec_expected_source :: string
  ec_expected_keywords :: "string list"
  ec_category :: string
  ec_status :: int
  ec_source_log_id :: int
  ec_note :: string
  ec_last_run_at :: "time option"
  ec_last_score :: rat
  ec_last_hit :: bool
  ec_last_confidence :: rat
  ec_last_result :: "CampusRAGEvalResult option"
  ec_created_by :: string
  ec_created_at :: time
  ec_updated_at :: time

text \<open>The time 0 is the zero time of Go.\<close>

definition toRAGQueryLogModel :: "env \<Rightarrow> CampusRAGQueryLog \<Rightarrow> campusRAGQueryLogModel" where
  "toRAGQueryLogModel E l = \<lparr>rq_id = ql_id l, rq_user_id = parseID (ql_user_id l), rq_post_id = ql_post_id l,
     rq_trigger_comment_id = ql_trigger_comment_id l, rq_query = trimLimitData (ql_query l) 1000,
     rq_need_knowledge = ql_need_knowledge l, rq_confidence = ql_confidence l, rq_hit_chunks = ql_hit_chunks l,
     rq_answer = trimLimitData (ql_answer l) 1000, rq_model = trimLimitData (ql_model l) 64, rq_duration_ms = ql_duration_ms l,
     rq_error_message = trimLimitData (ql_error_message l) 1000, rq_quality_label = trimLimitData (ql_quality_label l) 24,
     rq_quality_note = trimLimitData (ql_quality_note l) 500, rq_reviewed_by = parseID (ql_reviewed_by l),
     rq_reviewed_at = ql_reviewed_at l, rq_created_at = (if ql_created_at l \<noteq> 0 then ql_created_at l else now E)\<rparr>"

definition toBizRAGQueryLog :: "campusRAGQueryLogModel \<Rightarrow> CampusRAGQueryLog" where
  "toBizRAGQueryLog r = \<lparr>ql_id = rq_id r, ql_user_id = fmt_d (rq_user_id r), ql_post_id = rq_post_id r,
     ql_trigger_comment_id = rq_trigger_comment_id r, ql_query = rq_query r, ql_need_knowledge = rq_need_knowledge r,
     ql_confidence = rq_confidence r, ql_hit_chunks = rq_hit_chunks r, ql_answer = rq_answer r, ql_model = rq_model r,
     ql_duration_ms = rq_duration_ms r, ql_error_message = rq_error_message r, ql_quality_label = rq_quality_label r,
     ql_quality_note = rq_quality_note r, ql_reviewed_by = fmt_d (rq_reviewed_by r), ql_reviewed_at = rq_reviewed_at r,
     ql_created_at = rq_created_at r\<rparr>"

text \<open>No last result is stored as the JSON \<open>null\<close>, which is read back as a result with every field zero.\<close>

definition zero_result :: CampusRAGEvalResult where
  "zero_result = \<lparr>er_case_id = 0, er_need_knowledge = False, er_confidence = 0, er_hit = False, er_score = 0,
     er_matched_by = [], er_top_chunks = [], er_error_message = [], er_run_at = 0\<rparr>"

definition toRAGEvalCaseModel :: "env \<Rightarrow> CampusRAGEvalCase \<Rightarrow> campusRAGEvalCaseModel" where
  "toRAGEvalCaseModel E c = (let created = (if ec_created_at c \<noteq> 0 then ec_created_at c else now E) in
     \<lparr>rc_id = ec_id c, rc_question = trimLimitData (ec_question c) 1000, rc_expected_document_id = ec_expected_document_id c,
      rc_expected_source = trimLimitData (ec_expected_source c) 120, rc_expected_keywords = ec_expected_keywords c,
      rc_category = trimLimitData (ec_category c) 32, rc_status = (if ec_status c \<noteq> 0 then 1 else 0),
      rc_source_log_id = ec_source_log_id c, rc_note = trimLimitData (ec_note c) 500, rc_last_run_at = ec_last_run_at c,
      rc_last_score = ec_last_score c, rc_last_hit = ec_last_hit c, rc_last_confidence = ec_last_confidence c,
      rc_last_result = ec_last_result c, rc_created_by = parseID (ec_created_by c), rc_created_at = created,
      rc_updated_at = (if ec_updated_at c \<noteq> 0 then ec_updated_at c else created)\<rparr>)"

definition toBizRAGEvalCase :: "campusRAGEvalCaseModel \<Rightarrow> CampusRAGEvalCase" where
  "toBizRAGEvalCase r = \<lparr>ec_id = rc_id r, ec_question = rc_question r, ec_expected_document_id = rc_expected_document_id r,
     ec_expected_source = rc_expected_source r, ec_expected_keywords = rc_expected_keywords r, ec_category = rc_category r,
     ec_status = rc_status r, ec_source_log_id = rc_source_log_id r, ec_note = rc_note r, ec_last_run_at = rc_last_run_at r,
     ec_last_score = rc_last_score r, ec_last_hit = rc_last_hit r, ec_last_confidence = rc_last_confidence r,
     ec_last_result = Some (case rc_last_result r of None \<Rightarrow> zero_result | Some x \<Rightarrow> x),
     ec_created_by = fmt_d (rc_created_by r), ec_created_at = rc_created_at r, ec_updated_at = rc_updated_at r\<rparr>"

definition CreateRAGQueryLog :: "env \<Rightarrow> CampusRAGQueryLog \<Rightarrow> unit io" where
  "CreateRAGQueryLog E l = sql_create rag_query_logs rag_query_logs_update (\<lambda>r. rq_id r = ql_id l) (toRAGQueryLogModel E l)"

definition ListRAGQueryLogs :: "int \<Rightarrow> int \<Rightarrow> (CampusRAGQueryLog list \<times> int) io" where
  "ListRAGQueryLogs offset limit =
     counted_page rag_query_logs (\<lambda>r. True) (\<lambda>r. (- rq_created_at r, - rq_id r)) toBizRAGQueryLog offset (or_twenty limit)"

definition GetRAGQueryLogByID :: "int \<Rightarrow> CampusRAGQueryLog option io" where
  "GetRAGQueryLogByID i = io_bind (sql_first rag_query_logs (\<lambda>r. rq_id r = i)) (\<lambda>row. ret (map_option toBizRAGQueryLog row))"

definition UpdateRAGQueryLogReview :: "env \<Rightarrow> int \<Rightarrow> string \<Rightarrow> string \<Rightarrow> string \<Rightarrow> unit io" where
  "UpdateRAGQueryLogReview E i label note reviewedBy = sql_update rag_query_logs_update (\<lambda>r. rq_id r = i)
     (\<lambda>r. r\<lparr>rq_quality_label := trimLimitData label 24, rq_quality_note := trimLimitData note 500,
        rq_reviewed_by := parseID reviewedBy, rq_reviewed_at := Some (now E)\<rparr>)"

definition CreateRAGEvalCase :: "env \<Rightarrow> CampusRAGEvalCase \<Rightarrow> unit io" where
  "CreateRAGEvalCase E c = sql_create rag_eval_cases rag_eval_cases_update (\<lambda>r. rc_id r = ec_id c) (toRAGEvalCaseModel E c)"

definition UpdateRAGEvalCase :: "env \<Rightarrow> CampusRAGEvalCase \<Rightarrow> unit io" where
  "UpdateRAGEvalCase E c = sql_update rag_eval_cases_update (\<lambda>r. rc_id r = ec_id c)
     (\<lambda>r. r\<lparr>rc_question := trimLimitData (ec_question c) 1000, rc_expected_document_id := ec_expected_document_id c,
        rc_expected_source := trimLimitData (ec_expected_source c) 120, rc_expected_keywords := ec_expected_keywords c,
        rc_category := trimLimitData (ec_category c) 32, rc_status := ec_status c, rc_note := trimLimitData (ec_note c) 500,
        rc_updated_at := now E\<rparr>)"

text \<open>\<open>-2\<close> stands for the drafts of the agent, another negative status for all cases.\<close>

definition ListRAGEvalCases :: "'x feed_ext_scheme \<Rightarrow> int \<Rightarrow> int \<Rightarrow> int \<Rightarrow> (CampusRAGEvalCase list \<times> int) io" where
  "ListRAGEvalCases X status offset limit = counted_page rag_eval_cases
     (\<lambda>r. if status = -2 then rc_status r = 0 \<and> sql_like X (rc_note r) (msg_eval_draft_prefix @ ''%'')
        else 0 \<le> status \<longrightarrow> rc_status r = status)
     (\<lambda>r. (- rc_updated_at r, - rc_id r)) toBizRAGEvalCase offset (or_twenty limit)"

definition GetRAGEvalCaseByID :: "int \<Rightarrow> CampusRAGEvalCase option io" where
  "GetRAGEvalCaseByID i = io_bind (sql_first rag_eval_cases (\<lambda>r. rc_id r = i)) (\<lambda>row. ret (map_option toBizRAGEvalCase row))"

definition GetRAGEvalCaseBySourceLogID :: "int \<Rightarrow> CampusRAGEvalCase option io" where
  "GetRAGEvalCaseBySourceLogID i = (if i \<le> 0 then ret None
     else io_bind (sql_first rag_eval_cases (\<lambda>r. rc_source_log_id r = i)) (\<lambda>row. ret (map_option toBizRAGEvalCase row)))"

definition needs_eval :: "campusRAGQueryLogModel \<Rightarrow> bool" where
  "needs_eval r \<longleftrightarrow> rq_quality_label r \<in> {''wrong'', ''needs_fix'', ''unsafe''} \<or>
     (rq_need_knowledge r \<and> rq_confidence r \<le> round64 (52 / 100)) \<or> rq_error_message r \<noteq> []"

definition ListRAGQueryLogsForEvalDrafts :: "int \<Rightarrow> CampusRAGQueryLog list io" where
  "ListRAGQueryLogsForEvalDrafts limit0 = (let limit = (if limit0 \<le> 0 then 30 else limit0) in
     io_bind (sql_find_ordered rag_query_logs needs_eval (\<lambda>r. (- rq_created_at r, - rq_id r)) limit) (\<lambda>rows.
     ret (map toBizRAGQueryLog rows)))"

definition BatchUpdateRAGEvalCasesStatus :: "env \<Rightarrow> int list \<Rightarrow> int \<Rightarrow> int io" where
  "BatchUpdateRAGEvalCasesStatus E ids status = (let clean = filter (\<lambda>i. 0 < i) ids in
     if clean = [] then ret 0
     else sql_update_rows rag_eval_cases rag_eval_cases_update (\<lambda>r. rc_id r \<in> set clean)
       (\<lambda>r. r\<lparr>rc_status := (if status \<noteq> 0 then 1 else 0), rc_updated_at := now E\<rparr>))"

definition UpdateRAGEvalCaseResult :: "env \<Rightarrow> int \<Rightarrow> CampusRAGEvalResult \<Rightarrow> unit io" where
  "UpdateRAGEvalCaseResult E i x = sql_update rag_eval_cases_update (\<lambda>r. rc_id r = i)
     (\<lambda>r. r\<lparr>rc_last_run_at := Some (er_run_at x), rc_last_score := er_score x, rc_last_hit := er_hit x,
        rc_last_confidence := er_confidence x, rc_last_result := Some x, rc_updated_at := now E\<rparr>)"

subsection \<open>Indexing\<close>

text \<open>\<open>Format(time.RFC3339)\<close> in UTC, for the years that have at most four digits.\<close>

definition rfc3339_utc :: "time \<Rightarrow> string" where
  "rfc3339_utc t = (let s = t div nanos_per_second; sod = s mod 86400; two = (\<lambda>n. pad_left 2 (fmt_d n)) in
     case civil_of_day (s div 86400) of (year, month, d) \<Rightarrow>
       pad_left 4 (fmt_d year) @ ''-'' @ two month @ ''-'' @ two d @ ''T'' @ two (sod div 3600) @ '':'' @
       two (sod mod 3600 div 60) @ '':'' @ two (sod mod 60) @ ''Z'')"

definition formatRAGTime :: "time option \<Rightarrow> string" where
  "formatRAGTime t = (case t of None \<Rightarrow> [] | Some u \<Rightarrow> if u = 0 then [] else rfc3339_utc u)"

definition sameOptionalTime :: "time option \<Rightarrow> time option \<Rightarrow> bool" where
  "sameOptionalTime a b = (if a = None \<or> a = Some 0 then b = None \<or> b = Some 0
     else if b = None \<or> b = Some 0 then False else a = b)"

definition index_request :: "CampusKnowledgeDocument \<Rightarrow> CampusRAGIndexRequest" where
  "index_request d = (let effectiveAt = formatRAGTime (do_effective_at d); expiredAt = formatRAGTime (do_expired_at d) in
     \<lparr>ix_document_id = do_id d, ix_title = do_title d, ix_category = do_category d, ix_source = do_source d,
      ix_file_url = do_file_url d, ix_file_type = do_file_type d, ix_content = do_raw_content d,
      ix_effective_at = effectiveAt, ix_expired_at = expiredAt,
      ix_metadata = [(''content_type'', do_content_type d), (''file_id'', do_file_id d),
        (''effective_at'', effectiveAt), (''expired_at'', expiredAt)]\<rparr>)"

fun own_chunks :: "env \<Rightarrow> CampusKnowledgeDocument \<Rightarrow> int \<Rightarrow> CampusKnowledgeChunk list \<Rightarrow> CampusKnowledgeChunk list io" where
  "own_chunks E d idx [] = ret []"
| "own_chunks E d idx (c # cs) = io_bind (NextID E) (\<lambda>i. io_bind (own_chunks E d (idx + 1) cs) (\<lambda>rest.
     ret (c\<lparr>ck_id := i, ck_document_id := do_id d, ck_chunk_index := idx,
        ck_title := firstNonEmpty [ck_title c, do_title d], ck_category := firstNonEmpty [ck_category c, do_category d],
        ck_source := firstNonEmpty [ck_source c, do_source d], ck_status := firstNonEmpty [ck_status c, ''active''],
        ck_embedding_status := firstNonEmpty [ck_embedding_status c, ''done'']\<rparr> # rest)))"

text \<open>\<open>err.Error()\<close> of what failed is kept with the document.\<close>

definition failed_document :: "go_error \<Rightarrow> CampusKnowledgeDocument \<Rightarrow> CampusKnowledgeDocument" where
  "failed_document e d = d\<lparr>do_status := CampusKnowledgeDocumentStatusFailed, do_parse_status := ''failed'',
     do_error_message := trimLimit (error_text e) 1000\<rparr>"

definition indexed_document :: "int \<Rightarrow> CampusKnowledgeDocument \<Rightarrow> CampusKnowledgeDocument" where
  "indexed_document n d = d\<lparr>do_status := CampusKnowledgeDocumentStatusActive, do_parse_status := ''done'',
     do_error_message := [], do_chunk_count := n\<rparr>"

definition indexKnowledgeDocument :: "env \<Rightarrow> CampusRAGClient \<Rightarrow> CampusKnowledgeDocument \<Rightarrow> unit io" where
  "indexKnowledgeDocument E R d =
     io_bind (attempt (if do_content_type d = ''text'' then rag_index_text R (index_request d)
       else rag_index_document R (index_request d))) (\<lambda>resp. case resp of
       Inl e \<Rightarrow> io_then (ignore (UpdateKnowledgeDocument E (failed_document e d))) (fail (unavailable msg_kb_index_failed e))
     | Inr found \<Rightarrow> io_bind (own_chunks E d 0 found) (\<lambda>chunks.
         io_bind (attempt (ReplaceKnowledgeChunks E (do_id d) chunks)) (\<lambda>r. case r of
           Inl e \<Rightarrow> io_then (ignore (UpdateKnowledgeDocument E (failed_document e d))) (fail (internal msg_kb_save_chunks_failed e))
         | Inr u \<Rightarrow> or_fail (internal msg_kb_status_failed)
             (UpdateKnowledgeDocument E (indexed_document (int (length chunks)) d)))))"

fun processKnowledgeIndexBatch :: "env \<Rightarrow> CampusRAGClient \<Rightarrow> CampusKnowledgeDocument list \<Rightarrow> unit io" where
  "processKnowledgeIndexBatch E R [] = ret ()"
| "processKnowledgeIndexBatch E R (d # ds) =
     io_then (ignore (indexKnowledgeDocument E R d)) (processKnowledgeIndexBatch E R ds)"

text \<open>A copy of the document waits for the batch processor; a goroutine would index it at once if it
  could not be queued.\<close>

definition enqueueKnowledgeIndex :: "env \<Rightarrow> CampusRAGClient \<Rightarrow> CampusKnowledgeDocument \<Rightarrow> unit io" where
  "enqueueKnowledgeIndex E R d =
     io_bind (attempt (Telemetry.Add knowledge_batcher knowledge_batcher_update (processKnowledgeIndexBatch E R) (now E) d)) (\<lambda>r.
       case r of Inr u \<Rightarrow> ret ()
       | Inl e \<Rightarrow> (\<lambda>w. (Inr (), w\<lparr>index_spawned := index_spawned w @ [d]\<rparr>)))"

definition flush_knowledge :: "env \<Rightarrow> CampusRAGClient \<Rightarrow> unit io" where
  "flush_knowledge E R = Flush knowledge_batcher knowledge_batcher_update (processKnowledgeIndexBatch E R)"

subsection \<open>Documents by the operators\<close>

record ListCampusKnowledgeDocumentsInput =
  dl_user_id :: string
  dl_keyword :: string
  dl_category :: string
  dl_status :: string
  dl_page :: "32 word"
  dl_size :: "32 word"

definition AdminListKnowledgeDocuments ::
    "env \<Rightarrow> 'x feed_ext_scheme \<Rightarrow> ListCampusKnowledgeDocumentsInput \<Rightarrow> (CampusKnowledgeDocument list \<times> int) io" where
  "AdminListKnowledgeDocuments E X input = require_operator E (dl_user_id input) msg_no_admin_right (
     case normalizePage (dl_page input) (dl_size input) of (page, sz) \<Rightarrow>
     or_fail (internal msg_kb_list_failed) (ListKnowledgeDocuments X (trim_space (dl_keyword input))
       (normalizeKnowledgeCategory (dl_category input)) (normalizeKnowledgeDocumentStatus (dl_status input))
       (page_offset page sz) (sint sz)))"

record CreateCampusKnowledgeDocumentInput =
  dc_user_id :: string
  dc_title :: string
  dc_source :: string
  dc_category :: string
  dc_content_type :: string
  dc_file_url :: string
  dc_file_id :: string
  dc_file_type :: string
  dc_raw_content :: string
  dc_status :: string
  dc_effective_at :: "time option"
  dc_expired_at :: "time option"

definition new_document :: "int \<Rightarrow> CreateCampusKnowledgeDocumentInput \<Rightarrow> CampusKnowledgeDocument" where
  "new_document i input = (let draft = (trim_space (dc_status input) = CampusKnowledgeDocumentStatusDraft) in
     \<lparr>do_id = i, do_title = trimLimit (dc_title input) 120,
      do_source = trimLimit (firstNonEmpty [dc_source input, msg_kb_operator_source]) 120,
      do_category = normalizeKnowledgeCategory (dc_category input),
      do_content_type = normalizeKnowledgeContentType (dc_content_type input),
      do_file_url = trimLimit (dc_file_url input) 1024, do_file_id = trimLimit (dc_file_id input) 64,
      do_file_type = normalizeKnowledgeFileType (dc_file_type input), do_raw_content = trimLimit (dc_raw_content input) 20000,
      do_status = (if draft then CampusKnowledgeDocumentStatusDraft else CampusKnowledgeDocumentStatusIndexing),
      do_parse_status = (if draft then ''draft'' else ''indexing''), do_error_message = [],
      do_uploaded_by = trim_space (dc_user_id input), do_effective_at = dc_effective_at input,
      do_expired_at = dc_expired_at input, do_chunk_count = 0, do_created_at = 0, do_updated_at = 0\<rparr>)"

text \<open>A request without a body is dereferenced before it is checked.\<close>

definition AdminCreateKnowledgeDocument ::
    "env \<Rightarrow> CampusRAGClient \<Rightarrow> CreateCampusKnowledgeDocumentInput option \<Rightarrow> CampusKnowledgeDocument io" where
  "AdminCreateKnowledgeDocument E R inp = (case inp of None \<Rightarrow> fail nil_dereference
   | Some input \<Rightarrow> require_operator E (dc_user_id input) msg_no_admin_right (
     if rune_count (trimLimit (dc_title input) 120) < 2 then fail (InvalidArgument msg_kb_title_short)
     else if normalizeKnowledgeContentType (dc_content_type input) = ''text'' \<and> rune_count (trim_space (dc_raw_content input)) < 10
     then fail (InvalidArgument msg_kb_content_short)
     else if normalizeKnowledgeContentType (dc_content_type input) = ''file'' \<and> trim_space (dc_file_url input) = []
     then fail (InvalidArgument msg_kb_upload_first)
     else io_bind (NextID E) (\<lambda>i. let d = new_document i input in
       io_then (or_fail (internal msg_kb_create_failed) (CreateKnowledgeDocument E d))
       (io_then (if do_status d \<noteq> CampusKnowledgeDocumentStatusDraft then enqueueKnowledgeIndex E R d else ret ())
       (ret d)))))"

record UpdateCampusKnowledgeDocumentInput =
  du_user_id :: string
  du_document_id :: int
  du_title :: string
  du_source :: string
  du_category :: string
  du_status :: string
  du_effective_at :: "time option"
  du_expired_at :: "time option"

text \<open>The document with the new data, and whether what is indexed has changed.\<close>

definition edited_document :: "UpdateCampusKnowledgeDocumentInput \<Rightarrow> CampusKnowledgeDocument \<Rightarrow> CampusKnowledgeDocument \<times> bool" where
  "edited_document input d = (
     let title = (if trim_space (du_title input) = [] then do_title d else trimLimit (du_title input) 120);
       source = (if trim_space (du_source input) = [] then do_source d else trimLimit (du_source input) 120);
       category = (if trim_space (du_category input) = [] then do_category d else normalizeKnowledgeCategory (du_category input))
     in (d\<lparr>do_title := title, do_source := source, do_category := category, do_effective_at := du_effective_at input,
            do_expired_at := du_expired_at input\<rparr>,
         title \<noteq> do_title d \<or> source \<noteq> do_source d \<or> category \<noteq> do_category d \<or>
         \<not> sameOptionalTime (do_effective_at d) (du_effective_at input) \<or> \<not> sameOptionalTime (do_expired_at d) (du_expired_at input)))"

definition waiting_document :: "CampusKnowledgeDocument \<Rightarrow> CampusKnowledgeDocument" where
  "waiting_document d = d\<lparr>do_status := CampusKnowledgeDocumentStatusIndexing, do_parse_status := ''indexing'', do_error_message := []\<rparr>"

definition start_indexing ::
    "env \<Rightarrow> CampusRAGClient \<Rightarrow> string \<Rightarrow> CampusKnowledgeDocument \<Rightarrow> CampusKnowledgeDocument io" where
  "start_indexing E R failed d = (let doc = waiting_document d in
     io_then (or_fail (internal failed) (UpdateKnowledgeDocument E doc)) (io_then (enqueueKnowledgeIndex E R doc) (ret doc)))"

text \<open>Taking a document out: its chunks go from the retrieval service and from the table.\<close>

definition take_out ::
    "env \<Rightarrow> CampusRAGClient \<Rightarrow> string \<Rightarrow> CampusKnowledgeDocument \<Rightarrow> CampusKnowledgeDocument io" where
  "take_out E R status d = (
     let doc = d\<lparr>do_status := status, do_parse_status := status, do_error_message := [], do_chunk_count := 0\<rparr> in
     io_then (ignore (rag_delete_document R (do_id d)))
     (io_then (or_fail (internal msg_kb_remove_failed) (ReplaceKnowledgeChunks E (do_id d) []))
     (io_then (or_fail (internal msg_kb_update_failed) (UpdateKnowledgeDocument E doc)) (ret doc))))"

definition change_document ::
    "env \<Rightarrow> CampusRAGClient \<Rightarrow> UpdateCampusKnowledgeDocumentInput \<Rightarrow> CampusKnowledgeDocument \<Rightarrow> CampusKnowledgeDocument io" where
  "change_document E R input old = (case edited_document input old of (doc, changed) \<Rightarrow>
     let status = normalizeKnowledgeDocumentStatus (du_status input) in
     if status \<noteq> [] \<and> status \<noteq> do_status doc then
       (if status = CampusKnowledgeDocumentStatusActive then start_indexing E R msg_kb_update_failed doc
        else if status = CampusKnowledgeDocumentStatusDisabled \<or> status = CampusKnowledgeDocumentStatusDraft
        then take_out E R status doc
        else fail (InvalidArgument msg_kb_status_invalid))
     else if do_status old = CampusKnowledgeDocumentStatusActive \<and> changed then start_indexing E R msg_kb_update_failed doc
     else io_then (or_fail (internal msg_kb_update_failed) (UpdateKnowledgeDocument E doc)) (ret doc))"

definition require_document :: "int \<Rightarrow> (CampusKnowledgeDocument \<Rightarrow> 'a io) \<Rightarrow> 'a io" where
  "require_document i k = io_bind (or_fail (internal msg_kb_query_failed) (GetKnowledgeDocumentByID i)) (\<lambda>found.
     case found of None \<Rightarrow> fail (NotFound msg_kb_not_found) | Some d \<Rightarrow> k d)"

definition AdminUpdateKnowledgeDocument ::
    "env \<Rightarrow> CampusRAGClient \<Rightarrow> UpdateCampusKnowledgeDocumentInput \<Rightarrow> CampusKnowledgeDocument io" where
  "AdminUpdateKnowledgeDocument E R input = require_operator E (du_user_id input) msg_no_admin_right
     (require_document (du_document_id input) (change_document E R input))"

definition AdminReindexKnowledgeDocument :: "env \<Rightarrow> CampusRAGClient \<Rightarrow> string \<Rightarrow> int \<Rightarrow> CampusKnowledgeDocument io" where
  "AdminReindexKnowledgeDocument E R userID documentID = require_operator E userID msg_no_admin_right
     (require_document documentID (start_indexing E R msg_kb_status_failed))"

definition AdminListKnowledgeChunks :: "env \<Rightarrow> string \<Rightarrow> int \<Rightarrow> 32 word \<Rightarrow> 32 word \<Rightarrow> (CampusKnowledgeChunk list \<times> int) io" where
  "AdminListKnowledgeChunks E userID documentID page0 size0 = require_operator E userID msg_no_admin_right (
     if documentID \<le> 0 then fail (InvalidArgument msg_kb_doc_id_invalid)
     else case normalizePage page0 size0 of (page, sz) \<Rightarrow>
       or_fail (internal msg_kb_chunks_failed) (ListKnowledgeChunks documentID (page_offset page sz) (sint sz)))"

definition AdminTestKnowledgeQuery :: "env \<Rightarrow> CampusRAGClient \<Rightarrow> string \<Rightarrow> string \<Rightarrow> int \<Rightarrow> CampusRAGQueryResponse io" where
  "AdminTestKnowledgeQuery E R userID query0 topK0 = require_operator E userID msg_no_admin_right (
     let query = trim_space query0; topK = (if topK0 \<le> 0 \<or> 10 < topK0 then 5 else topK0) in
     if rune_count query < 2 then fail (InvalidArgument msg_question_empty)
     else or_fail (unavailable msg_rag_down)
       (rag_query R \<lparr>qq_query = query, qq_top_k = topK, qq_categories = [], qq_context = []\<rparr>))"

subsection \<open>Query logs and evaluation cases by the operators\<close>

definition AdminListRAGQueryLogs :: "env \<Rightarrow> string \<Rightarrow> 32 word \<Rightarrow> 32 word \<Rightarrow> (CampusRAGQueryLog list \<times> int) io" where
  "AdminListRAGQueryLogs E userID page0 size0 = require_operator E userID msg_no_admin_right (
     case normalizePage page0 size0 of (page, sz) \<Rightarrow>
     or_fail (internal msg_rag_logs_failed) (ListRAGQueryLogs (page_offset page sz) (sint sz)))"

record ReviewCampusRAGQueryLogInput =
  rv_user_id :: string
  rv_log_id :: int
  rv_label :: string
  rv_note :: string

definition AdminReviewRAGQueryLog :: "env \<Rightarrow> ReviewCampusRAGQueryLogInput \<Rightarrow> CampusRAGQueryLog io" where
  "AdminReviewRAGQueryLog E input = require_operator E (rv_user_id input) msg_no_admin_right (
     let label = normalizeRAGQualityLabel (rv_label input) in
     if label = [] then fail (InvalidArgument msg_rag_label_invalid)
     else io_then (or_fail (internal msg_rag_label_failed)
         (UpdateRAGQueryLogReview E (rv_log_id input) label (trimLimit (trim_space (rv_note input)) 500) (rv_user_id input)))
       (io_bind (or_fail (internal msg_rag_label_read_failed) (GetRAGQueryLogByID (rv_log_id input))) (\<lambda>found.
        case found of None \<Rightarrow> fail (NotFound msg_rag_log_not_found) | Some l \<Rightarrow> ret l)))"

definition AdminListRAGEvalCases ::
    "env \<Rightarrow> 'x feed_ext_scheme \<Rightarrow> string \<Rightarrow> int \<Rightarrow> 32 word \<Rightarrow> 32 word \<Rightarrow> (CampusRAGEvalCase list \<times> int) io" where
  "AdminListRAGEvalCases E X userID status page0 size0 = require_operator E userID msg_no_admin_right (
     case normalizePage page0 size0 of (page, sz) \<Rightarrow>
     or_fail (internal msg_eval_list_failed) (ListRAGEvalCases X status (page_offset page sz) (sint sz)))"

definition AdminBatchUpdateRAGEvalCases :: "env \<Rightarrow> string \<Rightarrow> int list \<Rightarrow> int \<Rightarrow> int io" where
  "AdminBatchUpdateRAGEvalCases E userID caseIDs status = require_operator E userID msg_no_admin_right
     (or_fail (internal msg_eval_batch_failed) (BatchUpdateRAGEvalCasesStatus E caseIDs (if status = 0 then 0 else 1)))"

text \<open>A case as it is entered.\<close>

record eval_input =
  ei_user_id :: string
  ei_question :: string
  ei_expected_document_id :: int
  ei_expected_source :: string
  ei_expected_keywords :: "string list"
  ei_category :: string
  ei_note :: string

definition eval_category :: "string \<Rightarrow> string" where
  "eval_category category = or_default (normalizeKnowledgeCategory category) ''general''"

definition eval_question :: "string \<Rightarrow> string" where
  "eval_question question = trimLimit (trim_space question) 1000"

definition new_eval_case :: "int \<Rightarrow> int \<Rightarrow> eval_input \<Rightarrow> CampusRAGEvalCase" where
  "new_eval_case i sourceLogID input = \<lparr>ec_id = i, ec_question = eval_question (ei_question input),
     ec_expected_document_id = ei_expected_document_id input, ec_expected_source = trimLimit (ei_expected_source input) 120,
     ec_expected_keywords = normalizeRAGExpectedKeywords (ei_expected_keywords input), ec_category = eval_category (ei_category input),
     ec_status = 1, ec_source_log_id = sourceLogID, ec_note = trimLimit (ei_note input) 500, ec_last_run_at = None,
     ec_last_score = 0, ec_last_hit = False, ec_last_confidence = 0, ec_last_result = None, ec_created_by = ei_user_id input,
     ec_created_at = 0, ec_updated_at = 0\<rparr>"

definition AdminCreateRAGEvalCase :: "env \<Rightarrow> int \<Rightarrow> eval_input \<Rightarrow> CampusRAGEvalCase io" where
  "AdminCreateRAGEvalCase E sourceLogID input = require_operator E (ei_user_id input) msg_no_admin_right (
     if rune_count (eval_question (ei_question input)) < 2 then fail (InvalidArgument msg_eval_question_empty)
     else io_bind (NextID E) (\<lambda>i. let c = new_eval_case i sourceLogID input in
       io_then (or_fail (internal msg_eval_create_failed) (CreateRAGEvalCase E c)) (ret c)))"

definition AdminUpdateRAGEvalCase :: "env \<Rightarrow> int \<Rightarrow> int \<Rightarrow> eval_input \<Rightarrow> CampusRAGEvalCase io" where
  "AdminUpdateRAGEvalCase E caseID status input = require_operator E (ei_user_id input) msg_no_admin_right (
     io_bind (or_fail (internal msg_eval_query_failed) (GetRAGEvalCaseByID caseID)) (\<lambda>found. case found of
       None \<Rightarrow> fail (NotFound msg_eval_not_found)
     | Some old \<Rightarrow> if rune_count (eval_question (ei_question input)) < 2 then fail (InvalidArgument msg_eval_question_empty)
       else let c = old\<lparr>ec_question := eval_question (ei_question input), ec_expected_document_id := ei_expected_document_id input,
           ec_expected_source := trimLimit (ei_expected_source input) 120,
           ec_expected_keywords := normalizeRAGExpectedKeywords (ei_expected_keywords input),
           ec_category := eval_category (ei_category input), ec_status := (if status = 0 then 0 else 1),
           ec_note := trimLimit (ei_note input) 500\<rparr> in
         io_then (or_fail (internal msg_eval_update_failed) (UpdateRAGEvalCase E c)) (ret c)))"

subsection \<open>Running and drafting evaluation cases\<close>

definition keywordMatchScore :: "string list \<Rightarrow> string \<Rightarrow> rat" where
  "keywordMatchScore expected text = (if expected = [] then 0
     else let matched = length (filter (\<lambda>k. trim_lower k \<noteq> [] \<and> contains (to_lower text) (trim_lower k)) expected) in
       f_div (of_nat matched) (of_nat (length expected)))"

text \<open>What one chunk adds to the score, and by what it matches. The ranks behind the first count less.\<close>

definition chunk_score :: "CampusRAGEvalCase \<Rightarrow> rat \<Rightarrow> CampusRAGQueryChunk \<Rightarrow> rat \<times> string list \<Rightarrow> rat \<times> string list" where
  "chunk_score item rank c = (\<lambda>(score, matched).
     let by_doc = (0 < ec_expected_document_id item \<and> qc_document_id c = fmt_d (ec_expected_document_id item));
       (s1, m1) = (if by_doc then (f_add score (f_mul (round64 (65 / 100)) rank), matched @ [''document'']) else (score, matched));
       by_source = (ec_expected_source item \<noteq> [] \<and> contains (to_lower (qc_source c)) (to_lower (ec_expected_source item)));
       (s2, m2) = (if by_source then (f_add s1 (f_mul (round64 (2 / 10)) rank), m1 @ [''source'']) else (s1, m1));
       k = keywordMatchScore (ec_expected_keywords item) (qc_content c @ '' '' @ qc_title c @ '' '' @ qc_source c)
     in if ec_expected_keywords item \<noteq> [] \<and> 0 < k
       then (f_add s2 (f_mul (f_mul (round64 (25 / 100)) k) rank), m2 @ [''keywords'']) else (s2, m2))"

fun score_chunks :: "CampusRAGEvalCase \<Rightarrow> rat \<Rightarrow> CampusRAGQueryChunk list \<Rightarrow> rat \<times> string list \<Rightarrow> rat \<times> string list" where
  "score_chunks item rank [] acc = acc"
| "score_chunks item rank (c # cs) acc = score_chunks item (3 / 4) cs (chunk_score item rank c acc)"

definition scoreRAGEvalResult :: "CampusRAGEvalCase \<Rightarrow> CampusRAGQueryResponse \<Rightarrow> rat \<times> bool \<times> string list" where
  "scoreRAGEvalResult item resp = (
     let (s1, m1) = score_chunks item 1 (qr_chunks resp) (0, []);
       (s2, m2) = (if qr_chunks resp \<noteq> [] \<and> ec_expected_document_id item = 0 \<and> ec_expected_source item = [] \<and> ec_expected_keywords item = []
         then (qr_confidence resp, if round64 (52 / 100) \<le> qr_confidence resp then m1 @ [''confidence''] else m1) else (s1, m1));
       score = (if 1 < s2 then 1 else s2)
     in (score, round64 (6 / 10) \<le> score, dedupeStrings m2))"

definition runRAGEvalCase :: "env \<Rightarrow> CampusRAGClient \<Rightarrow> CampusRAGEvalCase \<Rightarrow> CampusRAGEvalResult io" where
  "runRAGEvalCase E R item = (let start = zero_result\<lparr>er_case_id := ec_id item, er_run_at := now E\<rparr> in
     io_bind (attempt (rag_query R \<lparr>qq_query = ec_question item, qq_top_k = 5, qq_categories = [], qq_context = []\<rparr>)) (\<lambda>r. case r of
       Inl e \<Rightarrow> ret (start\<lparr>er_error_message := trimLimit (error_text e) 500\<rparr>)
     | Inr resp \<Rightarrow> (case scoreRAGEvalResult item resp of (score, hit, matched) \<Rightarrow>
         ret (start\<lparr>er_need_knowledge := qr_need_knowledge resp, er_confidence := qr_confidence resp,
           er_top_chunks := qr_chunks resp, er_score := score, er_hit := hit, er_matched_by := matched\<rparr>))))"

fun chosen_cases :: "int list \<Rightarrow> CampusRAGEvalCase list io" where
  "chosen_cases [] = ret []"
| "chosen_cases (i # is) = (if i \<le> 0 then chosen_cases is
     else io_bind (or_fail (internal msg_eval_query_failed) (GetRAGEvalCaseByID i)) (\<lambda>found.
       io_bind (chosen_cases is) (\<lambda>rest. ret (case found of None \<Rightarrow> rest | Some c \<Rightarrow> c # rest))))"

fun run_cases :: "env \<Rightarrow> CampusRAGClient \<Rightarrow> CampusRAGEvalCase list \<Rightarrow> CampusRAGEvalResult list io" where
  "run_cases E R [] = ret []"
| "run_cases E R (c # cs) = (if ec_status c = 0 then run_cases E R cs
     else io_bind (runRAGEvalCase E R c) (\<lambda>x.
       io_then (ignore (UpdateRAGEvalCaseResult E (ec_id c) x))
       (io_bind (run_cases E R cs) (\<lambda>rest. ret (x # rest)))))"

record RunCampusRAGEvalCasesOutput =
  ro_results :: "CampusRAGEvalResult list"
  ro_total :: int
  ro_passed :: int
  ro_average :: rat

definition eval_summary :: "CampusRAGEvalResult list \<Rightarrow> RunCampusRAGEvalCasesOutput" where
  "eval_summary rs = \<lparr>ro_results = rs, ro_total = int (length rs), ro_passed = int (length (filter er_hit rs)),
     ro_average = (if rs = [] then 0 else f_div (foldl (\<lambda>s x. f_add s (er_score x)) 0 rs) (of_nat (length rs)))\<rparr>"

definition AdminRunRAGEvalCases ::
    "env \<Rightarrow> 'x feed_ext_scheme \<Rightarrow> CampusRAGClient \<Rightarrow> string \<Rightarrow> int list \<Rightarrow> RunCampusRAGEvalCasesOutput io" where
  "AdminRunRAGEvalCases E X R userID ids = require_operator E userID msg_no_admin_right (
     io_bind (if ids \<noteq> [] then chosen_cases ids
       else io_bind (or_fail (internal msg_eval_list_failed) (ListRAGEvalCases X 1 0 50)) (\<lambda>(cs, n). ret cs)) (\<lambda>cs.
     io_bind (run_cases E R cs) (\<lambda>rs. ret (eval_summary rs))))"

definition parseInt64String :: "string \<Rightarrow> int" where
  "parseInt64String s = fst (parse_int64 (trim_space s))"

definition draft_of_log :: "env \<Rightarrow> int \<Rightarrow> CampusRAGQueryLog \<Rightarrow> CampusRAGEvalCase" where
  "draft_of_log E i l = (
     let (document, source, category) = (case ql_hit_chunks l of [] \<Rightarrow> ([], [], [])
       | c # cs \<Rightarrow> (qc_document_id c, qc_source c, qc_category c)) in
     \<lparr>ec_id = i, ec_question = trimLimit (ql_query l) 1000, ec_expected_document_id = parseInt64String document,
      ec_expected_source = trimLimit source 120, ec_expected_keywords = [], ec_category = eval_category category,
      ec_status = 0, ec_source_log_id = ql_id l, ec_note = msg_eval_from_agent, ec_last_run_at = None, ec_last_score = 0,
      ec_last_hit = False, ec_last_confidence = 0, ec_last_result = None, ec_created_by = scheduledAgentOperatorID E,
      ec_created_at = 0, ec_updated_at = 0\<rparr>)"

text \<open>A log whose case cannot be looked up or stored is passed over.\<close>

fun seed_drafts :: "env \<Rightarrow> CampusRAGQueryLog list \<Rightarrow> int \<Rightarrow> int io" where
  "seed_drafts E [] created = ret created"
| "seed_drafts E (l # ls) created =
     (if ql_id l \<le> 0 \<or> trim_space (ql_query l) = [] then seed_drafts E ls created
      else io_bind (attempt (GetRAGEvalCaseBySourceLogID (ql_id l))) (\<lambda>found. case found of
        Inl e \<Rightarrow> seed_drafts E ls created
      | Inr (Some c) \<Rightarrow> seed_drafts E ls created
      | Inr None \<Rightarrow> io_bind (NextID E) (\<lambda>i. io_bind (attempt (CreateRAGEvalCase E (draft_of_log E i l))) (\<lambda>r. case r of
          Inl e \<Rightarrow> seed_drafts E ls created
        | Inr u \<Rightarrow> seed_drafts E ls (created + 1)))))"

definition SeedRAGEvalDraftsFromLogs :: "env \<Rightarrow> int \<Rightarrow> int io" where
  "SeedRAGEvalDraftsFromLogs E limit0 = (let limit = (if limit0 \<le> 0 then 30 else limit0) in
     io_bind (ListRAGQueryLogsForEvalDrafts limit) (\<lambda>ls. seed_drafts E ls 0))"

subsection \<open>What indexing does\<close>

text \<open>The service does not write the tables.\<close>

definition rag_apart :: "CampusRAGClient \<Rightarrow> bool" where
  "rag_apart R \<longleftrightarrow> (\<forall>q. keeps (\<lambda>t. t) (rag_index_document R q)) \<and> (\<forall>q. keeps (\<lambda>t. t) (rag_index_text R q))"

text \<open>The chunks that an answer stands for, in order, without their ids.\<close>

fun chunks_of :: "CampusKnowledgeDocument \<Rightarrow> int \<Rightarrow> CampusKnowledgeChunk list \<Rightarrow> CampusKnowledgeChunk list" where
  "chunks_of d idx [] = []"
| "chunks_of d idx (c # cs) = c\<lparr>ck_id := 0, ck_document_id := do_id d, ck_chunk_index := idx,
        ck_title := firstNonEmpty [ck_title c, do_title d], ck_category := firstNonEmpty [ck_category c, do_category d],
        ck_source := firstNonEmpty [ck_source c, do_source d], ck_status := firstNonEmpty [ck_status c, ''active''],
        ck_embedding_status := firstNonEmpty [ck_embedding_status c, ''done'']\<rparr> # chunks_of d (idx + 1) cs"

definition live_rows :: "int \<Rightarrow> tables \<Rightarrow> campusKnowledgeChunkModel list" where
  "live_rows i t = map (\<lambda>r. r\<lparr>kc_id := 0\<rparr>) (filter (live_chunk i) (knowledge_chunks t))"

definition answer_rows :: "env \<Rightarrow> CampusKnowledgeDocument \<Rightarrow> CampusKnowledgeChunk list \<Rightarrow> campusKnowledgeChunkModel list" where
  "answer_rows E d found = map (toKnowledgeChunkModel E) (chunks_of d 0 found)"

lemma own_chunks_result:
  assumes "own_chunks E d k cs w = (Inr out, w')"
  shows "map (\<lambda>c. c\<lparr>ck_id := 0\<rparr>) out = chunks_of d k cs \<and> (\<forall>c \<in> set out. ck_document_id c = do_id d) \<and> db w' = db w"
  using assms
proof (induction cs arbitrary: k out w w')
  case (Cons c cs)
  from Cons.prems obtain i w1 rest where n: "NextID E w = (Inr i, w1)" and o: "own_chunks E d (k + 1) cs w1 = (Inr rest, w')"
    and out: "out = c\<lparr>ck_id := i, ck_document_id := do_id d, ck_chunk_index := k,
        ck_title := firstNonEmpty [ck_title c, do_title d], ck_category := firstNonEmpty [ck_category c, do_category d],
        ck_source := firstNonEmpty [ck_source c, do_source d], ck_status := firstNonEmpty [ck_status c, ''active''],
        ck_embedding_status := firstNonEmpty [ck_embedding_status c, ''done'']\<rparr> # rest"
    by (auto elim!: io_bind_InrE simp del: firstNonEmpty.simps)
  have "db w1 = db w" using n by (auto simp: NextID_def)
  with Cons.IH [OF o] show ?case by (simp add: out del: firstNonEmpty.simps)
qed simp

lemma length_chunks_of [simp]: "length (chunks_of d k cs) = length cs"
  by (induction cs arbitrary: k) (simp_all del: firstNonEmpty.simps)

lemma live_after_retire: "filter (live_chunk i) (upd_where (\<lambda>r. kc_document_id r = i) (retire_chunk E) rows) = []"
  by (induction rows) (auto simp: live_chunk_def retire_chunk_def)

lemma others_after_retire:
  "filter (\<lambda>r. kc_document_id r \<noteq> i) (upd_where (\<lambda>r. kc_document_id r = i) (retire_chunk E) rows) =
     filter (\<lambda>r. kc_document_id r \<noteq> i) rows"
  by (induction rows) (auto simp: retire_chunk_def)

lemma chunk_row_simps: "kc_document_id (toKnowledgeChunkModel E c) = ck_document_id c" "\<not> kc_is_deleted (toKnowledgeChunkModel E c)"
  "(toKnowledgeChunkModel E c)\<lparr>kc_id := 0\<rparr> = toKnowledgeChunkModel E (c\<lparr>ck_id := 0\<rparr>)"
  by (simp_all add: toKnowledgeChunkModel_def)

lemma Replace_outcome:
  assumes "ReplaceKnowledgeChunks E i chunks w = (r, w')" and "\<forall>c \<in> set chunks. ck_document_id c = i"
  obtains e where "r = Inl e" and "db w' = db w"
  | "r = Inr ()" and "live_rows i (db w') = map (toKnowledgeChunkModel E) (map (\<lambda>c. c\<lparr>ck_id := 0\<rparr>) chunks)"
    and "filter (\<lambda>c. kc_document_id c \<noteq> i) (knowledge_chunks (db w')) = filter (\<lambda>c. kc_document_id c \<noteq> i) (knowledge_chunks (db w))"
    and "knowledge_documents (db w') = upd_where (\<lambda>r. kd_id r = i)
      (\<lambda>r. r\<lparr>kd_chunk_count := int (length chunks), kd_updated_at := now E\<rparr>) (knowledge_documents (db w))"
proof (cases r)
  case (Inl e)
  with assms(1) have "db w' = db w" unfolding ReplaceKnowledgeChunks_def by (auto dest: transaction_atomic)
  with Inl that(1) show ?thesis by blast
next
  case (Inr u)
  let ?rows = "map (toKnowledgeChunkModel E) chunks"
  from assms(1) Inr have c: "knowledge_chunks (db w') = upd_where (\<lambda>r. kc_document_id r = i) (retire_chunk E) (knowledge_chunks (db w)) @ ?rows"
    and d: "knowledge_documents (db w') = upd_where (\<lambda>r. kd_id r = i)
      (\<lambda>r. r\<lparr>kd_chunk_count := int (length chunks), kd_updated_at := now E\<rparr>) (knowledge_documents (db w))"
    unfolding ReplaceKnowledgeChunks_def Let_def
    by (auto elim!: transaction_InrE io_then_InrE sql_update_InrE sql_create_all_InrE split: if_splits)
  have "filter (live_chunk i) ?rows = ?rows" "filter (\<lambda>c. kc_document_id c \<noteq> i) ?rows = []"
    using assms(2) by (auto simp: live_chunk_def chunk_row_simps filter_id_conv filter_empty_conv)
  with c d that(2) Inr show ?thesis
    by (simp add: live_rows_def live_after_retire others_after_retire chunk_row_simps(3) del: map_map) (simp add: o_def chunk_row_simps(3))
qed

definition index_answer :: "CampusRAGClient \<Rightarrow> CampusKnowledgeDocument \<Rightarrow> CampusKnowledgeChunk list io" where
  "index_answer R d = (if do_content_type d = ''text'' then rag_index_text R (index_request d)
     else rag_index_document R (index_request d))"

lemma own_chunks_total: "\<exists>out w'. own_chunks E d k cs w = (Inr out, w')"
proof (induction cs arbitrary: k w)
  case (Cons c cs)
  obtain i w1 where "NextID E w = (Inr i, w1)" by (simp add: NextID_def)
  moreover obtain out w2 where "own_chunks E d (k + 1) cs w1 = (Inr out, w2)" using Cons.IH by blast
  ultimately show ?case by (simp add: io_bind_def del: firstNonEmpty.simps)
qed simp

lemma Update_document_E:
  assumes "UpdateKnowledgeDocument E d w = (r, w')"
  obtains e where "r = Inl e" and "db w' = db w"
  | "r = Inr ()" and "knowledge_chunks (db w') = knowledge_chunks (db w)"
    and "\<And>row. row \<in> set (knowledge_documents (db w')) \<Longrightarrow> live_document (do_id d) row \<Longrightarrow>
      kd_status row = do_status d \<and> kd_parse_status row = do_parse_status d \<and> kd_chunk_count row = do_chunk_count d"
proof (cases r)
  case (Inl e)
  have "db w' = db w" using assms Inl unfolding UpdateKnowledgeDocument_def sql_update_def by (auto elim!: command_InlE)
  with Inl that(1) show ?thesis by blast
next
  case (Inr u)
  obtain fs where w': "w' = w\<lparr>faults := fs, db := knowledge_documents_update (upd_where (live_document (do_id d))
     (\<lambda>r. r\<lparr>kd_title := do_title d, kd_source := do_source d, kd_category := do_category d, kd_status := do_status d,
        kd_parse_status := do_parse_status d, kd_error_message := trimLimitData (do_error_message d) 1000,
        kd_effective_at := do_effective_at d, kd_expired_at := do_expired_at d, kd_chunk_count := do_chunk_count d,
        kd_updated_at := now E\<rparr>)) (db w)\<rparr>"
    using assms unfolding UpdateKnowledgeDocument_def Inr by (elim sql_update_InrE)
  show ?thesis
  proof (rule that(2))
    show "r = Inr ()" using Inr by simp
    show "knowledge_chunks (db w') = knowledge_chunks (db w)" by (simp add: w')
  qed (auto simp: w' set_upd_where live_document_def)
qed

lemma failed_keeps_chunks: "keeps knowledge_chunks (ignore (UpdateKnowledgeDocument E d))"
  unfolding UpdateKnowledgeDocument_def by (intro frames) simp


text \<open>A document of one chunk.\<close>

definition sample_document :: CampusKnowledgeDocument where
  "sample_document = \<lparr>do_id = 1, do_title = ''dorm'', do_source = ''staff'', do_category = ''dorm'', do_content_type = ''text'',
     do_file_url = [], do_file_id = ''0'', do_file_type = [], do_raw_content = [], do_status = ''indexing'',
     do_parse_status = ''indexing'', do_error_message = [], do_uploaded_by = ''8'', do_effective_at = None, do_expired_at = None,
     do_chunk_count = 0, do_created_at = 0, do_updated_at = 0\<rparr>"

definition sample_chunk :: CampusKnowledgeChunk where
  "sample_chunk = \<lparr>ck_id = 0, ck_document_id = 0, ck_chunk_index = 0, ck_title = [], ck_content = ''text'', ck_summary = [],
     ck_category = [], ck_keywords = [], ck_source = [], ck_status = [], ck_qdrant_point_id = [], ck_embedding_status = [],
     ck_score = 0, ck_created_at = 0, ck_updated_at = 0\<rparr>"

definition rag_sample :: CampusRAGClient where
  "rag_sample = noopCampusRAGClient\<lparr>rag_index_text := (\<lambda>req. ret [sample_chunk])\<rparr>"

definition knowledge_world :: world where
  "knowledge_world = empty_world\<lparr>db := empty_tables\<lparr>knowledge_documents := [toKnowledgeDocumentModel sample_env sample_document]\<rparr>\<rparr>"


subsection \<open>A queued copy is taken for the document\<close>

text \<open>
  What is queued is a copy: when an operator disables the document before the batch is processed, the
  indexer makes it active again and its chunks readable.
\<close>

lemma disabled_document_comes_back:
  assumes "processKnowledgeIndexBatch E R [d] w = (Inr (), w')" and "faults w = []" and "do_content_type d = ''text''"
    and "rag_index_text R (index_request d) = ret []" and "row \<in> set (knowledge_documents (db w))" and "live_document (do_id d) row"
    and "kd_status row = ''disabled''"
  shows "\<exists>row' \<in> set (knowledge_documents (db w')). kd_id row' = kd_id row \<and> kd_status row' = ''active''"
proof -
  let ?new = "\<lambda>r :: campusKnowledgeDocumentModel. r\<lparr>kd_title := do_title d, kd_source := do_source d, kd_category := do_category d,
        kd_status := ''active'', kd_parse_status := ''done'', kd_error_message := trimLimitData [] 1000,
        kd_effective_at := do_effective_at d, kd_expired_at := do_expired_at d, kd_chunk_count := 0, kd_updated_at := now E\<rparr>"
  define t where "t = knowledge_documents_update (upd_where (\<lambda>r. kd_id r = do_id d)
      (\<lambda>r. r\<lparr>kd_chunk_count := 0, kd_updated_at := now E\<rparr>)) (knowledge_chunks_update (upd_where (\<lambda>r. kc_document_id r = do_id d) (retire_chunk E)) (db w))"
  have rep: "ReplaceKnowledgeChunks E (do_id d) [] w = (Inr (), w\<lparr>db := t\<rparr>)"
    using assms(2) by (simp add: ReplaceKnowledgeChunks_def transaction_def io_online t_def)
  have "snd (UpdateKnowledgeDocument E (indexed_document 0 d) (w\<lparr>db := t\<rparr>)) = w'"
    using assms(1,3,4) by (simp add: indexKnowledgeDocument_def ignore_def attempt_def or_fail_def io_bind_def io_then_def rep
      split: prod.splits sum.splits)
  then have docs: "knowledge_documents (db w') = upd_where (live_document (do_id d)) ?new (knowledge_documents t)"
    using assms(2) by (auto simp: UpdateKnowledgeDocument_def sql_update_def command_def indexed_document_def
      CampusKnowledgeDocumentStatusActive_def)
  have "row\<lparr>kd_chunk_count := 0, kd_updated_at := now E\<rparr> \<in> set (knowledge_documents t)"
    using assms(5,6) by (auto simp: t_def set_upd_where live_document_def image_iff)
  then have "?new (row\<lparr>kd_chunk_count := 0, kd_updated_at := now E\<rparr>) \<in> set (knowledge_documents (db w'))"
    using assms(6) unfolding docs by (intro upd_where_in) (auto simp: live_document_def)
  then show ?thesis by (rule bexI [rotated]) simp
qed

text \<open>A list without a category is the list of the category "general".\<close>

lemma no_category_is_general: "AdminListKnowledgeDocuments E X (input\<lparr>dl_category := []\<rparr>) =
    AdminListKnowledgeDocuments E X (input\<lparr>dl_category := ''general''\<rparr>)"
proof -
  have "lower_trim ''general'' = ''general''"
    by (simp add: lower_trim_def to_lower_graphic trim_space_graphic byte_def)
  then have "normalizeKnowledgeCategory [] = ''general''" "normalizeKnowledgeCategory ''general'' = ''general''"
    by (simp_all add: normalizeKnowledgeCategory_def feed_literals Let_def trimLimit_def trim_space_graphic byte_def
      rune_count_def runes_graphic)
  then show ?thesis by (simp add: AdminListKnowledgeDocuments_def)
qed

text \<open>A case that was never run is read back with a result.\<close>

lemma fresh_case_has_result: "ec_last_result c = None \<Longrightarrow> ec_last_result (toBizRAGEvalCase (toRAGEvalCaseModel E c)) = Some zero_result"
  by (simp add: toBizRAGEvalCase_def toRAGEvalCaseModel_def Let_def)

subsection \<open>Drafts are made once\<close>

definition drafted_from :: "env \<Rightarrow> CampusRAGQueryLog list \<Rightarrow> campusRAGEvalCaseModel list \<Rightarrow> campusRAGEvalCaseModel list \<Rightarrow> bool" where
  "drafted_from E ls old added \<longleftrightarrow>
     (\<forall>c \<in> set added. rc_status c = 0 \<and> 0 < rc_source_log_id c \<and> rc_source_log_id c \<notin> rc_source_log_id ` set old \<and>
        (\<exists>l \<in> set ls. ql_id l = rc_source_log_id c \<and> trim_space (ql_query l) \<noteq> [])) \<and>
     distinct (map rc_source_log_id added)"

lemma drafted_from_Cons:
  assumes "drafted_from E ls (old @ [c]) added" and "rc_status c = 0" and "0 < rc_source_log_id c"
    and "rc_source_log_id c \<notin> rc_source_log_id ` set old" and "ql_id l = rc_source_log_id c" and "trim_space (ql_query l) \<noteq> []"
  shows "drafted_from E (l # ls) old (c # added)"
  using assms by (auto simp: drafted_from_def)

lemma drafted_from_more: "drafted_from E ls old added \<Longrightarrow> drafted_from E (l # ls) old added"
  by (auto simp: drafted_from_def)

lemma draft_fields: "rc_status (toRAGEvalCaseModel E (draft_of_log E i l)) = 0"
  "rc_source_log_id (toRAGEvalCaseModel E (draft_of_log E i l)) = ql_id l"
  by (simp_all add: toRAGEvalCaseModel_def draft_of_log_def Let_def split: prod.splits)

lemma seed_drafts_result:
  assumes "seed_drafts E ls k w = (r, w')"
  shows "\<exists>added. rag_eval_cases (db w') = rag_eval_cases (db w) @ added \<and> drafted_from E ls (rag_eval_cases (db w)) added \<and>
    r = Inr (k + int (length added))"
  using assms
proof (induction ls arbitrary: k w)
  case Nil
  then show ?case by (simp add: drafted_from_def)
next
  case (Cons l ls)
  have skip: ?case if "seed_drafts E ls k w1 = (r, w')" "db w1 = db w" for w1
    using Cons.IH [OF that(1)] that(2) drafted_from_more by metis
  show ?case
  proof (cases "ql_id l \<le> 0 \<or> trim_space (ql_query l) = []")
    case True
    with Cons.prems show ?thesis by (intro skip [of w]) auto
  next
    case False
    obtain f w1 where g: "GetRAGEvalCaseBySourceLogID (ql_id l) w = (f, w1)" by fastforce
    have "keeps (\<lambda>t. t) (GetRAGEvalCaseBySourceLogID (ql_id l))" unfolding GetRAGEvalCaseBySourceLogID_def by (intro frames)
    from keepsD [OF this g] have d1: "db w1 = db w" .
    from Cons.prems False g have rest: "(case f of Inl e \<Rightarrow> seed_drafts E ls k | Inr (Some c) \<Rightarrow> seed_drafts E ls k
      | Inr None \<Rightarrow> io_bind (NextID E) (\<lambda>i. io_bind (attempt (CreateRAGEvalCase E (draft_of_log E i l))) (\<lambda>r. case r of
          Inl e \<Rightarrow> seed_drafts E ls k | Inr u \<Rightarrow> seed_drafts E ls (k + 1)))) w1 = (r, w')"
      by (simp add: attempt_def io_bind_def [of "attempt _"])
    show ?thesis
    proof (cases "f = Inr None")
      case no_case: False
      have "seed_drafts E ls k w1 = (r, w')" using rest no_case by (auto split: sum.splits option.splits)
      then show ?thesis by (rule skip) (rule d1)
    next
      case True
      have fresh: "ql_id l \<notin> rc_source_log_id ` set (rag_eval_cases (db w))"
        using g True False by (auto simp: GetRAGEvalCaseBySourceLogID_def find_None_iff elim!: io_bind_InrE sql_first_InrE)
      let ?i = "idgen E (next_seq w1)"
      let ?row = "toRAGEvalCaseModel E (draft_of_log E ?i l)"
      obtain u w3 where c: "CreateRAGEvalCase E (draft_of_log E ?i l) (w1\<lparr>next_seq := Suc (next_seq w1)\<rparr>) = (u, w3)" by fastforce
      have rest: "(case u of Inl e \<Rightarrow> seed_drafts E ls k | Inr u \<Rightarrow> seed_drafts E ls (k + 1)) w3 = (r, w')"
        using rest True c by (simp add: io_bind_def NextID_def attempt_def)
      show ?thesis
      proof (cases u)
        case (Inl e)
        then have "db w3 = db w" using c d1 unfolding CreateRAGEvalCase_def sql_create_def by (auto elim!: command_InlE split: if_splits)
        with rest Inl show ?thesis by (intro skip [of w3]) auto
      next
        case (Inr uu)
        have d3: "rag_eval_cases (db w3) = rag_eval_cases (db w) @ [?row]"
          using c Inr d1 unfolding CreateRAGEvalCase_def by (auto elim!: sql_create_InrE)
        from rest Inr have "seed_drafts E ls (k + 1) w3 = (r, w')" by simp
        from Cons.IH [OF this] obtain added where "rag_eval_cases (db w') = rag_eval_cases (db w3) @ added"
          and dr: "drafted_from E ls (rag_eval_cases (db w3)) added" and "r = Inr (k + 1 + int (length added))" by blast
        moreover have "drafted_from E (l # ls) (rag_eval_cases (db w)) (?row # added)"
          by (rule drafted_from_Cons) (use dr d3 fresh False in \<open>simp_all add: draft_fields\<close>)
        ultimately show ?thesis using d3 by (intro exI [of _ "?row # added"]) simp
      qed
    qed
  qed
qed

text \<open>
  C38. The agent turns questions that were answered badly into drafts of evaluation cases: whatever
  fails and how often it runs, the cases that are there stay as they are, every new one is an inactive
  draft of a log that needs a case, no log gets a second draft, and the number returned is the number
  of new drafts.
\<close>

theorem drafts_made_once:
  assumes "SeedRAGEvalDraftsFromLogs E limit w = (r, w')"
  shows "\<exists>added. rag_eval_cases (db w') = rag_eval_cases (db w) @ added \<and> (\<forall>n. r = Inr n \<longrightarrow> n = int (length added)) \<and>
    distinct (map rc_source_log_id added) \<and>
    (\<forall>c \<in> set added. rc_status c = 0 \<and> rc_source_log_id c \<notin> rc_source_log_id ` set (rag_eval_cases (db w)) \<and>
       (\<exists>l \<in> set (rag_query_logs (db w)). needs_eval l \<and> rq_id l = rc_source_log_id c))"
proof -
  let ?n = "if limit \<le> 0 then 30 else limit"
  have k: "keeps (\<lambda>t. t) (ListRAGQueryLogsForEvalDrafts ?n)" unfolding ListRAGQueryLogsForEvalDrafts_def Let_def by (intro frames)
  from assms have run: "io_bind (ListRAGQueryLogsForEvalDrafts ?n) (\<lambda>ls. seed_drafts E ls 0) w = (r, w')"
    by (simp add: SeedRAGEvalDraftsFromLogs_def Let_def split: if_splits)
  from run show ?thesis
  proof (cases rule: io_bind_E)
    case (1 e)
    then show ?thesis using keepsD [OF k 1(1)] by (intro exI [of _ "[]"]) simp
  next
    case (2 ls w1)
    have logs: "\<exists>r \<in> set (rag_query_logs (db w)). needs_eval r \<and> rq_id r = ql_id l" if "l \<in> set ls" for l
      using 2(1) that unfolding ListRAGQueryLogsForEvalDrafts_def Let_def
      by (auto elim!: io_bind_InrE sql_find_ordered_InrE dest!: in_set_takeD) (auto simp: toBizRAGQueryLog_def)
    from seed_drafts_result [OF 2(2)] keepsD [OF k 2(1)] obtain added
      where "rag_eval_cases (db w') = rag_eval_cases (db w) @ added"
      and "drafted_from E ls (rag_eval_cases (db w)) added" and "r = Inr (int (length added))" by auto
    with logs show ?thesis by (fastforce simp: drafted_from_def)
  qed
qed

definition seed_world :: world where
  "seed_world = empty_world\<lparr>db := empty_tables\<lparr>rag_query_logs := [\<lparr>rq_id = 3, rq_user_id = 0, rq_post_id = 0,
     rq_trigger_comment_id = 0, rq_query = ''hi'', rq_need_knowledge = False, rq_confidence = 0, rq_hit_chunks = [], rq_answer = [],
     rq_model = [], rq_duration_ms = 0, rq_error_message = ''down'', rq_quality_label = [], rq_quality_note = [], rq_reviewed_by = 0,
     rq_reviewed_at = None, rq_created_at = 0\<rparr>]\<rparr>\<rparr>"

theorem drafts_made_once_witness:
  "\<exists>w' c. SeedRAGEvalDraftsFromLogs sample_env 0 seed_world = (Inr 1, w') \<and> rag_eval_cases (db w') = [c] \<and>
     rc_status c = 0 \<and> rc_source_log_id c = 3"
proof -
  let ?run = "SeedRAGEvalDraftsFromLogs sample_env 0 seed_world"
  have "fst ?run = Inr 1"
    by (simp add: SeedRAGEvalDraftsFromLogs_def ListRAGQueryLogsForEvalDrafts_def seed_world_def needs_eval_def
      toBizRAGQueryLog_def GetRAGEvalCaseBySourceLogID_def CreateRAGEvalCase_def attempt_def NextID_def io_online
      empty_world_def empty_tables_def Let_def forum_literals)
  then obtain w' where run: "?run = (Inr 1, w')" by (metis prod.collapse)
  from drafts_made_once [OF run] have "\<exists>c. rag_eval_cases (db w') = [c] \<and> rc_status c = 0 \<and> rc_source_log_id c = 3"
    by (auto simp: seed_world_def empty_world_def empty_tables_def length_Suc_conv)
  with run show ?thesis by blast
qed

end
