(* ===== verification/AiReply.thy ===== *)
theory AiReply
  imports Knowledge
begin

text \<open>
  How the bot answers (\<open>biz/campus.go\<close>: \<open>ProcessPendingAIReplyTasks\<close>, \<open>processAIReplyTask\<close>,
  \<open>generateEzaiAnswer\<close>, the prompts and the preview; \<open>data/campus.go\<close>: the lists of reply tasks).
  The chat service and the retrieval service are parameters: an exchange gives the status, the first
  bytes of the body and what \<open>json.Unmarshal\<close> makes of them. Deadlines are theirs; the zone of the
  server and the measured duration of a query are parameters too.
\<close>

subsection \<open>Configuration\<close>

record ChatMessage =
  cm_role :: string
  cm_content :: string

record ChatRequest =
  rr_url :: string
  rr_authorization :: string
  rr_model :: string
  rr_messages :: "ChatMessage list"
  rr_max_tokens :: int
  rr_temperature :: rat

record ai_usage_doc =
  ud_model :: string
  ud_prompt_tokens :: int
  ud_completion_tokens :: int
  ud_total_tokens :: int
  ud_input_tokens :: int
  ud_output_tokens :: int

text \<open>No answer, or status, body, the usage in it unless it does not decode, and the contents of its
  choices.\<close>

datatype chat_answer = ChatUnreachable go_error
  | ChatAnswer int string "ai_usage_doc option" "go_error + string list"

record ai_ext = feed_ext +
  rag_client :: CampusRAGClient
  chat_exchange :: "ChatRequest \<Rightarrow> chat_answer io"
  rag_duration_ms :: int
  local_offset :: time

definition envInt64 :: "env \<Rightarrow> string \<Rightarrow> int \<Rightarrow> int" where
  "envInt64 E key fallback = (let value = trim_space (getenv E key) in
     if value = [] then fallback
     else case parse_int64 value of (n, ok) \<Rightarrow> if \<not> ok \<or> n \<le> 0 then fallback else n)"

definition aiReplyConfig_BaseURL :: "env \<Rightarrow> string" where
  "aiReplyConfig_BaseURL E =
     trim_space (firstNonEmpty [getenv E ''CAMPUS_AI_BASE_URL'', ''https://api.deepseek.com/chat/completions''])"

definition aiReplyConfig_Model :: "env \<Rightarrow> string" where
  "aiReplyConfig_Model E = trim_space (firstNonEmpty [getenv E ''CAMPUS_AI_MODEL'', ''deepseek-v4-flash''])"

definition aiReplyConfig_DailyLimit :: "env \<Rightarrow> int" where
  "aiReplyConfig_DailyLimit E = envInt64 E ''CAMPUS_AI_DAILY_LIMIT'' 200"

definition aiReplyConfig_MaxOutputTokens :: "env \<Rightarrow> int" where
  "aiReplyConfig_MaxOutputTokens E = envInt64 E ''CAMPUS_AI_MAX_OUTPUT_TOKENS'' 220"

definition aiReplyConfig_Temperature :: rat where
  "aiReplyConfig_Temperature = round64 (35 / 100)"

text \<open>\<open>Enabled\<close> is decided before the two values are trimmed, but for the same blanks.\<close>

definition aiReplyConfig_Enabled :: "env \<Rightarrow> bool" where
  "aiReplyConfig_Enabled E \<longleftrightarrow>
     trim_space (firstNonEmpty [getenv E ''CAMPUS_AI_API_KEY'', getenv E ''DEEPSEEK_API_KEY'']) \<noteq> [] \<and>
     trim_space (firstNonEmpty [getenv E ''CAMPUS_EZAI_BOT_USER_ID'', getenv E ''CAMPUS_EZAI_USER_ID'']) \<noteq> []"

subsection \<open>Prompts\<close>

definition nl :: string where "nl = [char_of (10::nat)]"

definition buildEzaiSystemPrompt :: "CampusEzaiPersonaConfig \<Rightarrow> bool \<Rightarrow> string" where
  "buildEzaiSystemPrompt persona0 hasKnowledge = (let persona = normalizeEzaiPersonaConfig (Some persona0) in
     msg_you_are @ pe_name persona @ msg_quote_comma @ pe_role persona @ msg_full_stop @ nl @
     msg_character @ pe_personality persona @ nl @
     msg_tone @ pe_tone persona @ nl @
     msg_answer_rule @ pe_style_rules persona @ nl @
     msg_safety_rule @ pe_safety_rules persona @ nl @
     msg_scene @
     (if hasKnowledge then '' '' @ msg_cite_rule else []) @
     '' '' @ msg_length_1 @ fmt_d (pe_max_reply_chars persona) @ msg_length_2)"

definition buildEzaiPostContext :: "CampusForumPost \<Rightarrow> string" where
  "buildEzaiPostContext post = (let
     title = trimLimit (trim_space (bp_title post)) 120;
     postType = trim_space (bp_post_type post);
     category = firstNonEmpty [trim_space (bp_category_name post), trim_space (bp_category_code post)];
     content = trim_space (bp_content post)
   in msg_title_colon @ (if title = [] then msg_no_title else title) @
      (if postType \<noteq> [] then nl @ msg_type_colon @ postType else []) @
      (if category \<noteq> [] then nl @ msg_board_colon @ category else []) @
      (if content \<noteq> [] then nl @ msg_body_colon @ trimLimit content 900 else nl @ msg_body_none) @
      (if bp_images post \<noteq> [] then nl @ msg_pictures_1 @ fmt_d (int (length (bp_images post))) @ msg_pictures_2 else []))"

definition ezaiMinRAGConfidence :: "env \<Rightarrow> rat" where
  "ezaiMinRAGConfidence E = (let value = trim_space (getenv E ''CAMPUS_EZAI_MIN_RAG_CONFIDENCE''); d = round64 (56 / 100) in
     if value = [] then d
     else case parse_float value of None \<Rightarrow> d | Some x \<Rightarrow> if x < 0 \<or> 1 < x then d else x)"

text \<open>The first four chunks that have a text.\<close>

fun knowledge_lines :: "int \<Rightarrow> CampusRAGQueryChunk list \<Rightarrow> string" where
  "knowledge_lines k [] = []"
| "knowledge_lines k (c # cs) = (if trim_space (qc_content c) = [] then knowledge_lines k cs
     else let n = k + 1 in
       ''['' @ fmt_d n @ ''] '' @ msg_title_colon @ trimLimit (qc_title c) 80 @ msg_source_colon @ trimLimit (qc_source c) 80 @
       msg_content_colon @ trimLimit (qc_content c) 420 @ nl @
       (if 4 \<le> n then [] else knowledge_lines n cs))"

definition buildEzaiKnowledgeContext :: "env \<Rightarrow> CampusRAGQueryResponse option \<Rightarrow> string" where
  "buildEzaiKnowledgeContext E resp = (case resp of None \<Rightarrow> []
     | Some r \<Rightarrow> if \<not> qr_need_knowledge r \<or> qr_confidence r < ezaiMinRAGConfidence E \<or> qr_chunks r = [] then []
         else trim_space (knowledge_lines 0 (qr_chunks r)))"

definition buildEzaiUserPrompt ::
    "string \<Rightarrow> string \<Rightarrow> string \<Rightarrow> string \<Rightarrow> CampusRAGQueryResponse option \<Rightarrow> string" where
  "buildEzaiUserPrompt postContext triggerContent query knowledgeContext resp =
     msg_context_1 @ nl @ postContext @ nl @ nl @ msg_context_2 @ trimLimit triggerContent 500 @ nl @ msg_context_3 @ query @
     (if knowledgeContext \<noteq> [] then nl @ nl @ msg_knowledge_1 @ nl @ knowledgeContext
      else case resp of None \<Rightarrow> [] | Some r \<Rightarrow> if qr_need_knowledge r then nl @ nl @ msg_knowledge_none else [])"

definition shouldUseEzaiNoKnowledgeReply ::
    "CampusRAGQueryResponse option \<Rightarrow> string \<Rightarrow> go_error option \<Rightarrow> bool" where
  "shouldUseEzaiNoKnowledgeReply resp knowledgeContext ragErr \<longleftrightarrow> ragErr = None \<and>
     (case resp of None \<Rightarrow> False | Some r \<Rightarrow> qr_need_knowledge r) \<and> trim_space knowledgeContext = []"

text \<open>\<open>strings.ReplaceAll(s, old, new)\<close> for a nonempty \<open>old\<close>.\<close>

function replace_all :: "string \<Rightarrow> string \<Rightarrow> string \<Rightarrow> string" where
  "replace_all old new [] = []"
| "replace_all old new (c # cs) = (if old \<noteq> [] \<and> has_prefix (c # cs) old
     then new @ replace_all old new (drop (length old) (c # cs)) else c # replace_all old new cs)"
  by pat_completeness auto
termination
  by (relation "measure (\<lambda>(old, new, s). length s)") auto

definition is_quote :: "rune \<Rightarrow> bool" where
  "is_quote r \<longleftrightarrow> r \<in> set [34, 39, 96, 32, 10, 9]"

definition sanitizeEzaiAnswerWithLimit :: "string \<Rightarrow> int \<Rightarrow> string" where
  "sanitizeEzaiAnswerWithLimit answer maxChars = (let
     t1 = trim_func is_quote (trim_space answer);
     t2 = replace_all [char_of (13::nat), char_of (10::nat)] nl t1;
     t3 = replace_all (nl @ nl) nl t2
   in trimLimit t3 (if maxChars \<le> 0 then 220 else maxChars))"

subsection \<open>The chat service\<close>

definition extractAIUsageFromRaw :: "env \<Rightarrow> string \<Rightarrow> ai_usage_doc option \<Rightarrow> string \<Rightarrow> CampusAIModelUsage option" where
  "extractAIUsageFromRaw E raw decoded fallbackModel = (if raw = [] then None else case decoded of None \<Rightarrow> None
   | Some u \<Rightarrow> let
       promptTokens = (if ud_prompt_tokens u = 0 then ud_input_tokens u else ud_prompt_tokens u);
       completionTokens = (if ud_completion_tokens u = 0 then ud_output_tokens u else ud_completion_tokens u);
       totalTokens = (if ud_total_tokens u = 0 then promptTokens + completionTokens else ud_total_tokens u)
     in if promptTokens = 0 \<and> completionTokens = 0 \<and> totalTokens = 0 then None
     else case estimateCampusAIUsageCost E promptTokens completionTokens of (usd, cny) \<Rightarrow>
       Some \<lparr>mu_model = firstNonEmpty [ud_model u, fallbackModel], mu_prompt_tokens = promptTokens,
         mu_completion_tokens = completionTokens, mu_total_tokens = totalTokens,
         mu_estimated_cost_usd = usd, mu_estimated_cost_cny = cny\<rparr>)"

text \<open>The answer or the error, with the usage.\<close>

definition chat_request :: "env \<Rightarrow> string \<Rightarrow> string \<Rightarrow> ChatRequest" where
  "chat_request E systemPrompt userPrompt = \<lparr>rr_url = aiReplyConfig_BaseURL E,
     rr_authorization = ''Bearer '' @ aiReplyConfig_APIKey E, rr_model = aiReplyConfig_Model E,
     rr_messages = [\<lparr>cm_role = ''system'', cm_content = systemPrompt\<rparr>, \<lparr>cm_role = ''user'', cm_content = userPrompt\<rparr>],
     rr_max_tokens = aiReplyConfig_MaxOutputTokens E, rr_temperature = aiReplyConfig_Temperature\<rparr>"

definition callEzaiChatCompletion ::
    "env \<Rightarrow> 'x ai_ext_scheme \<Rightarrow> string \<Rightarrow> string \<Rightarrow> ((go_error + string) \<times> CampusAIModelUsage option) io" where
  "callEzaiChatCompletion E X systemPrompt userPrompt =
     io_bind (attempt (chat_exchange X (chat_request E systemPrompt userPrompt))) (\<lambda>a. ret (case a of
       Inl e \<Rightarrow> (Inl e, None)
     | Inr (ChatUnreachable e) \<Rightarrow> (Inl e, None)
     | Inr (ChatAnswer status raw decoded choices) \<Rightarrow> let usage = extractAIUsageFromRaw E raw decoded (aiReplyConfig_Model E) in
         if status < 200 \<or> 300 \<le> status
         then (Inl (PlainError (''ai api status='' @ fmt_d status @ '' body='' @ trimLimit raw 300) None), usage)
         else case choices of Inl e \<Rightarrow> (Inl e, usage)
         | Inr [] \<Rightarrow> (Inl (PlainError ''ai api returned empty choices'' None), usage)
         | Inr (c # cs) \<Rightarrow> (Inr c, usage)))"

text \<open>The zero value of what the retrieval answers is \<open>None\<close>; the client is never nil.\<close>

definition queryKnowledgeForEzai ::
    "'x ai_ext_scheme \<Rightarrow> string \<Rightarrow> string \<Rightarrow> (CampusRAGQueryResponse option \<times> int \<times> go_error option) io" where
  "queryKnowledgeForEzai X query postContext = (if trim_space query = [] then ret (None, 0, None)
     else io_bind (attempt (rag_query (rag_client X) \<lparr>qq_query = query, qq_top_k = 5, qq_categories = [],
         qq_context = trimLimit postContext 1000\<rparr>)) (\<lambda>r. ret (case r of
       Inl e \<Rightarrow> (None, rag_duration_ms X, Some e)
     | Inr resp \<Rightarrow> (Some resp, rag_duration_ms X, None))))"

definition rag_log ::
    "env \<Rightarrow> int \<Rightarrow> CampusAIReplyTask \<Rightarrow> int \<Rightarrow> string \<Rightarrow> CampusRAGQueryResponse option \<Rightarrow> string \<Rightarrow> int \<Rightarrow> go_error option \<Rightarrow>
     CampusRAGQueryLog" where
  "rag_log E i k postID query resp answer durationMs ragErr = \<lparr>ql_id = i, ql_user_id = br_asker_id k, ql_post_id = postID,
     ql_trigger_comment_id = br_trigger_comment_id k, ql_query = query,
     ql_need_knowledge = (case resp of None \<Rightarrow> False | Some r \<Rightarrow> qr_need_knowledge r),
     ql_confidence = (case resp of None \<Rightarrow> 0 | Some r \<Rightarrow> qr_confidence r),
     ql_hit_chunks = (case resp of None \<Rightarrow> [] | Some r \<Rightarrow> qr_chunks r),
     ql_answer = trimLimit answer 1000, ql_model = aiReplyConfig_Model E, ql_duration_ms = durationMs,
     ql_error_message = (case ragErr of None \<Rightarrow> [] | Some e \<Rightarrow> trimLimit (error_text e) 1000),
     ql_quality_label = [], ql_quality_note = [], ql_reviewed_by = [], ql_reviewed_at = None, ql_created_at = now E\<rparr>"

definition recordRAGQueryLog ::
    "env \<Rightarrow> CampusAIReplyTask \<Rightarrow> int \<Rightarrow> string \<Rightarrow> CampusRAGQueryResponse option \<Rightarrow> string \<Rightarrow> int \<Rightarrow> go_error option \<Rightarrow> unit io" where
  "recordRAGQueryLog E k postID query resp answer durationMs ragErr = io_bind (NextID E) (\<lambda>i.
     ignore (CreateRAGQueryLog E (rag_log E i k postID query resp answer durationMs ragErr)))"

subsection \<open>Answering a task\<close>

text \<open>The persona, the default one when it cannot be read.\<close>

definition persona_or_default :: "CampusEzaiPersonaConfig io" where
  "persona_or_default = io_bind (attempt getEzaiPersonaConfig) (\<lambda>r. ret (case r of Inl e \<Rightarrow> defaultEzaiPersonaConfig | Inr p \<Rightarrow> p))"

definition defaultEzaiFallbackReply :: "string io" where
  "defaultEzaiFallbackReply = io_bind persona_or_default (\<lambda>p.
     ret (sanitizeEzaiAnswerWithLimit (pe_fallback_reply p) (pe_max_reply_chars p)))"

definition generateEzaiAnswer ::
    "env \<Rightarrow> 'x ai_ext_scheme \<Rightarrow> CampusAIReplyTask \<Rightarrow> CampusForumPost \<Rightarrow> CampusForumComment \<Rightarrow> string \<Rightarrow> string io" where
  "generateEzaiAnswer E X k post trigger prompt =
     io_bind persona_or_default (\<lambda>persona. let
       query = trimLimit (firstNonEmpty [prompt, bc_content trigger]) 500;
       postContext = buildEzaiPostContext post
     in io_bind (queryKnowledgeForEzai X query postContext) (\<lambda>(resp, ms, ragErr). let
       knowledge = buildEzaiKnowledgeContext E resp;
       userPrompt = buildEzaiUserPrompt postContext (bc_content trigger) query knowledge resp;
       log_query = (\<lambda>answer. recordRAGQueryLog E k (bp_id post) query resp answer ms ragErr);
       record_usage = (\<lambda>status msg usage. recordAIUsage E ''ezai_reply'' ''ai_reply_task'' (fmt_d (br_id k)) status msg usage)
     in if shouldUseEzaiNoKnowledgeReply resp knowledge ragErr
     then let answer = sanitizeEzaiAnswerWithLimit (pe_no_knowledge_reply persona) (pe_max_reply_chars persona) in
       io_then (log_query answer) (ret answer)
     else io_bind (aiBudgetAllowsModel E) (\<lambda>(allowed, skipped).
       if \<not> allowed then let reason = firstNonEmpty [skipped, ''model_skipped_budget''] in
         io_then (log_query [])
         (io_then (record_usage ''skipped'' reason None)
         (io_then (notifyEzaiHandoff E (br_post_id k) (br_trigger_comment_id k) (br_asker_id k) query reason)
         (fail (PlainError reason None))))
       else io_bind (callEzaiChatCompletion E X (buildEzaiSystemPrompt persona (knowledge \<noteq> [])) userPrompt) (\<lambda>(res, usage).
         case res of
           Inl e \<Rightarrow> io_then (log_query []) (io_then (record_usage ''failed'' (error_text e) usage) (fail e))
         | Inr raw \<Rightarrow> let answer = sanitizeEzaiAnswerWithLimit raw (pe_max_reply_chars persona) in
             io_then (record_usage ''success'' [] usage) (io_then (log_query answer) (ret answer))))))"

text \<open>Midnight where the server is, and the next one.\<close>

definition local_midnight :: "'x ai_ext_scheme \<Rightarrow> time \<Rightarrow> time" where
  "local_midnight X t = (t + local_offset X) div nanos_per_day * nanos_per_day - local_offset X"

definition nextLocalDayStart :: "'x ai_ext_scheme \<Rightarrow> time \<Rightarrow> time" where
  "nextLocalDayStart X t = local_midnight X t + nanos_per_day"

definition answered_since :: "time \<Rightarrow> string \<Rightarrow> campusAIReplyTaskModel \<Rightarrow> bool" where
  "answered_since start botUserID r \<longleftrightarrow> ar_bot_user_id r = parseID botUserID \<and> t_status r = ''done'' \<and>
     (case ar_processed_at r of None \<Rightarrow> False | Some t \<Rightarrow> start \<le> t)"

definition CountAIRepliesToday :: "env \<Rightarrow> 'x ai_ext_scheme \<Rightarrow> string \<Rightarrow> int io" where
  "CountAIRepliesToday E X botUserID = sql_count ai_reply_tasks (answered_since (local_midnight X (now E)) botUserID)"

definition reply_comment :: "env \<Rightarrow> CampusAIReplyTask \<Rightarrow> CampusForumComment \<Rightarrow> string \<Rightarrow> CampusForumComment" where
  "reply_comment E k trigger answer = \<lparr>bc_id = br_id k, bc_post_id = br_post_id k,
     bc_parent_id = (if 0 < bc_parent_id trigger then bc_parent_id trigger else bc_id trigger),
     bc_reply_to_comment_id = bc_id trigger, bc_reply_to_user_id = br_asker_id k, bc_author_id = aiReplyConfig_BotUserID E,
     bc_content = answer, bc_images = [], bc_status = CampusAuditStatusVisible, bc_audit_reason = [], bc_like_count = 0,
     bc_reply_count = 0, bc_created_at = 0, bc_updated_at = 0\<rparr>"

definition reply_notification :: "env \<Rightarrow> CampusAIReplyTask \<Rightarrow> string \<Rightarrow> CampusNotification" where
  "reply_notification E k answer = zero_CampusNotification\<lparr>
     nt_recipient_id := br_asker_id k, nt_actor_id := aiReplyConfig_BotUserID E, nt_event_type := ''reply'',
     nt_target_type := ''post'', nt_target_id := br_post_id k, nt_dedupe_key := ''campus:ezai-reply:'' @ fmt_d (br_id k),
     nt_title := msg_ezai_replied, nt_content := trimLimit answer 80, nt_link_page := ''post-detail'',
     nt_link_params := [(''id'', fmt_d (br_post_id k))]\<rparr>"

definition reply_answer ::
    "env \<Rightarrow> 'x ai_ext_scheme \<Rightarrow> CampusAIReplyTask \<Rightarrow> CampusForumPost \<Rightarrow> CampusForumComment \<Rightarrow> string io" where
  "reply_answer E X k post trigger =
     io_bind (generateEzaiAnswer E X k post trigger (br_prompt k)) (\<lambda>answer.
     if trim_space answer = [] then defaultEzaiFallbackReply else ret (trim_space answer))"

definition post_reply ::
    "env \<Rightarrow> 'x ai_ext_scheme \<Rightarrow> CampusAIReplyTask \<Rightarrow> CampusForumPost \<Rightarrow> CampusForumComment \<Rightarrow> unit io" where
  "post_reply E X k post trigger =
     io_bind (reply_answer E X k post trigger) (\<lambda>answer.
     io_bind (buildNotificationOutbox E (Some (reply_notification E k answer)) False) (\<lambda>notification.
     io_then (CreateCommentWithOutbox E (reply_comment E k trigger answer) notification)
       (MarkAIReplyTaskDone E (br_id k) (br_id k))))"

definition processAIReplyTask :: "env \<Rightarrow> 'x ai_ext_scheme \<Rightarrow> CampusAIReplyTask \<Rightarrow> unit io" where
  "processAIReplyTask E X k =
     io_bind (CountAIRepliesToday E X (aiReplyConfig_BotUserID E)) (\<lambda>n.
     if aiReplyConfig_DailyLimit E \<le> n
     then io_then (notifyEzaiHandoff E (br_post_id k) (br_trigger_comment_id k) (br_asker_id k) (br_prompt k) ''daily_limit_reached'')
       (MarkAIReplyTaskRetry E (br_id k) (br_retry_count k) (Some (nextLocalDayStart X (now E) + minutes 5))
         ''daily ai reply limit reached'' False)
     else io_bind (GetAnyCommentByID (br_id k)) (\<lambda>existing. case existing of
       Some c \<Rightarrow> MarkAIReplyTaskDone E (br_id k) (bc_id c)
     | None \<Rightarrow> io_bind (GetPostByID E (br_post_id k)) (\<lambda>post. case post of
         None \<Rightarrow> fail (PlainError ''post not found'' None)
       | Some p \<Rightarrow> io_bind (GetCommentByID (br_trigger_comment_id k)) (\<lambda>trigger. case trigger of
           None \<Rightarrow> fail (PlainError ''trigger comment not visible'' None)
         | Some t \<Rightarrow> if bc_status t \<noteq> CampusAuditStatusVisible then fail (PlainError ''trigger comment not visible'' None)
             else post_reply E X k p t))))"

definition markAIReplyTaskRetry :: "env \<Rightarrow> CampusAIReplyTask \<Rightarrow> go_error \<Rightarrow> unit io" where
  "markAIReplyTaskRetry E k err =
     (case next_retry campusAIReplyTaskMaxRetry aiReplyBackoff (now E) (br_retry_count k) of (retryCount, final, nextRetryAt) \<Rightarrow>
      io_then (ignore (MarkAIReplyTaskRetry E (br_id k) retryCount nextRetryAt (trimLimit (error_text err) 500) final))
      (if final then notifyEzaiHandoff E (br_post_id k) (br_trigger_comment_id k) (br_asker_id k) (br_prompt k) ''task_failed''
       else ret ()))"

fun reply_items :: "env \<Rightarrow> 'x ai_ext_scheme \<Rightarrow> CampusAIReplyTask list \<Rightarrow> unit io" where
  "reply_items E X [] = ret ()"
| "reply_items E X (k # ks) = io_bind (attempt (processAIReplyTask E X k)) (\<lambda>r.
     io_then (case r of Inl e \<Rightarrow> markAIReplyTaskRetry E k e | Inr _ \<Rightarrow> ret ()) (reply_items E X ks))"

fun handoff_items :: "env \<Rightarrow> string \<Rightarrow> CampusAIReplyTask list \<Rightarrow> unit io" where
  "handoff_items E reason [] = ret ()"
| "handoff_items E reason (k # ks) =
     io_then (notifyEzaiHandoff E (br_post_id k) (br_trigger_comment_id k) (br_asker_id k) (br_prompt k) reason)
     (io_then (ignore (MarkAIReplyTaskRetry E (br_id k) campusAIReplyTaskMaxRetry None (trimLimit reason 500) True))
       (handoff_items E reason ks))"

definition claim_replies :: "env \<Rightarrow> int \<Rightarrow> CampusAIReplyTask list io" where
  "claim_replies E limit = or_fail (internal msg_claim_ai_replies_failed)
     (ClaimAIReplyTasks E (if limit \<le> 0 then 20 else limit) (seconds 45))"

definition handoffPendingAIReplyTasks :: "env \<Rightarrow> int \<Rightarrow> string \<Rightarrow> unit io" where
  "handoffPendingAIReplyTasks E limit reason = io_bind (claim_replies E limit) (handoff_items E reason)"

definition ProcessPendingAIReplyTasks :: "env \<Rightarrow> 'x ai_ext_scheme \<Rightarrow> int \<Rightarrow> unit io" where
  "ProcessPendingAIReplyTasks E X limit = io_bind (ezaiAutoReplyEffective E) (\<lambda>effective.
     if \<not> effective
     then io_bind (io_and (ezaiAutoReplyEnabled E) (ret (\<not> ezaiModelConfigured E))) (\<lambda>unconfigured.
       handoffPendingAIReplyTasks E limit
         (if unconfigured then ''ezai model not configured'' else ''ezai auto reply disabled''))
     else if \<not> aiReplyConfig_Enabled E then ret ()
     else io_bind (claim_replies E limit) (reply_items E X))"

subsection \<open>A preview for the operators\<close>

record PreviewCampusEzaiPersonaInput =
  pi_user_id :: string
  pi_question :: string
  pi_post_title :: string
  pi_post_content :: string
  pi_use_knowledge :: bool
  pi_run_model :: bool

record CampusEzaiPersonaPreview =
  pv_persona :: CampusEzaiPersonaConfig
  pv_ai_enabled :: bool
  pv_used_model :: bool
  pv_fallback_reason :: string
  pv_system_prompt :: string
  pv_user_prompt :: string
  pv_reply :: string
  pv_knowledge :: "CampusRAGQueryResponse option"
  pv_knowledge_context :: string

definition preview_post :: "PreviewCampusEzaiPersonaInput \<Rightarrow> CampusForumPost" where
  "preview_post input = \<lparr>bp_id = 0, bp_category_code = [], bp_category_name = msg_preview_board, bp_author_id = [],
     bp_title = firstNonEmpty [pi_post_title input, msg_preview_title],
     bp_content = firstNonEmpty [pi_post_content input, msg_preview_content], bp_images = [], bp_media_type = [],
     bp_post_type = ''question'', bp_extra = [], bp_cover_url = [], bp_is_official = False, bp_is_featured = False,
     bp_is_pinned = False, bp_sort_weight = 0, bp_status = 0, bp_audit_reason = [], bp_like_count = 0, bp_comment_count = 0,
     bp_collected_count = 0, bp_created_at = 0, bp_updated_at = 0\<rparr>"

definition fallback_preview :: "string \<Rightarrow> CampusEzaiPersonaPreview \<Rightarrow> CampusEzaiPersonaPreview" where
  "fallback_preview reason pv = pv\<lparr>
     pv_reply := sanitizeEzaiAnswerWithLimit (pe_fallback_reply (pv_persona pv)) (pe_max_reply_chars (pv_persona pv)),
     pv_fallback_reason := reason\<rparr>"

text \<open>The preview when the model is asked.\<close>

definition model_preview ::
    "env \<Rightarrow> 'x ai_ext_scheme \<Rightarrow> string \<Rightarrow> CampusEzaiPersonaPreview \<Rightarrow> CampusEzaiPersonaPreview io" where
  "model_preview E X userID pv = (let record_usage = recordAIUsage E ''ezai_preview'' ''admin_preview'' userID;
       fallback = (\<lambda>reason. ret (fallback_preview (firstNonEmpty [pv_fallback_reason pv, reason]) pv))
     in io_bind (aiBudgetAllowsModel E) (\<lambda>(allowed, skipped).
     if \<not> allowed then io_then (record_usage ''skipped'' skipped None) (fallback skipped)
     else io_bind (callEzaiChatCompletion E X (pv_system_prompt pv) (pv_user_prompt pv)) (\<lambda>(res, usage).
       case res of
         Inl e \<Rightarrow> io_then (record_usage ''failed'' (error_text e) usage) (fallback (''model_error: '' @ trimLimit (error_text e) 120))
       | Inr answer \<Rightarrow> io_then (record_usage ''success'' [] usage)
           (let reply = sanitizeEzaiAnswerWithLimit answer (pe_max_reply_chars (pv_persona pv)); used = pv\<lparr>pv_used_model := True\<rparr> in
            ret (if reply = [] then fallback_preview ''empty_model_answer'' used else used\<lparr>pv_reply := reply\<rparr>)))))"

definition AdminPreviewEzaiPersona ::
    "env \<Rightarrow> 'x ai_ext_scheme \<Rightarrow> PreviewCampusEzaiPersonaInput \<Rightarrow> CampusEzaiPersonaPreview io" where
  "AdminPreviewEzaiPersona E X input = require_operator E (pi_user_id input) msg_no_admin_right (
     let question = trimLimit (trim_space (pi_question input)) 500 in
     if rune_count question < 2 then fail (InvalidArgument msg_question_empty)
     else io_bind (or_fail (internal msg_read_persona_failed) getEzaiPersonaConfig) (\<lambda>persona. let
       postContext = buildEzaiPostContext (preview_post input)
     in io_bind (if pi_use_knowledge input then queryKnowledgeForEzai X question postContext else ret (None, 0, None))
       (\<lambda>(resp, ms, ragErr). let
       knowledge = buildEzaiKnowledgeContext E resp;
       pv = \<lparr>pv_persona = persona, pv_ai_enabled = aiReplyConfig_Enabled E, pv_used_model = False,
         pv_fallback_reason = (case ragErr of None \<Rightarrow> [] | Some e \<Rightarrow> ''knowledge_error: '' @ trimLimit (error_text e) 120),
         pv_system_prompt = buildEzaiSystemPrompt persona (knowledge \<noteq> []),
         pv_user_prompt = buildEzaiUserPrompt postContext question question knowledge resp, pv_reply = [],
         pv_knowledge = resp, pv_knowledge_context = knowledge\<rparr>
     in if shouldUseEzaiNoKnowledgeReply resp knowledge ragErr
     then ret (pv\<lparr>pv_reply := sanitizeEzaiAnswerWithLimit (pe_no_knowledge_reply persona) (pe_max_reply_chars persona),
         pv_fallback_reason := ''no_high_confidence_knowledge''\<rparr>)
     else if \<not> pi_run_model input then ret (fallback_preview (firstNonEmpty [pv_fallback_reason pv, ''model_not_run'']) pv)
     else if \<not> aiReplyConfig_Enabled E then ret (fallback_preview (firstNonEmpty [pv_fallback_reason pv, ''model_disabled'']) pv)
     else model_preview E X (pi_user_id input) pv)))"

subsection \<open>The tasks for the operators\<close>

record CampusAIReplyOverview =
  ro_enabled :: bool
  ro_auto_reply_enabled :: bool
  ro_effective_enabled :: bool
  ro_model_configured :: bool
  ro_bot_user_id :: string
  ro_bot_ready :: bool
  ro_bot_name :: string
  ro_bot_avatar :: string
  ro_model :: string
  ro_base_url :: string
  ro_rag_health :: "CampusRAGHealth option"
  ro_daily_limit :: int
  ro_today_used :: int
  ro_pending :: int
  ro_processing :: int
  ro_done :: int
  ro_failed :: int
  ro_recent :: "CampusAIReplyTask list"

definition of_bot :: "string \<Rightarrow> campusAIReplyTaskModel \<Rightarrow> bool" where
  "of_bot botUserID r \<longleftrightarrow> trim_space botUserID = [] \<or> ar_bot_user_id r = parseID botUserID"

definition newest_task :: "campusAIReplyTaskModel \<Rightarrow> int \<times> int \<times> int" where
  "newest_task r = (- t_updated_at r, - t_created_at r, - t_id r)"

text \<open>The counts by status, read by one statement, and the newest tasks, read by another.\<close>

definition GetAIReplyOverview :: "string \<Rightarrow> int \<Rightarrow> CampusAIReplyOverview io" where
  "GetAIReplyOverview botUserID limit =
     io_bind (sql_query (\<lambda>t s. count_where (\<lambda>r. of_bot botUserID r \<and> t_status r = s) (ai_reply_tasks t))) (\<lambda>count_of.
     io_bind (sql_query (\<lambda>t. page_of 0 (if limit \<le> 0 then 5 else limit)
       (sort_key newest_task (filter (of_bot botUserID) (ai_reply_tasks t))))) (\<lambda>recent.
     ret \<lparr>ro_enabled = False, ro_auto_reply_enabled = False, ro_effective_enabled = False, ro_model_configured = False,
       ro_bot_user_id = [], ro_bot_ready = False, ro_bot_name = [], ro_bot_avatar = [], ro_model = [], ro_base_url = [],
       ro_rag_health = None, ro_daily_limit = 0, ro_today_used = 0, ro_pending = count_of ''pending'',
       ro_processing = count_of ''processing'', ro_done = count_of ''done'', ro_failed = count_of ''failed'',
       ro_recent = map toBizAIReplyTask recent\<rparr>))"

definition GetAIReplyTaskByID :: "int \<Rightarrow> CampusAIReplyTask option io" where
  "GetAIReplyTaskByID i = io_bind (sql_first ai_reply_tasks (\<lambda>r. t_id r = i)) (\<lambda>row. ret (map_option toBizAIReplyTask row))"

definition ListAIReplyTasks :: "string \<Rightarrow> int \<Rightarrow> int \<Rightarrow> (CampusAIReplyTask list \<times> int) io" where
  "ListAIReplyTasks status offset limit =
     counted_page ai_reply_tasks (\<lambda>r. trim_space status = [] \<or> t_status r = status) newest_task toBizAIReplyTask offset (or_twenty limit)"

text \<open>A task with its two comments, each with its post, and the newest query for it.\<close>

record listed_reply_task =
  lt_task :: CampusAIReplyTask
  lt_trigger :: "(shown_comment \<times> CampusForumPost option) option"
  lt_answer :: "(shown_comment \<times> CampusForumPost option) option"
  lt_rag_log :: "CampusRAGQueryLog option"

definition plain_task :: "CampusAIReplyTask \<Rightarrow> listed_reply_task" where
  "plain_task k = \<lparr>lt_task = k, lt_trigger = None, lt_answer = None, lt_rag_log = None\<rparr>"

definition task_comments :: "CampusAIReplyTask list \<Rightarrow> int list" where
  "task_comments ks = remdups (concat (map (\<lambda>k. filter (\<lambda>i. 0 < i) [br_trigger_comment_id k, br_answer_comment_id k]) ks))"

definition AttachAIReplyTaskDetails :: "CampusAIReplyTask list \<Rightarrow> listed_reply_task list io" where
  "AttachAIReplyTaskDetails ks = (if ks = [] then ret []
     else io_bind (if task_comments ks = [] then ret []
       else io_bind (sql_find comments (\<lambda>c. c_id c \<in> set (task_comments ks))) (\<lambda>rows. FillCommentPosts (map toBizComment rows))) (\<lambda>cs.
     io_bind (if filter (\<lambda>i. 0 < i) (map br_trigger_comment_id ks) = [] then ret []
       else sql_query (\<lambda>t. sort_key (\<lambda>r. (- rq_created_at r, - rq_id r))
         (filter (\<lambda>r. 0 < rq_trigger_comment_id r \<and> rq_trigger_comment_id r \<in> set (map br_trigger_comment_id ks)) (rag_query_logs t)))) (\<lambda>logs. let
       comment_of = (\<lambda>i. map_option (\<lambda>(c, p). (plain_comment c, p)) (find (\<lambda>(c, p). bc_id c = i) cs))
     in ret (map (\<lambda>k. \<lparr>lt_task = k, lt_trigger = comment_of (br_trigger_comment_id k), lt_answer = comment_of (br_answer_comment_id k),
         lt_rag_log = map_option toBizRAGQueryLog (find (\<lambda>r. rq_trigger_comment_id r = br_trigger_comment_id k) logs)\<rparr>) ks))))"

definition comment_list :: "(shown_comment \<times> CampusForumPost option) option \<Rightarrow> shown_comment list" where
  "comment_list c = (case c of None \<Rightarrow> [] | Some (s, p) \<Rightarrow> [s])"

definition collectAIReplyTaskComments :: "listed_reply_task list \<Rightarrow> shown_comment list" where
  "collectAIReplyTaskComments ts = concat (map (\<lambda>t. comment_list (lt_trigger t) @ comment_list (lt_answer t)) ts)"

text \<open>The comments are pointers, so that what is filled in shows up in the tasks: here the list with the
  comments filled in is put back.\<close>

definition put_comment ::
    "(shown_comment \<times> CampusForumPost option) option \<Rightarrow> shown_comment list \<Rightarrow>
     (shown_comment \<times> CampusForumPost option) option \<times> shown_comment list" where
  "put_comment c ss = (case (c, ss) of (Some (_, p), s # ss') \<Rightarrow> (Some (s, p), ss') | _ \<Rightarrow> (c, ss))"

fun put_comments :: "listed_reply_task list \<Rightarrow> shown_comment list \<Rightarrow> listed_reply_task list" where
  "put_comments [] ss = []"
| "put_comments (t # ts) ss = (case put_comment (lt_trigger t) ss of (trigger, ss1) \<Rightarrow>
     case put_comment (lt_answer t) ss1 of (answer, ss2) \<Rightarrow>
     t\<lparr>lt_trigger := trigger, lt_answer := answer\<rparr> # put_comments ts ss2)"

definition or_else :: "'a io \<Rightarrow> 'a \<Rightarrow> 'a io" where
  "or_else m d = io_bind (attempt m) (\<lambda>r. ret (case r of Inl e \<Rightarrow> d | Inr x \<Rightarrow> x))"

definition AdminListAIReplyTasks ::
    "env \<Rightarrow> 'x account_ext_scheme \<Rightarrow> string \<Rightarrow> string \<Rightarrow> 32 word \<Rightarrow> 32 word \<Rightarrow> (listed_reply_task list \<times> int) io" where
  "AdminListAIReplyTasks E X userID status page0 size0 = require_operator E userID msg_no_admin_right (
     case normalizePage page0 size0 of (page, sz) \<Rightarrow>
     io_bind (or_fail (internal msg_list_reply_tasks_failed)
       (ListAIReplyTasks (normalizeAIReplyTaskStatus status) (page_offset page sz) (sint sz))) (\<lambda>(tasks, n).
     io_bind (or_else (AttachAIReplyTaskDetails tasks) (map plain_task tasks)) (\<lambda>listed.
     io_bind (or_else (io_bind (HydrateComments X (collectAIReplyTaskComments listed) userID) (\<lambda>ss. ret (put_comments listed ss)))
       listed) (\<lambda>out. ret (out, n)))))"

definition with_bot :: "env \<Rightarrow> 'x ai_ext_scheme \<Rightarrow> CampusAIReplyOverview \<Rightarrow> CampusAIReplyOverview io" where
  "with_bot E X ov = (let bot = aiReplyConfig_BotUserID E in
     if bot = [] then ret ov
     else io_bind (attempt (core_get_user X bot [])) (\<lambda>u.
       io_bind (attempt (CountAIRepliesToday E X bot)) (\<lambda>n. let
         named = (case u of Inr (Some i) \<Rightarrow> ov\<lparr>ro_bot_ready := True,
           ro_bot_name := firstNonEmpty [ui_nickname i, ui_name i, msg_ezai_long], ro_bot_avatar := ui_avatar i\<rparr> | _ \<Rightarrow> ov)
       in ret (case n of Inr used \<Rightarrow> named\<lparr>ro_today_used := used\<rparr> | Inl e \<Rightarrow> named))))"

definition AdminAIReplyOverview :: "env \<Rightarrow> 'x ai_ext_scheme \<Rightarrow> string \<Rightarrow> CampusAIReplyOverview io" where
  "AdminAIReplyOverview E X userID = require_operator E userID msg_no_admin_right (
     io_bind (or_fail (internal msg_reply_overview_failed) (GetAIReplyOverview (aiReplyConfig_BotUserID E) 5)) (\<lambda>ov.
     io_bind (ezaiAutoReplyEnabled E) (\<lambda>auto.
     io_bind (ezaiAutoReplyEffective E) (\<lambda>effective.
     io_bind (with_bot E X (ov\<lparr>ro_auto_reply_enabled := auto, ro_model_configured := ezaiModelConfigured E,
       ro_effective_enabled := effective, ro_enabled := effective, ro_bot_user_id := aiReplyConfig_BotUserID E,
       ro_model := aiReplyConfig_Model E, ro_base_url := aiReplyConfig_BaseURL E,
       ro_daily_limit := aiReplyConfig_DailyLimit E\<rparr>)) (\<lambda>ov'.
     io_bind (attempt (rag_health (rag_client X))) (\<lambda>h. ret (ov'\<lparr>ro_rag_health := Some (case h of Inr x \<Rightarrow> x
       | Inl e \<Rightarrow> \<lparr>rh_status = ''unavailable'', rh_qdrant = ''unknown'', rh_chunk_count = 0, rh_failed_count = 0,
           rh_last_error = trimLimit (error_text e) 200\<rparr>)\<rparr>)))))))"

definition AdminRetryAIReplyTask :: "env \<Rightarrow> string \<Rightarrow> int \<Rightarrow> unit io" where
  "AdminRetryAIReplyTask E userID taskID = require_operator E userID msg_no_admin_right (
     if taskID \<le> 0 then fail (InvalidArgument msg_task_id_invalid)
     else or_fail (internal msg_retry_reply_failed) (ResetAIReplyTask E taskID))"

definition AdminModerateAIReply :: "env \<Rightarrow> string \<Rightarrow> int \<Rightarrow> string \<Rightarrow> unit io" where
  "AdminModerateAIReply E userID taskID action0 = require_operator E userID msg_no_admin_right (
     let action = trim_space (to_lower action0) in
     if taskID \<le> 0 then fail (InvalidArgument msg_task_id_invalid)
     else if action \<noteq> ''withdraw'' \<and> action \<noteq> ''delete'' then fail (InvalidArgument msg_operation_invalid)
     else io_bind (or_fail (internal msg_query_reply_task_failed) (GetAIReplyTaskByID taskID)) (\<lambda>found. case found of
       None \<Rightarrow> fail (NotFound msg_reply_task_not_found)
     | Some k \<Rightarrow> io_bind (or_fail (internal msg_query_reply_detail_failed) (AttachAIReplyTaskDetails [k])) (\<lambda>_.
         if br_answer_comment_id k \<le> 0 then fail (InvalidArgument msg_no_reply_yet)
         else io_then (or_fail (internal msg_withdraw_reply_failed) (DeleteComment_repo E (br_answer_comment_id k)))
           (ignore (CreateAuditLog E ''ai_reply'' taskID userID ''manual'' ''withdraw''
             (''answer_comment_id='' @ fmt_d (br_answer_comment_id k)))))))"

definition AdminUpdateEzaiSettings :: "env \<Rightarrow> 'x ai_ext_scheme \<Rightarrow> string \<Rightarrow> bool \<Rightarrow> CampusAIReplyOverview io" where
  "AdminUpdateEzaiSettings E X userID autoReplyEnabled = require_operator E userID msg_no_admin_right (
     io_then (or_fail (internal msg_save_ezai_settings_failed)
       (SetOpsSetting E ''ezai_auto_reply_enabled'' (if autoReplyEnabled then ''true'' else ''false'') userID))
     (AdminAIReplyOverview E X userID))"

subsection \<open>Trimming leaves a part of the characters\<close>

lemma decode_rune_take:
  assumes "decode_rune (c # cs) = (r, n)" and "n \<le> Suc m"
  shows "decode_rune (c # take m cs) = (r, n)"
  using assms
  by (cases m; cases cs; cases "tl cs"; cases "tl (tl cs)")
     (auto simp: Let_def take_Cons' split: if_splits)

lemma segs_Cons: "decode_rune (c # cs) = (r, n) \<Longrightarrow> segs (c # cs) = (r, c # take (n - 1) cs) # segs (drop (n - 1) cs)"
  using decode_rune_size [of c cs r n] by (simp add: segs.simps(2) take_Cons' del: decode_rune.simps)

lemma segs_take: "segs (concat (map snd (take k (segs s)))) = take k (segs s)"
proof (induction s arbitrary: k rule: segs.induct)
  case (2 c cs)
  obtain r n where d: "decode_rune (c # cs) = (r, n)" by fastforce
  from decode_rune_size [OF this] have n: "1 \<le> n" "n \<le> Suc (length cs)" by auto
  show ?case
  proof (cases k)
    case (Suc j)
    let ?rest = "concat (map snd (take j (segs (drop (n - 1) cs))))"
    have "concat (map snd (take j (segs t))) = take (length (concat (map snd (take j (segs t))))) t" for t
      by (metis append_eq_conv_conj append_take_drop_id concat_append concat_segs map_append)
    then obtain m where rest: "?rest = take m (drop (n - 1) cs)" by blast
    have "c # take (n - 1) cs @ ?rest = c # take (n - 1 + m) cs"
      unfolding rest by (simp add: take_add)
    moreover have "decode_rune (c # take (n - 1 + m) cs) = (r, n)"
      using d n by (intro decode_rune_take) auto
    ultimately have "segs (c # take (n - 1) cs @ ?rest) = (r, c # take (n - 1) cs) # segs ?rest"
      unfolding rest using n by (simp add: segs_Cons drop_take del: decode_rune.simps)
    then show ?thesis
      using 2 [OF d [symmetric]] by (simp add: Suc segs_Cons [OF d])
  qed simp
qed simp

lemma segs_drop: "segs (concat (map snd (drop k (segs s)))) = drop k (segs s)"
proof (induction s arbitrary: k rule: segs.induct)
  case (2 c cs)
  obtain r n where d: "decode_rune (c # cs) = (r, n)" by fastforce
  have "concat (map snd (segs (c # cs))) = c # cs" by (rule concat_segs)
  with 2 [OF d [symmetric]] show ?case
    by (cases k) (simp_all add: segs_Cons [OF d])
qed simp

lemma trim_segs_part: "\<exists>i k. trim_segs p ss = take k (drop i ss)"
proof -
  have "\<exists>i. dropWhile P xs = drop i xs" for P and xs :: "'a list" by (metis dropWhile_eq_drop)
  moreover have "\<exists>k. rev (dropWhile P (rev xs)) = take k xs" for P and xs :: "'a list"
    by (metis dropWhile_eq_drop rev_drop rev_rev_ident)
  ultimately show ?thesis unfolding trim_segs_def by metis
qed

lemma rune_count_trim: "rune_count (trim_func p s) \<le> rune_count s"
proof -
  obtain i k where t: "trim_segs p (segs s) = take k (segs (concat (map snd (drop i (segs s)))))"
    using trim_segs_part [of p "segs s"] by (auto simp: segs_drop)
  have "segs (concat (map snd (trim_segs p (segs s)))) = take k (drop i (segs s))"
    unfolding t segs_take by (simp add: segs_drop)
  then show ?thesis by (simp add: trim_func_def rune_count_def runes_def)
qed

lemma trim_space_count: "rune_count (trim_space s) \<le> rune_count s"
  unfolding trim_space_def by (rule rune_count_trim)

subsection \<open>What answering leaves alone\<close>

text \<open>The two services do not write to the tables.\<close>

definition ai_apart :: "'x ai_ext_scheme \<Rightarrow> bool" where
  "ai_apart X \<longleftrightarrow> (\<forall>q. keeps (\<lambda>t. t) (rag_query (rag_client X) q)) \<and> (\<forall>q. keeps (\<lambda>t. t) (chat_exchange X q))"

lemma ai_apart_keeps:
  assumes "ai_apart X"
  shows "keeps g (rag_query (rag_client X) q)" "keeps g (chat_exchange X c)"
  using assms by (auto simp: ai_apart_def intro: keeps_all)

lemma persona_default_frames [frames]: "keeps g persona_or_default" "keeps g defaultEzaiFallbackReply"
  unfolding persona_or_default_def defaultEzaiFallbackReply_def getEzaiPersonaConfig_def
  by (intro frames load_persona_keeps)+

lemma rag_log_frames [frames]:
  "(\<And>h t. g (rag_query_logs_update h t) = g t) \<Longrightarrow> keeps g (recordRAGQueryLog E k p q r a m e)"
  unfolding recordRAGQueryLog_def CreateRAGQueryLog_def by (intro frames; assumption?)

lemma service_frames:
  assumes "ai_apart X"
  shows "keeps g (queryKnowledgeForEzai X q c)" "keeps g (callEzaiChatCompletion E X s u)"
  unfolding queryKnowledgeForEzai_def callEzaiChatCompletion_def by (intro frames ai_apart_keeps [OF assms])+

lemma generate_frames:
  assumes "ai_apart X" "\<And>h t. g (rag_query_logs_update h t) = g t" "\<And>h t. g (ops_alerts_update h t) = g t"
    "\<And>h t. g (ops_settings_update h t) = g t" "\<And>h t. g (ai_usage_logs_update h t) = g t" "\<And>h t. g (outbox_update h t) = g t"
  shows "keeps g (generateEzaiAnswer E X k p t q)"
  unfolding generateEzaiAnswer_def Let_def by (intro frames service_frames assms)

lemma mark_reply_frames [frames]:
  assumes "\<And>h t. g (ai_reply_tasks_update h t) = g t"
  shows "keeps g (MarkAIReplyTaskDone E i a)" "keeps g (MarkAIReplyTaskRetry E i n nx e f)"
  unfolding MarkAIReplyTaskDone_def MarkAIReplyTaskRetry_def by (intro frames assms)+

lemma reply_retry_frames [frames]:
  assumes "\<And>h t. g (ai_reply_tasks_update h t) = g t" "\<And>h t. g (outbox_update h t) = g t"
  shows "keeps g (markAIReplyTaskRetry E k e)"
  unfolding markAIReplyTaskRetry_def by (intro frames assms)

lemma reply_retry_total [totals]: "no_fail (markAIReplyTaskRetry E k e)"
  unfolding markAIReplyTaskRetry_def by (intro totals)

subsection \<open>Answers are short\<close>

lemma trimLimit_le: "0 < mx \<Longrightarrow> int (rune_count (trimLimit v mx)) \<le> mx"
  by (auto simp: trimLimit_def Let_def)

lemma sanitize_bound: "0 < n \<Longrightarrow> n \<le> 220 \<Longrightarrow> rune_count (sanitizeEzaiAnswerWithLimit a n) \<le> 220"
  using trimLimit_le [of n "replace_all (nl @ nl) nl (replace_all [char_of (13::nat), char_of (10::nat)] nl (trim_func is_quote (trim_space a)))"]
  unfolding sanitizeEzaiAnswerWithLimit_def Let_def by simp

lemma persona_bound:
  assumes "persona_or_default w = (Inr p, w')"
  shows "0 < pe_max_reply_chars p \<and> pe_max_reply_chars p \<le> 220"
  using assms unfolding persona_or_default_def getEzaiPersonaConfig_def
  by (auto simp: normalizeEzaiPersonaConfig_def defaultEzaiPersonaConfig_def Let_def simp del: firstNonEmpty.simps
      elim!: io_bind_InrE attempt_E split: sum.splits prod.splits)

lemma fallback_bound: "defaultEzaiFallbackReply w = (Inr a, w') \<Longrightarrow> rune_count a \<le> 220"
  unfolding defaultEzaiFallbackReply_def by (auto elim!: io_bind_InrE dest!: persona_bound intro!: sanitize_bound)

lemma generate_bound:
  assumes "generateEzaiAnswer E X k p t q w = (Inr a, w')"
  shows "rune_count a \<le> 220"
  using assms unfolding generateEzaiAnswer_def Let_def
  by (elim io_bind_InrE)
    (auto split: prod.splits if_splits sum.splits elim!: io_InrE dest!: persona_bound intro!: sanitize_bound)

subsection \<open>What is posted\<close>

definition uncounted :: "campusForumCommentModel \<Rightarrow> campusForumCommentModel" where
  "uncounted c = c\<lparr>c_reply_count := 0\<rparr>"

text \<open>A comment is the answer to a task, whose trigger is a visible one of the comments \<open>cs\<close>.\<close>

definition answers :: "env \<Rightarrow> campusForumCommentModel list \<Rightarrow> campusAIReplyTaskModel \<Rightarrow> campusForumCommentModel \<Rightarrow> bool" where
  "answers E cs k c \<longleftrightarrow> c_id c = t_id k \<and> c_author_id c = parseID (aiReplyConfig_BotUserID E) \<and>
     visible_comment c \<and> c_post_id c = ar_post_id k \<and> rune_count (c_content c) \<le> 220 \<and>
     (\<exists>trigger \<in> set cs. c_id trigger = ar_trigger_comment_id k \<and> visible_comment trigger \<and>
       c_reply_to_comment_id c = c_id trigger \<and>
       c_parent_id c = (if 0 < c_parent_id trigger then c_parent_id trigger else c_id trigger))"

lemma answers_mono: "answers E cs k c \<Longrightarrow> set cs \<subseteq> set cs' \<Longrightarrow> answers E cs' k c"
  by (auto simp: answers_def)

lemma uncounted_simps [simp]: "c_id (uncounted c) = c_id c" "visible_comment (uncounted c) = visible_comment c"
  "c_parent_id (uncounted c) = c_parent_id c" "uncounted (CreateComment_row E b) = CreateComment_row E b"
  "c_status (uncounted c) = c_status c" "c_is_deleted (uncounted c) = c_is_deleted c"
  by (simp_all add: uncounted_def visible_comment_def CreateComment_row_def)

lemma uncounted_bump: "map uncounted (comments (bump_counts f i q t)) = map uncounted (comments t)"
  by (simp add: bump_counts_def Let_def set_comment_count_def set_reply_count_def uncounted_def)

text \<open>Nothing is added, or the answer to the task \<open>k\<close>, which had none.\<close>

definition one_answer :: "env \<Rightarrow> campusAIReplyTaskModel \<Rightarrow> tables \<Rightarrow> tables \<Rightarrow> bool" where
  "one_answer E k t t' \<longleftrightarrow> map uncounted (comments t') = map uncounted (comments t) \<or>
     (\<exists>c. map uncounted (comments t') = map uncounted (comments t) @ [c] \<and> answers E (map uncounted (comments t)) k c \<and>
       (\<forall>d \<in> set (comments t). c_id d \<noteq> t_id k))"

lemma one_answer_same: "comments t' = comments t \<Longrightarrow> one_answer E k t t'"
  by (simp add: one_answer_def)

lemma one_answer_trans:
  "comments u = comments t \<Longrightarrow> comments u' = comments t' \<Longrightarrow> one_answer E k t t' \<Longrightarrow> one_answer E k u u'"
  by (simp add: one_answer_def)

lemma reply_row_answers:
  assumes "trigger \<in> set cs" and "visible_comment trigger" and "c_id trigger = ar_trigger_comment_id k"
    and "rune_count answer \<le> 220"
  shows "answers E (map uncounted cs) k (CreateComment_row E (reply_comment E (toBizAIReplyTask k) (toBizComment trigger) answer))"
  using assms by (auto simp: answers_def reply_comment_def CreateComment_row_def toBizAIReplyTask_def toBizComment_def visible_comment_def
      intro!: bexI [of _ trigger])

lemma reply_answer_frames: "ai_apart X \<Longrightarrow> keeps comments (reply_answer E X k p t)"
  unfolding reply_answer_def by (intro frames generate_frames) simp_all

lemma reply_answer_bound: "reply_answer E X k p t w = (Inr a, w') \<Longrightarrow> rune_count a \<le> 220"
  unfolding reply_answer_def
  by (auto elim!: io_bind_InrE split: if_splits dest!: generate_bound fallback_bound intro: order_trans [OF trim_space_count])

lemma reply_notification_frames: "keeps g (buildNotificationOutbox E (Some n) u)"
  by (intro frames)

lemma create_reply:
  assumes "CreateCommentWithOutbox E b ob w = (r, w')" and "bc_status b = CampusAuditStatusVisible"
  shows "db w' = db w \<or> (map uncounted (comments (db w')) = map uncounted (comments (db w)) @ [CreateComment_row E b] \<and>
     (\<forall>d \<in> set (comments (db w)). c_id d \<noteq> bc_id b))"
proof -
  from assms(1) obtain r1 w1 where rows: "CreateComment_rows E b ob w = (r1, w1)"
    and w': "db w' = db w1"
    by (auto simp: CreateCommentWithOutbox_def elim!: io_then_E [where m = "CreateComment_rows E b ob"]
        dest!: cache_stepD [OF cache_steps_then])
  show ?thesis
  proof (cases r1)
    case (Inl e)
    with rows have "db w1 = db w" unfolding CreateComment_rows_def by (auto dest: transaction_atomic)
    with w' show ?thesis by simp
  next
    case (Inr x)
    with CreateComment_tables [OF rows [unfolded Inr]] assms(2) w' show ?thesis
      by (auto simp: uncounted_bump)
  qed
qed

lemma post_reply_one:
  assumes run: "post_reply E X (toBizAIReplyTask k) p (toBizComment trigger) w = (r, w')" and X: "ai_apart X"
    and t: "trigger \<in> set (comments (db w))" "visible_comment trigger" "c_id trigger = ar_trigger_comment_id k"
  shows "one_answer E k (db w) (db w')"
proof -
  let ?k = "toBizAIReplyTask k" and ?t = "toBizComment trigger"
  obtain ra w1 where a: "reply_answer E X ?k p ?t w = (ra, w1)" by fastforce
  have c1: "comments (db w1) = comments (db w)" using keepsD [OF reply_answer_frames [OF X] a] .
  show ?thesis
  proof (cases ra)
    case (Inl e)
    with a run show ?thesis using c1 by (auto simp: post_reply_def io_bind_def intro: one_answer_same)
  next
    case (Inr answer)
    obtain ob w2 where n: "buildNotificationOutbox E (Some (reply_notification E ?k answer)) False w1 = (Inr ob, w2)"
      using no_failD [OF buildNotificationOutbox_total] by (metis surj_pair)
    have c2: "comments (db w2) = comments (db w1)" using keepsD [OF reply_notification_frames n] .
    let ?b = "reply_comment E ?k ?t answer"
    obtain rc w3 where c: "CreateCommentWithOutbox E ?b ob w2 = (rc, w3)" by fastforce
    have c3: "comments (db w') = comments (db w3)"
      using run a Inr n c by (auto simp: post_reply_def io_bind_def io_then_run split: sum.splits
          dest: keepsD [OF mark_reply_frames(1) [where g = comments], rotated])
    have row: "answers E (map uncounted (comments (db w))) k (CreateComment_row E ?b)"
      using reply_row_answers [OF t reply_answer_bound [OF a [unfolded Inr]]] .
    have "bc_id ?b = t_id k" "bc_status ?b = CampusAuditStatusVisible" by (simp_all add: reply_comment_def toBizAIReplyTask_def)
    with create_reply [OF c] row c1 c2 c3 show ?thesis
      unfolding one_answer_def by auto
  qed
qed

lemma comment_reads [frames]: "keeps g (GetAnyCommentByID i)" "keeps g (GetCommentByID i)" "keeps g (CountAIRepliesToday E X b)"
  unfolding GetAnyCommentByID_def GetCommentByID_def CountAIRepliesToday_def by (intro frames)+

lemma GetPostByID_frames [frames]: "keeps g (GetPostByID E i)"
  unfolding GetPostByID_def fillPostCategoryName_def Let_def by (intro frames)

text \<open>A task is answered after three reads that found nothing against it; in all the other cases the comments
  are not touched.\<close>

lemma process_cases:
  assumes run: "processAIReplyTask E X k w = (r, w')"
  obtains "comments (db w') = comments (db w)"
  | p trigger w1 where "db w1 = db w" "post_reply E X k p (toBizComment trigger) w1 = (r, w')"
      "trigger \<in> set (comments (db w))" "visible_comment trigger" "c_id trigger = br_trigger_comment_id k"
      "count_where (answered_since (local_midnight X (now E)) (aiReplyConfig_BotUserID E)) (ai_reply_tasks (db w)) < aiReplyConfig_DailyLimit E"
proof -
  note same = keepsD [where g = "\<lambda>t. t"]
  obtain r1 w1 where 1: "CountAIRepliesToday E X (aiReplyConfig_BotUserID E) w = (r1, w1)" by fastforce
  obtain r2 w2 where 2: "GetAnyCommentByID (br_id k) w1 = (r2, w2)" by fastforce
  obtain r3 w3 where 3: "GetPostByID E (br_post_id k) w2 = (r3, w3)" by fastforce
  obtain r4 w4 where 4: "GetCommentByID (br_trigger_comment_id k) w3 = (r4, w4)" by fastforce
  have d: "db w1 = db w" "db w2 = db w" "db w3 = db w" "db w4 = db w"
    using same [OF comment_reads(3) 1] same [OF comment_reads(1) 2] same [OF GetPostByID_frames 3] same [OF comment_reads(2) 4] by simp_all
  have mark: "comments (db w') = comments (db v)" if "MarkAIReplyTaskDone E i a v = (r, w')" for i a v
    by (rule keepsD [OF mark_reply_frames(1) that]) simp
  have later: "keeps comments (io_then (notifyEzaiHandoff E p t a c s) (MarkAIReplyTaskRetry E i n nx e f))" for p t a c s i n nx e f
    by (intro frames) simp_all
  show ?thesis
  proof (cases "\<exists>n p t. r1 = Inr n \<and> n < aiReplyConfig_DailyLimit E \<and> r2 = Inr None \<and> r3 = Inr (Some p) \<and> r4 = Inr (Some t) \<and>
      bc_status t = CampusAuditStatusVisible")
    case True
    then obtain n p t where r: "r1 = Inr n" "n < aiReplyConfig_DailyLimit E" "r2 = Inr None" "r3 = Inr (Some p)" "r4 = Inr (Some t)"
      "bc_status t = CampusAuditStatusVisible" by blast
    then have go: "post_reply E X k p t w4 = (r, w')"
      using run 1 2 3 4 by (simp add: processAIReplyTask_def io_bind_def)
    from 4 r d obtain trigger where t: "t = toBizComment trigger" "trigger \<in> set (comments (db w))"
      "c_id trigger = br_trigger_comment_id k" "\<not> c_is_deleted trigger"
      by (auto simp: GetCommentByID_def elim!: io_bind_InrE sql_first_InrE dest!: find_SomeD)
    moreover have "c_status trigger = CampusAuditStatusVisible" using r(6) by (simp add: t toBizComment_def)
    moreover have "n = count_where (answered_since (local_midnight X (now E)) (aiReplyConfig_BotUserID E)) (ai_reply_tasks (db w))"
      using 1 r by (auto simp: CountAIRepliesToday_def elim!: sql_count_InrE)
    ultimately show ?thesis using that(2) [OF d(4)] go r(2) by (simp add: visible_comment_def)
  next
    case False
    then have "comments (db w') = comments (db w)"
      using run 1 2 3 4 d unfolding processAIReplyTask_def io_bind_def
      by (auto split: sum.splits option.splits if_splits dest!: mark dest!: keepsD [OF later])
    then show ?thesis by (rule that(1))
  qed
qed

lemma process_one:
  assumes "processAIReplyTask E X (toBizAIReplyTask k) w = (r, w')" and "ai_apart X"
  shows "one_answer E k (db w) (db w')"
  using assms(1)
proof (cases rule: process_cases)
  case 1
  then show ?thesis by (rule one_answer_same)
next
  case (2 p trigger w1)
  then show ?thesis using post_reply_one [OF 2(2) assms(2)] by (simp add: toBizAIReplyTask_def)
qed

definition answered_more :: "env \<Rightarrow> campusAIReplyTaskModel list \<Rightarrow> tables \<Rightarrow> tables \<Rightarrow> bool" where
  "answered_more E ks t t' \<longleftrightarrow> (\<exists>added. map uncounted (comments t') = map uncounted (comments t) @ added \<and>
     distinct (map c_id added) \<and>
     (\<forall>c \<in> set added. (\<forall>d \<in> set (comments t). c_id d \<noteq> c_id c) \<and> (\<exists>k \<in> set ks. answers E (map uncounted (comments t')) k c)))"

lemma answered_none: "comments t' = comments t \<Longrightarrow> answered_more E ks t t'"
  by (auto simp: answered_more_def)

lemma ids_uncounted: "map uncounted cs = xs \<Longrightarrow> c_id ` set cs = c_id ` set xs"
  by (auto simp: image_image)

lemma answered_step:
  assumes one: "one_answer E k t u" and more: "answered_more E ks u t'"
  shows "answered_more E (k # ks) t t'"
proof -
  obtain added where a: "map uncounted (comments t') = map uncounted (comments u) @ added" "distinct (map c_id added)"
    "\<And>c. c \<in> set added \<Longrightarrow> (\<forall>d \<in> set (comments u). c_id d \<noteq> c_id c) \<and> (\<exists>k \<in> set ks. answers E (map uncounted (comments t')) k c)"
    using more by (auto simp: answered_more_def)
  from one consider (none) "map uncounted (comments u) = map uncounted (comments t)"
    | (add) c where "map uncounted (comments u) = map uncounted (comments t) @ [c]" "answers E (map uncounted (comments t)) k c"
        "\<forall>d \<in> set (comments t). c_id d \<noteq> t_id k"
    by (auto simp: one_answer_def)
  then show ?thesis
  proof cases
    case none
    from ids_uncounted [OF none] have "c_id ` set (comments u) = c_id ` set (comments t)" by (simp add: image_image)
    with a none show ?thesis unfolding answered_more_def by (intro exI [of _ added]) (metis image_iff list.set_intros(2))
  next
    case (add c)
    from ids_uncounted [OF add(1)] have ids: "c_id ` set (comments u) = insert (c_id c) (c_id ` set (comments t))"
      by (simp add: image_image)
    have new: "c_id c = t_id k" using add(2) by (simp add: answers_def)
    have own: "answers E (map uncounted (comments t')) k c"
      by (rule answers_mono [OF add(2)]) (auto simp: a(1) add(1))
    have later: "c_id e \<noteq> c_id c \<and> (\<forall>d \<in> set (comments t). c_id d \<noteq> c_id e)" if "e \<in> set added" for e
      using a(3) [OF that] ids by (metis image_iff insertI1 insertI2)
    show ?thesis
      unfolding answered_more_def
      using a add later own new by (intro exI [of _ "c # added"]) (auto, metis image_iff later)
  qed
qed

lemma reply_items_more:
  assumes X: "ai_apart X" and "reply_items E X (map toBizAIReplyTask ks) w = (r, w')"
  shows "answered_more E ks (db w) (db w')"
  using assms(2)
proof (induction ks arbitrary: w)
  case Nil
  then show ?case by (auto intro: answered_none)
next
  case (Cons k ks)
  obtain rp w1 where p: "processAIReplyTask E X (toBizAIReplyTask k) w = (rp, w1)" by fastforce
  have mark: "\<exists>w2. markAIReplyTaskRetry E (toBizAIReplyTask k) e w1 = (Inr (), w2) \<and> comments (db w2) = comments (db w1)" for e
  proof -
    obtain r2 w2 where run: "markAIReplyTaskRetry E (toBizAIReplyTask k) e w1 = (r2, w2)" by fastforce
    have "comments (db w2) = comments (db w1)" by (rule keepsD [OF reply_retry_frames run]) simp_all
    with run no_failD [OF reply_retry_total run] show ?thesis by auto
  qed
  obtain w2 where rest: "reply_items E X (map toBizAIReplyTask ks) w2 = (r, w')" and c: "comments (db w2) = comments (db w1)"
  proof (cases rp)
    case (Inl e)
    obtain w2 where m: "markAIReplyTaskRetry E (toBizAIReplyTask k) e w1 = (Inr (), w2)" "comments (db w2) = comments (db w1)"
      using mark by blast
    with Cons.prems p Inl show ?thesis by (intro that [of w2]) (simp_all add: attempt_def io_bind_def io_then_run)
  next
    case (Inr x)
    with Cons.prems p show ?thesis by (intro that [of w1]) (simp_all add: attempt_def io_bind_def io_then_run)
  qed
  have "one_answer E k (db w) (db w2)" using process_one [OF p X] c by (simp add: one_answer_def)
  from answered_step [OF this Cons.IH [OF rest]] show ?case .
qed

lemma handoff_items_frames:
  assumes "\<And>h t. g (outbox_update h t) = g t" "\<And>h t. g (ai_reply_tasks_update h t) = g t"
  shows "keeps g (handoff_items E reason ks)"
  by (induction ks) (unfold handoff_items.simps, (intro frames assms; assumption?)+)

lemma claim_frames:
  assumes "\<And>h t. g (ai_reply_tasks_update h t) = g t"
  shows "keeps g (claim_replies E limit)"
  unfolding claim_replies_def ClaimAIReplyTasks_def claim_def Let_def by (intro frames assms)

lemma claimed_replies:
  assumes "claim_replies E limit w = (Inr items, w')"
  obtains ks where "items = map toBizAIReplyTask ks" "comments (db w') = comments (db w)"
    "\<And>k cs c. k \<in> set ks \<Longrightarrow> answers E cs k c \<Longrightarrow> \<exists>q \<in> set (filter (claimable (now E)) (ai_reply_tasks (db w))). answers E cs q c"
proof -
  let ?lim = "TaskQueue.or_default (if limit \<le> 0 then 20 else limit) 20" and ?lock = "TaskQueue.or_default (seconds 45) (seconds 45)"
  from assms obtain out where c: "claim ai_reply_tasks ai_reply_tasks_update E ?lim ?lock w = (Inr out, w')"
    and i: "items = map toBizAIReplyTask out"
    by (auto simp: claim_replies_def ClaimAIReplyTasks_def elim!: io_InrE)
  have out: "out = map (claimed_row (now E + ?lock)) (due (now E) ?lim (ai_reply_tasks (db w)))"
    using arq.claim_ok [OF c] by simp
  show thesis
  proof (rule that [OF i])
    show "comments (db w') = comments (db w)" using keepsD [OF claim_frames [where g = comments] assms] by simp
    fix k cs c assume "k \<in> set out" and a: "answers E cs k c"
    with out obtain q where q: "q \<in> set (due (now E) ?lim (ai_reply_tasks (db w)))" "k = claimed_row (now E + ?lock) q" by auto
    from a have "answers E cs q c" unfolding q(2) by (simp add: answers_def claimed_row_def)
    with q(1) due_props(2) [of "now E" ?lim "ai_reply_tasks (db w)"]
    show "\<exists>q \<in> set (filter (claimable (now E)) (ai_reply_tasks (db w))). answers E cs q c" by auto
  qed
qed

lemma answered_tasks:
  assumes "answered_more E ks t t'" and "comments u = comments t"
    and "\<And>k c cs. k \<in> set ks \<Longrightarrow> answers E cs k c \<Longrightarrow> \<exists>k' \<in> set ks'. answers E cs k' c"
  shows "answered_more E ks' u t'"
proof -
  obtain added where "map uncounted (comments t') = map uncounted (comments t) @ added" "distinct (map c_id added)"
    and a: "\<And>c. c \<in> set added \<Longrightarrow> (\<forall>d \<in> set (comments t). c_id d \<noteq> c_id c) \<and> (\<exists>k \<in> set ks. answers E (map uncounted (comments t')) k c)"
    using assms(1) by (auto simp: answered_more_def)
  moreover have "(\<forall>d \<in> set (comments t). c_id d \<noteq> c_id c) \<and> (\<exists>k \<in> set ks'. answers E (map uncounted (comments t')) k c)"
    if "c \<in> set added" for c using a [OF that] assms(3) by blast
  ultimately show ?thesis unfolding answered_more_def assms(2) by blast
qed

lemma io_bind_run: "m w = (Inr x, w1) \<Longrightarrow> io_bind m f w = f x w1"
  by (simp add: io_bind_def)

lemma bot_off_keeps:
  assumes run: "ProcessPendingAIReplyTasks E X limit w = (r, w')" and e: "ezaiAutoReplyEffective E w = (r1, w1)" and d: "db w1 = db w"
    and off: "\<not> (r1 = Inr True \<and> aiReplyConfig_Enabled E \<and> (\<exists>items v. claim_replies E limit w1 = (Inr items, v)))"
  shows "comments (db w') = comments (db w)"
proof -
  have handoff: "keeps comments (handoffPendingAIReplyTasks E limit reason)" for reason
    unfolding handoffPendingAIReplyTasks_def by (intro frames claim_frames handoff_items_frames) simp_all
  have idle: "keeps comments (io_bind (io_and (ezaiAutoReplyEnabled E) (ret (\<not> ezaiModelConfigured E))) (\<lambda>unconfigured.
      handoffPendingAIReplyTasks E limit (if unconfigured then ''ezai model not configured'' else ''ezai auto reply disabled'')))"
    unfolding io_and_def by (intro frames handoff)
  obtain rc v where c: "claim_replies E limit w1 = (rc, v)" by fastforce
  have cv: "comments (db v) = comments (db w1)" by (rule keepsD [OF claim_frames c]) simp
  show ?thesis
  proof (cases r1)
    case (Inl x)
    with run e d show ?thesis by (simp add: ProcessPendingAIReplyTasks_def io_bind_def)
  next
    case (Inr on)
    note go = run [unfolded ProcessPendingAIReplyTasks_def io_bind_run [where m = "ezaiAutoReplyEffective E" and w = w, OF e [unfolded Inr]]]
    show ?thesis
    proof (cases "on \<and> aiReplyConfig_Enabled E")
      case True
      with off Inr c obtain x where "rc = Inl x" by (cases rc) simp_all
      with go True c cv d show ?thesis by (simp add: io_bind_def)
    next
      case False
      with go keepsD [OF idle, of w1 r w'] d show ?thesis by (cases on) simp_all
    qed
  qed
qed

text \<open>
  C39. A run of the bot, whatever fails and whatever the two services answer: it adds only comments of
  the bot, at most one for each task that was due, under the id of the task and only when no comment
  has this id, so that a task is never answered twice; each is visible, has at most 220 characters
  and answers a visible comment, the trigger of its task. Nothing else of the comments changes but
  the numbers of replies.
\<close>

theorem bot_answers_once:
  assumes "ProcessPendingAIReplyTasks E X limit w = (r, w')" and "ai_apart X"
  shows "answered_more E (filter (claimable (now E)) (ai_reply_tasks (db w))) (db w) (db w')"
proof -
  obtain r1 w1 where e: "ezaiAutoReplyEffective E w = (r1, w1)" by fastforce
  have "keeps (\<lambda>t. t) (ezaiAutoReplyEffective E)" unfolding ezaiAutoReplyEffective_def io_and_def by (intro frames)
  from keepsD [OF this e] have d: "db w1 = db w" .
  show ?thesis
  proof (cases "r1 = Inr True \<and> aiReplyConfig_Enabled E \<and> (\<exists>items v. claim_replies E limit w1 = (Inr items, v))")
    case True
    then obtain items v where c: "claim_replies E limit w1 = (Inr items, v)" by blast
    with assms(1) e True have go: "reply_items E X items v = (r, w')"
      by (simp add: ProcessPendingAIReplyTasks_def io_bind_def)
    obtain ks where ks: "items = map toBizAIReplyTask ks" "comments (db v) = comments (db w)"
      "\<And>k cs c. k \<in> set ks \<Longrightarrow> answers E cs k c \<Longrightarrow> \<exists>q \<in> set (filter (claimable (now E)) (ai_reply_tasks (db w))). answers E cs q c"
    proof (rule claimed_replies [OF c, unfolded d])
    qed (rule that)
    from reply_items_more [OF assms(2) go [unfolded ks(1)]] have more: "answered_more E ks (db v) (db w')" .
    from answered_tasks [OF more _ ks(3)] ks(2) show ?thesis by simp
  next
    case False
    from bot_off_keeps [OF assms(1) e d this] show ?thesis by (rule answered_none)
  qed
qed

definition sample_services :: "ai_ext \<Rightarrow> ai_ext" where
  "sample_services X = X\<lparr>rag_client := noopCampusRAGClient,
     chat_exchange := (\<lambda>q. ret (ChatAnswer 200 ''ok'' None (Inr [''ok''])))\<rparr>"

definition due_task :: campusAIReplyTaskModel where
  "due_task = toAIReplyTaskModel ezai_env (zero_CampusAIReplyTask\<lparr>br_id := 7, br_post_id := 1, br_trigger_comment_id := 20,
     br_asker_id := ''5'', br_bot_user_id := ''9'', br_prompt := ''hi''\<rparr>)"

definition bot_world :: world where
  "bot_world = empty_world\<lparr>db := empty_tables\<lparr>ai_reply_tasks := [due_task],
     comments := [CreateComment_row ezai_env (bot_comment ''5'')]\<rparr>\<rparr>"

theorem bot_answers_once_witness:
  "\<forall>X. answered_more ezai_env [due_task] (db bot_world)
     (db (snd (ProcessPendingAIReplyTasks ezai_env (sample_services X) 20 bot_world)))"
proof
  fix X
  have apart: "ai_apart (sample_services X)"
    by (simp add: ai_apart_def sample_services_def noopCampusRAGClient_def keeps_basic)
  have "filter (claimable (now ezai_env)) (ai_reply_tasks (db bot_world)) = [due_task]"
    by (simp add: bot_world_def due_task_def claimable_def toAIReplyTaskModel_def zero_CampusAIReplyTask_def)
  with bot_answers_once [where E = ezai_env and limit = 20 and w = bot_world, OF surjective_pairing apart]
  show "answered_more ezai_env [due_task] (db bot_world)
     (db (snd (ProcessPendingAIReplyTasks ezai_env (sample_services X) 20 bot_world)))" by simp
qed

end
