(* ===== verification/TypedTables.thy ===== *)
theory TypedTables
  imports PostAdmin AiReply
begin

text \<open>
  The types of the rows: which statuses, weights, lengths, images and counters the rows of posts,
  comments, reports and feedback may have, and a judgement \<open>typed m\<close> for computations that keep
  all rows well typed, whether they fail or not. It is compositional, so that every handler and
  every worker that writes these tables gets its typing from its parts.
\<close>

subsection \<open>Well-typed rows\<close>

definition audit_statuses :: "int set" where
  "audit_statuses = {CampusAuditStatusPending, CampusAuditStatusVisible, CampusAuditStatusRejected, CampusAuditStatusDeleted}"

definition typed_post :: "campusForumPostModel \<Rightarrow> bool" where
  "typed_post p \<longleftrightarrow> p_status p \<in> audit_statuses \<and> (p_is_deleted p \<longleftrightarrow> p_status p = CampusAuditStatusDeleted) \<and>
     2 \<le> rune_count (p_title p) \<and> rune_count (p_title p) \<le> 60 \<and>
     2 \<le> rune_count (p_content p) \<and> rune_count (p_content p) \<le> 2000 \<and>
     p_media_type p \<in> {''text'', ''image''} \<and> (p_media_type p = ''image'' \<longleftrightarrow> p_images p \<noteq> []) \<and> length (p_images p) \<le> 9 \<and>
     0 \<le> p_sort_weight p \<and> p_sort_weight p \<le> 10000 \<and>
     0 \<le> p_like_count p \<and> 0 \<le> p_comment_count p \<and> 0 \<le> p_collected_count p"

definition typed_comment :: "campusForumCommentModel \<Rightarrow> bool" where
  "typed_comment c \<longleftrightarrow> c_status c \<in> audit_statuses \<and> (c_is_deleted c \<longleftrightarrow> c_status c = CampusAuditStatusDeleted) \<and>
     length (c_images c) \<le> 3 \<and> 0 \<le> c_like_count c \<and> 0 \<le> c_reply_count c \<and> rune_count (c_content c) \<le> 500"

definition typed_report :: "campusForumReportModel \<Rightarrow> bool" where
  "typed_report r \<longleftrightarrow> rp_target_type r \<in> {''post'', ''comment''} \<and> 0 < rp_target_id r \<and> rp_status r \<in> {0, 1, 2} \<and>
     rune_count (rp_reason r) \<le> 60 \<and> rune_count (rp_detail r) \<le> 300"

definition typed_feedback :: "campusFeedbackModel \<Rightarrow> bool" where
  "typed_feedback f \<longleftrightarrow> fb_status f \<in> {0, 1, 2} \<and> 5 \<le> rune_count (fb_content f) \<and> rune_count (fb_content f) \<le> 800 \<and>
     rune_count (fb_contact f) \<le> 80 \<and> length (fb_images f) \<le> 3 \<and> rune_count (fb_operator_note f) \<le> 300"

definition well_typed :: "tables \<Rightarrow> bool" where
  "well_typed t \<longleftrightarrow> (\<forall>p \<in> set (posts t). typed_post p) \<and> (\<forall>c \<in> set (comments t). typed_comment c) \<and>
     (\<forall>r \<in> set (tables.reports t). typed_report r) \<and> (\<forall>f \<in> set (feedbacks t). typed_feedback f)"

text \<open>The four tables.\<close>

definition face ::
    "tables \<Rightarrow> campusForumPostModel list \<times> campusForumCommentModel list \<times> campusForumReportModel list \<times> campusFeedbackModel list"
where
  "face t = (posts t, comments t, tables.reports t, feedbacks t)"

lemma well_typed_face: "face t' = face t \<Longrightarrow> well_typed t' = well_typed t"
  by (simp add: face_def well_typed_def)

lemma face_other [simp]:
  "face (outbox_update h t) = face t" "face (notifications_update h1 t) = face t" "face (ai_reply_tasks_update h2 t) = face t"
  "face (ai_audit_tasks_update h3 t) = face t" "face (ops_alerts_update h4 t) = face t" "face (action_tokens_update h5 t) = face t"
  "face (ops_settings_update h6 t) = face t" "face (audit_logs_update h7 t) = face t" "face (ai_usage_logs_update h8 t) = face t"
  "face (rag_query_logs_update h9 t) = face t" "face (post_likes_update h10 t) = face t" "face (post_collections_update h10 t) = face t"
  "face (comment_likes_update h10 t) = face t" "face (events_update h11 t) = face t"
  by (simp_all add: face_def)

subsection \<open>Well-typed computations\<close>

named_theorems typing "rules for \<open>typed\<close>"

definition typed :: "'a io \<Rightarrow> bool" where
  "typed m \<longleftrightarrow> (\<forall>w. well_typed (db w) \<longrightarrow> well_typed (db (snd (m w))))"

lemma typedD: "typed m \<Longrightarrow> m w = (r, w') \<Longrightarrow> well_typed (db w) \<Longrightarrow> well_typed (db w')"
  unfolding typed_def by (metis snd_conv)

lemma typed_keeps: "keeps face m \<Longrightarrow> typed m"
  by (auto simp: keeps_def typed_def dest: well_typed_face)

lemma typed_basic [typing]: "typed (ret x)" "typed (fail e)" "typed (NextID E)"
  by (intro typed_keeps frames)+

lemma typedI: "(\<And>w r w'. m w = (r, w') \<Longrightarrow> well_typed (db w) \<Longrightarrow> well_typed (db w')) \<Longrightarrow> typed m"
  unfolding typed_def by (metis prod.collapse)

lemma typed_bind [typing]:
  assumes "typed m" and "\<And>x. typed (f x)"
  shows "typed (io_bind m f)"
proof (rule typedI)
  fix w r w'
  assume run: "io_bind m f w = (r, w')" and w: "well_typed (db w)"
  obtain r1 w1 where m: "m w = (r1, w1)" by fastforce
  from typedD [OF assms(1) m w] run m typedD [OF assms(2)] show "well_typed (db w')"
    by (cases r1) (simp_all add: io_bind_def)
qed

lemma typed_then [typing]: "typed m \<Longrightarrow> typed k \<Longrightarrow> typed (io_then m k)"
  unfolding io_then_def by (rule typed_bind)

lemma typed_wrap [typing]: "typed m \<Longrightarrow> typed (attempt m)" "typed m \<Longrightarrow> typed (or_fail h m)" "typed m \<Longrightarrow> typed (ignore m)"
proof -
  have a: "typed m \<Longrightarrow> typed (attempt m)" for m :: "'x io"
    by (rule typedI) (auto simp: attempt_def split: prod.splits dest: typedD)
  show "typed m \<Longrightarrow> typed (attempt m)" by (rule a)
  show "typed m \<Longrightarrow> typed (ignore m)" unfolding ignore_def by (intro typed_bind a typed_basic)
  show "typed m \<Longrightarrow> typed (or_fail h m)"
    by (rule typedI) (auto simp: or_fail_def split: prod.splits sum.splits dest: typedD)
qed

lemma typed_branches [typing]:
  "(b \<Longrightarrow> typed m) \<Longrightarrow> (\<not> b \<Longrightarrow> typed k) \<Longrightarrow> typed (if b then m else k)"
  "(o' = None \<Longrightarrow> typed m) \<Longrightarrow> (\<And>x. o' = Some x \<Longrightarrow> typed (p x)) \<Longrightarrow> typed (case o' of None \<Rightarrow> m | Some x \<Rightarrow> p x)"
  "(\<And>x. s = Inl x \<Longrightarrow> typed (q x)) \<Longrightarrow> (\<And>y. s = Inr y \<Longrightarrow> typed (q' y)) \<Longrightarrow> typed (case s of Inl x \<Rightarrow> q x | Inr y \<Rightarrow> q' y)"
  "(\<And>x y. xy = (x, y) \<Longrightarrow> typed (h x y)) \<Longrightarrow> typed (case xy of (x, y) \<Rightarrow> h x y)"
  by (auto split: option.splits sum.splits prod.splits)

lemma typed_command: "(\<And>w. well_typed (db w) \<Longrightarrow> well_typed (db (snd (c w)))) \<Longrightarrow> typed (command c)"
  by (simp add: typed_def command_def split: list.splits)

lemma typed_transaction [typing]:
  assumes "typed body"
  shows "typed (transaction body)"
proof (rule typedI)
  fix w r w'
  assume run: "transaction body w = (r, w')" and w: "well_typed (db w)"
  show "well_typed (db w')"
  proof (cases r)
    case (Inl e)
    with run w show ?thesis by (simp add: transaction_atomic)
  next
    case (Inr x)
    with run obtain w1 w2 where b: "body w1 = (Inr x, w2)" "db w1 = db w" "db w' = db w2" by (auto elim: transaction_InrE)
    from typedD [OF assms b(1)] b w show ?thesis by simp
  qed
qed

subsection \<open>Well-typed statements\<close>

definition preserves :: "('r \<Rightarrow> bool) \<Rightarrow> ('r \<Rightarrow> 'r) \<Rightarrow> bool" where
  "preserves P f \<longleftrightarrow> (\<forall>r. P r \<longrightarrow> P (f r))"

lemma set_upd_preserves: "preserves P f \<Longrightarrow> \<forall>r \<in> set rs. P r \<Longrightarrow> \<forall>r \<in> set (upd_where Q f rs). P r"
  by (auto simp: preserves_def set_upd_where)

lemma typed_posts_update:
  "preserves typed_post f \<Longrightarrow> well_typed t \<Longrightarrow> well_typed (posts_update (upd_where P f) t)"
  using set_upd_preserves [of typed_post f "posts t" P] by (simp add: well_typed_def)

lemma typed_comments_update:
  "preserves typed_comment f \<Longrightarrow> well_typed t \<Longrightarrow> well_typed (comments_update (upd_where Q f) t)"
  using set_upd_preserves [of typed_comment f "comments t" Q] by (simp add: well_typed_def)

lemma typed_updates [typing]:
  "preserves typed_post f \<Longrightarrow> typed (sql_update posts_update P f)"
  "preserves typed_comment f' \<Longrightarrow> typed (sql_update comments_update P' f')"
  "preserves typed_report f'' \<Longrightarrow> typed (sql_update reports_update P'' f'')"
  "preserves typed_feedback f3 \<Longrightarrow> typed (sql_update feedbacks_update P3 f3)"
  unfolding sql_update_def
  by (intro typed_command; simp add: typed_posts_update typed_comments_update;
      use set_upd_preserves in \<open>fastforce simp: well_typed_def\<close>)+

lemma typed_inserts [typing]:
  "typed_post p \<Longrightarrow> typed (sql_create posts posts_update clash p)"
  "typed_comment c \<Longrightarrow> typed (sql_create comments comments_update clash' c)"
  "typed_feedback f \<Longrightarrow> typed (sql_create feedbacks feedbacks_update clash'' f)"
  unfolding sql_create_def by (intro typed_command; simp add: well_typed_def)+

lemma typed_upsert [typing]:
  assumes "typed_report r" and "preserves typed_report chg"
  shows "typed (sql_upsert reports_update same_id same_key chg r)"
proof -
  have "\<forall>q \<in> set (upsert same_id same_key chg r rs). typed_report q" if "\<forall>q \<in> set rs. typed_report q" for rs
    using that assms(1) set_upd_preserves [OF assms(2) that] by (simp add: upsert_def)
  then show ?thesis unfolding sql_upsert_def by (intro typed_command) (simp add: well_typed_def, blast)
qed

lemma typed_counted_updates [typing]:
  "preserves typed_post f \<Longrightarrow> typed (sql_update_rows posts posts_update P f)"
  "preserves typed_comment f' \<Longrightarrow> typed (sql_update_rows comments comments_update P' f')"
  unfolding sql_update_rows_def
  by (intro typed_command; simp add: typed_posts_update typed_comments_update)+

lemma typed_exec: "(\<And>t. well_typed t \<Longrightarrow> well_typed (k t)) \<Longrightarrow> typed (sql_exec k)"
  unfolding sql_exec_def by (intro typed_command) simp

lemma typed_bumps [typing]:
  "(\<And>n. 0 \<le> n \<Longrightarrow> 0 \<le> f n) \<Longrightarrow> typed (sql_exec (set_comment_count f i))"
  "(\<And>n. 0 \<le> n \<Longrightarrow> 0 \<le> f n) \<Longrightarrow> typed (sql_exec (set_reply_count f i))"
  "typed (sql_exec (bump_post_like i d))" "typed (sql_exec (bump_post_collected i d))" "typed (sql_exec (bump_comment_like i d))"
  unfolding set_comment_count_def set_reply_count_def bump_post_like_def bump_post_collected_def bump_comment_like_def
  by (intro typed_exec typed_posts_update typed_comments_update; auto simp: preserves_def typed_post_def typed_comment_def)+

subsection \<open>Rows that the statements make\<close>

lemma CreatePost_typed [typing]: "typed_post (CreatePost_row E b) \<Longrightarrow> typed (CreatePost E b)"
  unfolding CreatePost_def by (intro typing typed_keeps [OF cache_step_frames(1)]) simp_all

lemma UpdatePostStatus_typed [typing]: "s \<in> audit_statuses \<Longrightarrow> typed (UpdatePostStatus E i s reason)"
  unfolding UpdatePostStatus_def
  by (intro typing typed_keeps [OF cache_step_frames(1)]) (auto simp: preserves_def typed_post_def)

lemma DeletePost_typed [typing]: "typed (DeletePost E i)"
  unfolding DeletePost_def DeletePost_rows_def
  by (intro typing typed_keeps [OF cache_step_frames(1)])
    (auto simp: preserves_def typed_post_def typed_comment_def audit_statuses_def)

text \<open>What an update by an operator writes.\<close>

definition typed_edit :: "CampusForumPost \<Rightarrow> bool" where
  "typed_edit b \<longleftrightarrow> bp_status b \<in> audit_statuses \<and> 2 \<le> rune_count (bp_title b) \<and> rune_count (bp_title b) \<le> 60 \<and>
     2 \<le> rune_count (bp_content b) \<and> rune_count (bp_content b) \<le> 2000 \<and> bp_media_type b \<in> {''text'', ''image''} \<and>
     (bp_media_type b = ''image'' \<longleftrightarrow> bp_images b \<noteq> []) \<and> length (bp_images b) \<le> 9 \<and>
     0 \<le> bp_sort_weight b \<and> bp_sort_weight b \<le> 10000"

lemma UpdatePostByAdmin_typed [typing]: "typed_edit b \<Longrightarrow> typed (UpdatePostByAdmin E b)"
  unfolding UpdatePostByAdmin_def
  by (intro typing typed_keeps [OF cache_step_frames(1)]) (auto simp: preserves_def typed_post_def typed_edit_def)

lemma CreatePost_row_typed: "typed_edit b \<Longrightarrow> bp_status b \<noteq> CampusAuditStatusDeleted \<Longrightarrow> typed_post (CreatePost_row E b)"
  by (auto simp: typed_edit_def typed_post_def CreatePost_row_def)

lemma outbox_typed [typing]: "typed (createNotificationOutboxWithTx E ob)" "typed (buildNotificationOutbox E n u)"
  unfolding createNotificationOutboxWithTx_def Let_def by (intro typed_keeps frames; simp)+

definition typed_draft :: "CampusForumComment \<Rightarrow> bool" where
  "typed_draft b \<longleftrightarrow> bc_status b \<in> audit_statuses - {CampusAuditStatusDeleted} \<and> length (bc_images b) \<le> 3 \<and>
     rune_count (bc_content b) \<le> 500"

lemma CreateComment_typed [typing]: "typed_draft b \<Longrightarrow> typed (CreateCommentWithOutbox E b ob)"
  unfolding CreateCommentWithOutbox_def CreateComment_rows_def
  by (intro typing typed_keeps [OF cache_step_frames(1)])
    (auto simp: typed_comment_def typed_draft_def CreateComment_row_def)

lemma first_typed [typing]: "typed (sql_first t P)" "typed (sql_find u Q)" "typed (sql_count v R)"
  by (intro typed_keeps frames)+

lemma DeleteComment_typed [typing]: "typed (DeleteComment_repo E i)"
  unfolding DeleteComment_repo_def DeleteComment_rows_def Let_def
  by (intro typing typed_keeps [OF cache_step_frames(1)])
    (auto simp: preserves_def typed_comment_def withdraw_row_def audit_statuses_def)

lemma UpdateCommentStatus_typed [typing]: "s \<in> audit_statuses \<Longrightarrow> typed (UpdateCommentStatus E i s reason)"
  unfolding UpdateCommentStatus_def UpdateCommentStatus_rows_def Let_def
  by (intro typing typed_keeps [OF cache_step_frames(1)])
    (auto simp: preserves_def typed_comment_def withdraw_row_def review_row_def audit_statuses_def)

lemma relations_typed [typing]:
  "typed (AddPostLikeWithOutbox E rid u i ob)" "typed (RemovePostLike E u i)"
  "typed (AddPostCollectionWithOutbox E rid u i ob)" "typed (RemovePostCollection E u i)"
  "typed (AddCommentLikeWithOutbox E rid u i ob)" "typed (RemoveCommentLike E u i)"
  unfolding interaction_defs RemovePostLike_def RemovePostCollection_def RemoveCommentLike_def
    add_relation_def remove_relation_def
  by (intro typing; (rule typed_keeps, intro frames; simp)?)+


subsection \<open>The handlers\<close>

lemma read_typed [typing]:
  "typed (GetPostByID E i)" "typed (GetAnyPostByID i)" "typed (GetCommentByID i)" "typed (GetAnyCommentByID i)"
  "typed (reply_target input)" "typed (isCampusOperator E u)" "typed (isCampusAdmin E u)" "typed (GetCategoryByCode code)"
  unfolding GetCategoryByCode_def by (intro typed_keeps frames)+

lemma side_typed [typing]:
  "typed (track E u e p ty i)" "typed (handleEzaiMention E c)" "typed (CreateAuditLog E ty i u p r s)"
  "typed (notifyPostAuditResult E post ok reason)" "typed (notifyReportResult E rep n)" "typed (notifyReportReceived E ty i u)"
  by (intro typed_keeps frames; simp)+

lemma login_typed [typing]: "typed k \<Longrightarrow> typed (require_login u k)" "typed k \<Longrightarrow> typed (require_operator E u m k)"
  unfolding require_login_def require_operator_def by (intro typing; assumption)+

lemma require_post_typed [typing]: "(\<And>p. typed (k p)) \<Longrightarrow> typed (require_post E i k)"
  unfolding require_post_def by (intro typing; assumption?)

lemma user_handlers_typed:
  "typed (LikePost E u i)" "typed (UnlikePost E u i)" "typed (CollectPost E u i)" "typed (UncollectPost E u i)"
  "typed (LikeComment E u i)" "typed (UnlikeComment E u i)" "typed (DeleteComment E u i)" "typed (DeletePost_uc E u i)"
  unfolding LikePost_def UnlikePost_def CollectPost_def UncollectPost_def LikeComment_def UnlikeComment_def
    DeleteComment_def DeletePost_uc_def
  by (intro typing)+

lemma status_members: "CampusAuditStatusPending \<in> audit_statuses" "CampusAuditStatusVisible \<in> audit_statuses"
  "CampusAuditStatusRejected \<in> audit_statuses" "CampusAuditStatusDeleted \<in> audit_statuses"
  "CampusAuditStatusVisible \<noteq> CampusAuditStatusDeleted" "CampusAuditStatusPending \<noteq> CampusAuditStatusDeleted"
  by (simp_all add: audit_statuses_def audit_status_defs)

lemma CreateComment_handler_typed: "typed (CreateComment E input)"
  unfolding CreateComment_def Let_def
  by (intro typing) (use sanitizeImages_length [of 3 "ci_images input"] in \<open>simp add: typed_draft_def status_members\<close>)

text \<open>The post an operator edits is a row of the table.\<close>

lemma read_edit:
  assumes "GetAnyPostByID i w = (Inr (Some p), w')" and "well_typed (db w)"
  shows "typed_edit p"
proof -
  from assms(1) obtain row w1 where f: "find (\<lambda>r. p_id r = i \<and> \<not> p_is_deleted r) (posts (db w)) = Some row"
    and n: "fillPostCategoryName (toBizPost row) w1 = (Inr p, w')"
    by (auto simp: GetAnyPostByID_def elim!: io_bind_InrE sql_first_InrE split: option.splits)
  have "p = (toBizPost row)\<lparr>bp_category_name := bp_category_name p\<rparr>"
    using n by (auto simp: fillPostCategoryName_def fillPostCategoryNames_def Let_def toBizPost_def
        elim!: io_bind_InrE sql_find_InrE split: if_splits)
  then have p: "bp_status p = p_status row" "bp_title p = p_title row" "bp_content p = p_content row" "bp_media_type p = p_media_type row"
      "bp_images p = p_images row" "bp_sort_weight p = p_sort_weight row"
    by (cases p; simp add: toBizPost_def)+
  have "typed_post row" using find_SomeD [OF f] assms(2) by (simp add: well_typed_def)
  then show ?thesis unfolding typed_edit_def p typed_post_def by blast
qed

lemma typed_bind_read:
  assumes "typed (f None)" and "\<And>p. typed_edit p \<Longrightarrow> typed (f (Some p))"
  shows "typed (io_bind (or_fail h (GetAnyPostByID i)) f)"
proof (rule typedI)
  fix w r w'
  assume run: "io_bind (or_fail h (GetAnyPostByID i)) f w = (r, w')" and w: "well_typed (db w)"
  obtain r1 w1 where g: "GetAnyPostByID i w = (r1, w1)" by fastforce
  have w1: "well_typed (db w1)" using typedD [OF read_typed(2) g w] .
  show "well_typed (db w')"
  proof (cases r1)
    case (Inl e)
    with run g w1 show ?thesis by (simp add: io_bind_def or_fail_def)
  next
    case (Inr p)
    with run g have go: "f p w1 = (r, w')" by (simp add: io_bind_def or_fail_def)
    have "typed (f p)" 
      using assms w g Inr by (cases p) (auto intro: read_edit)
    from typedD [OF this go w1] show ?thesis .
  qed
qed

lemma new_post_edit:
  assumes "2 \<le> rune_count (trim_space (pi_title input))" "rune_count (trim_space (pi_title input)) \<le> 60"
    "2 \<le> rune_count (trim_space (pi_content input))" "rune_count (trim_space (pi_content input)) \<le> 2000"
    and m: "normalizeCampusPostMedia mt images cover0 = Inr (mediaType, cover)" and i: "length images \<le> 9"
    and s: "ro_status ro \<in> audit_statuses"
  shows "typed_edit (new_post input cat (post_images mediaType images) mediaType cover op ro i)"
  using assms by (auto simp: typed_edit_def new_post_def post_images_def normalizeCampusPostMedia_def clampSortWeight_def Let_def
      split: if_splits list.splits)


lemma typed_bind_value:
  assumes "typed m" and "\<And>x w w'. m w = (Inr x, w') \<Longrightarrow> typed (f x)"
  shows "typed (io_bind m f)"
proof (rule typedI)
  fix w r w'
  assume run: "io_bind m f w = (r, w')" and w: "well_typed (db w)"
  obtain r1 w1 where m: "m w = (r1, w1)" by fastforce
  from typedD [OF assms(1) m w] run m typedD [OF assms(2)] show "well_typed (db w')"
    by (cases r1) (auto simp: io_bind_def)
qed

lemma route_status:
  assumes "choose_route E op title content w = (Inr (m, ro), w')"
  shows "ro_status ro \<in> {CampusAuditStatusPending, CampusAuditStatusVisible}"
  using assms unfolding choose_route_def audit_route_of_def
  by (auto simp: route_public_def route_manual_def route_ai_def route_ai_wait_def elim!: io_bind_InrE split: if_splits prod.splits)

lemma route_typed: "typed (choose_route E op title content)" "typed (announce_pending E X post op m ro)"
  by (intro typed_keeps frames; simp)+

lemma CreatePost_uc_typed: "typed (CreatePost_uc E X input)"
proof -
  have row: "typed_post (CreatePost_row E (new_post input cat (post_images mediaType images) mediaType cover op ro i))"
    if "\<not> (rune_count (trim_space (pi_title input)) < 2 \<or> 60 < rune_count (trim_space (pi_title input)))"
      "\<not> (rune_count (trim_space (pi_content input)) < 2 \<or> 2000 < rune_count (trim_space (pi_content input)))"
      "normalizeCampusPostMedia mt images cover0 = Inr (mediaType, cover)" "images = sanitizeImages xs 9"
      "choose_route E op title content w = (Inr (m, ro), w')" for cat mediaType images cover op ro i mt cover0 xs title content w m w'
  proof -
    have "typed_edit (new_post input cat (post_images mediaType images) mediaType cover op ro i)"
      using that(1-4) route_status [OF that(5)] sanitizeImages_length [of 9 xs]
      by (intro new_post_edit [where mt = mt]) (auto simp: status_members)
    moreover have "ro_status ro \<noteq> CampusAuditStatusDeleted" using route_status [OF that(5)] by (auto simp: audit_status_defs)
    ultimately show ?thesis by (intro CreatePost_row_typed) (simp_all add: new_post_def)
  qed
  show ?thesis
    unfolding CreatePost_uc_def Let_def
    by (intro typing typed_bind_value [OF route_typed(1)] route_typed(2) row; assumption?; simp)
qed


lemma edited_post_typed:
  assumes "typed_edit existing" and "normalizeCampusPostMedia mt (sanitizeImages xs 9) cover0 = Inr (mediaType, cover)"
    and "\<not> (rune_count title < 2 \<or> 60 < rune_count title)" and "\<not> (rune_count content < 2 \<or> 2000 < rune_count content)"
  shows "typed_edit (edited_post input existing cat title content (post_images mediaType (sanitizeImages xs 9)) mediaType cover)"
proof -
  have "edited_status (yi_status input) existing \<in> audit_statuses"
    using assms(1) by (auto simp: edited_status_def typed_edit_def audit_statuses_def audit_status_defs)
  then show ?thesis
    using assms sanitizeImages_length [of 9 xs]
    by (auto simp: typed_edit_def edited_post_def post_images_def normalizeCampusPostMedia_def clampSortWeight_def Let_def
        split: if_splits list.splits)
qed

lemma AdminUpdatePost_typed: "typed (AdminUpdatePost E input)"
  unfolding AdminUpdatePost_def Let_def
  by (rule login_typed(2), rule typed_bind_read, simp add: typing, unfold option.case, intro typing, hypsubst,
      rule edited_post_typed, assumption+)

lemma batch_edit_typed:
  assumes "batch_edit action weight p = Some q" and p: "typed_edit p"
  shows "typed_edit q"
proof -
  have "q \<in> {p\<lparr>bp_is_pinned := True\<rparr>, p\<lparr>bp_is_pinned := False\<rparr>, p\<lparr>bp_is_featured := True\<rparr>, p\<lparr>bp_is_featured := False\<rparr>,
      p\<lparr>bp_is_official := True\<rparr>, p\<lparr>bp_is_official := False\<rparr>, p\<lparr>bp_status := CampusAuditStatusVisible, bp_audit_reason := []\<rparr>,
      p\<lparr>bp_status := CampusAuditStatusDeleted, bp_audit_reason := msg_batch_taken_down\<rparr>,
      p\<lparr>bp_sort_weight := clampSortWeight weight\<rparr>}"
    using assms(1) unfolding batch_edit_def by (simp only: option.inject option.distinct insert_iff split: if_split_asm) simp_all
  with p show ?thesis by (elim insertE; simp add: typed_edit_def status_members clampSortWeight_def)
qed

lemma batch_posts_typed: "typed (batch_posts E action weight updated is)"
proof (induction "is" arbitrary: updated)
  case (Cons i "is")
  show ?case unfolding batch_posts.simps
    by (rule typed_bind_read, simp add: Cons.IH, unfold option.case)
      (intro typing Cons.IH; rule batch_edit_typed; assumption)
qed (simp add: typing)

lemma stats_typed: "typed (ReconcileCampusStats E)"
  unfolding ReconcileCampusStats_def
  by (intro typing typed_keeps [OF keeps_basic(5)])
    (auto simp: preserves_def typed_post_def typed_comment_def active_count_def real_comments_def real_replies_def)

lemma operator_handlers_typed:
  "typed (AdminBatchPosts E batch)" "typed (AdminCreatePost E X new)" "typed (AdminReconcileCampusStats E u)"
  "typed (RunCampusStatsReconcile E)" "typed (AdminDeletePost E u i)" "typed (AdminDeleteComment E u i)"
  unfolding AdminBatchPosts_def AdminCreatePost_def AdminReconcileCampusStats_def RunCampusStatsReconcile_def
    AdminDeletePost_def AdminDeleteComment_def Let_def
  by (intro typing batch_posts_typed CreatePost_uc_typed stats_typed)+

lemma review_status_members: "review_status a = Some st \<Longrightarrow> st \<in> audit_statuses"
  by (auto simp: review_status_def status_members split: if_splits)

lemma ReviewContent_typed: "typed (ReviewContent E input)"
  unfolding ReviewContent_def review_post_def review_comment_def Let_def
  by (intro typing; erule review_status_members)

subsection \<open>Reports and feedback\<close>

lemma report_updates_typed [typing]:
  "st \<in> {0, 1, 2} \<Longrightarrow> typed (UpdateReportStatus E i st)" "st \<in> {0, 1, 2} \<Longrightarrow> typed (UpdateReportsStatusByTarget E ty i st)"
  unfolding UpdateReportStatus_def UpdateReportsStatusByTarget_def
  by (intro typing; auto simp: preserves_def typed_report_def set_report_status_def)+

lemma report_reads_typed [typing]: "typed (GetReportByID X i)" "typed (ListReportsByTarget X ty i n)" "typed (report_target E ty i)"
  unfolding report_target_def by (intro typed_keeps frames)+

lemma report_review_members: "report_review_status a = Some st \<Longrightarrow> st \<in> {0, 1, 2}"
  by (auto simp: report_review_status_def split: if_splits)

lemma AdminReviewReport_typed: "typed (AdminReviewReport E X input)"
  unfolding AdminReviewReport_def by (intro typing; erule report_review_members)

lemma notify_reporters_typed [typing]: "typed (notify_reporters E n rs)"
  by (intro typed_keeps frames; simp)

lemma handled_typed: "st \<in> {0, 1, 2} \<Longrightarrow> typed (markReportsHandledByTarget E X ty i st)"
  unfolding markReportsHandledByTarget_def by (intro typing)

definition mod_apart :: "'x mod_ext_scheme \<Rightarrow> bool" where
  "mod_apart X \<longleftrightarrow> (\<forall>u. keeps (\<lambda>t. t) (load_author X u)) \<and> (\<forall>ty i a m. keeps (\<lambda>t. t) (send_receipt X ty i a m))"

lemma finish_typed: "mod_apart X \<Longrightarrow> typed (finish_card E X ty i a answer)"
  by (intro typed_keeps finish_card_frames) (auto simp: mod_apart_def intro: keeps_all)

lemma card_typed: "typed (card_action E X ty i action reason)"
  unfolding card_action_def card_post_action_def card_comment_action_def Let_def
  by (intro typing handled_typed; simp add: status_members; simp add: audit_status_defs)

lemma HandleFeishuCardAction_typed:
  assumes "mod_apart X"
  shows "typed (HandleFeishuCardAction E X input)"
proof -
  have use: "typed (UseOpsActionToken h n)" for h n by (intro typed_keeps frames; simp)
  show ?thesis unfolding HandleFeishuCardAction_def Let_def
    by (intro typing use card_typed finish_typed assms)
qed


lemma ReportContent_typed:
  assumes "mod_apart X"
  shows "typed (ReportContent E X input)"
proof -
  have alert: "typed (alert_report E X input ty report)" for ty report
    unfolding alert_report_def Let_def
    by (intro typed_keeps frames; (simp add: mod_apart_def)?; use assms in \<open>auto simp: mod_apart_def intro: keeps_all\<close>)
  have row: "typed (CreateReport E (new_report input ty reason detail post comment i))"
    if "normalizeCampusTargetType (ri_target_type input) = ty" "\<not> ty = []" "\<not> ri_target_id input \<le> 0"
      "\<not> 60 < rune_count reason" "\<not> 300 < rune_count detail" for ty reason detail post comment i
  proof -
    have "ty \<in> {''post'', ''comment''}" using that(1,2) by (auto simp: normalizeCampusTargetType_def Let_def split: if_splits)
    with that show ?thesis unfolding CreateReport_def
      by (intro typing) (auto simp: typed_report_def new_report_def preserves_def audit_status_defs)
  qed
  show ?thesis
    unfolding ReportContent_def submit_report_def Let_def
    by (intro typing alert row) (assumption | rule refl)+
qed

lemma feedback_typed: "typed (CreateFeedback E input)" "typed (AdminReviewFeedback E review)"
proof -
  have side: "typed (enqueueFeedbackOpsAlert E f)" "typed (trackEvent E ev)" for f ev by (intro typed_keeps frames; simp)+
  show "typed (CreateFeedback E input)"
    unfolding CreateFeedback_def CreateFeedback_repo_def Let_def
    by (intro typing side) (use sanitizeImages_length [of 3 "xi_images input"] in \<open>auto simp: typed_feedback_def rune_count_def runes_def segs.simps\<close>)
  show "typed (AdminReviewFeedback E review)"
    unfolding AdminReviewFeedback_def UpdateFeedbackStatus_def Let_def
    by (intro typing) (auto simp: preserves_def typed_feedback_def)
qed

subsection \<open>The workers\<close>

definition audit_apart :: "'x audit_ext_scheme \<Rightarrow> bool" where
  "audit_apart X \<longleftrightarrow> (\<forall>doc. keeps (\<lambda>t. t) (post_audit X doc))"

lemma audit_side_typed [typing]:
  "typed (MarkAIContentAuditTaskDone E i d l r raw)" "typed (MarkAIContentAuditTaskRetry E i n nx err fin)"
  "typed (enqueueAuditOpsAlert E X post k l r ev)" "typed (record_audit_usage E post res)" "typed (read_threshold E rule res)"
  "typed (classifyCampusPostByRules E title content)" "typed (agent_available E)" "typed (aiBudgetAllowsModel E)"
  unfolding record_audit_usage_def MarkAIContentAuditTaskRetry_def Let_def by (intro typed_keeps frames; simp)+

lemma audit_task_typed:
  assumes "audit_apart X"
  shows "typed (processAIContentAuditTask E X k)"
proof -
  have ask: "typed (auditPostWithAI E X post)" for post
    by (intro typed_keeps frames) (use assms in \<open>auto simp: audit_apart_def intro: keeps_all\<close>)
  show ?thesis
    unfolding processAIContentAuditTask_def audit_pending_post_def audit_without_agent_def audit_agent_failed_def
      audit_with_answer_def apply_outcome_def passPostByRuleFallback_def Let_def
    by (intro typing ask; simp add: status_members)
qed

lemma process_audits_typed: "audit_apart X \<Longrightarrow> typed (process_audits E X ks err)"
proof (induction ks arbitrary: err)
  case (Cons k ks)
  then show ?case
    unfolding process_audits.simps markAIContentAuditTaskRetry_def
    by (intro typing audit_task_typed) (simp_all add: status_members)
qed (simp add: typing)

lemma audits_typed: "audit_apart X \<Longrightarrow> typed (ProcessPendingAIContentAuditTasks E X limit)"
proof -
  have claim: "typed (ClaimAIContentAuditTasks E n lock)" for n lock
    unfolding ClaimAIContentAuditTasks_def claim_def Let_def by (intro typed_keeps frames) simp
  assume "audit_apart X"
  then show ?thesis unfolding ProcessPendingAIContentAuditTasks_def by (intro typing claim process_audits_typed)
qed

lemma reply_answer_typed: "ai_apart X \<Longrightarrow> typed (reply_answer E X k p t)"
  unfolding reply_answer_def by (intro typed_keeps frames generate_frames) simp_all

lemma post_reply_typed: "ai_apart X \<Longrightarrow> typed (post_reply E X k p t)"
proof -
  assume X: "ai_apart X"
  have post: "typed_draft (reply_comment E k t answer)" if "reply_answer E X k p t w = (Inr answer, w')" for answer w w'
    using reply_answer_bound [OF that] by (simp add: typed_draft_def reply_comment_def status_members)
  have mark: "typed (MarkAIReplyTaskDone E i a)" for i a by (intro typed_keeps frames) simp
  show ?thesis unfolding post_reply_def
    by (intro typed_bind_value [OF reply_answer_typed [OF X]] typing mark post; assumption)
qed

lemma reply_task_typed:
  assumes "ai_apart X"
  shows "typed (processAIReplyTask E X k)"
proof -
  have side: "typed (CountAIRepliesToday E X b)" "typed (notifyEzaiHandoff E q t a c m)" "typed (MarkAIReplyTaskRetry E i n nx err fin)"
    "typed (MarkAIReplyTaskDone E i j)" for b q t a c m i n nx err fin j
    by (intro typed_keeps frames; simp)+
  show ?thesis unfolding processAIReplyTask_def by (intro typing side post_reply_typed assms)
qed

lemma reply_items_typed: "ai_apart X \<Longrightarrow> typed (reply_items E X ks)"
proof (induction ks)
  case (Cons k ks)
  have "typed (markAIReplyTaskRetry E k e)" for e by (intro typed_keeps frames) simp_all
  with Cons show ?case unfolding reply_items.simps by (intro typing reply_task_typed)
qed (simp add: typing)

lemma replies_typed:
  assumes "ai_apart X"
  shows "typed (ProcessPendingAIReplyTasks E X limit)"
proof -
  have side: "typed (ezaiAutoReplyEffective E)" "typed (ezaiAutoReplyEnabled E)" "typed (claim_replies E limit)"
    "typed (handoffPendingAIReplyTasks E limit reason)" for reason
    unfolding ezaiAutoReplyEffective_def io_and_def handoffPendingAIReplyTasks_def
    by (intro typed_keeps frames claim_frames handoff_items_frames; simp)+
  show ?thesis unfolding ProcessPendingAIReplyTasks_def io_and_def
    by (intro typing side reply_items_typed assms)
qed

lemma moderate_reply_typed: "typed (AdminModerateAIReply E u i a)"
proof -
  have "typed (GetAIReplyTaskByID j)" "typed (AttachAIReplyTaskDetails ks)" for j ks
    unfolding GetAIReplyTaskByID_def AttachAIReplyTaskDetails_def Let_def sql_query_def
    by (intro typed_keeps frames keeps_command; simp)+
  then show ?thesis unfolding AdminModerateAIReply_def Let_def by (intro typing)
qed


subsection \<open>Any calls\<close>

text \<open>The requests of users and operators and the runs of the workers that write the four tables.\<close>

datatype table_call =
    PublishPost CreateCampusPostInput | WithdrawPost string int
  | WriteComment CreateCampusCommentInput | WithdrawComment string int
  | Like string int | Unlike string int | Collect string int | Uncollect string int
  | LikeReply string int | UnlikeReply string int
  | Report ReportCampusContentInput | GiveFeedback CreateCampusFeedbackInput
  | Review ReviewCampusContentInput | ReviewReport ReviewCampusReportInput | ReviewFeedback ReviewCampusFeedbackInput
  | CardAction HandleFeishuCardActionInput
  | EditPost UpdateCampusAdminPostInput | EditPosts BatchCampusAdminPostsInput | PublishOfficial CreateCampusPostInput
  | TakeDownPost string int | TakeDownComment string int | ModerateReply string int string
  | Reconcile string | ReconcileTimer | AuditWorker int | ReplyWorker int

definition discard :: "'a io \<Rightarrow> unit io" where
  "discard m = io_bind m (\<lambda>_. ret ())"

fun run_call :: "'x mod_ext_scheme \<Rightarrow> 'y audit_ext_scheme \<Rightarrow> 'z ai_ext_scheme \<Rightarrow> env \<Rightarrow> table_call \<Rightarrow> unit io" where
  "run_call X Y Z E (PublishPost input) = discard (CreatePost_uc E X input)"
| "run_call X Y Z E (WithdrawPost u i) = DeletePost_uc E u i"
| "run_call X Y Z E (WriteComment input) = discard (CreateComment E input)"
| "run_call X Y Z E (WithdrawComment u i) = DeleteComment E u i"
| "run_call X Y Z E (Like u i) = LikePost E u i"
| "run_call X Y Z E (Unlike u i) = UnlikePost E u i"
| "run_call X Y Z E (Collect u i) = CollectPost E u i"
| "run_call X Y Z E (Uncollect u i) = UncollectPost E u i"
| "run_call X Y Z E (LikeReply u i) = LikeComment E u i"
| "run_call X Y Z E (UnlikeReply u i) = UnlikeComment E u i"
| "run_call X Y Z E (Report input) = ReportContent E X input"
| "run_call X Y Z E (GiveFeedback input) = discard (CreateFeedback E input)"
| "run_call X Y Z E (Review input) = ReviewContent E input"
| "run_call X Y Z E (ReviewReport input) = AdminReviewReport E X input"
| "run_call X Y Z E (ReviewFeedback input) = AdminReviewFeedback E input"
| "run_call X Y Z E (CardAction input) = discard (HandleFeishuCardAction E X input)"
| "run_call X Y Z E (EditPost input) = discard (AdminUpdatePost E input)"
| "run_call X Y Z E (EditPosts input) = discard (AdminBatchPosts E input)"
| "run_call X Y Z E (PublishOfficial input) = discard (AdminCreatePost E X input)"
| "run_call X Y Z E (TakeDownPost u i) = AdminDeletePost E u i"
| "run_call X Y Z E (TakeDownComment u i) = AdminDeleteComment E u i"
| "run_call X Y Z E (ModerateReply u i a) = AdminModerateAIReply E u i a"
| "run_call X Y Z E (Reconcile u) = discard (AdminReconcileCampusStats E u)"
| "run_call X Y Z E ReconcileTimer = discard (RunCampusStatsReconcile E)"
| "run_call X Y Z E (AuditWorker n) = ProcessPendingAIContentAuditTasks E Y n"
| "run_call X Y Z E (ReplyWorker n) = ProcessPendingAIReplyTasks E Z n"

fun run_calls :: "'x mod_ext_scheme \<Rightarrow> 'y audit_ext_scheme \<Rightarrow> 'z ai_ext_scheme \<Rightarrow> (env \<times> table_call) list \<Rightarrow> unit io" where
  "run_calls X Y Z [] = ret ()"
| "run_calls X Y Z ((E, c) # cs) = io_then (ignore (run_call X Y Z E c)) (run_calls X Y Z cs)"

lemma discard_typed [typing]: "typed m \<Longrightarrow> typed (discard m)"
  unfolding discard_def by (intro typing)

lemma run_call_typed:
  assumes "mod_apart X" "audit_apart Y" "ai_apart Z"
  shows "typed (run_call X Y Z E c)"
  by (cases c; simp only: run_call.simps)
    (intro discard_typed CreatePost_uc_typed CreateComment_handler_typed user_handlers_typed operator_handlers_typed
      ReportContent_typed feedback_typed ReviewContent_typed AdminReviewReport_typed HandleFeishuCardAction_typed
      AdminUpdatePost_typed moderate_reply_typed audits_typed replies_typed assms)+

text \<open>
  C40. Every row of posts, comments, reports and feedback is well typed and stays so: a status is one
  of the four (three) known ones, a post is marked as withdrawn exactly when its status says so,
  titles, bodies, reasons and notes have their lengths, a post has pictures exactly when it is a
  picture post and at most nine of them, a weight is between 0 and 10000 and no counter is negative.
  This holds after any calls of users, operators and workers, whatever fails, and needs no check in
  the database. (The services that are asked on the way do not write to the tables.)
\<close>

theorem rows_stay_well_typed:
  assumes "run_calls X Y Z calls w = (r, w')" and "mod_apart X" "audit_apart Y" "ai_apart Z" and "well_typed (db w)"
  shows "well_typed (db w')"
proof -
  have "typed (run_calls X Y Z calls)"
  proof (induction calls)
    case (Cons c calls)
    then show ?case by (cases c) (simp add: typed_then typed_wrap(3) run_call_typed [OF assms(2-4)])
  qed (unfold run_calls.simps, rule typing)
  from typedD [OF this assms(1,5)] show ?thesis .
qed

theorem rows_stay_well_typed_witness:
  "\<forall>Z. well_typed (db (snd (run_calls card_sample audit_sample (sample_services Z)
     [(forum_env, PublishPost sample_input), (forum_env, ReplyWorker 20)] board_world)))"
proof
  fix Z
  have "mod_apart card_sample" "audit_apart audit_sample" "ai_apart (sample_services Z)"
    by (simp_all add: mod_apart_def audit_apart_def ai_apart_def card_sample_def audit_sample_def sample_services_def
        noopCampusRAGClient_def keeps_def ret_def)
  moreover have "well_typed (db board_world)"
    by (simp add: well_typed_def board_world_def empty_world_def empty_tables_def)
  ultimately show "well_typed (db (snd (run_calls card_sample audit_sample (sample_services Z)
     [(forum_env, PublishPost sample_input), (forum_env, ReplyWorker 20)] board_world)))"
    by (rule rows_stay_well_typed [OF surjective_pairing])
qed

end
