(* ===== verification/Spec2Isabelle.thy ===== *)
theory Spec2Isabelle
  imports RateLimit Notifications TypedTables
begin

text \<open>
  The campus backend: a forum of a university with a bot that answers in the comments, an agent
  that audits posts, a back office for the operators and workers that run in the background.

  \<^bold>\<open>The parts.\<close> All of it is \<open>src/app/campusApi/service/internal\<close>: \<open>biz/campus.go\<close> holds the
  use cases (a handler per request, a \<open>Process...\<close> function per worker), \<open>data/campus.go\<close> the
  repository (MySQL through an ORM) and \<open>data/campus_cache.go\<close> the cache (Redis). The other files
  modelled are \<open>biz/campus_batch_processor.go\<close>, \<open>biz/campus_assembler.go\<close>,
  \<open>biz/campus_recommend_pool.go\<close>, \<open>biz/campus_rag.go\<close>, \<open>src/pkg/apperror\<close> and \<open>src/pkg/auth/jwt.go\<close>.
  A request passes the gate (\<open>CheckCampusRequest\<close>), runs one handler and is logged. A handler checks
  its input with the normalisers, asks who the caller is, reads and writes rows, invalidates caches
  and may leave work in a queue: a notification in the outbox, a task for the bot, an audit of a
  post, an alert to the operators. A worker claims due tasks of its queue for a bounded time,
  processes them one by one and marks each done or to be retried.

  \<^bold>\<open>The theories\<close>, in the order of the imports. Names are those of the source; where two functions
  of the two layers have one name the repository's has the suffix \<open>_repo\<close> (or \<open>_db\<close>, \<open>_rows\<close> for a
  part of it) and the handler's has \<open>_uc\<close>.
  \<^item> \<open>Prelude\<close>: tables as lists of rows, with the laws of update, count and search.
  \<^item> \<open>GoStrings\<close>, \<open>GoFloat\<close>: what the code uses of Go's strings (bytes, UTF-8, \<open>strings\<close>,
    \<open>strconv\<close>) and of \<open>float64\<close>. \<open>Messages\<close>: the literals that are not ASCII.
  \<^item> \<open>AppError\<close>: \<open>pkg/apperror\<close> and Go's error values.
  \<^item> \<open>Batches\<close>: the batch processor, its transition system and its two laws.
  \<^item> \<open>Store\<close>: the state, its rows, the commands to the database and to the cache, the transaction.
  \<^item> \<open>Normalize\<close>: the normalisers. \<open>Cache\<close>: the cache of post details and the version counters.
  \<^item> \<open>Access\<close>: administrators, operators and the settings. \<open>RateLimit\<close>: the gate.
  \<^item> \<open>Outbox\<close>, \<open>TaskQueue\<close>, \<open>Notifications\<close>: entries of the outbox, the four queues with their
    leases and retries, and the worker that delivers.
  \<^item> \<open>Telemetry\<close>: tracked events and access logs, on two batch processors.
  \<^item> \<open>Interactions\<close>, \<open>PostRepo\<close>, \<open>CommentRepo\<close>: the rows of likes, collections, posts and comments
    with all counters and their reconciliation.
  \<^item> \<open>Ezai\<close>, \<open>AiReply\<close>: the bot: who asks it, what it is asked, and how it answers.
  \<^item> \<open>Forum\<close>: what users do with posts and comments.
  \<^item> \<open>OpsAlerts\<close>, \<open>AiBudget\<close>: alerts with their one-time tokens; the budget of the models.
  \<^item> \<open>PostAudit\<close>, \<open>Moderation\<close>, \<open>PostAdmin\<close>: publishing and the audit, reports and decisions, the
    operators' changes to posts.
  \<^item> \<open>Accounts\<close>: logins, profiles, timetables, uploads. \<open>Feeds\<close>: every list.
  \<^item> \<open>Knowledge\<close>: the knowledge base, its index and its evaluation.
  \<^item> \<open>TypedTables\<close>: the types of the rows, kept by everything that writes them.

  \<^bold>\<open>State and operations.\<close> The state \<open>store\<close> has the tables (a list of row records each), the cache,
  the batches, the clock, the environment and the identifiers still to be given out. An operation
  is an \<open>'a io\<close>: from a state to an error or a value and a state. A statement of SQL is one
  command on the list of its table. Every command takes a bit off the list \<open>faults\<close> and fails when
  it is set, so a statement over all states covers every pattern of failing commands; a transaction
  restores the tables when its body or its commit fails. The queues are claimed by transactions
  that lock rows; several workers are interleavings of whole transactions.

  \<^bold>\<open>What the lemmas show.\<close>
  \<^item> Frames (\<open>keeps\<close>, \<open>no_ids\<close>, \<open>no_fail\<close>, \<open>all_or_nothing\<close>, \<open>typed\<close>): judgements on computations,
    closed under sequencing and branching, so that a handler gets them from its parts.
  \<^item> Interfaces as locales, each interpreted on the code's own operations: \<open>counted_relation\<close> (three
    relations with a counter refine sets), \<open>task_queue\<close> and \<open>retry_policy\<close> (four queues, four
    backoffs), \<open>row_sink\<close> (two tables behind batch processors).
  \<^item> Per component: invariants of the tables and counters, what each operation leaves behind on
    success and on failure, who may cause it, and termination and bounds of loops and retries.
  \<^item> Lemmas that are not properties but show where the code does not do what it means to; the
    manifest lists them as findings.

  \<^bold>\<open>Bounds.\<close> Every loop of the model is structural or has a termination proof; there is no fuel
  except in \<open>duration_items\<close>, where each turn consumes a byte and the fuel is the length. Integers
  that the code keeps in \<open>int32\<close> wrap where it calculates with them (the offset of a page, a count
  turned into an \<open>int32\<close>); identifiers and sums in \<open>int64\<close> are unbounded. Doubles are rationals
  rounded to 53 bits after each operation.

  \<^bold>\<open>Decisions.\<close> A time is an integer of nanoseconds, its zero value is 0, a day has 24 hours; an
  operation reads the clock once (except where it takes a fresh identifier of it). A JSON column
  holds the value that is encoded in it. Logging is left out. A nil pointer that would be
  dereferenced is an error value; nil elements of slices are not represented. A Go map is an
  association list in the order of its iteration. The environment is read where the code read it at
  its start. \<open>ToLower\<close> covers the scripts named in \<open>GoStrings\<close>. The database compares by bytes; its
  collation is a parameter of the search by keywords only.

  \<^bold>\<open>Not modelled.\<close> What other programs answer is a parameter of the definitions that ask them:
  the account, user and file services, WeChat, the chat service, the retrieval service, the audit
  agent, the chat of the operators, SHA-256 and signatures, random bytes. The layer
  \<open>service/campusservice.go\<close> copies fields between generated messages and the records of \<open>biz\<close>; the
  servers, the wiring, logging and generated code carry no logic of their own.
  The statistics of the back office, the scan of the service levels, the runs of the operations
  agent and the moments (a poster per day) are left out, and so are the services \<open>app/base\<close> and
  \<open>app/campusUser\<close>, which are parameters here.
\<close>

end
